(* ===== verification/FwPrelude.thy ===== *)
theory FwPrelude
  imports Main "HOL-Library.Word" "HOL-Library.Signed_Division" "HOL-Library.Monad_Syntax"
begin

text \<open>
  Shared vocabulary of the development: the C integer conversions the firmware relies on,
  the C string functions it calls (\<open>os_strlen\<close>, \<open>os_strstr\<close>, \<open>atoi\<close>), the software timers
  of the SDK as far as a call arms or disarms them, and generic lemmas on lists and options.

  Conventions.  A value of type \<open>'a option\<close> that models the run of a C function is \<open>None\<close>
  when the C program has no defined result there: an out-of-bounds access, a null
  dereference, the use of an uninitialised local, or a loop that never ends.  Unsigned
  fields that are only computed with in arithmetic are \<open>nat\<close> with the conversion of every
  assignment written out (\<open>to_u8\<close>, \<open>to_u16\<close>, \<open>to_u32\<close>); raw bytes, check sums and hashes
  are machine words.  A C string is the list of its characters before the terminator.
\<close>

unbundle bit_operations_syntax

named_theorems c_conv \<open>conversions between C integer types\<close>
named_theorems c_str \<open>facts on C string functions\<close>
named_theorems fw_inv \<open>invariants that operations preserve\<close>

subsection \<open>Types\<close>

type_synonym u8 = "8 word"
type_synonym u32 = "32 word"
type_synonym bytes = "u8 list"

text \<open>An SDK software timer as its last \<open>os_timer_arm\<close> or \<open>os_timer_disarm\<close> left it.\<close>

datatype os_timer = Disarmed | Armed (timer_ms: nat) (timer_repeat: bool)

subsection \<open>Integer conversions\<close>

definition to_u8 :: "int \<Rightarrow> nat" where
  "to_u8 i = nat (i mod 256)"

definition to_u16 :: "int \<Rightarrow> nat" where
  "to_u16 i = nat (i mod 65536)"

definition to_u32 :: "int \<Rightarrow> nat" where
  "to_u32 i = nat (i mod 4294967296)"

definition to_s8 :: "int \<Rightarrow> int" where
  "to_s8 i = (i + 128) mod 256 - 128"

definition to_s16 :: "int \<Rightarrow> int" where
  "to_s16 i = (i + 32768) mod 65536 - 32768"

definition to_s32 :: "int \<Rightarrow> int" where
  "to_s32 i = (i + 2147483648) mod 4294967296 - 2147483648"

lemma to_u8_less [c_conv, simp]: "to_u8 i < 256"
  by (simp add: to_u8_def nat_less_iff)

lemma to_u16_less [c_conv, simp]: "to_u16 i < 65536"
  by (simp add: to_u16_def nat_less_iff)

lemma to_u32_less [c_conv, simp]: "to_u32 i < 4294967296"
  by (simp add: to_u32_def nat_less_iff)

lemma to_u8_int [c_conv]: "to_u8 (int n) = n mod 256"
  by (simp add: to_u8_def nat_mod_distrib)

lemma to_u16_int [c_conv]: "to_u16 (int n) = n mod 65536"
  by (simp add: to_u16_def nat_mod_distrib)

lemma to_u32_int [c_conv]: "to_u32 (int n) = n mod 4294967296"
  by (simp add: to_u32_def nat_mod_distrib)

lemma to_u8_add [c_conv]: "to_u8 (int a + int b) = (a + b) mod 256"
  by (simp only: to_u8_int flip: of_nat_add)

lemma to_u8_add1 [c_conv]: "to_u8 (int a + 1) = Suc a mod 256"
  using to_u8_add [of a 1] by simp

lemma to_u16_add1 [c_conv]: "to_u16 (int a + 1) = Suc a mod 65536"
  using to_u16_int [of "Suc a"] by (simp add: add.commute)

lemma to_u32_add1 [c_conv]: "to_u32 (int a + 1) = Suc a mod 4294967296"
  using to_u32_int [of "Suc a"] by (simp add: add.commute)

lemma to_u32_add [c_conv]: "to_u32 (int a + int b) = (a + b) mod 4294967296"
  by (simp only: to_u32_int flip: of_nat_add)

lemma to_u8_small: "n < 256 \<Longrightarrow> to_u8 (int n) = n"
  by (simp add: to_u8_int)

lemma to_u16_small: "n < 65536 \<Longrightarrow> to_u16 (int n) = n"
  by (simp add: to_u16_int)

lemma to_u16_diff: "b \<le> a \<Longrightarrow> a < 65536 \<Longrightarrow> to_u16 (int a - int b) = a - b"
  using to_u16_small [of "a - b"] by (simp add: of_nat_diff)

lemma to_u32_small: "n < 4294967296 \<Longrightarrow> to_u32 (int n) = n"
  by (simp add: to_u32_int)

lemma to_u32_diff: "b \<le> a \<Longrightarrow> a < 4294967296 \<Longrightarrow> to_u32 (int a - int b) = a - b"
  using to_u32_small [of "a - b"] by (simp add: of_nat_diff)

lemma to_s8_small: "-128 \<le> i \<Longrightarrow> i < 128 \<Longrightarrow> to_s8 i = i"
  by (simp add: to_s8_def)

lemma to_s16_small: "-32768 \<le> i \<Longrightarrow> i < 32768 \<Longrightarrow> to_s16 i = i"
  by (simp add: to_s16_def)

text \<open>Truncating division and remainder, as in C.\<close>

lemma smod_nonneg [c_conv]: "0 \<le> (x::int) \<Longrightarrow> 0 < b \<Longrightarrow> x smod b = x mod b"
  by (cases "x = 0") (auto simp: signed_modulo_int_def)

lemma sdiv_nonneg [c_conv]: "0 \<le> (x::int) \<Longrightarrow> 0 < b \<Longrightarrow> x sdiv b = x div b"
  by (cases "x = 0") (auto simp: signed_divide_int_def)

lemma smod_shift [c_conv]:
  assumes "0 < (b::int)"
  shows "(x smod b + b) smod b = x mod b"
proof -
  have "x smod b = x - x sdiv b * b" by (simp add: minus_sdiv_mult_eq_smod)
  moreover have "- b < x smod b"
    using assms smod_int_compares(2) [of x b] smod_int_compares(3) [of x b] by linarith
  ultimately have "(x smod b + b) smod b = (x - x sdiv b * b + b) mod b"
    using assms by (simp add: smod_nonneg)
  also have "x - x sdiv b * b + b = x + b * (1 - x sdiv b)" by (simp add: algebra_simps)
  finally show ?thesis by simp
qed

lemma div_mod_once:
  fixes x n :: nat
  assumes "\<not> x < n" and "x < 2 * n"
  shows "x div n = 1" and "x mod n = x - n"
  using assms by (simp_all add: le_div_geq le_mod_geq)

lemma mod_once:
  fixes x n :: nat
  assumes "x < 2 * n"
  shows "x mod n = (if x < n then x else x - n)"
  using assms by (simp add: le_mod_geq)

lemma div_step:
  fixes y n k :: nat
  assumes "Suc k = n"
  shows "(Suc y + k) div n = (y + k) div n + (if n dvd y then 1 else 0)"
proof -
  have n: "0 < n" and "Suc y + k = y + n" using assms by simp_all
  then have a: "(Suc y + k) div n = Suc (y div n)" by (simp only:) (simp add: div_add_self2)
  show ?thesis
  proof (cases "n dvd y")
    case True
    then obtain c where c: "y = c * n" by (metis dvd_div_mult_self)
    then have "(y + k) div n = c" using assms by (simp add: div_mult_self3)
    then show ?thesis using a True assms c by auto
  next
    case False
    then have r: "0 < y mod n" by (simp add: dvd_eq_mod_eq_0)
    have "y = y div n * n + y mod n" by simp
    then have "y + k = Suc (y div n) * n + (y mod n - 1)"
      unfolding mult_Suc using r assms by linarith
    moreover have "y mod n - 1 < n" using assms by (metis less_imp_diff_less mod_less_divisor zero_less_Suc)
    ultimately have "(y + k) div n = Suc (y div n)"
      by (intro div_nat_eqI) (simp_all add: algebra_simps)
    then show ?thesis using a False by simp
  qed
qed

subsection \<open>Characters and \<open>atoi\<close>\<close>

definition c_isspace :: "char \<Rightarrow> bool" where
  "c_isspace c \<longleftrightarrow> of_char c = (32::nat) \<or> (9 \<le> (of_char c :: nat) \<and> (of_char c :: nat) \<le> 13)"

definition c_isdigit :: "char \<Rightarrow> bool" where
  "c_isdigit c \<longleftrightarrow> 48 \<le> (of_char c :: nat) \<and> (of_char c :: nat) \<le> 57"

definition digit_val :: "char \<Rightarrow> int" where
  "digit_val c = int (of_char c) - 48"

fun digits_val :: "int \<Rightarrow> string \<Rightarrow> int" where
  "digits_val acc [] = acc"
| "digits_val acc (c # cs) =
     (if c_isdigit c then digits_val (10 * acc + digit_val c) cs else acc)"

definition atoi_val :: "string \<Rightarrow> int" where
  "atoi_val s =
     (case dropWhile c_isspace s of
        [] \<Rightarrow> 0
      | c # cs \<Rightarrow>
          if c = CHR ''-'' then - digits_val 0 cs
          else if c = CHR ''+'' then digits_val 0 cs
          else digits_val 0 (c # cs))"

text \<open>The value of \<open>atoi\<close> is only defined where it fits an \<open>int\<close>.\<close>

definition atoi :: "string \<Rightarrow> int option" where
  "atoi s = (let v = atoi_val s in if -2147483648 \<le> v \<and> v \<le> 2147483647 then Some v else None)"

definition digit_chr :: "nat \<Rightarrow> char" where
  "digit_chr d = char_of (48 + d)"

lemma of_char_digit_chr: "d < 10 \<Longrightarrow> (of_char (digit_chr d) :: nat) = 48 + d"
  by (simp add: digit_chr_def)

lemma c_isdigit_digit_chr [c_str]: "d < 10 \<Longrightarrow> c_isdigit (digit_chr d)"
  by (simp add: c_isdigit_def of_char_digit_chr)

lemma not_space_digit_chr [c_str]: "d < 10 \<Longrightarrow> \<not> c_isspace (digit_chr d)"
  by (simp add: c_isspace_def of_char_digit_chr)

lemma digit_val_digit_chr [c_str]: "d < 10 \<Longrightarrow> digit_val (digit_chr d) = int d"
  by (simp add: digit_val_def of_char_digit_chr)

lemma digit_chr_neq [c_str]:
  assumes "d < 10" and "of_char c < (48::nat) \<or> 57 < (of_char c :: nat)"
  shows "digit_chr d \<noteq> c" and "c \<noteq> digit_chr d"
  using assms of_char_digit_chr [of d] by auto

subsection \<open>Strings and bytes\<close>

text \<open>The bytes of a string literal, and the string that starts at the head of a byte array.\<close>

definition bytes_of :: "string \<Rightarrow> bytes" where
  "bytes_of s = map (\<lambda>c. word_of_nat (of_char c)) s"

definition str_of :: "bytes \<Rightarrow> string" where
  "str_of bs = map (\<lambda>b. char_of (unat b)) (takeWhile (\<lambda>b. b \<noteq> 0) bs)"

subsection \<open>Searching a C string\<close>

text \<open>\<open>os_strstr\<close>: the index of the first occurrence, \<open>None\<close> for the null pointer.\<close>

fun c_strstr :: "'a list \<Rightarrow> 'a list \<Rightarrow> nat option" where
  "c_strstr [] needle = (if needle = [] then Some 0 else None)"
| "c_strstr (x # xs) needle =
     (if take (length needle) (x # xs) = needle then Some 0
      else map_option Suc (c_strstr xs needle))"

lemma c_strstr_bound: "c_strstr s t = Some i \<Longrightarrow> i + length t \<le> length s"
proof (induction s arbitrary: i)
  case Nil
  then show ?case by (simp split: if_splits)
next
  case (Cons x xs)
  show ?case
  proof (cases "take (length t) (x # xs) = t")
    case True
    then have "length t \<le> length (x # xs)"
      by (metis length_take min.cobounded1)
    with Cons.prems True show ?thesis by simp
  next
    case False
    with Cons.prems obtain j where "c_strstr xs t = Some j" and "i = Suc j"
      by auto
    with Cons.IH [of j] show ?thesis by simp
  qed
qed

lemma c_strstr_match: "c_strstr s t = Some i \<Longrightarrow> take (length t) (drop i s) = t"
  by (induction s arbitrary: i) (auto split: if_splits)

lemma c_strstr_skip [c_str]:
  "c \<notin> set xs \<Longrightarrow> c_strstr (xs @ c # ys) [c] = Some (length xs)"
  by (induction xs) auto

lemma c_strstr_absent [c_str]: "c \<notin> set xs \<Longrightarrow> c_strstr xs [c] = None"
  by (induction xs) auto

lemma c_strstr_append: "c_strstr xs t = Some i \<Longrightarrow> c_strstr (xs @ ys) t = Some i"
proof (induction xs arbitrary: i)
  case Nil
  then show ?case by (cases ys) (auto split: if_splits)
next
  case (Cons x xs)
  show ?case
  proof (cases "take (length t) (x # xs) = t")
    case True
    then have "length t \<le> length (x # xs)" by (metis length_take min.cobounded1)
    with True have "take (length t) (x # xs @ ys) = t"
      by (metis Cons_eq_appendI append_Nil2 diff_is_0_eq' take_0 take_append)
    with Cons.prems True show ?thesis by simp
  next
    case False
    with Cons.prems obtain j where j: "c_strstr xs t = Some j" and i: "i = Suc j" by auto
    show ?thesis
    proof (cases "take (length t) (x # xs @ ys) = t")
      case True
      from c_strstr_bound [OF j] have "length t \<le> length (x # xs)" by simp
      with True False show ?thesis by (metis Cons_eq_appendI append_Nil2 diff_is_0_eq' take_0 take_append)
    next
      case neq: False
      with Cons.IH [OF j] i show ?thesis by simp
    qed
  qed
qed

lemma c_strstr_prefix_absent:
  assumes "c_strstr (xs @ ys) t = None" shows "c_strstr xs t = None"
  using assms c_strstr_append [of xs t _ ys] by (cases "c_strstr xs t") auto

text \<open>The only occurrence that ends in a prefix is the first one.\<close>

lemma c_strstr_before:
  assumes "c_strstr (xs @ ys) t = Some i" and "length xs < i + length t"
  shows "c_strstr xs t = None"
proof (cases "c_strstr xs t")
  case (Some j)
  with assms(1) have "j = i" using c_strstr_append by fastforce
  with c_strstr_bound [OF Some] assms(2) show ?thesis by simp
qed

subsection \<open>Options and lists\<close>

lemma bind_Some_iff: "Option.bind m f = Some y \<longleftrightarrow> (\<exists>x. m = Some x \<and> f x = Some y)"
  by (cases m) auto

lemma append_split: "a @ b = c @ d \<Longrightarrow> length a \<le> length c \<Longrightarrow> \<exists>x. c = a @ x"
  by (metis append_eq_append_conv_if append_take_drop_id)

lemma take_drop_nth: "i < length xs \<Longrightarrow> take (Suc 0) (drop i xs) = [xs ! i]"
  by (simp add: take_Suc hd_drop_conv_nth)

end
