(* ===== verification/Clock.thy ===== *)
theory Clock
  imports FwPrelude
begin

text \<open>
  The calendar and the software clock of \<open>app/user/iotgo_clock.c\<close>: parsing of GMT time
  strings and of cron strings, the day of the week, the length of a month, and the once
  per second timer callback \<open>localRTC\<close> that advances the wall clock from the RTC counter.
  The readings of the hardware (\<open>system_get_rtc_time\<close>, \<open>system_rtc_clock_cali_proc\<close>) are
  arguments of \<open>localRTC\<close>.  The specification is the number of seconds since year 0 in the
  proleptic Gregorian calendar (\<open>gmt_secs\<close>).
\<close>

subsection \<open>Data\<close>

record IoTgoGMTTime =
  year :: nat
  month :: nat
  day :: nat
  hour :: nat
  minute :: nat
  second :: nat

record IoTgoCron =
  cron_weeks :: "bool list"
  cron_hour :: nat
  cron_minute :: nat

record clock_state =
  count_down :: nat
  started :: bool
  rtc_last_counter :: nat
  rtc_counter :: nat
  rtc_counter_diff :: nat
  rtc_time_diff :: nat
  rtc_period :: nat
  rtc_period_pint :: nat
  rtc_period_pdec :: nat
  micro :: nat
  current_time :: IoTgoGMTTime
  local_rtc_timer :: os_timer

definition clock_init :: clock_state where
  "clock_init = \<lparr>count_down = 1, started = False, rtc_last_counter = 0, rtc_counter = 0,
     rtc_counter_diff = 0, rtc_time_diff = 0, rtc_period = 0, rtc_period_pint = 0,
     rtc_period_pdec = 0, micro = 0,
     current_time = \<lparr>year = 1970, month = 1, day = 1, hour = 0, minute = 0, second = 0\<rparr>,
     local_rtc_timer = Disarmed\<rparr>"

subsection \<open>GMT time strings\<close>

text \<open>The comparisons \<open>hour >= 0\<close> and so on of the source are on unsigned fields and always hold.\<close>

definition verifyGMTTime :: "IoTgoGMTTime \<Rightarrow> bool" where
  "verifyGMTTime t \<longleftrightarrow>
     year t > 2000
     \<and> (month t \<ge> 1 \<and> month t \<le> 12)
     \<and> (day t \<ge> 1 \<and> day t \<le> 31)
     \<and> (hour t \<ge> 0 \<and> hour t \<le> 23)
     \<and> (minute t \<ge> 0 \<and> minute t \<le> 59)
     \<and> (second t \<ge> 0 \<and> second t \<le> 59)"

text \<open>
  One \<open>os_bzero\<close>, \<open>os_strncpy\<close>, \<open>atoi\<close> group.  The field has at most four characters, so
  \<open>atoi\<close> is always defined (\<open>atoi_short\<close>).
\<close>

definition gmt_field :: "string \<Rightarrow> nat \<Rightarrow> nat \<Rightarrow> int" where
  "gmt_field str off n = atoi_val (take n (drop off str))"

text \<open>
  The out-parameter is returned with the flag: on a syntactically acceptable string whose
  fields are out of range the fields have been overwritten although the result is false.
\<close>

definition parseGMTTimeFromString :: "string option \<Rightarrow> IoTgoGMTTime \<Rightarrow> bool \<times> IoTgoGMTTime" where
  "parseGMTTimeFromString str gmt =
     (case str of
        None \<Rightarrow> (False, gmt)
      | Some s \<Rightarrow>
          if length s = 24 \<and> s ! 10 = CHR ''T'' \<and> s ! 23 = CHR ''Z'' then
            (let gmt = gmt\<lparr>year := to_u16 (gmt_field s 0 4)\<rparr>;
                 gmt = gmt\<lparr>month := to_u8 (gmt_field s 5 2)\<rparr>;
                 gmt = gmt\<lparr>day := to_u8 (gmt_field s 8 2)\<rparr>;
                 gmt = gmt\<lparr>hour := to_u8 (gmt_field s 11 2)\<rparr>;
                 gmt = gmt\<lparr>minute := to_u8 (gmt_field s 14 2)\<rparr>;
                 gmt = gmt\<lparr>second := to_u8 (gmt_field s 17 2)\<rparr>
             in (verifyGMTTime gmt, gmt))
          else (False, gmt))"

subsection \<open>Calendar\<close>

text \<open>Zeller's congruence; \<open>sdiv\<close> and \<open>smod\<close> truncate towards zero as in C.\<close>

definition getWeek :: "int \<Rightarrow> int \<Rightarrow> int \<Rightarrow> int" where
  "getWeek y0 m0 d =
     (let y1 = (if m0 < 3 then y0 - 1 else y0);
          m = (if m0 < 3 then to_s8 (m0 + 12) else m0);
          c = to_s8 (y1 sdiv 100);
          y = y1 smod 100;
          w = y + y sdiv 4 + c sdiv 4 - 2 * c + ((26 * (m + 1)) sdiv 10 + d - 1)
      in to_s8 ((w smod 7 + 7) smod 7))"

definition isLeapYear :: "int \<Rightarrow> bool" where
  "isLeapYear y =
     (if y < 0 then False
      else (y mod 4 = 0 \<and> y mod 100 \<noteq> 0) \<or> y mod 400 = 0)"

text \<open>In the \<open>default\<close> branch the source returns the uninitialised local \<open>days\<close>.\<close>

definition daysOfMonth :: "int \<Rightarrow> int \<Rightarrow> int option" where
  "daysOfMonth y m =
     (if m \<in> {1, 3, 5, 7, 8, 10, 12} then Some 31
      else if m \<in> {4, 6, 9, 11} then Some 30
      else if m = 2 then (if isLeapYear y then Some 29 else Some 28)
      else None)"

subsection \<open>The clock\<close>

text \<open>
  \<open>(uint32)((x * 1.0)/4095.0 + 0.5)\<close> for a 32-bit \<open>x\<close>: the exact value is
  \<open>(2 * x + 4095) / 8190\<close>, whose numerator is odd, so it is at least \<open>1/8190\<close> away from
  any integer and the rounding of the double operations cannot change the truncation.
\<close>

definition rtc_round :: "nat \<Rightarrow> nat" where
  "rtc_round x = (2 * x + 4095) div 8190"

text \<open>The cascade of carries from seconds to the year; fields are \<open>uint8\<close>, the year \<open>uint16\<close>.\<close>

definition carry_day :: "IoTgoGMTTime \<Rightarrow> IoTgoGMTTime option" where
  "carry_day t =
     do {
       dm \<leftarrow> daysOfMonth (int (year t)) (int (month t));
       Some (if int (day t) > dm then
               (let t = t\<lparr>day := 1, month := to_u8 (int (month t) + 1)\<rparr>
                in if month t > 12 then t\<lparr>month := 1, year := to_u16 (int (year t) + 1)\<rparr> else t)
             else t)
     }"

definition carry_hour :: "IoTgoGMTTime \<Rightarrow> IoTgoGMTTime option" where
  "carry_hour t =
     (if hour t \<ge> 24 then
        carry_day (t\<lparr>day := to_u8 (int (day t) + int (hour t div 24)), hour := hour t mod 24\<rparr>)
      else Some t)"

definition carry_minute :: "IoTgoGMTTime \<Rightarrow> IoTgoGMTTime option" where
  "carry_minute t =
     (if minute t \<ge> 60 then
        carry_hour (t\<lparr>hour := to_u8 (int (hour t) + int (minute t div 60)), minute := minute t mod 60\<rparr>)
      else Some t)"

definition carry_second :: "IoTgoGMTTime \<Rightarrow> IoTgoGMTTime option" where
  "carry_second t =
     (if second t \<ge> 60 then
        carry_minute (t\<lparr>minute := to_u8 (int (minute t) + int (second t div 60)), second := second t mod 60\<rparr>)
      else Some t)"

definition add_seconds :: "nat \<Rightarrow> IoTgoGMTTime \<Rightarrow> IoTgoGMTTime option" where
  "add_seconds k t = carry_second (t\<lparr>second := to_u8 (int (second t) + int k)\<rparr>)"

text \<open>
  The arguments are the counter read when the clock starts, the calibrated period of the
  RTC (20.12 fixed point) and the counter read by a running clock.
\<close>

definition localRTC :: "nat \<Rightarrow> nat \<Rightarrow> nat \<Rightarrow> clock_state \<Rightarrow> clock_state option" where
  "localRTC start_counter cali counter s0 =
     (let s = (if count_down s0 > 0 then
                 (let s = s0\<lparr>count_down := count_down s0 - 1\<rparr>
                  in if count_down s = 0 then s\<lparr>started := True, rtc_last_counter := start_counter\<rparr>
                     else s)
               else s0)
      in if started s then
           (let s = s\<lparr>rtc_period := cali, rtc_counter := counter\<rparr>;
                s = s\<lparr>rtc_period_pint := rtc_period s div 4096, rtc_period_pdec := rtc_period s mod 4096\<rparr>;
                s = s\<lparr>rtc_counter_diff :=
                       to_u32 (4294967296 + int (rtc_counter s) - int (rtc_last_counter s))\<rparr>;
                s = s\<lparr>rtc_time_diff :=
                       to_u32 (int (to_u32 (int (rtc_counter_diff s) * int (rtc_period_pint s)))
                               + int (rtc_round (to_u32 (int (rtc_counter_diff s) * int (rtc_period_pdec s)))))\<rparr>;
                s = s\<lparr>rtc_last_counter := rtc_counter s\<rparr>;
                s = s\<lparr>micro := to_u32 (int (micro s) + int (rtc_time_diff s))\<rparr>
            in if micro s \<ge> 1000000 then
                 do {
                   t \<leftarrow> add_seconds (micro s div 1000000) (current_time s);
                   Some (s\<lparr>current_time := t, micro := micro s mod 1000000\<rparr>)
                 }
               else Some s)
         else Some s)"

definition setGMTTime :: "IoTgoGMTTime \<Rightarrow> clock_state \<Rightarrow> clock_state" where
  "setGMTTime t s =
     (let s = s\<lparr>local_rtc_timer := Disarmed\<rparr>; s = s\<lparr>current_time := t\<rparr>
      in s\<lparr>local_rtc_timer := Armed 1000 True\<rparr>)"

definition getGMTTime :: "clock_state \<Rightarrow> IoTgoGMTTime \<Rightarrow> IoTgoGMTTime" where
  "getGMTTime s t =
     t\<lparr>year := year (current_time s), month := month (current_time s), day := day (current_time s),
       hour := hour (current_time s), minute := minute (current_time s), second := second (current_time s)\<rparr>"

definition startTimeService :: "clock_state \<Rightarrow> clock_state" where
  "startTimeService s = (let s = s\<lparr>local_rtc_timer := Disarmed\<rparr> in s\<lparr>local_rtc_timer := Armed 1000 True\<rparr>)"

subsection \<open>Cron strings\<close>

text \<open>
  A copy into the 25-byte local \<open>buffer\<close>, terminator included; a longer field overruns it.
\<close>

definition cron_buffer :: "string \<Rightarrow> string option" where
  "cron_buffer f = (if length f < 25 then Some f else None)"

text \<open>The loop over the week field: digits \<open>0\<close> to \<open>6\<close>, every comma skipped.\<close>

fun cron_week_loop :: "string \<Rightarrow> bool list \<Rightarrow> bool \<times> bool list" where
  "cron_week_loop [] ws = (True, ws)"
| "cron_week_loop (c # cs) ws =
     (if c \<noteq> CHR '','' then
        (let i = to_u8 (int (of_char c) - 48)
         in if i > 6 then (False, ws) else cron_week_loop cs (ws[i := True]))
      else cron_week_loop cs ws)"

definition parse_cron_weeks :: "string \<Rightarrow> IoTgoCron \<Rightarrow> (bool \<times> IoTgoCron) option" where
  "parse_cron_weeks p cron =
     do {
       buf \<leftarrow> cron_buffer p;
       Some (if buf = ''*'' then (True, cron\<lparr>cron_weeks := replicate 7 True\<rparr>)
             else (let (ok, ws) = cron_week_loop buf (replicate 7 False)
                   in (ok, cron\<lparr>cron_weeks := ws\<rparr>)))
     }"

definition parse_cron_hour :: "string \<Rightarrow> IoTgoCron \<Rightarrow> (bool \<times> IoTgoCron) option" where
  "parse_cron_hour buf cron =
     (if buf = ''*'' then Some (True, cron\<lparr>cron_hour := 24\<rparr>)
      else do {
        v \<leftarrow> atoi buf;
        let cron = cron\<lparr>cron_hour := to_u8 v\<rparr>;
        Some (cron_hour cron \<le> 23, cron)
      })"

text \<open>
  \<open>p = temp + 5\<close> skips the day-of-month and month fields without looking at them; beyond the
  terminator of the string the following copy reads foreign memory.
\<close>

definition parse_cron_rest :: "string \<Rightarrow> IoTgoCron \<Rightarrow> (bool \<times> IoTgoCron) option" where
  "parse_cron_rest p cron =
     (case c_strstr p '' '' of
        None \<Rightarrow> Some (False, cron)
      | Some j \<Rightarrow>
          if j = 0 then Some (False, cron)
          else do {
            buf \<leftarrow> cron_buffer (take j p);
            (ok, cron) \<leftarrow> parse_cron_hour buf cron;
            if \<not> ok then Some (False, cron)
            else if j + 5 > length p then None
            else parse_cron_weeks (drop (j + 5) p) cron
          })"

definition parseCronFromString :: "string option \<Rightarrow> IoTgoCron \<Rightarrow> (bool \<times> IoTgoCron) option" where
  "parseCronFromString str cron =
     (case str of
        None \<Rightarrow> Some (False, cron)
      | Some s \<Rightarrow>
          let str_len = to_u8 (int (length s)) in
          if str_len < 9 \<or> str_len > 23 then Some (False, cron)
          else (case c_strstr s '' '' of
                  None \<Rightarrow> Some (False, cron)
                | Some i \<Rightarrow>
                    if i = 0 then Some (False, cron)
                    else do {
                      buf \<leftarrow> cron_buffer (take i s);
                      v \<leftarrow> atoi buf;
                      let cron = cron\<lparr>cron_minute := to_u8 v\<rparr>;
                      if cron_minute cron > 59 then Some (False, cron)
                      else parse_cron_rest (drop (Suc i) s) cron
                    }))"

end
