(* ===== verification/ClockSpec.thy ===== *)
theory ClockSpec
  imports Clock
begin

text \<open>
  The specification of the calendar and the proofs that \<open>Clock\<close> meets it: seconds since
  year 0 of the proleptic Gregorian calendar, the tick of the clock as an addition of
  seconds, the weekday as the day count modulo 7, and acceptance of canonical GMT and cron
  strings by the parsers.
\<close>

subsection \<open>Specification\<close>

definition leap :: "nat \<Rightarrow> bool" where
  "leap y \<longleftrightarrow> (4 dvd y \<and> \<not> 100 dvd y) \<or> 400 dvd y"

definition year_len :: "nat \<Rightarrow> nat" where
  "year_len y = (if leap y then 366 else 365)"

definition month_len :: "nat \<Rightarrow> nat \<Rightarrow> nat" where
  "month_len y m =
     (if m = 2 then (if leap y then 29 else 28) else if m \<in> {4, 6, 9, 11} then 30 else 31)"

fun days_to_year :: "nat \<Rightarrow> nat" where
  "days_to_year 0 = 0"
| "days_to_year (Suc y) = days_to_year y + year_len y"

fun days_to_month :: "nat \<Rightarrow> nat \<Rightarrow> nat" where
  "days_to_month y 0 = 0"
| "days_to_month y (Suc m) = (if m = 0 then 0 else days_to_month y m + month_len y m)"

definition gmt_days :: "IoTgoGMTTime \<Rightarrow> nat" where
  "gmt_days t = days_to_year (year t) + days_to_month (year t) (month t) + (day t - 1)"

definition gmt_secs :: "IoTgoGMTTime \<Rightarrow> nat" where
  "gmt_secs t = gmt_days t * 86400 + hour t * 3600 + minute t * 60 + second t"

definition date_valid :: "IoTgoGMTTime \<Rightarrow> bool" where
  "date_valid t \<longleftrightarrow> 1 \<le> month t \<and> month t \<le> 12 \<and> 1 \<le> day t \<and> day t \<le> month_len (year t) (month t)"

definition gmt_valid :: "IoTgoGMTTime \<Rightarrow> bool" where
  "gmt_valid t \<longleftrightarrow> date_valid t \<and> year t < 65536 \<and> hour t < 24 \<and> minute t < 60 \<and> second t < 60"

lemma months_less_13: "1 \<le> (m::nat) \<Longrightarrow> m \<le> 12 \<Longrightarrow> m \<in> {1, 2, 3, 4, 5, 6, 7, 8, 9, 10, 11, 12}"
  by (auto simp: numeral_eq_Suc le_Suc_eq)

lemma leap_isLeapYear: "isLeapYear (int y) = leap y"
proof -
  have m: "(int y mod 4 = 0) = (4 dvd y)" "(int y mod 100 = 0) = (100 dvd y)" "(int y mod 400 = 0) = (400 dvd y)"
    by (simp_all only: dvd_eq_mod_eq_0 zmod_int [of y 4, simplified, symmetric]
        zmod_int [of y 100, simplified, symmetric] zmod_int [of y 400, simplified, symmetric] of_nat_eq_0_iff)
  show ?thesis unfolding isLeapYear_def leap_def m by simp
qed

lemma daysOfMonth_month_len:
  assumes "1 \<le> m" "m \<le> 12"
  shows "daysOfMonth (int y) (int m) = Some (int (month_len y m))"
proof -
  have "m \<in> {1, 2, 3, 4, 5, 6, 7, 8, 9, 10, 11, 12}" using assms by (rule months_less_13)
  then show ?thesis by (auto simp: daysOfMonth_def month_len_def leap_isLeapYear)
qed

lemma month_len_bounds: "28 \<le> month_len y m" "month_len y m \<le> 31"
  by (auto simp: month_len_def)


lemma days_to_month_table:
  "days_to_month y 1 = 0" "days_to_month y 2 = 31"
  "days_to_month y 3 = 31 + month_len y 2" "days_to_month y 4 = 62 + month_len y 2"
  "days_to_month y 5 = 92 + month_len y 2" "days_to_month y 6 = 123 + month_len y 2"
  "days_to_month y 7 = 153 + month_len y 2" "days_to_month y 8 = 184 + month_len y 2"
  "days_to_month y 9 = 215 + month_len y 2" "days_to_month y 10 = 245 + month_len y 2"
  "days_to_month y 11 = 276 + month_len y 2" "days_to_month y 12 = 306 + month_len y 2"
  by (simp_all add: numeral_eq_Suc month_len_def)

lemma year_ends: "days_to_month y 12 + 31 = year_len y"
  by (simp add: days_to_month_table month_len_def year_len_def)

subsection \<open>The tick adds seconds\<close>

lemma carry_day_correct:
  assumes "1 \<le> month t" "month t \<le> 12" "1 \<le> day t" "day t \<le> Suc (month_len (year t) (month t))"
    and "year t < 65535"
  shows "\<exists>t'. carry_day t = Some t' \<and> date_valid t' \<and> gmt_days t' = gmt_days t \<and> year t' \<le> Suc (year t)
    \<and> hour t' = hour t \<and> minute t' = minute t \<and> second t' = second t"
proof (cases "day t \<le> month_len (year t) (month t)")
  case True
  then show ?thesis
    using assms by (simp add: carry_day_def daysOfMonth_month_len date_valid_def)
next
  case False
  with assms(4) have d: "day t = Suc (month_len (year t) (month t))" by simp
  show ?thesis
  proof (cases "month t = 12")
    case True
    with d have d32: "day t = 32" by (simp add: month_len_def)
    have "daysOfMonth (int (year t)) (int (month t)) = Some 31"
      using True by (simp add: daysOfMonth_def)
    with True d32 assms(5)
    have "carry_day t = Some (t\<lparr>day := 1, month := 1, year := Suc (year t)\<rparr>)"
      by (simp add: carry_day_def Let_def to_u8_def to_u16_def nat_add_distrib)
    then show ?thesis
      using True d32 year_ends [of "year t"]
      by (simp add: date_valid_def gmt_days_def month_len_def)
  next
    case False
    with assms(2) have "month t < 12" by simp
    then show ?thesis
      using assms d month_len_bounds(1) [of "year t" "Suc (month t)"]
      by (simp add: carry_day_def daysOfMonth_month_len date_valid_def Let_def gmt_days_def c_conv)
  qed
qed

lemma carry_hour_correct:
  assumes "date_valid t" "year t < 65535" "hour t < 48"
  shows "\<exists>t'. carry_hour t = Some t' \<and> date_valid t' \<and> hour t' < 24 \<and> year t' \<le> Suc (year t)
    \<and> gmt_days t' * 24 + hour t' = gmt_days t * 24 + hour t
    \<and> minute t' = minute t \<and> second t' = second t"
proof (cases "hour t < 24")
  case True
  then show ?thesis using assms by (simp add: carry_hour_def)
next
  case False
  let ?u = "t\<lparr>day := to_u8 (int (day t) + int (hour t div 24)), hour := hour t mod 24\<rparr>"
  from False assms(3) have h: "hour t div 24 = 1" "hour t mod 24 = hour t - 24"
    using div_mod_once [of "hour t" 24] by simp_all
  have "day t < 255"
    using assms(1) month_len_bounds(2) [of "year t" "month t"] by (simp add: date_valid_def)
  with h have d: "day ?u = Suc (day t)"
    by (simp add: to_u8_def)
  from assms(1) d h have "1 \<le> month ?u" "month ?u \<le> 12" "1 \<le> day ?u"
      "day ?u \<le> Suc (month_len (year ?u) (month ?u))"
    by (simp_all add: date_valid_def)
  with carry_day_correct [of ?u] assms(2) obtain t' where t': "carry_day ?u = Some t'" "date_valid t'"
      "gmt_days t' = gmt_days ?u" "year t' \<le> Suc (year t)" "hour t' = hour t - 24"
      "minute t' = minute t" "second t' = second t"
    using h by auto
  have "gmt_days ?u = Suc (gmt_days t)"
    using assms(1) d by (simp add: gmt_days_def date_valid_def)
  with t' False assms(3) show ?thesis by (auto simp: carry_hour_def)
qed

lemma carry_minute_correct:
  assumes "date_valid t" "year t < 65535" "hour t < 24" "minute t < 120"
  shows "\<exists>t'. carry_minute t = Some t' \<and> date_valid t' \<and> hour t' < 24 \<and> minute t' < 60
    \<and> year t' \<le> Suc (year t)
    \<and> gmt_days t' * 1440 + hour t' * 60 + minute t' = gmt_days t * 1440 + hour t * 60 + minute t
    \<and> second t' = second t"
proof (cases "minute t < 60")
  case True
  then show ?thesis using assms by (auto simp: carry_minute_def)
next
  case False
  let ?u = "t\<lparr>hour := to_u8 (int (hour t) + int (minute t div 60)), minute := minute t mod 60\<rparr>"
  from False assms(4) have m: "minute t div 60 = 1" "minute t mod 60 = minute t - 60"
    using div_mod_once [of "minute t" 60] by simp_all
  with assms(3) have h: "hour ?u = Suc (hour t)" by (simp add: to_u8_def)
  have "date_valid ?u" using assms(1) by (simp add: date_valid_def)
  with carry_hour_correct [of ?u] assms h obtain t' where t': "carry_hour ?u = Some t'" "date_valid t'"
      "hour t' < 24" "year t' \<le> Suc (year t)" "gmt_days t' * 24 + hour t' = gmt_days ?u * 24 + Suc (hour t)"
      "minute t' = minute t - 60" "second t' = second t"
    using m by auto
  moreover have "gmt_days ?u = gmt_days t" by (simp add: gmt_days_def)
  ultimately show ?thesis using False assms(4) by (auto simp: carry_minute_def)
qed

lemma add_seconds_correct:
  assumes "gmt_valid t" "year t < 65535" "k < 196"
  shows "\<exists>t'. add_seconds k t = Some t' \<and> gmt_valid t' \<and> gmt_secs t' = gmt_secs t + k"
proof -
  let ?v = "t\<lparr>second := to_u8 (int (second t) + int k)\<rparr>"
  from assms have s: "second ?v = second t + k"
    by (simp add: gmt_valid_def to_u8_def)
  have days: "gmt_days (t\<lparr>second := x\<rparr>) = gmt_days t" "gmt_days (t\<lparr>minute := y, second := x\<rparr>) = gmt_days t"
    for x y by (simp_all add: gmt_days_def)
  show ?thesis
  proof (cases "second t + k < 60")
    case True
    with s show ?thesis
      using assms by (auto simp: add_seconds_def carry_second_def gmt_valid_def date_valid_def gmt_secs_def days)
  next
    case False
    let ?u = "?v\<lparr>minute := to_u8 (int (minute ?v) + int (second ?v div 60)), second := second ?v mod 60\<rparr>"
    have m: "minute ?u = minute t + (second t + k) div 60"
      proof -
      have "minute t < 60" "(second t + k) div 60 < 5" using assms by (auto simp: gmt_valid_def)
      with s show ?thesis by (simp add: c_conv)
    qed
    from assms have "date_valid ?u" "hour ?u < 24" "minute ?u < 120"
      unfolding m by (auto simp: gmt_valid_def date_valid_def)
    with carry_minute_correct [of ?u] assms obtain t' where t': "carry_minute ?u = Some t'"
        "date_valid t'" "hour t' < 24" "minute t' < 60" "year t' \<le> Suc (year t)"
        "gmt_days t' * 1440 + hour t' * 60 + minute t' = gmt_days ?u * 1440 + hour ?u * 60 + minute ?u"
        "second t' = second ?u"
      by auto
    have "gmt_days ?u = gmt_days t" "hour ?u = hour t" "second ?u = (second t + k) mod 60"
      using s by (simp_all add: gmt_days_def)
    with t' m have "(gmt_days t' * 1440 + hour t' * 60 + minute t') * 60 + second t'
        = (gmt_days t * 1440 + hour t * 60 + minute t + (second t + k) div 60) * 60 + (second t + k) mod 60"
      by simp
    also have "\<dots> = gmt_secs t + k"
      by (simp add: gmt_secs_def)
    finally have "gmt_secs t' = gmt_secs t + k" by (simp add: gmt_secs_def)
    moreover have "gmt_valid t'"
      using t' assms \<open>second ?u = (second t + k) mod 60\<close> by (simp add: gmt_valid_def)
    ultimately show ?thesis using t'(1) s False by (simp add: add_seconds_def carry_second_def)
  qed
qed

definition rtc_delta :: "nat \<Rightarrow> nat \<Rightarrow> nat \<Rightarrow> nat" where
  "rtc_delta cali prev now =
     (let d = to_u32 (4294967296 + int now - int prev)
      in to_u32 (int (to_u32 (int d * int (cali div 4096)))
                 + int (rtc_round (to_u32 (int d * int (cali mod 4096))))))"

definition clock_micros :: "clock_state \<Rightarrow> nat" where
  "clock_micros s = gmt_secs (current_time s) * 1000000 + micro s"

definition clock_running :: "clock_state \<Rightarrow> bool" where
  "clock_running s \<longleftrightarrow> started s \<and> count_down s = 0 \<and> micro s < 1000000 \<and> gmt_valid (current_time s)"

lemma localRTC_correct:
  assumes "clock_running s" "year (current_time s) < 65535"
    and "micro s + rtc_delta cali (rtc_last_counter s) now < 196000000"
  shows "\<exists>s'. localRTC start cali now s = Some s' \<and> clock_running s' \<and> rtc_last_counter s' = now
    \<and> clock_micros s' = clock_micros s + rtc_delta cali (rtc_last_counter s) now"
proof -
  define m where "m = micro s + rtc_delta cali (rtc_last_counter s) now"
  have m: "to_u32 (int (micro s) + int (rtc_delta cali (rtc_last_counter s) now)) = m"
    using assms(3) by (simp add: m_def c_conv)
  have "m div 1000000 < 196" using assms(3) by (simp add: m_def)
  with add_seconds_correct [of "current_time s" "m div 1000000"] assms obtain t'
    where t': "add_seconds (m div 1000000) (current_time s) = Some t'" "gmt_valid t'"
      "gmt_secs t' = gmt_secs (current_time s) + m div 1000000"
    by (auto simp: clock_running_def)
  have "(gmt_secs (current_time s) + m div 1000000) * 1000000 + m mod 1000000
      = gmt_secs (current_time s) * 1000000 + m"
    by (simp add: add_mult_distrib)
  with assms t' m show ?thesis
    by (auto simp: localRTC_def Let_def clock_running_def clock_micros_def
        rtc_delta_def [unfolded Let_def, symmetric]) (auto simp: m_def)
qed

subsection \<open>The weekday\<close>

lemma days_to_year_closed:
  "days_to_year y + (y + 99) div 100 = 365 * y + (y + 3) div 4 + (y + 399) div 400"
proof (induction y)
  case 0
  then show ?case by simp
next
  case (Suc y)
  have q: "(Suc y + 3) div 4 = (y + 3) div 4 + (if 4 dvd y then 1 else 0)"
      "(Suc y + 99) div 100 = (y + 99) div 100 + (if 100 dvd y then 1 else 0)"
      "(Suc y + 399) div 400 = (y + 399) div 400 + (if 400 dvd y then 1 else 0)"
    by (rule div_step, simp)+
  have d: "100 dvd y \<Longrightarrow> 4 dvd y" "400 dvd y \<Longrightarrow> 100 dvd y"
    using dvd_trans [of "4::nat" 100 y] dvd_trans [of "100::nat" 400 y] by simp_all
  show ?case
    unfolding q using Suc.IH d by (auto simp: year_len_def leap_def)
qed

text \<open>
  \<open>era_days z\<close> counts the days before 1 March of year \<open>z\<close> up to a constant; Zeller's formula
  is this count modulo 7 with the year split into century and year of the century.
\<close>

definition era_days :: "nat \<Rightarrow> int" where
  "era_days z = 365 * int z + int (z div 4) + int (z div 400) - int (z div 100)"

lemma era_days_zeller:
  assumes "r < 100"
  shows "era_days (100 * c + r) =
    int r + int (r div 4) + int (c div 4) - 2 * int c + 7 * (5218 * int c + 52 * int r)"
proof -
  have a: "(100 * c + r) div 100 = c" using assms by simp
  then have "(100 * c + r) div 400 = c div 4"
    using div_mult2_eq [of "100 * c + r" 100 4] by simp
  moreover have "(100 * c + r) div 4 = 25 * c + r div 4" by simp
  ultimately show ?thesis unfolding era_days_def a by simp
qed

lemma days_to_year_Suc_era: "int (days_to_year (Suc z)) = era_days z + 366"
proof -
  have "(Suc z + 99) div 100 = Suc (z div 100)" "(Suc z + 3) div 4 = Suc (z div 4)"
      "(Suc z + 399) div 400 = Suc (z div 400)"
    using div_add_self2 [of 100 z] div_add_self2 [of 4 z] div_add_self2 [of 400 z] by simp_all
  with days_to_year_closed [of "Suc z"] show ?thesis by (simp add: era_days_def)
qed

definition zeller_month :: "int \<Rightarrow> int" where
  "zeller_month m = (26 * (m + 1)) sdiv 10"

lemma zeller_month_table:
  "zeller_month 3 = 10" "zeller_month 4 = 13" "zeller_month 5 = 15" "zeller_month 6 = 18"
  "zeller_month 7 = 20" "zeller_month 8 = 23" "zeller_month 9 = 26" "zeller_month 10 = 28"
  "zeller_month 11 = 31" "zeller_month 12 = 33" "zeller_month 13 = 36" "zeller_month 14 = 39"
  by (simp_all add: zeller_month_def)

lemma zeller_value:
  assumes "z < 12800"
    and w: "w = int z smod 100 + int z smod 100 sdiv 4 + to_s8 (int z sdiv 100) sdiv 4
            - 2 * to_s8 (int z sdiv 100) + k"
  shows "to_s8 ((w smod 7 + 7) smod 7) = (era_days z + k) mod 7"
proof -
  define c r where "c = z div 100" and "r = z mod 100"
  then have z: "z = 100 * c + r" and "r < 100" "c < 128" using assms by auto
  have "int z smod 100 = int r" "int z sdiv 100 = int c"
    by (simp_all add: c_conv c_def r_def zdiv_int zmod_int)
  with w \<open>c < 128\<close> have "w = int r + int (r div 4) + int (c div 4) - 2 * int c + k"
    by (simp add: c_conv to_s8_small zdiv_int)
  then have "era_days z + k = w + 7 * (5218 * int c + 52 * int r)"
    using era_days_zeller [OF \<open>r < 100\<close>, of c] unfolding z by simp
  then have "(era_days z + k) mod 7 = w mod 7" by (simp only: mod_mult_self2)
  moreover have "0 \<le> w mod 7" "w mod 7 < 7" by simp_all
  ultimately show ?thesis by (simp add: c_conv to_s8_small)
qed

lemma gmt_days_era:
  assumes "date_valid t" "1 \<le> year t"
  defines "z \<equiv> if month t < 3 then year t - 1 else year t"
    and "m \<equiv> if month t < 3 then month t + 12 else month t"
  shows "\<exists>j. int (gmt_days t) + 6 = era_days z + zeller_month (int m) + int (day t) - 1 + 7 * j"
proof -
  from assms(1) have m: "month t \<in> {1, 2, 3, 4, 5, 6, 7, 8, 9, 10, 11, 12}" and d: "1 \<le> day t"
    using months_less_13 [of "month t"] by (auto simp: date_valid_def)
  have early: "int (days_to_year (year t)) = era_days (year t - 1) + 366"
    using days_to_year_Suc_era [of "year t - 1"] assms(2) by simp
  have late: "int (days_to_year (year t)) = era_days (year t) + 366 - int (year_len (year t))"
    using days_to_year_Suc_era [of "year t"] by simp
  have len: "int (year_len (year t)) = 337 + int (month_len (year t) 2)"
    by (simp add: year_len_def month_len_def)
  show ?thesis
  proof (cases "month t < 3")
    case True
    with m have "month t = 1 \<or> month t = 2" by auto
    then show ?thesis
    proof
      assume "month t = 1"
      then show ?thesis
        by (intro exI [of _ "48"]) (use d early in \<open>simp add: z_def m_def gmt_days_def days_to_month_table zeller_month_table\<close>)
    next
      assume "month t = 2"
      then show ?thesis
        by (intro exI [of _ "52"]) (use d early in \<open>simp add: z_def m_def gmt_days_def days_to_month_table zeller_month_table\<close>)
    qed
  next
    case False
    then have zm: "z = year t" "m = month t" by (simp_all add: z_def m_def)
    have "7 dvd int (gmt_days t) + 6 - (era_days (year t) + zeller_month (int (month t)) + int (day t) - 1)"
      using m False d late len
      by (auto simp: gmt_days_def days_to_month_table zeller_month_table)
    then obtain j where
      "int (gmt_days t) + 6 - (era_days (year t) + zeller_month (int (month t)) + int (day t) - 1) = 7 * j"
      by (elim dvdE)
    then show ?thesis unfolding zm by (intro exI [of _ j]) linarith
  qed
qed

lemma getWeek_day_count:
  assumes "date_valid t" "1 \<le> year t" "year t < 12800"
  shows "getWeek (int (year t)) (int (month t)) (int (day t)) = (int (gmt_days t) + 6) mod 7"
proof -
  define z where "z = (if month t < 3 then year t - 1 else year t)"
  define m where "m = (if month t < 3 then month t + 12 else month t)"
  obtain j where j: "int (gmt_days t) + 6 = era_days z + zeller_month (int m) + int (day t) - 1 + 7 * j"
    using gmt_days_era [OF assms(1,2)] unfolding z_def m_def by blast
  have y_eq: "(if int (month t) < 3 then int (year t) - 1 else int (year t)) = int z"
    using assms(2) by (simp add: z_def)
  have m_eq: "(if int (month t) < 3 then to_s8 (int (month t) + 12) else int (month t)) = int m"
    using assms(1) by (simp add: m_def to_s8_small date_valid_def)
  have z_less: "z < 12800" using assms(3) by (auto simp: z_def)
  have "getWeek (int (year t)) (int (month t)) (int (day t))
      = (era_days z + (zeller_month (int m) + int (day t) - 1)) mod 7"
    unfolding getWeek_def Let_def y_eq m_eq zeller_month_def
    by (rule zeller_value [OF z_less refl])
  then show ?thesis
    unfolding j by (simp only: mod_mult_self2) (simp add: algebra_simps)
qed

subsection \<open>Canonical GMT strings\<close>

text \<open>The form \<open>YYYY-MM-DDThh:mm:ss.mmmZ\<close> the server sends, written by a specification printer.\<close>

definition dec2 :: "nat \<Rightarrow> string" where
  "dec2 n = [digit_chr (n div 10 mod 10), digit_chr (n mod 10)]"

definition dec3 :: "nat \<Rightarrow> string" where
  "dec3 n = [digit_chr (n div 100 mod 10), digit_chr (n div 10 mod 10), digit_chr (n mod 10)]"

definition dec4 :: "nat \<Rightarrow> string" where
  "dec4 n = [digit_chr (n div 1000 mod 10), digit_chr (n div 100 mod 10), digit_chr (n div 10 mod 10),
     digit_chr (n mod 10)]"

definition gmt_text :: "IoTgoGMTTime \<Rightarrow> nat \<Rightarrow> string" where
  "gmt_text t ms = dec4 (year t) @ ''-'' @ dec2 (month t) @ ''-'' @ dec2 (day t) @ ''T''
     @ dec2 (hour t) @ '':'' @ dec2 (minute t) @ '':'' @ dec2 (second t) @ ''.'' @ dec3 ms @ ''Z''"

lemma digit_not_sign: "d < 10 \<Longrightarrow> digit_chr d \<noteq> CHR ''-'' \<and> digit_chr d \<noteq> CHR ''+''"
  using digit_chr_neq [of d "CHR ''-''"] digit_chr_neq [of d "CHR ''+''"] by simp

lemma atoi_val_digits:
  assumes "d < 10"
  shows "atoi_val (digit_chr d # cs) = digits_val (int d) cs"
  using assms digit_not_sign [OF assms] by (simp add: atoi_val_def c_str)

lemma int_div_mod_10: "10 * int (n div 10) + int (n mod 10) = int n"
proof -
  have "int (10 * (n div 10) + n mod 10) = int n" by (simp only: mult_div_mod_eq)
  then show ?thesis by (simp only: of_nat_add of_nat_mult of_nat_numeral)
qed

lemma atoi_val_dec2: "n < 100 \<Longrightarrow> atoi_val (dec2 n) = int n"
  by (simp add: dec2_def atoi_val_digits c_str int_div_mod_10)

lemma atoi_val_dec4:
  assumes "n < 10000"
  shows "atoi_val (dec4 n) = int n"
proof -
  have q: "n div 100 = n div 10 div 10" "n div 1000 = n div 10 div 10 div 10"
    by (simp_all add: div_mult2_eq [symmetric])
  have "n div 10 div 10 div 10 < 10" using assms by (simp add: q(2) [symmetric])
  then show ?thesis
    unfolding dec4_def q
    by (simp add: atoi_val_digits c_str int_div_mod_10 del: div_mult2_eq)
qed

lemma length_dec [simp]: "length (dec2 n) = 2" "length (dec3 n) = 3" "length (dec4 n) = 4"
  by (simp_all add: dec2_def dec3_def dec4_def)

lemma gmt_text_fields:
  "length (gmt_text t ms) = 24" "gmt_text t ms ! 10 = CHR ''T''" "gmt_text t ms ! 23 = CHR ''Z''"
  "take 4 (gmt_text t ms) = dec4 (year t)" "take 2 (drop 5 (gmt_text t ms)) = dec2 (month t)"
  "take 2 (drop 8 (gmt_text t ms)) = dec2 (day t)" "take 2 (drop 11 (gmt_text t ms)) = dec2 (hour t)"
  "take 2 (drop 14 (gmt_text t ms)) = dec2 (minute t)" "take 2 (drop 17 (gmt_text t ms)) = dec2 (second t)"
  by (simp_all add: gmt_text_def nth_append)

lemma parseGMT_gmt_text:
  assumes "gmt_valid t" "2000 < year t" "year t < 10000"
  shows "parseGMTTimeFromString (Some (gmt_text t ms)) g = (True, t)"
proof -
  have "month t < 100" "day t < 100" "hour t < 100" "minute t < 100" "second t < 100" "day t \<le> 31"
    using assms(1) month_len_bounds(2) [of "year t" "month t"]
    by (auto simp: gmt_valid_def date_valid_def)
  then show ?thesis
    using assms
    by (simp add: parseGMTTimeFromString_def gmt_field_def gmt_text_fields atoi_val_dec2 atoi_val_dec4
        c_conv Let_def verifyGMTTime_def gmt_valid_def date_valid_def)
qed

lemma parseGMT_accepted:
  "parseGMTTimeFromString str g = (True, t) \<Longrightarrow> verifyGMTTime t \<and> (\<exists>s. str = Some s \<and> length s = 24)"
  by (auto simp: parseGMTTimeFromString_def Let_def split: option.splits if_splits)

subsection \<open>Canonical cron strings\<close>

definition dec_short :: "nat \<Rightarrow> string" where
  "dec_short n = (if n < 10 then [digit_chr n] else dec2 n)"

fun comma_sep :: "nat list \<Rightarrow> string" where
  "comma_sep [] = []"
| "comma_sep [d] = [digit_chr d]"
| "comma_sep (d # ds) = digit_chr d # CHR '','' # comma_sep ds"

definition cron_text :: "nat \<Rightarrow> nat option \<Rightarrow> nat list \<Rightarrow> string" where
  "cron_text m h ds = dec_short m @ '' '' @ (case h of None \<Rightarrow> ''*'' | Some k \<Rightarrow> dec_short k) @ '' * * ''
     @ (if ds = [] then ''*'' else comma_sep ds)"

definition cron_meaning :: "nat \<Rightarrow> nat option \<Rightarrow> nat list \<Rightarrow> IoTgoCron" where
  "cron_meaning m h ds =
     \<lparr>cron_weeks = (if ds = [] then replicate 7 True else map (\<lambda>i. i \<in> set ds) [0..<7]),
      cron_hour = (case h of None \<Rightarrow> 24 | Some k \<Rightarrow> k), cron_minute = m\<rparr>"

lemma digit_chr_not [simp]:
  "d < 10 \<Longrightarrow> digit_chr d \<noteq> CHR '' ''" "d < 10 \<Longrightarrow> CHR '' '' \<noteq> digit_chr d"
  "d < 10 \<Longrightarrow> digit_chr d \<noteq> CHR '',''" "d < 10 \<Longrightarrow> digit_chr d \<noteq> CHR ''*''"
  using digit_chr_neq [of d "CHR '' ''"] digit_chr_neq [of d "CHR '',''"] digit_chr_neq [of d "CHR ''*''"]
  by simp_all

lemma dec_short_props:
  assumes "n < 100"
  shows "atoi (dec_short n) = Some (int n)" "CHR '' '' \<notin> set (dec_short n)" "dec_short n \<noteq> ''*''"
    "1 \<le> length (dec_short n)" "length (dec_short n) \<le> 2" "dec_short n \<noteq> []"
  using assms atoi_val_dec2 [of n]
  by (auto simp: dec_short_def dec2_def atoi_def atoi_val_digits)

lemma length_comma_sep: "ds \<noteq> [] \<Longrightarrow> length (comma_sep ds) + 1 = 2 * length ds"
  by (induction ds rule: comma_sep.induct) auto

lemma comma_sep_star: "\<forall>d \<in> set ds. d < 7 \<Longrightarrow> comma_sep ds \<noteq> ''*''"
  by (cases ds rule: comma_sep.cases) (auto simp: less_imp_le_nat)

lemma cron_week_loop_comma_sep:
  assumes "\<forall>d \<in> set ds. d < 7"
  shows "cron_week_loop (comma_sep ds) ws = (True, fold (\<lambda>d ws. ws[d := True]) ds ws)"
  using assms
proof (induction ds arbitrary: ws rule: comma_sep.induct)
  case 1
  then show ?case by simp
next
  case (2 d)
  then show ?case by (simp add: of_char_digit_chr c_conv)
next
  case (3 d e ds)
  then show ?case by (simp add: of_char_digit_chr c_conv)
qed

lemma fold_set_flags:
  "fold (\<lambda>d ws. ws[d := True]) ds ws = map (\<lambda>i. ws ! i \<or> i \<in> set ds) [0..<length ws]"
proof (induction ds arbitrary: ws)
  case Nil
  then show ?case by (simp add: map_nth)
next
  case (Cons d ds)
  then show ?case
    by (cases "d < length ws") (auto simp: nth_list_update list_update_beyond)
qed

lemma parse_cron_weeks_text:
  assumes "\<forall>d \<in> set ds. d < 7" "length ds \<le> 7"
  shows "parse_cron_weeks (if ds = [] then ''*'' else comma_sep ds) c =
    Some (True, c\<lparr>cron_weeks := (if ds = [] then replicate 7 True else map (\<lambda>i. i \<in> set ds) [0..<7])\<rparr>)"
proof (cases "ds = []")
  case True
  then show ?thesis by (simp add: parse_cron_weeks_def cron_buffer_def)
next
  case False
  with assms length_comma_sep [of ds] have "length (comma_sep ds) < 25" by simp
  moreover have "map (\<lambda>i. replicate 7 False ! i \<or> i \<in> set ds) [0..<7] = map (\<lambda>i. i \<in> set ds) [0..<7]"
    by auto
  ultimately show ?thesis
    using False assms comma_sep_star [of ds]
    by (simp add: parse_cron_weeks_def cron_buffer_def cron_week_loop_comma_sep fold_set_flags)
qed

lemma parseCron_cron_text:
  assumes "m < 60" "case h of None \<Rightarrow> True | Some k \<Rightarrow> k < 24" "\<forall>d \<in> set ds. d < 7" "length ds \<le> 7"
  shows "parseCronFromString (Some (cron_text m h ds)) c = Some (True, cron_meaning m h ds)"
proof -
  define w where "w = (if ds = [] then ''*'' else comma_sep ds)"
  define hs where "hs = (case h of None \<Rightarrow> ''*'' | Some k \<Rightarrow> dec_short k)"
  define rest where "rest = hs @ CHR '' '' # ''* * '' @ w"
  have ct: "cron_text m h ds = dec_short m @ CHR '' '' # rest"
    by (simp add: cron_text_def rest_def hs_def w_def)
  have hs: "CHR '' '' \<notin> set hs" "1 \<le> length hs" "length hs \<le> 2" "hs \<noteq> []"
    using assms(2) dec_short_props by (auto simp: hs_def split: option.splits)
  have w: "1 \<le> length w" "length w \<le> 13"
    using assms(4) length_comma_sep [of ds] by (auto simp: w_def Suc_le_eq)
  have m: "m < 100" using assms(1) by simp
  note ms = dec_short_props [OF m]
  have "length (cron_text m h ds) = length (dec_short m) + length hs + length w + 6"
    by (simp add: ct rest_def)
  then have len: "9 \<le> length (cron_text m h ds)" "length (cron_text m h ds) \<le> 23"
    using hs w ms by linarith+
  have hour: "parse_cron_hour hs c' = Some (True, c'\<lparr>cron_hour := (case h of None \<Rightarrow> 24 | Some k \<Rightarrow> k)\<rparr>)" for c'
    using assms(2) dec_short_props
    by (auto simp: parse_cron_hour_def hs_def Let_def c_conv split: option.splits)
  have "parse_cron_rest rest c' = Some (True, c'\<lparr>cron_hour := (case h of None \<Rightarrow> 24 | Some k \<Rightarrow> k),
      cron_weeks := (if ds = [] then replicate 7 True else map (\<lambda>i. i \<in> set ds) [0..<7])\<rparr>)" for c'
    using hs parse_cron_weeks_text [OF assms(3,4)]
    by (simp add: parse_cron_rest_def rest_def c_strstr_skip cron_buffer_def hour w_def)
  moreover have "to_u8 (int (length (cron_text m h ds))) = length (cron_text m h ds)"
    using len by (simp add: to_u8_small)
  ultimately show ?thesis
    unfolding parseCronFromString_def option.case Let_def
    using len ms assms(1)
    by (simp add: c_conv ct c_strstr_skip cron_buffer_def cron_meaning_def)
qed

subsection \<open>Properties\<close>

definition clock_sample :: clock_state where
  "clock_sample = clock_init\<lparr>count_down := 0, started := True, rtc_last_counter := 4294967000, micro := 999999,
     current_time := \<lparr>year = 2016, month = 2, day = 28, hour = 23, minute = 59, second = 59\<rparr>,
     local_rtc_timer := Armed 1000 True\<rparr>"



text \<open>
  the day of the week that Zeller's congruence computes is the number of days since the
  epoch of the calendar modulo seven, for every valid date from year 1 up to year 12799.
\<close>

theorem week_is_day_count:
  assumes "date_valid t" "1 \<le> year t" "year t < 12800"
  shows "getWeek (int (year t)) (int (month t)) (int (day t)) = (int (gmt_days t) + 6) mod 7"
  using assms by (rule getWeek_day_count)

theorem week_is_day_count_witness:
  "getWeek 2016 2 29 = (int (gmt_days \<lparr>year = 2016, month = 2, day = 29, hour = 0, minute = 0, second = 0\<rparr>) + 6) mod 7
   \<and> getWeek 2016 2 29 = 1"
proof -
  let ?t = "\<lparr>year = 2016, month = 2, day = 29, hour = 0, minute = 0, second = 0\<rparr>"
  have "date_valid ?t" by code_simp
  from week_is_day_count [OF this] have "getWeek 2016 2 29 = (int (gmt_days ?t) + 6) mod 7" by simp
  moreover have "getWeek 2016 2 29 = 1" by code_simp
  ultimately show ?thesis by blast
qed

text \<open>
  a GMT time printed in the canonical form (year, month, day, T, hour, minute, second, dot,
  milliseconds, Z) is read back as the same time, for every valid time from 2001 to 9999.
\<close>

theorem gmt_text_roundtrip:
  assumes "gmt_valid t" "2000 < year t" "year t < 10000"
  shows "parseGMTTimeFromString (Some (gmt_text t ms)) g = (True, t)"
  using assms by (rule parseGMT_gmt_text)

theorem gmt_text_roundtrip_witness:
  "parseGMTTimeFromString (Some (gmt_text (current_time clock_sample) 7)) (current_time clock_init)
     = (True, current_time clock_sample)"
proof -
  have "gmt_valid (current_time clock_sample)" "2000 < year (current_time clock_sample)"
    "year (current_time clock_sample) < 10000"
    by (simp_all add: clock_sample_def gmt_valid_def date_valid_def month_len_def leap_def)
  then show ?thesis by (rule gmt_text_roundtrip)
qed

text \<open>
  the cron string for a minute, an hour or \<open>*\<close> and a list of week days parses to exactly
  that minute, that hour (24 for \<open>*\<close>) and the set of those week days (all seven for \<open>*\<close>).
\<close>

theorem cron_text_roundtrip:
  assumes "m < 60" "case h of None \<Rightarrow> True | Some k \<Rightarrow> k < 24" "\<forall>d \<in> set ds. d < 7" "length ds \<le> 7"
  shows "parseCronFromString (Some (cron_text m h ds)) c = Some (True, cron_meaning m h ds)"
  using assms by (rule parseCron_cron_text)

theorem cron_text_roundtrip_witness:
  "parseCronFromString (Some (cron_text 30 (Some 7) [1, 3, 5])) \<lparr>cron_weeks = [], cron_hour = 0, cron_minute = 0\<rparr>
     = Some (True, cron_meaning 30 (Some 7) [1, 3, 5])"
  by (rule cron_text_roundtrip) simp_all

end
