(* ===== verification/SendQueue.thy ===== *)
theory SendQueue
  imports FwPrelude
begin

text \<open>
  The two outgoing message queues: \<open>app/user/iotgo_queue.c\<close> (messages to the server, one static
  queue) and \<open>app/user/iotgo_uart0_send_queue.c\<close> (messages to the serial port, the queue is an
  argument).  Both are linked lists of at most ten nodes in allocated memory; the heap, the
  pointers and every allocation and release are explicit here, and the address 0 is the null
  pointer.  The allocator is a parameter of the model.  The queues refine a bounded list of
  (type, bytes) pairs and leave the rest of the heap as they found it; what a sender relies
  on is the locale \<open>send_queue\<close>.
\<close>

subsection \<open>Heap and state\<close>

record qNode =
  n_data :: nat
  n_next :: nat
  n_type :: nat

datatype block = Buf bytes | Node qNode

type_synonym heap = "nat \<rightharpoonup> block"

record linkQueue =
  q_heap :: heap
  q_head :: nat
  q_tail :: nat
  q_length :: nat

definition IOTGO_PING :: nat where
  "IOTGO_PING = 3"

definition node_at :: "heap \<Rightarrow> nat \<Rightarrow> qNode option" where
  "node_at h p = (case h p of Some (Node nd) \<Rightarrow> if p = 0 then None else Some nd | _ \<Rightarrow> None)"

definition os_free :: "nat \<Rightarrow> heap \<Rightarrow> heap option" where
  "os_free p h = (if p = 0 then Some h else if h p = None then None else Some (h(p := None)))"

subsection \<open>Operations\<close>

text \<open>A message is copied up to its terminator; a ping is six raw bytes.\<close>

definition copy_data :: "bytes \<Rightarrow> nat \<Rightarrow> bytes option" where
  "copy_data data type =
     (if type \<noteq> IOTGO_PING then
        if 0 \<in> set data then Some (takeWhile (\<lambda>b. b \<noteq> 0) data @ [0]) else None
      else if 6 \<le> length data then Some (take 6 data) else None)"

definition iotgoInsertNode ::
    "(heap \<Rightarrow> nat option) \<Rightarrow> bytes option \<Rightarrow> nat \<Rightarrow> linkQueue \<Rightarrow> (bool \<times> linkQueue) option" where
  "iotgoInsertNode os_malloc data type q =
     (case data of
        None \<Rightarrow> Some (False, q)
      | Some data \<Rightarrow>
          if q_length q \<ge> 10 then Some (False, q)
          else do {
            content \<leftarrow> copy_data data type;
            data_temp \<leftarrow> os_malloc (q_heap q);
            let h = (q_heap q)(data_temp \<mapsto> Buf content);
            node \<leftarrow> os_malloc h;
            let h = h(node \<mapsto> Node \<lparr>n_data = data_temp, n_next = 0, n_type = type\<rparr>);
            if q_tail q = 0 then
              Some (True, \<lparr>q_heap = h, q_head = node, q_tail = node, q_length = 1\<rparr>)
            else do {
              tl \<leftarrow> node_at h (q_tail q);
              Some (True, q\<lparr>q_heap := h(q_tail q \<mapsto> Node (tl\<lparr>n_next := node\<rparr>)), q_tail := node,
                            q_length := to_u8 (int (q_length q) + 1)\<rparr>)
            }
          })"

definition iotgoQueueDeleteHead :: "linkQueue \<Rightarrow> linkQueue option" where
  "iotgoQueueDeleteHead q =
     (if q_head q = 0 then Some q
      else do {
        node \<leftarrow> node_at (q_heap q) (q_head q);
        let q' = (if q_head q = q_tail q then q\<lparr>q_head := 0, q_tail := 0, q_length := 0\<rparr>
                  else q\<lparr>q_head := n_next node, q_length := to_u8 (int (q_length q) - 1)\<rparr>);
        h \<leftarrow> os_free (n_data node) (q_heap q);
        h \<leftarrow> os_free (q_head q) h;
        Some (q'\<lparr>q_heap := h\<rparr>)
      })"

partial_function (option) delete_loop :: "nat \<Rightarrow> linkQueue \<Rightarrow> nat \<Rightarrow> linkQueue option" where
  "delete_loop type q node =
     Option.bind (node_at (q_heap q) node) (\<lambda>nd.
       if n_next nd = 0 then Some q
       else Option.bind (node_at (q_heap q) (n_next nd)) (\<lambda>node_temp.
         if n_type node_temp = type then
           (let q' = q\<lparr>q_heap := (q_heap q)(node \<mapsto> Node (nd\<lparr>n_next := n_next node_temp\<rparr>))\<rparr>;
                q' = (if n_next node_temp = 0 then q'\<lparr>q_tail := node\<rparr> else q')
            in Option.bind (os_free (n_data node_temp) (q_heap q')) (\<lambda>h.
               Option.bind (os_free (n_next nd) h) (\<lambda>h.
               Some (q'\<lparr>q_heap := h, q_length := to_u8 (int (q_length q') - 1)\<rparr>))))
         else delete_loop type q (n_next nd)))"

definition iotgoDeleteType :: "nat \<Rightarrow> linkQueue \<Rightarrow> linkQueue option" where
  "iotgoDeleteType type q =
     (if q_head q = 0 then Some q
      else do {
        node \<leftarrow> node_at (q_heap q) (q_head q);
        if n_type node = type then iotgoQueueDeleteHead q
        else delete_loop type q (q_head q)
      })"

text \<open>Printing only reads: the result is whether the traversal returns.\<close>

partial_function (option) print_loop :: "heap \<Rightarrow> nat \<Rightarrow> unit option" where
  "print_loop h node =
     (if node = 0 then Some ()
      else Option.bind (node_at h node) (\<lambda>nd.
        if n_type nd \<noteq> IOTGO_PING \<and>
           (case h (n_data nd) of Some (Buf bs) \<Rightarrow> 0 \<notin> set bs | _ \<Rightarrow> True) then None
        else print_loop h (n_next nd)))"

definition iotgoPrintLinkQueue :: "linkQueue \<Rightarrow> unit option" where
  "iotgoPrintLinkQueue q = print_loop (q_heap q) (q_head q)"

fun delete_heads :: "nat \<Rightarrow> linkQueue \<Rightarrow> linkQueue option" where
  "delete_heads 0 q = Some q"
| "delete_heads (Suc i) q = Option.bind (iotgoQueueDeleteHead q) (delete_heads i)"

definition iotgoQueueDeleteAll :: "linkQueue \<Rightarrow> linkQueue option" where
  "iotgoQueueDeleteAll q = delete_heads (q_length q) q"

text \<open>
  The result: the returned flag, whether the core task is told (\<open>MSG_CORE_SEND_JSON\<close>) and the
  queue afterwards.
\<close>

definition iotgoQueueAdd ::
    "(heap \<Rightarrow> nat option) \<Rightarrow> bytes option \<Rightarrow> nat \<Rightarrow> bool \<Rightarrow> linkQueue \<Rightarrow> (bool \<times> bool \<times> linkQueue) option" where
  "iotgoQueueAdd os_malloc data type del_type_flag q =
     do {
       (length_before_delete, q) \<leftarrow>
         (if del_type_flag then map_option (Pair (q_length q)) (iotgoDeleteType type q)
          else Some (0, q));
       (ok, q) \<leftarrow> iotgoInsertNode os_malloc data type q;
       if \<not> ok then Some (False, False, q)
       else do {
         iotgoPrintLinkQueue q;
         Some (True, q_length q = 1 \<and> length_before_delete = 0, q)
       }
     }"

definition iotgoQueueHeadType :: "linkQueue \<Rightarrow> nat option" where
  "iotgoQueueHeadType q = map_option n_type (node_at (q_heap q) (q_head q))"

definition iotgoQueueHeadData :: "linkQueue \<Rightarrow> bytes option" where
  "iotgoQueueHeadData q =
     do {
       node \<leftarrow> node_at (q_heap q) (q_head q);
       case q_heap q (n_data node) of Some (Buf bs) \<Rightarrow> Some bs | _ \<Rightarrow> None
     }"

definition iotgoQueueLength :: "linkQueue \<Rightarrow> nat" where
  "iotgoQueueLength q = q_length q"

text \<open>
  The serial queue is the same code with the queue as an argument; \<open>None\<close> is the null pointer.
  The callback is a static of the module: whether it is set, and whether it was called.
\<close>

definition tcCreateLinkQueue :: "heap \<Rightarrow> bool \<Rightarrow> linkQueue \<times> bool" where
  "tcCreateLinkQueue h action = (\<lparr>q_heap = h, q_head = 0, q_tail = 0, q_length = 0\<rparr>, action)"

definition tcInsertNode ::
    "(heap \<Rightarrow> nat option) \<Rightarrow> linkQueue option \<Rightarrow> bytes option \<Rightarrow> nat \<Rightarrow> (bool \<times> linkQueue option) option" where
  "tcInsertNode os_malloc q data type =
     (case q of
        None \<Rightarrow> Some (False, None)
      | Some q \<Rightarrow> map_option (map_prod id Some) (iotgoInsertNode os_malloc data type q))"

definition tcDeleteNode :: "linkQueue option \<Rightarrow> (bool \<times> linkQueue option) option" where
  "tcDeleteNode q =
     (case q of
        None \<Rightarrow> Some (False, None)
      | Some q \<Rightarrow> map_option (\<lambda>q'. (True, Some q')) (iotgoQueueDeleteHead q))"

definition tcDeleteType :: "linkQueue option \<Rightarrow> nat \<Rightarrow> (bool \<times> linkQueue option) option" where
  "tcDeleteType q type =
     (case q of
        None \<Rightarrow> Some (False, None)
      | Some q \<Rightarrow> map_option (\<lambda>q'. (True, Some q')) (iotgoDeleteType type q))"

definition tcPrintLinkQueue :: "linkQueue option \<Rightarrow> bool option" where
  "tcPrintLinkQueue q =
     (case q of
        None \<Rightarrow> Some False
      | Some q \<Rightarrow> map_option (\<lambda>_. True) (print_loop (q_heap q) (q_head q)))"

definition tcClearQueue :: "linkQueue option \<Rightarrow> (bool \<times> linkQueue option) option" where
  "tcClearQueue q =
     (case q of
        None \<Rightarrow> Some (False, None)
      | Some q \<Rightarrow> map_option (\<lambda>q'. (True, Some q')) (delete_heads (q_length q) q))"

definition tcAddDataToQueue ::
    "bool \<Rightarrow> (heap \<Rightarrow> nat option) \<Rightarrow> linkQueue option \<Rightarrow> bytes option \<Rightarrow> nat \<Rightarrow> bool
     \<Rightarrow> (bool \<times> bool \<times> linkQueue option) option" where
  "tcAddDataToQueue tcActionCallback os_malloc q data type del_type_flag =
     do {
       (length_before_delete, ok, q) \<leftarrow>
         (if del_type_flag then
            Option.bind q (\<lambda>q'. map_option (Pair (q_length q')) (tcDeleteType q type))
          else Some (0, True, q));
       if \<not> ok then Some (False, False, q)
       else do {
         (ok, q) \<leftarrow> tcInsertNode os_malloc q data type;
         if \<not> ok then Some (False, False, q)
         else do {
           ok \<leftarrow> tcPrintLinkQueue q;
           if \<not> ok then Some (False, False, q)
           else do {
             q' \<leftarrow> q;
             Some (True, q_length q' = 1 \<and> length_before_delete = 0 \<and> tcActionCallback, q)
           }
         }
       }
     }"

subsection \<open>The list a queue represents\<close>

text \<open>
  An entry is the address of a node, the address of its buffer, its type and its bytes.
  \<open>seg h p es e\<close>: from \<open>p\<close> the entries \<open>es\<close> are linked up to the pointer \<open>e\<close>.
\<close>

type_synonym entry = "nat \<times> nat \<times> nat \<times> bytes"

fun seg :: "heap \<Rightarrow> nat \<Rightarrow> entry list \<Rightarrow> nat \<Rightarrow> bool" where
  "seg h p [] e \<longleftrightarrow> p = e"
| "seg h p ((a, b, t, d) # es) e \<longleftrightarrow>
     p = a \<and> (\<exists>nx. h a = Some (Node \<lparr>n_data = b, n_next = nx, n_type = t\<rparr>) \<and> seg h nx es e)
     \<and> h b = Some (Buf d)"

fun addrs :: "entry list \<Rightarrow> nat list" where
  "addrs [] = []"
| "addrs ((a, b, t, d) # es) = a # b # addrs es"

definition payload :: "entry \<Rightarrow> nat \<times> bytes" where
  "payload = (\<lambda>(a, b, t, d). (t, d))"

definition terminated :: "nat \<times> bytes \<Rightarrow> bool" where
  "terminated x \<longleftrightarrow> fst x = IOTGO_PING \<or> 0 \<in> set (snd x)"

definition erep :: "heap \<Rightarrow> linkQueue \<Rightarrow> entry list \<Rightarrow> bool" where
  "erep F q es \<longleftrightarrow>
     seg (q_heap q) (q_head q) es 0 \<and> distinct (0 # addrs es)
     \<and> q_tail q = (if es = [] then 0 else fst (last es))
     \<and> q_length q = length es \<and> length es \<le> 10
     \<and> (\<forall>x \<in> set (addrs es). F x = None)
     \<and> (\<forall>x. x \<notin> set (addrs es) \<longrightarrow> q_heap q x = F x)"

definition qrep :: "heap \<Rightarrow> linkQueue \<Rightarrow> (nat \<times> bytes) list \<Rightarrow> bool" where
  "qrep F q xs \<longleftrightarrow> (\<exists>es. erep F q es \<and> map payload es = xs) \<and> (\<forall>x \<in> set xs. terminated x)"

lemma seg_append: "seg h p (es @ fs) e \<longleftrightarrow> (\<exists>m. seg h p es m \<and> seg h m fs e)"
  by (induction es arbitrary: p) fastforce+

lemma seg_snoc:
  "seg h p (es @ [(a, b, t, d)]) e \<longleftrightarrow>
     seg h p es a \<and> h a = Some (Node \<lparr>n_data = b, n_next = e, n_type = t\<rparr>) \<and> h b = Some (Buf d)"
  by (auto simp: seg_append)

lemma addrs_append [simp]: "addrs (es @ fs) = addrs es @ addrs fs"
  by (induction es rule: addrs.induct) auto

lemma seg_frame: "(\<And>x. x \<in> set (addrs es) \<Longrightarrow> h' x = h x) \<Longrightarrow> seg h' p es e = seg h p es e"
  by (induction es arbitrary: p rule: addrs.induct) auto

lemma seg_in_heap: "seg h p es e \<Longrightarrow> x \<in> set (addrs es) \<Longrightarrow> h x \<noteq> None"
  by (induction es arbitrary: p rule: addrs.induct) auto

lemma addrs_last: "es \<noteq> [] \<Longrightarrow> fst (last es) \<in> set (addrs es)"
  by (induction es rule: addrs.induct) auto

lemma erep_Nil: "erep F q [] \<longleftrightarrow> q = \<lparr>q_heap = F, q_head = 0, q_tail = 0, q_length = 0\<rparr>"
  by (cases q) (auto simp: erep_def)

lemma erep_node:
  assumes "erep F q ((a, b, t, d) # es)"
  shows "q_head q = a" and "a \<noteq> 0"
    and "\<exists>nx. q_heap q a = Some (Node \<lparr>n_data = b, n_next = nx, n_type = t\<rparr>) \<and> seg (q_heap q) nx es 0"
    and "q_heap q b = Some (Buf d)" and "b \<noteq> 0" and "a \<noteq> b"
  using assms by (auto simp: erep_def)

text \<open>An allocator gives an address that is not in use; it may fail.\<close>

definition malloc_fresh :: "(heap \<Rightarrow> nat option) \<Rightarrow> bool" where
  "malloc_fresh os_malloc \<longleftrightarrow> (\<forall>h a. os_malloc h = Some a \<longrightarrow> a \<noteq> 0 \<and> h a = None)"

lemma malloc_freshD: "malloc_fresh m \<Longrightarrow> m h = Some a \<Longrightarrow> a \<noteq> 0 \<and> h a = None"
  by (simp add: malloc_fresh_def)

subsection \<open>Insertion\<close>

lemma insert_ok:
  assumes rep: "erep F q es" and fresh: "malloc_fresh m" and room: "length es < 10"
    and content: "copy_data bs t = Some d"
    and a1: "m (q_heap q) = Some b" and a2: "m ((q_heap q)(b \<mapsto> Buf d)) = Some a"
  shows "\<exists>q'. iotgoInsertNode m (Some bs) t q = Some (True, q') \<and> erep F q' (es @ [(a, b, t, d)])"
proof -
  define h where "h = (q_heap q)(b \<mapsto> Buf d, a \<mapsto> Node \<lparr>n_data = b, n_next = 0, n_type = t\<rparr>)"
  have fr: "a \<noteq> 0" "b \<noteq> 0" "a \<noteq> b" "q_heap q a = None" "q_heap q b = None"
    using malloc_freshD [OF fresh a1] malloc_freshD [OF fresh a2] by (auto split: if_splits)
  have out: "a \<notin> set (addrs es)" "b \<notin> set (addrs es)" "F a = None" "F b = None"
    using rep fr seg_in_heap unfolding erep_def by metis+
  have keep: "h x = q_heap q x" if "x \<noteq> a" "x \<noteq> b" for x using that by (simp add: h_def)
  show ?thesis
  proof (cases es rule: rev_cases)
    case Nil
    with rep fr have "erep F \<lparr>q_heap = h, q_head = a, q_tail = a, q_length = 1\<rparr> (es @ [(a, b, t, d)])"
      using out by (auto simp: erep_def h_def)
    with rep room content a1 a2 Nil show ?thesis
      by (simp add: iotgoInsertNode_def erep_def h_def)
  next
    case (snoc fs e)
    obtain a' b' t' d' where e: "e = (a', b', t', d')" by (cases e)
    define h' where "h' = h(a' \<mapsto> Node \<lparr>n_data = b', n_next = a, n_type = t'\<rparr>)"
    from rep have seg: "seg (q_heap q) (q_head q) (fs @ [(a', b', t', d')]) 0" and tail: "q_tail q = a'"
      and nz: "a' \<noteq> 0" "a' \<noteq> b'" "a' \<notin> set (addrs fs)"
      by (auto simp: erep_def snoc e)
    from out have ne: "a \<noteq> a'" "a \<noteq> b'" "b \<noteq> a'" "b \<noteq> b'" by (auto simp: snoc e)
    have "seg h' (q_head q) fs a'"
      using seg out nz by (subst seg_frame [of fs h' "q_heap q"])
        (auto simp: seg_snoc h'_def snoc e intro!: keep)
    then have "seg h' (q_head q) (es @ [(a, b, t, d)]) 0"
      using seg ne nz fr by (simp add: snoc e seg_append) (simp add: h'_def h_def seg_snoc)
    moreover have "\<forall>x. x \<notin> set (addrs (es @ [(a, b, t, d)])) \<longrightarrow> h' x = F x"
      using rep by (auto simp: erep_def h'_def snoc e keep)
    ultimately have "erep F (q\<lparr>q_heap := h', q_tail := a, q_length := Suc (q_length q)\<rparr>)
        (es @ [(a, b, t, d)])"
      using rep room out fr by (auto simp: erep_def)
    moreover have "node_at h a' = Some \<lparr>n_data = b', n_next = 0, n_type = t'\<rparr>"
      using seg ne nz by (simp add: node_at_def keep seg_snoc)
    moreover have "q_length q < 10" using rep room by (simp add: erep_def)
    ultimately show ?thesis
      using content a1 a2 tail nz by (simp add: iotgoInsertNode_def h_def [symmetric] h'_def to_u8_add1)
  qed
qed

lemma insert_full: "erep F q es \<Longrightarrow> \<not> length es < 10 \<Longrightarrow> iotgoInsertNode m bs t q = Some (False, q)"
  by (simp add: iotgoInsertNode_def erep_def split: option.split)

subsection \<open>Deletion\<close>

lemma delete_head_ok:
  assumes rep: "erep F q (e # es)"
  shows "\<exists>q'. iotgoQueueDeleteHead q = Some q' \<and> erep F q' es"
proof -
  obtain a b t d where e: "e = (a, b, t, d)" by (cases e)
  note n = erep_node [OF rep [unfolded e]]
  then obtain nx where nx: "q_heap q a = Some (Node \<lparr>n_data = b, n_next = nx, n_type = t\<rparr>)"
    and seg: "seg (q_heap q) nx es 0" by blast
  define h where "h = (q_heap q)(b := None, a := None)"
  have "seg h nx es 0"
    using seg rep by (subst seg_frame [of es h "q_heap q"]) (auto simp: h_def erep_def e)
  then have "erep F (q\<lparr>q_heap := h, q_head := nx, q_tail := (if es = [] then 0 else q_tail q),
      q_length := length es\<rparr>) es"
    using rep by (auto simp: erep_def e h_def)
  moreover have "q_head q = q_tail q \<longleftrightarrow> es = []"
    using rep addrs_last [of es] by (auto simp: erep_def e)
  moreover have "to_u8 (int (q_length q) - 1) = length es"
    using rep to_u8_small [of "length es"] by (simp add: erep_def)
  moreover have "es = [] \<Longrightarrow> nx = 0" using seg by simp
  ultimately show ?thesis
    using n nx rep by (auto simp: iotgoQueueDeleteHead_def node_at_def os_free_def h_def erep_def)
qed

fun remove_type :: "nat \<Rightarrow> (nat \<times> bytes) list \<Rightarrow> (nat \<times> bytes) list" where
  "remove_type t [] = []"
| "remove_type t (x # xs) = (if fst x = t then xs else x # remove_type t xs)"

lemma remove_type_subset: "set (remove_type t xs) \<subseteq> set xs"
  by (induction xs) auto

lemma erep_prefix_node:
  assumes "erep F q (pre @ (a, b, t, d) # es)"
  shows "\<exists>nx. node_at (q_heap q) a = Some \<lparr>n_data = b, n_next = nx, n_type = t\<rparr> \<and> seg (q_heap q) nx es 0
     \<and> q_heap q a = Some (Node \<lparr>n_data = b, n_next = nx, n_type = t\<rparr>)
     \<and> (es = [] \<longleftrightarrow> nx = 0)"
proof -
  from assms obtain nx where nx: "q_heap q a = Some (Node \<lparr>n_data = b, n_next = nx, n_type = t\<rparr>)"
    "seg (q_heap q) nx es 0" "a \<noteq> 0"
    by (auto simp: erep_def seg_append)
  moreover have "0 \<notin> set (addrs es)" using assms by (simp add: erep_def)
  ultimately show ?thesis by (cases es) (auto simp: node_at_def)
qed

lemma delete_unlink:
  assumes rep: "erep F q (pre @ (a, b, t, d) # (a', b', t', d') # es)"
  shows "\<exists>q'. delete_loop t' q a = Some q' \<and> erep F q' (pre @ (a, b, t, d) # es)"
proof -
  note n1 = erep_prefix_node [OF rep]
  have "erep F q ((pre @ [(a, b, t, d)]) @ (a', b', t', d') # es)" using rep by simp
  note n2 = erep_prefix_node [OF this]
  from n1 have a: "node_at (q_heap q) a = Some \<lparr>n_data = b, n_next = a', n_type = t\<rparr>" by auto
  from n2 obtain nx where a': "node_at (q_heap q) a' = Some \<lparr>n_data = b', n_next = nx, n_type = t'\<rparr>"
    and seg: "seg (q_heap q) nx es 0" and nx: "es = [] \<longleftrightarrow> nx = 0" by blast
  have heap: "q_heap q a' \<noteq> None" "q_heap q b' \<noteq> None" "q_heap q b = Some (Buf d)"
    "seg (q_heap q) (q_head q) pre a"
    using rep by (auto simp: erep_def seg_append)
  have dist: "distinct (0 # addrs (pre @ (a, b, t, d) # (a', b', t', d') # es))"
    using rep by (simp add: erep_def)
  define h where "h = (q_heap q)(a \<mapsto> Node \<lparr>n_data = b, n_next = nx, n_type = t\<rparr>, b' := None, a' := None)"
  define q' where "q' = q\<lparr>q_heap := h, q_tail := (if nx = 0 then a else q_tail q),
    q_length := to_u8 (int (q_length q) - 1)\<rparr>"
  have "seg h (q_head q) pre a"
    using heap dist by (subst seg_frame [of pre h "q_heap q"]) (auto simp: h_def)
  moreover have "seg h nx es 0"
    using seg dist by (subst seg_frame [of es h "q_heap q"]) (auto simp: h_def)
  ultimately have "seg h (q_head q) (pre @ (a, b, t, d) # es) 0"
    using dist heap by (auto simp: seg_append h_def)
  moreover have "to_u8 (int (q_length q) - 1) = length (pre @ (a, b, t, d) # es)"
  proof -
    have "int (q_length q) - 1 = int (length (pre @ (a, b, t, d) # es))"
      and "length (pre @ (a, b, t, d) # es) < 256"
      using rep by (simp_all add: erep_def)
    then show ?thesis by (simp only: to_u8_small)
  qed
  moreover have "\<forall>x. x \<notin> set (addrs (pre @ (a, b, t, d) # es)) \<longrightarrow> h x = F x"
    using rep by (auto simp: erep_def h_def)
  moreover have "distinct (0 # addrs (pre @ (a, b, t, d) # es))"
    using dist by simp
  moreover have "q_tail q' = fst (last (pre @ (a, b, t, d) # es))"
    using rep nx by (cases "es = []") (simp_all add: q'_def erep_def)
  moreover have "\<forall>x \<in> set (addrs (pre @ (a, b, t, d) # es)). F x = None"
    using rep by (simp add: erep_def)
  moreover have "length (pre @ (a, b, t, d) # es) \<le> 10"
    using rep by (simp add: erep_def)
  moreover have "q_head q' = q_head q" "q_heap q' = h" "q_length q' = to_u8 (int (q_length q) - 1)"
    by (simp_all add: q'_def)
  ultimately have "erep F q' (pre @ (a, b, t, d) # es)"
    by (simp add: erep_def)
  moreover have "delete_loop t' q a = Some q'"
  proof -
    have ne: "a' \<noteq> 0" "b' \<noteq> 0" "b' \<noteq> a" "a' \<noteq> a" "b' \<noteq> a'" using dist by auto
    then have "os_free b' ((q_heap q)(a \<mapsto> Node \<lparr>n_data = b, n_next = nx, n_type = t\<rparr>)) =
        Some ((q_heap q)(a \<mapsto> Node \<lparr>n_data = b, n_next = nx, n_type = t\<rparr>, b' := None))"
      using heap(2) by (simp add: os_free_def)
    moreover have "os_free a' ((q_heap q)(a \<mapsto> Node \<lparr>n_data = b, n_next = nx, n_type = t\<rparr>, b' := None)) = Some h"
      using heap(1) ne by (simp add: os_free_def h_def)
    ultimately show ?thesis
      using a a' ne(1) by (subst delete_loop.simps) (cases "nx = 0"; simp add: q'_def Let_def)
  qed
  ultimately show ?thesis by blast
qed

lemma delete_loop_ok:
  "erep F q (pre @ (a, b, t, d) # es) \<Longrightarrow>
     \<exists>q' es'. delete_loop ty q a = Some q' \<and> erep F q' (pre @ (a, b, t, d) # es')
       \<and> map payload es' = remove_type ty (map payload es)"
proof (induction es arbitrary: pre a b t d)
  case Nil
  from erep_prefix_node [OF Nil] Nil show ?case
    by (subst delete_loop.simps) (auto intro!: exI [of _ "[]"])
next
  case (Cons e es)
  obtain a' b' t' d' where e: "e = (a', b', t', d')" by (cases e)
  show ?case
  proof (cases "t' = ty")
    case True
    with delete_unlink [of F q pre a b t d a' b' t' d' es] Cons.prems show ?thesis
      by (auto simp: e payload_def)
  next
    case False
    have rep': "erep F q ((pre @ [(a, b, t, d)]) @ (a', b', t', d') # es)"
      using Cons.prems by (simp add: e)
    from Cons.IH [OF this] obtain q' es' where q': "delete_loop ty q a' = Some q'"
      "erep F q' (pre @ (a, b, t, d) # (a', b', t', d') # es')"
      "map payload es' = remove_type ty (map payload es)" by auto
    from erep_prefix_node [OF Cons.prems] have "node_at (q_heap q) a = Some \<lparr>n_data = b, n_next = a', n_type = t\<rparr>"
      by (auto simp: e)
    moreover from erep_prefix_node [OF rep'] obtain nx where
      "node_at (q_heap q) a' = Some \<lparr>n_data = b', n_next = nx, n_type = t'\<rparr>" by blast
    moreover have "a' \<noteq> 0" using Cons.prems by (auto simp: e erep_def)
    ultimately have "delete_loop ty q a = delete_loop ty q a'"
      using False by (subst delete_loop.simps) simp
    with q' False show ?thesis
      by (intro exI [of _ q'] exI [of _ "(a', b', t', d') # es'"]) (simp add: e payload_def)
  qed
qed

lemma delete_type_ok:
  assumes "qrep F q xs"
  shows "\<exists>q'. iotgoDeleteType ty q = Some q' \<and> qrep F q' (remove_type ty xs)"
proof -
  from assms obtain es where rep: "erep F q es" and xs: "map payload es = xs"
    and tm: "\<forall>x \<in> set (remove_type ty xs). terminated x"
    unfolding qrep_def using remove_type_subset by blast
  show ?thesis
  proof (cases es)
    case Nil
    with rep xs show ?thesis by (auto simp: iotgoDeleteType_def erep_Nil qrep_def)
  next
    case (Cons e fs)
    obtain a b t d where e: "e = (a, b, t, d)" by (cases e)
    have head: "q_head q = a" "a \<noteq> 0" using rep by (auto simp: Cons e erep_def)
    from erep_prefix_node [of F q "[]" a b t d fs] rep obtain nx where
      nx: "node_at (q_heap q) a = Some \<lparr>n_data = b, n_next = nx, n_type = t\<rparr>" by (auto simp: Cons e)
    show ?thesis
    proof (cases "t = ty")
      case True
      from delete_head_ok [of F q e fs] rep obtain q' where "iotgoQueueDeleteHead q = Some q'" "erep F q' fs"
        by (auto simp: Cons)
      then show ?thesis using True head nx xs tm
        by (auto simp: iotgoDeleteType_def qrep_def Cons e payload_def)
    next
      case False
      from delete_loop_ok [of F q "[]" a b t d fs ty] rep obtain q' es' where
        "delete_loop ty q a = Some q'" "erep F q' ((a, b, t, d) # es')"
        "map payload es' = remove_type ty (map payload fs)" by (auto simp: Cons e)
      moreover from this have "map payload ((a, b, t, d) # es') = remove_type ty xs"
        using xs False by (simp add: Cons e payload_def flip: xs)
      ultimately show ?thesis using False head nx tm
        by (auto simp: iotgoDeleteType_def qrep_def)
    qed
  qed
qed

lemma queue_pop:
  assumes "qrep F q (x # xs)"
  shows "\<exists>q'. iotgoQueueDeleteHead q = Some q' \<and> qrep F q' xs"
    and "iotgoQueueHeadType q = Some (fst x)" and "iotgoQueueHeadData q = Some (snd x)"
proof -
  from assms obtain a b t d es where rep: "erep F q ((a, b, t, d) # es)"
    and x: "x = (t, d)" "xs = map payload es" and tm: "\<forall>x \<in> set xs. terminated x"
    unfolding qrep_def by (auto simp: payload_def map_eq_Cons_conv)
  with delete_head_ok [OF rep] show "\<exists>q'. iotgoQueueDeleteHead q = Some q' \<and> qrep F q' xs"
    by (auto simp: qrep_def)
  from erep_node [OF rep] x show "iotgoQueueHeadType q = Some (fst x)" "iotgoQueueHeadData q = Some (snd x)"
    by (auto simp: iotgoQueueHeadType_def iotgoQueueHeadData_def node_at_def)
qed

lemma queue_empty:
  "qrep F q [] \<longleftrightarrow> q = \<lparr>q_heap = F, q_head = 0, q_tail = 0, q_length = 0\<rparr>"
  by (simp add: qrep_def erep_Nil)

lemma queue_length: "qrep F q xs \<Longrightarrow> q_length q = length xs \<and> length xs \<le> 10"
  by (auto simp: qrep_def erep_def)

lemma delete_heads_ok: "qrep F q xs \<Longrightarrow> n = length xs \<Longrightarrow> \<exists>q'. delete_heads n q = Some q' \<and> qrep F q' []"
proof (induction n arbitrary: q xs)
  case (Suc n)
  then obtain x ys where "xs = x # ys" by (cases xs) auto
  with queue_pop(1) Suc.prems obtain q1 where "iotgoQueueDeleteHead q = Some q1" "qrep F q1 ys" by blast
  with Suc.IH Suc.prems \<open>xs = x # ys\<close> show ?case by simp
qed simp

lemma queue_delete_all:
  assumes "qrep F q xs"
  shows "iotgoQueueDeleteAll q = Some \<lparr>q_heap = F, q_head = 0, q_tail = 0, q_length = 0\<rparr>"
  using delete_heads_ok [OF assms refl] queue_length [OF assms]
  by (auto simp: iotgoQueueDeleteAll_def queue_empty)

subsection \<open>Adding a message\<close>

lemma print_loop_ok:
  "seg h p es 0 \<Longrightarrow> 0 \<notin> set (addrs es) \<Longrightarrow> \<forall>e \<in> set es. terminated (payload e) \<Longrightarrow> print_loop h p = Some ()"
proof (induction h p es "0 :: nat" rule: seg.induct)
  case (1 h p)
  then show ?case by (simp add: print_loop.simps)
next
  case (2 h p a b t d es)
  then obtain nx where nx: "h a = Some (Node \<lparr>n_data = b, n_next = nx, n_type = t\<rparr>)" "seg h nx es 0"
    "h b = Some (Buf d)" "p = a" by auto
  with 2 have "print_loop h nx = Some ()" by simp
  moreover have "t = IOTGO_PING \<or> 0 \<in> set d" using 2 by (simp add: terminated_def payload_def)
  ultimately show ?case
    using 2 nx by (subst print_loop.simps) (auto simp: node_at_def)
qed

lemma queue_print: "qrep F q xs \<Longrightarrow> iotgoPrintLinkQueue q = Some ()"
  unfolding iotgoPrintLinkQueue_def qrep_def by (auto simp: erep_def intro!: print_loop_ok)

lemma copy_data_terminated: "copy_data bs t = Some d \<Longrightarrow> terminated (t, d)"
  by (auto simp: copy_data_def terminated_def split: if_splits)

text \<open>An allocator that does not run out while finitely much is in use.\<close>

definition malloc_ok :: "(heap \<Rightarrow> nat option) \<Rightarrow> bool" where
  "malloc_ok os_malloc \<longleftrightarrow> malloc_fresh os_malloc \<and> (\<forall>h. finite (dom h) \<longrightarrow> os_malloc h \<noteq> None)"

lemma erep_finite: "erep F q es \<Longrightarrow> finite (dom F) \<Longrightarrow> finite (dom (q_heap q))"
proof -
  assume rep: "erep F q es" and fin: "finite (dom F)"
  have "dom (q_heap q) \<subseteq> dom F \<union> set (addrs es)"
    using rep by (auto simp: erep_def)
  then show ?thesis using fin by (metis List.finite_set finite_Un finite_subset)
qed

lemma insert_spec:
  assumes rep: "qrep F q xs" and m: "malloc_ok m" and fin: "finite (dom F)"
    and content: "copy_data bs t = Some d"
  shows "\<exists>q'. iotgoInsertNode m (Some bs) t q = Some (length xs < 10, q')
      \<and> qrep F q' (if length xs < 10 then xs @ [(t, d)] else xs)"
proof -
  from rep obtain es where es: "erep F q es" "map payload es = xs" by (auto simp: qrep_def)
  show ?thesis
  proof (cases "length es < 10")
    case True
    have "finite (dom (q_heap q))" using es fin by (auto intro: erep_finite)
    then obtain b a where "m (q_heap q) = Some b" "m ((q_heap q)(b \<mapsto> Buf d)) = Some a"
      using m unfolding malloc_ok_def by (metis dom_fun_upd finite_insert option.distinct(1) not_None_eq)
    with insert_ok [OF es(1) _ True content, of m b a] m obtain q' where
      "iotgoInsertNode m (Some bs) t q = Some (True, q')" "erep F q' (es @ [(a, b, t, d)])"
      unfolding malloc_ok_def by blast
    then show ?thesis
      using True es rep copy_data_terminated [OF content]
      by (auto simp: qrep_def payload_def intro!: exI [of _ "es @ [(a, b, t, d)]"])
  next
    case False
    then show ?thesis using insert_full [OF es(1) False] rep es by auto
  qed
qed

text \<open>What adding a message means: drop the queued message of the same type if asked, append if
  there is room, and tell the sender exactly when the queue was empty.\<close>

definition add_spec :: "nat \<Rightarrow> bool \<Rightarrow> bytes \<Rightarrow> (nat \<times> bytes) list \<Rightarrow> bool \<times> bool \<times> (nat \<times> bytes) list" where
  "add_spec t del d xs =
     (let ys = (if del then remove_type t xs else xs)
      in if length ys < 10 then (True, xs = [], ys @ [(t, d)]) else (False, False, ys))"

lemma queue_add_ok:
  assumes rep: "qrep F q xs" and m: "malloc_ok m" and fin: "finite (dom F)"
    and content: "copy_data bs t = Some d"
  shows "\<exists>ok post ys q'. add_spec t del d xs = (ok, post, ys)
      \<and> iotgoQueueAdd m (Some bs) t del q = Some (ok, post, q') \<and> qrep F q' ys"
proof -
  define ys where "ys = (if del then remove_type t xs else xs)"
  define before where "before = (if del then length xs else 0)"
  obtain q1 where q1: "qrep F q1 ys"
    and del: "(if del then map_option (Pair (q_length q)) (iotgoDeleteType t q) else Some (0, q)) = Some (before, q1)"
    using delete_type_ok [OF rep, of t] queue_length [OF rep] rep
    by (cases del) (fastforce simp: ys_def before_def)+
  from insert_spec [OF q1 m fin content] obtain q2 where
    q2: "iotgoInsertNode m (Some bs) t q1 = Some (length ys < 10, q2)"
    "qrep F q2 (if length ys < 10 then ys @ [(t, d)] else ys)" by blast
  have post: "(ys = [] \<and> before = 0) = (xs = [])"
    by (auto simp: ys_def before_def)
  have run: "iotgoQueueAdd m (Some bs) t del q =
      (if length ys < 10 then Some (True, q_length q2 = 1 \<and> before = 0, q2) else Some (False, False, q2))"
    unfolding iotgoQueueAdd_def del by (simp add: q2(1) queue_print [OF q2(2)])
  have spec: "add_spec t del d xs =
      (if length ys < 10 then (True, xs = [], ys @ [(t, d)]) else (False, False, ys))"
    by (simp add: add_spec_def ys_def [symmetric])
  show ?thesis
  proof (cases "length ys < 10")
    case True
    with q2(2) queue_length [OF q2(2)] have "q_length q2 = 1 \<longleftrightarrow> ys = []" by simp
    with True q2(2) run spec post show ?thesis by auto
  next
    case False
    with q2(2) run spec show ?thesis by auto
  qed
qed

subsection \<open>What a sender relies on\<close>

text \<open>A sender takes messages from the head until the queue is empty.\<close>

fun drain :: "('s \<Rightarrow> nat option) \<Rightarrow> ('s \<Rightarrow> bytes option) \<Rightarrow> ('s \<Rightarrow> 's option) \<Rightarrow> nat \<Rightarrow> 's
    \<Rightarrow> ((nat \<times> bytes) list \<times> 's) option" where
  "drain ty dat del 0 s = Some ([], s)"
| "drain ty dat del (Suc n) s =
     do {
       t \<leftarrow> ty s;
       d \<leftarrow> dat s;
       s' \<leftarrow> del s;
       (msgs, s'') \<leftarrow> drain ty dat del n s';
       Some ((t, d) # msgs, s'')
     }"

fun add_all :: "(nat \<Rightarrow> bool \<Rightarrow> bytes \<Rightarrow> 's \<Rightarrow> (bool \<times> bool \<times> 's) option) \<Rightarrow> (nat \<times> bytes) list \<Rightarrow> 's \<Rightarrow> 's option" where
  "add_all add [] s = Some s"
| "add_all add ((t, bs) # ms) s =
     do {
       (ok, post, s') \<leftarrow> add t False bs s;
       add_all add ms s'
     }"

locale send_queue =
  fixes rep :: "'s \<Rightarrow> (nat \<times> bytes) list \<Rightarrow> bool"
    and len :: "'s \<Rightarrow> nat"
    and ty :: "'s \<Rightarrow> nat option"
    and dat :: "'s \<Rightarrow> bytes option"
    and del :: "'s \<Rightarrow> 's option"
    and add :: "nat \<Rightarrow> bool \<Rightarrow> bytes \<Rightarrow> 's \<Rightarrow> (bool \<times> bool \<times> 's) option"
  assumes len: "rep s xs \<Longrightarrow> len s = length xs"
    and head: "rep s (x # xs) \<Longrightarrow> ty s = Some (fst x) \<and> dat s = Some (snd x)"
    and del: "rep s (x # xs) \<Longrightarrow> \<exists>s'. del s = Some s' \<and> rep s' xs"
    and add: "rep s xs \<Longrightarrow> copy_data bs t = Some d \<Longrightarrow>
      \<exists>ok post ys s'. add_spec t merge d xs = (ok, post, ys) \<and> add t merge bs s = Some (ok, post, s') \<and> rep s' ys"
begin

lemma drain_all: "rep s xs \<Longrightarrow> \<exists>s'. drain ty dat del (len s) s = Some (xs, s') \<and> rep s' []"
proof (induction xs arbitrary: s)
  case Nil
  then show ?case by (simp add: len)
next
  case (Cons x xs)
  from del [OF Cons.prems] obtain s1 where s1: "del s = Some s1" "rep s1 xs" by blast
  with Cons.IH obtain s2 where "drain ty dat del (len s1) s1 = Some (xs, s2)" "rep s2 []" by blast
  with s1 Cons.prems head [OF Cons.prems] show ?case by (simp add: len)
qed

lemma add_all_ok:
  "rep s xs \<Longrightarrow> list_all2 (\<lambda>(t, bs) (t', d). t = t' \<and> copy_data bs t = Some d) ms ds \<Longrightarrow> length xs + length ms \<le> 10 \<Longrightarrow>
     \<exists>s'. add_all add ms s = Some s' \<and> rep s' (xs @ ds)"
proof (induction ms arbitrary: s xs ds)
  case (Cons m ms)
  obtain t bs where m: "m = (t, bs)" by (cases m)
  from Cons.prems m obtain d ds' where ds: "ds = (t, d) # ds'" "copy_data bs t = Some d"
    "list_all2 (\<lambda>(t, bs) (t', d). t = t' \<and> copy_data bs t = Some d) ms ds'"
    by (auto simp: list_all2_Cons1)
  from add [OF Cons.prems(1) ds(2), of False] Cons.prems(3) obtain ok post s1 where
    s1: "add t False bs s = Some (ok, post, s1)" "rep s1 (xs @ [(t, d)])"
    by (auto simp: add_spec_def)
  with Cons.IH [OF s1(2) ds(3)] Cons.prems(3) show ?case by (auto simp: m ds)
qed simp

lemma add_all_drain:
  assumes "rep s []" and "list_all2 (\<lambda>(t, bs) (t', d). t = t' \<and> copy_data bs t = Some d) ms ds" and "length ms \<le> 10"
  shows "\<exists>s1 s2. add_all add ms s = Some s1 \<and> drain ty dat del (len s1) s1 = Some (ds, s2) \<and> rep s2 []"
  using add_all_ok [OF assms(1,2)] assms(3) drain_all by fastforce

end

text \<open>The server queue and the serial queue, each with its allocator.\<close>

type_synonym queue_state = "(heap \<Rightarrow> nat option) \<times> linkQueue"

definition queue_rep :: "queue_state \<Rightarrow> (nat \<times> bytes) list \<Rightarrow> bool" where
  "queue_rep s xs \<longleftrightarrow> malloc_ok (fst s) \<and> (\<exists>F. finite (dom F) \<and> qrep F (snd s) xs)"

definition queue_add :: "nat \<Rightarrow> bool \<Rightarrow> bytes \<Rightarrow> queue_state \<Rightarrow> (bool \<times> bool \<times> queue_state) option" where
  "queue_add t merge bs s =
     map_option (\<lambda>(ok, post, q). (ok, post, fst s, q)) (iotgoQueueAdd (fst s) (Some bs) t merge (snd s))"

definition queue_del :: "queue_state \<Rightarrow> queue_state option" where
  "queue_del s = map_option (Pair (fst s)) (iotgoQueueDeleteHead (snd s))"

interpretation server_queue: send_queue queue_rep "iotgoQueueLength \<circ> snd" "iotgoQueueHeadType \<circ> snd"
  "iotgoQueueHeadData \<circ> snd" queue_del queue_add
proof unfold_locales
  show "(iotgoQueueLength \<circ> snd) s = length xs" if "queue_rep s xs" for s xs
    using that queue_length by (auto simp: queue_rep_def iotgoQueueLength_def)
  show "(iotgoQueueHeadType \<circ> snd) s = Some (fst x) \<and> (iotgoQueueHeadData \<circ> snd) s = Some (snd x)"
    if "queue_rep s (x # xs)" for s x xs
    using that queue_pop(2,3) [of _ "snd s" x xs] by (auto simp: queue_rep_def)
  show "\<exists>s'. queue_del s = Some s' \<and> queue_rep s' xs" if "queue_rep s (x # xs)" for s x xs
  proof -
    from that obtain F where F: "malloc_ok (fst s)" "finite (dom F)" "qrep F (snd s) (x # xs)"
      by (auto simp: queue_rep_def)
    from queue_pop(1) [OF F(3)] F(1,2) show ?thesis by (auto simp: queue_rep_def queue_del_def)
  qed
  show "\<exists>ok post ys s'. add_spec t merge d xs = (ok, post, ys) \<and> queue_add t merge bs s = Some (ok, post, s')
      \<and> queue_rep s' ys" if "queue_rep s xs" "copy_data bs t = Some d" for s xs bs t d merge
  proof -
    from that obtain F where F: "malloc_ok (fst s)" "finite (dom F)" "qrep F (snd s) xs"
      by (auto simp: queue_rep_def)
    from queue_add_ok [OF F(3,1,2) that(2), of merge] F show ?thesis
      by (force simp: queue_rep_def queue_add_def)
  qed
qed

lemma tcAddDataToQueue_same:
  "tcAddDataToQueue cb m (Some q) data t del =
     map_option (\<lambda>(ok, post, q). (ok, post \<and> cb, Some q)) (iotgoQueueAdd m data t del q)"
proof -
  define del' where "del' =
    (if del then map_option (Pair (q_length q)) (iotgoDeleteType t q) else Some (0, q))"
  have 1: "(if del then Option.bind (Some q) (\<lambda>q'. map_option (Pair (q_length q')) (tcDeleteType (Some q) t))
      else Some (0, True, Some q)) = map_option (\<lambda>(n, q). (n, True, Some q)) del'"
    by (simp add: del'_def tcDeleteType_def option.map_comp comp_def)
  show ?thesis
  proof (cases del')
    case None
    then show ?thesis by (simp add: tcAddDataToQueue_def iotgoQueueAdd_def 1 del'_def [symmetric])
  next
    case (Some r)
    obtain n q1 where r: "r = (n, q1)" by (cases r)
    show ?thesis
      unfolding tcAddDataToQueue_def iotgoQueueAdd_def 1 del'_def [symmetric] Some r
      by (cases "iotgoInsertNode m data t q1"; cases "print_loop (q_heap (snd (the (iotgoInsertNode m data t q1))))
            (q_head (snd (the (iotgoInsertNode m data t q1))))")
        (auto simp: tcInsertNode_def tcPrintLinkQueue_def iotgoPrintLinkQueue_def)
  qed
qed

type_synonym tc_state = "(heap \<Rightarrow> nat option) \<times> linkQueue option"

definition tc_rep :: "tc_state \<Rightarrow> (nat \<times> bytes) list \<Rightarrow> bool" where
  "tc_rep s xs \<longleftrightarrow> (\<exists>q. snd s = Some q \<and> queue_rep (fst s, q) xs)"

definition tc_len :: "tc_state \<Rightarrow> nat" where
  "tc_len s = (case snd s of None \<Rightarrow> 0 | Some q \<Rightarrow> q_length q)"

definition tc_add :: "nat \<Rightarrow> bool \<Rightarrow> bytes \<Rightarrow> tc_state \<Rightarrow> (bool \<times> bool \<times> tc_state) option" where
  "tc_add t merge bs s =
     map_option (\<lambda>(ok, post, q). (ok, post, fst s, q)) (tcAddDataToQueue True (fst s) (snd s) (Some bs) t merge)"

definition tc_del :: "tc_state \<Rightarrow> tc_state option" where
  "tc_del s = map_option (\<lambda>(_, q). (fst s, q)) (tcDeleteNode (snd s))"

interpretation serial_queue: send_queue tc_rep tc_len "\<lambda>s. Option.bind (snd s) iotgoQueueHeadType"
  "\<lambda>s. Option.bind (snd s) iotgoQueueHeadData" tc_del tc_add
proof unfold_locales
  show "tc_len s = length xs" if "tc_rep s xs" for s xs
    using that server_queue.len by (force simp: tc_rep_def tc_len_def iotgoQueueLength_def)
  show "Option.bind (snd s) iotgoQueueHeadType = Some (fst x) \<and>
      Option.bind (snd s) iotgoQueueHeadData = Some (snd x)" if "tc_rep s (x # xs)" for s x xs
    using that server_queue.head [of "(fst s, the (snd s))" x xs] by (auto simp: tc_rep_def)
  show "\<exists>s'. tc_del s = Some s' \<and> tc_rep s' xs" if "tc_rep s (x # xs)" for s x xs
  proof -
    from that obtain q where q: "snd s = Some q" "queue_rep (fst s, q) (x # xs)" by (auto simp: tc_rep_def)
    from server_queue.del [OF this(2)] show ?thesis
      by (auto simp: q(1) queue_del_def tc_del_def tcDeleteNode_def tc_rep_def)
  qed
  show "\<exists>ok post ys s'. add_spec t merge d xs = (ok, post, ys) \<and> tc_add t merge bs s = Some (ok, post, s')
      \<and> tc_rep s' ys" if "tc_rep s xs" "copy_data bs t = Some d" for s xs bs t d merge
  proof -
    from that obtain q where q: "snd s = Some q" "queue_rep (fst s, q) xs" by (auto simp: tc_rep_def)
    from server_queue.add [OF this(2) that(2), of merge] show ?thesis
      by (auto simp: q(1) queue_add_def tc_add_def tcAddDataToQueue_same tc_rep_def)
  qed
qed

subsection \<open>Properties\<close>

text \<open>An allocator for the witnesses: one more than the largest address in use.\<close>

definition bump_malloc :: "heap \<Rightarrow> nat option" where
  "bump_malloc h = (if finite (dom h) then Some (Suc (Max (insert 0 (dom h)))) else None)"

lemma bump_malloc_ok: "malloc_ok bump_malloc"
proof -
  have "h (Suc (Max (insert 0 (dom h)))) = None" if "finite (dom h)" for h :: heap
    using Max_ge [of "insert 0 (dom h)" "Suc (Max (insert 0 (dom h)))"] that by fastforce
  then show ?thesis by (auto simp: malloc_ok_def malloc_fresh_def bump_malloc_def)
qed

definition empty_queue :: linkQueue where
  "empty_queue = \<lparr>q_heap = Map.empty, q_head = 0, q_tail = 0, q_length = 0\<rparr>"

lemma empty_queue_rep: "qrep Map.empty empty_queue []"
  by (simp add: queue_empty empty_queue_def)

text \<open>
  C15: \<open>iotgoQueueAdd\<close> on the linked list in memory refines the bounded list: with the merge flag
  the first queued message of the same type goes, the message is appended if fewer than ten are
  left, the core task is told exactly when the queue was empty before, and the heap outside the
  queue is unchanged (\<open>F\<close> is the same before and after).
\<close>

theorem queue_add_refines:
  assumes "qrep F q xs" "malloc_ok m" "finite (dom F)" "copy_data bs t = Some d"
  shows "\<exists>ok post ys q'. add_spec t del d xs = (ok, post, ys)
    \<and> iotgoQueueAdd m (Some bs) t del q = Some (ok, post, q') \<and> qrep F q' ys"
  using assms by (rule queue_add_ok)

theorem queue_add_refines_witness:
  "\<exists>q'. iotgoQueueAdd bump_malloc (Some [104, 105, 0, 7]) 1 True empty_queue = Some (True, True, q')
    \<and> qrep Map.empty q' [(1, [104, 105, 0])]"
proof -
  have "copy_data [104, 105, 0, 7] 1 = Some [104, 105, 0]" by (simp add: copy_data_def IOTGO_PING_def)
  from queue_add_refines [OF empty_queue_rep bump_malloc_ok _ this, of True]
  show ?thesis by (auto simp: add_spec_def)
qed

text \<open>
  up to ten messages added to an empty server queue are taken out by the sender in the order
  in which they were added, each with its type and its bytes, and the queue is empty afterwards.
\<close>

theorem server_queue_fifo:
  assumes "queue_rep s []" "list_all2 (\<lambda>(t, bs) (t', d). t = t' \<and> copy_data bs t = Some d) ms ds" "length ms \<le> 10"
  shows "\<exists>s1 s2. add_all queue_add ms s = Some s1
    \<and> drain (iotgoQueueHeadType \<circ> snd) (iotgoQueueHeadData \<circ> snd) queue_del ((iotgoQueueLength \<circ> snd) s1) s1 = Some (ds, s2)
    \<and> queue_rep s2 []"
  using assms by (rule server_queue.add_all_drain)

theorem server_queue_fifo_witness:
  "\<exists>s1 s2. add_all queue_add [(1, [65, 0]), (3, [137, 128, 0, 0, 0, 0])] (bump_malloc, empty_queue) = Some s1
    \<and> drain (iotgoQueueHeadType \<circ> snd) (iotgoQueueHeadData \<circ> snd) queue_del ((iotgoQueueLength \<circ> snd) s1) s1
      = Some ([(1, [65, 0]), (3, [137, 128, 0, 0, 0, 0])], s2)
    \<and> queue_rep s2 []"
proof (rule server_queue_fifo)
  show "queue_rep (bump_malloc, empty_queue) []"
    using empty_queue_rep bump_malloc_ok by (auto simp: queue_rep_def intro!: exI [of _ Map.empty])
qed (simp_all add: copy_data_def IOTGO_PING_def)

text \<open>
  \<open>iotgoQueueDeleteAll\<close> ends with the empty queue and releases exactly the memory of the
  queue: every node and buffer, nothing else, and nothing twice.
\<close>

theorem queue_delete_all_frees:
  assumes "qrep F q xs"
  shows "iotgoQueueDeleteAll q = Some \<lparr>q_heap = F, q_head = 0, q_tail = 0, q_length = 0\<rparr>"
  using assms by (rule queue_delete_all)

definition one_message :: linkQueue where
  "one_message = \<lparr>q_heap = [1 \<mapsto> Buf [65, 0], 2 \<mapsto> Node \<lparr>n_data = 1, n_next = 0, n_type = 7\<rparr>, 5 \<mapsto> Buf [9]],
     q_head = 2, q_tail = 2, q_length = 1\<rparr>"

theorem queue_delete_all_frees_witness:
  "iotgoQueueDeleteAll one_message = Some \<lparr>q_heap = [5 \<mapsto> Buf [9]], q_head = 0, q_tail = 0, q_length = 0\<rparr>"
proof (rule queue_delete_all_frees)
  show "qrep [5 \<mapsto> Buf [9]] one_message [(7, [65, 0])]"
    unfolding qrep_def
    by (auto simp: erep_def one_message_def payload_def terminated_def intro!: exI [of _ "[(2, 1, 7, [65, 0])]"])
qed

text \<open>
  on a non-null queue \<open>tcAddDataToQueue\<close> of the serial module does what \<open>iotgoQueueAdd\<close> does on
  the server queue, and calls its callback, if one is set, where that one tells the core task.
\<close>

theorem tc_queue_equivalent:
  "tcAddDataToQueue cb m (Some q) data t del =
     map_option (\<lambda>(ok, post, q). (ok, post \<and> cb, Some q)) (iotgoQueueAdd m data t del q)"
  by (rule tcAddDataToQueue_same)

end
