(* ===== verification/Uart.thy ===== *)
theory Uart
  imports FwPrelude
begin

text \<open>
  UART0 of \<open>app/driver/uart.c\<close>: the 1024-byte receive ring buffer filled by the interrupt
  handler and read by the command processor, and the transmit functions.  The bytes handed to
  the ROM function \<open>uart_tx_one_char\<close> are recorded in order.  The ring is shown to be a bounded
  first-in first-out queue of at most 1023 bytes; the laws a reader needs are the locale
  \<open>byte_source\<close>.
\<close>

subsection \<open>State and operations\<close>

record uart_rx =
  rx_buffer :: bytes
  rx_head :: nat
  rx_tail :: nat

definition UART0_RX_BUFFER_SIZE :: nat where
  "UART0_RX_BUFFER_SIZE = 1024"

definition uart_rx_init :: uart_rx where
  "uart_rx_init = \<lparr>rx_buffer = replicate UART0_RX_BUFFER_SIZE 0, rx_head = 0, rx_tail = 0\<rparr>"

definition uart0_rx_available :: "uart_rx \<Rightarrow> nat" where
  "uart0_rx_available s =
     to_u16 ((int UART0_RX_BUFFER_SIZE + int (rx_head s) - int (rx_tail s)) smod int UART0_RX_BUFFER_SIZE)"

definition uart0_rx_flush :: "uart_rx \<Rightarrow> uart_rx" where
  "uart0_rx_flush s = s\<lparr>rx_head := rx_tail s\<rparr>"

definition uart0_rx_read :: "uart_rx \<Rightarrow> u8 \<times> uart_rx" where
  "uart0_rx_read s =
     (if rx_head s = rx_tail s then (0xFF, s)
      else (rx_buffer s ! rx_tail s,
            s\<lparr>rx_tail := to_u16 (int (rx_tail s) + 1) mod UART0_RX_BUFFER_SIZE\<rparr>))"

definition uart0_rx_write :: "u8 \<Rightarrow> uart_rx \<Rightarrow> uart_rx" where
  "uart0_rx_write d s =
     (let next_write_index = to_u16 (int (rx_head s) + 1) mod UART0_RX_BUFFER_SIZE
      in if next_write_index \<noteq> rx_tail s then
           s\<lparr>rx_buffer := (rx_buffer s)[rx_head s := d], rx_head := next_write_index\<rparr>
         else s)"

text \<open>
  The receive interrupt.  Its inputs are the status bit and the bytes waiting in the hardware
  FIFO; besides the ring it feeds the user callback (recorded) and the 256-byte SDK buffer.
\<close>

record uart_isr =
  isr_rx :: uart_rx
  isr_user :: bytes
  isr_msg_buff :: bytes
  isr_write_pos :: nat
  isr_write_over :: bool

definition rx_one_char :: "u8 \<Rightarrow> uart_isr \<Rightarrow> uart_isr" where
  "rx_one_char c s =
     (let s = s\<lparr>isr_rx := uart0_rx_write c (isr_rx s)\<rparr>;
          s = s\<lparr>isr_user := isr_user s @ [c]\<rparr>;
          s = s\<lparr>isr_msg_buff := (isr_msg_buff s)[isr_write_pos s := c]\<rparr>;
          s = (if c = 13 then s\<lparr>isr_write_over := True\<rparr> else s);
          s = s\<lparr>isr_write_pos := isr_write_pos s + 1\<rparr>
      in if isr_write_pos s = 256 then s\<lparr>isr_write_pos := 0\<rparr> else s)"

definition uart0_rx_intr_handler :: "bool \<Rightarrow> bytes \<Rightarrow> uart_isr \<Rightarrow> uart_isr" where
  "uart0_rx_intr_handler full_int fifo s = (if \<not> full_int then s else fold rx_one_char fifo s)"

text \<open>
  Transmission of a buffer: \<open>len\<close> is a \<open>uint16\<close> parameter, so a longer length is truncated by
  the call; reading beyond the buffer is undefined.
\<close>

definition uart0_tx_buffer :: "bytes \<Rightarrow> nat \<Rightarrow> bytes \<Rightarrow> bytes option" where
  "uart0_tx_buffer buf len tx =
     (let n = to_u16 (int len) in if n \<le> length buf then Some (tx @ take n buf) else None)"

definition uart0_tx_string :: "bytes \<Rightarrow> bytes \<Rightarrow> bytes option" where
  "uart0_tx_string str tx =
     (if 0 \<in> set str then Some (tx @ takeWhile (\<lambda>b. b \<noteq> 0) str) else None)"

subsection \<open>The ring as a queue\<close>

definition uart_rx_inv :: "uart_rx \<Rightarrow> bool" where
  "uart_rx_inv s \<longleftrightarrow> length (rx_buffer s) = 1024 \<and> rx_head s < 1024 \<and> rx_tail s < 1024"

definition rx_contents :: "uart_rx \<Rightarrow> bytes" where
  "rx_contents s =
     map (\<lambda>k. rx_buffer s ! ((rx_tail s + k) mod 1024)) [0..<(1024 + rx_head s - rx_tail s) mod 1024]"

lemma uart_rx_inv_init [fw_inv]: "uart_rx_inv uart_rx_init" "rx_contents uart_rx_init = []"
  by (simp_all add: uart_rx_inv_def uart_rx_init_def UART0_RX_BUFFER_SIZE_def rx_contents_def)

lemma ring_length:
  fixes h t :: nat
  assumes "h < 1024" "t < 1024"
  shows "(1024 + h - t) mod 1024 = (if t \<le> h then h - t else 1024 + h - t)"
  using assms mod_once [of "1024 + h - t" 1024] by auto

lemma ring_next:
  assumes "h < 1024"
  shows "to_u16 (int h + 1) mod 1024 = (if h = 1023 then 0 else Suc h)"
  using assms by (auto simp: c_conv)

lemma rx_available_length:
  assumes "uart_rx_inv s"
  shows "uart0_rx_available s = length (rx_contents s)" and "length (rx_contents s) < 1024"
proof -
  define n where "n = 1024 + rx_head s - rx_tail s"
  have "int 1024 + int (rx_head s) - int (rx_tail s) = int n"
    using assms by (simp add: uart_rx_inv_def n_def)
  then have "(int 1024 + int (rx_head s) - int (rx_tail s)) smod int 1024 = int (n mod 1024)"
    by (simp only: smod_nonneg of_nat_0_le_iff of_nat_0_less_iff zero_less_numeral zmod_int)
  moreover have "to_u16 (int (n mod 1024)) = n mod 1024"
    by (rule to_u16_small) (use mod_less_divisor [of 1024 n] in linarith)
  ultimately show "uart0_rx_available s = length (rx_contents s)"
    by (simp add: uart0_rx_available_def UART0_RX_BUFFER_SIZE_def rx_contents_def n_def)
  show "length (rx_contents s) < 1024"
    by (simp add: rx_contents_def)
qed

lemma rx_contents_Nil_iff: "uart_rx_inv s \<Longrightarrow> rx_contents s = [] \<longleftrightarrow> rx_head s = rx_tail s"
  by (auto simp: rx_contents_def uart_rx_inv_def ring_length)

lemma rx_read_empty: "uart_rx_inv s \<Longrightarrow> rx_contents s = [] \<Longrightarrow> uart0_rx_read s = (0xFF, s)"
  by (simp add: rx_contents_Nil_iff uart0_rx_read_def)

lemma rx_read_Cons:
  assumes inv: "uart_rx_inv s" and xs: "rx_contents s = x # xs"
  shows "\<exists>s'. uart0_rx_read s = (x, s') \<and> uart_rx_inv s' \<and> rx_contents s' = xs"
proof -
  define n where "n = (1024 + rx_head s - rx_tail s) mod 1024"
  define s' where "s' = s\<lparr>rx_tail := (if rx_tail s = 1023 then 0 else Suc (rx_tail s))\<rparr>"
  from inv have b: "rx_head s < 1024" "rx_tail s < 1024" by (simp_all add: uart_rx_inv_def)
  from inv xs have ne: "rx_head s \<noteq> rx_tail s" using rx_contents_Nil_iff [OF inv] by auto
  have n: "n = Suc ((1024 + rx_head s' - rx_tail s') mod 1024)"
    using ne b by (auto simp: n_def s'_def ring_length)
  have tail: "(rx_tail s + Suc k) mod 1024 = (rx_tail s' + k) mod 1024" for k
    using b by (simp add: s'_def mod_simps)
  have "rx_contents s = rx_buffer s ! (rx_tail s) # rx_contents s'"
    using b by (simp add: rx_contents_def n_def [symmetric] n upt_conv_Cons map_Suc_upt [symmetric]
        comp_def tail [symmetric] del: upt_Suc map_Suc_upt) (simp add: s'_def)
  with xs have "x = rx_buffer s ! rx_tail s" "xs = rx_contents s'" by simp_all
  moreover have "uart0_rx_read s = (rx_buffer s ! rx_tail s, s')"
    using ne b by (simp add: uart0_rx_read_def UART0_RX_BUFFER_SIZE_def ring_next s'_def)
  moreover have "uart_rx_inv s'"
    using inv by (auto simp: uart_rx_inv_def s'_def)
  ultimately show ?thesis by blast
qed

lemma rx_write_room:
  assumes inv: "uart_rx_inv s" and room: "length (rx_contents s) < 1023"
  shows "rx_contents (uart0_rx_write d s) = rx_contents s @ [d]" and "uart_rx_inv (uart0_rx_write d s)"
proof -
  define n where "n = (1024 + rx_head s - rx_tail s) mod 1024"
  define h where "h = (if rx_head s = 1023 then 0 else Suc (rx_head s))"
  from inv have b: "rx_head s < 1024" "rx_tail s < 1024" "length (rx_buffer s) = 1024"
    by (simp_all add: uart_rx_inv_def)
  have n: "n < 1023" using room by (simp add: rx_contents_def n_def)
  with b have ne: "h \<noteq> rx_tail s" and n': "(1024 + h - rx_tail s) mod 1024 = Suc n"
    by (auto simp: n_def h_def ring_length split: if_splits)
  have w: "uart0_rx_write d s = s\<lparr>rx_buffer := (rx_buffer s)[rx_head s := d], rx_head := h\<rparr>"
    using ne b by (simp add: uart0_rx_write_def UART0_RX_BUFFER_SIZE_def ring_next h_def Let_def)
  have at_n: "(rx_tail s + n) mod 1024 = rx_head s"
    using b by (simp add: n_def ring_length mod_once)
  have below: "(rx_tail s + k) mod 1024 \<noteq> rx_head s" if "k < n" for k
  proof -
    have "(rx_tail s + k) mod 1024 \<noteq> (rx_tail s + n) mod 1024"
      using that b(2) n by (auto simp: mod_once)
    then show ?thesis by (metis at_n)
  qed
  show "rx_contents (uart0_rx_write d s) = rx_contents s @ [d]"
  proof -
    have "(rx_buffer s)[rx_head s := d] ! ((rx_tail s + k) mod 1024) = rx_buffer s ! ((rx_tail s + k) mod 1024)"
      if "k < n" for k
      using below [OF that] by (metis nth_list_update_neq)
    then show ?thesis
      unfolding w rx_contents_def using b at_n by (simp add: n' n_def [symmetric])
  qed
  show "uart_rx_inv (uart0_rx_write d s)"
    unfolding w using inv b by (auto simp: uart_rx_inv_def h_def)
qed

lemma rx_write_full:
  assumes inv: "uart_rx_inv s" and full: "\<not> length (rx_contents s) < 1023"
  shows "uart0_rx_write d s = s"
proof -
  have "(1024 + rx_head s - rx_tail s) mod 1024 = 1023"
    using full rx_available_length(2) [OF inv] by (simp add: rx_contents_def)
  then show ?thesis
    using inv by (auto simp: uart0_rx_write_def UART0_RX_BUFFER_SIZE_def ring_next ring_length
        uart_rx_inv_def Let_def split: if_splits)
qed

lemma rx_flush_contents:
  "uart_rx_inv s \<Longrightarrow> rx_contents (uart0_rx_flush s) = [] \<and> uart_rx_inv (uart0_rx_flush s)"
  by (simp add: uart0_rx_flush_def rx_contents_def uart_rx_inv_def)

subsection \<open>The interface of a byte source\<close>

text \<open>
  What a reader of received bytes relies on: the number announced is the number held, and a
  read of a non-empty source delivers the oldest byte.
\<close>

fun read_n :: "('s \<Rightarrow> 'b \<times> 's) \<Rightarrow> nat \<Rightarrow> 's \<Rightarrow> 'b list \<times> 's" where
  "read_n rd 0 s = ([], s)"
| "read_n rd (Suc n) s = (let (b, s') = rd s; (bs, s'') = read_n rd n s' in (b # bs, s''))"

locale byte_source =
  fixes avail :: "'s \<Rightarrow> nat"
    and rd :: "'s \<Rightarrow> 'b \<times> 's"
    and contents :: "'s \<Rightarrow> 'b list"
    and ok :: "'s \<Rightarrow> bool"
  assumes avail_contents: "ok s \<Longrightarrow> avail s = length (contents s)"
    and rd_Cons: "ok s \<Longrightarrow> contents s = x # xs \<Longrightarrow> \<exists>s'. rd s = (x, s') \<and> ok s' \<and> contents s' = xs"
begin

lemma read_n_take:
  assumes "ok s" and "n \<le> avail s"
  shows "\<exists>s'. read_n rd n s = (take n (contents s), s') \<and> ok s' \<and> contents s' = drop n (contents s)"
  using assms
proof (induction n arbitrary: s)
  case 0
  then show ?case by simp
next
  case (Suc n)
  then obtain x xs where xs: "contents s = x # xs"
    by (cases "contents s") (simp_all add: avail_contents)
  with rd_Cons Suc.prems obtain s1 where 1: "rd s = (x, s1)" "ok s1" "contents s1 = xs"
    by blast
  with Suc.prems xs have "n \<le> avail s1" by (simp add: avail_contents)
  with Suc.IH 1 obtain s2 where "read_n rd n s1 = (take n xs, s2)" "ok s2" "contents s2 = drop n xs"
    by blast
  with 1 xs show ?case by auto
qed

lemma read_n_all:
  assumes "ok s"
  shows "\<exists>s'. read_n rd (avail s) s = (contents s, s') \<and> ok s' \<and> contents s' = []"
  using read_n_take [OF assms order_refl] assms by (simp add: avail_contents)

end

interpretation uart_src: byte_source uart0_rx_available uart0_rx_read rx_contents uart_rx_inv
  by unfold_locales (auto simp: rx_available_length intro: rx_read_Cons)

text \<open>The interrupt handler appends what fits and drops the rest; the SDK buffer stays in bounds.\<close>

definition rx_accept :: "bytes \<Rightarrow> bytes \<Rightarrow> bytes" where
  "rx_accept queued fifo = queued @ take (1023 - length queued) fifo"

definition isr_inv :: "uart_isr \<Rightarrow> bool" where
  "isr_inv s \<longleftrightarrow> uart_rx_inv (isr_rx s) \<and> length (isr_msg_buff s) = 256 \<and> isr_write_pos s < 256"

lemma rx_write_accept:
  assumes "uart_rx_inv s"
  shows "uart_rx_inv (uart0_rx_write d s)"
    and "rx_contents (uart0_rx_write d s) = rx_accept (rx_contents s) [d]"
  using assms rx_write_room [OF assms] rx_write_full [OF assms]
  by (cases "length (rx_contents s) < 1023"; simp add: rx_accept_def)+

lemma rx_accept_Cons:
  "length q \<le> 1023 \<Longrightarrow> rx_accept (rx_accept q [c]) cs = rx_accept q (c # cs)"
  by (cases "length q = 1023") (auto simp: rx_accept_def take_Cons' Suc_diff_le)

lemma rx_one_char_step:
  assumes "isr_inv s"
  shows "isr_inv (rx_one_char c s)"
    and "isr_rx (rx_one_char c s) = uart0_rx_write c (isr_rx s)"
    and "isr_user (rx_one_char c s) = isr_user s @ [c]"
  using assms rx_write_accept(1)
  by (auto simp: isr_inv_def rx_one_char_def Let_def)

lemma intr_handler_accepts:
  assumes "isr_inv s"
  shows "let s' = uart0_rx_intr_handler True fifo s in
      isr_inv s' \<and> rx_contents (isr_rx s') = rx_accept (rx_contents (isr_rx s)) fifo
      \<and> isr_user s' = isr_user s @ fifo"
  using assms
proof (induction fifo arbitrary: s)
  case Nil
  then show ?case by (simp add: uart0_rx_intr_handler_def rx_accept_def)
next
  case (Cons c fifo)
  from Cons.prems have inv: "uart_rx_inv (isr_rx s)" by (simp add: isr_inv_def)
  then have "length (rx_contents (isr_rx s)) \<le> 1023" using rx_available_length(2) by fastforce
  moreover note step = rx_one_char_step [OF Cons.prems, of c]
  ultimately show ?case
    using Cons.IH [OF step(1)] rx_write_accept(2) [OF inv, of c]
    by (simp add: uart0_rx_intr_handler_def Let_def step(2,3) rx_accept_Cons)
qed

subsection \<open>Properties\<close>

text \<open>
  C20: after a receive interrupt the command processor reads back, in order, the bytes that were
  queued before followed by the received ones as far as the 1023 byte capacity reaches; nothing
  else is delivered, the user callback has seen every byte, and all indices stay in bounds.
\<close>

theorem uart_receive_fifo:
  assumes "isr_inv s"
  shows "let s' = uart0_rx_intr_handler True fifo s in
    isr_inv s' \<and> isr_user s' = isr_user s @ fifo \<and>
    (\<exists>r. read_n uart0_rx_read (uart0_rx_available (isr_rx s')) (isr_rx s')
         = (rx_accept (rx_contents (isr_rx s)) fifo, r) \<and> uart_rx_inv r \<and> rx_contents r = [])"
  using intr_handler_accepts [OF assms, of fifo]
    uart_src.read_n_all [of "isr_rx (uart0_rx_intr_handler True fifo s)"]
  by (auto simp: Let_def isr_inv_def)

definition isr_init :: uart_isr where
  "isr_init = \<lparr>isr_rx = uart_rx_init, isr_user = [], isr_msg_buff = replicate 256 0,
     isr_write_pos = 0, isr_write_over = False\<rparr>"

theorem uart_receive_fifo_witness:
  "let s' = uart0_rx_intr_handler True [0xAA, 0x55, 13] isr_init in
    isr_inv s' \<and> isr_user s' = isr_user isr_init @ [0xAA, 0x55, 13] \<and>
    (\<exists>r. read_n uart0_rx_read (uart0_rx_available (isr_rx s')) (isr_rx s')
         = (rx_accept (rx_contents (isr_rx isr_init)) [0xAA, 0x55, 13], r) \<and> uart_rx_inv r \<and> rx_contents r = [])"
proof (rule uart_receive_fifo)
  show "isr_inv isr_init" by (simp add: isr_inv_def isr_init_def uart_rx_inv_init)
qed

end
