(* ===== verification/Crc32.thy ===== *)
theory Crc32
  imports FwPrelude
begin

text \<open>
  The CRC-32 of the serial frames, \<open>app/user/iotgo_U2art_schedule.c\<close> lines 27 to 62: a table of
  sixteen entries, one per half byte.  The bit-serial reflected CRC-32 is the reference; the
  table routine computes it, and it distinguishes frames of equal length that differ in
  at most four consecutive bytes.
\<close>

subsection \<open>The code\<close>

definition POLY :: u32 where
  "POLY = 0xEDB88320"

definition crc_table :: "u32 list" where
  "crc_table =
    [0x0, 0x1db71064, 0x3b6e20c8, 0x26d930ac,
     0x76dc4190, 0x6b6b51f4, 0x4db26158, 0x5005713c,
     0xedb88320, 0xf00f9344, 0xd6d6a3e8, 0xcb61b38c,
     0x9b64c2b0, 0x86d3d2d4, 0xa00ae278, 0xbdbdf21c]"

definition half_byte_round :: "u32 \<Rightarrow> u32" where
  "half_byte_round sum_poly =
     (let hi = sum_poly AND 1; sum_poly = drop_bit 1 sum_poly
      in if hi \<noteq> 0 then sum_poly XOR POLY else sum_poly)"

definition getHalfBytePoly :: "u8 \<Rightarrow> u32" where
  "getHalfBytePoly data = (half_byte_round ^^ 4) (ucast data)"

definition crc_step :: "u8 \<Rightarrow> u32 \<Rightarrow> u32" where
  "crc_step d reg =
     (let reg = drop_bit 4 reg XOR crc_table ! unat ((reg AND 0x0F) XOR (ucast d AND 0x0F));
          reg = drop_bit 4 reg XOR crc_table ! unat ((reg AND 0x0F) XOR drop_bit 4 (ucast d))
      in reg)"

definition getCrc32 :: "bytes \<Rightarrow> nat \<Rightarrow> u32 option" where
  "getCrc32 data len =
     (if len \<le> length data then Some (NOT (fold crc_step (take len data) 0xFFFFFFFF)) else None)"

subsection \<open>The bit-serial reference\<close>

definition crc_bit :: "u32 \<Rightarrow> u32" where
  "crc_bit r = drop_bit 1 r XOR (if bit r 0 then POLY else 0)"

definition crc_byte :: "u8 \<Rightarrow> u32 \<Rightarrow> u32" where
  "crc_byte d r = (crc_bit ^^ 8) (r XOR ucast d)"

definition crc32_spec :: "bytes \<Rightarrow> u32" where
  "crc32_spec bs = NOT (fold crc_byte bs 0xFFFFFFFF)"

subsection \<open>Linearity\<close>

lemma crc_bit_xor: "crc_bit (a XOR b) = crc_bit a XOR crc_bit b"
  by (auto simp: crc_bit_def bit_xor_iff ac_simps xor.left_commute)

lemma crc_bits_xor: "(crc_bit ^^ n) (a XOR b) = (crc_bit ^^ n) a XOR (crc_bit ^^ n) b"
  by (induction n) (simp_all add: crc_bit_xor)

lemma crc_bits_even:
  assumes "\<And>k. k < n \<Longrightarrow> \<not> bit r k"
  shows "(crc_bit ^^ n) r = drop_bit n r"
  using assms
proof (induction n)
  case 0
  then show ?case by simp
next
  case (Suc n)
  have "\<not> bit (drop_bit n r) 0" using Suc.prems [of n] by (simp add: bit_drop_bit_eq)
  moreover have "(crc_bit ^^ n) r = drop_bit n r" using Suc by simp
  moreover have "crc_bit q = drop_bit 1 q" if "\<not> bit q 0" for q
    using that by (simp add: crc_bit_def)
  ultimately show ?case by (simp del: bit_0)
qed

lemma half_byte_round_bit: "half_byte_round = crc_bit"
proof
  fix r :: u32
  have "r AND 1 = (if bit r 0 then 1 else 0)"
    by (simp add: and_one_eq bit_0 odd_iff_mod_2_eq_one)
  then show "half_byte_round r = crc_bit r"
    by (simp add: half_byte_round_def crc_bit_def)
qed

text \<open>The table holds the half-byte polynomials, which are four bit steps.\<close>

lemma crc_table_all: "list_all (\<lambda>k. crc_table ! k = (crc_bit ^^ 4) (word_of_nat k)) [0..<16]"
  by code_simp

lemma crc_table_nth:
  assumes "x < 16"
  shows "crc_table ! unat x = (crc_bit ^^ 4) x"
proof -
  have "unat x < 16" using assms by (simp add: word_less_nat_alt)
  then show ?thesis
    using crc_table_all by (simp add: list_all_iff)
qed

lemma nibble_take: "(x :: u32) AND 15 = take_bit 4 x"
  by (simp add: take_bit_eq_mask mask_eq_exp_minus_1)

lemma nibble_less: "take_bit 4 (x :: u32) < 16"
  by (simp add: word_less_nat_alt unsigned_take_bit_eq take_bit_eq_mod unat_mod)

lemma nibble_self: "(n :: u32) < 16 \<Longrightarrow> take_bit 4 n = n"
proof -
  assume "n < 16"
  then have "unat (take_bit 4 n) = unat n"
    by (simp add: word_less_nat_alt unsigned_take_bit_eq take_bit_eq_mod unat_mod)
  then show ?thesis by (simp only: word_unat_eq_iff)
qed

lemma crc_split4:
  "(crc_bit ^^ 4) r = drop_bit 4 r XOR (crc_bit ^^ 4) (take_bit 4 r)"
proof -
  define q where "q = push_bit 4 (drop_bit 4 r)"
  have low: "\<not> bit q k" if "k < 4" for k
    using that by (simp add: q_def bit_simps)
  have "drop_bit 4 q = drop_bit 4 r"
    by (rule bit_word_eqI) (auto simp: q_def bit_simps dest: bit_imp_le_length)
  then have "(crc_bit ^^ 4) q = drop_bit 4 r" using crc_bits_even [of 4 q] low by simp
  moreover have "r = q XOR take_bit 4 r"
    by (rule bit_word_eqI) (auto simp: q_def bit_simps)
  ultimately show ?thesis by (metis crc_bits_xor)
qed

lemma nibble_step:
  assumes "n < 16"
  shows "drop_bit 4 r XOR crc_table ! unat ((r AND 15) XOR n) = (crc_bit ^^ 4) (r XOR n)"
proof -
  have n: "take_bit 4 n = n" using assms by (rule nibble_self)
  have "drop_bit 4 n = 0"
    by (subst n [symmetric]) (rule bit_word_eqI, simp add: bit_simps)
  then have "drop_bit 4 (r XOR n) = drop_bit 4 r" by simp
  moreover have "(r AND 15) XOR n = take_bit 4 (r XOR n)"
    using n by (simp add: nibble_take)
  ultimately show ?thesis
    using nibble_less [of "r XOR n"] crc_split4 [of "r XOR n"] by (simp only: crc_table_nth)
qed

lemma crc_step_byte: "crc_step d r = crc_byte d r"
proof -
  define lo hi :: u32 where "lo = ucast d AND 15" and "hi = drop_bit 4 (ucast d)"
  have lo: "lo < 16" by (simp add: lo_def nibble_take nibble_less)
  have "take_bit 4 hi = hi"
    by (rule bit_word_eqI) (auto simp: hi_def bit_simps dest: bit_imp_le_length)
  then have hi: "hi < 16" by (metis nibble_less)
  have split: "ucast d = lo XOR push_bit 4 hi"
    by (rule bit_word_eqI) (auto simp: lo_def hi_def nibble_take bit_simps)
  have "(crc_bit ^^ 4) (push_bit 4 hi) = hi"
  proof -
    have "drop_bit 4 (push_bit 4 hi) = hi"
      by (rule bit_word_eqI) (auto simp: hi_def bit_simps dest: bit_imp_le_length)
    then show ?thesis using crc_bits_even [of 4 "push_bit 4 hi"] by (simp add: bit_simps)
  qed
  then have "(crc_bit ^^ 4) (r XOR ucast d) = (crc_bit ^^ 4) (r XOR lo) XOR hi"
    by (simp add: split crc_bits_xor flip: xor.assoc)
  then have "crc_byte d r = (crc_bit ^^ 4) ((crc_bit ^^ 4) (r XOR lo) XOR hi)"
    using funpow_add [of 4 4 crc_bit] by (simp add: crc_byte_def)
  then show ?thesis
    by (simp only: crc_step_def Let_def nibble_step [OF lo, unfolded lo_def] nibble_step [OF hi, unfolded hi_def] lo_def hi_def)
qed

lemma getCrc32_spec:
  "len \<le> length data \<Longrightarrow> getCrc32 data len = Some (crc32_spec (take len data))"
  by (simp add: getCrc32_def crc32_spec_def crc_step_byte [abs_def])

subsection \<open>Error detection\<close>

text \<open>One bit step is injective: the top bit of the result tells the bit that was shifted out.\<close>

lemma crc_bit_top: "bit (crc_bit r) 31 = bit r 0"
proof -
  have "\<not> bit (drop_bit 1 r) 31" by (auto simp: bit_simps dest: bit_imp_le_length)
  moreover have "bit POLY 31" by (simp add: POLY_def)
  ultimately show ?thesis by (simp add: crc_bit_def bit_xor_iff)
qed

lemma crc_bit_zero: "crc_bit r = 0 \<Longrightarrow> r = 0"
proof (rule bit_word_eqI)
  fix n
  assume z: "crc_bit r = 0" and n: "n < LENGTH(32)"
  have b0: "\<not> bit r 0" using crc_bit_top [of r] z by simp
  then have d: "drop_bit 1 r = 0" using z by (simp add: crc_bit_def)
  show "bit r n = bit 0 n"
  proof (cases n)
    case 0
    with b0 show ?thesis by simp
  next
    case (Suc m)
    have "bit (drop_bit 1 r) m = bit r n" by (simp add: bit_drop_bit_eq Suc)
    with d show ?thesis by simp
  qed
qed

lemma crc_bits_zero: "(crc_bit ^^ n) r = 0 \<Longrightarrow> r = 0"
  by (induction n) (auto dest: crc_bit_zero)

lemma word_xor_zero:
  assumes "(a :: 'a :: len word) XOR b = 0"
  shows "a = b"
proof -
  have "(a XOR b) XOR b = b" using assms by simp
  then show ?thesis by (simp add: xor.assoc)
qed

lemma crc_bits_inj: "(crc_bit ^^ n) a = (crc_bit ^^ n) b \<Longrightarrow> a = b"
  using crc_bits_zero [of n "a XOR b"] by (simp add: crc_bits_xor word_xor_zero)

lemma crc_run_inj: "fold crc_byte bs a = fold crc_byte bs b \<Longrightarrow> a = b"
proof (induction bs arbitrary: a b)
  case (Cons d bs)
  then have "crc_byte d a = crc_byte d b" by simp
  then have "a XOR ucast d = b XOR ucast d" unfolding crc_byte_def by (rule crc_bits_inj)
  then have "(a XOR ucast d) XOR ucast d = (b XOR ucast d) XOR ucast d" by simp
  then show ?case by (simp add: xor.assoc)
qed simp

text \<open>
  Up to four message bytes enter the register as one word (first byte lowest); the rounds that
  follow are injective, so a changed word gives a changed register.
\<close>

fun word_le :: "bytes \<Rightarrow> u32" where
  "word_le [] = 0"
| "word_le (b # bs) = ucast b XOR push_bit 8 (word_le bs)"

lemma word_le_bits: "8 * length bs \<le> n \<Longrightarrow> \<not> bit (word_le bs) n"
proof (induction bs arbitrary: n)
  case (Cons b bs)
  have "\<not> bit b n" using Cons.prems by (auto dest: bit_imp_le_length)
  moreover have "\<not> bit (word_le bs) (n - 8)" using Cons by simp
  ultimately show ?case by (simp add: bit_simps)
qed simp

lemma word_le_inj:
  "length xs = length ys \<Longrightarrow> length xs \<le> 4 \<Longrightarrow> word_le xs = word_le ys \<Longrightarrow> xs = ys"
proof (induction xs ys rule: list_induct2)
  case (Cons x xs y ys)
  have "bit x n = bit y n" if "n < 8" for n
  proof -
    have "bit (word_le (x # xs)) n = bit (word_le (y # ys)) n" using Cons.prems by simp
    with that show ?thesis by (simp add: bit_simps)
  qed
  then have "x = y" by (intro bit_word_eqI) simp
  moreover have "bit (word_le xs) n = bit (word_le ys) n" for n
  proof (cases "n < 24")
    case True
    have b: "\<not> bit x (n + 8)" "\<not> bit y (n + 8)" by (auto dest: bit_imp_le_length)
    have "bit (word_le (x # xs)) (n + 8) = bit (word_le (y # ys)) (n + 8)" using Cons.prems by simp
    with True b show ?thesis by (simp add: bit_simps)
  next
    case False
    with Cons.hyps Cons.prems show ?thesis
      using word_le_bits [of xs n] word_le_bits [of ys n] by simp
  qed
  then have "word_le xs = word_le ys" by (intro bit_word_eqI) simp
  ultimately show ?case using Cons by simp
qed simp

lemma crc_run_word:
  "length bs \<le> 4 \<Longrightarrow> fold crc_byte bs r = (crc_bit ^^ (8 * length bs)) (r XOR word_le bs)"
proof (induction bs arbitrary: r)
  case (Cons b bs)
  let ?w = "word_le bs"
  have "n < 24" if "bit ?w n" for n
  proof (rule ccontr)
    assume "\<not> n < 24"
    then have "8 * length bs \<le> n" using Cons.prems by simp
    then show False using word_le_bits that by blast
  qed
  then have "drop_bit 8 (push_bit 8 ?w) = ?w"
    by (intro bit_word_eqI) (auto simp: bit_simps)
  moreover have "\<not> bit (push_bit 8 ?w) k" if "k < 8" for k using that by (simp add: bit_simps)
  ultimately have "(crc_bit ^^ 8) (push_bit 8 ?w) = ?w"
    using crc_bits_even [of 8 "push_bit 8 ?w"] by simp
  then have "crc_byte b r XOR ?w = (crc_bit ^^ 8) (r XOR word_le (b # bs))"
    by (simp add: crc_byte_def crc_bits_xor xor.assoc)
  moreover have "fold crc_byte (b # bs) r = (crc_bit ^^ (8 * length bs)) (crc_byte b r XOR ?w)"
    using Cons by simp
  ultimately show ?case
    using funpow_add [of "8 * length bs" 8 crc_bit] by (simp add: add.commute)
qed simp

lemma crc_burst:
  assumes len: "length xs = length ys" "length xs \<le> 4"
    and eq: "crc32_spec (p @ xs @ s) = crc32_spec (p @ ys @ s)"
  shows "xs = ys"
proof -
  define r where "r = fold crc_byte p 0xFFFFFFFF"
  from eq have "fold crc_byte s (fold crc_byte xs r) = fold crc_byte s (fold crc_byte ys r)"
    by (simp add: crc32_spec_def r_def)
  then have "fold crc_byte xs r = fold crc_byte ys r" by (rule crc_run_inj)
  then have "r XOR word_le xs = r XOR word_le ys"
    using len by (simp add: crc_run_word crc_bits_inj)
  then have "r XOR (r XOR word_le xs) = r XOR (r XOR word_le ys)" by simp
  then have "word_le xs = word_le ys" by (simp flip: xor.assoc)
  with len show ?thesis by (intro word_le_inj)
qed

subsection \<open>Properties\<close>

text \<open>
  C21: the table-driven \<open>getCrc32\<close> computes the bit-serial reflected CRC-32 (polynomial
  0xEDB88320, initial value and final complement all ones) of the first \<open>len\<close> bytes.
\<close>

theorem getCrc32_bitwise:
  assumes "len \<le> length data"
  shows "getCrc32 data len = Some (crc32_spec (take len data))"
  using assms by (rule getCrc32_spec)

text \<open>The witness is the published check value of the CRC for the digits 1 to 9.\<close>

theorem getCrc32_bitwise_witness:
  "crc32_spec [49, 50, 51, 52, 53, 54, 55, 56, 57] = 0xCBF43926"
proof -
  have "getCrc32 [49, 50, 51, 52, 53, 54, 55, 56, 57] 9 = Some 0xCBF43926"
    by (simp add: getCrc32_def crc_step_def crc_table_def)
  with getCrc32_bitwise [of 9 "[49, 50, 51, 52, 53, 54, 55, 56, 57]"] show ?thesis by simp
qed

text \<open>
  two messages of equal length that differ only within at most four consecutive bytes have
  different check sums, so every burst error of up to 32 bits is detected.
\<close>

theorem getCrc32_burst:
  assumes "length xs = length ys" "length xs \<le> 4" "xs \<noteq> ys"
  shows "getCrc32 (p @ xs @ s) (length (p @ xs @ s)) \<noteq> getCrc32 (p @ ys @ s) (length (p @ ys @ s))"
  using assms crc_burst [of xs ys p s] by (auto simp: getCrc32_spec)

theorem getCrc32_burst_witness:
  "getCrc32 ([7] @ [1, 2] @ [9]) (length ([7 :: u8] @ [1, 2] @ [9]))
     \<noteq> getCrc32 ([7] @ [2, 1] @ [9]) (length ([7 :: u8] @ [2, 1] @ [9]))"
  by (rule getCrc32_burst) simp_all

end
