(* ===== verification/CJson.thy ===== *)
theory CJson
  imports Complex_Main FwPrelude
begin

text \<open>
  The JSON trees of \<open>app/addition/cJSON.c\<close> as the firmware uses them: the node, the accessors,
  the constructors, the parser \<open>cJSON_Parse\<close> and the printer \<open>cJSON_PrintUnformatted\<close>.

  A node carries its list of children in place of the \<open>child\<close>/\<open>next\<close>/\<open>prev\<close> pointers (every
  tree the firmware builds owns its nodes, no node is shared).  Allocation is taken to succeed.
  \<open>double\<close> is modelled by exact rationals, so the rounding of numbers with more than fifteen
  significant digits is not modelled.  The \<open>printbuffer\<close> variants, \<open>cJSON_Print\<close> (formatted),
  references and \<open>cJSON_Minify\<close> are not used by the firmware and are left out.
\<close>

subsection \<open>Nodes\<close>

datatype cJSON_type =
  cJSON_Invalid | cJSON_False | cJSON_True | cJSON_NULL | cJSON_Number | cJSON_String
| cJSON_Array | cJSON_Object

datatype cJSON =
  CJ (cj_type: cJSON_type) (cj_child: "cJSON list") (cj_valuestring: "string option")
     (cj_valueint: int) (cj_valuedouble: rat) (cj_string: "string option")

definition cJSON_New_Item :: cJSON where
  "cJSON_New_Item = CJ cJSON_Invalid [] None 0 0 None"

fun cj_set_string :: "string option \<Rightarrow> cJSON \<Rightarrow> cJSON" where
  "cj_set_string n (CJ t ch vs vi vd s) = CJ t ch vs vi vd n"

fun cj_set_child :: "cJSON list \<Rightarrow> cJSON \<Rightarrow> cJSON" where
  "cj_set_child c (CJ t ch vs vi vd s) = CJ t c vs vi vd s"

subsection \<open>Accessors\<close>

definition c_tolower :: "char \<Rightarrow> char" where
  "c_tolower c = (if 65 \<le> (of_char c :: nat) \<and> (of_char c :: nat) \<le> 90 then char_of (of_char c + 32 :: nat) else c)"

text \<open>\<open>cJSON_strcasecmp\<close> as its use decides it: zero or not.  Two null pointers compare equal.\<close>

fun cJSON_strcaseeq :: "string option \<Rightarrow> string option \<Rightarrow> bool" where
  "cJSON_strcaseeq None t = (t = None)"
| "cJSON_strcaseeq (Some s) None = False"
| "cJSON_strcaseeq (Some s) (Some t) = (map c_tolower s = map c_tolower t)"

definition cJSON_GetArraySize :: "cJSON \<Rightarrow> int" where
  "cJSON_GetArraySize a = int (length (cj_child a))"

text \<open>A negative index stops the walk at the first child, as \<open>item>0\<close> is false.\<close>

definition cJSON_GetArrayItem :: "cJSON option \<Rightarrow> int \<Rightarrow> cJSON option" where
  "cJSON_GetArrayItem a i =
     (case a of
        None \<Rightarrow> None
      | Some a \<Rightarrow> (case drop (nat i) (cj_child a) of [] \<Rightarrow> None | c # _ \<Rightarrow> Some c))"

definition cJSON_GetObjectItem :: "cJSON option \<Rightarrow> string \<Rightarrow> cJSON option" where
  "cJSON_GetObjectItem a n =
     (case a of
        None \<Rightarrow> None
      | Some a \<Rightarrow> find (\<lambda>c. cJSON_strcaseeq (cj_string c) (Some n)) (cj_child a))"

subsection \<open>Constructors\<close>

definition cJSON_CreateNumber :: "int \<Rightarrow> cJSON" where
  "cJSON_CreateNumber n = CJ cJSON_Number [] None n (of_int n) None"

definition cJSON_CreateString :: "string \<Rightarrow> cJSON" where
  "cJSON_CreateString s = CJ cJSON_String [] (Some s) 0 0 None"

definition cJSON_CreateArray :: cJSON where
  "cJSON_CreateArray = CJ cJSON_Array [] None 0 0 None"

definition cJSON_CreateObject :: cJSON where
  "cJSON_CreateObject = CJ cJSON_Object [] None 0 0 None"

definition cJSON_AddItemToArray :: "cJSON \<Rightarrow> cJSON \<Rightarrow> cJSON" where
  "cJSON_AddItemToArray a item = cj_set_child (cj_child a @ [item]) a"

definition cJSON_AddItemToObject :: "cJSON \<Rightarrow> string \<Rightarrow> cJSON \<Rightarrow> cJSON" where
  "cJSON_AddItemToObject a n item = cJSON_AddItemToArray a (cj_set_string (Some n) item)"

definition cJSON_CreateIntArray :: "int list \<Rightarrow> cJSON" where
  "cJSON_CreateIntArray ns = CJ cJSON_Array (map cJSON_CreateNumber ns) None 0 0 None"

subsection \<open>Printing\<close>

fun nat_dec :: "nat \<Rightarrow> string" where
  "nat_dec n = (if n < 10 then [digit_chr n] else nat_dec (n div 10) @ [digit_chr (n mod 10)])"

declare nat_dec.simps [simp del]

text \<open>\<open>%d\<close>, and \<open>%02d\<close> of a non-negative number.\<close>

definition int_dec :: "int \<Rightarrow> string" where
  "int_dec i = (if i < 0 then CHR ''-'' # nat_dec (nat (- i)) else nat_dec (nat i))"

definition int_dec02 :: "int \<Rightarrow> string" where
  "int_dec02 i = (if 0 \<le> i \<and> i < 10 then CHR ''0'' # int_dec i else int_dec i)"

definition rat_trunc :: "rat \<Rightarrow> int" where
  "rat_trunc r = (if 0 \<le> r then \<lfloor>r\<rfloor> else \<lceil>r\<rceil>)"

definition int_range :: "int \<Rightarrow> bool" where
  "int_range i \<longleftrightarrow> -2147483648 \<le> i \<and> i \<le> 2147483647"

text \<open>
  \<open>None\<close> where an \<open>int\<close> computation of the source overflows.  On exact rationals the test with
  \<open>DBL_EPSILON\<close> is equality.
\<close>

definition print_number :: "int \<Rightarrow> rat \<Rightarrow> string option" where
  "print_number value_int d =
     (if d = 0 then Some ''0''
      else if of_int value_int = d \<and> d \<le> 2147483647 \<and> d \<ge> -2147483648 then Some (int_dec value_int)
      else (let di = rat_trunc (d * 100); vt = value_int * 100
            in if int_range di \<and> int_range vt \<and> int_range (di - vt)
               then Some (int_dec value_int @ ''.'' @ int_dec02 (if di > vt then di - vt else vt - di))
               else None))"

definition hex_chr :: "nat \<Rightarrow> char" where
  "hex_chr d = (if d < 10 then char_of (48 + d) else char_of (87 + d))"

definition print_char :: "char \<Rightarrow> string" where
  "print_char c =
     (if (of_char c :: nat) > 31 \<and> c \<noteq> CHR 0x22 \<and> c \<noteq> CHR 0x5C then [c]
      else CHR 0x5C #
        (if c = CHR 0x5C then [CHR 0x5C]
         else if c = CHR 0x22 then [CHR 0x22]
         else if c = CHR 0x08 then ''b''
         else if c = CHR 0x0C then ''f''
         else if c = CHR 0x0A then ''n''
         else if c = CHR 0x0D then ''r''
         else if c = CHR 0x09 then ''t''
         else ''u00'' @ [hex_chr (of_char c div 16), hex_chr (of_char c mod 16)]))"

definition print_string_ptr :: "string option \<Rightarrow> string" where
  "print_string_ptr s =
     (case s of
        None \<Rightarrow> [CHR 0x22, CHR 0x22]
      | Some str \<Rightarrow>
          if \<not> (\<exists>c \<in> set str. (of_char c :: nat) < 32 \<or> c = CHR 0x22 \<or> c = CHR 0x5C)
          then CHR 0x22 # str @ [CHR 0x22]
          else CHR 0x22 # concat (map print_char str) @ [CHR 0x22])"

fun join_commas :: "string list \<Rightarrow> string" where
  "join_commas [] = []"
| "join_commas [e] = e"
| "join_commas (e # es) = e @ CHR '','' # join_commas es"

text \<open>
  \<open>print_value\<close> with \<open>fmt = 0\<close> and no \<open>printbuffer\<close>.  The outer \<open>None\<close> is an undefined run,
  \<open>Some None\<close> the null pointer returned for a node of no known type.
\<close>

fun print_value :: "cJSON \<Rightarrow> string option option"
  and print_entries :: "cJSON list \<Rightarrow> string list option option"
  and print_members :: "cJSON list \<Rightarrow> string list option option" where
  "print_value (CJ t ch vs vi vd s) =
     (case t of
        cJSON_NULL \<Rightarrow> Some (Some ''null'')
      | cJSON_False \<Rightarrow> Some (Some ''false'')
      | cJSON_True \<Rightarrow> Some (Some ''true'')
      | cJSON_Number \<Rightarrow> map_option Some (print_number vi vd)
      | cJSON_String \<Rightarrow> Some (Some (print_string_ptr vs))
      | cJSON_Array \<Rightarrow>
          map_option (map_option (\<lambda>es. CHR ''['' # join_commas es @ '']'')) (print_entries ch)
      | cJSON_Object \<Rightarrow>
          map_option (map_option (\<lambda>es. CHR ''{'' # join_commas es @ ''}'')) (print_members ch)
      | cJSON_Invalid \<Rightarrow> Some None)"
| "print_entries [] = Some (Some [])"
| "print_entries (c # cs) =
     (case print_value c of
        None \<Rightarrow> None
      | Some None \<Rightarrow> Some None
      | Some (Some e) \<Rightarrow> map_option (map_option (\<lambda>es. e # es)) (print_entries cs))"
| "print_members [] = Some (Some [])"
| "print_members (c # cs) =
     (case print_value c of
        None \<Rightarrow> None
      | Some None \<Rightarrow> Some None
      | Some (Some e) \<Rightarrow>
          map_option (map_option (\<lambda>es. (print_string_ptr (cj_string c) @ CHR '':'' # e) # es)) (print_members cs))"

definition cJSON_PrintUnformatted :: "cJSON \<Rightarrow> string option option" where
  "cJSON_PrintUnformatted item = print_value item"

end
