(* ===== verification/CJsonParse.thy ===== *)
theory CJsonParse
  imports CJson
begin

text \<open>
  The parser of \<open>app/addition/cJSON.c\<close>.  A pointer into the input is the suffix it points to;
  the terminator is the empty suffix.  The result tells three cases apart: an undefined run
  (a read beyond the terminator, an \<open>int\<close> conversion out of range), a failure (null pointer)
  and a node with the rest of the input.
\<close>

datatype 'a parse = PUndef | PFail | POk 'a string

fun pbind :: "'a parse \<Rightarrow> ('a \<Rightarrow> string \<Rightarrow> 'b parse) \<Rightarrow> 'b parse" where
  "pbind PUndef f = PUndef"
| "pbind PFail f = PFail"
| "pbind (POk x r) f = f x r"

definition chr_at :: "string \<Rightarrow> char" where
  "chr_at s = (case s of [] \<Rightarrow> CHR 0x00 | c # _ \<Rightarrow> c)"

definition js_skip :: "string \<Rightarrow> string" where
  "js_skip s = dropWhile (\<lambda>c. (of_char c :: nat) \<le> 32) s"

subsection \<open>Numbers\<close>

fun digits_rat :: "rat \<Rightarrow> string \<Rightarrow> rat" where
  "digits_rat n [] = n"
| "digits_rat n (c # cs) = digits_rat (n * 10 + of_int (digit_val c)) cs"

definition parse_number :: "string \<Rightarrow> cJSON parse" where
  "parse_number num0 =
     (let sign = (if chr_at num0 = CHR ''-'' then -1 else 1);
          num = (if chr_at num0 = CHR ''-'' then tl num0 else num0);
          num = (if chr_at num = CHR ''0'' then tl num else num);
          ds = (if c_isdigit (chr_at num) \<and> chr_at num \<noteq> CHR ''0'' then takeWhile c_isdigit num else []);
          n = digits_rat 0 ds;
          num = drop (length ds) num;
          fs = (if chr_at num = CHR ''.'' then takeWhile c_isdigit (tl num) else []);
          n = digits_rat n fs / 10 ^ length fs;
          num = (if fs = [] then num else drop (length fs) (tl num));
          n = sign * n
      in if int_range (rat_trunc n) then POk (CJ cJSON_Number [] None (rat_trunc n) n None) num
         else PUndef)"

subsection \<open>Strings\<close>

definition hex_digit :: "char \<Rightarrow> nat option" where
  "hex_digit c =
     (let v = of_char c in
      if 48 \<le> v \<and> v \<le> 57 then Some (v - 48)
      else if 65 \<le> v \<and> v \<le> 70 then Some (10 + v - 65)
      else if 97 \<le> v \<and> v \<le> 102 then Some (10 + v - 97)
      else None)"

text \<open>A character that is no hexadecimal digit, the terminator included, ends the scan with 0.\<close>

definition parse_hex4 :: "string \<Rightarrow> nat" where
  "parse_hex4 s =
     (case s of
        a # b # c # d # _ \<Rightarrow>
          (case (hex_digit a, hex_digit b, hex_digit c, hex_digit d) of
             (Some a, Some b, Some c, Some d) \<Rightarrow> ((a * 16 + b) * 16 + c) * 16 + d
           | _ \<Rightarrow> 0)
      | _ \<Rightarrow> 0)"

text \<open>
  The first loop of \<open>parse_string\<close>: the distance of \<open>end_ptr\<close> from the opening quote.  A
  backslash just before the terminator moves \<open>end_ptr\<close> past it.
\<close>

fun str_scan :: "string \<Rightarrow> nat option" where
  "str_scan [] = Some 0"
| "str_scan (c # cs) =
     (if c = CHR 0x22 then Some 0
      else if c = CHR 0x5C then
        (case cs of [] \<Rightarrow> None | _ # cs' \<Rightarrow> map_option (\<lambda>n. n + 2) (str_scan cs'))
      else map_option Suc (str_scan cs))"

definition utf8_bytes :: "nat \<Rightarrow> string" where
  "utf8_bytes uc =
     (if uc < 128 then [char_of uc]
      else if uc < 2048 then [char_of (192 + uc div 64), char_of (128 + uc mod 64)]
      else if uc < 65536 then
        [char_of (224 + uc div 4096), char_of (128 + uc div 64 mod 64), char_of (128 + uc mod 64)]
      else [char_of (240 + uc div 262144), char_of (128 + uc div 4096 mod 64),
            char_of (128 + uc div 64 mod 64), char_of (128 + uc mod 64)])"

text \<open>
  The second loop.  The first argument counts the characters from \<open>ptr\<close> to \<open>end_ptr\<close>, the
  second is the input at \<open>ptr\<close>; the result is the text, or \<open>None\<close> for an invalid escape.
\<close>

function str_decode :: "nat \<Rightarrow> string \<Rightarrow> string option" where
  "str_decode n s =
     (case (n, s) of
        (Suc n', c # cs) \<Rightarrow>
          if c \<noteq> CHR 0x5C then map_option (\<lambda>r. c # r) (str_decode n' cs)
          else (case (n', cs) of
                  (Suc k, e # es) \<Rightarrow>
                    if e = CHR ''b'' then map_option (\<lambda>r. CHR 0x08 # r) (str_decode k es)
                    else if e = CHR ''f'' then map_option (\<lambda>r. CHR 0x0C # r) (str_decode k es)
                    else if e = CHR ''n'' then map_option (\<lambda>r. CHR 0x0A # r) (str_decode k es)
                    else if e = CHR ''r'' then map_option (\<lambda>r. CHR 0x0D # r) (str_decode k es)
                    else if e = CHR ''t'' then map_option (\<lambda>r. CHR 0x09 # r) (str_decode k es)
                    else if e = CHR ''u'' then
                      (let uc = parse_hex4 es in
                       if k < 4 then None
                       else if (0xDC00 \<le> uc \<and> uc \<le> 0xDFFF) \<or> uc = 0 then None
                       else if 0xD800 \<le> uc \<and> uc \<le> 0xDBFF then
                         (if k < 9 then None
                          else if es ! 4 \<noteq> CHR 0x5C \<or> es ! 5 \<noteq> CHR ''u'' then None
                          else (let uc2 = parse_hex4 (drop 6 es) in
                                if uc2 < 0xDC00 \<or> uc2 > 0xDFFF then None
                                else map_option (\<lambda>r. utf8_bytes (0x10000 + (uc - 0xD800) * 1024 + (uc2 - 0xDC00)) @ r)
                                       (str_decode (k - 10) (drop 10 es))))
                       else map_option (\<lambda>r. utf8_bytes uc @ r) (str_decode (k - 4) (drop 4 es)))
                    else map_option (\<lambda>r. e # r) (str_decode k es)
                | _ \<Rightarrow> Some [])
      | _ \<Rightarrow> Some [])"
  by pat_completeness auto
termination
  by (relation "measure fst") auto

declare str_decode.simps [simp del]

definition parse_string :: "string \<Rightarrow> string parse" where
  "parse_string s =
     (if chr_at s \<noteq> CHR 0x22 then PFail
      else (case str_scan (tl s) of
              None \<Rightarrow> PUndef
            | Some n \<Rightarrow>
                (case str_decode n (tl s) of
                   None \<Rightarrow> PFail
                 | Some t \<Rightarrow>
                     (let rest = drop n (tl s)
                      in POk t (if chr_at rest = CHR 0x22 then tl rest else rest)))))"

subsection \<open>Values\<close>

text \<open>
  The mutually recursive functions of the source.  The fuel bounds the depth of the C call
  stack plus the number of loop iterations; \<open>cJSON_Parse\<close> gives more than the length of the
  input needs.  The loops of \<open>parse_array\<close> and \<open>parse_object\<close> are \<open>parse_elems\<close> and
  \<open>parse_members\<close>: one more element, then a comma or the closing bracket.
\<close>

fun parse_value :: "nat \<Rightarrow> string \<Rightarrow> cJSON parse"
  and parse_elems :: "nat \<Rightarrow> string \<Rightarrow> cJSON list parse"
  and parse_members :: "nat \<Rightarrow> string \<Rightarrow> cJSON list parse" where
  "parse_value 0 s = PUndef"
| "parse_value (Suc fuel) s =
     (if take 4 s = ''null'' then POk (CJ cJSON_NULL [] None 0 0 None) (drop 4 s)
      else if take 5 s = ''false'' then POk (CJ cJSON_False [] None 0 0 None) (drop 5 s)
      else if take 4 s = ''true'' then POk (CJ cJSON_True [] None 1 0 None) (drop 4 s)
      else if chr_at s = CHR 0x22 then
        pbind (parse_string s) (\<lambda>t r. POk (CJ cJSON_String [] (Some t) 0 0 None) r)
      else if chr_at s = CHR ''-'' \<or> c_isdigit (chr_at s) then parse_number s
      else if chr_at s = CHR ''['' then
        (let v = js_skip (tl s) in
         if chr_at v = CHR '']'' then POk (CJ cJSON_Array [] None 0 0 None) (tl v)
         else pbind (parse_elems fuel v) (\<lambda>cs r.
           if chr_at r = CHR '']'' then POk (CJ cJSON_Array cs None 0 0 None) (tl r) else PFail))
      else if chr_at s = CHR ''{'' then
        (let v = js_skip (tl s) in
         if chr_at v = CHR ''}'' then POk (CJ cJSON_Object [] None 0 0 None) (tl v)
         else pbind (parse_members fuel v) (\<lambda>cs r.
           if chr_at r = CHR ''}'' then POk (CJ cJSON_Object cs None 0 0 None) (tl r) else PFail))
      else PFail)"
| "parse_elems 0 s = PUndef"
| "parse_elems (Suc fuel) s =
     pbind (parse_value fuel s) (\<lambda>c r.
       let v = js_skip r in
       if chr_at v = CHR '','' then
         pbind (parse_elems fuel (js_skip (tl v))) (\<lambda>cs r'. POk (c # cs) r')
       else POk [c] v)"
| "parse_members 0 s = PUndef"
| "parse_members (Suc fuel) s =
     pbind (parse_string s) (\<lambda>n r.
       let v = js_skip r in
       if chr_at v \<noteq> CHR '':'' then PFail
       else pbind (parse_value fuel (js_skip (tl v))) (\<lambda>c r.
         let v = js_skip r; c = cj_set_string (Some n) c in
         if chr_at v = CHR '','' then
           pbind (parse_members fuel (js_skip (tl v))) (\<lambda>cs r'. POk (c # cs) r')
         else POk [c] v))"

text \<open>
  \<open>cJSON_Parse\<close>: the null pointer is \<open>Some None\<close>.  What follows the value is ignored, as
  \<open>require_null_terminated\<close> is 0.
\<close>

definition cJSON_Parse :: "string \<Rightarrow> cJSON option option" where
  "cJSON_Parse s =
     (case parse_value (Suc (2 * length s)) (js_skip s) of
        PUndef \<Rightarrow> None | PFail \<Rightarrow> Some None | POk c _ \<Rightarrow> Some (Some c))"

end
