(* ===== verification/U2art.thy ===== *)
theory U2art
  imports Uart Crc32 CJsonParse
begin

text \<open>
  The command processor of the serial port, \<open>app/user/iotgo_U2art_schedule.c\<close>: every 100 ms the
  timer callback \<open>parseU2artData\<close> looks for the frame start AA 55 in the receive ring, reads the
  length and check-sum flag, then the payload, parses it as a JSON array and runs the command
  whose name is the first element.  Errors are answered by a frame with a numeric code.

  Parameters: the table of commands (name and action; an action may transmit, switch the check
  sums of outgoing frames and change the state \<open>'d\<close> of the rest of the firmware; \<open>None\<close> is an
  undefined run) and \<open>os_malloc\<close>, which maps a requested size to the
  usable size of the block (\<open>None\<close> is the null pointer).
\<close>

subsection \<open>State\<close>

datatype U2artError =
  U2ART_NULL | U2ART_SUCCESS | U2ART_NO_SUPPORT | U2ART_FORMAT_ERROR | U2ART_INSIDE_ERROR
| U2ART_INVALID_PARAMS | U2ART_ILLEGAL_OPERATION | U2ART_CRC32_ERROR | U2ART_BUSY_ERROR
| U2ART_GMT_ERROR | U2ART_NETWORK_ERROR

type_synonym 'd cmd_action = "cJSON \<Rightarrow> bool \<times> bytes \<times> 'd \<Rightarrow> (U2artError \<times> bool \<times> bytes \<times> 'd) option"

record U2artData =
  start :: bool
  cf :: bool
  len :: nat
  extend_length :: nat
  crc32 :: u32
  root :: "cJSON option"

definition U2artData_zero :: U2artData where
  "U2artData_zero = \<lparr>start = False, cf = False, len = 0, extend_length = 0, crc32 = 0, root = None\<rparr>"

record 'd u2art =
  u2art_data :: U2artData
  u2art_result :: U2artError
  u2art_cmd :: "(string \<times> 'd cmd_action option) list"
  uart0_buffer :: bytes
  get_length :: bool
  timerout_couter :: nat
  crc_enable :: bool
  read_uart_timer :: os_timer
  rx :: uart_rx
  tx :: bytes
  dev :: 'd

definition READ_UART0_BUFFER :: nat where
  "READ_UART0_BUFFER = 1024"

definition TIMEROUT_TIME :: nat where
  "TIMEROUT_TIME = 50"

definition read_byte :: "'d u2art \<Rightarrow> u8 \<times> 'd u2art" where
  "read_byte s = (let (b, r) = uart0_rx_read (rx s) in (b, s\<lparr>rx := r\<rparr>))"

text \<open>Four bytes, most significant first, as the shifts of the source put them together.\<close>

definition be4 :: "u8 \<Rightarrow> u8 \<Rightarrow> u8 \<Rightarrow> u8 \<Rightarrow> u32" where
  "be4 a b c d = push_bit 24 (ucast a) OR push_bit 16 (ucast b) OR push_bit 8 (ucast c) OR ucast d"

definition be2 :: "u8 \<Rightarrow> u8 \<Rightarrow> u32" where
  "be2 a b = push_bit 8 (ucast a) OR ucast b"

subsection \<open>Transmission\<close>

text \<open>
  The common part of \<open>cmdSendRetToMcu\<close> and \<open>cmdSendDataToMcu\<close> after the two start bytes: the
  length field, the check sum and the payload.
\<close>

definition tx_len_field :: "bool \<Rightarrow> nat \<Rightarrow> bytes" where
  "tx_len_field crc n =
     (if n \<le> 125 then [if \<not> crc then word_of_nat n else word_of_nat n OR 0x80]
      else if n \<le> 65535 then
        [if \<not> crc then 0x7e else 0xfe, word_of_nat (n div 256), word_of_nat (n mod 256)]
      else
        [if \<not> crc then 0x7f else 0xff,
         word_of_nat (n div 65536 div 256), word_of_nat (n div 65536 mod 256),
         word_of_nat (n mod 65536 div 256), word_of_nat (n mod 65536 mod 256)])"

definition tx_crc_field :: "u32 \<Rightarrow> bytes" where
  "tx_crc_field c =
     (let n = unat c in
      [word_of_nat (n div 65536 div 256), word_of_nat (n div 65536 mod 256),
       word_of_nat (n mod 65536 div 256), word_of_nat (n mod 65536 mod 256)])"

definition tx_payload :: "bool \<Rightarrow> bytes \<Rightarrow> nat \<Rightarrow> bytes \<Rightarrow> bytes option" where
  "tx_payload crc buf n out =
     do {
       let out = out @ tx_len_field crc n;
       out \<leftarrow> (if crc then map_option (\<lambda>c. out @ tx_crc_field c) (getCrc32 buf n) else Some out);
       uart0_tx_buffer buf n out
     }"

text \<open>Both senders on the flag \<open>crc_enable\<close> and the output alone, then on the whole state.\<close>

definition send_data :: "bytes option \<Rightarrow> nat \<Rightarrow> bool \<Rightarrow> bytes \<Rightarrow> (bool \<times> bytes) option" where
  "send_data data n crc out =
     (case data of
        None \<Rightarrow> Some (False, out)
      | Some buf \<Rightarrow>
          if n = 0 then Some (False, out)
          else map_option (Pair True) (tx_payload crc buf n (out @ [0xAA, 0x55])))"

definition cmdSendDataToMcu :: "bytes option \<Rightarrow> nat \<Rightarrow> 'd u2art \<Rightarrow> (bool \<times> 'd u2art) option" where
  "cmdSendDataToMcu data n s =
     map_option (\<lambda>(ok, out). (ok, s\<lparr>tx := out\<rparr>)) (send_data data n (crc_enable s) (tx s))"

text \<open>
  The block has \<open>length + 8\<close> bytes, the text with its terminator nine more than the string: the
  run is defined only if the allocator's block is larger than asked for.  Sending more bytes
  than were written would read uninitialised memory.
\<close>

definition send_ret ::
    "(nat \<Rightarrow> nat option) \<Rightarrow> string option \<Rightarrow> nat \<Rightarrow> bool \<Rightarrow> bytes \<Rightarrow> (bool \<times> bytes) option" where
  "send_ret os_malloc data n crc out =
     (case data of
        None \<Rightarrow> Some (False, out)
      | Some str \<Rightarrow>
          if n = 0 then Some (False, out)
          else
            (let out = out @ [0xAA, 0x55]; data_len = to_u32 (int n + 8) in
             case os_malloc data_len of
               None \<Rightarrow> Some (False, out)
             | Some usable \<Rightarrow>
                 (let data_temp = bytes_of (''['' @ [CHR 0x22] @ ''ret'' @ [CHR 0x22] @ '','' @ str @ '']'') @ [0] in
                  if length data_temp > usable then None
                  else map_option (Pair True) (tx_payload crc data_temp data_len out))))"

definition cmdSendRetToMcu ::
    "(nat \<Rightarrow> nat option) \<Rightarrow> string option \<Rightarrow> nat \<Rightarrow> 'd u2art \<Rightarrow> (bool \<times> 'd u2art) option" where
  "cmdSendRetToMcu os_malloc data n s =
     map_option (\<lambda>(ok, out). (ok, s\<lparr>tx := out\<rparr>)) (send_ret os_malloc data n (crc_enable s) (tx s))"

subsection \<open>Receiving a frame\<close>

definition getExtendLength :: "'d u2art \<Rightarrow> bool \<times> 'd u2art" where
  "getExtendLength s =
     (let d = u2art_data s in
      if len d < 126 \<and> len d > 0 then (True, s\<lparr>u2art_data := d\<lparr>extend_length := 0\<rparr>\<rparr>)
      else if len d = 126 then
        (if uart0_rx_available (rx s) \<ge> 2 then
           (let (a, s) = read_byte s; (b, s) = read_byte s
            in (True, s\<lparr>u2art_data := (u2art_data s)\<lparr>extend_length := unat (be2 a b)\<rparr>\<rparr>))
         else (False, s))
      else if len d = 127 then
        (if uart0_rx_available (rx s) \<ge> 4 then
           (let (a, s) = read_byte s; (b, s) = read_byte s; (c, s) = read_byte s; (e, s) = read_byte s
            in (True, s\<lparr>u2art_data := (u2art_data s)\<lparr>extend_length := unat (be4 a b c e)\<rparr>\<rparr>))
         else (False, s))
      else (False, s\<lparr>u2art_result := U2ART_FORMAT_ERROR\<rparr>))"

text \<open>
  The loop of \<open>getData\<close> from index \<open>i\<close>, \<open>k\<close> rounds to go; the first round of a frame with a
  check sum reads that sum first.
\<close>

fun data_loop :: "nat \<Rightarrow> nat \<Rightarrow> bool \<Rightarrow> 'd u2art \<Rightarrow> 'd u2art" where
  "data_loop 0 i get_crc32_flag s = s"
| "data_loop (Suc k) i get_crc32_flag s =
     (let (flag, s) =
        (if cf (u2art_data s) \<and> \<not> get_crc32_flag then
           (let (a, s) = read_byte s; (b, s) = read_byte s; (c, s) = read_byte s; (d, s) = read_byte s
            in (True, s\<lparr>u2art_data := (u2art_data s)\<lparr>crc32 := be4 a b c d\<rparr>\<rparr>))
         else (get_crc32_flag, s));
        (e, s) = read_byte s
      in data_loop k (Suc i) flag (s\<lparr>uart0_buffer := (uart0_buffer s)[i := e]\<rparr>))"

text \<open>The second half of \<open>getData\<close>: compare the check sums, then parse.\<close>

definition check_and_parse :: "nat \<Rightarrow> 'd u2art \<Rightarrow> (bool \<times> 'd u2art) option" where
  "check_and_parse n s =
     do {
       crc_result \<leftarrow> (if cf (u2art_data s) then getCrc32 (uart0_buffer s) n else Some 0);
       if crc_result = crc32 (u2art_data s) then
         do {
           r \<leftarrow> cJSON_Parse (str_of (uart0_buffer s));
           let s = s\<lparr>u2art_data := (u2art_data s)\<lparr>root := r\<rparr>\<rparr>;
           Some (case r of
                   None \<Rightarrow> (False, s\<lparr>u2art_result := U2ART_FORMAT_ERROR\<rparr>)
                 | Some j \<Rightarrow>
                     if cj_type j \<noteq> cJSON_Array then (False, s\<lparr>u2art_result := U2ART_FORMAT_ERROR\<rparr>)
                     else (True, s))
         }
       else Some (False, s\<lparr>u2art_result := U2ART_CRC32_ERROR\<rparr>)
     }"

text \<open>The loop index is a \<open>uint8_t\<close>: for 256 bytes and more the loop never ends.\<close>

definition getData :: "'d u2art \<Rightarrow> (bool \<times> 'd u2art) option" where
  "getData s =
     (let d = u2art_data s;
          length = (if len d \<ge> 126 then extend_length d else len d);
          total = (if cf d then to_u32 (int length + 4) else length)
      in if length > READ_UART0_BUFFER then Some (False, s\<lparr>u2art_result := U2ART_FORMAT_ERROR\<rparr>)
         else if uart0_rx_available (rx s) \<ge> total then
           (if length \<ge> 256 then None
            else check_and_parse length
                   (data_loop length 0 False (s\<lparr>uart0_buffer := replicate READ_UART0_BUFFER 0\<rparr>)))
         else Some (False, s))"

text \<open>\<open>os_strcmp\<close> with the null \<open>valuestring\<close> of an element that is no string is undefined.\<close>

fun find_cmd :: "(string \<times> 'a) list \<Rightarrow> string option \<Rightarrow> 'a option option" where
  "find_cmd [] v = Some None"
| "find_cmd ((n, act) # cmds) v =
     (case v of None \<Rightarrow> None | Some v' \<Rightarrow> if n = v' then Some (Some act) else find_cmd cmds v)"

definition processCmd :: "'d u2art \<Rightarrow> (bool \<times> 'd u2art) option" where
  "processCmd s =
     (let bad = Some (False, s\<lparr>u2art_result := U2ART_FORMAT_ERROR\<rparr>) in
      case root (u2art_data s) of
        None \<Rightarrow> bad
      | Some j \<Rightarrow>
          if cj_type j \<noteq> cJSON_Array then bad
          else (case cJSON_GetArrayItem (Some j) 0 of
                  None \<Rightarrow> bad
                | Some cmd \<Rightarrow>
                    do {
                      hit \<leftarrow> find_cmd (u2art_cmd s) (cj_valuestring cmd);
                      case hit of
                        None \<Rightarrow> Some (False, s\<lparr>u2art_result := U2ART_NO_SUPPORT\<rparr>)
                      | Some None \<Rightarrow> Some (False, s\<lparr>u2art_result := U2ART_INSIDE_ERROR\<rparr>)
                      | Some (Some action) \<Rightarrow>
                          map_option (\<lambda>(r, crc, out, d).
                              (r = U2ART_SUCCESS, s\<lparr>u2art_result := r, crc_enable := crc, tx := out, dev := d\<rparr>))
                            (action j (crc_enable s, tx s, dev s))
                    }))"

definition error_code :: "U2artError \<Rightarrow> string option" where
  "error_code r =
     (case r of
        U2ART_NO_SUPPORT \<Rightarrow> Some ''100''
      | U2ART_FORMAT_ERROR \<Rightarrow> Some ''101''
      | U2ART_INSIDE_ERROR \<Rightarrow> Some ''102''
      | U2ART_INVALID_PARAMS \<Rightarrow> Some ''103''
      | U2ART_ILLEGAL_OPERATION \<Rightarrow> Some ''104''
      | U2ART_CRC32_ERROR \<Rightarrow> Some ''105''
      | U2ART_GMT_ERROR \<Rightarrow> Some ''201''
      | U2ART_NETWORK_ERROR \<Rightarrow> Some ''202''
      | U2ART_BUSY_ERROR \<Rightarrow> Some ''106''
      | _ \<Rightarrow> None)"

definition processErrorCmd :: "(nat \<Rightarrow> nat option) \<Rightarrow> 'd u2art \<Rightarrow> 'd u2art option" where
  "processErrorCmd os_malloc s =
     do {
       let s = s\<lparr>u2art_data := U2artData_zero\<rparr>;
       s \<leftarrow> (case error_code (u2art_result s) of
               None \<Rightarrow> Some s
             | Some code \<Rightarrow> map_option snd (cmdSendRetToMcu os_malloc (Some code) 3 s));
       Some (s\<lparr>u2art_result := U2ART_NULL\<rparr>)
     }"

text \<open>The search for the start of a frame.\<close>

partial_function (option) find_start :: "'d u2art \<Rightarrow> 'd u2art option" where
  "find_start s =
     (if uart0_rx_available (rx s) \<ge> 3 then
        (let (a, s) = read_byte s in
         if a \<noteq> 0xAA then find_start s
         else (let (a, s) = read_byte s in
               if a = 0x55 then
                 (let s = s\<lparr>timerout_couter := 0\<rparr>;
                      (a, s) = read_byte s
                  in Some (s\<lparr>u2art_data := (u2art_data s)\<lparr>start := True, cf := drop_bit 7 a \<noteq> 0,
                                                          len := unat (a AND 0x7f)\<rparr>\<rparr>))
               else find_start s))
      else Some s)"

text \<open>Once the length is known: read the data, run the command, answer an error.\<close>

definition run_data :: "(nat \<Rightarrow> nat option) \<Rightarrow> bool \<times> 'd u2art \<Rightarrow> 'd u2art option" where
  "run_data os_malloc r =
     do {
       let (ok, s) = r;
       s \<leftarrow> (if ok then map_option (\<lambda>(_, s). s\<lparr>get_length := False\<rparr>) (processCmd s) else Some s);
       if u2art_result s \<noteq> U2ART_NULL then processErrorCmd os_malloc s else Some s
     }"

definition frame_body :: "(nat \<Rightarrow> nat option) \<Rightarrow> 'd u2art \<Rightarrow> 'd u2art option" where
  "frame_body os_malloc s =
     do {
       s \<leftarrow> (if \<not> get_length s then
               (let (ok, s) = getExtendLength s; s = s\<lparr>get_length := ok\<rparr>
                in if u2art_result s \<noteq> U2ART_NULL then processErrorCmd os_malloc (s\<lparr>get_length := False\<rparr>)
                   else Some s)
             else Some s);
       if get_length s then Option.bind (getData s) (run_data os_malloc) else Some s
     }"

definition parseU2artData :: "(nat \<Rightarrow> nat option) \<Rightarrow> 'd u2art \<Rightarrow> 'd u2art option" where
  "parseU2artData os_malloc s =
     do {
       let s = s\<lparr>timerout_couter := to_u8 (int (timerout_couter s) + 1)\<rparr>;
       s \<leftarrow> (if \<not> start (u2art_data s) then find_start s else Some s);
       s \<leftarrow> (if start (u2art_data s) then frame_body os_malloc s else Some s);
       if timerout_couter s \<ge> TIMEROUT_TIME then
         processErrorCmd os_malloc (s\<lparr>timerout_couter := 0, u2art_result := U2ART_NULL\<rparr>)
       else Some s
     }"

text \<open>The table is read up to the given \<open>uint8_t\<close> length; the timer runs every 100 ms.\<close>

definition cmdProcessorStart :: "(string \<times> 'd cmd_action option) list \<Rightarrow> nat \<Rightarrow> 'd u2art \<Rightarrow> 'd u2art option" where
  "cmdProcessorStart cmds n s =
     (if to_u8 (int n) \<le> length cmds then
        Some (s\<lparr>u2art_cmd := take (to_u8 (int n)) cmds, read_uart_timer := Armed 100 True\<rparr>)
      else None)"

end
