(* ===== verification/U2artSpec.thy ===== *)
theory U2artSpec
  imports U2art
begin

text \<open>
  What the command processor makes of the bytes in the receive ring.  A frame as the sender
  functions build it is recognised whatever its length field, its payload is delivered to the
  command it names, and a payload damaged in transit never reaches a command.
\<close>

subsection \<open>Frames\<close>

definition frame :: "bool \<Rightarrow> u32 \<Rightarrow> bytes \<Rightarrow> bytes" where
  "frame crc c data =
     [0xAA, 0x55] @ tx_len_field crc (length data) @ (if crc then tx_crc_field c else []) @ data"

definition idle :: "'d u2art \<Rightarrow> bool" where
  "idle s \<longleftrightarrow> u2art_data s = U2artData_zero \<and> \<not> get_length s \<and> u2art_result s = U2ART_NULL
     \<and> uart_rx_inv (rx s)"

lemma byte_of_word:
  "word_of_nat m = (ucast (w :: u32) :: u8)" if "m mod 256 = unat w mod 256"
  using that by (simp add: word_unat_eq_iff unsigned_ucast_eq take_bit_eq_mod unat_of_nat)

lemma unat_drop: "unat (drop_bit k (c :: u32)) = unat c div 2 ^ k"
proof -
  have "take_bit 32 (unat c) = unat c"
    using unsigned_less [of c] by (intro take_bit_nat_eq_self) simp
  then show ?thesis
    by (simp only: unsigned_drop_bit_eq) (simp add: drop_bit_eq_div)
qed

lemma be4_bytes: "be4 (ucast (drop_bit 24 c)) (ucast (drop_bit 16 c)) (ucast (drop_bit 8 c)) (ucast c) = c"
proof (rule bit_word_eqI)
  fix n
  assume n: "n < LENGTH(32)"
  then consider "n < 8" | "8 \<le> n" "n < 16" | "16 \<le> n" "n < 24" | "24 \<le> n" "n < 32" by force
  then show "bit (be4 (ucast (drop_bit 24 c)) (ucast (drop_bit 16 c)) (ucast (drop_bit 8 c)) (ucast c)) n = bit c n"
    by cases (auto simp: be4_def bit_simps)
qed

lemma crc_field_bytes:
  "tx_crc_field c = [ucast (drop_bit 24 c), ucast (drop_bit 16 c), ucast (drop_bit 8 c), ucast c]"
proof -
  have m: "m mod 65536 div 256 = m div 256 mod 256" "m mod 65536 mod 256 = m mod 256" for m :: nat
    using mod_mult2_eq [of m 256 256] by simp_all
  show ?thesis
    by (auto simp: tx_crc_field_def Let_def unat_drop m div_mult2_eq [symmetric] intro!: byte_of_word)
qed

lemma short_len_byte:
  assumes "n < 126"
  shows "drop_bit 7 (word_of_nat n :: u8) = 0" "unat ((word_of_nat n :: u8) AND 0x7f) = n"
    "drop_bit 7 (word_of_nat n OR 0x80 :: u8) \<noteq> 0" "unat ((word_of_nat n OR 0x80 :: u8) AND 0x7f) = n"
proof -
  have "list_all (\<lambda>n. drop_bit 7 (word_of_nat n :: u8) = 0 \<and> unat ((word_of_nat n :: u8) AND 0x7f) = n
      \<and> drop_bit 7 (word_of_nat n OR 0x80 :: u8) \<noteq> 0 \<and> unat ((word_of_nat n OR 0x80 :: u8) AND 0x7f) = n) [0..<126]"
    by code_simp
  with assms show "drop_bit 7 (word_of_nat n :: u8) = 0" "unat ((word_of_nat n :: u8) AND 0x7f) = n"
    "drop_bit 7 (word_of_nat n OR 0x80 :: u8) \<noteq> 0" "unat ((word_of_nat n OR 0x80 :: u8) AND 0x7f) = n"
    by (simp_all add: list_all_iff)
qed

lemma be2_len: "n < 65536 \<Longrightarrow> unat (be2 (word_of_nat (n div 256)) (word_of_nat (n mod 256))) = n"
proof -
  assume n: "n < 65536"
  define c where "c = (word_of_nat n :: u32)"
  have c: "unat c = n" using n by (simp add: c_def unat_of_nat)
  have "(ucast (drop_bit 24 c) :: u8) = 0" "(ucast (drop_bit 16 c) :: u8) = 0"
    using n c by (simp_all add: word_unat_eq_iff unsigned_ucast_eq unat_drop)
  moreover have "word_of_nat (n div 256) = (ucast (drop_bit 8 c) :: u8)" "word_of_nat (n mod 256) = (ucast c :: u8)"
    using c by (auto simp: unat_drop intro!: byte_of_word)
  ultimately have "be2 (word_of_nat (n div 256)) (word_of_nat (n mod 256)) = c"
    using be4_bytes [of c] by (simp add: be2_def be4_def)
  with c show ?thesis by simp
qed

subsection \<open>Reading\<close>

lemma read_byte_Cons:
  assumes "uart_rx_inv (rx s)" "rx_contents (rx s) = x # xs"
  shows "\<exists>r. read_byte s = (x, s\<lparr>rx := r\<rparr>) \<and> uart_rx_inv r \<and> rx_contents r = xs"
  using rx_read_Cons [OF assms] by (auto simp: read_byte_def)

lemma data_loop_bytes:
  assumes "uart_rx_inv (rx s)" "rx_contents (rx s) = data @ rest" "length data = k"
    "i + k \<le> length (uart0_buffer s)" "flag \<or> \<not> cf (u2art_data s)"
  shows "\<exists>r. data_loop k i flag s = s\<lparr>rx := r, uart0_buffer := take i (uart0_buffer s) @ data @ drop (i + k) (uart0_buffer s)\<rparr>
     \<and> uart_rx_inv r \<and> rx_contents r = rest"
  using assms
proof (induction k arbitrary: i s data)
  case 0
  then show ?case by (auto intro!: exI [of _ "rx s"])
next
  case (Suc k)
  then obtain x xs where data: "data = x # xs" by (cases data) auto
  from read_byte_Cons [of s x "xs @ rest"] Suc.prems data obtain r where
    r: "read_byte s = (x, s\<lparr>rx := r\<rparr>)" "uart_rx_inv r" "rx_contents r = xs @ rest" by auto
  define s1 where "s1 = s\<lparr>rx := r, uart0_buffer := (uart0_buffer s)[i := x]\<rparr>"
  have "data_loop (Suc k) i flag s = data_loop k (Suc i) flag s1"
    using Suc.prems(5) r(1) by (auto simp: s1_def)
  moreover have "\<exists>r. data_loop k (Suc i) flag s1 =
      s1\<lparr>rx := r, uart0_buffer := take (Suc i) (uart0_buffer s1) @ xs @ drop (Suc i + k) (uart0_buffer s1)\<rparr>
      \<and> uart_rx_inv r \<and> rx_contents r = rest"
    using Suc.prems r data by (intro Suc.IH) (auto simp: s1_def)
  moreover have "take (Suc i) (uart0_buffer s1) = take i (uart0_buffer s) @ [x]"
    using Suc.prems by (simp add: s1_def take_Suc_conv_app_nth)
  ultimately show ?case
    using data by (auto simp: s1_def)
qed

lemma data_loop_frame:
  assumes "uart_rx_inv (rx s)" "length data = n" "0 < n" "n < 1024"
    "rx_contents (rx s) = (if cf (u2art_data s) then tx_crc_field c else []) @ data @ rest"
  shows "\<exists>r. data_loop n 0 False (s\<lparr>uart0_buffer := replicate READ_UART0_BUFFER 0\<rparr>) =
      s\<lparr>rx := r, uart0_buffer := data @ replicate (1024 - n) 0,
        u2art_data := (u2art_data s)\<lparr>crc32 := (if cf (u2art_data s) then c else crc32 (u2art_data s))\<rparr>\<rparr>
     \<and> uart_rx_inv r \<and> rx_contents r = rest"
proof (cases "cf (u2art_data s)")
  case False
  with data_loop_bytes [of "s\<lparr>uart0_buffer := replicate READ_UART0_BUFFER 0\<rparr>" data rest n 0 False] assms
  show ?thesis by (auto simp: READ_UART0_BUFFER_def)
next
  case True
  obtain k x xs where k: "n = Suc k" and data: "data = x # xs" using assms by (cases n; cases data) auto
  let ?s = "s\<lparr>uart0_buffer := replicate READ_UART0_BUFFER 0\<rparr>"
  obtain b1 b2 b3 b4 where f: "tx_crc_field c = [b1, b2, b3, b4]" and be: "be4 b1 b2 b3 b4 = c"
    using crc_field_bytes be4_bytes by blast
  from read_byte_Cons [of ?s] assms(1,5) True obtain r1 where
    1: "read_byte ?s = (b1, ?s\<lparr>rx := r1\<rparr>)" "uart_rx_inv r1" "rx_contents r1 = [b2, b3, b4] @ data @ rest"
    by (fastforce simp: f)
  from read_byte_Cons [of "?s\<lparr>rx := r1\<rparr>"] 1(2,3) obtain r2 where
    2: "read_byte (?s\<lparr>rx := r1\<rparr>) = (b2, ?s\<lparr>rx := r2\<rparr>)" "uart_rx_inv r2" "rx_contents r2 = [b3, b4] @ data @ rest"
    by fastforce
  from read_byte_Cons [of "?s\<lparr>rx := r2\<rparr>"] 2(2,3) obtain r3 where
    3: "read_byte (?s\<lparr>rx := r2\<rparr>) = (b3, ?s\<lparr>rx := r3\<rparr>)" "uart_rx_inv r3" "rx_contents r3 = [b4] @ data @ rest"
    by fastforce
  from read_byte_Cons [of "?s\<lparr>rx := r3\<rparr>"] 3(2,3) obtain r4 where
    4: "read_byte (?s\<lparr>rx := r3\<rparr>) = (b4, ?s\<lparr>rx := r4\<rparr>)" "uart_rx_inv r4" "rx_contents r4 = data @ rest"
    by fastforce
  define s1 where "s1 = ?s\<lparr>rx := r4, u2art_data := (u2art_data s)\<lparr>crc32 := c\<rparr>\<rparr>"
  have "data_loop n 0 False ?s = data_loop n 0 True s1"
    using True 1 2 3 4 by (simp add: k be s1_def)
  moreover have "\<exists>r. data_loop n 0 True s1 = s1\<lparr>rx := r, uart0_buffer := take 0 (uart0_buffer s1) @ data @ drop (0 + n) (uart0_buffer s1)\<rparr>
     \<and> uart_rx_inv r \<and> rx_contents r = rest"
    using assms 4 by (intro data_loop_bytes) (auto simp: s1_def READ_UART0_BUFFER_def)
  ultimately obtain r where "data_loop n 0 False ?s =
      s1\<lparr>rx := r, uart0_buffer := data @ drop n (uart0_buffer s1)\<rparr>" "uart_rx_inv r" "rx_contents r = rest"
    by auto
  then show ?thesis
    using True by (intro exI [of _ r]) (cases s, simp add: s1_def READ_UART0_BUFFER_def)
qed

text \<open>A complete frame of less than 256 bytes in the ring is read and handed to the check.\<close>

lemma getData_frame:
  assumes "uart_rx_inv (rx s)" "length data = n" "0 < n" "n < 256"
    "n = (if len (u2art_data s) \<ge> 126 then extend_length (u2art_data s) else len (u2art_data s))"
    "rx_contents (rx s) = (if cf (u2art_data s) then tx_crc_field c else []) @ data @ rest"
  shows "\<exists>r. getData s = check_and_parse n (s\<lparr>rx := r, uart0_buffer := data @ replicate (1024 - n) 0,
        u2art_data := (u2art_data s)\<lparr>crc32 := (if cf (u2art_data s) then c else crc32 (u2art_data s))\<rparr>\<rparr>)
     \<and> uart_rx_inv r \<and> rx_contents r = rest"
proof -
  have avail: "uart0_rx_available (rx s) = (if cf (u2art_data s) then 4 else 0) + n + length rest"
    using assms by (simp add: rx_available_length crc_field_bytes)
  have total: "to_u32 (int n + 4) = n + 4"
    using assms(4) to_u32_small [of "n + 4"] by simp
  from data_loop_frame [OF assms(1-3) _ assms(6)] assms(4) obtain r where
    r: "data_loop n 0 False (s\<lparr>uart0_buffer := replicate READ_UART0_BUFFER 0\<rparr>) =
      s\<lparr>rx := r, uart0_buffer := data @ replicate (1024 - n) 0,
        u2art_data := (u2art_data s)\<lparr>crc32 := (if cf (u2art_data s) then c else crc32 (u2art_data s))\<rparr>\<rparr>"
     "uart_rx_inv r" "rx_contents r = rest" by auto
  have "getData s = check_and_parse n (data_loop n 0 False (s\<lparr>uart0_buffer := replicate READ_UART0_BUFFER 0\<rparr>))"
    using avail total assms(4) unfolding getData_def Let_def assms(5) [symmetric]
    by (simp add: READ_UART0_BUFFER_def)
  with r show ?thesis by auto
qed

lemma find_start_hit:
  assumes "uart_rx_inv (rx s)" "rx_contents (rx s) = g @ 0xAA # 0x55 # h # post" "0xAA \<notin> set g"
  shows "\<exists>r. find_start s = Some (s\<lparr>rx := r, timerout_couter := 0,
      u2art_data := (u2art_data s)\<lparr>start := True, cf := drop_bit 7 h \<noteq> 0, len := unat (h AND 0x7f)\<rparr>\<rparr>)
     \<and> uart_rx_inv r \<and> rx_contents r = post"
  using assms
proof (induction g arbitrary: s)
  case Nil
  have avail: "uart0_rx_available (rx s) \<ge> 3" using Nil by (simp add: rx_available_length)
  from read_byte_Cons [of s] Nil obtain r1 where
    1: "read_byte s = (0xAA, s\<lparr>rx := r1\<rparr>)" "uart_rx_inv r1" "rx_contents r1 = 0x55 # h # post" by fastforce
  from read_byte_Cons [of "s\<lparr>rx := r1\<rparr>"] 1 obtain r2 where
    2: "read_byte (s\<lparr>rx := r1\<rparr>) = (0x55, s\<lparr>rx := r2\<rparr>)" "uart_rx_inv r2" "rx_contents r2 = h # post" by fastforce
  from read_byte_Cons [of "s\<lparr>timerout_couter := 0, rx := r2\<rparr>"] 2 obtain r3 where
    3: "read_byte (s\<lparr>timerout_couter := 0, rx := r2\<rparr>) = (h, s\<lparr>timerout_couter := 0, rx := r3\<rparr>)" "uart_rx_inv r3" "rx_contents r3 = post" by fastforce
  show ?case
    using avail 1 2 3 by (intro exI [of _ r3], subst find_start.simps) (cases s, simp)
next
  case (Cons x g)
  have avail: "uart0_rx_available (rx s) \<ge> 3" using Cons.prems by (simp add: rx_available_length)
  from read_byte_Cons [of s] Cons.prems obtain r1 where
    1: "read_byte s = (x, s\<lparr>rx := r1\<rparr>)" "uart_rx_inv r1" "rx_contents r1 = g @ 0xAA # 0x55 # h # post" by fastforce
  then have "find_start s = find_start (s\<lparr>rx := r1\<rparr>)"
    using avail Cons.prems by (subst find_start.simps) auto
  with Cons.IH [of "s\<lparr>rx := r1\<rparr>"] 1 Cons.prems show ?case by simp
qed

lemma len_field_parts:
  assumes "0 < n" "n < 256"
  obtains h where "tx_len_field crc n = h # (if n < 126 then [] else [word_of_nat (n div 256), word_of_nat (n mod 256)])"
    "(drop_bit 7 h \<noteq> 0) = crc" "unat (h AND 0x7f) = (if n < 126 then n else 126)"
proof (cases "n < 126")
  case True
  with short_len_byte [OF True] show ?thesis
    by (intro that [of "if \<not> crc then word_of_nat n else word_of_nat n OR 0x80"]) (auto simp: tx_len_field_def)
next
  case False
  with assms show ?thesis
    by (intro that [of "if \<not> crc then 0x7e else 0xfe"]) (auto simp: tx_len_field_def)
qed

lemma getExtendLength_frame:
  assumes "uart_rx_inv (rx s)" "0 < n" "n < 256" "len (u2art_data s) = (if n < 126 then n else 126)"
    "rx_contents (rx s) = (if n < 126 then [] else [word_of_nat (n div 256), word_of_nat (n mod 256)]) @ post"
  shows "\<exists>r. getExtendLength s = (True, s\<lparr>rx := r, u2art_data := (u2art_data s)\<lparr>extend_length := (if n < 126 then 0 else n)\<rparr>\<rparr>)
     \<and> uart_rx_inv r \<and> rx_contents r = post"
proof (cases "n < 126")
  case True
  with assms show ?thesis by (intro exI [of _ "rx s"]) (simp add: getExtendLength_def)
next
  case False
  have avail: "uart0_rx_available (rx s) \<ge> 2" using assms False by (simp add: rx_available_length)
  from read_byte_Cons [of s] assms False obtain r1 where
    1: "read_byte s = (word_of_nat (n div 256), s\<lparr>rx := r1\<rparr>)" "uart_rx_inv r1"
    "rx_contents r1 = word_of_nat (n mod 256) # post" by fastforce
  from read_byte_Cons [of "s\<lparr>rx := r1\<rparr>"] 1 obtain r2 where
    2: "read_byte (s\<lparr>rx := r1\<rparr>) = (word_of_nat (n mod 256), s\<lparr>rx := r2\<rparr>)" "uart_rx_inv r2" "rx_contents r2 = post" by fastforce
  show ?thesis
    using assms avail False 1 2 be2_len [of n] by (intro exI [of _ r2]) (simp add: getExtendLength_def)
qed

text \<open>The state in which the payload of a frame is checked.\<close>

definition loaded :: "bool \<Rightarrow> u32 \<Rightarrow> bytes \<Rightarrow> uart_rx \<Rightarrow> 'd u2art \<Rightarrow> 'd u2art" where
  "loaded crc c data r s =
     s\<lparr>timerout_couter := 0, get_length := True, rx := r,
       uart0_buffer := data @ replicate (1024 - length data) 0,
       u2art_data := \<lparr>start = True, cf = crc, len = (if length data < 126 then length data else 126),
         extend_length = (if length data < 126 then 0 else length data),
         crc32 = (if crc then c else 0), root = None\<rparr>\<rparr>"

lemma parse_frame:
  assumes idle: "idle s" and cont: "rx_contents (rx s) = g @ frame crc c data @ rest" "0xAA \<notin> set g"
    and n: "0 < length data" "length data < 256"
  shows "\<exists>r. uart_rx_inv r \<and> rx_contents r = rest \<and>
    parseU2artData m s =
      do {
        s' \<leftarrow> Option.bind (check_and_parse (length data) (loaded crc c data r s)) (run_data m);
        if timerout_couter s' \<ge> TIMEROUT_TIME then
          processErrorCmd m (s'\<lparr>timerout_couter := 0, u2art_result := U2ART_NULL\<rparr>)
        else Some s'
      }"
proof -
  define s0 where "s0 = s\<lparr>timerout_couter := to_u8 (int (timerout_couter s) + 1)\<rparr>"
  define n where "n = length data"
  define ext :: bytes where "ext = (if n < 126 then [] else [word_of_nat (n div 256), word_of_nat (n mod 256)])"
  define post where "post = (if crc then tx_crc_field c else []) @ data @ rest"
  obtain h where h: "tx_len_field crc n = h # ext" "(drop_bit 7 h \<noteq> 0) = crc" "unat (h AND 0x7f) = (if n < 126 then n else 126)"
    using len_field_parts [of n crc] n unfolding n_def ext_def by metis
  have d: "u2art_data s = U2artData_zero" "\<not> get_length s" "u2art_result s = U2ART_NULL" "uart_rx_inv (rx s)"
    using idle by (auto simp: idle_def)
  have "rx_contents (rx s0) = g @ 0xAA # 0x55 # h # (ext @ post)"
    using cont h by (simp add: s0_def frame_def n_def post_def)
  from find_start_hit [OF _ this cont(2)] d obtain r1 where
    1: "find_start s0 = Some (s0\<lparr>rx := r1, timerout_couter := 0,
      u2art_data := (u2art_data s0)\<lparr>start := True, cf := crc, len := (if n < 126 then n else 126)\<rparr>\<rparr>)"
      "uart_rx_inv r1" "rx_contents r1 = ext @ post"
    using h by (auto simp: s0_def)
  define s1 where "s1 = s0\<lparr>rx := r1, timerout_couter := 0,
      u2art_data := (u2art_data s0)\<lparr>start := True, cf := crc, len := (if n < 126 then n else 126)\<rparr>\<rparr>"
  have s1: "rx_contents (rx s1) = ext @ post" "uart_rx_inv (rx s1)" "len (u2art_data s1) = (if n < 126 then n else 126)"
    using 1 by (simp_all add: s1_def)
  from getExtendLength_frame [of s1 n post] s1 n obtain r2 where
    2: "getExtendLength s1 = (True, s1\<lparr>rx := r2, u2art_data := (u2art_data s1)\<lparr>extend_length := (if n < 126 then 0 else n)\<rparr>\<rparr>)"
      "uart_rx_inv r2" "rx_contents r2 = post"
    by (auto simp: n_def ext_def)
  define s2 where "s2 = s1\<lparr>rx := r2, u2art_data := (u2art_data s1)\<lparr>extend_length := (if n < 126 then 0 else n)\<rparr>, get_length := True\<rparr>"
  have s2: "cf (u2art_data s2) = crc"
    by (simp add: s2_def s1_def)
  have "n = (if len (u2art_data s2) \<ge> 126 then extend_length (u2art_data s2) else len (u2art_data s2))"
    by (simp add: s2_def s1_def)
  moreover have "uart_rx_inv (rx s2)" "length data = n" "0 < n" "n < 256"
    using 2 n by (simp_all add: s2_def n_def)
  moreover have "rx_contents (rx s2) = (if cf (u2art_data s2) then tx_crc_field c else []) @ data @ rest"
    using 2(3) by (simp add: s2) (simp add: s2_def post_def)
  ultimately obtain r3 where
    3: "getData s2 = check_and_parse n (s2\<lparr>rx := r3, uart0_buffer := data @ replicate (1024 - n) 0,
        u2art_data := (u2art_data s2)\<lparr>crc32 := (if crc then c else crc32 (u2art_data s2))\<rparr>\<rparr>)"
      "uart_rx_inv r3" "rx_contents r3 = rest"
    using getData_frame [of s2 data n c rest] unfolding s2 by blast
  have l: "s2\<lparr>rx := r3, uart0_buffer := data @ replicate (1024 - n) 0,
        u2art_data := (u2art_data s2)\<lparr>crc32 := (if crc then c else crc32 (u2art_data s2))\<rparr>\<rparr> = loaded crc c data r3 s"
    by (cases s) (use d in \<open>simp add: s2_def s1_def s0_def loaded_def n_def U2artData_zero_def\<close>)
  have "frame_body m s1 = Option.bind (getData s2) (run_data m)"
    using d 2(1) by (simp add: frame_body_def s2_def) (simp add: s1_def s0_def)
  moreover have "start (u2art_data s1)" "\<not> start (u2art_data s0)" using d by (simp_all add: s1_def s0_def U2artData_zero_def)
  ultimately have "parseU2artData m s = do {
        s' \<leftarrow> Option.bind (getData s2) (run_data m);
        if timerout_couter s' \<ge> TIMEROUT_TIME then
          processErrorCmd m (s'\<lparr>timerout_couter := 0, u2art_result := U2ART_NULL\<rparr>)
        else Some s'
      }"
    using 1(1) unfolding parseU2artData_def s0_def [symmetric] s1_def [symmetric] by (simp add: Let_def)
  then show ?thesis using 3 l unfolding n_def by auto
qed

subsection \<open>Checking the payload\<close>

lemma takeWhile_zeros: "takeWhile (\<lambda>b. b \<noteq> 0) (xs @ replicate k (0 :: u8)) = takeWhile (\<lambda>b. b \<noteq> 0) xs"
  by (induction xs) (auto simp: takeWhile_eq_Nil_iff hd_replicate)

lemma loaded_simps:
  "u2art_result (loaded crc c data r s) = u2art_result s" "tx (loaded crc c data r s) = tx s"
  "dev (loaded crc c data r s) = dev s" "u2art_cmd (loaded crc c data r s) = u2art_cmd s"
  "timerout_couter (loaded crc c data r s) = 0" "rx (loaded crc c data r s) = r"
  "get_length (loaded crc c data r s) = True" "crc_enable (loaded crc c data r s) = crc_enable s"
  "cf (u2art_data (loaded crc c data r s)) = crc"
  "crc32 (u2art_data (loaded crc c data r s)) = (if crc then c else 0)"
  "str_of (uart0_buffer (loaded crc c data r s)) = str_of data"
  by (simp_all add: loaded_def str_of_def takeWhile_zeros)

lemma loaded_crc:
  "length data \<le> 1024 \<Longrightarrow> getCrc32 (uart0_buffer (loaded crc c data r s)) (length data) = Some (crc32_spec data)"
  by (simp add: getCrc32_spec loaded_def)

lemma check_good:
  assumes "length data \<le> 1024" "crc \<longrightarrow> c = crc32_spec data" "cJSON_Parse (str_of data) = Some (Some j)"
    "cj_type j = cJSON_Array"
  shows "check_and_parse (length data) (loaded crc c data r s) =
    Some (True, (loaded crc c data r s)\<lparr>u2art_data := (u2art_data (loaded crc c data r s))\<lparr>root := Some j\<rparr>\<rparr>)"
  using assms by (simp add: check_and_parse_def loaded_simps loaded_crc)

lemma check_bad_crc:
  assumes "length data \<le> 1024" "c \<noteq> crc32_spec data"
  shows "check_and_parse (length data) (loaded True c data r s) =
    Some (False, (loaded True c data r s)\<lparr>u2art_result := U2ART_CRC32_ERROR\<rparr>)"
  using assms by (auto simp: check_and_parse_def loaded_simps loaded_crc)

text \<open>The answer to an error: a frame holding the array of \<open>ret\<close> and the code.\<close>

definition ret_text :: "string \<Rightarrow> bytes" where
  "ret_text code = bytes_of (''['' @ [CHR 0x22] @ ''ret'' @ [CHR 0x22] @ '','' @ code @ '']'')"

lemma tx_payload_frame:
  assumes "length data < 65536" "buf = data @ pad"
  shows "tx_payload crc buf (length data) (out @ [0xAA, 0x55]) = Some (out @ frame crc (crc32_spec data) data)"
  using assms to_u16_small [of "length data"]
  by (auto simp: tx_payload_def frame_def getCrc32_spec uart0_tx_buffer_def)

lemma ret_reply:
  assumes "length code = 3" "m 11 = Some k" "12 \<le> k"
  shows "cmdSendRetToMcu m (Some code) 3 s =
    Some (True, s\<lparr>tx := tx s @ frame (crc_enable s) (crc32_spec (ret_text code)) (ret_text code)\<rparr>)"
proof -
  have l: "length (ret_text code) = 11" using assms(1) by (simp add: ret_text_def bytes_of_def)
  have "to_u32 11 = 11" using to_u32_small [of 11] by simp
  with tx_payload_frame [of "ret_text code" "ret_text code @ [0]" "[0]" "crc_enable s" "tx s"] assms l show ?thesis
    unfolding cmdSendRetToMcu_def send_ret_def Let_def ret_text_def [symmetric] by simp
qed

lemma frame_command:
  assumes idle: "idle s" and cont: "rx_contents (rx s) = g @ frame crc c data @ rest" "0xAA \<notin> set g"
    and n: "0 < length data" "length data < 256" and sum: "crc \<longrightarrow> c = crc32_spec data"
    and json: "cJSON_Parse (str_of data) = Some (Some j)" "cj_type j = cJSON_Array" "cj_child j = cmd # args"
    and act: "find_cmd (u2art_cmd s) (cj_valuestring cmd) = Some (Some (Some action))"
      "action j (crc_enable s, tx s, dev s) = Some (U2ART_SUCCESS, crc', out, d)"
  shows "\<exists>s'. parseU2artData m s = Some s' \<and> idle s' \<and> rx_contents (rx s') = rest \<and> tx s' = out \<and> dev s' = d
     \<and> crc_enable s' = crc' \<and> u2art_cmd s' = u2art_cmd s"
proof -
  from parse_frame [OF idle cont n] obtain r where r: "uart_rx_inv r" "rx_contents r = rest" and run: "parseU2artData m s =
      do {
        s' \<leftarrow> Option.bind (check_and_parse (length data) (loaded crc c data r s)) (run_data m);
        if timerout_couter s' \<ge> TIMEROUT_TIME then
          processErrorCmd m (s'\<lparr>timerout_couter := 0, u2art_result := U2ART_NULL\<rparr>)
        else Some s'
      }" by blast
  define s1 where "s1 = (loaded crc c data r s)\<lparr>u2art_data := (u2art_data (loaded crc c data r s))\<lparr>root := Some j\<rparr>\<rparr>"
  have "check_and_parse (length data) (loaded crc c data r s) = Some (True, s1)"
    using check_good [of data crc c j r s] n sum json by (simp add: s1_def)
  moreover have "processCmd s1 = Some (True, s1\<lparr>u2art_result := U2ART_SUCCESS, crc_enable := crc', tx := out, dev := d\<rparr>)"
    using json act by (simp add: processCmd_def s1_def loaded_simps cJSON_GetArrayItem_def)
  ultimately have "parseU2artData m s = Some (s1\<lparr>get_length := False, u2art_result := U2ART_NULL, crc_enable := crc', tx := out, dev := d,
      u2art_data := U2artData_zero\<rparr>)"
    unfolding run by (simp add: run_data_def processErrorCmd_def error_code_def TIMEROUT_TIME_def) (simp add: s1_def loaded_simps)
  then show ?thesis using r by (simp add: idle_def s1_def loaded_simps)
qed

lemma frame_bad_crc:
  assumes idle: "idle s" and cont: "rx_contents (rx s) = g @ frame True c data @ rest" "0xAA \<notin> set g"
    and n: "0 < length data" "length data < 256" and sum: "c \<noteq> crc32_spec data"
    and mem: "m 11 = Some k" "12 \<le> k"
  shows "\<exists>s'. parseU2artData m s = Some s' \<and> u2art_data s' = U2artData_zero \<and> u2art_result s' = U2ART_NULL
     \<and> uart_rx_inv (rx s') \<and> rx_contents (rx s') = rest \<and> dev s' = dev s \<and> get_length s'
     \<and> tx s' = tx s @ frame (crc_enable s) (crc32_spec (ret_text ''105'')) (ret_text ''105'')"
proof -
  from parse_frame [OF idle cont n] obtain r where r: "uart_rx_inv r" "rx_contents r = rest" and run: "parseU2artData m s =
      do {
        s' \<leftarrow> Option.bind (check_and_parse (length data) (loaded True c data r s)) (run_data m);
        if timerout_couter s' \<ge> TIMEROUT_TIME then
          processErrorCmd m (s'\<lparr>timerout_couter := 0, u2art_result := U2ART_NULL\<rparr>)
        else Some s'
      }" by blast
  have "length data \<le> 1024" using n by simp
  then show ?thesis
    unfolding run check_bad_crc [OF _ sum]
    using mem r
    by (simp add: ret_reply [of "''105''" m k] check_bad_crc [OF _ sum] run_data_def processErrorCmd_def
        error_code_def TIMEROUT_TIME_def loaded_simps)
qed

text \<open>
  The stale flag: after a check-sum or format error \<open>get_length\<close> stays set, so the length field
  of the next extended frame is not read and that frame is refused with a format error.
\<close>

lemma parse_empty: "cJSON_Parse [] = Some None"
  by (simp add: cJSON_Parse_def js_skip_def chr_at_def c_isdigit_def)

lemma find_start_frame:
  assumes "uart_rx_inv (rx s)" "rx_contents (rx s) = g @ frame crc c data" "0xAA \<notin> set g" "0 < length data" "length data < 256"
  shows "\<exists>r. find_start s = Some (s\<lparr>rx := r, timerout_couter := 0,
      u2art_data := (u2art_data s)\<lparr>start := True, cf := crc, len := (if length data < 126 then length data else 126)\<rparr>\<rparr>)
     \<and> uart_rx_inv r \<and> length data \<le> length (rx_contents r) \<and> (crc \<longrightarrow> length data + 4 \<le> length (rx_contents r))"
proof -
  obtain h where h: "tx_len_field crc (length data) = h # (if length data < 126 then [] else
      [word_of_nat (length data div 256), word_of_nat (length data mod 256)])"
    "(drop_bit 7 h \<noteq> 0) = crc" "unat (h AND 0x7f) = (if length data < 126 then length data else 126)"
    using len_field_parts [of "length data" crc] assms(4,5) by metis
  from assms(2) h have "rx_contents (rx s) = g @ 0xAA # 0x55 # h # ((if length data < 126 then [] else
      [word_of_nat (length data div 256), word_of_nat (length data mod 256)]) @ (if crc then tx_crc_field c else []) @ data)"
    by (simp add: frame_def)
  from find_start_hit [OF assms(1) this assms(3)] h show ?thesis
    by (auto simp: crc_field_bytes)
qed

lemma stale_length_rejects:
  assumes stale: "u2art_data s = U2artData_zero" "get_length s" "u2art_result s = U2ART_NULL" "uart_rx_inv (rx s)"
    and cont: "rx_contents (rx s) = g @ frame crc c data" "0xAA \<notin> set g"
    and n: "126 \<le> length data" "length data < 256" and mem: "m 11 = Some k" "12 \<le> k"
  shows "\<exists>s'. parseU2artData m s = Some s' \<and> dev s' = dev s \<and> get_length s'
     \<and> tx s' = tx s @ frame (crc_enable s) (crc32_spec (ret_text ''101'')) (ret_text ''101'')"
proof -
  define s0 where "s0 = s\<lparr>timerout_couter := to_u8 (int (timerout_couter s) + 1)\<rparr>"
  have pos: "0 < length data" using n by linarith
  from find_start_frame [of s0 g crc c data, OF _ _ cont(2) pos n(2)] stale cont(1) n(1) obtain r where
    r: "find_start s0 = Some (s0\<lparr>rx := r, timerout_couter := 0,
      u2art_data := (u2art_data s0)\<lparr>start := True, cf := crc, len := 126\<rparr>\<rparr>)" "uart_rx_inv r"
      "crc \<longrightarrow> 4 \<le> length (rx_contents r)"
    by (auto simp: s0_def)
  define s1 where "s1 = s0\<lparr>rx := r, timerout_couter := 0,
      u2art_data := (u2art_data s0)\<lparr>start := True, cf := crc, len := 126\<rparr>\<rparr>"
  have "(NOT (0xFFFFFFFF :: u32)) = 0" by simp
  then have "getData s1 = Some (False, s1\<lparr>uart0_buffer := replicate 1024 0, u2art_result := U2ART_FORMAT_ERROR,
      u2art_data := (u2art_data s1)\<lparr>root := None\<rparr>\<rparr>)"
    using r stale to_u32_small [of 4] rx_available_length(1) [of r]
    by (auto simp: getData_def check_and_parse_def s1_def s0_def U2artData_zero_def READ_UART0_BUFFER_def
        getCrc32_def str_of_def parse_empty takeWhile_eq_Nil_iff)
  moreover have "start (u2art_data s1)" "get_length s1" "\<not> start (u2art_data s0)"
    using stale by (simp_all add: s1_def s0_def U2artData_zero_def)
  ultimately show ?thesis
    unfolding parseU2artData_def s0_def [symmetric] using r(1) mem
    by (simp add: Let_def s1_def [symmetric] frame_body_def run_data_def processErrorCmd_def error_code_def
        ret_reply [of "''101''" m k]) (simp add: s1_def s0_def TIMEROUT_TIME_def)
qed

text \<open>
  A command whose first element is no string (a number, say) makes \<open>os_strcmp\<close> read through the
  null pointer, and a payload of 256 to 1024 bytes never leaves the loop of \<open>getData\<close>.
\<close>

lemma processCmd_null_string:
  assumes "root (u2art_data s) = Some j" "cj_type j = cJSON_Array" "cj_child j = cmd # args"
    "cj_valuestring cmd = None" "u2art_cmd s \<noteq> []"
  shows "processCmd s = None"
  using assms by (cases "u2art_cmd s") (auto simp: processCmd_def cJSON_GetArrayItem_def)

lemma getData_long:
  assumes "uart_rx_inv (rx s)" "len (u2art_data s) = 126" "\<not> cf (u2art_data s)"
    "256 \<le> extend_length (u2art_data s)" "extend_length (u2art_data s) \<le> length (rx_contents (rx s))"
  shows "getData s = None"
  using assms rx_available_length [OF assms(1)] by (simp add: getData_def READ_UART0_BUFFER_def)

lemma send_data_frame:
  assumes "0 < length data" "length data < 65536"
  shows "cmdSendDataToMcu (Some data) (length data) a =
    Some (True, a\<lparr>tx := tx a @ frame (crc_enable a) (crc32_spec data) data\<rparr>)"
  using assms tx_payload_frame [of data data "[]"] by (simp add: cmdSendDataToMcu_def send_data_def)

lemma ret_overflow:
  assumes "length code = 3" "m 11 = Some 11"
  shows "cmdSendRetToMcu m (Some code) 3 s = None"
proof -
  have "to_u32 11 = 11" using to_u32_small [of 11] by simp
  then show ?thesis using assms by (simp add: cmdSendRetToMcu_def send_ret_def Let_def bytes_of_def)
qed

subsection \<open>Properties\<close>

text \<open>
  C12: what \<open>cmdSendDataToMcu\<close> transmits for a payload of 1 to 255 bytes, with or without check
  sum, is recognised by an idle command processor after any noise free of AA; the command the
  payload names runs exactly once on the parsed array, its output is transmitted, the rest of
  the ring is untouched and the processor is idle again.
\<close>

theorem u2art_frame_executed:
  assumes send: "cmdSendDataToMcu (Some data) (length data) a = Some (True, a')" "tx a' = tx a @ wire"
    and idle: "idle s" and cont: "rx_contents (rx s) = g @ wire @ rest" "0xAA \<notin> set g"
    and n: "0 < length data" "length data < 256"
    and json: "cJSON_Parse (str_of data) = Some (Some j)" "cj_type j = cJSON_Array" "cj_child j = cmd # args"
    and act: "find_cmd (u2art_cmd s) (cj_valuestring cmd) = Some (Some (Some action))"
      "action j (crc_enable s, tx s, dev s) = Some (U2ART_SUCCESS, crc', out, d)"
  shows "\<exists>s'. parseU2artData m s = Some s' \<and> idle s' \<and> rx_contents (rx s') = rest \<and> tx s' = out \<and> dev s' = d
     \<and> crc_enable s' = crc' \<and> u2art_cmd s' = u2art_cmd s"
proof (rule frame_command [OF idle _ cont(2) n _ json act])
  have "wire = frame (crc_enable a) (crc32_spec data) data"
    using send n by (auto simp: send_data_frame)
  then show "rx_contents (rx s) = g @ frame (crc_enable a) (crc32_spec data) data @ rest"
    using cont by simp
qed simp

definition ring_of :: "bytes \<Rightarrow> uart_rx" where
  "ring_of bs = fold uart0_rx_write bs uart_rx_init"

lemma ring_of_contents:
  assumes "length bs \<le> 1023"
  shows "uart_rx_inv (ring_of bs)" "rx_contents (ring_of bs) = bs"
proof -
  have "uart_rx_inv (fold uart0_rx_write bs r) \<and> rx_contents (fold uart0_rx_write bs r) = rx_contents r @ bs"
    if "uart_rx_inv r" "length (rx_contents r) + length bs \<le> 1023" for r
    using that by (induction bs arbitrary: r) (simp_all add: rx_write_room)
  from this [of uart_rx_init] assms show "uart_rx_inv (ring_of bs)" "rx_contents (ring_of bs) = bs"
    by (simp_all add: ring_of_def uart_rx_inv_init)
qed

definition sample :: "bytes \<Rightarrow> nat u2art" where
  "sample bs = \<lparr>u2art_data = U2artData_zero, u2art_result = U2ART_NULL,
     u2art_cmd = [(''on'', Some (\<lambda>j (crc, out, d). Some (U2ART_SUCCESS, crc, out @ [1], d + 1)))],
     uart0_buffer = [], get_length = False, timerout_couter = 0, crc_enable = True,
     read_uart_timer = Armed 100 True, rx = ring_of bs, tx = [], dev = 0\<rparr>"

definition sample_data :: bytes where
  "sample_data = [91, 34, 111, 110, 34, 93]"

lemma sample_json:
  "cJSON_Parse (str_of sample_data) =
     Some (Some (CJ cJSON_Array [CJ cJSON_String [] (Some ''on'') 0 0 None] None 0 0 None))"
  by code_simp

theorem u2art_frame_executed_witness:
  "\<exists>s'. parseU2artData Some (sample ([7, 0x55] @ frame True (crc32_spec sample_data) sample_data @ [3])) = Some s'
     \<and> idle s' \<and> rx_contents (rx s') = [3] \<and> tx s' = [1] \<and> dev s' = 1"
proof -
  let ?wire = "frame True (crc32_spec sample_data) sample_data"
  let ?s = "sample ([7, 0x55] @ ?wire @ [3])"
  have n: "0 < length sample_data" "length sample_data < 256" "length ([7, 0x55] @ ?wire @ [3]) \<le> 1023"
    by (simp_all add: sample_data_def frame_def tx_len_field_def tx_crc_field_def Let_def)
  have send: "cmdSendDataToMcu (Some sample_data) (length sample_data) (sample []) =
      Some (True, (sample [])\<lparr>tx := ?wire\<rparr>)"
    using n by (simp add: send_data_frame) (simp add: sample_def)
  have "idle ?s" "rx_contents (rx ?s) = [7, 0x55] @ ?wire @ [3]"
    using ring_of_contents [OF n(3)] by (simp_all add: idle_def sample_def)
  from u2art_frame_executed [OF send _ this _ n(1,2) sample_json, of "CJ cJSON_String [] (Some ''on'') 0 0 None" "[]"
      "\<lambda>j (crc, out, d). Some (U2ART_SUCCESS, crc, out @ [1], d + 1)" True "[1]" 1 Some]
  show ?thesis by (auto simp: sample_def)
qed



text \<open>
  After a check-sum or format error the flag \<open>get_length\<close> is left set, and then an intact
  frame of 126 to 255 bytes is refused with error 101 whatever it holds, and the flag stays set.
\<close>

theorem u2art_stale_length:
  assumes "u2art_data s = U2artData_zero" "get_length s" "u2art_result s = U2ART_NULL" "uart_rx_inv (rx s)"
    and "rx_contents (rx s) = g @ frame crc c data" "0xAA \<notin> set g"
    and "126 \<le> length data" "length data < 256" and "os_malloc 11 = Some k" "12 \<le> k"
  shows "\<exists>s'. parseU2artData os_malloc s = Some s' \<and> dev s' = dev s \<and> get_length s'
     \<and> tx s' = tx s @ frame (crc_enable s) (crc32_spec (ret_text ''101'')) (ret_text ''101'')"
  using assms by (rule stale_length_rejects)

theorem u2art_stale_length_witness:
  "\<exists>s'. parseU2artData (\<lambda>n. Some (n + 4)) ((sample (frame False 0 (replicate 126 32)))\<lparr>get_length := True\<rparr>) = Some s'
     \<and> dev s' = 0 \<and> get_length s' \<and> tx s' = frame True (crc32_spec (ret_text ''101'')) (ret_text ''101'')"
proof -
  let ?wire = "frame False 0 (replicate 126 32)"
  let ?s = "(sample ?wire)\<lparr>get_length := True\<rparr>"
  have n: "length ?wire \<le> 1023"
    by (simp add: frame_def tx_len_field_def tx_crc_field_def Let_def)
  have "u2art_data ?s = U2artData_zero" "get_length ?s" "u2art_result ?s = U2ART_NULL" "uart_rx_inv (rx ?s)"
    "rx_contents (rx ?s) = [] @ ?wire"
    using ring_of_contents [OF n] by (simp_all add: sample_def)
  from u2art_stale_length [OF this, of "\<lambda>n. Some (n + 4)" 15] show ?thesis by (simp add: sample_def)
qed

text \<open>
  \<open>getData\<close> never returns for an unchecked payload of 256 to 1024 bytes that has arrived
  completely: its 8-bit index cannot reach the length.
\<close>

theorem getData_never_returns:
  assumes "uart_rx_inv (rx s)" "len (u2art_data s) = 126" "\<not> cf (u2art_data s)"
    "256 \<le> extend_length (u2art_data s)" "extend_length (u2art_data s) \<le> length (rx_contents (rx s))"
  shows "getData s = None"
  using assms by (rule getData_long)

theorem getData_never_returns_witness:
  "getData ((sample (replicate 256 32))\<lparr>u2art_data := U2artData_zero\<lparr>len := 126, extend_length := 256\<rparr>\<rparr>) = None"
  by (rule getData_never_returns)
    (use ring_of_contents [of "replicate 256 32"] in \<open>simp_all add: sample_def U2artData_zero_def\<close>)

text \<open>
  the answer buffer of \<open>cmdSendRetToMcu\<close> is one byte too short: with an allocator that gives
  exactly the eleven bytes asked for, every three-digit error answer overruns it; with one more
  byte the answer is the frame of the JSON array of \<open>ret\<close> and the code.
\<close>

theorem ret_answer_overrun:
  assumes "length code = 3" "os_malloc 11 = Some k" "11 \<le> k"
  shows "cmdSendRetToMcu os_malloc (Some code) 3 s =
    (if k = 11 then None
     else Some (True, s\<lparr>tx := tx s @ frame (crc_enable s) (crc32_spec (ret_text code)) (ret_text code)\<rparr>))"
  using assms by (cases "k = 11") (simp_all add: ret_overflow ret_reply)

theorem ret_answer_overrun_witness:
  "cmdSendRetToMcu Some (Some ''105'') 3 (sample []) = None"
  by (subst ret_answer_overrun) simp_all

end
