(* ===== verification/TimerSched.thy ===== *)
theory TimerSched
  imports ClockSpec
begin

text \<open>
  The timer scheduler \<open>app/user/iotgo_timer.c\<close>: ten slots, each a one-shot time (GMT), a weekly
  pattern (cron) or a periodic action with one or two callbacks, examined once a second by
  \<open>timerMonitorCallback\<close>.

  A function pointer is a number, the call of it is the parameter \<open>call\<close>, a function on the
  whole state (a callback may add and delete timers and change the rest \<open>'d\<close> of the firmware);
  whether an allocation succeeds is the parameter \<open>os_malloc\<close>.  The owned argument blocks are
  the byte lists in the slots, \<open>live\<close> counts the allocated blocks.  \<open>junk\<close> is the uninitialised
  local \<open>time_obj\<close> of the functions that add a timer.
\<close>

subsection \<open>Data\<close>

datatype IoTgoTimerType =
  IOTGO_TIME_TYPE_INVALID | IOTGO_TIME_TYPE_GMT | IOTGO_TIME_TYPE_CRON | IOTGO_TIME_TYPE_INTERVAL
| IOTGO_TIME_TYPE_INTERVAL_DURATION | IOTGO_TIME_TYPE_INTERVAL_DURATION_START_END

datatype timing = TGmt IoTgoGMTTime | TCron IoTgoCron

record IoTgoTimeObject =
  ttype :: IoTgoTimerType
  timing :: timing
  time_interval :: nat
  time_duration :: nat
  tsch :: "nat option"
  start_do :: "nat option"
  end_do :: "nat option"
  ptr :: "bytes option"
  p_start_do :: "bytes option"
  p_end_do :: "bytes option"
  enabled :: bool
  used :: bool
  interval_timer :: os_timer
  second_count :: nat
  minute_count :: nat
  time_compare_flag :: nat
  diff_timer :: "int \<times> int"

definition zero_object :: IoTgoTimeObject where
  "zero_object = \<lparr>ttype = IOTGO_TIME_TYPE_INVALID,
     timing = TGmt \<lparr>year = 0, month = 0, day = 0, hour = 0, minute = 0, second = 0\<rparr>,
     time_interval = 0, time_duration = 0, tsch = None, start_do = None, end_do = None,
     ptr = None, p_start_do = None, p_end_do = None, enabled = False, used = False,
     interval_timer = Disarmed, second_count = 0, minute_count = 0, time_compare_flag = 0,
     diff_timer = (0, 0)\<rparr>"

definition IOTGO_DEVICE_TIMER_MAX :: nat where
  "IOTGO_DEVICE_TIMER_MAX = 10"

definition KNOW_DATE :: IoTgoGMTTime where
  "KNOW_DATE = \<lparr>year = 2015, month = 1, day = 1, hour = 0, minute = 0, second = 0\<rparr>"

record 'd sched =
  time_object_list :: "IoTgoTimeObject list"
  live :: nat
  timer_monitor :: os_timer
  env :: 'd

type_synonym 'd caller = "nat \<Rightarrow> bytes option \<Rightarrow> 'd sched \<Rightarrow> 'd sched option"

text \<open>The members of the union as they are read; the type field tells which one is there.\<close>

definition gmt_of :: "timing \<Rightarrow> IoTgoGMTTime option" where
  "gmt_of t = (case t of TGmt g \<Rightarrow> Some g | TCron _ \<Rightarrow> None)"

definition cron_of :: "timing \<Rightarrow> IoTgoCron option" where
  "cron_of t = (case t of TGmt _ \<Rightarrow> None | TCron c \<Rightarrow> Some c)"

subsection \<open>Time differences\<close>

text \<open>Adding up the lengths of the months \<open>ms\<close> of a year in a \<open>uint32\<close>.\<close>

fun month_loop :: "nat \<Rightarrow> nat list \<Rightarrow> nat \<Rightarrow> nat option" where
  "month_loop y [] acc = Some acc"
| "month_loop y (m # ms) acc =
     do {
       d \<leftarrow> daysOfMonth (int y) (int m);
       month_loop y ms (to_u32 (int acc + d))
     }"

fun year_loop :: "nat list \<Rightarrow> nat \<Rightarrow> nat option" where
  "year_loop [] acc = Some acc"
| "year_loop (y # ys) acc = Option.bind (month_loop y [1..<13] acc) (year_loop ys)"

text \<open>Minutes (\<open>int32\<close>) and seconds since the start of 2015; a year before 2015 counts its days only.\<close>

definition minuteDiffFromKnownYear :: "IoTgoGMTTime \<Rightarrow> (int \<times> int) option" where
  "minuteDiffFromKnownYear t =
     do {
       day_sum \<leftarrow>
         (if year t > year KNOW_DATE then
            Option.bind (year_loop [year KNOW_DATE..<year t] 0) (month_loop (year t) [1..<month t])
          else Some 0);
       day_sum \<leftarrow>
         (if year t = year KNOW_DATE then month_loop (year t) [1..<month t] day_sum else Some day_sum);
       let day_sum = to_u32 (int day_sum + int (day t) - 1);
       Some (to_s32 (int (to_u32 (int day_sum * 24 * 60 + int (hour t) * 60 + int (minute t)))),
             to_s8 (int (second t)))
     }"

text \<open>\<open>minute * 60 + second\<close> is an \<open>int\<close> computation before it is converted to \<open>uint32\<close>.\<close>

definition diff_seconds :: "int \<times> int \<Rightarrow> nat option" where
  "diff_seconds = (\<lambda>(mi, se).
     if -2147483648 \<le> mi * 60 + se \<and> mi * 60 + se \<le> 2147483647 \<and> -2147483648 \<le> mi * 60 \<and> mi * 60 \<le> 2147483647
     then Some (to_u32 (mi * 60 + se)) else None)"

definition minuteDiff :: "IoTgoGMTTime \<Rightarrow> IoTgoGMTTime \<Rightarrow> (int \<times> int) option" where
  "minuteDiff time1 time2 =
     do {
       temp1 \<leftarrow> minuteDiffFromKnownYear time1;
       temp2 \<leftarrow> minuteDiffFromKnownYear time2;
       val_temp1 \<leftarrow> diff_seconds temp1;
       val_temp2 \<leftarrow> diff_seconds temp2;
       Some (if val_temp2 > val_temp1 then (-1, -1)
             else (let val = val_temp1 - val_temp2
                   in (to_s32 (int (val div 60)), to_s8 (int (val mod 60)))))
     }"

subsection \<open>Slots\<close>

definition blocks_of :: "IoTgoTimeObject \<Rightarrow> nat" where
  "blocks_of ob =
     (if ttype ob \<noteq> IOTGO_TIME_TYPE_INTERVAL_DURATION_START_END then
        (if ptr ob = None then 0 else 1)
      else (if p_start_do ob = None then 0 else 1) + (if p_end_do ob = None then 0 else 1))"

text \<open>
  The returned flag is \<open>None\<close> where the source falls off the end without a value (a slot that is
  not in use); the callers only print it.
\<close>

definition deleteOneTimeObject :: "nat \<Rightarrow> 'd sched \<Rightarrow> bool option \<times> 'd sched" where
  "deleteOneTimeObject i s =
     (if i \<ge> IOTGO_DEVICE_TIMER_MAX then (Some False, s)
      else if used (time_object_list s ! i) then
        (Some True, s\<lparr>live := live s - blocks_of (time_object_list s ! i),
                      time_object_list := (time_object_list s)[i := zero_object]\<rparr>)
      else (None, s))"

definition deleteAllTimeObject :: "'d sched \<Rightarrow> 'd sched" where
  "deleteAllTimeObject s = fold (\<lambda>i s. snd (deleteOneTimeObject i s)) [0..<IOTGO_DEVICE_TIMER_MAX] s"

fun add_loop :: "nat list \<Rightarrow> IoTgoTimeObject \<Rightarrow> 'd sched \<Rightarrow> int \<times> 'd sched" where
  "add_loop [] ob s = (-1, s)"
| "add_loop (i # is) ob s =
     (if \<not> used (time_object_list s ! i) then
        (int i, s\<lparr>time_object_list := (time_object_list s)[i := ob\<lparr>used := True, time_compare_flag := 0\<rparr>]\<rparr>)
      else add_loop is ob s)"

definition addOneTimeObject :: "IoTgoTimeObject \<Rightarrow> 'd sched \<Rightarrow> int \<times> 'd sched" where
  "addOneTimeObject ob s = add_loop [0..<IOTGO_DEVICE_TIMER_MAX] ob s"

text \<open>The copy of an argument: \<open>size\<close> bytes and a terminator; a shorter source is read beyond its end.\<close>

definition copy_arg :: "bytes \<Rightarrow> nat \<Rightarrow> bytes option" where
  "copy_arg src n = (if n \<le> length src then Some (take n src @ [0]) else None)"

text \<open>The common ending: store the object, free its blocks if there was no slot.\<close>

definition finish_add :: "IoTgoTimeObject \<Rightarrow> 'd sched \<Rightarrow> int \<times> 'd sched" where
  "finish_add ob s =
     (let (ret, s) = addOneTimeObject ob s
      in if ret = -1 then (ret, s\<lparr>live := live s - blocks_of ob\<rparr>) else (ret, s))"

definition addTimeObjectByGMTString ::
    "(nat \<Rightarrow> bool) \<Rightarrow> IoTgoTimeObject \<Rightarrow> bool \<Rightarrow> string option \<Rightarrow> nat option \<Rightarrow> bytes \<Rightarrow> nat \<Rightarrow> 'd sched \<Rightarrow> (int \<times> 'd sched) option" where
  "addTimeObjectByGMTString os_malloc junk en gmt_str cb arg n s =
     (if gmt_str = None \<or> cb = None then Some (-1, s)
      else (let (ok, g) = parseGMTTimeFromString gmt_str KNOW_DATE in
            if \<not> ok then Some (-1, s)
            else if \<not> os_malloc (n + 1) then Some (-1, s)
            else do {
              a \<leftarrow> copy_arg arg n;
              Some (finish_add (junk\<lparr>ttype := IOTGO_TIME_TYPE_GMT, timing := TGmt g, tsch := cb,
                                     ptr := Some a, enabled := en\<rparr>)
                               (s\<lparr>live := live s + 1\<rparr>))
            }))"

definition addTimeObjectByCronString ::
    "(nat \<Rightarrow> bool) \<Rightarrow> IoTgoTimeObject \<Rightarrow> bool \<Rightarrow> string option \<Rightarrow> nat option \<Rightarrow> bytes \<Rightarrow> nat \<Rightarrow> 'd sched \<Rightarrow> (int \<times> 'd sched) option" where
  "addTimeObjectByCronString os_malloc junk en cron_str cb arg n s =
     (if cron_str = None \<or> cb = None then Some (-1, s)
      else do {
        (ok, c) \<leftarrow> parseCronFromString cron_str \<lparr>cron_weeks = replicate 7 False, cron_hour = 0, cron_minute = 0\<rparr>;
        if \<not> ok then Some (-1, s)
        else if \<not> os_malloc (n + 1) then Some (-1, s)
        else do {
          a \<leftarrow> copy_arg arg n;
          Some (finish_add (junk\<lparr>ttype := IOTGO_TIME_TYPE_CRON, timing := TCron c, tsch := cb,
                                 ptr := Some a, enabled := en\<rparr>)
                           (s\<lparr>live := live s + 1\<rparr>))
        }
      })"

text \<open>The test \<open>interval < 0\<close> on an unsigned value never holds.\<close>

definition addTimeObjectInterval ::
    "(nat \<Rightarrow> bool) \<Rightarrow> IoTgoTimeObject \<Rightarrow> bool \<Rightarrow> string option \<Rightarrow> nat \<Rightarrow> nat option \<Rightarrow> bytes \<Rightarrow> nat \<Rightarrow> 'd sched \<Rightarrow> (int \<times> 'd sched) option" where
  "addTimeObjectInterval os_malloc junk en gmt_str interval cb arg n s =
     (if gmt_str = None \<or> cb = None then Some (-1, s)
      else (let (ok, g) = parseGMTTimeFromString gmt_str KNOW_DATE in
            if \<not> ok then Some (-1, s)
            else if \<not> os_malloc (n + 1) then Some (-1, s)
            else do {
              a \<leftarrow> copy_arg arg n;
              Some (finish_add (junk\<lparr>ttype := IOTGO_TIME_TYPE_INTERVAL, timing := TGmt g, time_interval := interval,
                                     tsch := cb, ptr := Some a, enabled := en, second_count := 0, minute_count := 0\<rparr>)
                               (s\<lparr>live := live s + 1\<rparr>))
            }))"

definition addTimeObjectIntervalDuration ::
    "(nat \<Rightarrow> bool) \<Rightarrow> IoTgoTimeObject \<Rightarrow> bool \<Rightarrow> string option \<Rightarrow> nat \<Rightarrow> nat \<Rightarrow> nat option \<Rightarrow> bytes \<Rightarrow> nat \<Rightarrow> 'd sched
     \<Rightarrow> (int \<times> 'd sched) option" where
  "addTimeObjectIntervalDuration os_malloc junk en gmt_str interval duration cb arg n s =
     (if gmt_str = None \<or> cb = None \<or> interval \<le> duration then Some (-1, s)
      else (let (ok, g) = parseGMTTimeFromString gmt_str KNOW_DATE in
            if \<not> ok then Some (-1, s)
            else if \<not> os_malloc (n + 1) then Some (-1, s)
            else do {
              a \<leftarrow> copy_arg arg n;
              Some (finish_add (junk\<lparr>ttype := IOTGO_TIME_TYPE_INTERVAL_DURATION, timing := TGmt g,
                                     time_interval := interval, time_duration := duration, tsch := cb,
                                     ptr := Some a, enabled := en, second_count := 0, minute_count := 0\<rparr>)
                               (s\<lparr>live := live s + 1\<rparr>))
            }))"

definition addTimeObjectDurationStartEnd ::
    "(nat \<Rightarrow> bool) \<Rightarrow> IoTgoTimeObject \<Rightarrow> bool \<Rightarrow> string option \<Rightarrow> nat \<Rightarrow> nat \<Rightarrow> nat option \<Rightarrow> bytes \<Rightarrow> nat
     \<Rightarrow> nat option \<Rightarrow> bytes \<Rightarrow> nat \<Rightarrow> 'd sched \<Rightarrow> (int \<times> 'd sched) option" where
  "addTimeObjectDurationStartEnd os_malloc junk en gmt_str interval duration cb1 arg1 n1 cb2 arg2 n2 s =
     (if gmt_str = None \<or> cb1 = None \<or> cb2 = None \<or> interval \<le> duration then Some (-1, s)
      else (let (ok, g) = parseGMTTimeFromString gmt_str KNOW_DATE in
            if \<not> ok then Some (-1, s)
            else if \<not> os_malloc (n1 + 1) then Some (-1, s)
            else do {
              a1 \<leftarrow> copy_arg arg1 n1;
              if \<not> os_malloc (n2 + 1) then Some (-1, s)
              else do {
                a2 \<leftarrow> copy_arg arg2 n2;
                Some (finish_add (junk\<lparr>ttype := IOTGO_TIME_TYPE_INTERVAL_DURATION_START_END, timing := TGmt g,
                                       time_interval := interval, time_duration := duration,
                                       start_do := cb1, p_start_do := Some a1, end_do := cb2, p_end_do := Some a2,
                                       enabled := en, second_count := 0, minute_count := 0\<rparr>)
                                 (s\<lparr>live := live s + 2\<rparr>))
              }
            }))"

subsection \<open>The monitor\<close>

definition set_slot :: "nat \<Rightarrow> IoTgoTimeObject \<Rightarrow> 'd sched \<Rightarrow> 'd sched" where
  "set_slot i ob s = s\<lparr>time_object_list := (time_object_list s)[i := ob]\<rparr>"

text \<open>A call through a function pointer; the null pointer cannot be called.\<close>

definition call_back :: "'d caller \<Rightarrow> nat option \<Rightarrow> bytes option \<Rightarrow> 'd sched \<Rightarrow> 'd sched option" where
  "call_back call f arg s = (case f of None \<Rightarrow> None | Some f \<Rightarrow> call f arg s)"

text \<open>\<open>int32 % uint32\<close> is unsigned; a zero divisor is undefined.\<close>

definition mod_u32 :: "int \<Rightarrow> nat \<Rightarrow> nat option" where
  "mod_u32 a b = (if b = 0 then None else Some (to_u32 a mod b))"

text \<open>The calls of a periodic timer, given the minutes modulo the interval and the seconds.\<close>

definition fire_interval :: "'d caller \<Rightarrow> IoTgoTimeObject \<Rightarrow> nat \<Rightarrow> int \<Rightarrow> 'd sched \<Rightarrow> 'd sched option" where
  "fire_interval call ob m sec s =
     (if m = 0 \<and> sec = 0 then
        (if ttype ob = IOTGO_TIME_TYPE_INTERVAL_DURATION_START_END
         then call_back call (start_do ob) (p_start_do ob) s
         else call_back call (tsch ob) (ptr ob) s)
      else if ttype ob = IOTGO_TIME_TYPE_INTERVAL then Some s
      else do {
        k \<leftarrow> mod_u32 (int m) (time_duration ob);
        if k = 0 \<and> sec = 0 \<and> ttype ob = IOTGO_TIME_TYPE_INTERVAL_DURATION_START_END
        then call_back call (end_do ob) (p_end_do ob) s
        else Some s
      })"

definition monitor_interval :: "'d caller \<Rightarrow> IoTgoGMTTime \<Rightarrow> nat \<Rightarrow> 'd sched \<Rightarrow> 'd sched option" where
  "monitor_interval call now i s =
     do {
       gmt \<leftarrow> gmt_of (timing (time_object_list s ! i));
       d \<leftarrow> minuteDiff now gmt;
       let ob = (time_object_list s ! i)\<lparr>diff_timer := d\<rparr>;
       m \<leftarrow> mod_u32 (fst d) (time_interval ob);
       fire_interval call ob m (snd d) (set_slot i ob s)
     }"

definition monitor_slot :: "'d caller \<Rightarrow> IoTgoGMTTime \<Rightarrow> nat \<Rightarrow> 'd sched \<Rightarrow> 'd sched option" where
  "monitor_slot call now i s =
     (let ob = time_object_list s ! i in
      if \<not> used ob \<or> \<not> enabled ob then Some s
      else (case ttype ob of
              IOTGO_TIME_TYPE_GMT \<Rightarrow>
                do {
                  gmt \<leftarrow> gmt_of (timing ob);
                  if year gmt = year now \<and> month gmt = month now \<and> day gmt = day now
                     \<and> hour gmt = hour now \<and> minute gmt = minute now \<and> second now = 0
                  then map_option (\<lambda>s. snd (deleteOneTimeObject i s)) (call_back call (tsch ob) (ptr ob) s)
                  else Some s
                }
            | IOTGO_TIME_TYPE_CRON \<Rightarrow>
                do {
                  cron \<leftarrow> cron_of (timing ob);
                  let week = getWeek (int (year now)) (to_s8 (int (month now))) (to_s8 (int (day now)));
                  if week < 0 \<or> 7 \<le> week then None
                  else if cron_weeks cron ! nat week \<and> (cron_hour cron = hour now \<or> cron_hour cron = 24)
                          \<and> cron_minute cron = minute now \<and> second now = 0
                  then call_back call (tsch ob) (ptr ob) s
                  else Some s
                }
            | IOTGO_TIME_TYPE_INVALID \<Rightarrow> Some s
            | _ \<Rightarrow> monitor_interval call now i s))"

fun monitor_loop :: "'d caller \<Rightarrow> IoTgoGMTTime \<Rightarrow> nat list \<Rightarrow> 'd sched \<Rightarrow> 'd sched option" where
  "monitor_loop call now [] s = Some s"
| "monitor_loop call now (i # is) s = Option.bind (monitor_slot call now i s) (monitor_loop call now is)"

definition timerMonitorCallback :: "'d caller \<Rightarrow> IoTgoGMTTime \<Rightarrow> 'd sched \<Rightarrow> 'd sched option" where
  "timerMonitorCallback call now s = monitor_loop call now [0..<IOTGO_DEVICE_TIMER_MAX] s"

definition startTimerMonitor :: "'d sched \<Rightarrow> 'd sched" where
  "startTimerMonitor s = s\<lparr>timer_monitor := Armed 1000 True\<rparr>"

definition stopTimerMonitor :: "'d sched \<Rightarrow> 'd sched" where
  "stopTimerMonitor s = deleteAllTimeObject (s\<lparr>timer_monitor := Disarmed\<rparr>)"

end
