(* ===== verification/TimerSpec.thy ===== *)
theory TimerSpec
  imports TimerSched
begin

text \<open>
  Correctness of the timer scheduler: the time difference it computes is the true difference of
  two dates, so the periodic timers fire exactly at the multiples of their interval; one-shot
  timers fire once; the slots own exactly the allocated blocks.
\<close>

subsection \<open>Differences of dates\<close>

lemma month_loop_append:
  "month_loop y (ms @ ms') acc = Option.bind (month_loop y ms acc) (month_loop y ms')"
  by (induction ms arbitrary: acc) (auto simp: Option.bind_assoc split: Option.bind_split)

lemma month_loop_days:
  assumes "m \<le> 13" "acc + days_to_month y m < 4294967296"
  shows "month_loop y [1..<m] acc = Some (acc + days_to_month y m)"
  using assms
proof (induction m)
  case (Suc m)
  show ?case
  proof (cases "m = 0")
    case False
    then have "month_loop y [1..<m] acc = Some (acc + days_to_month y m)"
      using Suc by auto
    moreover have "daysOfMonth (int y) (int m) = Some (int (month_len y m))"
      using False Suc.prems by (intro daysOfMonth_month_len) auto
    moreover have "to_u32 (int (acc + days_to_month y m) + int (month_len y m)) = acc + days_to_month y (Suc m)"
      using False Suc.prems to_u32_small [of "acc + days_to_month y (Suc m)"] by (simp add: algebra_simps)
    ultimately show ?thesis
      using False by (simp add: month_loop_append)
  qed simp
qed simp

lemma month_loop_year:
  assumes "acc + year_len y < 4294967296"
  shows "month_loop y [Suc 0..<13] acc = Some (acc + year_len y)"
proof -
  have "days_to_month y 13 = year_len y"
    using days_to_month.simps(2) [of y 12] year_ends [of y] by (simp add: month_len_def)
  with month_loop_days [of 13 acc y] assms show ?thesis by simp
qed

lemma year_loop_append: "year_loop (ys @ ys') acc = Option.bind (year_loop ys acc) (year_loop ys')"
  by (induction ys arbitrary: acc) (auto simp: Option.bind_assoc split: Option.bind_split)

lemma year_loop_days:
  assumes "y0 \<le> y" "days_to_year y < 4294967296"
  shows "year_loop [y0..<y] 0 = Some (days_to_year y - days_to_year y0)"
  using assms
proof (induction y)
  case (Suc y)
  show ?case
  proof (cases "y0 = Suc y")
    case False
    with Suc have "year_loop [y0..<y] 0 = Some (days_to_year y - days_to_year y0)" "y0 \<le> y" by simp_all
    moreover have "days_to_year y0 \<le> days_to_year y"
      using \<open>y0 \<le> y\<close> by (induction y rule: dec_induct) auto
    ultimately show ?thesis
      using Suc.prems by (simp add: year_loop_append month_loop_year)
  qed simp
qed simp

definition sched_date :: "IoTgoGMTTime \<Rightarrow> bool" where
  "sched_date t \<longleftrightarrow> gmt_valid t \<and> 2015 \<le> year t \<and> year t < 2082"

lemma days_to_year_mono: "y \<le> y' \<Longrightarrow> days_to_year y \<le> days_to_year y'"
  by (induction y' rule: dec_induct) auto

lemma days_to_year_span:
  assumes "y0 \<le> y"
  shows "days_to_year y \<le> days_to_year y0 + 366 * (y - y0)"
  using assms
proof (induction y rule: dec_induct)
  case (step n)
  then show ?case by (simp add: year_len_def Suc_diff_le)
qed simp

lemma gmt_days_less_next_year:
  assumes "date_valid t"
  shows "gmt_days t < days_to_year (year t) + 366" "days_to_year (year t) \<le> gmt_days t"
proof -
  have "month t \<in> {1, 2, 3, 4, 5, 6, 7, 8, 9, 10, 11, 12}"
    using assms by (intro months_less_13) (simp_all add: date_valid_def)
  then have "days_to_month (year t) (month t) + month_len (year t) (month t) \<le> 366"
    by (elim insertE emptyE) (simp_all only: days_to_month_table, simp_all add: month_len_def)
  then show "gmt_days t < days_to_year (year t) + 366" "days_to_year (year t) \<le> gmt_days t"
    using assms by (auto simp: gmt_days_def date_valid_def)
qed

lemma sched_days_bounds:
  assumes "sched_date t"
  shows "days_to_year 2015 \<le> gmt_days t" "gmt_days t < days_to_year 2015 + 24522"
  using assms gmt_days_less_next_year [of t] days_to_year_mono [of 2015 "year t"] days_to_year_span [of 2015 "year t"]
  by (auto simp: sched_date_def gmt_valid_def)

definition secs_2015 :: "IoTgoGMTTime \<Rightarrow> nat" where
  "secs_2015 t = gmt_secs t - days_to_year 2015 * 86400"

lemma secs_2015_parts:
  assumes "sched_date t"
  shows "secs_2015 t = ((gmt_days t - days_to_year 2015) * 1440 + hour t * 60 + minute t) * 60 + second t"
  using sched_days_bounds [OF assms] by (simp add: secs_2015_def gmt_secs_def diff_mult_distrib algebra_simps)

lemma known_year_days:
  assumes "sched_date t"
  shows "minuteDiffFromKnownYear t =
    Some (int ((gmt_days t - days_to_year 2015) * 1440 + hour t * 60 + minute t), int (second t))"
proof -
  define D where "D = gmt_days t - days_to_year 2015"
  have v: "1 \<le> month t" "month t \<le> 12" "1 \<le> day t" "hour t < 24" "minute t < 60" "second t < 60" "2015 \<le> year t"
    using assms by (auto simp: sched_date_def gmt_valid_def date_valid_def)
  note b = sched_days_bounds [OF assms]
  have D: "D = (days_to_year (year t) - days_to_year 2015) + days_to_month (year t) (month t) + (day t - 1)" "D < 24522"
    using b days_to_year_mono [of 2015 "year t"] v by (auto simp: D_def gmt_days_def)
  have base: "days_to_year 2015 < 4000000"
    using days_to_year_span [of 0 2015] by simp
  have sum: "Option.bind (year_loop [2015..<year t] 0) (month_loop (year t) [1..<month t])
      = Some (days_to_year (year t) - days_to_year 2015 + days_to_month (year t) (month t))"
  proof -
    have "year_loop [2015..<year t] 0 = Some (days_to_year (year t) - days_to_year 2015)"
      using v b base D by (intro year_loop_days) (auto simp: gmt_days_def)
    moreover have "month_loop (year t) [1..<month t] (days_to_year (year t) - days_to_year 2015) =
        Some (days_to_year (year t) - days_to_year 2015 + days_to_month (year t) (month t))"
      using v D by (intro month_loop_days) auto
    ultimately show ?thesis by simp
  qed
  then have days: "(if year t = 2015 then month_loop (year t) [1..<month t] 0
       else Option.bind (year_loop [2015..<year t] 0) (month_loop (year t) [1..<month t]))
     = Some (D - (day t - 1))"
    using D(1) by auto
  have "int (D - (day t - 1)) + int (day t) - 1 = int D" using D(1) v by simp
  then have d: "to_u32 (int (D - (day t - 1)) + int (day t) - 1) = D"
    using D(2) by (simp add: to_u32_small)
  define M where "M = D * 1440 + hour t * 60 + minute t"
  have "int D * 24 * 60 + int (hour t) * 60 + int (minute t) = int M" by (simp add: M_def)
  moreover have m: "M < 2147483648" using D(2) v by (simp add: M_def)
  ultimately have "to_u32 (int D * 24 * 60 + int (hour t) * 60 + int (minute t)) = M"
    by (simp only: to_u32_small)
  then have "to_s32 (int (to_u32 (int D * 24 * 60 + int (hour t) * 60 + int (minute t)))) = int M"
    using m by (simp add: to_s32_def)
  moreover have "to_s8 (int (second t)) = int (second t)" using v by (simp add: to_s8_small)
  ultimately show ?thesis
    using days d v unfolding minuteDiffFromKnownYear_def KNOW_DATE_def D_def [symmetric] M_def [symmetric]
    by (cases "year t = 2015") (simp_all add: Let_def)
qed

lemma diff_seconds_2015:
  assumes "sched_date t"
  shows "Option.bind (minuteDiffFromKnownYear t) diff_seconds = Some (secs_2015 t)" "secs_2015 t < 2147483648"
proof -
  define M where "M = (gmt_days t - days_to_year 2015) * 1440 + hour t * 60 + minute t"
  have s: "secs_2015 t = M * 60 + second t" using secs_2015_parts [OF assms] by (simp add: M_def)
  have v: "hour t < 24" "minute t < 60" "second t < 60"
    using assms by (auto simp: sched_date_def gmt_valid_def)
  have "M < 24522 * 1440" using sched_days_bounds [OF assms] v by (simp add: M_def)
  then have M: "M * 60 + second t < 2147483648" using v by simp
  then show "secs_2015 t < 2147483648" using s by simp
  have "int M * 60 + int (second t) = int (M * 60 + second t)" by simp
  then have "to_u32 (int M * 60 + int (second t)) = M * 60 + second t"
    using M by (simp only: to_u32_small)
  then show "Option.bind (minuteDiffFromKnownYear t) diff_seconds = Some (secs_2015 t)"
    using M unfolding known_year_days [OF assms] M_def [symmetric] s by (simp add: diff_seconds_def)
qed

text \<open>The difference of two dates: minutes and seconds, or -1 if the first is before the second.\<close>

lemma minuteDiff_true:
  assumes "sched_date now" "sched_date t"
  shows "minuteDiff now t =
    Some (if gmt_secs now < gmt_secs t then (-1, -1)
          else (int ((gmt_secs now - gmt_secs t) div 60), int ((gmt_secs now - gmt_secs t) mod 60)))"
proof -
  have g: "gmt_secs u = secs_2015 u + days_to_year 2015 * 86400" if "sched_date u" for u
    using sched_days_bounds(1) [OF that] by (simp add: secs_2015_def gmt_secs_def)
  obtain a b where ab: "minuteDiffFromKnownYear now = Some a" "minuteDiffFromKnownYear t = Some b"
    "diff_seconds a = Some (secs_2015 now)" "diff_seconds b = Some (secs_2015 t)"
    using diff_seconds_2015(1) [OF assms(1)] diff_seconds_2015(1) [OF assms(2)] by (auto simp: bind_Some_iff)
  define k where "k = secs_2015 now - secs_2015 t"
  have "k < 2147483648" using diff_seconds_2015(2) [OF assms(1)] by (simp add: k_def)
  then have "to_s32 (int (k div 60)) = int (k div 60)" "to_s8 (int (k mod 60)) = int (k mod 60)"
    by (simp_all add: to_s32_def to_s8_small)
  then show ?thesis
    unfolding minuteDiff_def ab g [OF assms(1)] g [OF assms(2)] by (simp add: ab k_def Let_def)
qed

subsection \<open>When timers fire\<close>

lemma minutes_multiple:
  fixes d k :: nat
  assumes "0 < k"
  shows "(d div 60) mod k = 0 \<and> d mod 60 = 0 \<longleftrightarrow> 60 * k dvd d"
proof -
  have "d mod (60 * k) = 60 * (d div 60 mod k) + d mod 60" by (rule mod_mult2_eq)
  then show ?thesis using assms by (auto simp: dvd_eq_mod_eq_0)
qed

text \<open>The two tests of the monitor: a multiple of the interval, and of the duration within it.\<close>

definition elapsed :: "IoTgoGMTTime \<Rightarrow> IoTgoGMTTime \<Rightarrow> nat option" where
  "elapsed now t = (if gmt_secs now < gmt_secs t then None else Some (gmt_secs now - gmt_secs t))"

definition at_multiple :: "nat \<Rightarrow> nat option \<Rightarrow> bool" where
  "at_multiple k d = (case d of None \<Rightarrow> False | Some d \<Rightarrow> 60 * k dvd d)"

definition at_inner_multiple :: "nat \<Rightarrow> nat \<Rightarrow> nat option \<Rightarrow> bool" where
  "at_inner_multiple k w d = (case d of None \<Rightarrow> False | Some d \<Rightarrow> 60 * w dvd d mod (60 * k))"

lemma monitor_tests:
  assumes "sched_date now" "sched_date t" "0 < k" "0 < w"
  shows "\<exists>d m. minuteDiff now t = Some d \<and> mod_u32 (fst d) k = Some m
    \<and> (m = 0 \<and> snd d = 0) = at_multiple k (elapsed now t)
    \<and> (m mod w = 0 \<and> snd d = 0) = at_inner_multiple k w (elapsed now t)
    \<and> mod_u32 (int m) w = Some (m mod w)"
proof (cases "gmt_secs now < gmt_secs t")
  case True
  have "to_u32 (int (to_u32 (- 1) mod k)) = to_u32 (- 1) mod k"
    using to_u32_less [of "-1"] by (intro to_u32_small) (metis le_less_trans mod_less_eq_dividend)
  then show ?thesis
    using True assms by (auto simp: minuteDiff_true mod_u32_def at_multiple_def at_inner_multiple_def elapsed_def)
next
  case False
  define d where "d = gmt_secs now - gmt_secs t"
  have "secs_2015 now < 2147483648" by (rule diff_seconds_2015(2) [OF assms(1)])
  moreover have "d \<le> secs_2015 now"
    using sched_days_bounds(1) [OF assms(2)] by (auto simp: d_def secs_2015_def gmt_secs_def)
  ultimately have d: "d div 60 < 4294967296" by simp
  then have m: "to_u32 (int (d div 60)) = d div 60" by (rule to_u32_small)
  have "d div 60 mod k < 4294967296" using d by (metis le_less_trans mod_less_eq_dividend)
  then have m': "to_u32 (int (d div 60 mod k)) = d div 60 mod k" by (rule to_u32_small)
  have inner: "60 * w dvd d mod (60 * k) \<longleftrightarrow> (d div 60 mod k) mod w = 0 \<and> d mod 60 = 0"
  proof -
    have "d mod (60 * k) = 60 * (d div 60 mod k) + d mod 60" by (rule mod_mult2_eq)
    then have "(d mod (60 * k)) div 60 = d div 60 mod k" "(d mod (60 * k)) mod 60 = d mod 60" by simp_all
    with minutes_multiple [of w "d mod (60 * k)"] assms(4) show ?thesis by simp
  qed
  show ?thesis
    using False assms m m' minutes_multiple [of k d] inner
    by (simp add: minuteDiff_true mod_u32_def at_multiple_def at_inner_multiple_def elapsed_def d_def [symmetric])
qed

text \<open>The slot with the time difference the monitor has noted in it.\<close>

definition noted :: "IoTgoGMTTime \<Rightarrow> nat \<Rightarrow> 'd sched \<Rightarrow> 'd sched" where
  "noted now i s =
     (case Option.bind (gmt_of (timing (time_object_list s ! i))) (minuteDiff now) of
        None \<Rightarrow> s
      | Some d \<Rightarrow> set_slot i ((time_object_list s ! i)\<lparr>diff_timer := d\<rparr>) s)"

lemma interval_slot:
  assumes "time_object_list s ! i = ob" "used ob" "enabled ob" "ttype ob = IOTGO_TIME_TYPE_INTERVAL"
    "timing ob = TGmt t" "tsch ob = Some f" "0 < time_interval ob" "sched_date now" "sched_date t"
  shows "monitor_slot call now i s =
    (if at_multiple (time_interval ob) (elapsed now t) then call f (ptr ob) (noted now i s) else Some (noted now i s))"
proof -
  obtain d m where "minuteDiff now t = Some d" "mod_u32 (fst d) (time_interval ob) = Some m"
    "(m = 0 \<and> snd d = 0) = at_multiple (time_interval ob) (elapsed now t)"
    using monitor_tests [OF assms(8,9,7) zero_less_one] by (elim exE conjE) (rule that; assumption)
  then show ?thesis
    using assms by (simp add: monitor_slot_def monitor_interval_def fire_interval_def noted_def gmt_of_def Let_def call_back_def)
qed

lemma start_end_slot:
  assumes "time_object_list s ! i = ob" "used ob" "enabled ob" "ttype ob = IOTGO_TIME_TYPE_INTERVAL_DURATION_START_END"
    "timing ob = TGmt t" "start_do ob = Some f" "end_do ob = Some g" "0 < time_interval ob" "0 < time_duration ob"
    "sched_date now" "sched_date t"
  shows "monitor_slot call now i s =
    (if at_multiple (time_interval ob) (elapsed now t) then call f (p_start_do ob) (noted now i s)
     else if at_inner_multiple (time_interval ob) (time_duration ob) (elapsed now t)
     then call g (p_end_do ob) (noted now i s)
     else Some (noted now i s))"
proof -
  obtain d m where dm: "minuteDiff now t = Some d" "mod_u32 (fst d) (time_interval ob) = Some m"
    "(m = 0 \<and> snd d = 0) = at_multiple (time_interval ob) (elapsed now t)"
    "(m mod time_duration ob = 0 \<and> snd d = 0) = at_inner_multiple (time_interval ob) (time_duration ob) (elapsed now t)"
    "mod_u32 (int m) (time_duration ob) = Some (m mod time_duration ob)"
    using monitor_tests [OF assms(10,11,8,9)] by (elim exE conjE) (rule that; assumption)
  have "monitor_slot call now i s = monitor_interval call now i s"
    using assms by (simp add: monitor_slot_def)
  moreover have "noted now i s = set_slot i (ob\<lparr>diff_timer := d\<rparr>) s"
    using assms dm by (simp add: noted_def gmt_of_def)
  ultimately show ?thesis
    using assms dm(1,2,5) unfolding dm(3,4) [symmetric]
    by (simp add: monitor_interval_def fire_interval_def gmt_of_def Let_def call_back_def)
qed

lemma gmt_slot:
  assumes "time_object_list s ! i = ob" "used ob" "enabled ob" "ttype ob = IOTGO_TIME_TYPE_GMT"
    "timing ob = TGmt t" "tsch ob = Some f"
  shows "monitor_slot call now i s =
    (if year t = year now \<and> month t = month now \<and> day t = day now \<and> hour t = hour now \<and> minute t = minute now
        \<and> second now = 0
     then map_option (\<lambda>s. snd (deleteOneTimeObject i s)) (call f (ptr ob) s)
     else Some s)"
  using assms by (simp add: monitor_slot_def gmt_of_def Let_def call_back_def)

subsection \<open>Ownership of the argument blocks\<close>

definition owned :: "'d sched \<Rightarrow> nat" where
  "owned s = (\<Sum>ob\<leftarrow>time_object_list s. if used ob then blocks_of ob else 0)"

definition sched_inv :: "nat \<Rightarrow> 'd sched \<Rightarrow> bool" where
  "sched_inv c s \<longleftrightarrow> length (time_object_list s) = 10 \<and> live s = owned s + c"

lemma owned_update:
  assumes "i < length (time_object_list s)"
  shows "owned (s\<lparr>time_object_list := (time_object_list s)[i := ob]\<rparr>) + (if used (time_object_list s ! i) then blocks_of (time_object_list s ! i) else 0)
    = owned s + (if used ob then blocks_of ob else 0)"
proof -
  let ?f = "\<lambda>ob. if used ob then blocks_of ob else 0"
  let ?xs = "map ?f (time_object_list s)"
  have "?xs ! i \<le> sum_list ?xs" using assms by (intro elem_le_sum_list) simp
  moreover have "owned (s\<lparr>time_object_list := (time_object_list s)[i := ob]\<rparr>) = sum_list ?xs + ?f ob - ?xs ! i"
    using assms by (simp add: owned_def map_update sum_list_update)
  ultimately show ?thesis using assms by (simp add: owned_def)
qed

lemma delete_inv [fw_inv]:
  assumes "sched_inv c s"
  shows "sched_inv c (snd (deleteOneTimeObject i s))"
proof (cases "i < 10 \<and> used (time_object_list s ! i)")
  case True
  with owned_update [of i s zero_object] assms show ?thesis
    by (auto simp: sched_inv_def deleteOneTimeObject_def IOTGO_DEVICE_TIMER_MAX_def zero_object_def owned_def)
next
  case False
  with assms show ?thesis by (auto simp: deleteOneTimeObject_def IOTGO_DEVICE_TIMER_MAX_def)
qed

lemma delete_all_inv [fw_inv]: "sched_inv c s \<Longrightarrow> sched_inv c (deleteAllTimeObject s)"
proof -
  have "sched_inv c (fold (\<lambda>i s. snd (deleteOneTimeObject i s)) is s)" if "sched_inv c s" for "is" :: "nat list" and s :: "'a sched"
    using that by (induction "is" arbitrary: s) (simp_all add: fw_inv)
  then show "sched_inv c s \<Longrightarrow> sched_inv c (deleteAllTimeObject s)" by (simp add: deleteAllTimeObject_def)
qed

lemma add_loop_cases:
  "add_loop is ob s = (-1, s) \<or>
   (\<exists>i \<in> set is. \<not> used (time_object_list s ! i)
     \<and> add_loop is ob s = (int i, s\<lparr>time_object_list := (time_object_list s)[i := ob\<lparr>used := True, time_compare_flag := 0\<rparr>]\<rparr>))"
  by (induction "is") auto

lemma finish_add_inv:
  assumes "sched_inv c s" "blocks_of ob = k"
  shows "sched_inv c (snd (finish_add ob (s\<lparr>live := live s + k\<rparr>)))"
proof -
  let ?s = "s\<lparr>live := live s + k\<rparr>"
  let ?ob = "ob\<lparr>used := True, time_compare_flag := 0\<rparr>"
  have "blocks_of ?ob = blocks_of ob" by (simp add: blocks_of_def)
  with assms(2) have b: "blocks_of ?ob = k" by simp
  consider "addOneTimeObject ob ?s = (-1, ?s)"
    | i where "i < 10" "\<not> used (time_object_list s ! i)"
        "addOneTimeObject ob ?s = (int i, ?s\<lparr>time_object_list := (time_object_list s)[i := ?ob]\<rparr>)"
    using add_loop_cases [of "[0..<10]" ob ?s] by (auto simp: addOneTimeObject_def IOTGO_DEVICE_TIMER_MAX_def)
  then show ?thesis
  proof cases
    case 1
    with assms show ?thesis by (simp add: finish_add_def sched_inv_def owned_def)
  next
    case 2
    with owned_update [of i s ?ob] assms b show ?thesis
      by (simp add: finish_add_def sched_inv_def owned_def)
  qed
qed

text \<open>
  What may happen to the scheduler: timers are added and deleted, the monitor is started,
  stopped and run, and a callback does any of these things.
\<close>

inductive sched_reach :: "'d sched \<Rightarrow> 'd sched \<Rightarrow> bool" where
  refl: "sched_reach s s"
| trans: "sched_reach s t \<Longrightarrow> sched_reach t u \<Longrightarrow> sched_reach s u"
| env: "sched_reach s (s\<lparr>env := e\<rparr>)"
| gmt: "addTimeObjectByGMTString m junk en str cb arg n s = Some (r, t) \<Longrightarrow> sched_reach s t"
| cron: "addTimeObjectByCronString m junk en str cb arg n s = Some (r, t) \<Longrightarrow> sched_reach s t"
| interval: "addTimeObjectInterval m junk en str k cb arg n s = Some (r, t) \<Longrightarrow> sched_reach s t"
| duration: "addTimeObjectIntervalDuration m junk en str k w cb arg n s = Some (r, t) \<Longrightarrow> sched_reach s t"
| start_end: "addTimeObjectDurationStartEnd m junk en str k w cb arg n cb' arg' n' s = Some (r, t) \<Longrightarrow> sched_reach s t"
| delete: "sched_reach s (deleteAllTimeObject s)"
| start: "sched_reach s (startTimerMonitor s)"
| stop: "sched_reach s (stopTimerMonitor s)"
| tick: "(\<And>f a u v. call f a u = Some v \<Longrightarrow> sched_reach u v) \<Longrightarrow> timerMonitorCallback call now s = Some t \<Longrightarrow> sched_reach s t"

lemma set_slot_inv:
  assumes "sched_inv c s"
  shows "sched_inv c (set_slot i ((time_object_list s ! i)\<lparr>diff_timer := d\<rparr>) s)"
proof (cases "i < 10")
  case True
  have "blocks_of ((time_object_list s ! i)\<lparr>diff_timer := d\<rparr>) = blocks_of (time_object_list s ! i)"
    by (simp add: blocks_of_def)
  with True owned_update [of i s "(time_object_list s ! i)\<lparr>diff_timer := d\<rparr>"] assms show ?thesis
    by (simp add: sched_inv_def set_slot_def owned_def split: if_splits)
next
  case False
  with assms show ?thesis by (simp add: sched_inv_def set_slot_def owned_def list_update_beyond)
qed

lemma fire_interval_cases:
  "fire_interval call ob m sec u = Some t \<Longrightarrow> t = u \<or> (\<exists>f a. call_back call f a u = Some t)"
  by (auto simp: fire_interval_def bind_Some_iff split: if_splits)

lemma monitor_slot_inv:
  assumes call: "\<And>f a u v. call f a u = Some v \<Longrightarrow> sched_inv c u \<Longrightarrow> sched_inv c v"
    and run: "monitor_slot call now i s = Some t" and inv: "sched_inv c s"
  shows "sched_inv c t"
proof -
  have cb: "sched_inv c v" if "call_back call f a u = Some v" "sched_inv c u" for f a u v
    using that call by (auto simp: call_back_def split: option.splits)
  have mi: "sched_inv c t" if "monitor_interval call now i s = Some t"
  proof -
    from that obtain gmt d m where
      rest: "fire_interval call ((time_object_list s ! i)\<lparr>diff_timer := d\<rparr>) m (snd d)
        (set_slot i ((time_object_list s ! i)\<lparr>diff_timer := d\<rparr>) s) = Some t"
      by (auto simp: monitor_interval_def Let_def bind_Some_iff)
    define u where "u = set_slot i ((time_object_list s ! i)\<lparr>diff_timer := d\<rparr>) s"
    from fire_interval_cases [OF rest] have "t = u \<or> (\<exists>f a. call_back call f a u = Some t)"
      by (simp add: u_def)
    moreover have "sched_inv c u" unfolding u_def by (rule set_slot_inv [OF inv])
    ultimately show ?thesis using cb by blast
  qed
  let ?ob = "time_object_list s ! i"
  have del: "sched_inv c t" if "map_option (\<lambda>s. snd (deleteOneTimeObject i s)) (call_back call f a s) = Some t" for f a
    using that cb inv by (auto simp: fw_inv)
  show ?thesis
  proof (cases "used ?ob \<and> enabled ?ob")
    case True
    show ?thesis
    proof (cases "ttype ?ob")
      case IOTGO_TIME_TYPE_GMT
      with True run have "t = s \<or> map_option (\<lambda>s. snd (deleteOneTimeObject i s)) (call_back call (tsch ?ob) (ptr ?ob) s) = Some t"
        unfolding monitor_slot_def Let_def bind_Some_iff by (auto simp: bind_Some_iff split: if_splits)
      with inv del show ?thesis by blast
    next
      case IOTGO_TIME_TYPE_CRON
      with True run have "t = s \<or> call_back call (tsch ?ob) (ptr ?ob) s = Some t"
        unfolding monitor_slot_def Let_def by (auto simp: bind_Some_iff split: if_splits)
      with inv cb show ?thesis by blast
    qed (use True run inv mi in \<open>simp_all add: monitor_slot_def Let_def\<close>)
  next
    case False
    with run inv show ?thesis by (auto simp: monitor_slot_def Let_def)
  qed
qed

lemma monitor_inv:
  assumes "\<And>f a u v. call f a u = Some v \<Longrightarrow> sched_inv c u \<Longrightarrow> sched_inv c v"
    and "timerMonitorCallback call now s = Some t" and "sched_inv c s"
  shows "sched_inv c t"
proof -
  have "monitor_loop call now is s = Some t \<Longrightarrow> sched_inv c s \<Longrightarrow> sched_inv c t" for "is" s t
  proof (induction "is" arbitrary: s)
    case (Cons i "is")
    then obtain u where "monitor_slot call now i s = Some u" "monitor_loop call now is u = Some t"
      by (auto simp: bind_Some_iff)
    with Cons monitor_slot_inv [of call c now i s u] assms(1) show ?case by blast
  qed simp
  with assms(2,3) show ?thesis by (auto simp: timerMonitorCallback_def)
qed

lemma add_inv:
  assumes "sched_inv c s"
  shows "addTimeObjectByGMTString m junk en str cb arg n s = Some (r, t) \<Longrightarrow> sched_inv c t"
    and "addTimeObjectByCronString m junk en str cb arg n s = Some (r, t) \<Longrightarrow> sched_inv c t"
    and "addTimeObjectInterval m junk en str k cb arg n s = Some (r, t) \<Longrightarrow> sched_inv c t"
    and "addTimeObjectIntervalDuration m junk en str k w cb arg n s = Some (r, t) \<Longrightarrow> sched_inv c t"
    and "addTimeObjectDurationStartEnd m junk en str k w cb arg n cb' arg' n' s = Some (r, t) \<Longrightarrow> sched_inv c t"
proof -
  have fin: "sched_inv c t" if "finish_add ob (s\<lparr>live := live s + k\<rparr>) = (r, t)" "blocks_of ob = k" for ob k r t
    using finish_add_inv [OF assms that(2)] that(1) by simp
  show "addTimeObjectByGMTString m junk en str cb arg n s = Some (r, t) \<Longrightarrow> sched_inv c t"
    using assms fin [where k = 1]
    by (auto simp: addTimeObjectByGMTString_def Let_def bind_Some_iff blocks_of_def split: if_splits prod.splits)
  show "addTimeObjectByCronString m junk en str cb arg n s = Some (r, t) \<Longrightarrow> sched_inv c t"
    using assms fin [where k = 1]
    by (auto simp: addTimeObjectByCronString_def Let_def bind_Some_iff blocks_of_def split: if_splits prod.splits)
  show "addTimeObjectInterval m junk en str k cb arg n s = Some (r, t) \<Longrightarrow> sched_inv c t"
    using assms fin [where k = 1]
    by (auto simp: addTimeObjectInterval_def Let_def bind_Some_iff blocks_of_def split: if_splits prod.splits)
  show "addTimeObjectIntervalDuration m junk en str k w cb arg n s = Some (r, t) \<Longrightarrow> sched_inv c t"
    using assms fin [where k = 1]
    by (auto simp: addTimeObjectIntervalDuration_def Let_def bind_Some_iff blocks_of_def split: if_splits prod.splits)
  show "addTimeObjectDurationStartEnd m junk en str k w cb arg n cb' arg' n' s = Some (r, t) \<Longrightarrow> sched_inv c t"
    using assms fin [where k = 2]
    by (auto simp: addTimeObjectDurationStartEnd_def Let_def bind_Some_iff blocks_of_def split: if_splits prod.splits)
qed

lemma sched_reach_inv: "sched_reach s t \<Longrightarrow> sched_inv c s \<Longrightarrow> sched_inv c t"
proof (induction rule: sched_reach.induct)
  case (env s e)
  then show ?case by (simp add: sched_inv_def owned_def)
next
  case (start s)
  then show ?case by (simp add: startTimerMonitor_def sched_inv_def owned_def)
next
  case (stop s)
  have "sched_inv c (s\<lparr>timer_monitor := Disarmed\<rparr>)" using stop by (simp add: sched_inv_def owned_def)
  then show ?case by (simp add: stopTimerMonitor_def fw_inv)
next
  case (tick call now s t)
  then show ?case by (blast intro: monitor_inv)
qed (auto simp: fw_inv dest: add_inv)

lemma fold_delete_unused:
  fixes u :: "'d sched"
  assumes "length (time_object_list u) = 10"
  shows "length (time_object_list (fold (\<lambda>i s. snd (deleteOneTimeObject i s)) is u)) = 10 \<and>
    (\<forall>j < 10. j \<in> set is \<longrightarrow> \<not> used (time_object_list (fold (\<lambda>i s. snd (deleteOneTimeObject i s)) is u) ! j))"
proof (induction "is" rule: rev_induct)
  case (snoc i "is")
  define v where "v = fold (\<lambda>i s. snd (deleteOneTimeObject i s)) is u"
  have v: "length (time_object_list v) = 10" "\<forall>j < 10. j \<in> set is \<longrightarrow> \<not> used (time_object_list v ! j)"
    using snoc by (simp_all add: v_def)
  have "length (time_object_list (snd (deleteOneTimeObject i v))) = 10"
    using v(1) by (simp add: deleteOneTimeObject_def)
  moreover have "\<not> used (time_object_list (snd (deleteOneTimeObject i v)) ! j)"
    if "j < 10" "j = i \<or> \<not> used (time_object_list v ! j)" for j
    using that v(1) by (auto simp: deleteOneTimeObject_def IOTGO_DEVICE_TIMER_MAX_def nth_list_update zero_object_def)
  ultimately show ?case using v(2) by (auto simp: v_def [symmetric])
qed (simp add: assms)

lemma delete_all_owned:
  assumes "length (time_object_list s) = 10"
  shows "owned (deleteAllTimeObject s) = 0"
proof -
  from fold_delete_unused [OF assms, of "[0..<10]"]
  have "length (time_object_list (deleteAllTimeObject s)) = 10"
    "\<forall>j < 10. \<not> used (time_object_list (deleteAllTimeObject s) ! j)"
    by (simp_all add: deleteAllTimeObject_def IOTGO_DEVICE_TIMER_MAX_def)
  then show ?thesis by (auto simp: owned_def in_set_conv_nth)
qed

subsection \<open>Properties\<close>

definition noon :: "nat \<Rightarrow> nat \<Rightarrow> IoTgoGMTTime" where
  "noon m sec = \<lparr>year = 2016, month = 3, day = 1, hour = 12, minute = m, second = sec\<rparr>"

lemma noon_date: "m < 60 \<Longrightarrow> sec < 60 \<Longrightarrow> sched_date (noon m sec)"
  by (simp add: noon_def sched_date_def gmt_valid_def date_valid_def month_len_def)

lemma noon_secs: "gmt_secs (noon m sec) = gmt_secs (noon 0 0) + m * 60 + sec"
  by (simp add: gmt_secs_def gmt_days_def noon_def)

text \<open>
  \<open>minuteDiff\<close> returns the exact number of minutes and seconds between two valid dates from
  2015 to 2081, counted with leap years, and the pair (-1, -1) when the first date is earlier.
\<close>

theorem minuteDiff_exact:
  assumes "sched_date now" "sched_date t"
  shows "minuteDiff now t =
    Some (if gmt_secs now < gmt_secs t then (-1, -1)
          else (int ((gmt_secs now - gmt_secs t) div 60), int ((gmt_secs now - gmt_secs t) mod 60)))"
  using assms by (rule minuteDiff_true)

theorem minuteDiff_exact_witness:
  "minuteDiff (noon 7 5) (noon 2 0) = Some (5, 5) \<and> minuteDiff (noon 2 0) (noon 7 5) = Some (-1, -1)"
  using minuteDiff_exact [OF noon_date noon_date, of 7 5 2 0] minuteDiff_exact [OF noon_date noon_date, of 2 0 7 5]
  by (simp add: noon_secs [of 7 5] noon_secs [of 2 0])

text \<open>
  an enabled interval timer calls its function, with its argument, at exactly the seconds that
  lie a multiple of the interval (in minutes) after its start time, and never before the start.
\<close>

theorem interval_timer_fires:
  assumes "time_object_list s ! i = ob" "used ob" "enabled ob" "ttype ob = IOTGO_TIME_TYPE_INTERVAL"
    "timing ob = TGmt t" "tsch ob = Some f" "0 < time_interval ob" "sched_date now" "sched_date t"
  shows "monitor_slot call now i s =
    (if gmt_secs t \<le> gmt_secs now \<and> 60 * time_interval ob dvd gmt_secs now - gmt_secs t
     then call f (ptr ob) (noted now i s) else Some (noted now i s))"
  using interval_slot [OF assms, of call] by (auto simp: at_multiple_def elapsed_def)

definition sched_init :: "nat sched" where
  "sched_init = \<lparr>time_object_list = replicate 10 zero_object, live = 0, timer_monitor = Disarmed, env = 0\<rparr>"

definition interval_sample :: "nat sched" where
  "interval_sample = sched_init\<lparr>time_object_list := (replicate 10 zero_object)
     [2 := zero_object\<lparr>ttype := IOTGO_TIME_TYPE_INTERVAL, timing := TGmt (noon 0 0), time_interval := 5,
        tsch := Some 9, ptr := Some [0], enabled := True, used := True\<rparr>], live := 1\<rparr>"

theorem interval_timer_fires_witness:
  "monitor_slot (\<lambda>f a s. Some (s\<lparr>env := f\<rparr>)) (noon 10 0) 2 interval_sample =
     Some ((noted (noon 10 0) 2 interval_sample)\<lparr>env := 9\<rparr>)"
proof -
  define ob where "ob = time_object_list interval_sample ! 2"
  have ob: "used ob" "enabled ob" "ttype ob = IOTGO_TIME_TYPE_INTERVAL" "timing ob = TGmt (noon 0 0)"
    "tsch ob = Some 9" "0 < time_interval ob" "time_interval ob = 5"
    by (simp_all add: ob_def interval_sample_def)
  from interval_timer_fires [OF ob_def [symmetric] ob(1-6) noon_date noon_date, of 10 0] ob(7) show ?thesis
    by (simp add: noon_secs [of 10 0])
qed

text \<open>
  a start/end timer calls its start function at the multiples of the interval; its end function
  is called at every other multiple of the duration counted from the last start, so several times
  per interval when the interval is more than twice the duration.
\<close>

theorem start_end_timer_fires:
  assumes "time_object_list s ! i = ob" "used ob" "enabled ob" "ttype ob = IOTGO_TIME_TYPE_INTERVAL_DURATION_START_END"
    "timing ob = TGmt t" "start_do ob = Some f" "end_do ob = Some g" "0 < time_interval ob" "0 < time_duration ob"
    "sched_date now" "sched_date t"
  shows "monitor_slot call now i s =
    (if gmt_secs now < gmt_secs t then Some (noted now i s)
     else (let d = gmt_secs now - gmt_secs t in
       if 60 * time_interval ob dvd d then call f (p_start_do ob) (noted now i s)
       else if 60 * time_duration ob dvd d mod (60 * time_interval ob)
       then call g (p_end_do ob) (noted now i s)
       else Some (noted now i s)))"
  using start_end_slot [OF assms, of call] by (simp add: at_multiple_def at_inner_multiple_def elapsed_def Let_def)

definition start_end_sample :: "nat sched" where
  "start_end_sample = sched_init\<lparr>time_object_list := (replicate 10 zero_object)
     [2 := zero_object\<lparr>ttype := IOTGO_TIME_TYPE_INTERVAL_DURATION_START_END, timing := TGmt (noon 0 0),
        time_interval := 10, time_duration := 3, start_do := Some 8, end_do := Some 9,
        p_start_do := Some [0], p_end_do := Some [0], enabled := True, used := True\<rparr>], live := 2\<rparr>"

text \<open>With an interval of ten minutes and a duration of three the end function is still called after nine.\<close>

theorem start_end_timer_fires_witness:
  "monitor_slot (\<lambda>f a s. Some (s\<lparr>env := f\<rparr>)) (noon 9 0) 2 start_end_sample =
     Some ((noted (noon 9 0) 2 start_end_sample)\<lparr>env := 9\<rparr>)"
proof -
  define ob where "ob = time_object_list start_end_sample ! 2"
  have ob: "used ob" "enabled ob" "ttype ob = IOTGO_TIME_TYPE_INTERVAL_DURATION_START_END"
    "timing ob = TGmt (noon 0 0)" "start_do ob = Some 8" "end_do ob = Some 9"
    "0 < time_interval ob" "0 < time_duration ob" "time_interval ob = 10" "time_duration ob = 3"
    by (simp_all add: ob_def start_end_sample_def)
  from start_end_timer_fires [OF ob_def [symmetric] ob(1-8) noon_date noon_date, of 9 0] ob(9,10) show ?thesis
    by (simp add: noon_secs [of 9 0])
qed

text \<open>
  a one-shot timer calls its function in the second that begins its minute and its slot is free
  afterwards, if the function leaves the timer list alone; in any other second nothing happens.
\<close>

theorem oneshot_timer_fires_once:
  assumes "sched_inv c s" "i < 10" "time_object_list s ! i = ob" "used ob" "enabled ob" "ttype ob = IOTGO_TIME_TYPE_GMT"
    "timing ob = TGmt t" "tsch ob = Some f"
    and "\<And>a u v. call f a u = Some v \<Longrightarrow> time_object_list v = time_object_list u"
    and "monitor_slot call now i s = Some s'"
  shows "if now = t\<lparr>second := 0\<rparr> then \<not> used (time_object_list s' ! i) \<and> (\<exists>v. call f (ptr ob) s = Some v \<and> env s' = env v)
    else s' = s"
proof -
  have "now = t\<lparr>second := 0\<rparr> \<longleftrightarrow> year t = year now \<and> month t = month now \<and> day t = day now \<and> hour t = hour now
      \<and> minute t = minute now \<and> second now = 0"
    by (cases now; cases t) auto
  then have run: "monitor_slot call now i s =
      (if now = t\<lparr>second := 0\<rparr> then map_option (\<lambda>s. snd (deleteOneTimeObject i s)) (call f (ptr ob) s) else Some s)"
    using gmt_slot [OF assms(3-8), of call now] by simp
  show ?thesis
  proof (cases "now = t\<lparr>second := 0\<rparr>")
    case True
    with run assms(10) obtain v where v: "call f (ptr ob) s = Some v" "s' = snd (deleteOneTimeObject i v)" by auto
    have "time_object_list v = time_object_list s" using v(1) by (rule assms(9))
    then have "s' = v\<lparr>live := live v - blocks_of ob, time_object_list := (time_object_list s)[i := zero_object]\<rparr>"
      using v(2) assms(2-4) by (simp add: deleteOneTimeObject_def IOTGO_DEVICE_TIMER_MAX_def)
    then have "\<not> used (time_object_list s' ! i)" "env s' = env v"
      using assms(1,2) by (simp_all add: sched_inv_def zero_object_def)
    with True v(1) show ?thesis by simp
  next
    case False
    with run assms(10) show ?thesis by simp
  qed
qed

definition oneshot_sample :: "nat sched" where
  "oneshot_sample = sched_init\<lparr>time_object_list := (replicate 10 zero_object)
     [2 := zero_object\<lparr>ttype := IOTGO_TIME_TYPE_GMT, timing := TGmt (noon 4 30), tsch := Some 9,
        ptr := Some [0], enabled := True, used := True\<rparr>], live := 1\<rparr>"

definition oneshot_after :: "nat sched" where
  "oneshot_after = sched_init\<lparr>env := 9\<rparr>"

lemma oneshot_run:
  "monitor_slot (\<lambda>f a s. Some (s\<lparr>env := f\<rparr>)) (noon 4 0) 2 oneshot_sample = Some oneshot_after"
  by (simp add: monitor_slot_def oneshot_sample_def oneshot_after_def gmt_of_def noon_def call_back_def
      deleteOneTimeObject_def IOTGO_DEVICE_TIMER_MAX_def sched_init_def blocks_of_def zero_object_def
      numeral_eq_Suc)

theorem oneshot_timer_fires_once_witness:
  "\<not> used (time_object_list oneshot_after ! 2) \<and> env oneshot_after = 9"
proof -
  define ob where "ob = time_object_list oneshot_sample ! 2"
  have ob: "used ob" "enabled ob" "ttype ob = IOTGO_TIME_TYPE_GMT" "timing ob = TGmt (noon 4 30)" "tsch ob = Some 9"
    by (simp_all add: ob_def oneshot_sample_def)
  have "sched_inv 0 oneshot_sample"
    by (simp add: sched_inv_def oneshot_sample_def sched_init_def owned_def blocks_of_def zero_object_def numeral_eq_Suc)
  from oneshot_timer_fires_once [OF this _ ob_def [symmetric] ob _ oneshot_run] show ?thesis
    by (simp add: noon_def)
qed

text \<open>
  C17: whatever sequence of additions, deletions, monitor runs (with callbacks that themselves add
  and delete timers) happens from the empty scheduler, successful or not, the allocated blocks
  are exactly those owned by the slots in use, and deleting all timers releases every block.
\<close>

theorem timers_never_leak:
  assumes "sched_reach s0 s" "sched_inv 0 s0"
  shows "live s = owned s \<and> live (deleteAllTimeObject s) = 0"
proof -
  have inv: "sched_inv 0 s" using assms by (rule sched_reach_inv)
  then have "sched_inv 0 (deleteAllTimeObject s)" by (rule delete_all_inv)
  moreover have "owned (deleteAllTimeObject s) = 0"
    using inv delete_all_owned [of s] by (simp add: sched_inv_def)
  ultimately show ?thesis using inv by (simp add: sched_inv_def)
qed

text \<open>The witness adds a weekly timer to the empty scheduler.\<close>

definition cron_added :: "nat sched" where
  "cron_added = sched_init\<lparr>time_object_list := (replicate 10 zero_object)
     [0 := zero_object\<lparr>ttype := IOTGO_TIME_TYPE_CRON, timing := TCron (cron_meaning 30 (Some 7) [1, 3]),
        tsch := Some 9, ptr := Some [65, 0], enabled := True, used := True\<rparr>], live := 1\<rparr>"

lemma cron_added_run:
  "addTimeObjectByCronString (\<lambda>_. True) zero_object True (Some (cron_text 30 (Some 7) [1, 3])) (Some 9) [65] 1 sched_init
     = Some (0, cron_added)"
proof -
  have "[0..<10] = [0, 1, 2, 3, 4, 5, 6, 7, 8, 9 :: nat]" by (simp add: upt_rec)
  then show ?thesis
    by (simp add: addTimeObjectByCronString_def parseCron_cron_text copy_arg_def finish_add_def addOneTimeObject_def
        IOTGO_DEVICE_TIMER_MAX_def cron_added_def sched_init_def zero_object_def)
qed

theorem timers_never_leak_witness:
  "live cron_added = owned cron_added \<and> live (deleteAllTimeObject cron_added) = 0"
proof (rule timers_never_leak)
  show "sched_reach sched_init cron_added" using cron_added_run by (rule sched_reach.cron)
  show "sched_inv 0 sched_init"
    by (simp add: sched_inv_def sched_init_def owned_def zero_object_def sum_list_replicate)
qed

end
