(* ===== verification/LocTimer.thy ===== *)
theory LocTimer
  imports TimerSched CJsonParse
begin

text \<open>
  The local timers of \<open>app/user/iotgo_loctimer.c\<close>: eight timers that the phone app or the MCU
  creates, edits, deletes, enables and queries with JSON requests, kept in two copies in flash
  with a flag that tells which copy is current, and examined once a second.

  The SPI flash is a parameter (\<open>flash_ops\<close>): reading and writing the parameter block and the
  flag of a sector, erasing a sector.  Answers are recorded as the calls of \<open>iotgoQueueAdd\<close> and
  \<open>cmdSendRetToMcu\<close> that they are, actions as calls of the registered callback.  The action
  texts are the C strings in the union \<open>time_action\<close>: \<open>action_do\<close> and \<open>start_do\<close> are the same
  hundred bytes.
\<close>

subsection \<open>Data\<close>

definition IOTGO_TIMER_NUM :: nat where
  "IOTGO_TIMER_NUM = 8"

definition IOTGO_TIMER_MAX_NUM :: nat where
  "IOTGO_TIMER_MAX_NUM = 30"

datatype TimerManage = TIMER_NULL | TIMER_MCU | TIMER_APP

datatype loc_type = LOC_INVALID | LOC_ONCE | LOC_REPEAT | LOC_DURATION

record iotgoTimer =
  t_interval :: nat
  t_duration :: nat
  t_id :: nat
  t_enabled :: nat
  t_type :: loc_type
  t_timing :: timing
  t_action_do :: string
  t_end_do :: string
  t_at :: string

definition zero_timer :: iotgoTimer where
  "zero_timer = \<lparr>t_interval = 0, t_duration = 0, t_id = 0, t_enabled = 0, t_type = LOC_INVALID,
     t_timing = TGmt \<lparr>year = 0, month = 0, day = 0, hour = 0, minute = 0, second = 0\<rparr>,
     t_action_do = [], t_end_do = [], t_at = []\<rparr>"

record iotgoTimerInfo =
  timer_ver :: nat
  timer_cnt :: nat

record iotgoTimerFlashParam =
  fp_timer_num :: nat
  fp_timer :: "iotgoTimer list"
  fp_timer_info :: iotgoTimerInfo
  fp_timer_id :: "nat list"

record 'f flash_ops =
  rd_param :: "'f \<Rightarrow> nat \<Rightarrow> iotgoTimerFlashParam"
  rd_flag :: "'f \<Rightarrow> nat \<Rightarrow> nat"
  erase_sector :: "nat \<Rightarrow> 'f \<Rightarrow> 'f"
  wr_param :: "nat \<Rightarrow> iotgoTimerFlashParam \<Rightarrow> 'f \<Rightarrow> 'f"
  wr_flag :: "nat \<Rightarrow> nat \<Rightarrow> 'f \<Rightarrow> 'f"
  malloc_param :: bool

datatype loc_effect = QueueAdd string nat | SendRet string | Action string

record 'f loct =
  iotgo_timer :: "iotgoTimer list"
  iotgo_timer_info :: iotgoTimerInfo
  iotgo_timer_id :: "nat list"
  iotgo_timer_action :: bool
  iotgo_timer_couter :: os_timer
  timer_manager :: TimerManage
  flash :: 'f
  effects :: "loc_effect list"
  owner_uuid :: string
  deviceid :: string
  server_sequence_value :: string

subsection \<open>Comparison with the clock\<close>

definition gmtCompareWithNow :: "IoTgoGMTTime \<Rightarrow> IoTgoGMTTime \<Rightarrow> bool" where
  "gmtCompareWithNow gmt now \<longleftrightarrow>
     year gmt = year now \<and> month gmt = month now \<and> day gmt = day now \<and> hour gmt = hour now
     \<and> minute gmt = minute now \<and> second now = 0"

definition cronCompareWitchNow :: "IoTgoCron \<Rightarrow> IoTgoGMTTime \<Rightarrow> bool option" where
  "cronCompareWitchNow cron now =
     (let week = getWeek (int (year now)) (to_s8 (int (month now))) (to_s8 (int (day now))) in
      if week < 0 \<or> 7 \<le> week then None
      else Some (cron_weeks cron ! nat week \<and> (cron_hour cron = hour now \<or> cron_hour cron = 24)
                 \<and> cron_minute cron = minute now \<and> second now = 0))"

text \<open>Seconds since the start of 2016; in the year 2016 itself the month lengths are those of year 0.\<close>

definition compareTimeToKnowDate :: "IoTgoGMTTime \<Rightarrow> nat option" where
  "compareTimeToKnowDate gmt =
     (if year gmt < 2016 then Some 0
      else do {
        day_sum \<leftarrow>
          (if year gmt > 2016 then Option.bind (year_loop [2016..<year gmt] 0) (month_loop (year gmt) [1..<month gmt])
           else month_loop 0 [1..<month gmt] 0);
        let day_sum = to_u32 (int day_sum + int (day gmt) - 1);
        Some (to_u32 ((int day_sum * 24 * 60 + int (hour gmt) * 60 + int (minute gmt)) * 60 + int (second gmt)))
      })"

definition durationCompareWithNow :: "IoTgoGMTTime \<Rightarrow> nat \<Rightarrow> nat \<Rightarrow> IoTgoGMTTime \<Rightarrow> int option" where
  "durationCompareWithNow gmt interval duration now =
     do {
       cur_diff_second \<leftarrow> compareTimeToKnowDate now;
       time_diff_second \<leftarrow> compareTimeToKnowDate gmt;
       if cur_diff_second = 0 \<or> time_diff_second = 0 \<or> time_diff_second > cur_diff_second then Some (-1)
       else (let diff_val = cur_diff_second - time_diff_second;
                 diff_minute = diff_val div 60; diff_second = diff_val mod 60
             in if interval \<noteq> 0 \<and> diff_minute mod interval = 0 \<and> diff_second = 0 then Some 0
                else if duration = 0 then Some (-1)
                else if interval = 0 then None
                else if (diff_minute mod interval) mod duration = 0 \<and> diff_second = 0 then Some 1
                else Some (-1))
     }"

subsection \<open>Answers\<close>

definition add_number :: "cJSON \<Rightarrow> string \<Rightarrow> int \<Rightarrow> cJSON" where
  "add_number ob name n = cJSON_AddItemToObject ob name (cJSON_CreateNumber n)"

definition add_string :: "cJSON \<Rightarrow> string \<Rightarrow> string \<Rightarrow> cJSON" where
  "add_string ob name s = cJSON_AddItemToObject ob name (cJSON_CreateString s)"

definition createBaseObject :: "nat \<Rightarrow> 'f loct \<Rightarrow> cJSON" where
  "createBaseObject result s =
     (let root = add_number cJSON_CreateObject ''error'' (int result) in
      if timer_manager s = TIMER_APP then
        add_string (add_string (add_string (add_string root ''userAgent'' ''device'')
          ''apikey'' (owner_uuid s)) ''deviceid'' (deviceid s)) ''sequence'' (server_sequence_value s)
      else root)"

definition createTimerInfoObject :: "iotgoTimerInfo \<Rightarrow> cJSON" where
  "createTimerInfoObject info =
     add_number (add_number cJSON_CreateObject ''timerCnt'' (int (timer_cnt info)))
       ''timerVer'' (int (timer_ver info))"

text \<open>
  \<open>Some None\<close> is the null pointer.  The branch for a start and an end action is not reached, as
  the test of \<open>action_do\<close> looks at the bytes of \<open>start_do\<close>.
\<close>

definition createTimerObjcet :: "iotgoTimer \<Rightarrow> cJSON option option" where
  "createTimerObjcet t =
     (let ob = add_number cJSON_CreateObject ''id'' (int (t_id t));
          ob = add_number ob ''enabled'' (int (t_enabled t));
          ob = add_string ob ''at'' (t_at t)
      in (case (case t_type t of
                  LOC_ONCE \<Rightarrow> Some (add_string ob ''type'' ''once'')
                | LOC_REPEAT \<Rightarrow> Some (add_string ob ''type'' ''repeat'')
                | LOC_DURATION \<Rightarrow> Some (add_string ob ''type'' ''duration'')
                | LOC_INVALID \<Rightarrow> None) of
            None \<Rightarrow> Some None
          | Some ob \<Rightarrow>
              if t_action_do t \<noteq> [] then
                map_option (\<lambda>r. map_option (cJSON_AddItemToObject ob ''do'') r) (cJSON_Parse (t_action_do t))
              else Some None))"

text \<open>
  \<open>createIdArray\<close> reinterprets a byte array as an array of \<open>int\<close>: it reads four bytes per number,
  lowest first, beyond the end of the array if there are fewer.
\<close>

fun ints_of_bytes :: "nat \<Rightarrow> nat list \<Rightarrow> int list option" where
  "ints_of_bytes 0 bs = Some []"
| "ints_of_bytes (Suc n) (a # b # c # d # bs) =
     map_option (\<lambda>is. to_s32 (int (a + 256 * b + 65536 * c + 16777216 * d)) # is) (ints_of_bytes n bs)"
| "ints_of_bytes (Suc n) _ = None"

definition createIdArray :: "nat list \<Rightarrow> nat \<Rightarrow> cJSON option" where
  "createIdArray ids num = map_option cJSON_CreateIntArray (ints_of_bytes num ids)"

text \<open>
  Printing an answer and handing it to the server queue or to the MCU.  A tree that cannot be
  printed (\<open>Some None\<close>) is the null pointer, which only the serial branch dereferences.
\<close>

definition send_answer :: "nat \<Rightarrow> cJSON \<Rightarrow> 'f loct \<Rightarrow> 'f loct option" where
  "send_answer kind ob s =
     do {
       out \<leftarrow> cJSON_PrintUnformatted ob;
       case (timer_manager s, out) of
         (TIMER_APP, Some txt) \<Rightarrow> Some (s\<lparr>effects := effects s @ [QueueAdd txt kind]\<rparr>)
       | (TIMER_MCU, Some txt) \<Rightarrow> Some (s\<lparr>effects := effects s @ [SendRet txt]\<rparr>)
       | (TIMER_MCU, None) \<Rightarrow> None
       | _ \<Rightarrow> Some s
     }"

definition IOTGO_ERROR0 :: nat where "IOTGO_ERROR0 = 2"
definition IOTGO_QUERY_TIMER :: nat where "IOTGO_QUERY_TIMER = 10"

definition replyUpdate :: "nat \<Rightarrow> 'f loct \<Rightarrow> (bool \<times> 'f loct) option" where
  "replyUpdate result s = map_option (Pair True) (send_answer IOTGO_ERROR0 (createBaseObject result s) s)"

definition replyError :: "'f loct \<Rightarrow> (bool \<times> 'f loct) option" where
  "replyError s = replyUpdate 500 s"

definition refuse :: "nat \<Rightarrow> 'f loct \<Rightarrow> (bool \<times> 'f loct) option" where
  "refuse code s = map_option (\<lambda>(_, s). (False, s)) (replyUpdate code s)"

definition replyUpdateWithId :: "nat \<Rightarrow> nat list \<Rightarrow> nat \<Rightarrow> 'f loct \<Rightarrow> (bool \<times> 'f loct) option" where
  "replyUpdateWithId result ids num s =
     do {
       arr \<leftarrow> createIdArray ids num;
       map_option (Pair True)
         (send_answer IOTGO_ERROR0 (cJSON_AddItemToObject (createBaseObject result s) ''timerID'' arr) s)
     }"

definition replyQueryTimerInfo :: "nat \<Rightarrow> iotgoTimerInfo \<Rightarrow> 'f loct \<Rightarrow> (bool \<times> 'f loct) option" where
  "replyQueryTimerInfo result info s =
     (if result = 500 then replyUpdate result s
      else (let params = cJSON_AddItemToObject cJSON_CreateObject ''timerInfo'' (createTimerInfoObject info)
            in map_option (Pair True)
                 (send_answer IOTGO_QUERY_TIMER (cJSON_AddItemToObject (createBaseObject result s) ''params'' params) s)))"

fun timer_objects :: "iotgoTimer list \<Rightarrow> cJSON list option option" where
  "timer_objects [] = Some (Some [])"
| "timer_objects (t # ts) =
     (case createTimerObjcet t of
        None \<Rightarrow> None
      | Some None \<Rightarrow> Some None
      | Some (Some ob) \<Rightarrow> map_option (map_option (Cons ob)) (timer_objects ts))"

definition replyQueryTimer :: "nat \<Rightarrow> iotgoTimerInfo \<Rightarrow> iotgoTimer list \<Rightarrow> nat \<Rightarrow> 'f loct \<Rightarrow> (bool \<times> 'f loct) option" where
  "replyQueryTimer result info ts num s =
     (if result = 500 then replyUpdate result s
      else if num > length ts then None
      else do {
        obs \<leftarrow> timer_objects (take num ts);
        case obs of
          None \<Rightarrow> refuse 500 s
        | Some obs \<Rightarrow>
            (let arr = fold (\<lambda>ob a. cJSON_AddItemToArray a ob) obs cJSON_CreateArray;
                 params = cJSON_AddItemToObject cJSON_CreateObject ''timerInfo'' (createTimerInfoObject info);
                 params = cJSON_AddItemToObject params ''timer'' arr
             in map_option (Pair True)
                  (send_answer IOTGO_QUERY_TIMER (cJSON_AddItemToObject (createBaseObject result s) ''params'' params) s))
      })"

subsection \<open>Flash\<close>

text \<open>The sectors of the two copies (first and second half of the timers) and of the flag.\<close>

definition SAVE1 :: nat where "SAVE1 = 0x74"
definition SAVE2 :: nat where "SAVE2 = 0x75"
definition SAVE3 :: nat where "SAVE3 = 0x76"
definition SAVE4 :: nat where "SAVE4 = 0x77"
definition FLAG :: nat where "FLAG = 0x7b"

datatype flash_op = Erase nat | WriteParam nat iotgoTimerFlashParam | WriteFlag nat nat

fun run_op :: "'f flash_ops \<Rightarrow> flash_op \<Rightarrow> 'f \<Rightarrow> 'f" where
  "run_op fl (Erase k) f = erase_sector fl k f"
| "run_op fl (WriteParam k p) f = wr_param fl k p f"
| "run_op fl (WriteFlag k b) f = wr_flag fl k b f"

definition HALF :: nat where
  "HALF = (IOTGO_TIMER_MAX_NUM - 1) div 2 + 1"

text \<open>The parameter block: \<open>n\<close> timers, the rest of the block zero.\<close>

definition flash_block :: "iotgoTimer list \<Rightarrow> 'f loct \<Rightarrow> iotgoTimerFlashParam" where
  "flash_block ts s =
     \<lparr>fp_timer_num = IOTGO_TIMER_NUM, fp_timer = ts @ replicate (HALF - length ts) zero_timer,
      fp_timer_info = iotgo_timer_info s,
      fp_timer_id = iotgo_timer_id s @ replicate (IOTGO_TIMER_MAX_NUM - IOTGO_TIMER_NUM) 0\<rparr>"

text \<open>The flash operations of a save in the order of the source; the flag read before selects the copy.\<close>

definition save_ops :: "nat \<Rightarrow> 'f loct \<Rightarrow> flash_op list" where
  "save_ops flag s =
     (let temp = HALF;
          temp1 = (if IOTGO_TIMER_NUM > temp then temp else IOTGO_TIMER_NUM);
          temp2 = (if IOTGO_TIMER_NUM > temp then IOTGO_TIMER_NUM - temp else 0);
          low = flash_block (take temp1 (iotgo_timer s)) s;
          high = flash_block (if temp2 \<noteq> 0 then take temp2 (drop temp (iotgo_timer s)) else []) s
      in if flag = 0 then
           [Erase SAVE1, Erase SAVE3, WriteParam SAVE1 low, WriteParam SAVE3 high, Erase FLAG, WriteFlag FLAG 1]
         else
           [Erase SAVE2, Erase SAVE4, WriteParam SAVE2 low, WriteParam SAVE4 high, Erase FLAG, WriteFlag FLAG 0])"

definition timerSaveToFlash :: "'f flash_ops \<Rightarrow> 'f loct \<Rightarrow> 'f loct" where
  "timerSaveToFlash fl s =
     (if \<not> malloc_param fl then s
      else s\<lparr>flash := fold (run_op fl) (save_ops (rd_flag fl (flash s) FLAG) s) (flash s)\<rparr>)"

text \<open>
  The call \<open>os_memset(iotgo_timer_info,0,..)\<close> passes the structure by value to an undeclared
  function; in the register convention of the processor its length argument is 0, and
  \<open>iotgo_timer_info\<close> keeps its value.
\<close>

definition timerFlashErase :: "'f flash_ops \<Rightarrow> 'f loct \<Rightarrow> 'f loct" where
  "timerFlashErase fl s =
     (if \<not> malloc_param fl then s
      else
        (let p = \<lparr>fp_timer_num = IOTGO_TIMER_NUM, fp_timer = replicate HALF zero_timer,
                  fp_timer_info = \<lparr>timer_ver = 0, timer_cnt = 0\<rparr>, fp_timer_id = replicate IOTGO_TIMER_MAX_NUM 0\<rparr>
         in s\<lparr>flash := fold (run_op fl)
                 [Erase SAVE1, Erase SAVE2, Erase SAVE3, Erase SAVE4,
                  WriteParam SAVE1 p, WriteParam SAVE2 p, WriteParam SAVE3 p, WriteParam SAVE4 p] (flash s),
              iotgo_timer_id := replicate IOTGO_TIMER_NUM 0,
              iotgo_timer := replicate IOTGO_TIMER_NUM zero_timer\<rparr>))"

definition timerLoadFromFlash :: "'f flash_ops \<Rightarrow> 'f loct \<Rightarrow> 'f loct" where
  "timerLoadFromFlash fl s =
     (if \<not> malloc_param fl then s
      else
        (let temp = HALF;
             temp1 = (if IOTGO_TIMER_NUM > temp then temp else IOTGO_TIMER_NUM);
             temp2 = (if IOTGO_TIMER_NUM > temp then IOTGO_TIMER_NUM - temp else 0);
             flag = rd_flag fl (flash s) FLAG;
             low = rd_param fl (flash s) (if flag = 0 then SAVE2 else SAVE1);
             high = rd_param fl (flash s) (if flag = 0 then SAVE4 else SAVE3)
         in if fp_timer_num low > IOTGO_TIMER_NUM then timerFlashErase fl s
            else s\<lparr>iotgo_timer_info := fp_timer_info low,
                   iotgo_timer_id := take IOTGO_TIMER_NUM (fp_timer_id low),
                   iotgo_timer := take temp1 (fp_timer low) @ take temp2 (fp_timer high)\<rparr>))"

subsection \<open>Changing timers\<close>

definition set_timer :: "nat \<Rightarrow> iotgoTimer \<Rightarrow> 'f loct \<Rightarrow> 'f loct" where
  "set_timer i t s = s\<lparr>iotgo_timer := (iotgo_timer s)[i := t]\<rparr>"

definition bump_cnt :: "int \<Rightarrow> 'f loct \<Rightarrow> 'f loct" where
  "bump_cnt k s = s\<lparr>iotgo_timer_info := (iotgo_timer_info s)\<lparr>timer_cnt := to_u8 (int (timer_cnt (iotgo_timer_info s)) + k)\<rparr>\<rparr>"

definition bump_ver :: "'f loct \<Rightarrow> 'f loct" where
  "bump_ver s = s\<lparr>iotgo_timer_info := (iotgo_timer_info s)\<lparr>timer_ver := to_u32 (int (timer_ver (iotgo_timer_info s)) + 1)\<rparr>\<rparr>"

text \<open>The index in \<open>iotgo_timer_id\<close> of an identifier; 0 and numbers above 8 are outside of the array.\<close>

definition id_at :: "nat \<Rightarrow> 'f loct \<Rightarrow> nat option" where
  "id_at i s = (if i = 0 \<or> i > length (iotgo_timer_id s) then None else Some (iotgo_timer_id s ! (i - 1)))"

fun find_free :: "nat list \<Rightarrow> 'f loct \<Rightarrow> nat \<times> 'f loct" where
  "find_free [] s = (0, s)"
| "find_free (i # is) s =
     (if iotgo_timer_id s ! i = 0 then (i + 1, s\<lparr>iotgo_timer_id := (iotgo_timer_id s)[i := i + 1]\<rparr>)
      else find_free is s)"

definition timerProductId :: "'f loct \<Rightarrow> nat \<times> 'f loct" where
  "timerProductId s =
     (if timer_cnt (iotgo_timer_info s) \<ge> IOTGO_TIMER_NUM then (0, s)
      else find_free [0..<IOTGO_TIMER_NUM] s)"

definition timerDeleteId :: "nat \<Rightarrow> 'f loct \<Rightarrow> (bool \<times> 'f loct) option" where
  "timerDeleteId i s =
     (if i = 0 then Some (False, s)
      else do {
        k \<leftarrow> id_at i s;
        Some (if i = k then (True, s\<lparr>iotgo_timer_id := (iotgo_timer_id s)[i - 1 := 0]\<rparr>) else (False, s))
      })"

text \<open>Restoring the last saved state and refusing the request.\<close>

definition rollback :: "'f flash_ops \<Rightarrow> nat \<Rightarrow> 'f loct \<Rightarrow> (bool \<times> 'f loct) option" where
  "rollback fl code s = refuse code (timerLoadFromFlash fl s)"

text \<open>The loops return the state after the loop, or the answer of an early return.\<close>

fun new_loop :: "'f flash_ops \<Rightarrow> iotgoTimer list \<Rightarrow> nat list \<Rightarrow> 'f loct \<Rightarrow> (nat list \<times> 'f loct) + (bool \<times> 'f loct) option" where
  "new_loop fl [] ids s = Inl (ids, s)"
| "new_loop fl (t # ts) ids s =
     (let (i, s) = timerProductId s in
      if i = 0 then Inr (rollback fl 500 s)
      else (let s = set_timer (i - 1) t s in
            if t_id t \<noteq> 0 then Inr (rollback fl 400 s)
            else new_loop fl ts (ids @ [i]) (bump_cnt 1 (set_timer (i - 1) (t\<lparr>t_id := i\<rparr>) s))))"

definition timerNew :: "'f flash_ops \<Rightarrow> iotgoTimer list option \<Rightarrow> nat \<Rightarrow> 'f loct \<Rightarrow> (bool \<times> 'f loct) option" where
  "timerNew fl timers num s =
     (case timers of
        None \<Rightarrow> refuse 500 s
      | Some ts \<Rightarrow>
          if IOTGO_TIMER_NUM < num + timer_cnt (iotgo_timer_info s) \<or> num = 0 then refuse 500 s
          else (case new_loop fl (take num ts) [] s of
                  Inr r \<Rightarrow> r
                | Inl (ids, s) \<Rightarrow>
                    replyUpdateWithId 0 (ids @ replicate (IOTGO_TIMER_NUM - length ids) 0) num
                      (timerSaveToFlash fl (bump_ver s))))"

fun edit_loop :: "'f flash_ops \<Rightarrow> iotgoTimer list \<Rightarrow> 'f loct \<Rightarrow> ('f loct + (bool \<times> 'f loct) option) option" where
  "edit_loop fl [] s = Some (Inl s)"
| "edit_loop fl (t # ts) s =
     do {
       k \<leftarrow> id_at (t_id t) s;
       if t_id t \<noteq> k \<or> t_id t = 0 then Some (Inr (rollback fl 500 s))
       else edit_loop fl ts (set_timer (t_id t - 1) t s)
     }"

text \<open>The ending of every successful change.\<close>

definition commit :: "'f flash_ops \<Rightarrow> 'f loct \<Rightarrow> (bool \<times> 'f loct) option" where
  "commit fl s = replyUpdate 0 (timerSaveToFlash fl (bump_ver s))"

definition finish_loop :: "'f flash_ops \<Rightarrow> ('f loct + (bool \<times> 'f loct) option) option \<Rightarrow> (bool \<times> 'f loct) option" where
  "finish_loop fl r = (case r of None \<Rightarrow> None | Some (Inl s) \<Rightarrow> commit fl s | Some (Inr a) \<Rightarrow> a)"

definition timerEdit :: "'f flash_ops \<Rightarrow> iotgoTimer list option \<Rightarrow> nat \<Rightarrow> 'f loct \<Rightarrow> (bool \<times> 'f loct) option" where
  "timerEdit fl timers num s =
     (case timers of
        None \<Rightarrow> refuse 500 s
      | Some ts \<Rightarrow>
          if timer_cnt (iotgo_timer_info s) < num \<or> num = 0 then refuse 500 s
          else finish_loop fl (edit_loop fl (take num ts) s))"

fun del_loop :: "'f flash_ops \<Rightarrow> nat list \<Rightarrow> 'f loct \<Rightarrow> ('f loct + (bool \<times> 'f loct) option) option" where
  "del_loop fl [] s = Some (Inl s)"
| "del_loop fl (i # is) s =
     do {
       (ok, s) \<leftarrow> timerDeleteId i s;
       if \<not> ok \<or> timer_cnt (iotgo_timer_info s) = 0 then Some (Inr (rollback fl 500 s))
       else del_loop fl is (bump_cnt (-1) (set_timer (i - 1) zero_timer s))
     }"

definition timerDel :: "'f flash_ops \<Rightarrow> nat list \<Rightarrow> nat \<Rightarrow> 'f loct \<Rightarrow> (bool \<times> 'f loct) option" where
  "timerDel fl ids num s =
     (if num = 0 then refuse 500 s
      else if num > length ids then None
      else finish_loop fl (del_loop fl (take num ids) s))"

fun enable_loop :: "'f flash_ops \<Rightarrow> nat \<Rightarrow> nat list \<Rightarrow> 'f loct \<Rightarrow> ('f loct + (bool \<times> 'f loct) option) option" where
  "enable_loop fl b [] s = Some (Inl s)"
| "enable_loop fl b (i # is) s =
     do {
       k \<leftarrow> id_at i s;
       if i \<noteq> k \<or> i = 0 then Some (Inr (rollback fl 500 s))
       else enable_loop fl b is (set_timer (i - 1) ((iotgo_timer s ! (i - 1))\<lparr>t_enabled := b\<rparr>) s)
     }"

definition timerEnable :: "'f flash_ops \<Rightarrow> nat list \<Rightarrow> nat \<Rightarrow> 'f loct \<Rightarrow> (bool \<times> 'f loct) option" where
  "timerEnable fl ids num s =
     (if num = 0 \<or> num > timer_cnt (iotgo_timer_info s) then refuse 500 s
      else if num > length ids then None
      else finish_loop fl (enable_loop fl 1 (take num ids) s))"

definition timerDisable :: "'f flash_ops \<Rightarrow> nat list \<Rightarrow> nat \<Rightarrow> 'f loct \<Rightarrow> (bool \<times> 'f loct) option" where
  "timerDisable fl ids num s =
     (if num = 0 \<or> num > timer_cnt (iotgo_timer_info s) then refuse 500 s
      else if num > length ids then None
      else finish_loop fl (enable_loop fl 0 (take num ids) s))"

definition timerDelAll :: "'f flash_ops \<Rightarrow> 'f loct \<Rightarrow> (bool \<times> 'f loct) option" where
  "timerDelAll fl s =
     commit fl (s\<lparr>iotgo_timer := replicate IOTGO_TIMER_NUM zero_timer, iotgo_timer_id := replicate IOTGO_TIMER_NUM 0,
                  iotgo_timer_info := (iotgo_timer_info s)\<lparr>timer_cnt := 0\<rparr>\<rparr>)"

definition enable_all :: "nat \<Rightarrow> 'f loct \<Rightarrow> 'f loct" where
  "enable_all b s = s\<lparr>iotgo_timer := map (\<lambda>t. if t_id t \<noteq> 0 then t\<lparr>t_enabled := b\<rparr> else t) (iotgo_timer s)\<rparr>"

definition timerEnableAll :: "'f flash_ops \<Rightarrow> 'f loct \<Rightarrow> (bool \<times> 'f loct) option" where
  "timerEnableAll fl s = commit fl (enable_all 1 s)"

definition timerDisableAll :: "'f flash_ops \<Rightarrow> 'f loct \<Rightarrow> (bool \<times> 'f loct) option" where
  "timerDisableAll fl s = commit fl (enable_all 0 s)"

subsection \<open>Queries\<close>

fun find_by_index :: "nat \<Rightarrow> iotgoTimer list \<Rightarrow> nat \<Rightarrow> nat" where
  "find_by_index index [] index_temp = 0"
| "find_by_index index (t # ts) index_temp =
     (if t_id t \<noteq> 0 then (if index_temp = index then t_id t else find_by_index index ts (index_temp + 1))
      else find_by_index index ts index_temp)"

definition timerFindTimerByIndex :: "nat \<Rightarrow> 'f loct \<Rightarrow> nat" where
  "timerFindTimerByIndex index s =
     (if index \<ge> IOTGO_TIMER_NUM \<or> index \<ge> timer_cnt (iotgo_timer_info s) then 0
      else find_by_index index (iotgo_timer s) 0)"

definition timerQueryTimerInfo :: "'f loct \<Rightarrow> (bool \<times> 'f loct) option" where
  "timerQueryTimerInfo s = replyQueryTimerInfo 0 (iotgo_timer_info s) s"

text \<open>
  The loop over the indices.  The outer option is an undefined run, the inner one the early
  return; the array \<open>timer\<close> is written at \<open>i\<close>.
\<close>

fun index_loop :: "nat list \<Rightarrow> iotgoTimer list \<Rightarrow> 'f loct \<Rightarrow> iotgoTimer list option option" where
  "index_loop [] timer s = Some (Some timer)"
| "index_loop (i # is) timer s =
     (let i0 = timerFindTimerByIndex i s in
      if i0 = 0 then Some None
      else if i \<ge> length timer \<or> i0 > length (iotgo_timer s) then None
      else index_loop is (timer[i := iotgo_timer s ! (i0 - 1)]) s)"

definition timerQueryTimerByIndex :: "nat \<Rightarrow> nat \<Rightarrow> 'f loct \<Rightarrow> (bool \<times> 'f loct) option" where
  "timerQueryTimerByIndex start_index end_index s =
     (let num = to_u8 (int end_index - int start_index + 1) in
      if end_index < start_index \<or> timer_cnt (iotgo_timer_info s) < num then refuse 500 s
      else do {
        r \<leftarrow> index_loop [start_index..<end_index + 1] (replicate IOTGO_TIMER_NUM zero_timer) s;
        case r of
          None \<Rightarrow> refuse 500 s
        | Some timer \<Rightarrow> replyQueryTimer 0 (iotgo_timer_info s) timer num s
      })"

fun id_loop :: "nat list \<Rightarrow> nat \<Rightarrow> iotgoTimer list \<Rightarrow> 'f loct \<Rightarrow> iotgoTimer list option option" where
  "id_loop [] i timer s = Some (Some timer)"
| "id_loop (k # ks) i timer s =
     do {
       x \<leftarrow> id_at k s;
       if k \<noteq> x \<or> k = 0 then Some None
       else if i \<ge> length timer then None
       else id_loop ks (i + 1) (timer[i := iotgo_timer s ! (k - 1)]) s
     }"

definition timerQueryTimerById :: "nat list \<Rightarrow> nat \<Rightarrow> 'f loct \<Rightarrow> (bool \<times> 'f loct) option" where
  "timerQueryTimerById ids num s =
     (if num > timer_cnt (iotgo_timer_info s) then refuse 500 s
      else if num > length ids then None
      else do {
        r \<leftarrow> id_loop (take num ids) 0 (replicate IOTGO_TIMER_NUM zero_timer) s;
        case r of
          None \<Rightarrow> refuse 500 s
        | Some timer \<Rightarrow> replyQueryTimer 0 (iotgo_timer_info s) timer num s
      })"

subsection \<open>The clock tick\<close>

definition run_action :: "string \<Rightarrow> 'f loct \<Rightarrow> 'f loct" where
  "run_action a s = (if iotgo_timer_action s then s\<lparr>effects := effects s @ [Action a]\<rparr> else s)"

definition deal_timer :: "IoTgoGMTTime \<Rightarrow> nat \<Rightarrow> 'f loct \<Rightarrow> 'f loct option" where
  "deal_timer now i s =
     (let t = iotgo_timer s ! i in
      if t_id t = 0 \<or> t_enabled t = 0 then Some s
      else (case t_type t of
              LOC_ONCE \<Rightarrow> do {
                g \<leftarrow> gmt_of (t_timing t);
                Some (if gmtCompareWithNow g now
                      then set_timer i (t\<lparr>t_enabled := 0\<rparr>) (run_action (t_action_do t) s) else s)
              }
            | LOC_REPEAT \<Rightarrow> do {
                c \<leftarrow> cron_of (t_timing t);
                hit \<leftarrow> cronCompareWitchNow c now;
                Some (if hit then run_action (t_action_do t) s else s)
              }
            | LOC_DURATION \<Rightarrow> do {
                g \<leftarrow> gmt_of (t_timing t);
                ret \<leftarrow> durationCompareWithNow g (t_interval t) (t_duration t) now;
                Some (if ret = 0 then run_action (t_action_do t) s
                      else if ret = 1 then run_action (t_end_do t) s else s)
              }
            | LOC_INVALID \<Rightarrow> Some s))"

fun deal_loop :: "IoTgoGMTTime \<Rightarrow> nat list \<Rightarrow> 'f loct \<Rightarrow> 'f loct option" where
  "deal_loop now [] s = Some s"
| "deal_loop now (i # is) s = Option.bind (deal_timer now i s) (deal_loop now is)"

definition timerDealTime :: "IoTgoGMTTime \<Rightarrow> 'f loct \<Rightarrow> 'f loct option" where
  "timerDealTime now s = deal_loop now [0..<IOTGO_TIMER_NUM] s"

subsection \<open>Reading a timer from a request\<close>

definition procError :: "'f loct \<Rightarrow> (bool \<times> 'f loct) option" where
  "procError s = refuse 500 s"

definition number_item :: "cJSON option \<Rightarrow> string \<Rightarrow> int option" where
  "number_item j name =
     (case cJSON_GetObjectItem j name of
        Some c \<Rightarrow> if cj_type c = cJSON_Number then Some (cj_valueint c) else None
      | None \<Rightarrow> None)"

definition getTimerId :: "iotgoTimer \<Rightarrow> cJSON option \<Rightarrow> bool \<times> iotgoTimer" where
  "getTimerId t j = (case number_item j ''id'' of None \<Rightarrow> (False, t) | Some v \<Rightarrow> (True, t\<lparr>t_id := to_u8 v\<rparr>))"

definition getTimerEnabled :: "iotgoTimer \<Rightarrow> cJSON option \<Rightarrow> bool \<times> iotgoTimer" where
  "getTimerEnabled t j =
     (case number_item j ''enabled'' of None \<Rightarrow> (False, t) | Some v \<Rightarrow> (True, t\<lparr>t_enabled := to_u8 v\<rparr>))"

text \<open>An item of type string without a text is a null pointer passed to \<open>os_strcmp\<close>.\<close>

definition getTimerType :: "iotgoTimer \<Rightarrow> cJSON option \<Rightarrow> (bool \<times> iotgoTimer) option" where
  "getTimerType t j =
     (case cJSON_GetObjectItem j ''type'' of
        None \<Rightarrow> Some (False, t)
      | Some c \<Rightarrow>
          if cj_type c \<noteq> cJSON_String then Some (False, t)
          else do {
            v \<leftarrow> cj_valuestring c;
            Some (if v = ''once'' then (True, t\<lparr>t_type := LOC_ONCE\<rparr>)
                  else if v = ''repeat'' then (True, t\<lparr>t_type := LOC_REPEAT\<rparr>)
                  else if v = ''duration'' then (True, t\<lparr>t_type := LOC_DURATION\<rparr>)
                  else (False, t\<lparr>t_type := LOC_INVALID\<rparr>))
          })"

text \<open>Copying \<open>n\<close> characters and a terminator into an array of \<open>cap\<close> characters.\<close>

definition c_copy :: "nat \<Rightarrow> string \<Rightarrow> string option" where
  "c_copy cap s = (if length s < cap then Some s else None)"

definition copy_field :: "int \<Rightarrow> string \<Rightarrow> string option" where
  "copy_field n p = (if n < 0 then None else c_copy 30 (take (nat n) p))"

text \<open>The date, the interval and the duration of an \<open>at\<close> text, with the flag; failing leaves some of them written.\<close>

definition parseFromATString :: "string \<Rightarrow> string \<Rightarrow> nat \<Rightarrow> nat \<Rightarrow> (bool \<times> string \<times> nat \<times> nat) option" where
  "parseFromATString at_str gmt interval duration =
     (let str_len = to_u8 (int (length at_str)) in
      if str_len \<le> 24 then Some (False, gmt, interval, duration)
      else (case c_strstr at_str '' '' of
              None \<Rightarrow> Some (False, gmt, interval, duration)
            | Some n \<Rightarrow>
                if n = 0 then Some (False, gmt, interval, duration)
                else do {
                  gmt \<leftarrow> copy_field (int n) at_str;
                  let p = drop (n + 1) at_str;
                  case c_strstr p '' '' of
                    None \<Rightarrow> do {
                      b \<leftarrow> copy_field (int str_len - int (n + 1)) p;
                      v \<leftarrow> atoi b;
                      Some (if to_u32 v = 0 then (False, gmt, 0, duration) else (True, gmt, to_u32 v, 0))
                    }
                  | Some k \<Rightarrow> do {
                      b \<leftarrow> copy_field (int k) p;
                      v \<leftarrow> atoi b;
                      if to_u32 v = 0 then Some (False, gmt, 0, duration)
                      else do {
                        let q = drop (k + 1) p;
                        b \<leftarrow> copy_field (int str_len - int (n + 1 + k + 1)) q;
                        w \<leftarrow> atoi b;
                        Some (True, gmt, to_u32 v, to_u32 w)
                      }
                    }
                }))"

definition zero_gmt :: IoTgoGMTTime where
  "zero_gmt = \<lparr>year = 0, month = 0, day = 0, hour = 0, minute = 0, second = 0\<rparr>"

definition zero_cron :: IoTgoCron where
  "zero_cron = \<lparr>cron_weeks = replicate 7 False, cron_hour = 0, cron_minute = 0\<rparr>"

text \<open>The timer passed in is a fresh zeroed one, so both readings of its \<open>timing\<close> are zero.\<close>

definition getTImerAt :: "iotgoTimer \<Rightarrow> cJSON option \<Rightarrow> (bool \<times> iotgoTimer) option" where
  "getTImerAt t j =
     (case cJSON_GetObjectItem j ''at'' of
        None \<Rightarrow> Some (False, t)
      | Some c \<Rightarrow>
          if cj_type c \<noteq> cJSON_String then Some (False, t)
          else do {
            v \<leftarrow> cj_valuestring c;
            att \<leftarrow> c_copy 30 v;
            let t = t\<lparr>t_at := att\<rparr>;
            case t_type t of
              LOC_ONCE \<Rightarrow>
                (let (ok, g) = parseGMTTimeFromString (Some v) zero_gmt in Some (ok, t\<lparr>t_timing := TGmt g\<rparr>))
            | LOC_REPEAT \<Rightarrow>
                map_option (\<lambda>(ok, c). (ok, t\<lparr>t_timing := TCron c\<rparr>)) (parseCronFromString (Some v) zero_cron)
            | LOC_DURATION \<Rightarrow> do {
                (ok, gmt, iv, du) \<leftarrow> parseFromATString v [] (t_interval t) (t_duration t);
                let t = t\<lparr>t_interval := iv, t_duration := du\<rparr>;
                if ok then (let (ok, g) = parseGMTTimeFromString (Some gmt) zero_gmt
                            in Some (ok, t\<lparr>t_timing := TGmt g\<rparr>))
                else Some (False, t)
              }
            | LOC_INVALID \<Rightarrow> Some (False, t)
          })"

definition print_action :: "cJSON \<Rightarrow> string option" where
  "print_action j = Option.bind (Option.bind (cJSON_PrintUnformatted j) id) (c_copy 100)"

definition getTimerAction :: "iotgoTimer \<Rightarrow> cJSON option \<Rightarrow> (bool \<times> iotgoTimer) option" where
  "getTimerAction t j =
     (case cJSON_GetObjectItem j ''do'' of
        Some d \<Rightarrow>
          if cj_type d \<noteq> cJSON_Object then Some (False, t)
          else map_option (\<lambda>a. (True, t\<lparr>t_action_do := a\<rparr>)) (print_action d)
      | None \<Rightarrow>
          (case (cJSON_GetObjectItem j ''startDo'', cJSON_GetObjectItem j ''endDo'') of
             (Some sd, Some ed) \<Rightarrow>
               if cj_type sd \<noteq> cJSON_Object \<or> cj_type ed \<noteq> cJSON_Object then Some (False, t)
               else do {
                 a \<leftarrow> print_action sd;
                 b \<leftarrow> print_action ed;
                 Some (True, t\<lparr>t_action_do := a, t_end_do := b\<rparr>)
               }
           | _ \<Rightarrow> Some (False, t)))"

definition generateTimer :: "iotgoTimer \<Rightarrow> cJSON option \<Rightarrow> (bool \<times> iotgoTimer) option" where
  "generateTimer t j =
     (let (ok, t) = getTimerId t j in
      if \<not> ok then Some (False, t)
      else (let (ok, t) = getTimerEnabled t j in
            if \<not> ok then Some (False, t)
            else do {
              (ok, t) \<leftarrow> getTimerType t j;
              if \<not> ok then Some (False, t)
              else do {
                (ok, t) \<leftarrow> getTImerAt t j;
                if \<not> ok then Some (False, t) else getTimerAction t j
              }
            }))"

text \<open>
  \<open>procNew\<close> and \<open>procEdit\<close> fill a zeroed array of eight timers.  The result is the array, or
  \<open>None\<close> for a refused request.
\<close>

fun timer_args :: "nat \<Rightarrow> nat \<Rightarrow> cJSON \<Rightarrow> iotgoTimer list option option" where
  "timer_args 0 i arr = Some (Some [])"
| "timer_args (Suc n) i arr =
     (case cJSON_GetArrayItem (Some arr) (int i) of
        None \<Rightarrow> Some None
      | Some j \<Rightarrow>
          if cj_type j \<noteq> cJSON_Object then Some None
          else do {
            (ok, t) \<leftarrow> generateTimer zero_timer (Some j);
            if \<not> ok then Some None
            else map_option (map_option (Cons t)) (timer_args n (i + 1) arr)
          })"

definition with_timers ::
  "cJSON option \<Rightarrow> (iotgoTimer list option \<Rightarrow> nat \<Rightarrow> 'f loct \<Rightarrow> (bool \<times> 'f loct) option) \<Rightarrow> 'f loct \<Rightarrow> (bool \<times> 'f loct) option" where
  "with_timers arr f s =
     (case arr of
        None \<Rightarrow> procError s
      | Some arr \<Rightarrow>
          if cj_type arr \<noteq> cJSON_Array then procError s
          else (let timer_num = to_u8 (cJSON_GetArraySize arr) in
                if IOTGO_TIMER_NUM < timer_num then procError s
                else do {
                  r \<leftarrow> timer_args timer_num 0 arr;
                  case r of
                    None \<Rightarrow> procError s
                  | Some ts \<Rightarrow> f (Some (ts @ replicate (IOTGO_TIMER_NUM - timer_num) zero_timer)) timer_num s
                }))"

definition procNew :: "'f flash_ops \<Rightarrow> cJSON option \<Rightarrow> 'f loct \<Rightarrow> (bool \<times> 'f loct) option" where
  "procNew fl arr s = with_timers arr (timerNew fl) s"

definition procEdit :: "'f flash_ops \<Rightarrow> cJSON option \<Rightarrow> 'f loct \<Rightarrow> (bool \<times> 'f loct) option" where
  "procEdit fl arr s = with_timers arr (timerEdit fl) s"

text \<open>The identifiers of a request, written into an array of eight bytes.\<close>

fun id_args :: "nat \<Rightarrow> nat \<Rightarrow> cJSON \<Rightarrow> nat list \<Rightarrow> nat list option option" where
  "id_args 0 i arr ids = Some (Some ids)"
| "id_args (Suc n) i arr ids =
     (case cJSON_GetArrayItem (Some arr) (int i) of
        None \<Rightarrow> Some None
      | Some j \<Rightarrow> if i \<ge> length ids then None else id_args n (i + 1) arr (ids[i := to_u8 (cj_valueint j)]))"

definition with_ids ::
  "cJSON option \<Rightarrow> (nat list \<Rightarrow> nat \<Rightarrow> 'f loct \<Rightarrow> (bool \<times> 'f loct) option) \<Rightarrow> 'f loct \<Rightarrow> (bool \<times> 'f loct) option" where
  "with_ids arr f s =
     (case arr of
        None \<Rightarrow> procError s
      | Some arr \<Rightarrow>
          if cj_type arr \<noteq> cJSON_Array then procError s
          else (let timerid_num = to_u8 (cJSON_GetArraySize arr) in
                do {
                  r \<leftarrow> id_args timerid_num 0 arr (replicate IOTGO_TIMER_NUM 0);
                  case r of None \<Rightarrow> procError s | Some ids \<Rightarrow> f ids timerid_num s
                }))"

definition procDel :: "'f flash_ops \<Rightarrow> cJSON option \<Rightarrow> 'f loct \<Rightarrow> (bool \<times> 'f loct) option" where
  "procDel fl arr s = with_ids arr (timerDel fl) s"

definition procEnable :: "'f flash_ops \<Rightarrow> cJSON option \<Rightarrow> 'f loct \<Rightarrow> (bool \<times> 'f loct) option" where
  "procEnable fl arr s = with_ids arr (timerEnable fl) s"

definition procDisable :: "'f flash_ops \<Rightarrow> cJSON option \<Rightarrow> 'f loct \<Rightarrow> (bool \<times> 'f loct) option" where
  "procDisable fl arr s = with_ids arr (timerDisable fl) s"

definition procDelAll :: "'f flash_ops \<Rightarrow> 'f loct \<Rightarrow> (bool \<times> 'f loct) option" where
  "procDelAll fl s = timerDelAll fl s"

definition procEnableAll :: "'f flash_ops \<Rightarrow> 'f loct \<Rightarrow> (bool \<times> 'f loct) option" where
  "procEnableAll fl s = timerEnableAll fl s"

definition procDisableAll :: "'f flash_ops \<Rightarrow> 'f loct \<Rightarrow> (bool \<times> 'f loct) option" where
  "procDisableAll fl s = timerDisableAll fl s"

definition procQueryTimerInfo :: "cJSON option \<Rightarrow> 'f loct \<Rightarrow> (bool \<times> 'f loct) option" where
  "procQueryTimerInfo params s =
     (case params of
        None \<Rightarrow> procError s
      | Some p \<Rightarrow> if cj_type p \<noteq> cJSON_Array then procError s else timerQueryTimerInfo s)"

definition procQueryTimerByIndex :: "cJSON option \<Rightarrow> 'f loct \<Rightarrow> (bool \<times> 'f loct) option" where
  "procQueryTimerByIndex params s =
     (case params of
        None \<Rightarrow> procError s
      | Some p \<Rightarrow>
          if cj_type p \<noteq> cJSON_Array \<or> 3 < to_u8 (cJSON_GetArraySize p) then procError s
          else (case (cJSON_GetArrayItem params 1, cJSON_GetArrayItem params 2) of
                  (Some a, Some b) \<Rightarrow> timerQueryTimerByIndex (to_u8 (cj_valueint a)) (to_u8 (cj_valueint b)) s
                | _ \<Rightarrow> procError s))"

definition procQueryTimerById :: "cJSON option \<Rightarrow> 'f loct \<Rightarrow> (bool \<times> 'f loct) option" where
  "procQueryTimerById params s =
     (case params of
        None \<Rightarrow> procError s
      | Some p \<Rightarrow>
          if cj_type p \<noteq> cJSON_Array \<or> 2 < to_u8 (cJSON_GetArraySize p) then procError s
          else (case cJSON_GetArrayItem params 1 of
                  None \<Rightarrow> procError s
                | Some a \<Rightarrow>
                    (let array_num = to_u8 (cJSON_GetArraySize a) in
                     if cj_type a \<noteq> cJSON_Array \<or> timer_cnt (iotgo_timer_info s) < array_num then procError s
                     else do {
                       r \<leftarrow> id_args array_num 0 a (replicate IOTGO_TIMER_NUM 0);
                       case r of None \<Rightarrow> procError s | Some ids \<Rightarrow> timerQueryTimerById ids array_num s
                     })))"

subsection \<open>Entry points\<close>

text \<open>A query or an action that is no string is a null pointer passed to \<open>os_strcmp\<close>.\<close>

definition timerProcQuery :: "cJSON option \<Rightarrow> TimerManage \<Rightarrow> 'f loct \<Rightarrow> (bool \<times> 'f loct) option" where
  "timerProcQuery params manager s =
     (let s = s\<lparr>timer_manager := manager\<rparr> in
      case params of
        None \<Rightarrow> procError s
      | Some p \<Rightarrow>
          if cj_type p \<noteq> cJSON_Array then procError s
          else (case cJSON_GetArrayItem params 0 of
                  None \<Rightarrow> procError s
                | Some q \<Rightarrow> do {
                    v \<leftarrow> cj_valuestring q;
                    if v = ''timerInfo'' then procQueryTimerInfo params s
                    else if v = ''timerIndex'' then procQueryTimerByIndex params s
                    else if v = ''timerID'' then procQueryTimerById params s
                    else procError s
                  }))"

definition timerProcUpdate :: "'f flash_ops \<Rightarrow> cJSON option \<Rightarrow> TimerManage \<Rightarrow> 'f loct \<Rightarrow> (bool \<times> 'f loct) option" where
  "timerProcUpdate fl params manager s =
     (let s = s\<lparr>timer_manager := manager\<rparr>;
          timerid = cJSON_GetObjectItem params ''timerID'';
          timer = cJSON_GetObjectItem params ''timer''
      in case params of
        None \<Rightarrow> procError s
      | Some p \<Rightarrow>
          (case cJSON_GetObjectItem params ''timerAct'' of
             None \<Rightarrow> procError s
           | Some act \<Rightarrow> do {
               v \<leftarrow> cj_valuestring act;
               if v = ''del'' then (if timerid = None then procError s else procDel fl timerid s)
               else if v = ''new'' then (if timer = None then procError s else procNew fl timer s)
               else if v = ''edit'' then (if timer = None then procError s else procEdit fl timer s)
               else if v = ''enable'' then (if timerid = None then procError s else procEnable fl timerid s)
               else if v = ''disable'' then (if timerid = None then procError s else procDisable fl timerid s)
               else if v = ''delAll'' then procDelAll fl s
               else if v = ''enableAll'' then procEnableAll fl s
               else if v = ''disableAll'' then procDisableAll fl s
               else procError s
             }))"

definition timerInit :: "'f flash_ops \<Rightarrow> bool \<Rightarrow> 'f loct \<Rightarrow> 'f loct" where
  "timerInit fl callback s =
     (timerLoadFromFlash fl (s\<lparr>iotgo_timer_action := callback\<rparr>))\<lparr>iotgo_timer_couter := Armed 1000 True\<rparr>"

definition getIotgoTimerInfo :: "'f loct \<Rightarrow> iotgoTimerInfo" where
  "getIotgoTimerInfo s = iotgo_timer_info s"

end
