(* ===== verification/LocTimerTick.thy ===== *)
theory LocTimerTick
  imports TimerSpec LocTimer
begin

text \<open>
  The tick of the local timers: the time arithmetic of \<open>compareTimeToKnowDate\<close> is the true number
  of seconds, and one call of \<open>timerDealTime\<close> runs exactly the actions that are due, in the order
  of the table, and switches off the one-shot timers it has run.
\<close>

subsection \<open>Seconds since 2016\<close>

definition start_2016 :: nat where
  "start_2016 = days_to_year 2016 * 86400"

lemma days_to_month_2016: "days_to_month 0 m = days_to_month 2016 m"
  by (induction m) (simp_all add: month_len_def leap_def)

lemma month_loop_2016:
  assumes "1 \<le> m" "m \<le> 12"
  shows "month_loop 0 [1..<m] 0 = Some (days_to_month 2016 m)"
proof -
  have "m \<in> {1, 2, 3, 4, 5, 6, 7, 8, 9, 10, 11, 12}" using assms by (rule months_less_13)
  then have "days_to_month 2016 m \<le> 366"
    by (elim insertE emptyE) (simp_all only: days_to_month_table, simp_all add: month_len_def)
  then show ?thesis
    using month_loop_days [of m 0 0] assms by (simp add: days_to_month_2016)
qed

lemma compareTimeToKnowDate_secs:
  assumes "sched_date t" "2016 \<le> year t"
  shows "compareTimeToKnowDate t = Some (gmt_secs t - start_2016)" "start_2016 \<le> gmt_secs t"
proof -
  define D where "D = gmt_days t - days_to_year 2016"
  have v: "1 \<le> month t" "month t \<le> 12" "1 \<le> day t" "hour t < 24" "minute t < 60" "second t < 60"
    using assms by (auto simp: sched_date_def gmt_valid_def date_valid_def)
  have y: "days_to_year 2015 \<le> days_to_year 2016" "days_to_year 2016 \<le> days_to_year (year t)"
    "days_to_year (year t) \<le> gmt_days t" "days_to_year (year t) < 4294967296"
    using assms(2) days_to_year_mono [of 2015 2016] days_to_year_mono [of 2016 "year t"]
      gmt_days_less_next_year [of t] days_to_year_span [of 0 "year t"] assms(1)
    by (auto simp: sched_date_def gmt_valid_def)
  have D: "D = (days_to_year (year t) - days_to_year 2016) + days_to_month (year t) (month t) + (day t - 1)" "D < 24522"
    using y sched_days_bounds [OF assms(1)] by (auto simp: D_def gmt_days_def)
  have days: "(if year t > 2016 then Option.bind (year_loop [2016..<year t] 0) (month_loop (year t) [1..<month t])
       else month_loop 0 [1..<month t] 0) = Some (D - (day t - 1))"
  proof (cases "year t > 2016")
    case True
    have "year_loop [2016..<year t] 0 = Some (days_to_year (year t) - days_to_year 2016)"
      using True y by (intro year_loop_days) simp_all
    moreover have "month_loop (year t) [1..<month t] (days_to_year (year t) - days_to_year 2016) =
        Some (days_to_year (year t) - days_to_year 2016 + days_to_month (year t) (month t))"
      using v D by (intro month_loop_days) auto
    ultimately show ?thesis using True D(1) by simp
  next
    case False
    then have "year t = 2016" using assms(2) by simp
    then show ?thesis using month_loop_2016 [OF v(1,2)] D(1) by simp
  qed
  have "int (D - (day t - 1)) + int (day t) - 1 = int D" using D(1) v by simp
  then have d: "to_u32 (int (D - (day t - 1)) + int (day t) - 1) = D"
    using D(2) by (simp add: to_u32_small)
  define S where "S = (D * 1440 + hour t * 60 + minute t) * 60 + second t"
  have "(int D * 24 * 60 + int (hour t) * 60 + int (minute t)) * 60 + int (second t) = int S" by (simp add: S_def)
  moreover have "S < 4294967296"
  proof -
    have "D * 1440 + hour t * 60 + minute t < 24522 * 1440" using D(2) v by simp
    then show ?thesis using v by (simp add: S_def)
  qed
  ultimately have s: "to_u32 ((int D * 24 * 60 + int (hour t) * 60 + int (minute t)) * 60 + int (second t)) = S"
    by (simp only: to_u32_small)
  have g: "gmt_secs t = S + start_2016"
    using y by (simp add: S_def D_def gmt_secs_def start_2016_def diff_mult_distrib algebra_simps)
  then show "start_2016 \<le> gmt_secs t" by simp
  show "compareTimeToKnowDate t = Some (gmt_secs t - start_2016)"
    using assms(2) days d s g by (simp add: compareTimeToKnowDate_def Let_def)
qed

subsection \<open>When a timer is due\<close>

text \<open>
  A periodic timer with start \<open>g\<close>, interval and duration in minutes: its first action at the
  multiples of the interval, its second one at the other multiples of the duration since the
  last multiple of the interval.  Dates up to the first second of 2016 do not count.
\<close>

definition due_periodic :: "IoTgoGMTTime \<Rightarrow> iotgoTimer \<Rightarrow> IoTgoGMTTime \<Rightarrow> string list" where
  "due_periodic now t g =
     (let d = gmt_secs now - gmt_secs g in
      if gmt_secs g \<le> start_2016 \<or> gmt_secs now < gmt_secs g then []
      else if 60 * t_interval t dvd d then [t_action_do t]
      else if t_duration t \<noteq> 0 \<and> 60 * t_duration t dvd d mod (60 * t_interval t) then [t_end_do t]
      else [])"

definition due_weekly :: "IoTgoGMTTime \<Rightarrow> IoTgoCron \<Rightarrow> bool" where
  "due_weekly now c \<longleftrightarrow>
     cron_weeks c ! ((gmt_days now + 6) mod 7) \<and> (cron_hour c = hour now \<or> cron_hour c = 24)
     \<and> cron_minute c = minute now \<and> second now = 0"

definition due :: "IoTgoGMTTime \<Rightarrow> iotgoTimer \<Rightarrow> string list" where
  "due now t =
     (if t_id t = 0 \<or> t_enabled t = 0 then []
      else (case (t_type t, t_timing t) of
              (LOC_ONCE, TGmt g) \<Rightarrow> if now = g\<lparr>second := 0\<rparr> then [t_action_do t] else []
            | (LOC_REPEAT, TCron c) \<Rightarrow> if due_weekly now c then [t_action_do t] else []
            | (LOC_DURATION, TGmt g) \<Rightarrow> due_periodic now t g
            | _ \<Rightarrow> []))"

definition after_tick :: "IoTgoGMTTime \<Rightarrow> iotgoTimer \<Rightarrow> iotgoTimer" where
  "after_tick now t = (if t_type t = LOC_ONCE \<and> due now t \<noteq> [] then t\<lparr>t_enabled := 0\<rparr> else t)"

text \<open>The timing of an enabled timer fits its type, a periodic timer has an interval.\<close>

definition timer_ok :: "iotgoTimer \<Rightarrow> bool" where
  "timer_ok t \<longleftrightarrow>
     t_id t \<noteq> 0 \<longrightarrow> t_enabled t \<noteq> 0 \<longrightarrow>
     (case (t_type t, t_timing t) of
        (LOC_ONCE, TGmt g) \<Rightarrow> True
      | (LOC_REPEAT, TCron c) \<Rightarrow> True
      | (LOC_DURATION, TGmt g) \<Rightarrow> sched_date g \<and> 2016 \<le> year g \<and> 0 < t_interval t
      | _ \<Rightarrow> False)"

lemma gmtCompareWithNow_iff: "gmtCompareWithNow g now \<longleftrightarrow> now = g\<lparr>second := 0\<rparr>"
  by (cases g; cases now) (auto simp: gmtCompareWithNow_def)

lemma cronCompareWitchNow_due:
  assumes "sched_date now"
  shows "cronCompareWitchNow c now = Some (due_weekly now c)"
proof -
  have v: "date_valid now" "1 \<le> year now" "year now < 12800" "month now < 128" "day now < 128"
    using assms month_len_bounds [of "year now" "month now"]
    by (auto simp: sched_date_def gmt_valid_def date_valid_def)
  have "getWeek (int (year now)) (to_s8 (int (month now))) (to_s8 (int (day now))) = int ((gmt_days now + 6) mod 7)"
    using getWeek_day_count [OF v(1-3)] v(4,5) by (simp add: to_s8_small zmod_int)
  then show ?thesis
    by (simp add: cronCompareWitchNow_def due_weekly_def Let_def)
qed

lemma durationCompareWithNow_due:
  assumes "sched_date now" "2016 \<le> year now" "sched_date g" "2016 \<le> year g" "0 < iv"
  shows "durationCompareWithNow g iv du now = Some
    (if gmt_secs g \<le> start_2016 \<or> gmt_secs now < gmt_secs g then -1
     else (let d = gmt_secs now - gmt_secs g in
           if 60 * iv dvd d then 0 else if du \<noteq> 0 \<and> 60 * du dvd d mod (60 * iv) then 1 else -1))"
proof -
  note now = compareTimeToKnowDate_secs [OF assms(1,2)] and g = compareTimeToKnowDate_secs [OF assms(3,4)]
  define d where "d = gmt_secs now - gmt_secs g"
  have multiple: "60 * k dvd n \<longleftrightarrow> n div 60 mod k = 0 \<and> n mod 60 = 0" if "0 < k" for k n :: nat
    by (rule minutes_multiple [OF that, symmetric])
  have inner: "60 * du dvd d mod (60 * iv) \<longleftrightarrow> (d div 60 mod iv) mod du = 0 \<and> d mod 60 = 0" if "0 < du"
  proof -
    have "d mod (60 * iv) = 60 * (d div 60 mod iv) + d mod 60" by (rule mod_mult2_eq)
    then have "(d mod (60 * iv)) div 60 = d div 60 mod iv" "(d mod (60 * iv)) mod 60 = d mod 60" by simp_all
    with multiple [OF that, of "d mod (60 * iv)"] show ?thesis by simp
  qed
  have diff: "(gmt_secs now - start_2016) - (gmt_secs g - start_2016) = d"
    using g(2) by (simp add: d_def)
  have order: "start_2016 < gmt_secs g \<Longrightarrow> gmt_secs g \<le> gmt_secs now \<Longrightarrow> start_2016 < gmt_secs now"
    "gmt_secs now - start_2016 < gmt_secs g - start_2016 \<longleftrightarrow> gmt_secs now < gmt_secs g"
    using now(2) g(2) by linarith+
  show ?thesis
  proof (cases "gmt_secs g \<le> start_2016 \<or> gmt_secs now < gmt_secs g")
    case True
    then show ?thesis
      by (auto simp: durationCompareWithNow_def now(1) g(1) order(2) Let_def)
  next
    case False
    then have pos: "gmt_secs now - start_2016 \<noteq> 0" "gmt_secs g - start_2016 \<noteq> 0"
      "\<not> gmt_secs now - start_2016 < gmt_secs g - start_2016"
      using order by auto
    have "durationCompareWithNow g iv du now =
      (if d div 60 mod iv = 0 \<and> d mod 60 = 0 then Some 0
       else if du = 0 then Some (-1)
       else if (d div 60 mod iv) mod du = 0 \<and> d mod 60 = 0 then Some 1 else Some (-1))"
      unfolding durationCompareWithNow_def now(1) g(1) Let_def
      using pos assms(5) by (simp add: diff d_def)
    then show ?thesis
      using False multiple [OF assms(5), of d] inner by (simp add: Let_def d_def [symmetric])
  qed
qed

subsection \<open>The tick\<close>

lemma deal_timer_due:
  assumes "sched_date now" "2016 \<le> year now" "timer_ok (iotgo_timer s ! i)" "iotgo_timer_action s"
  shows "deal_timer now i s =
    Some (s\<lparr>effects := effects s @ map Action (due now (iotgo_timer s ! i)),
            iotgo_timer := (iotgo_timer s)[i := after_tick now (iotgo_timer s ! i)]\<rparr>)"
proof -
  define t where "t = iotgo_timer s ! i"
  have same: "s\<lparr>iotgo_timer := (iotgo_timer s)[i := t]\<rparr> = s"
    "s\<lparr>effects := e, iotgo_timer := (iotgo_timer s)[i := t]\<rparr> = s\<lparr>effects := e\<rparr>" for e
    by (simp_all add: t_def)
  note deal = deal_timer_def [of now i s, folded t_def, unfolded Let_def]
  have run: "run_action a s = s\<lparr>effects := effects s @ [Action a]\<rparr>" for a
    using assms(4) by (simp add: run_action_def)
  have ok: "timer_ok t" using assms(3) by (simp add: t_def)
  have "deal_timer now i s =
    Some (s\<lparr>effects := effects s @ map Action (due now t), iotgo_timer := (iotgo_timer s)[i := after_tick now t]\<rparr>)"
  proof (cases "t_id t = 0 \<or> t_enabled t = 0")
    case True
    then show ?thesis using deal same by (auto simp: due_def after_tick_def)
  next
    case on: False
    show ?thesis
    proof (cases "t_type t")
      case LOC_ONCE
      with ok on obtain g where "t_timing t = TGmt g" by (auto simp: timer_ok_def split: timing.splits)
      then show ?thesis
        using deal on LOC_ONCE same by (simp add: gmt_of_def gmtCompareWithNow_iff due_def after_tick_def set_timer_def run)
    next
      case LOC_REPEAT
      with ok on obtain c where "t_timing t = TCron c" by (auto simp: timer_ok_def split: timing.splits)
      then show ?thesis
        using deal on LOC_REPEAT same
        by (simp add: cron_of_def cronCompareWitchNow_due [OF assms(1)] due_def after_tick_def run)
    next
      case LOC_DURATION
      with ok on obtain g where g: "t_timing t = TGmt g" "sched_date g" "2016 \<le> year g" "0 < t_interval t"
        by (auto simp: timer_ok_def split: timing.splits)
      then show ?thesis
        using deal on LOC_DURATION same
        by (simp add: gmt_of_def durationCompareWithNow_due [OF assms(1,2) g(2-4)] due_def due_periodic_def
            after_tick_def run Let_def)
    next
      case LOC_INVALID
      with ok on show ?thesis by (auto simp: timer_ok_def)
    qed
  qed
  then show ?thesis by (simp add: t_def)
qed

text \<open>The loop, from slot \<open>i\<close> on.\<close>

lemma deal_loop_due:
  assumes "sched_date now" "2016 \<le> year now" "iotgo_timer_action s" "length (iotgo_timer s) = n"
    "\<forall>t \<in> set (drop i (iotgo_timer s)). timer_ok t" "i \<le> n"
  shows "deal_loop now [i..<n] s =
    Some (s\<lparr>effects := effects s @ concat (map (map Action \<circ> due now) (drop i (iotgo_timer s))),
            iotgo_timer := take i (iotgo_timer s) @ map (after_tick now) (drop i (iotgo_timer s))\<rparr>)"
  using assms(3-6)
proof (induction "n - i" arbitrary: i s)
  case 0
  then show ?case by simp
next
  case (Suc k)
  let ?t = "iotgo_timer s ! i"
  have i: "i < n" "k = n - Suc i" using Suc.hyps(2) by simp_all
  have d: "drop i (iotgo_timer s) = ?t # drop (Suc i) (iotgo_timer s)"
    using i Suc.prems(2) by (simp add: Cons_nth_drop_Suc)
  then have ok: "timer_ok ?t" using Suc.prems(3) by simp
  define u where "u = s\<lparr>effects := effects s @ map Action (due now ?t),
    iotgo_timer := (iotgo_timer s)[i := after_tick now ?t]\<rparr>"
  have u: "deal_timer now i s = Some u" "drop (Suc i) (iotgo_timer u) = drop (Suc i) (iotgo_timer s)"
    "take (Suc i) (iotgo_timer u) = take i (iotgo_timer s) @ [after_tick now ?t]"
    using deal_timer_due [OF assms(1,2) ok Suc.prems(1)] i Suc.prems(2)
    by (simp_all add: u_def take_Suc_conv_app_nth)
  have "deal_loop now [Suc i..<n] u =
    Some (u\<lparr>effects := effects u @ concat (map (map Action \<circ> due now) (drop (Suc i) (iotgo_timer u))),
            iotgo_timer := take (Suc i) (iotgo_timer u) @ map (after_tick now) (drop (Suc i) (iotgo_timer u))\<rparr>)"
    using Suc.prems i d u(2) by (intro Suc.hyps(1) i(2)) (simp_all add: u_def)
  then show ?case
    using i(1) u d by (simp add: upt_conv_Cons u_def)
qed

text \<open>
  C18: one tick of the local timers runs exactly the actions that are due at this second, in the
  order of the table: a one-shot timer in the second that begins its minute, a weekly one in its
  minute on its days (the weekday being the true one), a periodic one at the multiples of its
  interval and, for the second action, at the multiples of its duration in between; a one-shot
  timer that ran is switched off, nothing else changes.
\<close>

theorem tick_runs_what_is_due:
  assumes "sched_date now" "2016 \<le> year now" "length (iotgo_timer s) = 8"
    "\<forall>t \<in> set (iotgo_timer s). timer_ok t" "iotgo_timer_action s"
  shows "timerDealTime now s =
    Some (s\<lparr>effects := effects s @ map Action (concat (map (due now) (iotgo_timer s))),
            iotgo_timer := map (after_tick now) (iotgo_timer s)\<rparr>)"
  using deal_loop_due [OF assms(1,2,5,3), of 0] assms(4)
  by (simp add: timerDealTime_def IOTGO_TIMER_NUM_def map_concat comp_def)

definition tick_table :: "iotgoTimer list" where
  "tick_table =
     (let g = noon 0 0; on = zero_timer\<lparr>t_enabled := 1, t_timing := TGmt g\<rparr> in
      [on\<lparr>t_id := 1, t_type := LOC_ONCE, t_action_do := ''once''\<rparr>,
       on\<lparr>t_id := 2, t_type := LOC_DURATION, t_interval := 10, t_duration := 4, t_action_do := ''on'', t_end_do := ''off''\<rparr>]
      @ replicate 6 zero_timer)"

definition tick_state :: "nat loct" where
  "tick_state = \<lparr>iotgo_timer = tick_table, iotgo_timer_info = \<lparr>timer_ver = 0, timer_cnt = 2\<rparr>,
     iotgo_timer_id = [1, 2, 0, 0, 0, 0, 0, 0], iotgo_timer_action = True, iotgo_timer_couter = Disarmed,
     timer_manager = TIMER_NULL, flash = 0, effects = [], owner_uuid = [], deviceid = [],
     server_sequence_value = []\<rparr>"

lemma start_2016_noon: "start_2016 < gmt_secs (noon 0 0)"
  by (simp add: start_2016_def gmt_secs_def gmt_days_def noon_def)

theorem tick_runs_what_is_due_witness:
  "map_option effects (timerDealTime (noon 0 0) tick_state) = Some [Action ''once'', Action ''on'']
   \<and> map_option effects (timerDealTime (noon 18 0) tick_state) = Some [Action ''off'']"
proof -
  have ok: "\<forall>t \<in> set (iotgo_timer tick_state). timer_ok t"
    using noon_date [of 0 0]
    by (auto simp: tick_state_def tick_table_def zero_timer_def timer_ok_def Let_def noon_def)
  have pre: "length (iotgo_timer tick_state) = 8" "iotgo_timer_action tick_state" "effects tick_state = []"
    by (simp_all add: tick_state_def tick_table_def Let_def)
  have y: "2016 \<le> year (noon m 0)" for m by (simp add: noon_def)
  have zero: "due now zero_timer = []" for now by (simp add: due_def zero_timer_def)
  have due: "concat (map (due (noon 0 0)) (iotgo_timer tick_state)) = [''once'', ''on'']"
    "concat (map (due (noon 18 0)) (iotgo_timer tick_state)) = [''off'']"
    using start_2016_noon noon_secs [of 18 0]
    by (simp_all add: tick_state_def tick_table_def zero_timer_def due_def due_periodic_def Let_def noon_def)
  show ?thesis
    using tick_runs_what_is_due [OF noon_date [of 0 0] y pre(1) ok pre(2)]
      tick_runs_what_is_due [OF noon_date [of 18 0] y pre(1) ok pre(2)] due pre(3)
    by simp
qed

end
