(* ===== verification/LocTimerSpec.thy ===== *)
theory LocTimerSpec
  imports LocTimer
begin

text \<open>
  What the local timers promise: the flash copies survive a power failure at any point of a
  save, a refused request changes nothing, every request keeps the table of timers well formed,
  and the tick runs exactly the actions that are due.
\<close>

subsection \<open>The flash\<close>

text \<open>
  The documented behaviour of the flash: an operation on a sector leaves the others alone, an
  erased sector stays erased until it is written, its bytes read as 255, and a write to an erased
  sector reads back.  \<open>er k f\<close> says that sector \<open>k\<close> is erased in \<open>f\<close>.
\<close>

definition flash_ok :: "'f flash_ops \<Rightarrow> (nat \<Rightarrow> 'f \<Rightarrow> bool) \<Rightarrow> bool" where
  "flash_ok fl er \<longleftrightarrow>
     (\<forall>k f. er k (erase_sector fl k f))
     \<and> (\<forall>k f p. er k f \<longrightarrow> rd_param fl (wr_param fl k p f) k = p)
     \<and> (\<forall>k f b. er k f \<longrightarrow> b < 256 \<longrightarrow> rd_flag fl (wr_flag fl k b f) k = b)
     \<and> (\<forall>k f. er k f \<longrightarrow> rd_flag fl f k = 255)
     \<and> (\<forall>j k f. j \<noteq> k \<longrightarrow> er j (erase_sector fl k f) = er j f
          \<and> rd_param fl (erase_sector fl k f) j = rd_param fl f j \<and> rd_flag fl (erase_sector fl k f) j = rd_flag fl f j)
     \<and> (\<forall>j k f p. j \<noteq> k \<longrightarrow> er j (wr_param fl k p f) = er j f
          \<and> rd_param fl (wr_param fl k p f) j = rd_param fl f j \<and> rd_flag fl (wr_param fl k p f) j = rd_flag fl f j)
     \<and> (\<forall>j k f b. j \<noteq> k \<longrightarrow> er j (wr_flag fl k b f) = er j f
          \<and> rd_param fl (wr_flag fl k b f) j = rd_param fl f j \<and> rd_flag fl (wr_flag fl k b f) j = rd_flag fl f j)"

lemma flash_okD:
  assumes "flash_ok fl er"
  shows flash_erased: "er k (erase_sector fl k f)"
    and flash_param_read: "er k f \<Longrightarrow> rd_param fl (wr_param fl k p f) k = p"
    and flash_flag_read: "er k f \<Longrightarrow> b < 256 \<Longrightarrow> rd_flag fl (wr_flag fl k b f) k = b"
    and flash_flag_blank: "er k f \<Longrightarrow> rd_flag fl f k = 255"
    and flash_erase_other: "j \<noteq> k \<Longrightarrow> er j (erase_sector fl k f) = er j f"
      "j \<noteq> k \<Longrightarrow> rd_param fl (erase_sector fl k f) j = rd_param fl f j"
      "j \<noteq> k \<Longrightarrow> rd_flag fl (erase_sector fl k f) j = rd_flag fl f j"
    and flash_param_other: "j \<noteq> k \<Longrightarrow> er j (wr_param fl k p f) = er j f"
      "j \<noteq> k \<Longrightarrow> rd_param fl (wr_param fl k p f) j = rd_param fl f j"
      "j \<noteq> k \<Longrightarrow> rd_flag fl (wr_param fl k p f) j = rd_flag fl f j"
    and flash_flag_other: "j \<noteq> k \<Longrightarrow> er j (wr_flag fl k b f) = er j f"
      "j \<noteq> k \<Longrightarrow> rd_param fl (wr_flag fl k b f) j = rd_param fl f j"
      "j \<noteq> k \<Longrightarrow> rd_flag fl (wr_flag fl k b f) j = rd_flag fl f j"
  using assms by (simp_all add: flash_ok_def)

lemmas flash_rules = flash_erased flash_param_read flash_flag_read flash_flag_blank
  flash_erase_other flash_param_other flash_flag_other

lemmas sectors = SAVE1_def SAVE2_def SAVE3_def SAVE4_def FLAG_def

lemma HALF_eq [simp]: "HALF = 15"
  by (simp add: HALF_def IOTGO_TIMER_MAX_NUM_def)

text \<open>The saved state: the block of the current copy.\<close>

definition current :: "'f flash_ops \<Rightarrow> 'f \<Rightarrow> iotgoTimerFlashParam" where
  "current fl f = rd_param fl f (if rd_flag fl f FLAG = 0 then SAVE2 else SAVE1)"

type_synonym table = "iotgoTimerInfo \<times> nat list \<times> iotgoTimer list"

definition table_of :: "'f loct \<Rightarrow> table" where
  "table_of s = (iotgo_timer_info s, iotgo_timer_id s, iotgo_timer s)"

definition saved_table :: "'f flash_ops \<Rightarrow> 'f \<Rightarrow> table" where
  "saved_table fl f =
     (let b = current fl f in (fp_timer_info b, take 8 (fp_timer_id b), take 8 (fp_timer b)))"

lemma timerLoadFromFlash_eq:
  assumes "malloc_param fl" "fp_timer_num (current fl (flash s)) \<le> 8"
  shows "timerLoadFromFlash fl s =
    (case saved_table fl (flash s) of (i, ids, ts) \<Rightarrow>
       s\<lparr>iotgo_timer_info := i, iotgo_timer_id := ids, iotgo_timer := ts\<rparr>)"
  using assms
  by (simp add: timerLoadFromFlash_def saved_table_def current_def Let_def IOTGO_TIMER_NUM_def)

lemma table_of_load:
  assumes "malloc_param fl" "fp_timer_num (current fl (flash s)) \<le> 8"
  shows "table_of (timerLoadFromFlash fl s) = saved_table fl (flash s)"
  using assms by (simp add: timerLoadFromFlash_eq table_of_def split: prod.split)

definition sized :: "'f loct \<Rightarrow> bool" where
  "sized s \<longleftrightarrow> length (iotgo_timer s) = 8 \<and> length (iotgo_timer_id s) = 8"

lemma flash_block_table:
  assumes "sized s"
  shows "take 8 (fp_timer (flash_block (take 8 (iotgo_timer s)) s)) = iotgo_timer s"
    and "take 8 (fp_timer_id (flash_block ts s)) = iotgo_timer_id s"
    and "fp_timer_info (flash_block ts s) = iotgo_timer_info s"
    and "fp_timer_num (flash_block ts s) = 8"
  using assms by (simp_all add: flash_block_def sized_def IOTGO_TIMER_NUM_def)

lemma save_ops_eq:
  "save_ops flag s =
     (let low = flash_block (take 8 (iotgo_timer s)) s; high = flash_block [] s in
      if flag = 0 then
        [Erase SAVE1, Erase SAVE3, WriteParam SAVE1 low, WriteParam SAVE3 high, Erase FLAG, WriteFlag FLAG 1]
      else [Erase SAVE2, Erase SAVE4, WriteParam SAVE2 low, WriteParam SAVE4 high, Erase FLAG, WriteFlag FLAG 0])"
  by (simp add: save_ops_def Let_def IOTGO_TIMER_NUM_def)

text \<open>After the first \<open>n\<close> operations of a save the flash still has the old block, or it has the new one.\<close>

lemma take_six: "take n [a, b, c, d, e, g] =
  (if n = 0 then [] else if n = 1 then [a] else if n = 2 then [a, b] else if n = 3 then [a, b, c]
   else if n = 4 then [a, b, c, d] else if n = 5 then [a, b, c, d, e] else [a, b, c, d, e, g])"
  by (simp add: take_Cons' eval_nat_numeral)

lemma save_prefix:
  assumes ok: "flash_ok fl er" and flag: "flag = rd_flag fl f FLAG"
    and g_def: "g = fold (run_op fl) (take n (save_ops flag s)) f"
  shows "current fl g = (if n \<le> 4 \<or> n = 5 \<and> flag \<noteq> 0 then current fl f else flash_block (take 8 (iotgo_timer s)) s)"
proof (cases "flag = 0")
  case True
  then show ?thesis
    using flag unfolding g_def current_def save_ops_eq Let_def
    by (auto simp: take_six flash_rules [OF ok] sectors split: if_splits)
next
  case False
  then show ?thesis
    using flag unfolding g_def current_def save_ops_eq Let_def
    by (auto simp: take_six flash_rules [OF ok] sectors split: if_splits)
qed

text \<open>A flash that satisfies the laws, for the witnesses: blocks and first bytes by sector.\<close>

type_synonym demo_flash = "(nat \<Rightarrow> iotgoTimerFlashParam) \<times> (nat \<Rightarrow> nat)"

definition demo_block :: iotgoTimerFlashParam where
  "demo_block = \<lparr>fp_timer_num = 8, fp_timer = replicate 15 zero_timer,
     fp_timer_info = \<lparr>timer_ver = 0, timer_cnt = 0\<rparr>, fp_timer_id = replicate 30 0\<rparr>"

definition demo_ops :: "demo_flash flash_ops" where
  "demo_ops = \<lparr>rd_param = (\<lambda>f k. fst f k), rd_flag = (\<lambda>f k. snd f k),
     erase_sector = (\<lambda>k f. ((fst f)(k := demo_block\<lparr>fp_timer_num := 4294967295\<rparr>), (snd f)(k := 255))),
     wr_param = (\<lambda>k p f. ((fst f)(k := p), (snd f)(k := 8))),
     wr_flag = (\<lambda>k b f. (fst f, (snd f)(k := b))), malloc_param = True\<rparr>"

definition demo_erased :: "nat \<Rightarrow> demo_flash \<Rightarrow> bool" where
  "demo_erased k f = (snd f k = 255)"

definition demo_loct :: "demo_flash loct" where
  "demo_loct = \<lparr>iotgo_timer = replicate 8 zero_timer, iotgo_timer_info = \<lparr>timer_ver = 0, timer_cnt = 0\<rparr>,
     iotgo_timer_id = replicate 8 0, iotgo_timer_action = True, iotgo_timer_couter = Disarmed,
     timer_manager = TIMER_NULL, flash = (\<lambda>_. demo_block, \<lambda>_. 0), effects = [],
     owner_uuid = ''o'', deviceid = ''d'', server_sequence_value = ''1''\<rparr>"

lemma demo_flash_ok: "flash_ok demo_ops demo_erased"
  by (simp add: flash_ok_def demo_ops_def demo_erased_def)

lemma demo_malloc: "malloc_param demo_ops"
  by (simp add: demo_ops_def)

lemma demo_num: "fp_timer_num (current demo_ops (flash demo_loct)) \<le> 8"
  by (simp add: current_def demo_ops_def demo_loct_def demo_block_def)

lemma demo_sized: "sized demo_loct"
  by (simp add: sized_def demo_loct_def)

text \<open>
  C6: a power failure during a save loses nothing: whichever of the six flash operations were
  done, the next start loads either the table saved before or the table being saved, and after
  a completed save it loads the new one.
\<close>

theorem save_survives_power_loss:
  assumes ok: "flash_ok fl er" and mem: "malloc_param fl" and sz: "sized s"
    and num: "fp_timer_num (current fl (flash s)) \<le> 8"
    and f: "f = fold (run_op fl) (take n (save_ops (rd_flag fl (flash s) FLAG) s)) (flash s)"
  shows "table_of (timerLoadFromFlash fl (boot\<lparr>flash := f\<rparr>)) \<in> {saved_table fl (flash s), table_of s}
    \<and> table_of (timerLoadFromFlash fl (boot\<lparr>flash := flash (timerSaveToFlash fl s)\<rparr>)) = table_of s"
proof -
  let ?new = "flash_block (take 8 (iotgo_timer s)) s"
  have new: "fp_timer_num ?new \<le> 8" "current fl g = ?new \<Longrightarrow> saved_table fl g = table_of s" for g
    using flash_block_table [OF sz] by (simp_all add: saved_table_def table_of_def)
  have "current fl f = current fl (flash s) \<or> current fl f = ?new"
    using save_prefix [OF ok refl f] by simp
  then have "fp_timer_num (current fl f) \<le> 8 \<and> saved_table fl f \<in> {saved_table fl (flash s), table_of s}"
    using new num by (auto simp: saved_table_def)
  then have one: "table_of (timerLoadFromFlash fl (boot\<lparr>flash := f\<rparr>)) \<in> {saved_table fl (flash s), table_of s}"
    using table_of_load [OF mem, of "boot\<lparr>flash := f\<rparr>"] by simp
  let ?g = "flash (timerSaveToFlash fl s)"
  have g: "?g = fold (run_op fl) (take 6 (save_ops (rd_flag fl (flash s) FLAG) s)) (flash s)"
    using mem by (simp add: timerSaveToFlash_def save_ops_eq Let_def)
  have "current fl ?g = ?new"
    using save_prefix [OF ok refl g] by simp
  then have "table_of (timerLoadFromFlash fl (boot\<lparr>flash := ?g\<rparr>)) = table_of s"
    using table_of_load [OF mem, of "boot\<lparr>flash := ?g\<rparr>"] new by simp
  with one show ?thesis by simp
qed

theorem save_survives_power_loss_witness:
  "\<exists>f. f = fold (run_op demo_ops) (take 3 (save_ops 0 demo_loct)) (flash demo_loct)
     \<and> table_of (timerLoadFromFlash demo_ops (demo_loct\<lparr>flash := f\<rparr>)) = table_of demo_loct"
proof -
  let ?f = "fold (run_op demo_ops) (take 3 (save_ops 0 demo_loct)) (flash demo_loct)"
  have flag: "rd_flag demo_ops (flash demo_loct) FLAG = 0"
    by (simp add: demo_ops_def demo_loct_def)
  have same: "saved_table demo_ops (flash demo_loct) = table_of demo_loct"
    by (simp add: saved_table_def current_def table_of_def demo_ops_def demo_loct_def demo_block_def)
  have "table_of (timerLoadFromFlash demo_ops (demo_loct\<lparr>flash := ?f\<rparr>)) \<in> {saved_table demo_ops (flash demo_loct), table_of demo_loct}"
    using save_survives_power_loss [OF demo_flash_ok demo_malloc demo_sized demo_num, where n = 3 and f = ?f and boot = demo_loct]
    unfolding flag by simp
  with same show ?thesis by auto
qed

subsection \<open>Well-formed tables\<close>

text \<open>
  Identifier \<open>i + 1\<close> is used exactly for slot \<open>i\<close>, a timer carries the identifier of its slot,
  the counter counts the used slots.
\<close>

definition used_ids :: "nat list \<Rightarrow> nat" where
  "used_ids ids = length (filter (\<lambda>k. k \<noteq> 0) ids)"

definition loct_wf :: "'f loct \<Rightarrow> bool" where
  "loct_wf s \<longleftrightarrow> sized s
     \<and> (\<forall>i < 8. (iotgo_timer_id s ! i = 0 \<or> iotgo_timer_id s ! i = i + 1) \<and> t_id (iotgo_timer s ! i) = iotgo_timer_id s ! i)
     \<and> timer_cnt (iotgo_timer_info s) = used_ids (iotgo_timer_id s)"

definition synced :: "'f flash_ops \<Rightarrow> 'f loct \<Rightarrow> bool" where
  "synced fl s \<longleftrightarrow> fp_timer_num (current fl (flash s)) \<le> 8 \<and> saved_table fl (flash s) = table_of s"

text \<open>
  What a request from state \<open>s\<close> may leave behind: a well-formed, saved table, unchanged if the
  request was refused and with the next version number otherwise.
\<close>

definition outcome :: "'f flash_ops \<Rightarrow> 'f loct \<Rightarrow> bool \<Rightarrow> 'f loct \<Rightarrow> bool" where
  "outcome fl s ok s' \<longleftrightarrow> loct_wf s' \<and> synced fl s' \<and> (\<not> ok \<longrightarrow> table_of s' = table_of s)
     \<and> (ok \<longrightarrow> timer_ver (iotgo_timer_info s') = (timer_ver (iotgo_timer_info s) + 1) mod 2 ^ 32)"

lemma used_ids_update:
  assumes "i < length ids"
  shows "used_ids (ids[i := k]) + (if ids ! i \<noteq> 0 then 1 else 0) = used_ids ids + (if k \<noteq> 0 then 1 else 0)"
  using assms unfolding used_ids_def
proof (induction ids arbitrary: i)
  case Nil
  then show ?case by simp
next
  case (Cons a ids)
  show ?case
  proof (cases i)
    case 0
    then show ?thesis by simp
  next
    case (Suc j)
    then show ?thesis using Cons.IH [of j] Cons.prems by (cases "k = 0") auto
  qed
qed

lemma used_ids_le: "used_ids ids \<le> length ids"
  by (simp add: used_ids_def)

lemma used_ids_pos: "i < length ids \<Longrightarrow> ids ! i \<noteq> 0 \<Longrightarrow> 0 < used_ids ids"
  unfolding used_ids_def by (metis (mono_tags, lifting) filter_empty_conv length_greater_0_conv nth_mem)

lemma wf_cong:
  assumes "table_of s' = table_of s"
  shows "loct_wf s' = loct_wf s"
  using assms by (simp add: loct_wf_def sized_def table_of_def)

lemma synced_cong:
  assumes "table_of s' = table_of s" "flash s' = flash s"
  shows "synced fl s' = synced fl s"
  using assms by (simp add: synced_def)

subsection \<open>Answers leave the table alone\<close>

definition answered :: "'f loct \<Rightarrow> 'f loct \<Rightarrow> bool" where
  "answered s s' \<longleftrightarrow> (\<exists>e. s' = s\<lparr>effects := effects s @ e\<rparr> \<and> length e \<le> 1)"

lemma answered_table: "answered s s' \<Longrightarrow> table_of s' = table_of s \<and> flash s' = flash s"
  by (auto simp: answered_def table_of_def)

lemma answered_refl: "answered s s"
  unfolding answered_def by (rule exI [of _ "[]"]) simp

lemma answered_one: "answered s (s\<lparr>effects := effects s @ [x]\<rparr>)"
  unfolding answered_def by (rule exI [of _ "[x]"]) simp

lemma send_answer_answered: "send_answer k ob s = Some s' \<Longrightarrow> answered s s'"
  unfolding send_answer_def
  by (cases "timer_manager s") (auto simp: bind_eq_Some_conv answered_one answered_refl split: option.splits)

lemma replyUpdate_answered: "replyUpdate k s = Some (b, s') \<Longrightarrow> b \<and> answered s s'"
  unfolding replyUpdate_def by (auto dest: send_answer_answered)

lemma refuse_answered: "refuse k s = Some (b, s') \<Longrightarrow> \<not> b \<and> answered s s'"
  unfolding refuse_def by (auto dest: replyUpdate_answered)

lemma replyUpdateWithId_answered: "replyUpdateWithId k ids n s = Some (b, s') \<Longrightarrow> b \<and> answered s s'"
  unfolding replyUpdateWithId_def by (auto simp: bind_eq_Some_conv dest: send_answer_answered)

lemma replyQueryTimerInfo_answered: "replyQueryTimerInfo k i s = Some (b, s') \<Longrightarrow> b \<and> answered s s'"
  unfolding replyQueryTimerInfo_def Let_def
  by (auto split: if_splits dest: send_answer_answered replyUpdate_answered)

lemma replyQueryTimer_answered: "replyQueryTimer k i ts n s = Some (b, s') \<Longrightarrow> answered s s'"
  unfolding replyQueryTimer_def Let_def
  by (auto simp: bind_eq_Some_conv split: if_splits option.splits
      dest: send_answer_answered replyUpdate_answered refuse_answered)

subsection \<open>Requests are transactions\<close>

text \<open>The state inside of a request: well formed, the flash and the version of the start.\<close>

definition inside :: "'f loct \<Rightarrow> 'f loct \<Rightarrow> bool" where
  "inside s0 s \<longleftrightarrow> loct_wf s \<and> flash s = flash s0 \<and> timer_ver (iotgo_timer_info s) = timer_ver (iotgo_timer_info s0)"

lemma inside_refl: "loct_wf s \<Longrightarrow> inside s s"
  by (simp add: inside_def)

lemma rollback_outcome:
  assumes "malloc_param fl" "loct_wf s0" "synced fl s0" "flash s = flash s0" "rollback fl c s = Some (b, s')"
  shows "\<not> b \<and> outcome fl s0 b s'"
proof -
  have ans: "\<not> b" "answered (timerLoadFromFlash fl s) s'"
    using assms(5) refuse_answered unfolding rollback_def by blast+
  have load: "table_of (timerLoadFromFlash fl s) = table_of s0" "flash (timerLoadFromFlash fl s) = flash s0"
    using assms table_of_load [of fl s] timerLoadFromFlash_eq [of fl s]
    by (simp_all add: synced_def split: prod.splits)
  have "table_of s' = table_of s0" "flash s' = flash s0"
    using answered_table [OF ans(2)] load by simp_all
  then show ?thesis
    using ans(1) assms(2,3) wf_cong [of s' s0] synced_cong [of s' s0 fl] by (simp add: outcome_def)
qed

lemma refuse_outcome:
  assumes "loct_wf s" "synced fl s" "refuse c s = Some (b, s')"
  shows "\<not> b \<and> outcome fl s b s'"
  using refuse_answered [OF assms(3)] answered_table [of s s'] assms(1,2) wf_cong [of s' s] synced_cong [of s' s fl]
  by (simp add: outcome_def)

lemma sized_bump [simp]: "sized (bump_ver s) = sized s"
  by (simp add: sized_def bump_ver_def)

lemma save_synced:
  assumes "flash_ok fl er" "malloc_param fl" "sized s"
  shows "synced fl (timerSaveToFlash fl s)" "table_of (timerSaveToFlash fl s) = table_of s"
proof -
  let ?g = "flash (timerSaveToFlash fl s)"
  have g: "?g = fold (run_op fl) (take 6 (save_ops (rd_flag fl (flash s) FLAG) s)) (flash s)"
    using assms(2) by (simp add: timerSaveToFlash_def save_ops_eq Let_def)
  have c: "current fl ?g = flash_block (take 8 (iotgo_timer s)) s"
    using save_prefix [OF assms(1) refl g] by simp
  show tab: "table_of (timerSaveToFlash fl s) = table_of s"
    by (simp add: table_of_def timerSaveToFlash_def)
  show "synced fl (timerSaveToFlash fl s)"
    using c flash_block_table [OF assms(3)] unfolding synced_def tab saved_table_def Let_def
    by (simp add: table_of_def)
qed

lemma bump_ver_inside:
  assumes "inside s0 s"
  shows "loct_wf (bump_ver s)"
    "timer_ver (iotgo_timer_info (bump_ver s)) = (timer_ver (iotgo_timer_info s0) + 1) mod 2 ^ 32"
proof -
  show "loct_wf (bump_ver s)"
    using assms by (simp add: inside_def loct_wf_def sized_def bump_ver_def)
  have "to_u32 (int n + 1) = (n + 1) mod 2 ^ 32" for n
    unfolding to_u32_def by (simp flip: of_nat_Suc add: nat_mod_distrib add.commute)
  then show "timer_ver (iotgo_timer_info (bump_ver s)) = (timer_ver (iotgo_timer_info s0) + 1) mod 2 ^ 32"
    using assms by (simp add: inside_def bump_ver_def)
qed

lemma saved_outcome:
  assumes "flash_ok fl er" "malloc_param fl" "inside s0 s" "answered (timerSaveToFlash fl (bump_ver s)) s'" "b"
  shows "outcome fl s0 b s'"
proof -
  let ?t = "timerSaveToFlash fl (bump_ver s)"
  have sz: "sized (bump_ver s)"
    using bump_ver_inside(1) [OF assms(3)] by (simp add: loct_wf_def)
  note sv = save_synced [OF assms(1,2) sz]
  have t: "table_of s' = table_of (bump_ver s)" "flash s' = flash ?t"
    using answered_table [OF assms(4)] sv(2) by simp_all
  then have "loct_wf s'" "synced fl s'" "iotgo_timer_info s' = iotgo_timer_info (bump_ver s)"
    using bump_ver_inside(1) [OF assms(3)] wf_cong [of s' "bump_ver s"] sv synced_cong [of s' ?t fl]
    by (simp_all add: table_of_def)
  then show ?thesis
    using bump_ver_inside(2) [OF assms(3)] assms(5) by (simp add: outcome_def)
qed

lemma commit_outcome:
  assumes "flash_ok fl er" "malloc_param fl" "inside s0 s" "commit fl s = Some (b, s')"
  shows "b \<and> outcome fl s0 b s'"
  using replyUpdate_answered [of 0 "timerSaveToFlash fl (bump_ver s)" b s'] assms(4)
    saved_outcome [OF assms(1-3), of s' b]
  by (simp add: commit_def)

text \<open>The result of a loop: a state inside of the request, or a refused request.\<close>

definition loop_ok :: "'f flash_ops \<Rightarrow> 'f loct \<Rightarrow> ('f loct + (bool \<times> 'f loct) option) option \<Rightarrow> bool" where
  "loop_ok fl s0 r \<longleftrightarrow>
     (case r of None \<Rightarrow> True | Some (Inl s) \<Rightarrow> inside s0 s
      | Some (Inr a) \<Rightarrow> (\<exists>c s. a = rollback fl c s \<and> flash s = flash s0))"

lemma finish_loop_outcome:
  assumes "flash_ok fl er" "malloc_param fl" "loct_wf s0" "synced fl s0" "loop_ok fl s0 r"
    "finish_loop fl r = Some (b, s')"
  shows "outcome fl s0 b s'"
proof (cases r)
  case None
  then show ?thesis using assms(6) by (simp add: finish_loop_def)
next
  case (Some q)
  show ?thesis
  proof (cases q)
    case (Inl s)
    then show ?thesis
      using assms(5,6) Some commit_outcome [OF assms(1,2), of s0 s b s'] by (auto simp: finish_loop_def loop_ok_def)
  next
    case (Inr a)
    then obtain c s where a: "a = rollback fl c s" "flash s = flash s0"
      using assms(5) Some by (auto simp: loop_ok_def)
    have "rollback fl c s = Some (b, s')"
      using assms(6) Some Inr a by (simp add: finish_loop_def)
    from rollback_outcome [OF assms(2-4) a(2) this] show ?thesis by blast
  qed
qed

lemma id_at_eq:
  assumes "loct_wf s"
  shows "id_at i s = Some k \<longleftrightarrow> 0 < i \<and> i \<le> 8 \<and> k = iotgo_timer_id s ! (i - 1)"
  using assms by (auto simp: id_at_def loct_wf_def sized_def)

lemma set_timer_inside:
  assumes "inside s0 s" "i < 8" "t_id t = iotgo_timer_id s ! i"
  shows "inside s0 (set_timer i t s)"
  using assms by (auto simp: inside_def loct_wf_def sized_def set_timer_def nth_list_update)

lemma edit_loop_ok: "inside s0 s \<Longrightarrow> loop_ok fl s0 (edit_loop fl ts s)"
proof (induction ts arbitrary: s)
  case Nil
  then show ?case by (simp add: loop_ok_def)
next
  case (Cons t ts)
  have wf: "loct_wf s" and fs: "flash s = flash s0"
    using Cons.prems by (simp_all add: inside_def)
  show ?case
  proof (cases "id_at (t_id t) s")
    case None
    then show ?thesis by (simp add: loop_ok_def)
  next
    case (Some k)
    note at = Some
    show ?thesis
    proof (cases "t_id t \<noteq> k \<or> t_id t = 0")
      case True
      have "edit_loop fl (t # ts) s = Some (Inr (rollback fl 500 s))"
        using at True by simp
      then show ?thesis using fs by (auto simp: loop_ok_def)
    next
      case False
      then have "inside s0 (set_timer (t_id t - 1) t s)"
        using at Cons.prems id_at_eq [OF wf] by (intro set_timer_inside) auto
      then show ?thesis using at False Cons.IH by simp
    qed
  qed
qed

lemma enable_loop_ok: "inside s0 s \<Longrightarrow> loop_ok fl s0 (enable_loop fl b is s)"
proof (induction "is" arbitrary: s)
  case Nil
  then show ?case by (simp add: loop_ok_def)
next
  case (Cons i "is")
  have wf: "loct_wf s" and fs: "flash s = flash s0"
    using Cons.prems by (simp_all add: inside_def)
  show ?case
  proof (cases "id_at i s")
    case None
    then show ?thesis by (simp add: loop_ok_def)
  next
    case (Some k)
    note at = Some
    show ?thesis
    proof (cases "i \<noteq> k \<or> i = 0")
      case True
      have "enable_loop fl b (i # is) s = Some (Inr (rollback fl 500 s))"
        using at True by simp
      then show ?thesis using fs by (auto simp: loop_ok_def)
    next
      case False
      then have "i - 1 < 8" "i = iotgo_timer_id s ! (i - 1)"
        using at id_at_eq [OF wf] by auto
      then have "inside s0 (set_timer (i - 1) ((iotgo_timer s ! (i - 1))\<lparr>t_enabled := b\<rparr>) s)"
        using Cons.prems wf by (intro set_timer_inside) (auto simp: loct_wf_def)
      then show ?thesis using at False Cons.IH by simp
    qed
  qed
qed

text \<open>Freeing slot \<open>i\<close>, and filling a free one: the identifier, the timer and the counter change together.\<close>

lemma slot_inside:
  assumes "inside s0 s" "i < 8" "k = 0 \<or> k = i + 1" "t_id t = k"
    and "int (timer_cnt (iotgo_timer_info s)) + d + (if iotgo_timer_id s ! i \<noteq> 0 then 1 else 0)
           = int (timer_cnt (iotgo_timer_info s)) + (if k \<noteq> 0 then 1 else 0)"
  shows "inside s0 (bump_cnt d (set_timer i t (s\<lparr>iotgo_timer_id := (iotgo_timer_id s)[i := k]\<rparr>)))"
proof -
  let ?ids = "(iotgo_timer_id s)[i := k]"
  have len: "length (iotgo_timer_id s) = 8" "i < length (iotgo_timer_id s)"
    and cnt: "timer_cnt (iotgo_timer_info s) = used_ids (iotgo_timer_id s)"
    using assms(1,2) by (simp_all add: inside_def loct_wf_def sized_def)
  have "int (timer_cnt (iotgo_timer_info s)) + d = int (used_ids ?ids)"
    using used_ids_update [OF len(2), of k] assms(5) unfolding cnt by (auto split: if_splits)
  moreover have "used_ids ?ids < 256"
    using used_ids_le [of ?ids] len by simp
  ultimately have "to_u8 (int (timer_cnt (iotgo_timer_info s)) + d) = used_ids ?ids"
    by (simp add: to_u8_int)
  then show ?thesis
    using assms(1-4) by (auto simp: inside_def loct_wf_def sized_def bump_cnt_def set_timer_def nth_list_update)
qed

lemma timerDeleteId_cases:
  assumes "loct_wf s" "timerDeleteId i s = Some (ok, s')"
  obtains "\<not> ok" "s' = s" | "ok" "0 < i" "i \<le> 8" "iotgo_timer_id s ! (i - 1) = i"
    "s' = s\<lparr>iotgo_timer_id := (iotgo_timer_id s)[i - 1 := 0]\<rparr>"
  using assms(2) id_at_eq [OF assms(1), of i]
  by (auto simp: timerDeleteId_def bind_eq_Some_conv split: if_splits)

lemma del_loop_ok: "inside s0 s \<Longrightarrow> loop_ok fl s0 (del_loop fl is s)"
proof (induction "is" arbitrary: s)
  case Nil
  then show ?case by (simp add: loop_ok_def)
next
  case (Cons i "is")
  have wf: "loct_wf s" and fs: "flash s = flash s0"
    using Cons.prems by (simp_all add: inside_def)
  show ?case
  proof (cases "timerDeleteId i s")
    case None
    then show ?thesis by (simp add: loop_ok_def)
  next
    case (Some q)
    obtain ok s1 where q: "q = (ok, s1)" by (cases q)
    from timerDeleteId_cases [OF wf, of i ok s1] Some q
    consider (no) "\<not> ok" "s1 = s"
      | (yes) "ok" "0 < i" "i \<le> 8" "iotgo_timer_id s ! (i - 1) = i"
          "s1 = s\<lparr>iotgo_timer_id := (iotgo_timer_id s)[i - 1 := 0]\<rparr>"
      by blast
    then show ?thesis
    proof cases
      case no
      have "del_loop fl (i # is) s = Some (Inr (rollback fl 500 s))"
        using Some q no by simp
      then show ?thesis using fs by (auto simp: loop_ok_def)
    next
      case yes
      have pos: "0 < timer_cnt (iotgo_timer_info s)"
        using used_ids_pos [of "i - 1" "iotgo_timer_id s"] wf yes by (simp add: loct_wf_def sized_def)
      have "inside s0 (bump_cnt (- 1) (set_timer (i - 1) zero_timer s1))"
        unfolding yes(5) using yes Cons.prems by (intro slot_inside) (simp_all add: zero_timer_def)
      then show ?thesis
        using Some q yes(1) pos Cons.IH by (simp add: yes(5))
    qed
  qed
qed

lemma find_free_cases:
  "find_free is s = (k, s') \<Longrightarrow> (k = 0 \<and> s' = s) \<or>
     (\<exists>i \<in> set is. k = i + 1 \<and> iotgo_timer_id s ! i = 0 \<and> s' = s\<lparr>iotgo_timer_id := (iotgo_timer_id s)[i := i + 1]\<rparr>)"
  by (induction "is") (auto split: if_splits)

lemma timerProductId_cases:
  assumes "timerProductId s = (k, s')"
  obtains "k = 0" "s' = s" | i where "i < 8" "k = i + 1" "iotgo_timer_id s ! i = 0"
    "s' = s\<lparr>iotgo_timer_id := (iotgo_timer_id s)[i := i + 1]\<rparr>"
proof -
  have "(k = 0 \<and> s' = s) \<or> (\<exists>i \<in> set [0..<8]. k = i + 1 \<and> iotgo_timer_id s ! i = 0
      \<and> s' = s\<lparr>iotgo_timer_id := (iotgo_timer_id s)[i := i + 1]\<rparr>)"
    using assms find_free_cases [of "[0..<8]" s k s']
    by (auto simp only: timerProductId_def IOTGO_TIMER_NUM_def split: if_splits)
  then show thesis
    using that by (metis atLeastLessThan_iff set_upt)
qed

lemma new_loop_ok:
  assumes "inside s0 s"
  shows "case new_loop fl ts ids s of Inl (ids', s') \<Rightarrow> inside s0 s' \<and> length ids' = length ids + length ts
    | Inr a \<Rightarrow> (\<exists>c s. a = rollback fl c s \<and> flash s = flash s0)"
  using assms
proof (induction ts arbitrary: ids s)
  case Nil
  then show ?case by simp
next
  case (Cons t ts)
  have wf: "loct_wf s" and fs: "flash s = flash s0"
    using Cons.prems by (simp_all add: inside_def)
  obtain k s1 where k: "timerProductId s = (k, s1)" by (cases "timerProductId s")
  from timerProductId_cases [OF k]
  consider (no) "k = 0" "s1 = s" | (yes) i where "i < 8" "k = i + 1" "iotgo_timer_id s ! i = 0"
    "s1 = s\<lparr>iotgo_timer_id := (iotgo_timer_id s)[i := i + 1]\<rparr>"
    by blast
  then show ?case
  proof cases
    case no
    then show ?thesis using k fs by auto
  next
    case yes
    show ?thesis
    proof (cases "t_id t = 0")
      case False
      have "new_loop fl (t # ts) ids s = Inr (rollback fl 400 (set_timer i t s1))"
        using k yes(2) False by (simp add: Let_def)
      moreover have "flash (set_timer i t s1) = flash s0"
        using fs by (simp add: yes(4) set_timer_def)
      ultimately show ?thesis by auto
    next
      case True
      let ?s2 = "bump_cnt 1 (set_timer i (t\<lparr>t_id := k\<rparr>) s1)"
      have same: "set_timer i (t\<lparr>t_id := k\<rparr>) (set_timer i t s1) = set_timer i (t\<lparr>t_id := k\<rparr>) s1"
        by (simp add: set_timer_def)
      have "inside s0 ?s2"
        unfolding yes(4) using yes Cons.prems by (intro slot_inside) simp_all
      from Cons.IH [OF this, of "ids @ [k]"] show ?thesis
        using k yes(2) True same by (auto simp: Let_def split: sum.splits)
    qed
  qed
qed

text \<open>The operations of the executor and the requests that call them.\<close>

definition op_ok :: "'f flash_ops \<Rightarrow> 'f loct \<Rightarrow> (bool \<times> 'f loct) option \<Rightarrow> bool" where
  "op_ok fl s r \<longleftrightarrow> (\<forall>b s'. r = Some (b, s') \<longrightarrow> outcome fl s b s')"

lemma op_ok_refuse: "loct_wf s \<Longrightarrow> synced fl s \<Longrightarrow> op_ok fl s (refuse c s)"
  unfolding op_ok_def using refuse_outcome by blast

lemma op_ok_bind: "(\<And>x. op_ok fl s (f x)) \<Longrightarrow> op_ok fl s (Option.bind r f)"
  by (cases r) (simp_all add: op_ok_def)

lemma op_ok_None [simp]: "op_ok fl s None"
  by (simp add: op_ok_def)

lemma op_ok_finish:
  assumes "flash_ok fl er" "malloc_param fl" "loct_wf s" "synced fl s" "loop_ok fl s r"
  shows "op_ok fl s (finish_loop fl r)"
  using finish_loop_outcome [OF assms] by (auto simp: op_ok_def)

lemma op_ok_commit:
  assumes "flash_ok fl er" "malloc_param fl" "inside s0 s"
  shows "op_ok fl s0 (commit fl s)"
  using commit_outcome [OF assms] by (auto simp: op_ok_def)

lemma timerNew_ok:
  assumes "flash_ok fl er" "malloc_param fl" "loct_wf s" "synced fl s"
  shows "op_ok fl s (timerNew fl ts num s)"
proof (cases "ts = None \<or> IOTGO_TIMER_NUM < num + timer_cnt (iotgo_timer_info s) \<or> num = 0")
  case True
  then show ?thesis
    using op_ok_refuse [OF assms(3,4)] by (auto simp: timerNew_def split: option.splits)
next
  case False
  then obtain l where l: "ts = Some l" by auto
  note new = new_loop_ok [OF inside_refl [OF assms(3)], where fl = fl and ts = "take num l" and ids = "[]"]
  show ?thesis
  proof (cases "new_loop fl (take num l) [] s")
    case (Inr a)
    then obtain c s1 where a: "a = rollback fl c s1" "flash s1 = flash s" using new by auto
    have "op_ok fl s a"
      using rollback_outcome [OF assms(2-4) a(2)] a(1) by (auto simp: op_ok_def)
    then show ?thesis using False l Inr by (simp add: timerNew_def)
  next
    case (Inl q)
    then obtain ids s1 where q: "q = (ids, s1)" "inside s s1" using new by (cases q) auto
    let ?r = "replyUpdateWithId 0 (ids @ replicate (IOTGO_TIMER_NUM - length ids) 0) num (timerSaveToFlash fl (bump_ver s1))"
    have "op_ok fl s ?r"
      using replyUpdateWithId_answered saved_outcome [OF assms(1,2) q(2)] unfolding op_ok_def by blast
    then show ?thesis using False l Inl q(1) by (simp add: timerNew_def)
  qed
qed

lemma timerEdit_ok:
  assumes "flash_ok fl er" "malloc_param fl" "loct_wf s" "synced fl s"
  shows "op_ok fl s (timerEdit fl ts num s)"
  using op_ok_refuse [OF assms(3,4)] op_ok_finish [OF assms edit_loop_ok [OF inside_refl [OF assms(3)]]]
  by (simp add: timerEdit_def split: option.splits)

lemma id_ops_ok:
  assumes "flash_ok fl er" "malloc_param fl" "loct_wf s" "synced fl s"
  shows "op_ok fl s (timerDel fl ids num s)" "op_ok fl s (timerEnable fl ids num s)"
    "op_ok fl s (timerDisable fl ids num s)"
  using op_ok_refuse [OF assms(3,4)] op_ok_finish [OF assms del_loop_ok [OF inside_refl [OF assms(3)]]]
    op_ok_finish [OF assms enable_loop_ok [OF inside_refl [OF assms(3)]]]
  by (simp_all add: timerDel_def timerEnable_def timerDisable_def)

lemma all_ops_ok:
  assumes "flash_ok fl er" "malloc_param fl" "loct_wf s" "synced fl s"
  shows "op_ok fl s (timerDelAll fl s)" "op_ok fl s (timerEnableAll fl s)" "op_ok fl s (timerDisableAll fl s)"
proof -
  have "inside s (s\<lparr>iotgo_timer := replicate 8 zero_timer, iotgo_timer_id := replicate 8 0,
      iotgo_timer_info := (iotgo_timer_info s)\<lparr>timer_cnt := 0\<rparr>\<rparr>)"
    by (simp add: inside_def loct_wf_def sized_def zero_timer_def used_ids_def)
  then show "op_ok fl s (timerDelAll fl s)"
    using op_ok_commit [OF assms(1,2)] by (simp add: timerDelAll_def IOTGO_TIMER_NUM_def)
  have "inside s (enable_all b s)" for b
    using assms(3) by (simp add: inside_def enable_all_def loct_wf_def sized_def)
  then show "op_ok fl s (timerEnableAll fl s)" "op_ok fl s (timerDisableAll fl s)"
    using op_ok_commit [OF assms(1,2)] by (simp_all add: timerEnableAll_def timerDisableAll_def)
qed

lemma with_timers_ok:
  assumes "loct_wf s" "synced fl s" "\<And>ts n. op_ok fl s (f ts n s)"
  shows "op_ok fl s (with_timers arr f s)"
  using assms(3) op_ok_refuse [OF assms(1,2)]
  by (auto simp: with_timers_def procError_def Let_def split: option.split intro!: op_ok_bind)

lemma with_ids_ok:
  assumes "loct_wf s" "synced fl s" "\<And>ids n. op_ok fl s (f ids n s)"
  shows "op_ok fl s (with_ids arr f s)"
  using assms(3) op_ok_refuse [OF assms(1,2)]
  by (auto simp: with_ids_def procError_def Let_def split: option.split intro!: op_ok_bind)

lemma outcome_manager: "outcome fl (s\<lparr>timer_manager := m\<rparr>) b s' = outcome fl s b s'"
  by (simp add: outcome_def table_of_def)

text \<open>
  C5: every update request is a transaction.  If the table of timers is well formed and saved,
  then after any request, whatever its JSON says and whether it comes from the phone app or
  from the MCU, it is again well formed and saved; a refused request (result false) leaves the
  table as it was, an accepted one raises the version by one.
\<close>

theorem update_all_or_nothing:
  assumes "flash_ok fl er" "malloc_param fl" "loct_wf s" "synced fl s"
    and "timerProcUpdate fl params manager s = Some (ok, s')"
  shows "loct_wf s' \<and> synced fl s'
    \<and> (\<not> ok \<longrightarrow> iotgo_timer s' = iotgo_timer s \<and> iotgo_timer_id s' = iotgo_timer_id s
         \<and> iotgo_timer_info s' = iotgo_timer_info s)
    \<and> (ok \<longrightarrow> timer_ver (iotgo_timer_info s') = (timer_ver (iotgo_timer_info s) + 1) mod 2 ^ 32)"
proof -
  let ?s = "s\<lparr>timer_manager := manager\<rparr>"
  have wf: "loct_wf ?s" and sy: "synced fl ?s"
    using assms(3,4) wf_cong [of ?s s] synced_cong [of ?s s fl] by (simp_all add: table_of_def)
  note ops = timerNew_ok [OF assms(1,2) wf sy] timerEdit_ok [OF assms(1,2) wf sy]
    id_ops_ok [OF assms(1,2) wf sy]
  have procs: "op_ok fl ?s (procNew fl j ?s)" "op_ok fl ?s (procEdit fl j ?s)" "op_ok fl ?s (procDel fl j ?s)"
    "op_ok fl ?s (procEnable fl j ?s)" "op_ok fl ?s (procDisable fl j ?s)" "op_ok fl ?s (procError ?s)" for j
    unfolding procNew_def procEdit_def procDel_def procEnable_def procDisable_def procError_def
    by (rule with_timers_ok with_ids_ok op_ok_refuse wf sy ops)+
  have "op_ok fl ?s (timerProcUpdate fl params manager s)"
    using procs all_ops_ok [OF assms(1,2) wf sy]
    by (auto simp: timerProcUpdate_def procDelAll_def procEnableAll_def procDisableAll_def Let_def
        split: option.split intro!: op_ok_bind)
  then show ?thesis
    using assms(5) unfolding op_ok_def outcome_manager by (simp add: outcome_def table_of_def)
qed

end
