(* ===== verification/LocTimerReq.thy ===== *)
theory LocTimerReq
  imports LocTimerSpec ClockSpec
begin

text \<open>
  Requests to the local timers: creating timers, the answers with their identifiers, queries, and
  the limits of the text of a request.
\<close>

subsection \<open>Witness of the transaction property\<close>

definition del_all :: cJSON where
  "del_all = cJSON_AddItemToObject cJSON_CreateObject ''timerAct'' (cJSON_CreateString ''delAll'')"

definition full_table :: "demo_flash loct" where
  "full_table = demo_loct\<lparr>iotgo_timer := [zero_timer\<lparr>t_id := 1\<rparr>] @ replicate 7 zero_timer,
     iotgo_timer_id := 1 # replicate 7 0, iotgo_timer_info := \<lparr>timer_ver = 4, timer_cnt = 1\<rparr>,
     flash := (\<lambda>_. demo_block\<lparr>fp_timer := [zero_timer\<lparr>t_id := 1\<rparr>] @ replicate 14 zero_timer,
       fp_timer_id := 1 # replicate 29 0, fp_timer_info := \<lparr>timer_ver = 4, timer_cnt = 1\<rparr>\<rparr>, \<lambda>_. 0)\<rparr>"

lemma less_8: "i < (8::nat) \<Longrightarrow> i \<in> {0, 1, 2, 3, 4, 5, 6, 7}"
  by auto

lemma full_table_wf: "loct_wf full_table" "synced demo_ops full_table"
proof -
  show "loct_wf full_table"
    by (auto simp: loct_wf_def sized_def full_table_def demo_loct_def used_ids_def zero_timer_def nth_Cons' eval_nat_numeral)
  show "synced demo_ops full_table"
    by (simp add: synced_def saved_table_def current_def table_of_def full_table_def demo_loct_def demo_ops_def demo_block_def)
qed

lemma print_small_number: "print_number (int n) (of_int (int n)) \<noteq> None" if "n < 65536"
  using that by (simp add: print_number_def)

text \<open>The answers can always be printed, so a request that is not damaged always gets one.\<close>

lemma base_prints: "k < 65536 \<Longrightarrow> \<exists>txt. cJSON_PrintUnformatted (createBaseObject k s) = Some (Some txt)"
  using print_small_number [of k]
  by (auto simp: cJSON_PrintUnformatted_def createBaseObject_def add_number_def add_string_def Let_def
      cJSON_AddItemToObject_def cJSON_AddItemToArray_def cJSON_CreateObject_def cJSON_CreateNumber_def cJSON_CreateString_def)

lemma replyUpdate_total:
  assumes "k < 65536"
  shows "\<exists>s'. replyUpdate k s = Some (True, s')"
  using base_prints [OF assms, of s] unfolding replyUpdate_def send_answer_def
  by (cases "timer_manager s") auto

lemma commit_total: "\<exists>s'. commit fl s = Some (True, s')"
  using replyUpdate_total [of 0] by (simp add: commit_def)

theorem update_all_or_nothing_witness:
  "\<exists>s'. timerProcUpdate demo_ops (Some del_all) TIMER_APP full_table = Some (True, s')
     \<and> loct_wf s' \<and> synced demo_ops s' \<and> timer_ver (iotgo_timer_info s') = 5"
proof -
  have "timerProcUpdate demo_ops (Some del_all) TIMER_APP full_table
      = timerDelAll demo_ops (full_table\<lparr>timer_manager := TIMER_APP\<rparr>)"
    by (simp add: timerProcUpdate_def del_all_def cJSON_AddItemToObject_def cJSON_AddItemToArray_def
        cJSON_CreateObject_def cJSON_CreateString_def cJSON_GetObjectItem_def Let_def procDelAll_def)
  then obtain s' where run: "timerProcUpdate demo_ops (Some del_all) TIMER_APP full_table = Some (True, s')"
    using commit_total by (auto simp: timerDelAll_def)
  have "timer_ver (iotgo_timer_info full_table) = 4" by (simp add: full_table_def)
  with run update_all_or_nothing [OF demo_flash_ok demo_malloc full_table_wf run] show ?thesis by auto
qed

subsection \<open>Creating timers\<close>

text \<open>The timers \<open>ts\<close> are stored under the identifiers \<open>ids\<close>, which were free; the rest of the table is kept.\<close>

definition stores :: "iotgoTimer list \<Rightarrow> nat list \<Rightarrow> 'f loct \<Rightarrow> 'f loct \<Rightarrow> bool" where
  "stores ts ids s s' \<longleftrightarrow>
     length ids = length ts \<and> distinct ids
     \<and> (\<forall>k < length ts. 1 \<le> ids ! k \<and> ids ! k \<le> 8 \<and> iotgo_timer_id s ! (ids ! k - 1) = 0
          \<and> iotgo_timer_id s' ! (ids ! k - 1) = ids ! k \<and> iotgo_timer s' ! (ids ! k - 1) = (ts ! k)\<lparr>t_id := ids ! k\<rparr>)
     \<and> (\<forall>i < 8. i + 1 \<notin> set ids \<longrightarrow> iotgo_timer s' ! i = iotgo_timer s ! i \<and> iotgo_timer_id s' ! i = iotgo_timer_id s ! i)
     \<and> timer_cnt (iotgo_timer_info s') = timer_cnt (iotgo_timer_info s) + length ts"

lemma used_ids_full: "\<forall>k \<in> set ids. k \<noteq> 0 \<Longrightarrow> used_ids ids = length ids"
  by (simp add: used_ids_def)

lemma find_free_none: "find_free is s = (0, s') \<Longrightarrow> \<forall>i \<in> set is. iotgo_timer_id s ! i \<noteq> 0"
  by (induction "is") (auto split: if_splits)

lemma timerProductId_free:
  assumes "loct_wf s" "timer_cnt (iotgo_timer_info s) < 8"
  obtains i where "i < 8" "iotgo_timer_id s ! i = 0"
    "timerProductId s = (i + 1, s\<lparr>iotgo_timer_id := (iotgo_timer_id s)[i := i + 1]\<rparr>)"
proof -
  obtain k s1 where k: "timerProductId s = (k, s1)" by (cases "timerProductId s")
  have "k \<noteq> 0"
  proof
    assume "k = 0"
    then have "find_free [0..<8] s = (0, s1)"
      using k assms(2) by (simp add: timerProductId_def IOTGO_TIMER_NUM_def)
    then have "\<forall>i < 8. iotgo_timer_id s ! i \<noteq> 0"
      using find_free_none [of "[0..<8]" s s1] by simp
    then have "used_ids (iotgo_timer_id s) = 8"
      using assms(1) used_ids_full [of "iotgo_timer_id s"] by (auto simp: loct_wf_def sized_def all_set_conv_all_nth)
    then show False using assms by (simp add: loct_wf_def)
  qed
  with timerProductId_cases [OF k] that k show thesis by metis
qed

lemma slot_wf:
  assumes "loct_wf s" "i < 8" "iotgo_timer_id s ! i = 0" "t_id t = i + 1"
  shows "loct_wf (bump_cnt 1 (set_timer i t (s\<lparr>iotgo_timer_id := (iotgo_timer_id s)[i := i + 1]\<rparr>)))"
  using slot_inside [OF inside_refl [OF assms(1)], of i "i + 1" t 1] assms by (simp add: inside_def)

lemma new_loop_stores:
  assumes "loct_wf s" "length ts + timer_cnt (iotgo_timer_info s) \<le> 8" "\<forall>t \<in> set ts. t_id t = 0"
  shows "\<exists>ids' s'. new_loop fl ts ids s = Inl (ids @ ids', s') \<and> loct_wf s' \<and> stores ts ids' s s'
    \<and> timer_manager s' = timer_manager s \<and> effects s' = effects s"
  using assms
proof (induction ts arbitrary: ids s)
  case Nil
  then show ?case by (auto simp: stores_def)
next
  case (Cons t ts)
  have "timer_cnt (iotgo_timer_info s) < 8" using Cons.prems(2) by simp
  from timerProductId_free [OF Cons.prems(1) this] obtain i where
    i: "i < 8" "iotgo_timer_id s ! i = 0" "timerProductId s = (i + 1, s\<lparr>iotgo_timer_id := (iotgo_timer_id s)[i := i + 1]\<rparr>)" .
  let ?t = "t\<lparr>t_id := i + 1\<rparr>"
  define u where "u = bump_cnt 1 (set_timer i ?t (s\<lparr>iotgo_timer_id := (iotgo_timer_id s)[i := i + 1]\<rparr>))"
  have wf: "loct_wf u" unfolding u_def by (rule slot_wf [OF Cons.prems(1) i(1,2)]) simp
  have len: "length (iotgo_timer s) = 8" "length (iotgo_timer_id s) = 8"
    using Cons.prems(1) by (simp_all add: loct_wf_def sized_def)
  have "to_u8 (int (timer_cnt (iotgo_timer_info s)) + 1) = timer_cnt (iotgo_timer_info s) + 1"
    using Cons.prems(2) to_u8_int [of "timer_cnt (iotgo_timer_info s) + 1"] by (simp add: add.commute)
  then have cnt: "timer_cnt (iotgo_timer_info u) = timer_cnt (iotgo_timer_info s) + 1"
    by (simp add: u_def bump_cnt_def set_timer_def)
  have u: "iotgo_timer u = (iotgo_timer s)[i := ?t]" "iotgo_timer_id u = (iotgo_timer_id s)[i := i + 1]"
    "timer_manager u = timer_manager s" "effects u = effects s"
    by (simp_all add: u_def bump_cnt_def set_timer_def)
  have step: "new_loop fl (t # ts) ids s = new_loop fl ts (ids @ [i + 1]) u"
    using i(3) Cons.prems(3) by (simp add: u_def set_timer_def Let_def)
  from Cons.IH [OF wf, of "ids @ [i + 1]"] cnt Cons.prems(2,3) obtain ids' s' where
    r: "new_loop fl ts (ids @ [i + 1]) u = Inl ((ids @ [i + 1]) @ ids', s')" "loct_wf s'" "stores ts ids' u s'"
      "timer_manager s' = timer_manager u" "effects s' = effects u"
    by auto
  have fresh: "i + 1 \<notin> set ids'"
    using r(3) i(1) len unfolding stores_def u by (auto simp: in_set_conv_nth)
  have kept: "iotgo_timer s' ! i = ?t" "iotgo_timer_id s' ! i = i + 1"
    using r(3) fresh i(1) len unfolding stores_def u by simp_all
  have rest: "iotgo_timer_id u ! j = iotgo_timer_id s ! j" if "j \<noteq> i" for j using that by (simp add: u)
  have "stores (t # ts) ((i + 1) # ids') s s'"
  proof -
    have "iotgo_timer_id s ! (ids' ! k - 1) = 0" if "k < length ts" for k
    proof -
      have "ids' ! k - 1 \<noteq> i \<or> \<not> 1 \<le> ids' ! k"
        using that fresh r(3) by (auto simp: stores_def in_set_conv_nth)
      then show ?thesis using that r(3) rest by (auto simp: stores_def)
    qed
    then show ?thesis
      using r(3) fresh kept i cnt len unfolding stores_def u
      by (auto simp: nth_Cons nth_list_update split: nat.split)
  qed
  with step r u(3,4) show ?case by auto
qed

text \<open>
  The answer of \<open>timerNew\<close>: the identifiers are bytes, but \<open>createIdArray\<close> reads them as an array of
  \<open>int\<close>.
\<close>

lemma createIdArray_values:
  assumes "length ids = 8" "\<forall>k \<in> set ids. k < 128"
  shows "createIdArray ids 1 = Some (cJSON_CreateIntArray
      [int (ids ! 0 + 256 * ids ! 1 + 65536 * ids ! 2 + 16777216 * ids ! 3)])"
    and "createIdArray ids 2 = Some (cJSON_CreateIntArray
      [int (ids ! 0 + 256 * ids ! 1 + 65536 * ids ! 2 + 16777216 * ids ! 3),
       int (ids ! 4 + 256 * ids ! 5 + 65536 * ids ! 6 + 16777216 * ids ! 7)])"
    and "3 \<le> n \<Longrightarrow> createIdArray ids n = None"
proof -
  obtain a b c d e f g h where ids: "ids = [a, b, c, d, e, f, g, h]"
    using assms(1) by (auto simp: numeral_eq_Suc length_Suc_conv)
  have s32: "to_s32 (int a + 256 * int b + 65536 * int c + 16777216 * int d) = int a + 256 * int b + 65536 * int c + 16777216 * int d"
    "to_s32 (int e + 256 * int f + 65536 * int g + 16777216 * int h) = int e + 256 * int f + 65536 * int g + 16777216 * int h"
    using assms(2) by (simp_all add: ids to_s32_def)
  show "createIdArray ids 1 = Some (cJSON_CreateIntArray
      [int (ids ! 0 + 256 * ids ! 1 + 65536 * ids ! 2 + 16777216 * ids ! 3)])"
    "createIdArray ids 2 = Some (cJSON_CreateIntArray
      [int (ids ! 0 + 256 * ids ! 1 + 65536 * ids ! 2 + 16777216 * ids ! 3),
       int (ids ! 4 + 256 * ids ! 5 + 65536 * ids ! 6 + 16777216 * ids ! 7)])"
    by (simp_all add: createIdArray_def ids s32 numeral_2_eq_2)
  show "createIdArray ids n = None" if "3 \<le> n"
  proof -
    define m where "m = n - 3"
    have "n = Suc (Suc (Suc m))" using that by (simp add: m_def)
    then show ?thesis by (simp add: createIdArray_def ids)
  qed
qed

lemma stores_cong:
  assumes "stores ts ids s s'" "iotgo_timer u = iotgo_timer s'" "iotgo_timer_id u = iotgo_timer_id s'"
    "timer_cnt (iotgo_timer_info u) = timer_cnt (iotgo_timer_info s')"
  shows "stores ts ids s u"
  using assms by (simp add: stores_def)

lemma save_fields [simp]:
  "iotgo_timer (timerSaveToFlash fl s) = iotgo_timer s" "iotgo_timer_id (timerSaveToFlash fl s) = iotgo_timer_id s"
  "iotgo_timer_info (timerSaveToFlash fl s) = iotgo_timer_info s" "timer_manager (timerSaveToFlash fl s) = timer_manager s"
  "effects (timerSaveToFlash fl s) = effects s"
  by (simp_all add: timerSaveToFlash_def)

lemma bump_ver_fields [simp]:
  "iotgo_timer (bump_ver s) = iotgo_timer s" "iotgo_timer_id (bump_ver s) = iotgo_timer_id s"
  "timer_cnt (iotgo_timer_info (bump_ver s)) = timer_cnt (iotgo_timer_info s)" "timer_manager (bump_ver s) = timer_manager s"
  "effects (bump_ver s) = effects s"
  by (simp_all add: bump_ver_def)

lemma small_int_prints: "0 \<le> i \<Longrightarrow> i \<le> 2147483647 \<Longrightarrow> print_number i (of_int i) \<noteq> None"
  by (simp add: print_number_def)

text \<open>The answer with one or two numbers is printed and sent.\<close>

lemma id_answer_total:
  assumes "createIdArray ids n = Some (cJSON_CreateIntArray js)" "\<forall>j \<in> set js. 0 \<le> j \<and> j \<le> 2147483647"
  shows "\<exists>s'. replyUpdateWithId 0 ids n s = Some (True, s')"
proof -
  have entries: "\<exists>es. print_entries (map cJSON_CreateNumber js) = Some (Some es)"
    using assms(2) small_int_prints
    by (induction js) (fastforce simp: cJSON_CreateNumber_def)+
  have "\<exists>txt. cJSON_PrintUnformatted (cJSON_AddItemToObject (createBaseObject 0 s) ''timerID'' (cJSON_CreateIntArray js)) = Some (Some txt)"
    using print_small_number [of 0] entries
    by (auto simp: cJSON_PrintUnformatted_def createBaseObject_def add_number_def add_string_def Let_def cJSON_CreateIntArray_def
        cJSON_AddItemToObject_def cJSON_AddItemToArray_def cJSON_CreateObject_def cJSON_CreateNumber_def cJSON_CreateString_def)
  then show ?thesis
    using assms(1) unfolding replyUpdateWithId_def send_answer_def by (cases "timer_manager s") auto
qed

text \<open>
  creating timers.  Timers without an identifier that fit into the table are all stored, each
  under an identifier that was free, and nothing else in the table changes; but only one or two
  at a time: for three or more the answer is built from memory beyond the array of identifiers.
\<close>

theorem timerNew_adds:
  assumes "loct_wf s" "0 < num" "num \<le> length ts" "num + timer_cnt (iotgo_timer_info s) \<le> 8"
    "\<forall>t \<in> set (take num ts). t_id t = 0"
  shows "if num \<le> 2 then \<exists>ids s'. timerNew fl (Some ts) num s = Some (True, s') \<and> stores (take num ts) ids s s'
    else timerNew fl (Some ts) num s = None"
proof -
  have "length (take num ts) + timer_cnt (iotgo_timer_info s) \<le> 8" using assms(3,4) by simp
  from new_loop_stores [OF assms(1) this assms(5), of fl "[]"] obtain ids s1 where
    run: "new_loop fl (take num ts) [] s = Inl (ids, s1)" and st: "stores (take num ts) ids s s1" by auto
  let ?u = "timerSaveToFlash fl (bump_ver s1)"
  let ?arr = "ids @ replicate (8 - length ids) 0"
  have new: "timerNew fl (Some ts) num s = replyUpdateWithId 0 ?arr num ?u"
    using assms(2,4) run by (simp add: timerNew_def IOTGO_TIMER_NUM_def)
  have ids: "length ids = num" "\<forall>k \<in> set ids. k \<le> 8"
    using st assms(3) by (auto simp: stores_def in_set_conv_nth)
  have arr: "length ?arr = 8" "\<forall>k \<in> set ?arr. k < 128"
    using ids assms(4) by auto
  show ?thesis
  proof (cases "num \<le> 2")
    case False
    then have "createIdArray ?arr num = None" by (intro createIdArray_values(3) [OF arr]) simp
    then show ?thesis using False new by (simp add: replyUpdateWithId_def)
  next
    case True
    have "\<exists>js. createIdArray ?arr num = Some (cJSON_CreateIntArray js) \<and> (\<forall>j \<in> set js. 0 \<le> j \<and> j \<le> 2147483647)"
    proof -
      have b: "?arr ! k < 128" if "k < 8" for k using arr that by (metis nth_mem)
      have num: "num = 1 \<or> num = 2" using True assms(2) by auto
      define x y where "x = int (?arr ! 0 + 256 * ?arr ! 1 + 65536 * ?arr ! 2 + 16777216 * ?arr ! 3)"
        and "y = int (?arr ! 4 + 256 * ?arr ! 5 + 65536 * ?arr ! 6 + 16777216 * ?arr ! 7)"
      have xy: "0 \<le> x" "x \<le> 2147483647" "0 \<le> y" "y \<le> 2147483647"
        using b [of 0] b [of 1] b [of 2] b [of 3] b [of 4] b [of 5] b [of 6] b [of 7] by (simp_all add: x_def y_def)
      from num show ?thesis
      proof
        assume "num = 1"
        then show ?thesis
          using createIdArray_values(1) [OF arr, folded x_def] xy by (intro exI [of _ "[x]"]) simp
      next
        assume "num = 2"
        then show ?thesis
          using createIdArray_values(2) [OF arr, folded x_def y_def] xy by (intro exI [of _ "[x, y]"]) simp
      qed
    qed
    then obtain s' where s': "replyUpdateWithId 0 ?arr num ?u = Some (True, s')"
      using id_answer_total by blast
    then have "answered ?u s'" using replyUpdateWithId_answered by blast
    then have "stores (take num ts) ids s s'"
      by (intro stores_cong [OF st]) (auto simp: answered_def)
    with True new s' show ?thesis by auto
  qed
qed

theorem timerNew_adds_witness:
  "(\<exists>ids s'. timerNew demo_ops (Some [zero_timer]) 1 full_table = Some (True, s') \<and> stores [zero_timer] ids full_table s')
   \<and> timerNew demo_ops (Some (replicate 3 zero_timer)) 3 full_table = None"
proof -
  have "timer_cnt (iotgo_timer_info full_table) = 1" "t_id zero_timer = 0"
    by (simp_all add: full_table_def zero_timer_def)
  then show ?thesis
    using timerNew_adds [OF full_table_wf(1), of 1 "[zero_timer]" demo_ops]
      timerNew_adds [OF full_table_wf(1), of 3 "replicate 3 zero_timer" demo_ops]
    by simp
qed

text \<open>
  the identifiers reported for two new timers are wrong: the first number of the answer is
  the first identifier plus 256 times the second one, the second number is 0.
\<close>

theorem new_answer_ids_wrong:
  assumes "a \<le> 8" "b \<le> 8"
  shows "createIdArray [a, b, 0, 0, 0, 0, 0, 0] 2 = Some (cJSON_CreateIntArray [int (a + 256 * b), 0])"
  using assms createIdArray_values(2) [of "[a, b, 0, 0, 0, 0, 0, 0]"] by simp

theorem new_answer_ids_wrong_witness:
  "createIdArray [1, 2, 0, 0, 0, 0, 0, 0] 2 = Some (cJSON_CreateIntArray [513, 0])"
  using new_answer_ids_wrong [of 1 2] by simp

subsection \<open>Queries\<close>

lemma index_loop_mono:
  "index_loop is timer s = Some (Some timer') \<Longrightarrow> length timer' = length timer \<and> (\<forall>j. j \<notin> set is \<longrightarrow> timer' ! j = timer ! j)"
  by (induction "is" timer s rule: index_loop.induct) (auto simp: Let_def split: if_splits)

lemma zero_timer_invalid: "createTimerObjcet zero_timer = Some None"
  by (simp add: createTimerObjcet_def zero_timer_def Let_def)

text \<open>The answer of a query by index starts with slot 0 of the local array; before the start index it is empty.\<close>

lemma refuse_total: "k < 65536 \<Longrightarrow> \<exists>s'. refuse k s = Some (False, s')"
  using replyUpdate_total [of k s] by (auto simp: refuse_def)

text \<open>
  a query of the timers from an index above 0 is never answered: whatever the table holds, if
  the run is defined the answer is error 500, because the timers are collected at their own index
  but printed from index 0.
\<close>

theorem query_from_index_refused:
  assumes "0 < start" "start \<le> stop" "stop < 256" "timerQueryTimerByIndex start stop s = Some (b, s')"
  shows "\<not> b \<and> refuse 500 s = Some (False, s')"
proof -
  have num: "to_u8 (int stop - int start + 1) = stop - start + 1"
    using assms(1-3) to_u8_int [of "stop - start + 1"] by (simp add: of_nat_diff algebra_simps)
  have refused: ?thesis if "refuse 500 s = Some (b, s')"
    using that refuse_answered [OF that] by simp
  show ?thesis
  proof (cases "stop < start \<or> timer_cnt (iotgo_timer_info s) < stop - start + 1")
    case True
    then show ?thesis using assms(4) num refused by (simp add: timerQueryTimerByIndex_def)
  next
    case False
    then obtain r where
      r: "index_loop [start..<stop + 1] (replicate IOTGO_TIMER_NUM zero_timer) s = Some r"
      "(case r of None \<Rightarrow> refuse 500 s
        | Some timer \<Rightarrow> replyQueryTimer 0 (iotgo_timer_info s) timer (stop - start + 1) s) = Some (b, s')"
      using assms(4) unfolding timerQueryTimerByIndex_def num Let_def if_not_P [OF False] bind_Some_iff by blast
    show ?thesis
    proof (cases r)
      case None
      then show ?thesis using r(2) refused by simp
    next
      case (Some timer)
      with index_loop_mono r(1) have t: "length timer = 8" "timer ! 0 = zero_timer"
        using assms(1) by (fastforce simp: IOTGO_TIMER_NUM_def)+
      then have "\<exists>n. take (stop - start + 1) timer = zero_timer # take n (tl timer)"
        by (intro exI [of _ "stop - start"]) (cases timer; simp)
      then have "timer_objects (take (stop - start + 1) timer) = Some None"
        using zero_timer_invalid by auto
      then show ?thesis
        using r(2) Some refused by (auto simp: replyQueryTimer_def split: if_splits)
    qed
  qed
qed

definition two_timers :: "demo_flash loct" where
  "two_timers = full_table\<lparr>iotgo_timer := [zero_timer\<lparr>t_id := 1\<rparr>, zero_timer\<lparr>t_id := 2\<rparr>] @ replicate 6 zero_timer,
     iotgo_timer_id := [1, 2] @ replicate 6 0, iotgo_timer_info := \<lparr>timer_ver = 4, timer_cnt = 2\<rparr>\<rparr>"

theorem query_from_index_refused_witness:
  "\<exists>s'. timerQueryTimerByIndex 1 1 two_timers = Some (False, s') \<and> refuse 500 two_timers = Some (False, s')"
proof -
  have "to_u8 1 = 1" "timerFindTimerByIndex (Suc 0) two_timers = 2"
    by (simp_all add: to_u8_def timerFindTimerByIndex_def two_timers_def full_table_def IOTGO_TIMER_NUM_def zero_timer_def)
  then have "timerQueryTimerByIndex 1 1 two_timers = refuse 500 two_timers"
    using zero_timer_invalid
    by (simp add: timerQueryTimerByIndex_def two_timers_def full_table_def IOTGO_TIMER_NUM_def replyQueryTimer_def numeral_eq_Suc)
  with refuse_total [of 500 two_timers] obtain s' where s': "timerQueryTimerByIndex 1 1 two_timers = Some (False, s')"
    by auto
  from query_from_index_refused [OF _ _ _ s'] s' show ?thesis by auto
qed

text \<open>Queries read: they answer once and change nothing.\<close>

lemma proc_query_answered:
  "procQueryTimerInfo p s = Some (b, s') \<Longrightarrow> answered s s'"
  "procQueryTimerByIndex p s = Some (b, s') \<Longrightarrow> answered s s'"
  "procQueryTimerById p s = Some (b, s') \<Longrightarrow> answered s s'"
  unfolding procQueryTimerInfo_def procQueryTimerByIndex_def procQueryTimerById_def procError_def
    timerQueryTimerInfo_def timerQueryTimerByIndex_def timerQueryTimerById_def Let_def
  by (auto simp: bind_Some_iff split: option.splits if_splits
      dest: refuse_answered replyQueryTimer_answered replyQueryTimerInfo_answered)

text \<open>
  a query, well formed or not, changes nothing but the manager it is answered to, and is
  answered with at most one message.
\<close>

theorem query_changes_nothing:
  assumes "timerProcQuery params manager s = Some (b, s')"
  shows "\<exists>e. s' = s\<lparr>timer_manager := manager, effects := effects s @ e\<rparr> \<and> length e \<le> 1"
proof -
  have "answered (s\<lparr>timer_manager := manager\<rparr>) s'"
    using assms unfolding timerProcQuery_def procError_def Let_def
    by (auto simp: bind_Some_iff split: option.splits if_splits dest: refuse_answered proc_query_answered)
  then show ?thesis by (simp add: answered_def)
qed

definition ask_info :: cJSON where
  "ask_info = cJSON_AddItemToArray cJSON_CreateArray (cJSON_CreateString ''info'')"

theorem query_changes_nothing_witness:
  "\<exists>s' e. timerProcQuery (Some ask_info) TIMER_MCU full_table = Some (False, s')
     \<and> s' = full_table\<lparr>timer_manager := TIMER_MCU, effects := e\<rparr> \<and> length e \<le> 1"
proof -
  have "timerProcQuery (Some ask_info) TIMER_MCU full_table = refuse 500 (full_table\<lparr>timer_manager := TIMER_MCU\<rparr>)"
    by (simp add: timerProcQuery_def ask_info_def cJSON_AddItemToArray_def cJSON_CreateArray_def cJSON_CreateString_def
        cJSON_GetArrayItem_def procError_def Let_def)
  with refuse_total [of 500 "full_table\<lparr>timer_manager := TIMER_MCU\<rparr>"]
  obtain s' where s': "timerProcQuery (Some ask_info) TIMER_MCU full_table = Some (False, s')" by auto
  moreover have "effects full_table = []" by (simp add: full_table_def demo_loct_def)
  ultimately show ?thesis using query_changes_nothing [OF s'] by auto
qed

subsection \<open>The text of a periodic timer\<close>

lemma length_dec_short: "length (dec_short n) = (if n < 10 then 1 else 2)"
  by (simp add: dec_short_def)

lemma no_space:
  "CHR '' '' \<notin> set (gmt_text t ms)" "CHR '' '' \<notin> set (dec_short n)"
  by (simp_all add: gmt_text_def dec2_def dec3_def dec4_def dec_short_def c_str)

definition duration_text :: "IoTgoGMTTime \<Rightarrow> nat \<Rightarrow> nat \<Rightarrow> nat \<Rightarrow> string" where
  "duration_text t ms iv du = gmt_text t ms @ '' '' @ dec_short iv @ '' '' @ dec_short du"

lemma parse_duration_text:
  assumes "0 < iv" "iv < 100" "du < 100"
  shows "parseFromATString (duration_text t ms iv du) g i0 d0 = Some (True, gmt_text t ms, iv, du)"
proof -
  let ?a = "gmt_text t ms" and ?b = "dec_short iv" and ?c = "dec_short du"
  have tx: "duration_text t ms iv du = ?a @ CHR '' '' # (?b @ CHR '' '' # ?c)" by (simp add: duration_text_def)
  have len: "length ?a = 24" by (rule gmt_text_fields)
  have blen: "length ?b \<le> 2" "length ?c \<le> 2" "0 < length ?b" by (simp_all add: length_dec_short)
  have find: "c_strstr (duration_text t ms iv du) '' '' = Some 24" "c_strstr (?b @ CHR '' '' # ?c) '' '' = Some (length ?b)"
    using c_strstr_skip [OF no_space(1) [of t ms]] c_strstr_skip [OF no_space(2) [of iv]] len by (simp_all add: tx)
  have total: "length (duration_text t ms iv du) = 26 + length ?b + length ?c" by (simp add: tx len)
  then have u8: "to_u8 (int (length (duration_text t ms iv du))) = 26 + length ?b + length ?c"
    using to_u8_int [of "26 + length ?b + length ?c"] blen by simp
  have f1: "copy_field 24 (duration_text t ms iv du) = Some ?a"
    by (simp add: copy_field_def c_copy_def tx len)
  have f2: "copy_field (int (length ?b)) (?b @ CHR '' '' # ?c) = Some ?b"
    using blen by (simp add: copy_field_def c_copy_def)
  have f3: "copy_field (int (26 + length ?b + length ?c) - int (24 + 1 + length ?b + 1)) ?c = Some ?c"
    using blen by (simp add: copy_field_def c_copy_def)
  have d1: "drop (24 + 1) (duration_text t ms iv du) = ?b @ CHR '' '' # ?c" by (simp add: tx len)
  have d2: "drop (length ?b + 1) (?b @ CHR '' '' # ?c) = ?c" by simp
  have v: "to_u32 (int iv) = iv" "to_u32 (int du) = du" using assms by (simp_all add: to_u32_small)
  show ?thesis
    unfolding parseFromATString_def Let_def u8 find option.case
    using assms(1) f1 f2 f3 d1 d2 v dec_short_props(1) [OF assms(2)] dec_short_props(1) [OF assms(3)] find(2)
    by simp
qed

text \<open>
  the \<open>at\<close> text of a periodic timer (canonical start time, interval and duration in minutes)
  is read into exactly these three values if the interval or the duration has one digit; with two
  digits each the text no longer fits the array \<open>at\<close> of 30 bytes and copying it writes beyond it.
\<close>

theorem duration_text_limit:
  assumes "gmt_valid t" "2000 < year t" "year t < 10000" "0 < iv" "iv < 100" "du < 100"
    and "cJSON_GetObjectItem (Some j) ''at'' = Some (CJ cJSON_String ch (Some (duration_text t ms iv du)) vi vd nm)"
  shows "getTImerAt (zero_timer\<lparr>t_type := LOC_DURATION\<rparr>) (Some j) =
    (if iv < 10 \<or> du < 10
     then Some (True, zero_timer\<lparr>t_type := LOC_DURATION, t_at := duration_text t ms iv du, t_timing := TGmt t,
                                  t_interval := iv, t_duration := du\<rparr>)
     else None)"
proof -
  have "length (duration_text t ms iv du) = 26 + length (dec_short iv) + length (dec_short du)"
    by (simp add: duration_text_def gmt_text_fields)
  then have "length (duration_text t ms iv du) < 30 \<longleftrightarrow> iv < 10 \<or> du < 10"
    by (simp add: length_dec_short)
  then show ?thesis
    using assms(7) parse_duration_text [OF assms(4-6)] parseGMT_gmt_text [OF assms(1-3)]
    by (simp add: getTImerAt_def c_copy_def zero_timer_def Let_def)
qed

definition duration_request :: "nat \<Rightarrow> nat \<Rightarrow> cJSON" where
  "duration_request iv du = CJ cJSON_Object
     [CJ cJSON_String [] (Some (duration_text \<lparr>year = 2016, month = 3, day = 1, hour = 12, minute = 0, second = 0\<rparr> 0 iv du))
        0 0 (Some ''at'')] None 0 0 None"

theorem duration_text_limit_witness:
  "map_option fst (getTImerAt (zero_timer\<lparr>t_type := LOC_DURATION\<rparr>) (Some (duration_request 60 5))) = Some True
   \<and> getTImerAt (zero_timer\<lparr>t_type := LOC_DURATION\<rparr>) (Some (duration_request 60 10)) = None"
proof -
  let ?t = "\<lparr>year = 2016, month = 3, day = 1, hour = 12, minute = 0, second = 0\<rparr>"
  have t: "gmt_valid ?t" "2000 < year ?t" "year ?t < 10000"
    by (simp_all add: gmt_valid_def date_valid_def month_len_def)
  have at: "cJSON_GetObjectItem (Some (duration_request iv du)) ''at'' =
      Some (CJ cJSON_String [] (Some (duration_text ?t 0 iv du)) 0 0 (Some ''at''))" for iv du
    by (simp add: duration_request_def cJSON_GetObjectItem_def)
  show ?thesis
    using duration_text_limit [OF t _ _ _ at [of 60 5]] duration_text_limit [OF t _ _ _ at [of 60 10]] by simp
qed

end
