(* ===== verification/Spro.thy ===== *)
theory Spro
  imports FwPrelude
begin

text \<open>
  The packet assembler \<open>app/addition/Spro.c\<close>: the bytes of TCP segments are collected in a
  buffer and handed to a callback in whole packets, HTTP/1.1 messages or WebSocket frames.

  The buffer is the byte array that follows the object in its heap block, so an access at or
  beyond \<open>buffer_size\<close> leaves the block and has no defined result (\<open>None\<close>); so has
  \<open>strstr\<close> on a buffer without a terminator.  Calls of the callback are recorded in order in
  \<open>packages\<close>; the callback of the clients does not call back into the object.
\<close>

subsection \<open>State\<close>

datatype SproPkgType =
  SPRO_PKG_TYPE_NULL | SPRO_PKG_TYPE_HTTP11 | SPRO_PKG_TYPE_WEBSOCKET13 | SPRO_PKG_TYPE_IOT_UPGRADE

text \<open>
  A call of the callback: the function, its argument, the part of the buffer it is given, the
  length it is told, and whether this is a complete packet.
\<close>

datatype package = Package (pkg_cb: nat) (pkg_arg: nat) (pkg_bytes: bytes) (pkg_told: nat) (pkg_ok: bool)

record spro =
  pkg_type :: SproPkgType
  rxbuf :: bytes
  buffer_size :: nat
  sp_timer :: os_timer
  pkg_len :: nat
  buffer_index :: nat
  pkg_one_flag :: bool
  timer_opened_flag :: bool
  pkg_proc_cb :: "nat option"
  sp_arg :: nat
  packages :: "package list"

definition rd :: "nat \<Rightarrow> spro \<Rightarrow> u8 option" where
  "rd k s = (if k < length (rxbuf s) then Some (rxbuf s ! k) else None)"

definition memset0 :: "nat \<Rightarrow> nat \<Rightarrow> bytes \<Rightarrow> bytes option" where
  "memset0 a n buf =
     (if a + n \<le> length buf then Some (take a buf @ replicate n 0 @ drop (a + n) buf) else None)"

definition run_cb :: "nat \<Rightarrow> bytes \<Rightarrow> nat \<Rightarrow> bool \<Rightarrow> spro \<Rightarrow> spro" where
  "run_cb arg data n flag s =
     (case pkg_proc_cb s of
        None \<Rightarrow> s
      | Some f \<Rightarrow> s\<lparr>packages := packages s @ [Package f arg (take n data) n flag]\<rparr>)"

subsection \<open>The receive buffer\<close>

definition startTime :: "spro \<Rightarrow> spro" where
  "startTime s = s\<lparr>sp_timer := Armed 10000 False\<rparr>"

definition serverRxAvailable :: "spro \<Rightarrow> nat" where
  "serverRxAvailable s = buffer_index s"

definition serverRxFlush :: "spro \<Rightarrow> spro option" where
  "serverRxFlush s =
     map_option (\<lambda>buf. s\<lparr>buffer_index := 0, rxbuf := buf\<rparr>) (memset0 0 (buffer_size s) (rxbuf s))"

text \<open>The copy loop of \<open>serverRxRead\<close>: \<open>n\<close> bytes from index \<open>i\<close> on to index \<open>j\<close> on.\<close>

fun copy_down :: "nat \<Rightarrow> nat \<Rightarrow> nat \<Rightarrow> bytes \<Rightarrow> bytes" where
  "copy_down 0 i j buf = buf"
| "copy_down (Suc n) i j buf = copy_down n (Suc i) (Suc j) (buf[j := buf ! i])"

definition serverRxRead :: "spro \<Rightarrow> spro option" where
  "serverRxRead s =
     (if pkg_len s = 0 then Some s
      else if pkg_len s = buffer_index s then serverRxFlush s
      else
        (let s = s\<lparr>rxbuf := copy_down (buffer_index s - pkg_len s) (pkg_len s) 0 (rxbuf s)\<rparr>;
             s = s\<lparr>buffer_index := to_u16 (int (buffer_index s) - int (pkg_len s))\<rparr>
         in map_option (\<lambda>buf. s\<lparr>rxbuf := buf\<rparr>) (memset0 (buffer_index s) (buffer_index s) (rxbuf s))))"

fun serverRxWrite :: "bytes \<Rightarrow> spro \<Rightarrow> spro" where
  "serverRxWrite [] s = s"
| "serverRxWrite (b # bs) s =
     (if buffer_index s < buffer_size s then
        serverRxWrite bs (s\<lparr>rxbuf := (rxbuf s)[buffer_index s := b],
                            buffer_index := to_u16 (int (buffer_index s) + 1)\<rparr>)
      else s\<lparr>buffer_index := buffer_size s\<rparr>)"

definition spro10sTimerCallback :: "spro option \<Rightarrow> spro option option" where
  "spro10sTimerCallback obj =
     (case obj of
        None \<Rightarrow> Some None
      | Some s \<Rightarrow>
          (let s = run_cb (sp_arg s) (rxbuf s) (buffer_index s) (pkg_one_flag s) s
           in map_option (\<lambda>s. Some (s\<lparr>sp_timer := Disarmed, timer_opened_flag := False\<rparr>))
                (serverRxFlush s)))"

subsection \<open>HTTP messages\<close>

definition CRLF :: bytes where
  "CRLF = [13, 10]"

definition c_string :: "bytes \<Rightarrow> bytes" where
  "c_string buf = takeWhile (\<lambda>b. b \<noteq> 0) buf"

text \<open>
  \<open>indexOf\<close> from an offset of the buffer on.  A search that finds nothing reads up to the
  terminator, which must be in the buffer.
\<close>

definition indexOf :: "bytes \<Rightarrow> bytes \<Rightarrow> int option" where
  "indexOf str1 str2 =
     (case c_strstr (c_string str1) str2 of
        Some i \<Rightarrow> Some (int i)
      | None \<Rightarrow> if 0 \<in> set str1 then Some (-1) else None)"

definition c_strlen :: "bytes \<Rightarrow> nat option" where
  "c_strlen buf = (if 0 \<in> set buf then Some (length (c_string buf)) else None)"

definition subString :: "bytes \<Rightarrow> bytes \<Rightarrow> nat \<Rightarrow> nat \<Rightarrow> bytes option" where
  "subString dest src start stop =
     do {
       n \<leftarrow> c_strlen src;
       if start > n then Some dest
       else
         (let stop = (if stop > n then n else stop);
              cnt = stop - start
          in if cnt < length dest
             then Some (take cnt (drop start src) @ 0 # drop (Suc cnt) dest)
             else None)
     }"

definition charToNum :: "spro \<Rightarrow> bytes \<Rightarrow> bytes \<Rightarrow> int option" where
  "charToNum s start stop =
     do {
       i \<leftarrow> indexOf (rxbuf s) start;
       let index1 = i + int (length start);
       index2 \<leftarrow> indexOf (drop (nat index1) (rxbuf s)) stop;
       if index2 > 10 then Some 0
       else do {
         num \<leftarrow> subString (replicate 30 0) (rxbuf s) (nat index1) (nat (index2 + index1));
         atoi (str_of num)
       }
     }"

definition CONTENT_LENGTH :: bytes where
  "CONTENT_LENGTH = bytes_of ''Content-Length''"

definition CONTENT_LENGTH_IS :: bytes where
  "CONTENT_LENGTH_IS = bytes_of ''Content-Length: ''"

text \<open>The first half of the loop body: is there a whole message, and how long is it?\<close>

definition http_measure :: "int \<Rightarrow> spro \<Rightarrow> spro option" where
  "http_measure temp2 s =
     do {
       i4 \<leftarrow> indexOf (rxbuf s) CONTENT_LENGTH;
       let temp4 = to_s16 i4;
       if temp4 \<noteq> -1 then
         (if temp2 < temp4 then do {
            i \<leftarrow> indexOf (rxbuf s) (CRLF @ CRLF);
            Some (s\<lparr>pkg_one_flag := True, pkg_len := to_u16 (i + 4)\<rparr>)
          } else do {
            n \<leftarrow> charToNum s CONTENT_LENGTH_IS CRLF;
            let length_temp = to_s16 n;
            i \<leftarrow> indexOf (rxbuf s) (CRLF @ CRLF);
            if length_temp \<le> int (serverRxAvailable s) - i - 4
            then Some (s\<lparr>pkg_one_flag := True, pkg_len := to_u16 (length_temp + i + 4)\<rparr>)
            else Some (s\<lparr>pkg_one_flag := False\<rparr>)
          })
       else do {
         i \<leftarrow> indexOf (rxbuf s) (CRLF @ CRLF);
         Some (s\<lparr>pkg_one_flag := True, pkg_len := to_u16 (i + 4)\<rparr>)
       }
     }"

text \<open>The delivery of a whole message, and the next \<open>temp2\<close>.\<close>

definition http_deliver :: "nat \<Rightarrow> spro \<Rightarrow> (int \<times> spro) option" where
  "http_deliver arg s =
     do {
       let s = s\<lparr>sp_timer := Disarmed, timer_opened_flag := False\<rparr>;
       s \<leftarrow> serverRxRead (run_cb arg (rxbuf s) (pkg_len s) (pkg_one_flag s) s);
       let s = (if serverRxAvailable s > 0 then startTime (s\<lparr>pkg_one_flag := False\<rparr>) else s);
       i \<leftarrow> indexOf (rxbuf s) (CRLF @ CRLF);
       Some (to_s16 i, s)
     }"

definition http_wait :: "spro \<Rightarrow> spro" where
  "http_wait s = (if \<not> timer_opened_flag s then startTime (s\<lparr>timer_opened_flag := True\<rparr>) else s)"

partial_function (option) http_loop :: "nat \<Rightarrow> int \<Rightarrow> spro \<Rightarrow> spro option" where
  "http_loop arg temp2 s =
     (if temp2 = -1 then Some s
      else do {
        s \<leftarrow> http_measure temp2 s;
        if pkg_one_flag s then do {
          r \<leftarrow> http_deliver arg s;
          http_loop arg (fst r) (snd r)
        } else Some (http_wait s)
      })"

definition processHTTPPackage :: "nat \<Rightarrow> bytes \<Rightarrow> spro \<Rightarrow> spro option" where
  "processHTTPPackage arg pdata s =
     do {
       let s = serverRxWrite pdata s;
       i \<leftarrow> indexOf (rxbuf s) (CRLF @ CRLF);
       let temp2 = to_s16 i;
       let s = (if temp2 = -1 \<and> \<not> timer_opened_flag s
                then startTime (s\<lparr>pkg_one_flag := False, timer_opened_flag := True\<rparr>) else s);
       http_loop arg temp2 s
     }"

subsection \<open>WebSocket frames\<close>

definition ws_known :: "u8 \<Rightarrow> bool" where
  "ws_known b \<longleftrightarrow> \<not> (b \<noteq> 0x81 \<and> b \<noteq> 0x82 \<and> b \<noteq> 0x8a \<and> b \<noteq> 0x89)"

text \<open>The bytes are not a frame: the callback gets all of them, and they are dropped.\<close>

definition ws_reject :: "nat \<Rightarrow> spro \<Rightarrow> spro option" where
  "ws_reject arg s =
     (let s = s\<lparr>pkg_one_flag := False\<rparr>
      in serverRxFlush (run_cb arg (rxbuf s) (buffer_index s) (pkg_one_flag s) s))"

text \<open>
  The first half of the loop body, which tells whether the buffer starts with a whole frame;
  the flag of the result is the \<open>break\<close> after an error.
\<close>

definition ws_measure :: "nat \<Rightarrow> spro \<Rightarrow> (bool \<times> spro) option" where
  "ws_measure arg s =
     do {
       b0 \<leftarrow> rd 0 s;
       if b0 = 0x81 \<or> b0 = 0x82 then
         if serverRxAvailable s \<ge> 2 then do {
           b1 \<leftarrow> rd 1 s;
           if unat b1 \<le> 125 then
             (if serverRxAvailable s < unat b1 + 2 then Some (False, s\<lparr>pkg_one_flag := False\<rparr>)
              else Some (False, s\<lparr>pkg_one_flag := True, pkg_len := to_u16 (int (unat b1) + 2)\<rparr>))
           else if unat b1 = 126 then
             (if serverRxAvailable s < 4 then Some (False, s\<lparr>pkg_one_flag := False\<rparr>)
              else do {
                b2 \<leftarrow> rd 2 s;
                b3 \<leftarrow> rd 3 s;
                let n = unat b2 * 256 + unat b3 + 4;
                if n > serverRxAvailable s then Some (False, s\<lparr>pkg_one_flag := False\<rparr>)
                else Some (False, s\<lparr>pkg_one_flag := True, pkg_len := to_u16 (int n)\<rparr>)
              })
           else map_option (Pair True) (ws_reject arg s)
         }
         else Some (False, s\<lparr>pkg_one_flag := False\<rparr>)
       else if b0 = 0x8a \<or> b0 = 0x89 then
         (let s = (if serverRxAvailable s < 2 then s\<lparr>pkg_one_flag := False\<rparr> else s)
          in if serverRxAvailable s \<ge> 2 then do {
               b1 \<leftarrow> rd 1 s;
               if b1 = 0 then Some (False, s\<lparr>pkg_one_flag := True, pkg_len := 2\<rparr>)
               else map_option (Pair True) (ws_reject arg s)
             } else Some (False, s))
       else map_option (Pair True) (ws_reject arg s)
     }"

definition ws_wait :: "spro \<Rightarrow> spro" where
  "ws_wait s = (if \<not> timer_opened_flag s then startTime (s\<lparr>timer_opened_flag := True\<rparr>) else s)"

text \<open>The second half of the loop body: the delivery, and whether another frame may follow.\<close>

definition ws_deliver :: "nat \<Rightarrow> spro \<Rightarrow> spro option" where
  "ws_deliver arg s =
     do {
       let s = s\<lparr>sp_timer := Disarmed, timer_opened_flag := False\<rparr>;
       s \<leftarrow> serverRxRead (run_cb arg (rxbuf s) (pkg_len s) (pkg_one_flag s) s);
       if serverRxAvailable s > 0 then do {
         b0 \<leftarrow> rd 0 s;
         if \<not> ws_known b0 then ws_reject arg s
         else Some (ws_wait (s\<lparr>pkg_one_flag := True\<rparr>))
       }
       else Some (s\<lparr>pkg_one_flag := False\<rparr>)
     }"

partial_function (option) ws_loop :: "nat \<Rightarrow> spro \<Rightarrow> spro option" where
  "ws_loop arg s =
     (if \<not> pkg_one_flag s then Some s
      else do {
        r \<leftarrow> ws_measure arg s;
        let s = snd r;
        if fst r then Some s
        else if pkg_one_flag s then do {
          s \<leftarrow> ws_deliver arg s;
          ws_loop arg s
        } else ws_loop arg (ws_wait s)
      })"

definition processWebsocketPackage :: "nat \<Rightarrow> bytes \<Rightarrow> spro \<Rightarrow> spro option" where
  "processWebsocketPackage arg pdata s =
     do {
       let s = serverRxWrite pdata s;
       b0 \<leftarrow> rd 0 s;
       s \<leftarrow> (if \<not> ws_known b0 then ws_reject arg s else Some (s\<lparr>pkg_one_flag := True\<rparr>));
       ws_loop arg s
     }"

subsection \<open>The interface\<close>

definition spSetPkgType :: "SproPkgType \<Rightarrow> spro option \<Rightarrow> bool \<times> spro option" where
  "spSetPkgType t obj =
     (case obj of
        None \<Rightarrow> (False, None)
      | Some s \<Rightarrow> if pkg_type s = t then (True, obj) else (True, Some (s\<lparr>pkg_type := t\<rparr>)))"

definition spSetPkgProcCb :: "nat option \<Rightarrow> spro option \<Rightarrow> bool \<times> spro option" where
  "spSetPkgProcCb cb obj =
     (case obj of None \<Rightarrow> (False, None) | Some s \<Rightarrow> (True, Some (s\<lparr>pkg_proc_cb := cb\<rparr>)))"

text \<open>\<open>os_zalloc\<close> succeeds or not; the block is zeroed.\<close>

definition spCreateObject :: "bool \<Rightarrow> SproPkgType \<Rightarrow> nat option \<Rightarrow> nat \<Rightarrow> spro option" where
  "spCreateObject os_zalloc t cb n =
     (if \<not> os_zalloc then None
      else Some \<lparr>pkg_type = t, rxbuf = replicate n 0, buffer_size = n, sp_timer = Disarmed,
                 pkg_len = 0, buffer_index = 0, pkg_one_flag = False, timer_opened_flag = False,
                 pkg_proc_cb = cb, sp_arg = 0, packages = []\<rparr>)"

text \<open>Whether the block is freed, and the object as it was then: its timer no longer runs.\<close>

definition spReleaseObject :: "spro option \<Rightarrow> bool \<times> spro option" where
  "spReleaseObject obj =
     (case obj of None \<Rightarrow> (False, None) | Some s \<Rightarrow> (True, Some (s\<lparr>sp_timer := Disarmed\<rparr>)))"

definition spTcpRecv :: "spro option \<Rightarrow> nat \<Rightarrow> bytes option \<Rightarrow> spro option option" where
  "spTcpRecv obj arg pdata =
     (case (obj, pdata) of
        (Some s, Some data) \<Rightarrow>
          (let s = s\<lparr>sp_arg := arg\<rparr>
           in map_option Some
             (case pkg_type s of
                SPRO_PKG_TYPE_HTTP11 \<Rightarrow> processHTTPPackage arg data s
              | SPRO_PKG_TYPE_WEBSOCKET13 \<Rightarrow> processWebsocketPackage arg data s
              | SPRO_PKG_TYPE_IOT_UPGRADE \<Rightarrow> processHTTPPackage arg data s
              | SPRO_PKG_TYPE_NULL \<Rightarrow> Some (run_cb arg data (length data) True s)))
      | _ \<Rightarrow> Some obj)"

text \<open>Successive calls of \<open>spTcpRecv\<close>, one per TCP segment of a connection.\<close>

fun spTcpRecvAll :: "nat \<Rightarrow> bytes list \<Rightarrow> spro option \<Rightarrow> spro option option" where
  "spTcpRecvAll arg [] obj = Some obj"
| "spTcpRecvAll arg (g # gs) obj = Option.bind (spTcpRecv obj arg (Some g)) (spTcpRecvAll arg gs)"

end
