(* ===== verification/SproWs.thy ===== *)
theory SproWs
  imports Spro
begin

text \<open>
  WebSocket frames through the packet assembler: a reference function \<open>ws_chop\<close> cuts a byte
  sequence into frames at one go; \<open>processWebsocketPackage\<close> refines it one segment at a time,
  and a stream of frames arrives whole whatever the segmentation.
\<close>

subsection \<open>The buffer\<close>

definition spro_inv :: "spro \<Rightarrow> bool" where
  "spro_inv s \<longleftrightarrow> length (rxbuf s) = buffer_size s \<and> buffer_index s \<le> buffer_size s \<and> buffer_size s < 65536"

definition contents :: "spro \<Rightarrow> bytes" where
  "contents s = take (buffer_index s) (rxbuf s)"

text \<open>The fields that receiving never changes.\<close>

definition same_object :: "spro \<Rightarrow> spro \<Rightarrow> bool" where
  "same_object s s' \<longleftrightarrow> pkg_type s' = pkg_type s \<and> buffer_size s' = buffer_size s \<and>
     pkg_proc_cb s' = pkg_proc_cb s"

lemma same_object_refl [simp]: "same_object s s"
  by (simp add: same_object_def)

lemma same_object_trans: "same_object s t \<Longrightarrow> same_object t u \<Longrightarrow> same_object s u"
  by (simp add: same_object_def)

lemma length_contents [simp]: "spro_inv s \<Longrightarrow> length (contents s) = buffer_index s"
  by (simp add: contents_def spro_inv_def)

lemma contents_empty: "spro_inv s \<Longrightarrow> contents s = [] \<longleftrightarrow> buffer_index s = 0"
  using length_contents [of s] by (metis length_0_conv)

lemma rd_contents:
  assumes "spro_inv s" and "k < length (contents s)"
  shows "rd k s = Some (contents s ! k)"
  using assms by (simp add: rd_def contents_def spro_inv_def)

lemma length_copy_down [simp]: "length (copy_down n i j buf) = length buf"
  by (induction n i j buf rule: copy_down.induct) simp_all

lemma copy_down_block:
  assumes "j \<le> i" and "i + n \<le> length buf"
  shows "copy_down n i j buf = take j buf @ take n (drop i buf) @ drop (j + n) buf"
  using assms
proof (induction n i j buf rule: copy_down.induct)
  case (1 i j buf)
  then show ?case by simp
next
  case (2 n i j buf)
  let ?b = "buf[j := buf ! i]"
  have j: "j < length buf" and i: "i < length buf" using 2(2,3) by simp_all
  have a: "take (Suc j) ?b = take j buf @ [buf ! i]"
    using j by (simp add: take_Suc_conv_app_nth)
  have b: "take n (drop (Suc i) ?b) = take n (drop (Suc i) buf)" and "drop (Suc j + n) ?b = drop (Suc j + n) buf"
    using 2(2) by simp_all
  moreover have "take (Suc n) (drop i buf) = buf ! i # take n (drop (Suc i) buf)"
    using i by (simp add: Cons_nth_drop_Suc [symmetric])
  ultimately show ?case using 2(1) 2(2,3) a by simp
qed

lemma serverRxFlush_eq:
  assumes "spro_inv s"
  shows "serverRxFlush s = Some (s\<lparr>buffer_index := 0, rxbuf := replicate (buffer_size s) 0\<rparr>)"
  using assms by (simp add: serverRxFlush_def memset0_def spro_inv_def)

lemma serverRxWrite_frame:
  "same_object s (serverRxWrite data s)" "packages (serverRxWrite data s) = packages s"
  "sp_timer (serverRxWrite data s) = sp_timer s" "timer_opened_flag (serverRxWrite data s) = timer_opened_flag s"
  "pkg_one_flag (serverRxWrite data s) = pkg_one_flag s" "pkg_len (serverRxWrite data s) = pkg_len s"
  by (induction data s rule: serverRxWrite.induct) (simp_all add: same_object_def)

text \<open>What does not fit in the buffer is dropped.\<close>

lemma serverRxWrite_contents:
  assumes "spro_inv s"
  shows "spro_inv (serverRxWrite data s) \<and>
    contents (serverRxWrite data s) = take (buffer_size s) (contents s @ data)"
  using assms
proof (induction data s rule: serverRxWrite.induct)
  case (1 s)
  then show ?case by (simp add: spro_inv_def)
next
  case (2 b bs s)
  show ?case
  proof (cases "buffer_index s < buffer_size s")
    case True
    let ?t = "s\<lparr>rxbuf := (rxbuf s)[buffer_index s := b], buffer_index := to_u16 (int (buffer_index s) + 1)\<rparr>"
    from True 2(2) have i: "to_u16 (int (buffer_index s) + 1) = Suc (buffer_index s)"
      by (simp add: to_u16_add1 spro_inv_def)
    from True 2(2) have t: "spro_inv ?t" and "contents ?t = contents s @ [b]"
      by (auto simp: spro_inv_def i contents_def take_Suc_conv_app_nth)
    with 2(1) [OF True t] True show ?thesis by simp
  next
    case False
    with 2(2) show ?thesis by (simp add: spro_inv_def contents_def)
  qed
qed

text \<open>
  Removing a packet: \<open>os_memset\<close> clears as many bytes as remain, behind the bytes that remain,
  so these may fill at most half of the buffer.
\<close>

lemma serverRxRead_contents:
  assumes inv: "spro_inv s" and len: "0 < pkg_len s" "pkg_len s \<le> buffer_index s"
    and fit: "2 * (buffer_index s - pkg_len s) \<le> buffer_size s"
  shows "\<exists>s'. serverRxRead s = Some s' \<and> spro_inv s' \<and> contents s' = drop (pkg_len s) (contents s) \<and>
    same_object s s' \<and> packages s' = packages s \<and> sp_timer s' = sp_timer s \<and>
    timer_opened_flag s' = timer_opened_flag s \<and> pkg_one_flag s' = pkg_one_flag s"
proof (cases "pkg_len s = buffer_index s")
  case True
  then show ?thesis using len(1) inv serverRxFlush_eq [OF inv]
    by (simp add: serverRxRead_def contents_def spro_inv_def same_object_def)
next
  case False
  let ?r = "buffer_index s - pkg_len s"
  from inv have i: "to_u16 (int (buffer_index s) - int (pkg_len s)) = ?r"
    using len(2) by (intro to_u16_diff) (simp_all add: spro_inv_def)
  define rest where "rest = drop (pkg_len s) (contents s)"
  have rest: "rest = take ?r (drop (pkg_len s) (rxbuf s))" and n: "length rest = ?r"
    using inv by (auto simp: rest_def contents_def drop_take spro_inv_def min_def)
  let ?buf = "rest @ replicate ?r 0 @ drop (2 * ?r) (rxbuf s)"
  from inv len have "copy_down ?r (pkg_len s) 0 (rxbuf s) = rest @ drop ?r (rxbuf s)"
    unfolding rest by (subst copy_down_block) (simp_all add: spro_inv_def)
  then have "serverRxRead s = Some (s\<lparr>rxbuf := ?buf, buffer_index := ?r\<rparr>)"
    using False len(1) inv fit n by (simp add: serverRxRead_def Let_def i memset0_def spro_inv_def mult_2)
  then show ?thesis using inv fit n
    by (intro exI [of _ "s\<lparr>rxbuf := ?buf, buffer_index := ?r\<rparr>"])
      (simp add: spro_inv_def same_object_def contents_def rest_def mult_2)
qed

lemma serverRxRead_overrun:
  assumes inv: "spro_inv s" and len: "0 < pkg_len s" "pkg_len s < buffer_index s"
    and fit: "2 * (buffer_index s - pkg_len s) > buffer_size s"
  shows "serverRxRead s = None"
proof -
  from inv have i: "to_u16 (int (buffer_index s) - int (pkg_len s)) = buffer_index s - pkg_len s"
    using len(2) by (intro to_u16_diff) (simp_all add: spro_inv_def)
  with len fit inv show ?thesis by (simp add: serverRxRead_def Let_def memset0_def spro_inv_def)
qed

subsection \<open>Cutting a byte sequence into frames\<close>

datatype verdict = Wait | Bad | Whole nat

definition ws_head :: "bytes \<Rightarrow> verdict" where
  "ws_head c =
     (if c = [] then Wait
      else if c ! 0 \<in> {0x81, 0x82} then
        (if length c < 2 then Wait
         else if unat (c ! 1) \<le> 125 then (if length c < unat (c ! 1) + 2 then Wait else Whole (unat (c ! 1) + 2))
         else if unat (c ! 1) = 126 then
           (if length c < 4 then Wait
            else let n = unat (c ! 2) * 256 + unat (c ! 3) + 4 in if length c < n then Wait else Whole n)
         else Bad)
      else if c ! 0 \<in> {0x89, 0x8a} then
        (if length c < 2 then Wait else if c ! 1 = 0 then Whole 2 else Bad)
      else Bad)"

lemma ws_head_Whole: "ws_head c = Whole k \<Longrightarrow> 2 \<le> k \<and> k \<le> length c"
  by (auto simp: ws_head_def Let_def split: if_splits)

lemma ws_head_empty [simp]: "ws_head [] = Wait"
  by (simp add: ws_head_def)

lemma ws_head_take: "ws_head c = Whole k \<Longrightarrow> ws_head (take k c) = Whole k"
  by (auto simp: ws_head_def Let_def min_def split: if_splits)

lemma ws_head_append:
  assumes "ws_head c = v" and "v \<noteq> Wait" shows "ws_head (c @ d) = v"
proof -
  have "c \<noteq> []" using assms by auto
  then have 0: "(c @ d) ! 0 = c ! 0" and n: "c @ d \<noteq> []" by (simp_all add: nth_append)
  show ?thesis
  proof (cases "length c < 2")
    case True
    with assms \<open>c \<noteq> []\<close> show ?thesis unfolding ws_head_def 0 using n by (auto split: if_splits)
  next
    case False
    then have 1: "(c @ d) ! 1 = c ! 1" by (simp add: nth_append)
    show ?thesis
    proof (cases "length c < 4")
      case True
      with assms \<open>c \<noteq> []\<close> False show ?thesis unfolding ws_head_def 0 1 using n by (auto split: if_splits)
    next
      case f: False
      then have "(c @ d) ! 2 = c ! 2" "(c @ d) ! 3 = c ! 3" by (simp_all add: nth_append)
      with assms \<open>c \<noteq> []\<close> False f show ?thesis unfolding ws_head_def 0 1 using n
        by (auto simp: Let_def split: if_splits)
    qed
  qed
qed

text \<open>
  The packets of a byte sequence with their flags, and the bytes that wait for more.  An error
  takes the whole rest.
\<close>

function ws_chop :: "bytes \<Rightarrow> (bytes \<times> bool) list \<times> bytes" where
  "ws_chop c =
     (case ws_head c of
        Wait \<Rightarrow> ([], c)
      | Bad \<Rightarrow> ([(c, False)], [])
      | Whole k \<Rightarrow> (let (ps, r) = ws_chop (drop k c) in ((take k c, True) # ps, r)))"
  by pat_completeness auto
termination
  by (relation "measure length") (auto dest: ws_head_Whole)

declare ws_chop.simps [simp del]

lemma ws_chop_Wait: "ws_head c = Wait \<Longrightarrow> ws_chop c = ([], c)"
  and ws_chop_Bad: "ws_head c = Bad \<Longrightarrow> ws_chop c = ([(c, False)], [])"
  and ws_chop_Whole: "ws_head c = Whole k \<Longrightarrow>
    ws_chop c = ((take k c, True) # fst (ws_chop (drop k c)), snd (ws_chop (drop k c)))"
  by (subst ws_chop.simps, simp add: case_prod_beta)+

lemma ws_chop_rest: "ws_head (snd (ws_chop c)) = Wait"
proof (induction c rule: ws_chop.induct)
  case (1 c)
  then show ?case by (cases "ws_head c") (simp_all add: ws_chop_Wait ws_chop_Bad ws_chop_Whole)
qed

text \<open>Chopping what has arrived first, and then the rest with what follows, is chopping it all.\<close>

lemma ws_chop_append:
  assumes "\<forall>p \<in> set (fst (ws_chop c)). snd p"
  shows "ws_chop (c @ d) = (fst (ws_chop c) @ fst (ws_chop (snd (ws_chop c) @ d)), snd (ws_chop (snd (ws_chop c) @ d)))"
  using assms
proof (induction c rule: ws_chop.induct)
  case (1 c)
  show ?case
  proof (cases "ws_head c")
    case Wait
    then show ?thesis by (simp add: ws_chop_Wait)
  next
    case Bad
    with 1(2) show ?thesis by (simp add: ws_chop_Bad)
  next
    case (Whole k)
    with 1 ws_head_Whole [OF Whole] ws_head_append [OF Whole, of d] show ?thesis
      by (simp add: ws_chop_Whole)
  qed
qed

subsection \<open>The loop of \<open>processWebsocketPackage\<close>\<close>

definition pack :: "spro \<Rightarrow> nat \<Rightarrow> bytes \<times> bool \<Rightarrow> package list" where
  "pack s arg p = (case pkg_proc_cb s of None \<Rightarrow> [] | Some f \<Rightarrow> [Package f arg (fst p) (length (fst p)) (snd p)])"

lemma run_cb_pack:
  "n \<le> length data \<Longrightarrow> run_cb arg data n flag s = s\<lparr>packages := packages s @ pack s arg (take n data, flag)\<rparr>"
  by (simp add: run_cb_def pack_def split: option.split)

lemma pack_same: "same_object s s' \<Longrightarrow> pack s' arg p = pack s arg p"
  by (simp add: pack_def same_object_def)

lemma ws_reject_eq:
  assumes "spro_inv s"
  shows "ws_reject arg s = Some (s\<lparr>pkg_one_flag := False, packages := packages s @ pack s arg (contents s, False),
    buffer_index := 0, rxbuf := replicate (buffer_size s) 0\<rparr>)"
proof -
  let ?t = "s\<lparr>pkg_one_flag := False, packages := packages s @ pack s arg (contents s, False)\<rparr>"
  have "run_cb arg (rxbuf s) (buffer_index s) False (s\<lparr>pkg_one_flag := False\<rparr>) = ?t"
    using assms by (subst run_cb_pack) (simp_all add: spro_inv_def contents_def pack_def)
  moreover have "spro_inv ?t" using assms by (simp add: spro_inv_def)
  ultimately show ?thesis using serverRxFlush_eq [of ?t] by (simp add: ws_reject_def)
qed

lemma unat_lt2p_byte: "unat (b :: u8) < 256"
  using unsigned_less [of b, where ?'a = nat] by simp

lemma ws_len_u16:
  fixes b c :: u8
  shows "to_u16 (uint b + 2) = Suc (Suc (unat b))" "to_u16 2 = Suc (Suc 0)"
    and "unat b * 256 + unat c + 4 < 65536 \<Longrightarrow>
      to_u16 (uint b * 256 + uint c + 4) = unat b * 256 + unat c + 4"
proof -
  have "unat b < 256" using unat_lt2p_byte [of b] .
  then show "to_u16 (uint b + 2) = Suc (Suc (unat b))"
    using to_u16_small [of "unat b + 2"] by (simp add: add.commute)
  show "to_u16 2 = Suc (Suc 0)" by (simp add: to_u16_def)
  show "to_u16 (uint b * 256 + uint c + 4) = unat b * 256 + unat c + 4" if "unat b * 256 + unat c + 4 < 65536"
    using to_u16_small [OF that] by simp
qed

lemma ws_measure_eq:
  assumes inv: "spro_inv s" and ne: "contents s \<noteq> []"
  shows "ws_measure arg s =
    (case ws_head (contents s) of
       Wait \<Rightarrow> Some (False, s\<lparr>pkg_one_flag := False\<rparr>)
     | Bad \<Rightarrow> map_option (Pair True) (ws_reject arg s)
     | Whole k \<Rightarrow> Some (False, s\<lparr>pkg_one_flag := True, pkg_len := k\<rparr>))"
proof -
  have len: "length (contents s) = buffer_index s" and lt: "buffer_index s < 65536"
    using inv by (simp_all add: spro_inv_def)
  have r: "rd k s = Some (contents s ! k)" if "k < buffer_index s" for k
    using rd_contents [OF inv] that inv by simp
  have 0: "0 < buffer_index s" using ne len by (metis length_greater_0_conv)
  show ?thesis
  proof (cases "buffer_index s < 2")
    case True
    then show ?thesis using ne 0 by (auto simp: ws_measure_def ws_head_def serverRxAvailable_def len r Let_def)
  next
    case ge2: False
    show ?thesis
    proof (cases "buffer_index s < 4")
      case True
      then show ?thesis using ne ge2 0
        by (auto simp: ws_measure_def ws_head_def serverRxAvailable_def len r Let_def ws_len_u16)
    next
      case False
      then show ?thesis using ne ge2 lt 0
        by (auto simp: ws_measure_def ws_head_def serverRxAvailable_def len r Let_def ws_len_u16)
    qed
  qed
qed

lemma ws_head_unknown: "c \<noteq> [] \<Longrightarrow> \<not> ws_known (c ! 0) \<Longrightarrow> ws_head c = Bad"
  by (simp add: ws_head_def ws_known_def)

text \<open>The flag of the 10 s timer tells whether the timer runs.\<close>

definition ws_timer :: "spro \<Rightarrow> bool" where
  "ws_timer s \<longleftrightarrow> sp_timer s = (if timer_opened_flag s then Armed 10000 False else Disarmed)"

lemma ws_deliver_eq:
  assumes inv: "spro_inv s" and len: "0 < pkg_len s" "pkg_len s \<le> buffer_index s" and flag: "pkg_one_flag s"
    and fit: "2 * (buffer_index s - pkg_len s) \<le> buffer_size s"
  shows "\<exists>t. spro_inv t \<and> same_object s t \<and> contents t = drop (pkg_len s) (contents s) \<and>
    packages t = packages s @ pack s arg (take (pkg_len s) (contents s), True) \<and>
    sp_timer t = Disarmed \<and> \<not> timer_opened_flag t \<and>
    ws_deliver arg s = (if contents t = [] then Some (t\<lparr>pkg_one_flag := False\<rparr>)
      else if ws_known (contents t ! 0) then Some (ws_wait (t\<lparr>pkg_one_flag := True\<rparr>)) else ws_reject arg t)"
proof -
  let ?q = "s\<lparr>sp_timer := Disarmed, timer_opened_flag := False\<rparr>"
  let ?p = "?q\<lparr>packages := packages s @ pack s arg (take (pkg_len s) (contents s), True)\<rparr>"
  have cb: "run_cb arg (rxbuf ?q) (pkg_len ?q) (pkg_one_flag ?q) ?q = ?p"
    using inv len flag by (subst run_cb_pack) (simp_all add: spro_inv_def contents_def pack_def)
  have "spro_inv ?p" using inv by (simp add: spro_inv_def)
  with serverRxRead_contents [of ?p] len fit obtain t where
    t: "serverRxRead ?p = Some t" "spro_inv t" "contents t = drop (pkg_len s) (contents s)"
      "same_object ?p t" "packages t = packages ?p" "sp_timer t = Disarmed" "\<not> timer_opened_flag t"
    by (auto simp: contents_def)
  have "ws_deliver arg s = (if contents t = [] then Some (t\<lparr>pkg_one_flag := False\<rparr>)
      else if ws_known (contents t ! 0) then Some (ws_wait (t\<lparr>pkg_one_flag := True\<rparr>)) else ws_reject arg t)"
    using t(2) contents_empty [OF t(2)] rd_contents [OF t(2), of 0]
    unfolding ws_deliver_def Let_def cb t(1) by (simp add: serverRxAvailable_def)
  with t show ?thesis by (intro exI [of _ t]) (simp add: same_object_def)
qed

definition ws_outcome :: "spro \<Rightarrow> nat \<Rightarrow> bytes \<Rightarrow> spro \<Rightarrow> bool" where
  "ws_outcome s arg c s' \<longleftrightarrow> spro_inv s' \<and> same_object s s' \<and> contents s' = snd (ws_chop c) \<and>
     packages s' = packages s @ concat (map (pack s arg) (fst (ws_chop c))) \<and> \<not> pkg_one_flag s' \<and>
     ws_timer s' \<and> ((\<forall>p \<in> set (fst (ws_chop c)). snd p) \<longrightarrow> (timer_opened_flag s' \<longleftrightarrow> contents s' \<noteq> []))"

definition ws_fits :: "spro \<Rightarrow> bool" where
  "ws_fits s \<longleftrightarrow> (\<forall>k. ws_head (contents s) = Whole k \<longrightarrow> 2 * (length (contents s) - k) \<le> buffer_size s)"

lemma ws_loop_stop: "\<not> pkg_one_flag s \<Longrightarrow> ws_loop arg s = Some s"
  by (subst ws_loop.simps) simp

lemma ws_reject_outcome:
  assumes "spro_inv s" "ws_head (contents s) = Bad" "ws_timer s"
  shows "\<exists>s'. ws_reject arg s = Some s' \<and> ws_outcome s arg (contents s) s'"
  using assms by (simp add: ws_reject_eq ws_outcome_def ws_chop_Bad spro_inv_def same_object_def
    contents_def ws_timer_def)

lemma ws_outcome_after:
  assumes "ws_head c = Whole k" and "same_object s t"
    and "packages t = packages s @ pack s arg (take k c, True)" and "ws_outcome t arg (drop k c) s'"
  shows "ws_outcome s arg c s'"
proof -
  have "pack t arg = pack s arg" using pack_same [OF assms(2)] by blast
  with assms show ?thesis by (auto simp: ws_outcome_def ws_chop_Whole intro: same_object_trans)
qed

lemma ws_loop_chop:
  assumes "spro_inv s" "pkg_one_flag s" "contents s \<noteq> []" "ws_fits s" "ws_timer s"
  shows "\<exists>s'. ws_loop arg s = Some s' \<and> ws_outcome s arg (contents s) s'"
  using assms
proof (induction "length (contents s)" arbitrary: s rule: less_induct)
  case less
  note inv = \<open>spro_inv s\<close> and flag = \<open>pkg_one_flag s\<close> and ne = \<open>contents s \<noteq> []\<close>
  note step = ws_measure_eq [OF inv ne, of arg]
  show ?case
  proof (cases "ws_head (contents s)")
    case Wait
    let ?t = "ws_wait (s\<lparr>pkg_one_flag := False\<rparr>)"
    from Wait flag step have "ws_loop arg s = ws_loop arg ?t" by (subst ws_loop.simps) simp
    also have "\<dots> = Some ?t" by (rule ws_loop_stop) (simp add: ws_wait_def startTime_def)
    finally show ?thesis using Wait inv ne less(6)
      by (auto simp: ws_outcome_def ws_chop_Wait ws_wait_def startTime_def spro_inv_def same_object_def
        contents_def ws_timer_def)
  next
    case Bad
    from ws_reject_outcome [OF inv Bad less(6), of arg] obtain s' where
      s': "ws_reject arg s = Some s'" "ws_outcome s arg (contents s) s'" by blast
    with Bad flag step have "ws_loop arg s = Some s'" by (subst ws_loop.simps) simp
    with s' show ?thesis by blast
  next
    case (Whole k)
    let ?q = "s\<lparr>pkg_one_flag := True, pkg_len := k\<rparr>"
    have k: "0 < k" "k \<le> buffer_index s" using ws_head_Whole [OF Whole] inv by auto
    have q: "spro_inv ?q" "0 < pkg_len ?q" "pkg_len ?q \<le> buffer_index ?q" "pkg_one_flag ?q"
      "2 * (buffer_index ?q - pkg_len ?q) \<le> buffer_size ?q"
      using less(5) Whole inv k by (simp_all add: ws_fits_def spro_inv_def)
    have eq: "contents ?q = contents s" "pkg_len ?q = k" "packages ?q = packages s"
      "\<And>p. pack ?q arg p = pack s arg p" "\<And>t. same_object ?q t = same_object s t"
      by (simp_all add: contents_def pack_def same_object_def)
    obtain t where t: "spro_inv t" "same_object s t" "contents t = drop k (contents s)"
        "packages t = packages s @ pack s arg (take k (contents s), True)"
        "sp_timer t = Disarmed" "\<not> timer_opened_flag t"
      and deliver: "ws_deliver arg ?q = (if contents t = [] then Some (t\<lparr>pkg_one_flag := False\<rparr>)
        else if ws_known (contents t ! 0) then Some (ws_wait (t\<lparr>pkg_one_flag := True\<rparr>)) else ws_reject arg t)"
      using ws_deliver_eq [OF q, of arg, unfolded eq] by blast
    have loop: "ws_loop arg s = Option.bind (ws_deliver arg ?q) (ws_loop arg)"
      using flag step Whole by (subst ws_loop.simps) simp
    note after = ws_outcome_after [OF Whole t(2) t(4)]
    consider "contents t = []" | "contents t \<noteq> []" "ws_known (contents t ! 0)"
      | "contents t \<noteq> []" "\<not> ws_known (contents t ! 0)" by blast
    then show ?thesis
    proof cases
      case 1
      have e: "drop k (contents s) = []" using 1 t(3) by simp
      have c: "contents (t\<lparr>pkg_one_flag := False\<rparr>) = []" using 1 by (simp add: contents_def)
      have "ws_outcome t arg (drop k (contents s)) (t\<lparr>pkg_one_flag := False\<rparr>)"
        unfolding e ws_outcome_def c
        using t by (simp add: ws_chop_Wait spro_inv_def same_object_def ws_timer_def)
      with after 1 loop deliver show ?thesis by (auto simp: ws_loop_stop)
    next
      case 2
      let ?w = "ws_wait (t\<lparr>pkg_one_flag := True\<rparr>)"
      have w: "spro_inv ?w" "pkg_one_flag ?w" "contents ?w = contents t" "ws_timer ?w" "same_object t ?w"
        "packages ?w = packages t" "buffer_size ?w = buffer_size s"
        using t by (simp_all add: ws_wait_def startTime_def spro_inv_def contents_def ws_timer_def same_object_def)
      have shorter: "length (contents ?w) < length (contents s)" using w(3) t(3) k inv by simp
      have "ws_fits ?w" unfolding ws_fits_def w(3,7) t(3)
        using less(5) Whole by (auto simp: ws_fits_def dest!: ws_head_Whole)
      from less(1) [OF shorter w(1,2) _ this w(4)] 2(1) w(3) obtain s' where
        "ws_loop arg ?w = Some s'" "ws_outcome ?w arg (contents ?w) s'" by auto
      moreover have "packages ?w = packages s @ pack s arg (take k (contents s), True)" using t(4) w(6) by simp
      ultimately show ?thesis
        using ws_outcome_after [OF Whole same_object_trans [OF t(2) w(5)]] 2 loop deliver w(3) t(3) by auto
    next
      case 3
      have "ws_timer t" using t by (simp add: ws_timer_def)
      from ws_reject_outcome [OF t(1) ws_head_unknown [OF 3] this, of arg] obtain s' where
        s': "ws_reject arg t = Some s'" "ws_outcome t arg (contents t) s'" by blast
      then have "\<not> pkg_one_flag s'" by (simp add: ws_outcome_def)
      with s' after 3 loop deliver t(3) show ?thesis by (auto simp: ws_loop_stop)
    qed
  qed
qed

subsection \<open>One segment\<close>

text \<open>The first frame of the buffer ends in the new segment.\<close>

lemma ws_head_beyond:
  assumes "ws_head b = Wait" and "ws_head (take n (b @ data)) = Whole k"
  shows "length b < k"
proof (rule ccontr)
  assume "\<not> length b < k"
  then have "take k (take n (b @ data)) = take k b"
    using ws_head_Whole [OF assms(2)] by (auto simp: min_def split: if_splits)
  with ws_head_take [OF assms(2)] have "ws_head (take k b) = Whole k" by simp
  from ws_head_append [OF this, of "drop k b"] assms(1) show False by simp
qed

lemma processWebsocketPackage_chop:
  assumes inv: "spro_inv s" and timer: "ws_timer s" and wait: "ws_head (contents s) = Wait"
    and data: "data \<noteq> []" "2 * length data \<le> buffer_size s"
  shows "\<exists>s'. processWebsocketPackage arg data s = Some s' \<and>
    ws_outcome s arg (take (buffer_size s) (contents s @ data)) s'"
proof -
  let ?w = "serverRxWrite data s" and ?c = "take (buffer_size s) (contents s @ data)"
  let ?t = "?w\<lparr>pkg_one_flag := True\<rparr>"
  have w: "spro_inv ?w" "contents ?w = ?c" using serverRxWrite_contents [OF inv] by blast+
  note frame = serverRxWrite_frame [where s = s and data = data]
  have ne: "?c \<noteq> []" using data by (cases "buffer_size s") auto
  have same: "buffer_size ?w = buffer_size s" "\<And>p. pack ?w arg p = pack s arg p"
    using frame(1) by (simp_all add: same_object_def pack_def)
  have t: "spro_inv ?t" "contents ?t = ?c" "buffer_size ?t = buffer_size s" "ws_timer ?t" "same_object s ?t"
    "packages ?t = packages s"
    using w frame timer same by (simp_all add: spro_inv_def contents_def ws_timer_def same_object_def)
  have fits: "ws_fits ?t" unfolding ws_fits_def t(2,3)
  proof (intro allI impI)
    fix k assume "ws_head ?c = Whole k"
    from ws_head_beyond [OF wait this] data(2) show "2 * (length ?c - k) \<le> buffer_size s" by simp
  qed
  have out: "ws_outcome s arg ?c s'" if "ws_outcome u arg ?c s'" "same_object s u" "packages u = packages s" for u s'
  proof -
    have "pack u arg = pack s arg" using pack_same [OF that(2)] by blast
    with that show ?thesis by (auto simp: ws_outcome_def intro: same_object_trans)
  qed
  have rd: "rd 0 ?w = Some (?c ! 0)" using rd_contents [OF w(1), of 0] ne unfolding w(2) by blast
  show ?thesis
  proof (cases "ws_known (?c ! 0)")
    case True
    then have "processWebsocketPackage arg data s = ws_loop arg ?t"
      by (simp add: processWebsocketPackage_def rd)
    moreover from ws_loop_chop [OF t(1) _ _ fits t(4)] ne t(2) obtain s' where
      "ws_loop arg ?t = Some s'" "ws_outcome ?t arg ?c s'" by auto
    ultimately show ?thesis using out [OF _ t(5,6), of s'] by (intro exI [of _ s']) simp
  next
    case False
    have wt: "ws_timer ?w" using timer frame by (simp add: ws_timer_def)
    have "ws_head (contents ?w) = Bad" using ws_head_unknown [OF ne False] w(2) by simp
    from ws_reject_outcome [OF w(1) this wt, of arg] w(2) obtain s' where
      s': "ws_reject arg ?w = Some s'" "ws_outcome ?w arg ?c s'" by auto
    then have "processWebsocketPackage arg data s = Some s'" using False
      by (simp add: processWebsocketPackage_def rd ws_loop_stop ws_outcome_def)
    with s' out [OF s'(2) frame(1,2)] show ?thesis by blast
  qed
qed

lemma ws_segment:
  assumes "pkg_type s = SPRO_PKG_TYPE_WEBSOCKET13" "spro_inv s" "ws_timer s" "ws_head (contents s) = Wait"
    and "data \<noteq> []" "2 * length data \<le> buffer_size s"
    and "ws_chop (take (buffer_size s) (contents s @ data)) = (ps, r)"
  shows "\<exists>s'. spTcpRecv (Some s) arg (Some data) = Some (Some s') \<and> spro_inv s' \<and> ws_timer s' \<and>
    same_object s s' \<and> packages s' = packages s @ concat (map (pack s arg) ps) \<and> contents s' = r \<and> ws_head r = Wait \<and>
    ((\<forall>p \<in> set ps. snd p) \<longrightarrow> (timer_opened_flag s' \<longleftrightarrow> r \<noteq> []))"
proof -
  let ?s = "s\<lparr>sp_arg := arg\<rparr>"
  have "spro_inv ?s" "ws_timer ?s" "contents ?s = contents s" "\<And>p. pack ?s arg p = pack s arg p"
    using assms(2,3) by (simp_all add: spro_inv_def ws_timer_def contents_def pack_def)
  with processWebsocketPackage_chop [of ?s data arg] assms(4-6) obtain s' where
    "processWebsocketPackage arg data ?s = Some s'"
    "ws_outcome ?s arg (take (buffer_size s) (contents s @ data)) s'" by auto
  moreover have "ws_head r = Wait" using ws_chop_rest [of "take (buffer_size s) (contents s @ data)"] assms(7) by simp
  moreover have "pack ?s arg = pack s arg" by (simp add: pack_def fun_eq_iff)
  ultimately show ?thesis using assms(1,7) by (simp add: spTcpRecv_def ws_outcome_def same_object_def)
qed



end
