(* ===== verification/SproStream.thy ===== *)
theory SproStream
  imports SproWs
begin

text \<open>
  Streams of WebSocket messages over several segments: complete and in order when messages and
  segments are at most half of the buffer, an overrun of the buffer when more than half of it
  follows a message in one segment.
\<close>

subsection \<open>Messages as the server sends them\<close>

definition ws_message :: "u8 \<times> bytes \<Rightarrow> bool" where
  "ws_message m \<longleftrightarrow> fst m \<in> {0x81, 0x82} \<and> length (snd m) < 65536 \<or> fst m \<in> {0x89, 0x8a} \<and> snd m = []"

definition ws_encode :: "u8 \<times> bytes \<Rightarrow> bytes" where
  "ws_encode m =
     (let n = length (snd m) in
      fst m # (if n \<le> 125 then [word_of_nat n] else [126, word_of_nat (n div 256), word_of_nat (n mod 256)]) @ snd m)"

lemma unat_byte: "n < 256 \<Longrightarrow> unat (word_of_nat n :: u8) = n"
  by (simp add: unat_of_nat take_bit_eq_mod)

lemma ws_head_encode:
  assumes "ws_message m"
  shows "ws_head (ws_encode m) = Whole (length (ws_encode m))"
proof -
  obtain op payload where m: "m = (op, payload)" by fastforce
  show ?thesis
  proof (cases "length payload \<le> 125")
    case True
    then have "unat (word_of_nat (length payload) :: u8) = length payload" by (intro unat_byte) simp
    with assms True show ?thesis by (auto simp: m ws_message_def ws_encode_def ws_head_def)
  next
    case False
    then have "op \<in> {0x81, 0x82}" and n: "length payload < 65536" using assms by (auto simp: m ws_message_def)
    moreover have "unat (word_of_nat (length payload div 256) :: u8) = length payload div 256"
      and "unat (word_of_nat (length payload mod 256) :: u8) = length payload mod 256"
      using n by (intro unat_byte, simp)+
    ultimately show ?thesis using False
      by (simp add: m ws_encode_def ws_head_def Let_def)
  qed
qed

subsection \<open>Frames in a byte sequence\<close>

definition whole_frame :: "bytes \<Rightarrow> bool" where
  "whole_frame f \<longleftrightarrow> ws_head f = Whole (length f)"

lemma whole_frame_ne: "whole_frame f \<Longrightarrow> f \<noteq> []"
  by (auto simp: whole_frame_def)

lemma ws_chop_frame:
  assumes "whole_frame f"
  shows "ws_chop (f @ c) = ((f, True) # fst (ws_chop c), snd (ws_chop c))"
  using ws_chop_Whole [OF ws_head_append [of f "Whole (length f)" c]] assms by (simp add: whole_frame_def)

text \<open>A prefix that does not reach the end of the first frame waits.\<close>

lemma ws_head_inside:
  assumes "whole_frame f" "c @ d = f @ x" "length c < length f"
  shows "ws_head c = Wait"
proof (rule ccontr)
  assume "ws_head c \<noteq> Wait"
  from ws_head_append [OF refl this, of d] have "ws_head c = ws_head (f @ x)" using assms(2) by simp
  also have "\<dots> = Whole (length f)" using assms(1) by (intro ws_head_append) (simp_all add: whole_frame_def)
  finally show False using ws_head_Whole assms(3) by fastforce
qed

lemma ws_chop_prefix:
  assumes "\<forall>f \<in> set fs. whole_frame f" and "c @ d = concat fs"
  shows "\<exists>fs1 fs2. fs = fs1 @ fs2 \<and> fst (ws_chop c) = map (\<lambda>f. (f, True)) fs1 \<and> snd (ws_chop c) @ d = concat fs2"
  using assms
proof (induction fs arbitrary: c)
  case Nil
  then show ?case by (simp add: ws_chop_Wait)
next
  case (Cons f fs)
  have f: "whole_frame f" and fs: "\<forall>f \<in> set fs. whole_frame f" and cat: "c @ d = f @ concat fs"
    using Cons.prems by simp_all
  show ?case
  proof (cases "length c < length f")
    case True
    with ws_head_inside [OF f cat] have "ws_chop c = ([], c)" by (simp add: ws_chop_Wait)
    with Cons.prems(2) show ?thesis by (intro exI [of _ "[]"] exI [of _ "f # fs"]) simp
  next
    case False
    with cat obtain c' where c: "c = f @ c'" and "c' @ d = concat fs"
      by (auto simp: append_eq_append_conv2)
    from Cons.IH [OF fs this(2)] obtain fs1 fs2 where
      "fs = fs1 @ fs2" "fst (ws_chop c') = map (\<lambda>f. (f, True)) fs1" "snd (ws_chop c') @ d = concat fs2"
      by blast
    then show ?thesis unfolding c ws_chop_frame [OF f]
      by (intro exI [of _ "f # fs1"] exI [of _ fs2]) simp
  qed
qed

subsection \<open>Segments\<close>

lemma ws_stream:
  assumes "pkg_type s = SPRO_PKG_TYPE_WEBSOCKET13" "spro_inv s" "ws_timer s" "ws_head (contents s) = Wait"
    and "timer_opened_flag s \<longleftrightarrow> contents s \<noteq> []"
    and "\<forall>f \<in> set fs. whole_frame f \<and> 2 * length f \<le> buffer_size s"
    and "\<forall>g \<in> set gs. g \<noteq> [] \<and> 2 * length g \<le> buffer_size s"
    and "contents s @ concat gs = concat fs"
  shows "\<exists>s'. spTcpRecvAll arg gs (Some s) = Some (Some s') \<and> contents s' = [] \<and> spro_inv s' \<and> ws_timer s' \<and>
    \<not> timer_opened_flag s' \<and> packages s' = packages s @ concat (map (\<lambda>f. pack s arg (f, True)) fs)"
  using assms
proof (induction gs arbitrary: s fs)
  case Nil
  have "fs = []"
  proof (cases fs)
    case (Cons f fs')
    with Nil.prems have f: "whole_frame f" and c: "contents s = f @ concat fs'" by simp_all
    then have "ws_head (contents s) = Whole (length f)" unfolding c
      by (intro ws_head_append) (simp_all add: whole_frame_def)
    with Nil.prems(4) show ?thesis by simp
  qed
  with Nil.prems show ?case by simp
next
  case (Cons g gs)
  let ?n = "buffer_size s" and ?c = "contents s @ g"
  have cat: "?c @ concat gs = concat fs" using Cons.prems(8) by simp
  have frames: "\<forall>f \<in> set fs. whole_frame f" using Cons.prems(6) by blast
  have g: "g \<noteq> []" "2 * length g \<le> ?n" using Cons.prems(7) by simp_all
  have "fs \<noteq> []" using cat g(1) by auto
  then obtain f fs' where fs: "fs = f # fs'" by (cases fs) auto
  have f: "whole_frame f" "2 * length f \<le> ?n" using Cons.prems(6) fs by simp_all
  have "length (contents s) < length f"
  proof (rule ccontr)
    assume "\<not> length (contents s) < length f"
    with cat fs obtain x where "contents s = f @ x" by (auto simp: append_eq_append_conv2)
    then have "ws_head (contents s) = Whole (length f)"
      using f(1) by (simp add: ws_head_append whole_frame_def)
    with Cons.prems(4) show False by simp
  qed
  with f(2) g(2) have all: "take ?n ?c = ?c" by simp
  from ws_chop_prefix [OF frames cat] obtain fs1 fs2 where
    fs12: "fs = fs1 @ fs2" and ps: "fst (ws_chop ?c) = map (\<lambda>f. (f, True)) fs1"
    and rest: "snd (ws_chop ?c) @ concat gs = concat fs2" by blast
  have "ws_chop (take ?n ?c) = (map (\<lambda>f. (f, True)) fs1, snd (ws_chop ?c))"
    unfolding all using ps by (metis prod.collapse)
  from ws_segment [OF Cons.prems(1-4) g this, of arg] obtain t where
    t: "spTcpRecv (Some s) arg (Some g) = Some (Some t)" "spro_inv t" "ws_timer t"
      "packages t = packages s @ concat (map (pack s arg) (map (\<lambda>f. (f, True)) fs1))"
      "contents t = snd (ws_chop ?c)" "ws_head (contents t) = Wait"
      "timer_opened_flag t \<longleftrightarrow> contents t \<noteq> []" and same: "same_object s t"
    by auto
  have eq: "pkg_type t = SPRO_PKG_TYPE_WEBSOCKET13" "buffer_size t = ?n" "pack t arg = pack s arg"
    using same Cons.prems(1) by (simp_all add: same_object_def pack_def fun_eq_iff)
  have "\<exists>s'. spTcpRecvAll arg gs (Some t) = Some (Some s') \<and> contents s' = [] \<and> spro_inv s' \<and> ws_timer s' \<and>
    \<not> timer_opened_flag s' \<and> packages s' = packages t @ concat (map (\<lambda>f. pack t arg (f, True)) fs2)"
    using Cons.prems(6,7) fs12 rest unfolding t(5) [symmetric]
    by (intro Cons.IH [OF eq(1) t(2,3,6,7)]) (simp_all add: eq)
  then show ?case using t(1,4) eq(3) fs12 by (auto simp: comp_def)
qed



subsection \<open>A segment that overruns the buffer\<close>

text \<open>
  when a segment that fits in the empty buffer brings a whole message followed by more than
  half a buffer of further bytes, removing the message clears memory behind the buffer: the run
  is undefined.
\<close>

theorem ws_burst_overruns:
  assumes "pkg_type s = SPRO_PKG_TYPE_WEBSOCKET13" "spro_inv s" "buffer_index s = 0"
    and "ws_message m" "length (ws_encode m @ more_bytes) \<le> buffer_size s"
    and "2 * length more_bytes > buffer_size s"
  shows "spTcpRecv (Some s) arg (Some (ws_encode m @ more_bytes)) = None"
proof -
  let ?f = "ws_encode m" and ?c = "ws_encode m @ more_bytes"
  let ?s = "s\<lparr>sp_arg := arg\<rparr>"
  let ?w = "serverRxWrite ?c ?s"
  let ?t = "?w\<lparr>pkg_one_flag := True\<rparr>"
  have inv: "spro_inv ?s" "contents ?s = []" using assms(2,3) by (simp_all add: spro_inv_def contents_def)
  have w: "spro_inv ?w" "contents ?w = ?c" using serverRxWrite_contents [OF inv(1), of ?c] inv(2) assms(5) by simp_all
  have size: "buffer_size ?w = buffer_size s"
    using serverRxWrite_frame(1) [where s = ?s and data = ?c] by (simp add: same_object_def)
  have t: "spro_inv ?t" "contents ?t = ?c" using w by (simp_all add: spro_inv_def contents_def)
  have head: "ws_head ?c = Whole (length ?f)"
    using ws_head_encode [OF assms(4)] by (intro ws_head_append) simp_all
  have ne: "?c \<noteq> []" using head by auto
  have known: "ws_known (?c ! 0)" using assms(4) by (auto simp: ws_message_def ws_encode_def ws_known_def Let_def)
  let ?q = "?t\<lparr>pkg_one_flag := True, pkg_len := length ?f, sp_timer := Disarmed, timer_opened_flag := False\<rparr>"
  let ?u = "run_cb arg (rxbuf ?q) (pkg_len ?q) (pkg_one_flag ?q) ?q"
  have u: "spro_inv ?u" "pkg_len ?u = length ?f" "buffer_index ?u = length ?c" "buffer_size ?u = buffer_size s"
    using w length_contents [OF w(1)] size by (auto simp: run_cb_def spro_inv_def split: option.splits)
  have "0 < length ?f" using ws_head_Whole [OF head] by linarith
  moreover have "0 < length more_bytes" using assms(6) by linarith
  ultimately have "serverRxRead ?u = None"
    using assms(6) by (intro serverRxRead_overrun [OF u(1)]; unfold u(2-4)) simp_all
  then have "ws_deliver arg (?t\<lparr>pkg_one_flag := True, pkg_len := length ?f\<rparr>) = None"
    by (simp add: ws_deliver_def)
  then have "ws_loop arg ?t = None"
    using ws_measure_eq [OF t(1), of arg] ne t(2) head by (subst ws_loop.simps) simp
  moreover have "rd 0 ?w = Some (?c ! 0)" using rd_contents [OF w(1), of 0] ne unfolding w(2) by blast
  ultimately show ?thesis using assms(1) known by (simp add: spTcpRecv_def processWebsocketPackage_def)
qed

theorem ws_burst_overruns_witness:
  "spTcpRecv (spCreateObject True SPRO_PKG_TYPE_WEBSOCKET13 (Some 3) 2048) 7
     (Some (ws_encode (0x81, [104, 105]) @ replicate 1025 0x81)) = None"
proof -
  let ?s = "the (spCreateObject True SPRO_PKG_TYPE_WEBSOCKET13 (Some 3) 2048)"
  have "spTcpRecv (Some ?s) 7 (Some (ws_encode (0x81, [104, 105]) @ replicate 1025 0x81)) = None"
    by (rule ws_burst_overruns) (simp_all add: spCreateObject_def spro_inv_def ws_message_def ws_encode_def)
  then show ?thesis by (simp add: spCreateObject_def)
qed

end
