(* ===== verification/SproHttp.thy ===== *)
theory SproHttp
  imports SproWs
begin

text \<open>
  HTTP messages through the packet assembler: a message with a \<open>Content-Length\<close> arrives whole
  whatever the segmentation; a negative length makes the loop of \<open>processHTTPPackage\<close> endless.
\<close>

subsection \<open>Searching the buffer\<close>

lemma c_strstr_pattern:
  assumes "c \<notin> set xs" shows "c_strstr (xs @ (c # t) @ ys) (c # t) = Some (length xs)"
  using assms
proof (induction xs)
  case Nil
  then show ?case by simp
next
  case (Cons x xs)
  then have "take (length (c # t)) ((x # xs) @ (c # t) @ ys) \<noteq> c # t" by auto
  with Cons show ?case by simp
qed

lemma c_string_prefix: "0 \<notin> set xs \<Longrightarrow> c_string (xs @ ys) = xs @ c_string ys"
  by (induction xs) (simp_all add: c_string_def)

lemma indexOf_prefix:
  assumes "0 \<notin> set xs" and "c_strstr xs t = Some i"
  shows "indexOf (xs @ ys) t = Some (int i)"
  using c_strstr_append [OF assms(2)] assms(1) by (simp add: indexOf_def c_string_prefix)

lemma indexOf_absent:
  assumes "0 \<notin> set xs" and "c_strstr xs t = None" and "0 < n"
  shows "indexOf (xs @ replicate n 0) t = Some (-1)"
  using assms by (cases n) (simp_all add: indexOf_def c_string_prefix, simp_all add: c_string_def)

subsection \<open>Message heads\<close>

text \<open>
  \<open>http_header H v\<close>: the text \<open>H\<close> ends in its first empty line, and \<open>atoi\<close> reads \<open>v\<close> behind the
  first \<open>Content-Length\<close>.
\<close>

definition http_header :: "bytes \<Rightarrow> int \<Rightarrow> bool" where
  "http_header H v \<longleftrightarrow> 0 \<notin> set H \<and> 4 \<le> length H \<and> c_strstr H (CRLF @ CRLF) = Some (length H - 4) \<and>
     (\<exists>p num post. c_strstr H CONTENT_LENGTH_IS = Some p \<and> drop (p + 16) H = num @ CRLF @ post \<and>
        13 \<notin> set num \<and> length num \<le> 10 \<and> atoi (str_of num) = Some v)"

lemma http_header_end:
  assumes "http_header H v" shows "indexOf (H @ x) (CRLF @ CRLF) = Some (int (length H) - 4)"
  using assms indexOf_prefix [of H "CRLF @ CRLF" "length H - 4" x] by (simp add: http_header_def of_nat_diff)

lemma length_key: "length CONTENT_LENGTH_IS = 16" "length CONTENT_LENGTH = 14"
  "CONTENT_LENGTH_IS = CONTENT_LENGTH @ [58, 32]"
  by (simp_all add: CONTENT_LENGTH_IS_def CONTENT_LENGTH_def bytes_of_def)

lemma c_strstr_shorter:
  "c_strstr s (t @ u) = Some i \<Longrightarrow> \<exists>j. c_strstr s t = Some j \<and> j \<le> i"
proof (induction s arbitrary: i)
  case Nil
  then show ?case by (simp split: if_splits)
next
  case (Cons x xs)
  show ?case
  proof (cases "take (length t) (x # xs) = t")
    case False
    have "take (length (t @ u)) (x # xs) \<noteq> t @ u"
    proof
      assume "take (length (t @ u)) (x # xs) = t @ u"
      then have "take (length t) (take (length (t @ u)) (x # xs)) = t" by simp
      with False show False by (simp add: min_def)
    qed
    with Cons.prems obtain j where "c_strstr xs (t @ u) = Some j" "i = Suc j" by auto
    with Cons.IH [of j] False show ?thesis by auto
  qed simp
qed

lemma http_header_key:
  assumes "http_header H v"
  obtains j where "indexOf (H @ x) CONTENT_LENGTH = Some (int j)" "j + 14 \<le> length H" "j \<le> length H - 4"
proof -
  from assms obtain p where p: "c_strstr H (CONTENT_LENGTH @ [58, 32]) = Some p" and z: "0 \<notin> set H"
    by (auto simp: http_header_def length_key(3))
  from c_strstr_shorter [OF p] obtain j where j: "c_strstr H CONTENT_LENGTH = Some j" by blast
  with c_strstr_bound [OF j] indexOf_prefix [OF z j] that show ?thesis by (simp add: length_key)
qed

lemma str_of_stop: "0 \<notin> set xs \<Longrightarrow> str_of (xs @ 0 # ys) = str_of xs"
  by (induction xs) (simp_all add: str_of_def)

lemma charToNum_header:
  assumes "http_header H v" and buf: "rxbuf s = H @ x" and zero: "0 \<in> set x"
  shows "charToNum s CONTENT_LENGTH_IS CRLF = Some v"
proof -
  from assms(1) obtain p num post where z: "0 \<notin> set H" and p: "c_strstr H CONTENT_LENGTH_IS = Some p"
    and d: "drop (p + 16) H = num @ CRLF @ post" and num: "13 \<notin> set num" "length num \<le> 10"
    and v: "atoi (str_of num) = Some v" unfolding http_header_def by blast
  have le: "p + 16 \<le> length H" using c_strstr_bound [OF p] by (simp add: length_key)
  have tail: "drop (p + 16) (H @ x) = num @ CRLF @ post @ x" using d le by simp
  have "set num \<subseteq> set H" using d by (metis set_append set_drop_subset subset_trans sup.cobounded1)
  then have zn: "0 \<notin> set num" using z by blast
  have "length num + 2 + (p + 16) \<le> length H"
    using arg_cong [OF d, of length] le by (simp add: CRLF_def)
  then have fits: "p + 16 + length num \<le> length H" by simp
  have i1: "indexOf (H @ x) CONTENT_LENGTH_IS = Some (int p)" by (rule indexOf_prefix [OF z p])
  have "c_strstr (num @ CRLF) CRLF = Some (length num)"
    using c_strstr_pattern [OF num(1), of "[10]" "[]"] by (simp add: CRLF_def)
  moreover have "0 \<notin> set (num @ CRLF)" using zn by (simp add: CRLF_def)
  ultimately have i2: "indexOf (drop (p + 16) (H @ x)) CRLF = Some (int (length num))"
    using indexOf_prefix [of "num @ CRLF" CRLF "length num" "post @ x"] tail by simp
  have n: "c_strlen (H @ x) = Some (length H + length (c_string x))"
    using zero z by (simp add: c_strlen_def c_string_prefix)
  have cut: "take (length num) (drop (p + 16) (H @ x)) = num" unfolding tail by simp
  have "subString (replicate 30 0) (H @ x) (p + 16) (p + 16 + length num) =
      Some (num @ 0 # drop (Suc (length num)) (replicate 30 0))"
    using fits num(2) cut unfolding subString_def n by simp
  moreover have "nat (int p + int (length CONTENT_LENGTH_IS)) = p + 16" by (simp add: length_key)
  moreover have "nat (int (length num) + (int p + int (length CONTENT_LENGTH_IS))) = p + 16 + length num"
    by (simp add: length_key)
  ultimately show ?thesis using i2 num(2) v zn by (simp add: charToNum_def buf i1 str_of_stop)
qed

lemma http_measure_header:
  assumes "http_header H v" and "rxbuf s = H @ x" and "0 \<in> set x" and "length H < 32768"
    and "-32768 \<le> v" "v < 32768"
  shows "http_measure (int (length H) - 4) s =
    Some (if v \<le> int (buffer_index s) - int (length H)
          then s\<lparr>pkg_one_flag := True, pkg_len := to_u16 (v + int (length H))\<rparr>
          else s\<lparr>pkg_one_flag := False\<rparr>)"
proof -
  obtain j where j: "indexOf (H @ x) CONTENT_LENGTH = Some (int j)" "j + 14 \<le> length H" "j \<le> length H - 4"
    using http_header_key [OF assms(1)] by blast
  have "to_s16 (int j) = int j" using j(2) assms(4) by (intro to_s16_small) simp_all
  moreover have "\<not> int (length H) - 4 < int j" using j(2) by linarith
  moreover have "to_s16 v = v" using assms(5,6) by (rule to_s16_small)
  ultimately show ?thesis
    using http_header_end [OF assms(1), of x] charToNum_header [OF assms(1-3)]
    by (simp add: http_measure_def assms(2) j(1) Let_def serverRxAvailable_def algebra_simps)
qed

subsection \<open>One segment\<close>

text \<open>Behind the received bytes the buffer is clear, so that it holds a C string.\<close>

definition http_clean :: "spro \<Rightarrow> bool" where
  "http_clean s \<longleftrightarrow> spro_inv s \<and> rxbuf s = contents s @ replicate (buffer_size s - buffer_index s) 0"

lemma serverRxWrite_clean:
  assumes "http_clean s" and "buffer_index s + length data \<le> buffer_size s"
  shows "http_clean (serverRxWrite data s)"
  using assms
proof (induction data s rule: serverRxWrite.induct)
  case (1 s)
  then show ?case by simp
next
  case (2 b bs s)
  let ?t = "s\<lparr>rxbuf := (rxbuf s)[buffer_index s := b], buffer_index := to_u16 (int (buffer_index s) + 1)\<rparr>"
  have lt: "buffer_index s < buffer_size s" and inv: "spro_inv s" using 2(2,3) by (simp_all add: http_clean_def)
  then have i: "to_u16 (int (buffer_index s) + 1) = Suc (buffer_index s)"
    by (simp add: to_u16_add1 spro_inv_def)
  let ?z = "buffer_size s - buffer_index s"
  have "rxbuf s = contents s @ replicate ?z 0" using 2(2) by (simp add: http_clean_def)
  moreover have "?z = Suc (buffer_size s - Suc (buffer_index s))" using lt by simp
  ultimately have "rxbuf s = contents s @ 0 # replicate (buffer_size s - Suc (buffer_index s)) 0" by simp
  then have buf: "(rxbuf s)[buffer_index s := b] = (contents s @ [b]) @ replicate (buffer_size s - Suc (buffer_index s)) 0"
    using length_contents [OF inv] by (simp add: list_update_append)
  have "contents ?t = contents s @ [b]" unfolding contents_def i
    using buf length_contents [OF inv] by (simp add: contents_def)
  with buf lt inv have "http_clean ?t" by (simp add: http_clean_def spro_inv_def i)
  with 2(1) [OF lt this] 2(3) lt show ?case by (simp add: i)
qed

lemma http_write:
  assumes "http_clean s" and "length (contents s @ data) \<le> buffer_size s"
  shows "http_clean (serverRxWrite data s)" "contents (serverRxWrite data s) = contents s @ data"
    "rxbuf (serverRxWrite data s) = contents s @ data @ replicate (buffer_size s - length (contents s @ data)) 0"
proof -
  have inv: "spro_inv s" using assms(1) by (simp add: http_clean_def)
  have size: "buffer_size (serverRxWrite data s) = buffer_size s"
    using serverRxWrite_frame(1) [where s = s and data = data] by (simp add: same_object_def)
  show c: "http_clean (serverRxWrite data s)" using assms inv by (intro serverRxWrite_clean) simp_all
  show d: "contents (serverRxWrite data s) = contents s @ data"
    using serverRxWrite_contents [OF inv, of data] assms(2) by simp
  have "buffer_index (serverRxWrite data s) = length (contents s @ data)"
    using length_contents c d unfolding http_clean_def by metis
  then show "rxbuf (serverRxWrite data s) = contents s @ data @ replicate (buffer_size s - length (contents s @ data)) 0"
    using c d size by (simp add: http_clean_def)
qed

definition quiet :: "spro \<Rightarrow> spro \<Rightarrow> bool" where
  "quiet s s' \<longleftrightarrow> same_object s s' \<and> packages s' = packages s"

lemma http_clean_cong:
  assumes "http_clean s" "rxbuf t = rxbuf s" "buffer_index t = buffer_index s" "buffer_size t = buffer_size s"
  shows "http_clean t"
proof -
  have "contents t = contents s" using assms(2,3) by (simp only: contents_def)
  with assms show ?thesis unfolding http_clean_def spro_inv_def by metis
qed

lemma http_loop_stop: "http_loop arg (-1) s = Some s"
  by (subst http_loop.simps) simp

text \<open>A part of a message is kept.\<close>

lemma http_partial:
  assumes header: "http_header H (int (length body))" and "http_clean s"
    and c: "contents s @ g @ d = H @ body" "d \<noteq> []"
    and size: "length (H @ body) < buffer_size s" "buffer_size s \<le> 32768"
  shows "\<exists>s'. processHTTPPackage arg g s = Some s' \<and> http_clean s' \<and> contents s' = contents s @ g \<and> quiet s s'"
proof -
  let ?w = "serverRxWrite g s" and ?c = "contents s @ g"
  let ?pad = "replicate (buffer_size s - length ?c) (0 :: u8)"
  have "length ?c + length d = length (H @ body)" unfolding c(1) [symmetric] by simp
  moreover have "0 < length d" using c(2) by simp
  ultimately have len: "length ?c < length (H @ body)" by linarith
  then have fits: "length ?c \<le> buffer_size s" and pad: "0 < buffer_size s - length ?c" using size by linarith+
  note w = http_write [OF assms(2) fits]
  note frame = serverRxWrite_frame [where s = s and data = g]
  have buf: "rxbuf ?w = ?c @ ?pad" using w(3) by simp
  have i: "buffer_index ?w = length ?c" using length_contents [of ?w] w(1,2) by (simp add: http_clean_def)
  have kept: "http_clean t \<and> contents t = ?c \<and> quiet s t"
    if "rxbuf t = rxbuf ?w" "buffer_index t = buffer_index ?w" "same_object ?w t" "packages t = packages ?w" for t
  proof -
    have "http_clean t" using that w(1) by (intro http_clean_cong [of ?w t]) (simp_all add: same_object_def)
    moreover have "contents t = ?c" using that w(2) by (simp only: contents_def)
    moreover have "quiet s t" using that same_object_trans [OF frame(1)] frame(2) by (simp add: quiet_def)
    ultimately show ?thesis by blast
  qed
  have H: "0 \<notin> set H" "4 \<le> length H" and end_at: "c_strstr H (CRLF @ CRLF) = Some (length H - 4)"
    using header by (simp_all add: http_header_def)
  have cat: "?c @ d = H @ body" using c(1) by simp
  show ?thesis
  proof (cases "length ?c < length H")
    case True
    with append_split [OF cat] obtain x where x: "H = ?c @ x" by auto
    have z: "0 \<notin> set ?c" using H(1) unfolding x set_append by blast
    have "length ?c < length H - 4 + length (CRLF @ CRLF)" using True H(2) by (simp add: CRLF_def)
    with c_strstr_before [of ?c x] end_at have "c_strstr ?c (CRLF @ CRLF) = None" unfolding x [symmetric] by blast
    then have absent: "indexOf (rxbuf ?w) (CRLF @ CRLF) = Some (-1)" unfolding buf using z pad by (intro indexOf_absent)
    let ?s' = "if \<not> timer_opened_flag ?w then startTime (?w\<lparr>pkg_one_flag := False, timer_opened_flag := True\<rparr>) else ?w"
    have "to_s16 (-1) = -1" by (simp add: to_s16_small)
    with absent have "processHTTPPackage arg g s = Some ?s'"
      by (simp add: processHTTPPackage_def http_loop_stop Let_def)
    moreover have "http_clean ?s' \<and> contents ?s' = ?c \<and> quiet s ?s'"
      by (rule kept) (simp_all add: startTime_def same_object_def)
    ultimately show ?thesis by blast
  next
    case False
    with append_split [OF cat [symmetric]] obtain x where x: "?c = H @ x" by auto
    have buf': "rxbuf ?w = H @ x @ ?pad" using buf x by simp
    have z: "0 \<in> set (x @ ?pad)" using pad by (cases "buffer_size s - length ?c") auto
    have end_: "indexOf (rxbuf ?w) (CRLF @ CRLF) = Some (int (length H) - 4)"
      unfolding buf' by (rule http_header_end [OF header])
    have s16: "to_s16 (int (length H) - 4) = int (length H) - 4" using size H(2) by (intro to_s16_small) simp_all
    have "http_measure (int (length H) - 4) ?w = Some (?w\<lparr>pkg_one_flag := False\<rparr>)"
      using http_measure_header [OF header buf' z] size len i x by simp
    then have "http_loop arg (int (length H) - 4) ?w = Some (http_wait (?w\<lparr>pkg_one_flag := False\<rparr>))"
      using H(2) by (subst http_loop.simps) simp
    moreover have "int (length H) - 4 \<noteq> -1" using H(2) by linarith
    ultimately have "processHTTPPackage arg g s = Some (http_wait (?w\<lparr>pkg_one_flag := False\<rparr>))"
      using end_ s16 by (simp add: processHTTPPackage_def Let_def)
    moreover have "http_clean (http_wait (?w\<lparr>pkg_one_flag := False\<rparr>)) \<and>
        contents (http_wait (?w\<lparr>pkg_one_flag := False\<rparr>)) = ?c \<and> quiet s (http_wait (?w\<lparr>pkg_one_flag := False\<rparr>))"
      by (rule kept) (simp_all add: http_wait_def startTime_def same_object_def)
    ultimately show ?thesis by blast
  qed
qed

text \<open>The last part completes it.\<close>

lemma http_complete:
  assumes header: "http_header H (int (length body))" and "http_clean s"
    and c: "contents s @ g = H @ body"
    and size: "length (H @ body) < buffer_size s" "buffer_size s \<le> 32768"
  shows "\<exists>s'. processHTTPPackage arg g s = Some s' \<and> http_clean s' \<and> contents s' = [] \<and> same_object s s' \<and>
    packages s' = packages s @ pack s arg (H @ body, True) \<and> sp_timer s' = Disarmed \<and> \<not> timer_opened_flag s'"
proof -
  let ?w = "serverRxWrite g s"
  let ?pad = "replicate (buffer_size s - length (H @ body)) (0 :: u8)"
  have fits: "length (contents s @ g) \<le> buffer_size s" using c size by simp
  note w = http_write [OF assms(2) fits, unfolded c]
  note frame = serverRxWrite_frame [where s = s and data = g]
  have buf: "rxbuf ?w = H @ body @ ?pad" using w(3) c by simp
  have i: "buffer_index ?w = length (H @ body)" using length_contents [of ?w] w(1,2) by (simp add: http_clean_def)
  have same: "buffer_size ?w = buffer_size s" using frame(1) by (simp add: same_object_def)
  have H: "4 \<le> length H" using header by (simp add: http_header_def)
  have z: "0 \<in> set (body @ ?pad)" using size by (cases "buffer_size s - length (H @ body)") auto
  have end_: "indexOf (rxbuf ?w) (CRLF @ CRLF) = Some (int (length H) - 4)"
    unfolding buf by (rule http_header_end [OF header])
  have s16: "to_s16 (int (length H) - 4) = int (length H) - 4" using size H by (intro to_s16_small) simp_all
  let ?m = "?w\<lparr>pkg_one_flag := True, pkg_len := length (H @ body)\<rparr>"
  have u16: "to_u16 (int (length body) + int (length H)) = length (H @ body)"
    using to_u16_small [of "length (H @ body)"] size by (simp add: add.commute)
  have measure: "http_measure (int (length H) - 4) ?w = Some ?m"
    using http_measure_header [OF header buf z] size i u16 by simp
  let ?q = "?m\<lparr>sp_timer := Disarmed, timer_opened_flag := False\<rparr>"
  let ?p = "?q\<lparr>packages := packages s @ pack s arg (H @ body, True)\<rparr>"
  have cb: "run_cb arg (rxbuf ?q) (pkg_len ?q) (pkg_one_flag ?q) ?q = ?p"
    using buf frame by (subst run_cb_pack) (simp_all add: pack_def same_object_def)
  have inv: "spro_inv ?w" using w(1) by (simp only: http_clean_def)
  then have p: "spro_inv ?p" by (simp only: spro_inv_def) simp
  have len: "pkg_len ?p = buffer_index ?p" "pkg_len ?p \<noteq> 0" using i H by auto
  let ?e = "?p\<lparr>buffer_index := 0, rxbuf := replicate (buffer_size s) 0\<rparr>"
  have read: "serverRxRead ?p = Some ?e"
    using len serverRxFlush_eq [OF p] same by (simp add: serverRxRead_def)
  have "indexOf (rxbuf ?e) (CRLF @ CRLF) = Some (-1)"
    using indexOf_absent [of "[]" "CRLF @ CRLF" "buffer_size s"] size by (simp add: CRLF_def)
  then have "http_deliver arg ?m = Some (-1, ?e)"
    unfolding http_deliver_def Let_def cb read by (simp add: serverRxAvailable_def to_s16_small)
  then have "http_loop arg (int (length H) - 4) ?w = Some ?e"
    using H measure by (subst http_loop.simps) (simp add: http_loop_stop)
  moreover have "int (length H) - 4 \<noteq> -1" using H by linarith
  ultimately have "processHTTPPackage arg g s = Some ?e" using end_ s16 by (simp add: processHTTPPackage_def)
  then show ?thesis using frame inv same
    by (intro exI [of _ ?e]) (simp add: same_object_def http_clean_def spro_inv_def contents_def)
qed

subsection \<open>Whole messages\<close>

lemma http_stream:
  assumes header: "http_header H (int (length body))"
    and "pkg_type s \<in> {SPRO_PKG_TYPE_HTTP11, SPRO_PKG_TYPE_IOT_UPGRADE}" "http_clean s"
    and size: "length (H @ body) < buffer_size s" "buffer_size s \<le> 32768"
    and "\<forall>g \<in> set gs. g \<noteq> []" "gs \<noteq> []" "contents s @ concat gs = H @ body"
  shows "\<exists>s'. spTcpRecvAll arg gs (Some s) = Some (Some s') \<and> contents s' = [] \<and> spro_inv s' \<and>
    packages s' = packages s @ pack s arg (H @ body, True) \<and> sp_timer s' = Disarmed"
  using assms(2-)
proof (induction gs arbitrary: s)
  case Nil
  then show ?case by simp
next
  case (Cons g gs)
  let ?s = "s\<lparr>sp_arg := arg\<rparr>"
  have recv: "spTcpRecv (Some s) arg (Some g) = map_option Some (processHTTPPackage arg g ?s)"
    using Cons.prems(1) by (auto simp: spTcpRecv_def)
  have s: "http_clean ?s" using Cons.prems(2) by (rule http_clean_cong) simp_all
  have c: "contents ?s = contents s" and p: "pack ?s arg = pack s arg" by (simp_all add: contents_def pack_def fun_eq_iff)
  show ?case
  proof (cases "gs = []")
    case True
    with Cons.prems(7) c have "contents ?s @ g = H @ body" by simp
    from http_complete [OF header s this, of arg] Cons.prems(3,4) p obtain s' where
      "processHTTPPackage arg g ?s = Some s'" "http_clean s'" "contents s' = []"
      "packages s' = packages s @ pack s arg (H @ body, True)" "sp_timer s' = Disarmed" by auto
    then show ?thesis using True recv by (simp add: http_clean_def)
  next
    case False
    then have d: "concat gs \<noteq> []" using Cons.prems(5) by (cases gs) auto
    have "contents ?s @ g @ concat gs = H @ body" using Cons.prems(7) c by simp
    from http_partial [OF header s this d, of arg] Cons.prems(3,4) obtain t where
      t: "processHTTPPackage arg g ?s = Some t" "http_clean t" "contents t = contents s @ g" "quiet ?s t"
      using c by auto
    then have eq: "pkg_type t = pkg_type s" "buffer_size t = buffer_size s" "packages t = packages s" "pack t arg = pack s arg"
      by (simp_all add: quiet_def same_object_def pack_def fun_eq_iff)
    from Cons.IH [of t] Cons.prems False t(2,3) obtain s' where
      "spTcpRecvAll arg gs (Some t) = Some (Some s')" "contents s' = []" "spro_inv s'"
      "packages s' = packages t @ pack t arg (H @ body, True)" "sp_timer s' = Disarmed"
      unfolding eq by auto
    with recv t(1) eq show ?thesis by simp
  qed
qed

text \<open>
  an HTTP message whose head gives the length of the body is handed over exactly once, whole,
  whatever the segmentation, and then the buffer is empty and the timer stopped, provided the
  buffer is longer than the message.  The same holds for the type of the upgrade download.
\<close>

theorem http_message_delivered:
  assumes "http_header H (int (length body))" "t \<in> {SPRO_PKG_TYPE_HTTP11, SPRO_PKG_TYPE_IOT_UPGRADE}"
    and "length (H @ body) < n" "n \<le> 32768"
    and "\<forall>g \<in> set gs. g \<noteq> []" "concat gs = H @ body"
  shows "\<exists>s. spTcpRecvAll arg gs (spCreateObject True t (Some cb) n) = Some (Some s) \<and>
    packages s = [Package cb arg (H @ body) (length (H @ body)) True] \<and> buffer_index s = 0 \<and> sp_timer s = Disarmed"
proof -
  obtain s where s: "spCreateObject True t (Some cb) n = Some s" by (simp add: spCreateObject_def)
  then have init: "pkg_type s = t" "http_clean s" "contents s = []" "buffer_size s = n" "packages s = []"
    "pkg_proc_cb s = Some cb"
    using assms(4) by (auto simp: spCreateObject_def http_clean_def spro_inv_def contents_def)
  have "gs \<noteq> []" using assms(1,6) by (auto simp: http_header_def)
  then have "\<exists>s'. spTcpRecvAll arg gs (Some s) = Some (Some s') \<and> contents s' = [] \<and> spro_inv s' \<and>
    packages s' = packages s @ pack s arg (H @ body, True) \<and> sp_timer s' = Disarmed"
    using assms init by (intro http_stream) simp_all
  then show ?thesis unfolding s by (auto simp: init pack_def contents_empty)
qed

definition http_example :: bytes where
  "http_example = bytes_of ''HTTP/1.1 200 OK'' @ CRLF @ CONTENT_LENGTH_IS @ bytes_of ''2'' @ CRLF @ CRLF"

theorem http_message_delivered_witness:
  "\<exists>s. spTcpRecvAll 7 [take 20 http_example, drop 20 http_example, [123, 125]]
        (spCreateObject True SPRO_PKG_TYPE_HTTP11 (Some 3) 2048) = Some (Some s) \<and>
    packages s = [Package 3 7 (http_example @ [123, 125]) (length (http_example @ [123, 125])) True] \<and>
    buffer_index s = 0 \<and> sp_timer s = Disarmed"
proof (rule http_message_delivered)
  have "c_strstr http_example CONTENT_LENGTH_IS = Some 17" "drop (17 + 16) http_example = [50] @ CRLF @ CRLF"
    "13 \<notin> set [50 :: u8]" "length [50 :: u8] \<le> 10" "atoi (str_of [50]) = Some (int (length [123 :: u8, 125]))"
    by code_simp+
  moreover have "0 \<notin> set http_example" "4 \<le> length http_example"
    "c_strstr http_example (CRLF @ CRLF) = Some (length http_example - 4)" by code_simp+
  ultimately show "http_header http_example (int (length [123 :: u8, 125]))" unfolding http_header_def by blast
  show "length (http_example @ [123, 125]) < 2048" "\<forall>g \<in> set [take 20 http_example, drop 20 http_example, [123, 125]]. g \<noteq> []"
    by code_simp+
qed simp_all

subsection \<open>A negative length\<close>

text \<open>One round with a length that cancels the head: a packet of no bytes, and nothing removed.\<close>

lemma http_round_empty:
  assumes header: "http_header H (- int (length H))" and buf: "rxbuf s = H @ x" "0 \<in> set x"
    and size: "length H < 32768" and index: "buffer_index s = length H"
  obtains m t where "http_measure (int (length H) - 4) s = Some m" "pkg_one_flag m"
    "http_deliver arg m = Some (int (length H) - 4, t)" "rxbuf t = rxbuf s" "buffer_index t = buffer_index s"
proof -
  have H: "4 \<le> length H" using header by (simp add: http_header_def)
  let ?m = "s\<lparr>pkg_one_flag := True, pkg_len := 0\<rparr>"
  have "to_u16 (- int (length H) + int (length H)) = 0" by (simp add: to_u16_def)
  then have measure: "http_measure (int (length H) - 4) s = Some ?m"
    using http_measure_header [OF header buf size] size index by simp
  have s16: "to_s16 (int (length H) - 4) = int (length H) - 4" using size H by (intro to_s16_small) simp_all
  let ?q = "?m\<lparr>sp_timer := Disarmed, timer_opened_flag := False\<rparr>"
  let ?r = "run_cb arg (rxbuf ?q) (pkg_len ?q) (pkg_one_flag ?q) ?q"
  let ?t = "startTime (?r\<lparr>pkg_one_flag := False\<rparr>)"
  have r: "rxbuf ?r = rxbuf s" "buffer_index ?r = buffer_index s" "pkg_len ?r = 0"
    by (simp_all add: run_cb_def split: option.split)
  have t: "rxbuf ?t = rxbuf s" "buffer_index ?t = buffer_index s" using r(1,2) by (simp_all add: startTime_def)
  have read: "serverRxRead ?r = Some ?r" unfolding serverRxRead_def r(3) by simp
  have again: "indexOf (rxbuf ?t) (CRLF @ CRLF) = Some (int (length H) - 4)"
    unfolding t(1) buf(1) by (rule http_header_end [OF header])
  have "0 < serverRxAvailable ?r" unfolding serverRxAvailable_def r(2) index using H by linarith
  then have "http_deliver arg ?m = Some (int (length H) - 4, ?t)"
    unfolding http_deliver_def Let_def using read again s16 by simp
  then show thesis using that [of ?m ?t] measure t by simp
qed

lemma http_loop_endless:
  assumes header: "http_header H (- int (length H))" and x: "0 \<in> set x" and size: "length H < 32768"
    and "rxbuf s = H @ x" "buffer_index s = length H"
  shows "http_loop arg (int (length H) - 4) s = None"
proof (rule ccontr)
  assume "http_loop arg (int (length H) - 4) s \<noteq> None"
  then obtain y where "http_loop arg (int (length H) - 4) s = Some y" by blast
  then have "\<not> (int (length H) - 4 = int (length H) - 4 \<and> rxbuf s = H @ x \<and> buffer_index s = length H)"
  proof (rule http_loop.raw_induct [where P = "\<lambda>arg temp2 s y.
      \<not> (temp2 = int (length H) - 4 \<and> rxbuf s = H @ x \<and> buffer_index s = length H)", rotated])
    fix loop arg temp2 s y
    assume IH: "\<And>arg temp2 s y. loop arg temp2 s = Some y \<Longrightarrow>
        \<not> (temp2 = int (length H) - 4 \<and> rxbuf s = H @ x \<and> buffer_index s = length H)"
      and body: "(if temp2 = -1 then Some s
        else http_measure temp2 s \<bind> (\<lambda>s. if pkg_one_flag s
          then http_deliver arg s \<bind> (\<lambda>r. loop arg (fst r) (snd r)) else Some (http_wait s))) = Some y"
    show "\<not> (temp2 = int (length H) - 4 \<and> rxbuf s = H @ x \<and> buffer_index s = length H)"
    proof
      assume s: "temp2 = int (length H) - 4 \<and> rxbuf s = H @ x \<and> buffer_index s = length H"
      then obtain m t where "http_measure temp2 s = Some m" "pkg_one_flag m"
        "http_deliver arg m = Some (temp2, t)" "rxbuf t = rxbuf s" "buffer_index t = buffer_index s"
        using http_round_empty [OF header _ x size, of s arg] by metis
      moreover have "temp2 \<noteq> -1" using s header by (auto simp: http_header_def)
      ultimately have "loop arg temp2 t = Some y" using body by simp
      from IH [OF this] s \<open>rxbuf t = rxbuf s\<close> \<open>buffer_index t = buffer_index s\<close> show False by simp
    qed
  qed
  with assms(4,5) show False by blast
qed

text \<open>
  a head with a negative \<open>Content-Length\<close> of its own length makes \<open>spTcpRecv\<close> loop for ever: the
  packet it finds has length 0, so the same head is found again.
\<close>

theorem http_negative_length_loops:
  assumes "http_header H (- int (length H))" "t \<in> {SPRO_PKG_TYPE_HTTP11, SPRO_PKG_TYPE_IOT_UPGRADE}"
    and "length H < n" "n \<le> 32768"
  shows "spTcpRecv (spCreateObject True t cb n) arg (Some H) = None"
proof -
  obtain s where s: "spCreateObject True t cb n = Some s" by (simp add: spCreateObject_def)
  let ?s = "s\<lparr>sp_arg := arg\<rparr>"
  let ?w = "serverRxWrite H ?s" and ?x = "replicate (n - length H) (0 :: u8)"
  have init: "pkg_type s = t" "http_clean ?s" "contents ?s = []" "buffer_size ?s = n"
    using assms(4) s by (auto simp: spCreateObject_def http_clean_def spro_inv_def contents_def)
  have buf: "rxbuf ?w = H @ ?x" and w: "http_clean ?w" "contents ?w = H"
    using http_write [OF init(2), of H] init(3,4) assms(3) by simp_all
  have index: "buffer_index ?w = length H" using length_contents [of ?w] w by (simp add: http_clean_def)
  have x: "0 \<in> set ?x" using assms(3) by (cases "n - length H") auto
  have H: "4 \<le> length H" using assms(1) by (simp add: http_header_def)
  have s16: "to_s16 (int (length H) - 4) = int (length H) - 4" using assms(3,4) H by (intro to_s16_small) simp_all
  have "http_loop arg (int (length H) - 4) ?w = None"
    using assms(3,4) by (intro http_loop_endless [OF assms(1) x _ buf index]) simp
  moreover have "indexOf (rxbuf ?w) (CRLF @ CRLF) = Some (int (length H) - 4)"
    unfolding buf by (rule http_header_end [OF assms(1)])
  moreover have "int (length H) - 4 \<noteq> -1" using H by linarith
  ultimately have "processHTTPPackage arg H ?s = None" using s16 by (simp add: processHTTPPackage_def Let_def)
  then show ?thesis using assms(2) init(1) by (auto simp: spTcpRecv_def s)
qed

theorem http_negative_length_loops_witness:
  "spTcpRecv (spCreateObject True SPRO_PKG_TYPE_HTTP11 (Some 3) 2048) 7
     (Some (CONTENT_LENGTH_IS @ bytes_of ''-23'' @ CRLF @ CRLF)) = None"
proof (rule http_negative_length_loops)
  let ?H = "CONTENT_LENGTH_IS @ bytes_of ''-23'' @ CRLF @ CRLF"
  have "c_strstr ?H CONTENT_LENGTH_IS = Some 0" "drop (0 + 16) ?H = bytes_of ''-23'' @ CRLF @ CRLF"
    "13 \<notin> set (bytes_of ''-23'')" "length (bytes_of ''-23'') \<le> 10" "atoi (str_of (bytes_of ''-23'')) = Some (- int (length ?H))"
    by code_simp+
  moreover have "0 \<notin> set ?H" "4 \<le> length ?H" "c_strstr ?H (CRLF @ CRLF) = Some (length ?H - 4)" by code_simp+
  ultimately show "http_header ?H (- int (length ?H))" unfolding http_header_def by blast
  show "length ?H < 2048" by code_simp
qed simp_all

end
