(* ===== verification/Net.thy ===== *)
theory Net
  imports FwPrelude
begin

text \<open>
  What the network components of the firmware share: the device mode and the random delays of
  \<open>app/user/iotgo_global.c\<close>, the message queues of the two SDK tasks, and the state of
  \<open>iotgo_wifi.c\<close> and \<open>iotgo_core.c\<close>, kept in one record because both post to the same queue.

  Calls of components that are not part of this state (the distributor request, the server
  connection, setting and upgrade, the SDK) are recorded in \<open>calls\<close>, in order; what they cause
  later comes back as messages.  Values read from the SDK (\<open>rand\<close>, the time, the state of the
  station) are arguments of the functions that read them.
\<close>

subsection \<open>Messages and modes\<close>

datatype IoTgoSignalSet =
  MSG_CORE_JOIN_AP | MSG_CORE_AP_JOINED | MSG_CORE_JOIN_AP_ERR
| MSG_CORE_SERVER_CONNECTED | MSG_CORE_SERVER_DISCONNECTED | MSG_CORE_CONNECT_SERVER
| MSG_CORE_RECONNECT_SERVER | MSG_CORE_CONNECT_SERVER_ERR | MSG_CORE_CONNECT_SERVER_AGAIN
| MSG_CORE_DISTRIBUTOR | MSG_CORE_DISTRIBUTOR_FINISHED
| MSG_CORE_WS_CONNECTED | MSG_CORE_WS_CONNECT
| MSG_CORE_REGISTER | MSG_CORE_REGISTERED | MSG_CORE_REGISTER_ERR | MSG_CORE_DATE | MSG_CORE_DATE_OK
| MSG_CORE_SEND_JSON | MSG_CORE_SEND_JSON_AGAIN | MSG_CORE_SEND_JSON_FINISHED
| MSG_CORE_REDIRECT | MSG_CORE_NOTIFY_CONFIG
| SIG_DEVICE_UPDATE_BY_LOCAL | SIG_DEVICE_UPDATE_BY_TIMER | SIG_DEVICE_UPDATE_BY_REMOTE
| SIG_DEVICE_UPDATE | SIG_DEVICE_UPDATE_OK | SIG_DEVICE_QUERY | SIG_DEVICE_QUERY_OK
| SIG_DEVICE_QUERY_UPDATE_BY_REMOTE | SIG_DEVICE_ENTER_TEST | SIG_DEVICE_EXIT_TEST
| SIG_DEVICE_LOCAL_EVENT | SIG_DEVICE_READYED | SIG_DEVICE_TRANSPARENT_UPDATE
| MSG_CORE_WS_PING | MSG_CORE_WS_PING_OK
| MSG_CORE_ENTER_SETTING_MODE | MSG_CORE_EXIT_SETTING_MODE | MSG_CORE_SETTING_RESP_TO_APP
| MSG_CORE_SETTING_SEND_ID_TO_APP | MSG_CORE_SETTING_SC_START | MSG_CORE_SETTING_SC_STOP
| MSG_CORE_SETTING_SC_RESTART | MSG_CORE_ENTER_SETTING_SELFAP_MODE | MSG_CORE_EXIT_SETTING_SELFAP_MODE
| MSG_CORE_UPGRADE_ENTER | MSG_CORE_UPGRADE_EXIT | MSG_CORE_GET_UPGRADE_DATA
| MSG_CORE_UPGRADE_RECONNECT_AGAIN
| SIG_DEVICE_USER1 | SIG_DEVICE_USER2 | SIG_DEVICE_USER3
| SIG_DEVICE_UPDATE_TIMER \<comment> \<open>a macro of \<open>FWTRX_TC.c\<close>\<close>

datatype IoTgoDeviceMode =
  DEVICE_MODE_START | DEVICE_MODE_WORK_AP_ERR | DEVICE_MODE_WORK_AP_OK | DEVICE_MODE_WORK_INIT
| DEVICE_MODE_WORK_NORMAL | DEVICE_MODE_SETTING | DEVICE_MODE_FACTORY | DEVICE_MODE_UPGRADE
| DEVICE_MODE_SETTING_SELFAP | DEVICE_MODE_INVALID

text \<open>The states of the station that the SDK reports.\<close>

datatype station =
  STATION_IDLE | STATION_CONNECTING | STATION_WRONG_PASSWORD | STATION_NO_AP_FOUND
| STATION_CONNECT_FAIL | STATION_GOT_IP

text \<open>The calls of other components.\<close>

datatype net_call =
  StartDistorRequest | StopDistorRequest | PconnInit | PconnConnect | PconnDisconnect
| PconnSwitchToWebSocket | PconnDeviceRegister | PconnDeviceDate | PconnSendJson | PconnSendJsonAgain
| PconnSendNextJson nat | QueueDeleteAll | QueueAddPing bytes | SendError0
| UpgradeStart | UpgradeStop nat | UpgradeReconnect | UpgradeDownload
| SettingTimeoutMonitorStart | SettingTimeoutMonitorStop | SettingSmartConfigStart
| SettingSmartConfigStop | SettingServerStart | SettingServerStop | SettingSendDeviceInfoToApp
| SettingSendRespToApp nat | EnterEsptouchCallback | ExitEsptouchCallback | EnterApCallback
| ExitApCallback | WifiDisconnect | WifiSetConfig | WifiConnect | WifiSetOpmode nat
| StartTimeService

datatype join_cb = JoinTimerCallback | JoinStage2

subsection \<open>State\<close>

record net =
  device_mode :: IoTgoDeviceMode
  core_q :: "(IoTgoSignalSet \<times> nat) list"
  device_q :: "(IoTgoSignalSet \<times> nat) list"
  calls :: "net_call list"
  \<comment> \<open>\<open>iotgo_wifi.c\<close>\<close>
  join_ap_timer :: os_timer
  join_ap_cb :: join_cb
  listen_rssi_timer :: os_timer
  join_counter :: nat
  iotgo_device_rssi :: int
  json_int_rssi :: int
  iotgo_wifi_rssi :: int
  rssi_queue :: "int list"
  rssi_cnt :: nat
  \<comment> \<open>\<open>iotgo_core.c\<close>\<close>
  setting_exit_timer :: os_timer
  setting_selfap_exit_timer :: os_timer
  heartbeat_timer :: os_timer
  try_distor_timer :: os_timer
  try_conn_timer :: os_timer
  try_reg_timer :: os_timer
  gmt_time_update_timer :: os_timer
  mode_monitor_timer :: os_timer
  heartbeat_max_offset :: nat
  heartbeat_rand_offset :: nat
  reg_interval :: nat
  last_ws_pkg_time :: nat
  try_conn_distor_counter :: nat
  try_conn_server_counter :: nat
  try_register_counter :: nat
  is_first_action_date :: bool
  ping_counter :: nat
  pong_counter :: nat
  mode_monitor_cnt :: nat
  device_callbacks :: "net_call list"

definition IOTGO_RSSI_QUEUE_LEN :: nat where
  "IOTGO_RSSI_QUEUE_LEN = 10"

definition IOTGO_TASK_CORE_QLEN :: nat where
  "IOTGO_TASK_CORE_QLEN = 64"

definition IOTGO_TASK_DEVICE_CENTER_QLEN :: nat where
  "IOTGO_TASK_DEVICE_CENTER_QLEN = 64"

text \<open>The initial values of the static variables.\<close>

definition net_init :: net where
  "net_init = \<lparr>device_mode = DEVICE_MODE_INVALID, core_q = [], device_q = [], calls = [],
     join_ap_timer = Disarmed, join_ap_cb = JoinTimerCallback, listen_rssi_timer = Disarmed,
     join_counter = 0, iotgo_device_rssi = 0, json_int_rssi = 0, iotgo_wifi_rssi = 0,
     rssi_queue = replicate 10 0, rssi_cnt = 0,
     setting_exit_timer = Disarmed, setting_selfap_exit_timer = Disarmed, heartbeat_timer = Disarmed,
     try_distor_timer = Disarmed, try_conn_timer = Disarmed, try_reg_timer = Disarmed,
     gmt_time_update_timer = Disarmed, mode_monitor_timer = Disarmed, heartbeat_max_offset = 7,
     heartbeat_rand_offset = 0, reg_interval = 15, last_ws_pkg_time = 0, try_conn_distor_counter = 0,
     try_conn_server_counter = 0, try_register_counter = 0, is_first_action_date = False,
     ping_counter = 0, pong_counter = 0, mode_monitor_cnt = 0, device_callbacks = []\<rparr>"

definition iotgoDeviceMode :: "net \<Rightarrow> IoTgoDeviceMode" where
  "iotgoDeviceMode s = device_mode s"

definition iotgoSetDeviceMode :: "IoTgoDeviceMode \<Rightarrow> net \<Rightarrow> net" where
  "iotgoSetDeviceMode m s = s\<lparr>device_mode := m\<rparr>"

text \<open>\<open>system_os_post\<close> to a full queue posts nothing; no caller looks at its result.\<close>

definition post_core :: "IoTgoSignalSet \<Rightarrow> nat \<Rightarrow> net \<Rightarrow> net" where
  "post_core m par s =
     (if length (core_q s) < IOTGO_TASK_CORE_QLEN then s\<lparr>core_q := core_q s @ [(m, par)]\<rparr> else s)"

definition post_device :: "IoTgoSignalSet \<Rightarrow> nat \<Rightarrow> net \<Rightarrow> net" where
  "post_device m par s =
     (if length (device_q s) < IOTGO_TASK_DEVICE_CENTER_QLEN then s\<lparr>device_q := device_q s @ [(m, par)]\<rparr> else s)"

definition call :: "net_call \<Rightarrow> net \<Rightarrow> net" where
  "call c s = s\<lparr>calls := calls s @ [c]\<rparr>"

text \<open>A callback of the device description is called where it is registered.\<close>

definition device_call :: "net_call \<Rightarrow> net \<Rightarrow> net" where
  "device_call c s = (if c \<in> set (device_callbacks s) then call c s else s)"

subsection \<open>Random delays\<close>

text \<open>\<open>r\<close> is the value of \<open>rand()\<close>; an interval of all 32-bit values divides by zero.\<close>

definition iotgoRand :: "int \<Rightarrow> nat \<Rightarrow> nat \<Rightarrow> nat option" where
  "iotgoRand r n1 n2 =
     (if n1 = n2 then Some n2
      else
        (let n_max = (if n2 > n1 then n2 else n1);
             n_min = (if n2 > n1 then n1 else n2);
             n_diff = to_u32 (int n_max - int n_min);
             d = to_u32 (int n_diff + 1)
         in if d = 0 then None
            else Some (to_u32 (int (n_min + to_u32 (int (to_u32 r mod d + d)) mod d)))))"

fun power_loop :: "nat \<Rightarrow> nat \<Rightarrow> nat \<Rightarrow> nat" where
  "power_loop base 0 ret = ret"
| "power_loop base (Suc n) ret = power_loop base n (to_u32 (int (ret * base)))"

definition iotgoPower :: "nat \<Rightarrow> nat \<Rightarrow> nat" where
  "iotgoPower base n = power_loop base n 1"

lemma iotgoRand_range:
  assumes "n1 < 4294967296" "n2 < 4294967296" "\<not> (min n1 n2 = 0 \<and> max n1 n2 = 4294967295)"
  obtains d where "iotgoRand r n1 n2 = Some d" "min n1 n2 \<le> d" "d \<le> max n1 n2"
proof (cases "n1 = n2")
  case True
  then show ?thesis using that by (simp add: iotgoRand_def)
next
  case False
  let ?lo = "min n1 n2" and ?hi = "max n1 n2"
  have hi: "?hi < 4294967296" using assms(1,2) by simp
  have mm: "(if n2 > n1 then n2 else n1) = ?hi" "(if n2 > n1 then n1 else n2) = ?lo" by (simp_all add: max_def min_def)
  have diff: "to_u32 (int ?hi - int ?lo) = ?hi - ?lo"
    using hi by (intro to_u32_diff) simp_all
  have "?hi - ?lo < 4294967295" using assms(3) hi by auto
  then have d: "to_u32 (int (?hi - ?lo) + 1) = Suc (?hi - ?lo)"
    by (simp add: to_u32_add1 del: of_nat_diff)
  define x where "x = to_u32 (int (to_u32 r mod Suc (?hi - ?lo) + Suc (?hi - ?lo))) mod Suc (?hi - ?lo)"
  have "x \<le> ?hi - ?lo" unfolding x_def by (metis less_Suc_eq_le mod_less_divisor zero_less_Suc)
  moreover have "?lo \<le> ?hi" by simp
  ultimately have x: "?lo + x \<le> ?hi" by linarith
  have "iotgoRand r n1 n2 = Some (to_u32 (int (?lo + x)))"
    using False by (simp only: iotgoRand_def mm diff d Let_def x_def) simp
  moreover have "to_u32 (int (?lo + x)) = ?lo + x" using x hi by (intro to_u32_small) linarith
  ultimately show ?thesis using that x by simp
qed

lemma power_loop_exact: "0 < base \<Longrightarrow> ret * base ^ n < 4294967296 \<Longrightarrow> power_loop base n ret = ret * base ^ n"
proof (induction base n ret rule: power_loop.induct)
  case (2 base n ret)
  have "ret * base ^ Suc n = ret * base * base ^ n" by simp
  moreover have "ret * base \<le> ret * base * base ^ n" using 2(2) by simp
  ultimately have "ret * base < 4294967296" using 2(3) by linarith
  then have "to_u32 (int (ret * base)) = ret * base" by (rule to_u32_small)
  with 2 show ?case by (simp add: mult.assoc)
qed simp

lemma iotgoPower_2: "n \<le> 31 \<Longrightarrow> iotgoPower 2 n = 2 ^ n"
proof -
  assume "n \<le> 31"
  then have "(2::nat) ^ n \<le> 2 ^ 31" by (intro power_increasing) simp_all
  then show ?thesis by (simp add: iotgoPower_def power_loop_exact)
qed

end
