(* ===== verification/Wifi.thy ===== *)
theory Wifi
  imports Net
begin

text \<open>
  \<open>app/user/iotgo_wifi.c\<close>: joining the access point (a timer that configures the station, then one
  that looks at its state every two seconds), leaving it, and the averaged signal strength.
\<close>

subsection \<open>Signal strength\<close>

definition queueInit :: "int \<Rightarrow> net \<Rightarrow> net" where
  "queueInit val s = s\<lparr>rssi_queue := replicate IOTGO_RSSI_QUEUE_LEN val\<rparr>"

text \<open>The loop of \<open>queueShift\<close> from index \<open>i\<close> down to 1.\<close>

fun shift_loop :: "nat \<Rightarrow> int list \<Rightarrow> int list" where
  "shift_loop 0 q = q"
| "shift_loop (Suc i) q = shift_loop i (q[Suc i := q ! i])"

definition queueShift :: "int \<Rightarrow> net \<Rightarrow> net" where
  "queueShift val s = s\<lparr>rssi_queue := (shift_loop (IOTGO_RSSI_QUEUE_LEN - 1) (rssi_queue s))[0 := val]\<rparr>"

text \<open>
  \<open>sum / (10 * 1.0) + 0.5\<close> cut off to an integer, computed exactly: where the sum is an integer its
  terms are exact in floating point, elsewhere the rounding cannot reach one.
\<close>

definition queueAverage :: "net \<Rightarrow> int" where
  "queueAverage s = (2 * sum_list (rssi_queue s) + 10) sdiv 20"

subsection \<open>Leaving and joining\<close>

definition iotgoWifiLeave :: "net \<Rightarrow> net" where
  "iotgoWifiLeave s = call WifiDisconnect (s\<lparr>join_counter := 0, join_ap_timer := Disarmed\<rparr>)"

definition iotgoWifiJoin :: "net \<Rightarrow> net" where
  "iotgoWifiJoin s =
     s\<lparr>join_ap_cb := JoinTimerCallback, join_ap_timer := Armed 1000 False,
       listen_rssi_timer := Armed 6000 True\<rparr>"

definition joinAPStage2 :: "station \<Rightarrow> int \<Rightarrow> net \<Rightarrow> net" where
  "joinAPStage2 jap_state rssi s =
     (let s = s\<lparr>join_counter := to_u8 (int (join_counter s) + 1)\<rparr>
      in if jap_state = STATION_GOT_IP then
           (let s = queueInit (if rssi < 0 then rssi else 0) s;
                s = s\<lparr>iotgo_device_rssi := queueAverage s\<rparr>;
                s = s\<lparr>json_int_rssi := iotgo_device_rssi s, iotgo_wifi_rssi := iotgo_device_rssi s\<rparr>;
                s = (if iotgoDeviceMode s = DEVICE_MODE_SETTING
                     then post_core MSG_CORE_SETTING_RESP_TO_APP 5 s
                     else post_core MSG_CORE_AP_JOINED 0 s)
            in s\<lparr>join_counter := 0, join_ap_timer := Disarmed\<rparr>)
         else if join_counter s \<ge> 10 then
           (let s = iotgoWifiLeave s;
                s = (if iotgoDeviceMode s = DEVICE_MODE_SETTING
                     then post_core MSG_CORE_SETTING_RESP_TO_APP
                       (case jap_state of STATION_IDLE \<Rightarrow> 0 | STATION_CONNECTING \<Rightarrow> 1
                        | STATION_WRONG_PASSWORD \<Rightarrow> 2 | STATION_NO_AP_FOUND \<Rightarrow> 3
                        | STATION_CONNECT_FAIL \<Rightarrow> 4 | STATION_GOT_IP \<Rightarrow> 5) s
                     else post_core MSG_CORE_JOIN_AP_ERR 0 s)
            in s\<lparr>join_counter := 0, join_ap_timer := Disarmed\<rparr>)
         else s)"

text \<open>\<open>connected\<close> is the result of \<open>wifi_station_connect\<close>.\<close>

definition joinAPTimerCallback :: "bool \<Rightarrow> net \<Rightarrow> net" where
  "joinAPTimerCallback connected s =
     (let s = call WifiConnect (call WifiSetConfig (iotgoWifiLeave s))
      in if connected then s\<lparr>join_ap_cb := JoinStage2, join_ap_timer := Armed 2000 True\<rparr> else s)"

definition wifiListenRSSITmrCb :: "int \<Rightarrow> net \<Rightarrow> net" where
  "wifiListenRSSITmrCb rssi s =
     (let s = s\<lparr>rssi_cnt := to_u32 (int (rssi_cnt s) + 1)\<rparr>
      in if rssi < 0 then
           (let s = queueShift rssi s
            in if rssi_cnt s mod 10 = 0 then
                 (let rssi_av = queueAverage s;
                      diff_rssi = iotgo_device_rssi s - rssi_av;
                      diff_rssi = (if diff_rssi < 0 then 0 - diff_rssi else diff_rssi)
                  in if diff_rssi \<ge> 3 then
                       (let s = s\<lparr>iotgo_device_rssi := rssi_av\<rparr>
                        in if iotgo_device_rssi s \<noteq> 0 \<and> iotgoDeviceMode s = DEVICE_MODE_WORK_NORMAL then
                             post_device SIG_DEVICE_UPDATE 0
                               (s\<lparr>json_int_rssi := iotgo_device_rssi s, iotgo_wifi_rssi := iotgo_device_rssi s\<rparr>)
                           else s)
                     else s)
               else s)
         else s\<lparr>iotgo_device_rssi := 0\<rparr>)"

text \<open>The events of the station; all others are only logged.\<close>

datatype wifi_event = EVENT_STAMODE_DISCONNECTED | EVENT_OTHER

definition iotgoWiFiEventHander :: "wifi_event \<Rightarrow> station \<Rightarrow> net \<Rightarrow> net" where
  "iotgoWiFiEventHander evt sta_state s =
     (case evt of
        EVENT_OTHER \<Rightarrow> s
      | EVENT_STAMODE_DISCONNECTED \<Rightarrow>
          (let mode = iotgoDeviceMode s
           in if mode = DEVICE_MODE_WORK_AP_ERR \<or> mode = DEVICE_MODE_WORK_AP_OK
                \<or> mode = DEVICE_MODE_WORK_INIT \<or> mode = DEVICE_MODE_WORK_NORMAL then
                (if sta_state \<noteq> STATION_GOT_IP \<and> sta_state \<noteq> STATION_CONNECTING
                 then post_core MSG_CORE_JOIN_AP 0 s else s)
              else s))"

text \<open>The two operating modes, 1 and 3 in the SDK.\<close>

definition iotgoWifiToStationAndApMode :: "nat \<Rightarrow> net \<Rightarrow> net" where
  "iotgoWifiToStationAndApMode opmode s = (if opmode \<noteq> 3 then call (WifiSetOpmode 3) s else s)"

definition iotgoWifiToStationMode :: "nat \<Rightarrow> net \<Rightarrow> net" where
  "iotgoWifiToStationMode opmode s = (if opmode \<noteq> 1 then call (WifiSetOpmode 1) s else s)"

end
