(* ===== verification/Core.thy ===== *)
theory Core
  imports Wifi
begin

text \<open>
  \<open>app/user/iotgo_core.c\<close>: the task that drives the device from the access point over the
  distributor to the registered server connection, with its retry delays, the heartbeat, and the
  two setting modes.
\<close>

subsection \<open>Values read from the SDK by one handler\<close>

record sdk =
  sdk_rand :: int
  sdk_time :: nat
  sdk_opmode :: nat
  sdk_station :: station

subsection \<open>Heartbeat\<close>

definition iotgoCoreRefreshLastPkgTime :: "sdk \<Rightarrow> net \<Rightarrow> net" where
  "iotgoCoreRefreshLastPkgTime e s = s\<lparr>last_ws_pkg_time := sdk_time e\<rparr>"

definition iotgoCoreLastPkgTime :: "net \<Rightarrow> nat" where
  "iotgoCoreLastPkgTime s = last_ws_pkg_time s"

definition iotgoCoreRegInterval :: "net \<Rightarrow> nat" where
  "iotgoCoreRegInterval s = reg_interval s"

definition iotgoCoreSetRegInterval :: "nat \<Rightarrow> net \<Rightarrow> net" where
  "iotgoCoreSetRegInterval regi s = s\<lparr>reg_interval := regi\<rparr>"

definition iotgoCoreHeartbeatSetMaxOffset :: "nat \<Rightarrow> net \<Rightarrow> net" where
  "iotgoCoreHeartbeatSetMaxOffset delay_second s = s\<lparr>heartbeat_max_offset := delay_second\<rparr>"

definition getHeartbeatMaxOffset :: "net \<Rightarrow> nat" where
  "getHeartbeatMaxOffset s = heartbeat_max_offset s"

definition IOTGO_HEARTBEAT_PERIOD_BASE :: nat where
  "IOTGO_HEARTBEAT_PERIOD_BASE = 7"

definition sendPingToServer :: "sdk \<Rightarrow> net \<Rightarrow> net option" where
  "sendPingToServer e s =
     (let ws_pkg_time_diff = to_u32 ((4294967296 + int (sdk_time e) - int (iotgoCoreLastPkgTime s)) mod 4294967296)
      in if ws_pkg_time_diff \<ge> to_u32 (int (to_u32 (int (getHeartbeatMaxOffset s + heartbeat_rand_offset s)) * 1000000))
         then do {
           let s = iotgoCoreRefreshLastPkgTime e s;
           off \<leftarrow> iotgoRand (sdk_rand e) 0 IOTGO_HEARTBEAT_PERIOD_BASE;
           Some (post_core MSG_CORE_WS_PING 0 (s\<lparr>heartbeat_rand_offset := off\<rparr>))
         }
         else Some s)"

definition iotgoCoreHeartbeatStart :: "sdk \<Rightarrow> net \<Rightarrow> net" where
  "iotgoCoreHeartbeatStart e s =
     (iotgoCoreRefreshLastPkgTime e (s\<lparr>heartbeat_timer := Armed 1000 True\<rparr>))\<lparr>ping_counter := 0, pong_counter := 0\<rparr>"

definition iotgoCoreHeartbeatStop :: "net \<Rightarrow> net" where
  "iotgoCoreHeartbeatStop s = s\<lparr>heartbeat_timer := Disarmed, ping_counter := 0, pong_counter := 0\<rparr>"

text \<open>The final frame with the ping opcode, no payload and a masking key of zeros.\<close>

definition sendWebSocketPing :: "net \<Rightarrow> net" where
  "sendWebSocketPing s = call (QueueAddPing [0x89, 0x80, 0, 0, 0, 0]) s"

subsection \<open>Timer callbacks\<close>

definition cbModeMonitorTimer :: "net \<Rightarrow> net" where
  "cbModeMonitorTimer s =
     (if iotgoDeviceMode s = DEVICE_MODE_WORK_AP_ERR \<or> iotgoDeviceMode s = DEVICE_MODE_WORK_AP_OK
        \<or> iotgoDeviceMode s = DEVICE_MODE_WORK_INIT then
        (let s = s\<lparr>mode_monitor_cnt := to_u32 (int (mode_monitor_cnt s) + 1)\<rparr>
         in if mode_monitor_cnt s \<ge> 60 then post_core MSG_CORE_JOIN_AP 0 (s\<lparr>mode_monitor_cnt := 0\<rparr>) else s)
      else s\<lparr>mode_monitor_cnt := 0\<rparr>)"

definition iotgoModeMonitorStart :: "net \<Rightarrow> net" where
  "iotgoModeMonitorStart s = s\<lparr>mode_monitor_timer := Armed 1000 True\<rparr>"

definition tryDistorTmrCb :: "net \<Rightarrow> net" where
  "tryDistorTmrCb s =
     (let mode = iotgoDeviceMode s
      in if mode \<noteq> DEVICE_MODE_WORK_INIT \<and> mode \<noteq> DEVICE_MODE_WORK_NORMAL
           \<and> mode \<noteq> DEVICE_MODE_WORK_AP_ERR \<and> mode \<noteq> DEVICE_MODE_SETTING
         then post_core MSG_CORE_DISTRIBUTOR 0 s else s)"

definition gmtTimerCallback :: "net \<Rightarrow> net" where
  "gmtTimerCallback s =
     (if iotgoDeviceMode s = DEVICE_MODE_WORK_NORMAL then post_core MSG_CORE_DATE 0 s else s)"

definition setExitTimerCallback :: "sdk \<Rightarrow> net \<Rightarrow> net" where
  "setExitTimerCallback e s =
     (let s = call SettingServerStop s
      in if sdk_station e = STATION_GOT_IP
         then post_core MSG_CORE_DISTRIBUTOR 0 (iotgoSetDeviceMode DEVICE_MODE_WORK_AP_OK s)
         else post_core MSG_CORE_JOIN_AP 0 s)"

definition setSelfapExitTimerCallback :: "sdk \<Rightarrow> net \<Rightarrow> net" where
  "setSelfapExitTimerCallback e s =
     post_core MSG_CORE_JOIN_AP 0
       (iotgoSetDeviceMode DEVICE_MODE_WORK_AP_ERR
         (iotgoWifiToStationMode (sdk_opmode e) (call SettingServerStop s)))"

definition connAgainTimerCallback :: "net \<Rightarrow> net" where
  "connAgainTimerCallback s = post_core MSG_CORE_CONNECT_SERVER 0 s"

definition cbRegisterTimer :: "net \<Rightarrow> net" where
  "cbRegisterTimer s = post_core MSG_CORE_REGISTER 0 s"

subsection \<open>Retry strategies\<close>

definition cancelRetryRegisterStrategy :: "net \<Rightarrow> net" where
  "cancelRetryRegisterStrategy s = s\<lparr>try_reg_timer := Disarmed, try_register_counter := 0\<rparr>"

definition cancelRetryConnServerStrategy :: "net \<Rightarrow> net" where
  "cancelRetryConnServerStrategy s = s\<lparr>try_conn_timer := Disarmed, try_conn_server_counter := 0\<rparr>"

definition cancelRetryDistorStrategy :: "net \<Rightarrow> net" where
  "cancelRetryDistorStrategy s = s\<lparr>try_distor_timer := Disarmed, try_conn_distor_counter := 0\<rparr>"

text \<open>\<open>interval * 1.5\<close> cut off to an integer; a value of 32 bits or more has no conversion.\<close>

definition half_more :: "nat \<Rightarrow> nat option" where
  "half_more n = (if n * 3 div 2 < 4294967296 then Some (n * 3 div 2) else None)"

definition retryRegisterStrategy :: "sdk \<Rightarrow> nat \<Rightarrow> net \<Rightarrow> net option" where
  "retryRegisterStrategy e failed_cnt s =
     do {
       delay \<leftarrow> (if failed_cnt \<le> 30 then iotgoRand (sdk_rand e) 2 4
                else do {
                  up \<leftarrow> half_more (iotgoCoreRegInterval s);
                  iotgoRand (sdk_rand e) (iotgoCoreRegInterval s) up
                });
       Some (s\<lparr>try_reg_timer := Armed (to_u32 (int (delay * 1000))) False\<rparr>)
     }"

definition backoff :: "sdk \<Rightarrow> nat \<Rightarrow> nat option" where
  "backoff e failed_cnt =
     (if failed_cnt \<le> 5
      then iotgoRand (sdk_rand e) (iotgoPower 2 failed_cnt) (iotgoPower 2 (to_u32 (int failed_cnt + 1)))
      else iotgoRand (sdk_rand e) 60 120)"

definition retryConnServerStrategy :: "sdk \<Rightarrow> nat \<Rightarrow> net \<Rightarrow> net option" where
  "retryConnServerStrategy e failed_cnt s =
     map_option (\<lambda>delay. s\<lparr>try_conn_timer := Armed (to_u32 (int (delay * 1000))) False\<rparr>) (backoff e failed_cnt)"

definition retryDistorStrategy :: "sdk \<Rightarrow> nat \<Rightarrow> net \<Rightarrow> net option" where
  "retryDistorStrategy e failed_cnt s =
     map_option (\<lambda>delay. s\<lparr>try_distor_timer := Armed (to_u32 (int (delay * 1000))) False\<rparr>) (backoff e failed_cnt)"

subsection \<open>The task\<close>

definition setting_mode :: "net \<Rightarrow> bool" where
  "setting_mode s \<longleftrightarrow> \<not> (DEVICE_MODE_SETTING \<noteq> iotgoDeviceMode s \<and> DEVICE_MODE_SETTING_SELFAP \<noteq> iotgoDeviceMode s)"

definition IOTGO_DISTRIBUTOR_RESULT_OK :: nat where
  "IOTGO_DISTRIBUTOR_RESULT_OK = 1"

text \<open>
  The handlers of \<open>taskIoTgoNetworkCenter\<close> in three groups: the setting modes, the registered
  connection, and the way to it.
\<close>

definition task_setting_msg :: "sdk \<Rightarrow> IoTgoSignalSet \<times> nat \<Rightarrow> net \<Rightarrow> net option" where
  "task_setting_msg e ev s =
     (case fst ev of
        MSG_CORE_ENTER_SETTING_MODE \<Rightarrow>
          (let s = call PconnDisconnect (iotgoSetDeviceMode DEVICE_MODE_SETTING s);
               s = cancelRetryDistorStrategy (cancelRetryConnServerStrategy (cancelRetryRegisterStrategy s));
               s = device_call EnterEsptouchCallback (iotgoWifiLeave s)
           in Some (post_core MSG_CORE_SETTING_SC_START 0 s))
      | MSG_CORE_EXIT_SETTING_MODE \<Rightarrow>
          (let s = call SettingSmartConfigStop (call SettingTimeoutMonitorStop s);
               s = device_call ExitEsptouchCallback s
           in Some (s\<lparr>setting_exit_timer := Armed 1000 False\<rparr>))
      | MSG_CORE_SETTING_SEND_ID_TO_APP \<Rightarrow> Some (call SettingSendDeviceInfoToApp s)
      | MSG_CORE_SETTING_RESP_TO_APP \<Rightarrow> Some (call (SettingSendRespToApp (snd ev)) s)
      | MSG_CORE_ENTER_SETTING_SELFAP_MODE \<Rightarrow>
          (let s = device_call EnterApCallback (iotgoSetDeviceMode DEVICE_MODE_SETTING_SELFAP s);
               s = call PconnDisconnect s;
               s = cancelRetryDistorStrategy (cancelRetryConnServerStrategy (cancelRetryRegisterStrategy s));
               s = iotgoWifiToStationAndApMode (sdk_opmode e) (iotgoWifiLeave s)
           in Some (call SettingServerStart (call SettingTimeoutMonitorStart s)))
      | MSG_CORE_EXIT_SETTING_SELFAP_MODE \<Rightarrow>
          (let s = device_call ExitApCallback (call SettingTimeoutMonitorStop s)
           in Some (s\<lparr>setting_selfap_exit_timer := Armed 1000 False\<rparr>))
      | MSG_CORE_SETTING_SC_START \<Rightarrow>
          (let s = call SettingTimeoutMonitorStart (call SettingTimeoutMonitorStop s)
           in Some (call SettingSmartConfigStart (iotgoWifiToStationMode (sdk_opmode e) s)))
      | MSG_CORE_SETTING_SC_STOP \<Rightarrow> Some (call SettingServerStart (call SettingSmartConfigStop s))
      | MSG_CORE_SETTING_SC_RESTART \<Rightarrow>
          Some (post_core MSG_CORE_SETTING_SC_START 0 (call SettingSmartConfigStop s))
      | _ \<Rightarrow> Some s)"

definition task_service_msg :: "sdk \<Rightarrow> IoTgoSignalSet \<times> nat \<Rightarrow> net \<Rightarrow> net option" where
  "task_service_msg e ev s =
     (case fst ev of
        MSG_CORE_DATE \<Rightarrow> Some (call PconnDeviceDate s)
      | MSG_CORE_DATE_OK \<Rightarrow>
          if is_first_action_date s
          then Some (post_device SIG_DEVICE_READYED 0 (s\<lparr>is_first_action_date := False\<rparr>))
          else Some s
      | MSG_CORE_WS_PING \<Rightarrow>
          (let s = (if to_u32 (int (ping_counter s) - int (pong_counter s)) \<ge> 2 then call PconnDisconnect s else s);
               s = sendWebSocketPing s
           in Some (s\<lparr>ping_counter := to_u32 (int (ping_counter s) + 1)\<rparr>))
      | MSG_CORE_WS_PING_OK \<Rightarrow>
          (let s = iotgoCoreRefreshLastPkgTime e s
           in Some (s\<lparr>pong_counter := to_u32 (int (pong_counter s) + 1)\<rparr>))
      | MSG_CORE_UPGRADE_ENTER \<Rightarrow> Some (call UpgradeStart (call QueueDeleteAll s))
      | MSG_CORE_UPGRADE_EXIT \<Rightarrow>
          Some (call (UpgradeStop (snd ev)) (iotgoSetDeviceMode DEVICE_MODE_WORK_NORMAL s))
      | MSG_CORE_UPGRADE_RECONNECT_AGAIN \<Rightarrow> Some (call UpgradeReconnect s)
      | MSG_CORE_GET_UPGRADE_DATA \<Rightarrow> Some (call UpgradeDownload s)
      | MSG_CORE_SEND_JSON \<Rightarrow> Some (call PconnSendJson s)
      | MSG_CORE_SEND_JSON_AGAIN \<Rightarrow> Some (call PconnSendJsonAgain s)
      | MSG_CORE_SEND_JSON_FINISHED \<Rightarrow> Some (call (PconnSendNextJson (snd ev)) s)
      | _ \<Rightarrow> task_setting_msg e ev s)"

definition taskIoTgoNetworkCenter :: "sdk \<Rightarrow> IoTgoSignalSet \<times> nat \<Rightarrow> net \<Rightarrow> net option" where
  "taskIoTgoNetworkCenter e ev s =
     (case fst ev of
        MSG_CORE_JOIN_AP \<Rightarrow>
          (let s = cancelRetryDistorStrategy (cancelRetryConnServerStrategy (cancelRetryRegisterStrategy s))
           in Some (iotgoWifiJoin (iotgoSetDeviceMode DEVICE_MODE_WORK_AP_ERR s)))
      | MSG_CORE_JOIN_AP_ERR \<Rightarrow>
          Some (post_core MSG_CORE_JOIN_AP 0 (iotgoSetDeviceMode DEVICE_MODE_WORK_AP_ERR s))
      | MSG_CORE_AP_JOINED \<Rightarrow>
          Some (post_core MSG_CORE_DISTRIBUTOR 0 (iotgoSetDeviceMode DEVICE_MODE_WORK_AP_OK s))
      | MSG_CORE_DISTRIBUTOR \<Rightarrow>
          if DEVICE_MODE_SETTING \<noteq> iotgoDeviceMode s
          then Some (call StartDistorRequest (cancelRetryConnServerStrategy (cancelRetryRegisterStrategy s)))
          else Some s
      | MSG_CORE_DISTRIBUTOR_FINISHED \<Rightarrow>
          (let s = call StopDistorRequest s
           in if snd ev = IOTGO_DISTRIBUTOR_RESULT_OK
              then Some (post_core MSG_CORE_CONNECT_SERVER 0 (s\<lparr>try_conn_distor_counter := 0\<rparr>))
              else (let s = s\<lparr>try_conn_distor_counter := to_u32 (int (try_conn_distor_counter s) + 1)\<rparr>
                    in retryDistorStrategy e (try_conn_distor_counter s) s))
      | MSG_CORE_REDIRECT \<Rightarrow>
          Some (post_core MSG_CORE_CONNECT_SERVER_AGAIN 0 (call PconnDisconnect (call SendError0 s)))
      | MSG_CORE_NOTIFY_CONFIG \<Rightarrow> Some (call SendError0 s)
      | MSG_CORE_CONNECT_SERVER \<Rightarrow>
          if \<not> setting_mode s \<and> DEVICE_MODE_WORK_NORMAL \<noteq> iotgoDeviceMode s
          then Some (call PconnConnect (cancelRetryRegisterStrategy s))
          else Some s
      | MSG_CORE_CONNECT_SERVER_AGAIN \<Rightarrow>
          if \<not> setting_mode s
          then (let s = iotgoSetDeviceMode DEVICE_MODE_WORK_AP_OK s;
                    s = s\<lparr>try_conn_server_counter := to_u32 (int (try_conn_server_counter s) + 1)\<rparr>
                in retryConnServerStrategy e (try_conn_server_counter s) s)
          else Some s
      | MSG_CORE_CONNECT_SERVER_ERR \<Rightarrow>
          Some (post_core MSG_CORE_CONNECT_SERVER_AGAIN 0 (iotgoCoreHeartbeatStop s))
      | MSG_CORE_RECONNECT_SERVER \<Rightarrow>
          Some (post_core MSG_CORE_CONNECT_SERVER_AGAIN 0 (iotgoCoreHeartbeatStop s))
      | MSG_CORE_SERVER_DISCONNECTED \<Rightarrow>
          Some (post_core MSG_CORE_CONNECT_SERVER_AGAIN 0 (iotgoCoreHeartbeatStop s))
      | MSG_CORE_SERVER_CONNECTED \<Rightarrow>
          Some (post_core MSG_CORE_WS_CONNECT 0 ((call QueueDeleteAll s)\<lparr>try_conn_server_counter := 0\<rparr>))
      | MSG_CORE_WS_CONNECT \<Rightarrow> Some (call PconnSwitchToWebSocket s)
      | MSG_CORE_WS_CONNECTED \<Rightarrow> Some (post_core MSG_CORE_REGISTER 0 (iotgoCoreHeartbeatStart e s))
      | MSG_CORE_REGISTER \<Rightarrow>
          if \<not> setting_mode s
          then Some (call PconnDeviceRegister (iotgoSetDeviceMode DEVICE_MODE_WORK_INIT s))
          else Some s
      | MSG_CORE_REGISTERED \<Rightarrow>
          (let s = s\<lparr>try_register_counter := 0\<rparr>
           in if \<not> setting_mode s
              then (let s = (iotgoSetDeviceMode DEVICE_MODE_WORK_NORMAL s)\<lparr>is_first_action_date := True\<rparr>
                    in Some ((post_core MSG_CORE_DATE 0 s)\<lparr>gmt_time_update_timer := Armed 1800000 True\<rparr>))
              else Some s)
      | MSG_CORE_REGISTER_ERR \<Rightarrow>
          (let s = s\<lparr>try_register_counter := to_u32 (int (try_register_counter s) + 1)\<rparr>
           in retryRegisterStrategy e (try_register_counter s) s)
      | _ \<Rightarrow> task_service_msg e ev s)"

lemmas task_defs = taskIoTgoNetworkCenter_def task_service_msg_def task_setting_msg_def

text \<open>The one-shot timer that starts the network; \<open>iotgoCoreRun\<close> arms it after 100 ms.\<close>

definition startIoTgoNetworkCenter :: "sdk \<Rightarrow> net \<Rightarrow> net" where
  "startIoTgoNetworkCenter e s =
     post_core MSG_CORE_JOIN_AP 0
       (iotgoWifiToStationMode (sdk_opmode e) (call StartTimeService (call PconnInit s)))"

text \<open>The SDK takes the oldest message of the queue and calls the task.\<close>

definition core_step :: "sdk \<Rightarrow> net \<Rightarrow> net option" where
  "core_step e s =
     (case core_q s of [] \<Rightarrow> Some s | ev # q \<Rightarrow> taskIoTgoNetworkCenter e ev (s\<lparr>core_q := q\<rparr>))"

end
