(* ===== verification/CoreRetry.thy ===== *)
theory CoreRetry
  imports Core
begin

text \<open>
  What the messages of the network task do: the retry delays, and for every message its effect on
  the heartbeat counters.
\<close>

lemmas net_prims = iotgoDeviceMode_def iotgoSetDeviceMode_def call_def device_call_def

lemmas core_prims = net_prims iotgoWifiLeave_def iotgoWifiJoin_def
  iotgoWifiToStationAndApMode_def iotgoWifiToStationMode_def iotgoCoreRefreshLastPkgTime_def
  iotgoCoreHeartbeatStart_def iotgoCoreHeartbeatStop_def sendWebSocketPing_def
  cancelRetryRegisterStrategy_def cancelRetryConnServerStrategy_def cancelRetryDistorStrategy_def

text \<open>Posting only extends the queue.\<close>

lemma post_core_frame [simp]:
  "device_mode (post_core m p s) = device_mode s" "calls (post_core m p s) = calls s"
  "device_q (post_core m p s) = device_q s" "ping_counter (post_core m p s) = ping_counter s"
  "pong_counter (post_core m p s) = pong_counter s" "reg_interval (post_core m p s) = reg_interval s"
  "heartbeat_timer (post_core m p s) = heartbeat_timer s"
  "mode_monitor_cnt (post_core m p s) = mode_monitor_cnt s"
  "is_first_action_date (post_core m p s) = is_first_action_date s"
  "device_callbacks (post_core m p s) = device_callbacks s"
  by (simp_all add: post_core_def)

lemma post_device_frame [simp]:
  "device_mode (post_device m p s) = device_mode s" "calls (post_device m p s) = calls s"
  "core_q (post_device m p s) = core_q s" "ping_counter (post_device m p s) = ping_counter s"
  "pong_counter (post_device m p s) = pong_counter s" "reg_interval (post_device m p s) = reg_interval s"
  "heartbeat_timer (post_device m p s) = heartbeat_timer s"
  "is_first_action_date (post_device m p s) = is_first_action_date s"
  by (simp_all add: post_device_def)

subsection \<open>Retry delays\<close>

lemma backoff_range:
  assumes "k \<le> 5"
  obtains d where "backoff e k = Some d" "2 ^ k \<le> d" "d \<le> 2 ^ (k + 1)"
proof -
  have p: "(2::nat) ^ Suc k \<le> 2 ^ 6" using assms by (intro power_increasing) simp_all
  have le: "(2::nat) ^ k \<le> 2 ^ Suc k" by (intro power_increasing) simp_all
  have "to_u32 (int k + 1) = Suc k" using assms by (simp add: to_u32_add1)
  moreover have "iotgoPower 2 k = 2 ^ k" "iotgoPower 2 (Suc k) = 2 ^ Suc k"
    using assms by (intro iotgoPower_2, simp)+
  ultimately have b: "backoff e k = iotgoRand (sdk_rand e) (2 ^ k) (2 ^ Suc k)" using assms by (simp add: backoff_def)
  show ?thesis
    by (rule iotgoRand_range [of "2 ^ k" "2 ^ Suc k" "sdk_rand e"]) (use p le that b in auto)
qed

lemma backoff_late:
  assumes "5 < k" obtains d where "backoff e k = Some d" "60 \<le> d" "d \<le> 120"
  by (rule iotgoRand_range [of 60 120 "sdk_rand e"]) (use assms that in \<open>auto simp: backoff_def\<close>)

lemma half_more_range:
  assumes "n * 3 div 2 < 4294967296"
  obtains d where "half_more n = Some (n * 3 div 2)" "iotgoRand r n (n * 3 div 2) = Some d" "n \<le> d" "2 * d \<le> 3 * n"
proof -
  have le: "n \<le> n * 3 div 2" by simp
  have "n = 0 \<longrightarrow> n * 3 div 2 = 0" by simp
  then show ?thesis
    by (rule_tac iotgoRand_range [of n "n * 3 div 2" r])
      (use assms le that in \<open>auto simp: half_more_def max_def min_def\<close>)
qed

text \<open>
  the delay, in milliseconds, before the \<open>k\<close>-th attempt after failures, for every value of
  \<open>rand\<close>: between \<open>2 ^ k\<close> and \<open>2 ^ (k + 1)\<close> seconds for the first five failures of the distributor
  or of the server connection and between one and two minutes afterwards; 2 to 4 seconds for the
  first thirty failed registrations, and then between the interval the server chose and one and
  a half times that interval.
\<close>

lemma retry_backoff:
  "\<exists>t. retryDistorStrategy e k s = Some (s\<lparr>try_distor_timer := Armed t False\<rparr>) \<and>
    retryConnServerStrategy e k s = Some (s\<lparr>try_conn_timer := Armed t False\<rparr>) \<and>
    (if k \<le> 5 then 1000 * 2 ^ k \<le> t \<and> t \<le> 1000 * 2 ^ (k + 1) else 60000 \<le> t \<and> t \<le> 120000)"
proof -
  have ms: "to_u32 (int (d * 1000)) = d * 1000" if "d \<le> 4294967" for d
    using that by (intro to_u32_small) simp
  have step: "retryDistorStrategy e k s = Some (s\<lparr>try_distor_timer := Armed (d * 1000) False\<rparr>)"
      "retryConnServerStrategy e k s = Some (s\<lparr>try_conn_timer := Armed (d * 1000) False\<rparr>)"
    if "backoff e k = Some d" "d \<le> 4294967" for d
    using that ms [of d] by (simp_all add: retryDistorStrategy_def retryConnServerStrategy_def)
  show ?thesis
  proof (cases "k \<le> 5")
    case True
    obtain d where d: "backoff e k = Some d" "2 ^ k \<le> d" "d \<le> 2 ^ (k + 1)"
      using backoff_range [OF True] by blast
    have "(2::nat) ^ (k + 1) \<le> 2 ^ 6" using True by (intro power_increasing) simp_all
    then have "d \<le> 4294967" using d(3) by simp
    with step [OF d(1)] True d(2,3) show ?thesis by (intro exI [of _ "d * 1000"]) simp
  next
    case False
    then obtain d where d: "backoff e k = Some d" "60 \<le> d" "d \<le> 120"
      using backoff_late [of k] by (metis not_le)
    with step [OF d(1)] False show ?thesis by (intro exI [of _ "d * 1000"]) simp
  qed
qed

lemma retry_register:
  assumes "reg_interval s * 1500 < 4294967296"
  shows "\<exists>t. retryRegisterStrategy e k s = Some (s\<lparr>try_reg_timer := Armed t False\<rparr>) \<and>
    (if k \<le> 30 then 2000 \<le> t \<and> t \<le> 4000 else 1000 * reg_interval s \<le> t \<and> t \<le> 1500 * reg_interval s)"
proof -
  have ms: "to_u32 (int (d * 1000)) = d * 1000" if "d * 1000 < 4294967296" for d
    using that by (rule to_u32_small)
  show ?thesis
  proof (cases "k \<le> 30")
    case True
    obtain d where "iotgoRand (sdk_rand e) 2 4 = Some d" "2 \<le> d" "d \<le> 4"
      by (rule iotgoRand_range [of 2 4 "sdk_rand e"]) auto
    with True ms [of d] show ?thesis by (intro exI [of _ "d * 1000"]) (simp add: retryRegisterStrategy_def)
  next
    case False
    have "reg_interval s * 3 div 2 < 4294967296" using assms by simp
    then obtain d where "half_more (reg_interval s) = Some (reg_interval s * 3 div 2)"
      "iotgoRand (sdk_rand e) (reg_interval s) (reg_interval s * 3 div 2) = Some d"
      "reg_interval s \<le> d" "2 * d \<le> 3 * reg_interval s"
      using half_more_range by blast
    with False ms [of d] assms show ?thesis
      by (intro exI [of _ "d * 1000"]) (simp add: retryRegisterStrategy_def iotgoCoreRegInterval_def)
  qed
qed

theorem retry_delay_bounds:
  assumes "reg_interval s * 1500 < 4294967296"
  shows "(\<exists>t. retryDistorStrategy e k s = Some (s\<lparr>try_distor_timer := Armed t False\<rparr>) \<and>
      retryConnServerStrategy e k s = Some (s\<lparr>try_conn_timer := Armed t False\<rparr>) \<and>
      (if k \<le> 5 then 1000 * 2 ^ k \<le> t \<and> t \<le> 1000 * 2 ^ (k + 1) else 60000 \<le> t \<and> t \<le> 120000)) \<and>
    (\<exists>t. retryRegisterStrategy e k s = Some (s\<lparr>try_reg_timer := Armed t False\<rparr>) \<and>
      (if k \<le> 30 then 2000 \<le> t \<and> t \<le> 4000 else 1000 * reg_interval s \<le> t \<and> t \<le> 1500 * reg_interval s))"
  using retry_backoff retry_register [OF assms] by blast

theorem retry_delay_bounds_witness:
  "\<exists>t. retryRegisterStrategy \<lparr>sdk_rand = -7, sdk_time = 0, sdk_opmode = 1, sdk_station = STATION_IDLE\<rparr> 31 net_init =
      Some (net_init\<lparr>try_reg_timer := Armed t False\<rparr>) \<and> 15000 \<le> t \<and> t \<le> 22500"
  using retry_delay_bounds [of net_init "\<lparr>sdk_rand = -7, sdk_time = 0, sdk_opmode = 1, sdk_station = STATION_IDLE\<rparr>" 31]
  by (simp add: net_init_def)

subsection \<open>One message\<close>

text \<open>Where the interval the server chose is representable, every message is handled.\<close>

definition reg_ok :: "net \<Rightarrow> bool" where
  "reg_ok s \<longleftrightarrow> reg_interval s * 1500 < 4294967296"

text \<open>The timers as the strategies arm them.\<close>

definition reg_timer :: "sdk \<Rightarrow> nat \<Rightarrow> net \<Rightarrow> os_timer" where
  "reg_timer e k s = try_reg_timer (the (retryRegisterStrategy e k s))"

definition backoff_timer :: "sdk \<Rightarrow> nat \<Rightarrow> os_timer" where
  "backoff_timer e k = Armed (to_u32 (int (the (backoff e k) * 1000))) False"

lemma retry_register_eq:
  "reg_interval s * 1500 < 4294967296 \<Longrightarrow>
    retryRegisterStrategy e k s = Some (s\<lparr>try_reg_timer := reg_timer e k s\<rparr>)"
  using retry_register [of s e k] by (auto simp: reg_timer_def)

lemma retry_backoff_eq:
  "retryDistorStrategy e k s = Some (s\<lparr>try_distor_timer := backoff_timer e k\<rparr>)"
  "retryConnServerStrategy e k s = Some (s\<lparr>try_conn_timer := backoff_timer e k\<rparr>)"
proof -
  obtain d where "backoff e k = Some d"
    by (metis backoff_range [of k e] backoff_late [of k e] not_le)
  then show "retryDistorStrategy e k s = Some (s\<lparr>try_distor_timer := backoff_timer e k\<rparr>)"
    "retryConnServerStrategy e k s = Some (s\<lparr>try_conn_timer := backoff_timer e k\<rparr>)"
    by (simp_all add: retryDistorStrategy_def retryConnServerStrategy_def backoff_timer_def)
qed

definition resets_heartbeat :: "IoTgoSignalSet \<Rightarrow> bool" where
  "resets_heartbeat m \<longleftrightarrow> m \<in> {MSG_CORE_CONNECT_SERVER_ERR, MSG_CORE_RECONNECT_SERVER,
     MSG_CORE_SERVER_DISCONNECTED, MSG_CORE_WS_CONNECTED}"

lemma task_counters:
  assumes "reg_ok s" "\<not> resets_heartbeat m"
  shows "\<exists>s'. taskIoTgoNetworkCenter e (m, p) s = Some s' \<and> reg_ok s' \<and>
    ping_counter s' = (if m = MSG_CORE_WS_PING then to_u32 (int (ping_counter s) + 1) else ping_counter s) \<and>
    pong_counter s' = (if m = MSG_CORE_WS_PING_OK then to_u32 (int (pong_counter s) + 1) else pong_counter s)"
proof -
  have mono: "1500 * reg_interval s < 4294967296" using assms(1) by (simp add: reg_ok_def mult.commute)
  show ?thesis
    using assms mono
    by (cases m) (simp_all add: task_defs core_prims reg_ok_def resets_heartbeat_def Let_def
      retry_register_eq retry_backoff_eq)
qed

end
