(* ===== verification/CoreSpec.thy ===== *)
theory CoreSpec
  imports CoreRetry
begin

text \<open>
  Runs of the network task: the heartbeat, the protection of the setting modes, the watchdog, and
  the way from the request to join the access point to the registered connection.
\<close>

subsection \<open>Sequences of messages\<close>

fun core_run :: "(sdk \<times> IoTgoSignalSet \<times> nat) list \<Rightarrow> net \<Rightarrow> net option" where
  "core_run [] s = Some s"
| "core_run ((e, ev) # evs) s = Option.bind (taskIoTgoNetworkCenter e ev s) (core_run evs)"

subsection \<open>Heartbeat\<close>

definition count_msg :: "IoTgoSignalSet \<Rightarrow> (sdk \<times> IoTgoSignalSet \<times> nat) list \<Rightarrow> nat" where
  "count_msg m evs = length (filter (\<lambda>ev. fst (snd ev) = m) evs)"

lemma core_run_counters:
  assumes "reg_ok s" "\<forall>ev \<in> set evs. \<not> resets_heartbeat (fst (snd ev))"
    and "ping_counter s + length evs < 4294967296" "pong_counter s + length evs < 4294967296"
  shows "\<exists>s'. core_run evs s = Some s' \<and> reg_ok s' \<and>
    ping_counter s' = ping_counter s + count_msg MSG_CORE_WS_PING evs \<and>
    pong_counter s' = pong_counter s + count_msg MSG_CORE_WS_PING_OK evs"
  using assms
proof (induction evs arbitrary: s)
  case Nil
  then show ?case by (simp add: count_msg_def)
next
  case (Cons ev evs)
  obtain e m p where ev: "ev = (e, m, p)" by (cases ev) auto
  have nr: "\<not> resets_heartbeat m" using Cons.prems(2) by (simp add: ev)
  from task_counters [OF Cons.prems(1) nr, of e p] Cons.prems(3,4) obtain t where
    t: "taskIoTgoNetworkCenter e (m, p) s = Some t" "reg_ok t"
      "ping_counter t = ping_counter s + (if m = MSG_CORE_WS_PING then 1 else 0)"
      "pong_counter t = pong_counter s + (if m = MSG_CORE_WS_PING_OK then 1 else 0)"
    by (auto simp: to_u32_add1)
  have "ping_counter t + length evs < 4294967296" "pong_counter t + length evs < 4294967296"
    using Cons.prems(3,4) t(3,4) by (simp_all split: if_splits)
  with Cons.IH [OF t(2)] Cons.prems(2) obtain s' where
    "core_run evs t = Some s'" "reg_ok s'"
    "ping_counter s' = ping_counter t + count_msg MSG_CORE_WS_PING evs"
    "pong_counter s' = pong_counter t + count_msg MSG_CORE_WS_PING_OK evs"
    by auto
  then show ?case using t by (simp add: ev count_msg_def)
qed

lemma ping_gap:
  assumes "n < 4294967296" "m < 4294967295"
  shows "to_u32 (int n - int m) \<ge> 2 \<longleftrightarrow> \<not> (m \<le> n \<and> n < m + 2)"
proof (cases "m \<le> n")
  case True
  then show ?thesis using to_u32_diff [OF True assms(1)] by auto
next
  case False
  then have "(int n - int m + 4294967296) mod 4294967296 = int n - int m + 4294967296"
    using assms by (intro mod_pos_pos_trivial) simp_all
  then have "(int n - int m) mod 4294967296 = int n - int m + 4294967296" by (simp only: mod_add_self2)
  then show ?thesis using False assms by (simp add: to_u32_def)
qed


definition quiet_sdk :: sdk where
  "quiet_sdk = \<lparr>sdk_rand = 5, sdk_time = 1000, sdk_opmode = 1, sdk_station = STATION_GOT_IP\<rparr>"


subsection \<open>Setting modes\<close>

text \<open>The messages whose handlers set the mode without asking for the current one.\<close>

definition leaves_setting :: "IoTgoSignalSet \<Rightarrow> bool" where
  "leaves_setting m \<longleftrightarrow> m \<in> {MSG_CORE_JOIN_AP, MSG_CORE_JOIN_AP_ERR, MSG_CORE_AP_JOINED,
     MSG_CORE_UPGRADE_EXIT, MSG_CORE_ENTER_SETTING_MODE, MSG_CORE_ENTER_SETTING_SELFAP_MODE}"

definition undisturbed :: "net \<Rightarrow> net \<Rightarrow> bool" where
  "undisturbed s s' \<longleftrightarrow> device_mode s' = device_mode s \<and>
     (\<exists>cs. calls s' = calls s @ cs \<and> PconnConnect \<notin> set cs \<and> PconnDeviceRegister \<notin> set cs \<and>
        (device_mode s = DEVICE_MODE_SETTING \<longrightarrow> StartDistorRequest \<notin> set cs))"

lemma undisturbed_refl: "undisturbed s s"
  by (simp add: undisturbed_def)

lemma undisturbed_trans: "undisturbed s t \<Longrightarrow> undisturbed t u \<Longrightarrow> undisturbed s u"
  by (auto simp: undisturbed_def)

lemma task_setting:
  assumes "reg_ok s" "setting_mode s" "\<not> leaves_setting m"
  shows "\<exists>s'. taskIoTgoNetworkCenter e (m, p) s = Some s' \<and> reg_ok s' \<and> setting_mode s' \<and> undisturbed s s'"
proof -
  have mono: "1500 * reg_interval s < 4294967296" using assms(1) by (simp add: reg_ok_def mult.commute)
  show ?thesis
    using assms mono
    by (cases m) (auto simp: task_defs core_prims reg_ok_def setting_mode_def leaves_setting_def
      undisturbed_def Let_def retry_register_eq retry_backoff_eq)
qed

text \<open>
  in a setting mode the device keeps that mode, does not connect to the server and does not
  register, and in the smart-configuration mode asks no distributor, whatever messages arrive
  other than the six whose handlers set the mode unconditionally.
\<close>

theorem setting_not_disturbed:
  assumes "reg_ok s" "setting_mode s" "\<forall>ev \<in> set evs. \<not> leaves_setting (fst (snd ev))"
  shows "\<exists>s'. core_run evs s = Some s' \<and> device_mode s' = device_mode s \<and>
     (\<exists>cs. calls s' = calls s @ cs \<and> PconnConnect \<notin> set cs \<and> PconnDeviceRegister \<notin> set cs \<and>
        (device_mode s = DEVICE_MODE_SETTING \<longrightarrow> StartDistorRequest \<notin> set cs))"
proof -
  have "\<exists>s'. core_run evs s = Some s' \<and> undisturbed s s'"
    using assms
  proof (induction evs arbitrary: s)
    case Nil
    then show ?case by (simp add: undisturbed_refl)
  next
    case (Cons ev evs)
    obtain e m p where ev: "ev = (e, m, p)" by (cases ev) auto
    from task_setting [OF Cons.prems(1,2), of m e p] Cons.prems(3) obtain t where
      t: "taskIoTgoNetworkCenter e (m, p) s = Some t" "reg_ok t" "setting_mode t" "undisturbed s t"
      by (auto simp: ev)
    from Cons.IH [OF t(2,3)] Cons.prems(3) obtain s' where "core_run evs t = Some s'" "undisturbed t s'" by auto
    with t show ?case by (auto simp: ev intro: undisturbed_trans)
  qed
  then show ?thesis by (simp add: undisturbed_def)
qed

theorem setting_not_disturbed_witness:
  "\<exists>s'. core_run [(quiet_sdk, MSG_CORE_REGISTERED, 0), (quiet_sdk, MSG_CORE_DISTRIBUTOR, 0),
      (quiet_sdk, MSG_CORE_CONNECT_SERVER, 0), (quiet_sdk, MSG_CORE_REGISTER, 0)]
      (net_init\<lparr>device_mode := DEVICE_MODE_SETTING\<rparr>) = Some s' \<and> device_mode s' = DEVICE_MODE_SETTING"
  using setting_not_disturbed [of "net_init\<lparr>device_mode := DEVICE_MODE_SETTING\<rparr>"
    "[(quiet_sdk, MSG_CORE_REGISTERED, 0), (quiet_sdk, MSG_CORE_DISTRIBUTOR, 0),
      (quiet_sdk, MSG_CORE_CONNECT_SERVER, 0), (quiet_sdk, MSG_CORE_REGISTER, 0)]"]
  by (auto simp: reg_ok_def net_init_def leaves_setting_def setting_mode_def iotgoDeviceMode_def)

subsection \<open>The watchdog\<close>

definition joining :: "net \<Rightarrow> bool" where
  "joining s \<longleftrightarrow> device_mode s \<in> {DEVICE_MODE_WORK_AP_ERR, DEVICE_MODE_WORK_AP_OK, DEVICE_MODE_WORK_INIT}"

lemma monitor_tick:
  assumes "joining t" "mode_monitor_cnt t < 60"
  shows "cbModeMonitorTimer t =
    (if mode_monitor_cnt t = 59 then post_core MSG_CORE_JOIN_AP 0 (t\<lparr>mode_monitor_cnt := 0\<rparr>)
     else t\<lparr>mode_monitor_cnt := Suc (mode_monitor_cnt t)\<rparr>)"
proof -
  have "to_u32 (int (mode_monitor_cnt t) + 1) = Suc (mode_monitor_cnt t)" using assms(2) by (simp add: to_u32_add1)
  with assms show ?thesis by (auto simp: cbModeMonitorTimer_def iotgoDeviceMode_def joining_def Let_def)
qed

text \<open>
  a device that stays in a mode without a registered connection asks to join the access point
  again at every sixtieth tick of the one-second mode monitor, and at no other, as long as the
  message queue has room.
\<close>

theorem watchdog_rejoins:
  assumes "joining s" "mode_monitor_cnt s < 60"
    and "length (core_q s) + (mode_monitor_cnt s + n) div 60 \<le> IOTGO_TASK_CORE_QLEN"
  shows "(cbModeMonitorTimer ^^ n) s =
    s\<lparr>mode_monitor_cnt := (mode_monitor_cnt s + n) mod 60,
      core_q := core_q s @ replicate ((mode_monitor_cnt s + n) div 60) (MSG_CORE_JOIN_AP, 0)\<rparr>"
  using assms(3)
proof (induction n)
  case 0
  then show ?case using assms(2) by simp
next
  case (Suc n)
  let ?c = "mode_monitor_cnt s + n"
  let ?t = "s\<lparr>mode_monitor_cnt := ?c mod 60, core_q := core_q s @ replicate (?c div 60) (MSG_CORE_JOIN_AP, 0)\<rparr>"
  have "?c div 60 \<le> (mode_monitor_cnt s + Suc n) div 60" by (intro div_le_mono) simp
  with Suc have t: "(cbModeMonitorTimer ^^ n) s = ?t" by simp
  have "joining ?t" "mode_monitor_cnt ?t < 60" using assms(1) by (simp_all add: joining_def)
  note tick = monitor_tick [OF this]
  have step: "(cbModeMonitorTimer ^^ Suc n) s = cbModeMonitorTimer ?t" using t by simp
  show ?case
  proof (cases "?c mod 60 = 59")
    case True
    then have m: "(mode_monitor_cnt s + Suc n) mod 60 = 0" and d: "(mode_monitor_cnt s + Suc n) div 60 = Suc (?c div 60)"
      by (simp_all add: mod_Suc div_Suc)
    moreover have "length (core_q ?t) < IOTGO_TASK_CORE_QLEN" using Suc.prems d by simp
    ultimately show ?thesis unfolding step tick m d using True
      by (simp add: post_core_def replicate_append_same)
  next
    case False
    then have m: "(mode_monitor_cnt s + Suc n) mod 60 = Suc (?c mod 60)"
      and d: "(mode_monitor_cnt s + Suc n) div 60 = ?c div 60"
      by (simp_all add: mod_Suc div_Suc)
    show ?thesis unfolding step tick m d using False by simp
  qed
qed

theorem watchdog_rejoins_witness:
  "core_q ((cbModeMonitorTimer ^^ 125) (net_init\<lparr>device_mode := DEVICE_MODE_WORK_INIT\<rparr>)) =
    [(MSG_CORE_JOIN_AP, 0), (MSG_CORE_JOIN_AP, 0)]"
  by (subst watchdog_rejoins) (simp_all add: joining_def net_init_def IOTGO_TASK_CORE_QLEN_def numeral_2_eq_2)

end
