(* ===== verification/CoreStart.thy ===== *)
theory CoreStart
  imports CoreSpec
begin

text \<open>
  The way up: with an access point that lets the station join, and a distributor and a server
  that answer, the device ends registered, whatever its state was.
\<close>

subsection \<open>An environment that answers\<close>

text \<open>The message that the component behind a call posts when its request succeeds.\<close>

definition answer :: "net_call \<Rightarrow> (IoTgoSignalSet \<times> nat) option" where
  "answer c =
     (case c of
        StartDistorRequest \<Rightarrow> Some (MSG_CORE_DISTRIBUTOR_FINISHED, IOTGO_DISTRIBUTOR_RESULT_OK)
      | PconnConnect \<Rightarrow> Some (MSG_CORE_SERVER_CONNECTED, 0)
      | PconnSwitchToWebSocket \<Rightarrow> Some (MSG_CORE_WS_CONNECTED, 0)
      | PconnDeviceRegister \<Rightarrow> Some (MSG_CORE_REGISTERED, 0)
      | PconnDeviceDate \<Rightarrow> Some (MSG_CORE_DATE_OK, 0)
      | _ \<Rightarrow> None)"

definition post_answer :: "net_call \<Rightarrow> net \<Rightarrow> net" where
  "post_answer c s = (case answer c of None \<Rightarrow> s | Some (m, p) \<Rightarrow> post_core m p s)"

text \<open>One message is handled, and its calls are answered.\<close>

definition answered_step :: "sdk \<Rightarrow> net \<Rightarrow> net option" where
  "answered_step e s =
     map_option (\<lambda>t. fold post_answer (drop (length (calls s)) (calls t)) t) (core_step e s)"

fun answered_run :: "sdk list \<Rightarrow> net \<Rightarrow> net option" where
  "answered_run [] s = Some s"
| "answered_run (e # es) s = Option.bind (answered_step e s) (answered_run es)"

lemmas start_simps = answered_step_def core_step_def task_defs core_prims
  post_core_def IOTGO_TASK_CORE_QLEN_def post_answer_def answer_def Let_def

subsection \<open>The steps\<close>

lemma step_joined:
  assumes "core_q s = [(MSG_CORE_AP_JOINED, p)]"
  shows "\<exists>t. answered_step e s = Some t \<and> core_q t = [(MSG_CORE_DISTRIBUTOR, 0)] \<and>
    device_mode t = DEVICE_MODE_WORK_AP_OK \<and> device_q t = device_q s"
  using assms by (simp add: start_simps)

lemma step_distributor:
  assumes "core_q s = [(MSG_CORE_DISTRIBUTOR, p)]" "device_mode s = DEVICE_MODE_WORK_AP_OK"
  shows "\<exists>t. answered_step e s = Some t \<and>
    core_q t = [(MSG_CORE_DISTRIBUTOR_FINISHED, IOTGO_DISTRIBUTOR_RESULT_OK)] \<and>
    device_mode t = DEVICE_MODE_WORK_AP_OK \<and> device_q t = device_q s"
  using assms by (simp add: start_simps)

lemma step_distributed:
  assumes "core_q s = [(MSG_CORE_DISTRIBUTOR_FINISHED, IOTGO_DISTRIBUTOR_RESULT_OK)]"
    "device_mode s = DEVICE_MODE_WORK_AP_OK"
  shows "\<exists>t. answered_step e s = Some t \<and> core_q t = [(MSG_CORE_CONNECT_SERVER, 0)] \<and>
    device_mode t = DEVICE_MODE_WORK_AP_OK \<and> device_q t = device_q s \<and> try_conn_distor_counter t = 0"
  using assms by (simp add: start_simps)

lemma step_connect:
  assumes "core_q s = [(MSG_CORE_CONNECT_SERVER, p)]" "device_mode s = DEVICE_MODE_WORK_AP_OK"
  shows "\<exists>t. answered_step e s = Some t \<and> core_q t = [(MSG_CORE_SERVER_CONNECTED, 0)] \<and>
    device_mode t = DEVICE_MODE_WORK_AP_OK \<and> device_q t = device_q s \<and>
    try_conn_distor_counter t = try_conn_distor_counter s"
  using assms by (simp add: start_simps setting_mode_def)

lemma step_connected:
  assumes "core_q s = [(MSG_CORE_SERVER_CONNECTED, p)]" "device_mode s = DEVICE_MODE_WORK_AP_OK"
  shows "\<exists>t. answered_step e s = Some t \<and> core_q t = [(MSG_CORE_WS_CONNECT, 0)] \<and>
    device_mode t = DEVICE_MODE_WORK_AP_OK \<and> device_q t = device_q s \<and>
    try_conn_distor_counter t = try_conn_distor_counter s \<and> try_conn_server_counter t = 0"
  using assms by (simp add: start_simps)

lemma step_ws:
  assumes "core_q s = [(MSG_CORE_WS_CONNECT, p)]" "device_mode s = DEVICE_MODE_WORK_AP_OK"
  shows "\<exists>t. answered_step e s = Some t \<and> core_q t = [(MSG_CORE_WS_CONNECTED, 0)] \<and>
    device_mode t = DEVICE_MODE_WORK_AP_OK \<and> device_q t = device_q s \<and>
    try_conn_distor_counter t = try_conn_distor_counter s \<and> try_conn_server_counter t = try_conn_server_counter s"
  using assms by (simp add: start_simps)

text \<open>From here on the heartbeat runs.\<close>

definition alive :: "net \<Rightarrow> bool" where
  "alive s \<longleftrightarrow> heartbeat_timer s = Armed 1000 True \<and> ping_counter s = 0 \<and> pong_counter s = 0 \<and>
     try_conn_distor_counter s = 0 \<and> try_conn_server_counter s = 0"

lemma step_ws_connected:
  assumes "core_q s = [(MSG_CORE_WS_CONNECTED, p)]" "device_mode s = DEVICE_MODE_WORK_AP_OK"
    "try_conn_distor_counter s = 0" "try_conn_server_counter s = 0"
  shows "\<exists>t. answered_step e s = Some t \<and> core_q t = [(MSG_CORE_REGISTER, 0)] \<and>
    device_mode t = DEVICE_MODE_WORK_AP_OK \<and> device_q t = device_q s \<and> alive t"
  using assms by (simp add: start_simps alive_def)

lemma step_register:
  assumes "core_q s = [(MSG_CORE_REGISTER, p)]" "device_mode s = DEVICE_MODE_WORK_AP_OK" "alive s"
  shows "\<exists>t. answered_step e s = Some t \<and> core_q t = [(MSG_CORE_REGISTERED, 0)] \<and>
    device_mode t = DEVICE_MODE_WORK_INIT \<and> device_q t = device_q s \<and> alive t"
  using assms by (simp add: start_simps alive_def setting_mode_def)

lemma step_registered:
  assumes "core_q s = [(MSG_CORE_REGISTERED, p)]" "device_mode s = DEVICE_MODE_WORK_INIT" "alive s"
  shows "\<exists>t. answered_step e s = Some t \<and> core_q t = [(MSG_CORE_DATE, 0)] \<and>
    device_mode t = DEVICE_MODE_WORK_NORMAL \<and> device_q t = device_q s \<and> alive t \<and>
    is_first_action_date t \<and> try_register_counter t = 0"
  using assms by (simp add: start_simps alive_def setting_mode_def)

lemma step_date:
  assumes "core_q s = [(MSG_CORE_DATE, p)]" "device_mode s = DEVICE_MODE_WORK_NORMAL" "alive s"
    "is_first_action_date s" "try_register_counter s = 0"
  shows "\<exists>t. answered_step e s = Some t \<and> core_q t = [(MSG_CORE_DATE_OK, 0)] \<and>
    device_mode t = DEVICE_MODE_WORK_NORMAL \<and> device_q t = device_q s \<and> alive t \<and>
    is_first_action_date t \<and> try_register_counter t = 0"
  using assms by (simp add: start_simps alive_def)

lemma step_date_ok:
  assumes "core_q s = [(MSG_CORE_DATE_OK, p)]" "device_mode s = DEVICE_MODE_WORK_NORMAL" "alive s"
    "is_first_action_date s" "try_register_counter s = 0"
    "length (device_q s) < IOTGO_TASK_DEVICE_CENTER_QLEN"
  shows "\<exists>t. answered_step e s = Some t \<and> core_q t = [] \<and>
    device_mode t = DEVICE_MODE_WORK_NORMAL \<and> device_q t = device_q s @ [(SIG_DEVICE_READYED, 0)] \<and> alive t \<and>
    try_register_counter t = 0"
  using assms by (simp add: start_simps alive_def post_device_def IOTGO_TASK_DEVICE_CENTER_QLEN_def)

lemma joined_starts:
  assumes "core_q s = [(MSG_CORE_AP_JOINED, p)]" "length (device_q s) < IOTGO_TASK_DEVICE_CENTER_QLEN"
    and "length es = 11"
  shows "\<exists>t. answered_run es s = Some t \<and> core_q t = [] \<and>
    device_mode t = DEVICE_MODE_WORK_NORMAL \<and> device_q t = device_q s @ [(SIG_DEVICE_READYED, 0)] \<and> alive t \<and>
    try_register_counter t = 0"
proof -
  obtain e1 e2 e3 e4 e5 e6 e7 e8 e9 e10 e11 where es: "es = [e1, e2, e3, e4, e5, e6, e7, e8, e9, e10, e11]"
    using assms(3) by (auto simp: length_Suc_conv eval_nat_numeral)
  obtain s1 where 1: "answered_step e1 s = Some s1" "core_q s1 = [(MSG_CORE_DISTRIBUTOR, 0)]"
    "device_mode s1 = DEVICE_MODE_WORK_AP_OK" "device_q s1 = device_q s"
    using step_joined [OF assms(1)] by blast
  obtain s2 where 2: "answered_step e2 s1 = Some s2"
    "core_q s2 = [(MSG_CORE_DISTRIBUTOR_FINISHED, IOTGO_DISTRIBUTOR_RESULT_OK)]"
    "device_mode s2 = DEVICE_MODE_WORK_AP_OK" "device_q s2 = device_q s"
    using step_distributor [OF 1(2,3)] 1(4) by metis
  obtain s3 where 3: "answered_step e3 s2 = Some s3" "core_q s3 = [(MSG_CORE_CONNECT_SERVER, 0)]"
    "device_mode s3 = DEVICE_MODE_WORK_AP_OK" "device_q s3 = device_q s" "try_conn_distor_counter s3 = 0"
    using step_distributed [OF 2(2,3)] 2(4) by metis
  obtain s4 where 4: "answered_step e4 s3 = Some s4" "core_q s4 = [(MSG_CORE_SERVER_CONNECTED, 0)]"
    "device_mode s4 = DEVICE_MODE_WORK_AP_OK" "device_q s4 = device_q s" "try_conn_distor_counter s4 = 0"
    using step_connect [OF 3(2,3)] 3(4,5) by metis
  obtain s5 where 5: "answered_step e5 s4 = Some s5" "core_q s5 = [(MSG_CORE_WS_CONNECT, 0)]"
    "device_mode s5 = DEVICE_MODE_WORK_AP_OK" "device_q s5 = device_q s" "try_conn_distor_counter s5 = 0"
    "try_conn_server_counter s5 = 0"
    using step_connected [OF 4(2,3)] 4(4,5) by metis
  obtain s6 where 6: "answered_step e6 s5 = Some s6" "core_q s6 = [(MSG_CORE_WS_CONNECTED, 0)]"
    "device_mode s6 = DEVICE_MODE_WORK_AP_OK" "device_q s6 = device_q s" "try_conn_distor_counter s6 = 0"
    "try_conn_server_counter s6 = 0"
    using step_ws [OF 5(2,3)] 5(4-6) by metis
  obtain s7 where 7: "answered_step e7 s6 = Some s7" "core_q s7 = [(MSG_CORE_REGISTER, 0)]"
    "device_mode s7 = DEVICE_MODE_WORK_AP_OK" "device_q s7 = device_q s" "alive s7"
    using step_ws_connected [OF 6(2,3,5,6)] 6(4) by metis
  obtain s8 where 8: "answered_step e8 s7 = Some s8" "core_q s8 = [(MSG_CORE_REGISTERED, 0)]"
    "device_mode s8 = DEVICE_MODE_WORK_INIT" "device_q s8 = device_q s" "alive s8"
    using step_register [OF 7(2,3,5)] 7(4) by metis
  obtain s9 where 9: "answered_step e9 s8 = Some s9" "core_q s9 = [(MSG_CORE_DATE, 0)]"
    "device_mode s9 = DEVICE_MODE_WORK_NORMAL" "device_q s9 = device_q s" "alive s9"
    "is_first_action_date s9" "try_register_counter s9 = 0"
    using step_registered [OF 8(2,3,5)] 8(4) by metis
  obtain s10 where 10: "answered_step e10 s9 = Some s10" "core_q s10 = [(MSG_CORE_DATE_OK, 0)]"
    "device_mode s10 = DEVICE_MODE_WORK_NORMAL" "device_q s10 = device_q s" "alive s10"
    "is_first_action_date s10" "try_register_counter s10 = 0"
    using step_date [OF 9(2,3,5-7)] 9(4) by metis
  have "length (device_q s10) < IOTGO_TASK_DEVICE_CENTER_QLEN" using 10(4) assms(2) by simp
  from step_date_ok [OF 10(2,3,5-7) this] 10(4) obtain s11 where
    "answered_step e11 s10 = Some s11" "core_q s11 = []" "device_mode s11 = DEVICE_MODE_WORK_NORMAL"
    "device_q s11 = device_q s @ [(SIG_DEVICE_READYED, 0)]" "alive s11" "try_register_counter s11 = 0" by metis
  then show ?thesis using 1(1) 2(1) 3(1) 4(1) 5(1) 6(1) 7(1) 8(1) 9(1) 10(1) by (simp add: es)
qed

subsection \<open>From the request to join\<close>

text \<open>
  C11: when the request to join is handled, the station connects and gets an address, and the
  distributor and the server answer, then after eleven messages the queue is empty, the device is
  in its normal mode with the heartbeat running and all failure counters reset, and the device
  task is told once that the device is ready: whatever mode, timers and counters it started with.
\<close>

theorem network_comes_up:
  assumes "core_q s = [(MSG_CORE_JOIN_AP, p)]" "length (device_q s) < IOTGO_TASK_DEVICE_CENTER_QLEN"
    and "core_step e s = Some s1" "s2 = joinAPStage2 STATION_GOT_IP rssi (joinAPTimerCallback True s1)"
    and "length es = 11"
  shows "\<exists>t. answered_run es s2 = Some t \<and> core_q t = [] \<and> device_mode t = DEVICE_MODE_WORK_NORMAL \<and>
    device_q t = device_q s @ [(SIG_DEVICE_READYED, 0)] \<and> heartbeat_timer t = Armed 1000 True \<and>
    ping_counter t = 0 \<and> pong_counter t = 0 \<and> try_conn_distor_counter t = 0 \<and>
    try_conn_server_counter t = 0 \<and> try_register_counter t = 0"
proof -
  have s1: "core_q s1 = []" "device_mode s1 = DEVICE_MODE_WORK_AP_ERR" "device_q s1 = device_q s"
    using assms(1,3) by (auto simp: core_step_def task_defs core_prims Let_def)
  then have "core_q s2 = [(MSG_CORE_AP_JOINED, 0)]" "device_q s2 = device_q s"
    by (simp_all add: assms(4) joinAPStage2_def joinAPTimerCallback_def queueInit_def core_prims
      post_core_def IOTGO_TASK_CORE_QLEN_def Let_def)
  with joined_starts [of s2 0 es] assms(2,5) show ?thesis by (auto simp: alive_def)
qed

theorem network_comes_up_witness:
  "\<exists>s1 t. core_step quiet_sdk (startIoTgoNetworkCenter quiet_sdk net_init) = Some s1 \<and>
    answered_run (replicate 11 quiet_sdk) (joinAPStage2 STATION_GOT_IP (-60) (joinAPTimerCallback True s1)) = Some t \<and>
    device_mode t = DEVICE_MODE_WORK_NORMAL \<and> device_q t = [(SIG_DEVICE_READYED, 0)]"
proof -
  let ?s = "startIoTgoNetworkCenter quiet_sdk net_init"
  have q: "core_q ?s = [(MSG_CORE_JOIN_AP, 0)]" "device_q ?s = []"
    by (simp_all add: startIoTgoNetworkCenter_def net_init_def core_prims post_core_def IOTGO_TASK_CORE_QLEN_def quiet_sdk_def)
  then obtain s1 where s1: "core_step quiet_sdk ?s = Some s1"
    by (simp add: core_step_def task_defs)
  have "length (device_q ?s) < IOTGO_TASK_DEVICE_CENTER_QLEN" by (simp add: q(2) IOTGO_TASK_DEVICE_CENTER_QLEN_def)
  from network_comes_up [OF q(1) this s1 refl, of "replicate 11 quiet_sdk" "-60"] q(2) s1 show ?thesis by auto
qed

end
