(* ===== verification/WifiSpec.thy ===== *)
theory WifiSpec
  imports Wifi
begin

text \<open>
  The signal strength of \<open>iotgo_wifi.c\<close>: the queue keeps the last ten values, and its average is
  cut off towards zero after a half is added, so that a steady negative value \<open>v\<close> is reported as
  \<open>v + 1\<close>.  Joining: ten attempts of two seconds at most.
\<close>

subsection \<open>The queue\<close>

lemma shift_loop_below: "i < j \<Longrightarrow> shift_loop i q ! j = q ! j"
  by (induction i q rule: shift_loop.induct) simp_all

lemma length_shift_loop [simp]: "length (shift_loop i q) = length q"
  by (induction i q rule: shift_loop.induct) simp_all

lemma shift_loop_nth: "j \<le> i \<Longrightarrow> 0 < j \<Longrightarrow> i < length q \<Longrightarrow> shift_loop i q ! j = q ! (j - 1)"
proof (induction i q rule: shift_loop.induct)
  case (2 i q)
  then show ?case by (cases "j = Suc i") (simp_all add: shift_loop_below)
qed simp

lemma queueShift_eq:
  assumes "length (rssi_queue s) = IOTGO_RSSI_QUEUE_LEN"
  shows "queueShift val s = s\<lparr>rssi_queue := val # butlast (rssi_queue s)\<rparr>"
proof -
  let ?q = "rssi_queue s"
  have "(shift_loop 9 ?q)[0 := val] = val # butlast ?q"
  proof (rule nth_equalityI)
    show "length ((shift_loop 9 ?q)[0 := val]) = length (val # butlast ?q)"
      using assms by (simp add: IOTGO_RSSI_QUEUE_LEN_def)
    fix j assume "j < length ((shift_loop 9 ?q)[0 := val])"
    then have "j < 10" using assms by (simp add: IOTGO_RSSI_QUEUE_LEN_def)
    then show "(shift_loop 9 ?q)[0 := val] ! j = (val # butlast ?q) ! j"
      using assms shift_loop_nth [of j 9 ?q] by (cases j) (simp_all add: IOTGO_RSSI_QUEUE_LEN_def nth_butlast)
  qed
  then show ?thesis by (simp add: queueShift_def IOTGO_RSSI_QUEUE_LEN_def)
qed

lemma queueAverage_negative:
  assumes "sum_list (rssi_queue s) \<le> - 5"
  shows "queueAverage s = - ((- sum_list (rssi_queue s) - 5) div 10)"
proof -
  let ?k = "- sum_list (rssi_queue s) - 5"
  have "0 \<le> ?k" using assms by simp
  have "queueAverage s = (- (2 * ?k)) sdiv 20" by (simp add: queueAverage_def algebra_simps)
  also have "\<dots> = - ((2 * ?k) div (2 * 10))" using assms
    by (cases "?k = 0") (simp_all add: signed_divide_int_def)
  also have "\<dots> = - (?k div 10)" by (subst div_mult_mult1) simp_all
  finally show ?thesis .
qed

lemma steady_rssi_off_by_one:
  assumes "v \<le> - 1" shows "queueAverage (queueInit v s) = v + 1"
proof -
  have sum: "sum_list (rssi_queue (queueInit v s)) = 10 * v"
    by (simp add: queueInit_def IOTGO_RSSI_QUEUE_LEN_def sum_list_replicate)
  with assms have "queueAverage (queueInit v s) = - ((- (10 * v) - 5) div 10)"
    by (subst queueAverage_negative) simp_all
  also have "(- (10 * v) - 5) div 10 = - v - 1" by simp
  finally show ?thesis by simp
qed

end
