(* ===== verification/FlashStore.thy ===== *)
theory FlashStore
  imports FwPrelude
begin

text \<open>
  Parameters in flash: \<open>app/user/iotgo_flash.c\<close> keeps the parameter block of the firmware, and
  \<open>devLoadConfigFromFlash\<close>, \<open>devSaveConfigToFlash\<close> and \<open>devEraseConfigInFlash\<close> of
  \<open>iotgo_global.c\<close> the configuration of the device, each in two copies in two sectors and a third
  sector whose first byte tells which copy is current.  The cipher sector binds the firmware to
  the chip and its flash.

  The SPI flash of the SDK is a parameter; every access of the source starts at the begin of a
  sector, so operations take a sector number.  The blocks are byte lists.
\<close>

subsection \<open>The flash\<close>

record 'f spi =
  spi_read :: "nat \<Rightarrow> nat \<Rightarrow> 'f \<Rightarrow> bytes"
  spi_erase :: "nat \<Rightarrow> 'f \<Rightarrow> 'f"
  spi_write :: "nat \<Rightarrow> bytes \<Rightarrow> 'f \<Rightarrow> 'f"

datatype spi_op = SpiErase (sector_of: nat) | SpiWrite (sector_of: nat) bytes

fun run_spi :: "'f spi \<Rightarrow> spi_op \<Rightarrow> 'f \<Rightarrow> 'f" where
  "run_spi fl (SpiErase k) f = spi_erase fl k f"
| "run_spi fl (SpiWrite k p) f = spi_write fl k p f"

definition SPI_FLASH_SEC_SIZE :: nat where
  "SPI_FLASH_SEC_SIZE = 4096"

text \<open>\<open>sizeof(IoTgoFlashParamFlag)\<close>: the flag, three bytes and a word of padding.\<close>

definition flag_size :: nat where
  "flag_size = 8"

subsection \<open>Two copies\<close>

text \<open>Sectors \<open>base\<close> and \<open>base + 1\<close> hold the copies and \<open>base + 2\<close> the flag.\<close>

definition load_copy :: "'f spi \<Rightarrow> nat \<Rightarrow> nat \<Rightarrow> 'f \<Rightarrow> bytes" where
  "load_copy fl base n f =
     (let flag = spi_read fl (base + 2) flag_size f
      in if flag ! 0 = 0 then spi_read fl base n f else spi_read fl (base + 1) n f)"

definition save_copy_ops :: "'f spi \<Rightarrow> nat \<Rightarrow> bytes \<Rightarrow> 'f \<Rightarrow> spi_op list" where
  "save_copy_ops fl base param f =
     (let flag = spi_read fl (base + 2) flag_size f
      in if flag ! 0 = 0
         then [SpiErase (base + 1), SpiWrite (base + 1) param, SpiErase (base + 2), SpiWrite (base + 2) (flag[0 := 1])]
         else [SpiErase base, SpiWrite base param, SpiErase (base + 2), SpiWrite (base + 2) (flag[0 := 0])])"

definition save_copy :: "'f spi \<Rightarrow> nat \<Rightarrow> bytes \<Rightarrow> 'f \<Rightarrow> 'f" where
  "save_copy fl base param f = fold (run_spi fl) (save_copy_ops fl base param f) f"

subsection \<open>The parameter block\<close>

definition IOTGO_PARAM_START_SEC :: nat where
  "IOTGO_PARAM_START_SEC = 0x78"

text \<open>\<open>n\<close> is \<open>sizeof(IoTgoFlashParam)\<close>.\<close>

definition iotgoFlashLoadParam :: "'f spi \<Rightarrow> nat \<Rightarrow> 'f \<Rightarrow> bytes" where
  "iotgoFlashLoadParam fl n f = load_copy fl IOTGO_PARAM_START_SEC n f"

definition iotgoFlashSaveParam :: "'f spi \<Rightarrow> bytes \<Rightarrow> 'f \<Rightarrow> 'f" where
  "iotgoFlashSaveParam fl param f = save_copy fl IOTGO_PARAM_START_SEC param f"

subsection \<open>The device configuration\<close>

definition DEVICE_CONFIG_START_SEC :: nat where
  "DEVICE_CONFIG_START_SEC = 0x7C"

text \<open>The length is limited to a sector and cut down to a multiple of four.\<close>

definition config_len :: "nat \<Rightarrow> nat" where
  "config_len n = (let n = n mod (SPI_FLASH_SEC_SIZE + 1) in n - n mod 4)"

definition devLoadConfigFromFlash :: "'f spi \<Rightarrow> nat \<Rightarrow> 'f \<Rightarrow> bytes" where
  "devLoadConfigFromFlash fl n f = load_copy fl DEVICE_CONFIG_START_SEC (config_len n) f"

text \<open>\<open>n\<close> is the length argument, \<open>param\<close> the memory it points to.\<close>

definition devSaveConfigToFlash :: "'f spi \<Rightarrow> bytes \<Rightarrow> nat \<Rightarrow> 'f \<Rightarrow> 'f" where
  "devSaveConfigToFlash fl param n f = save_copy fl DEVICE_CONFIG_START_SEC (take (config_len n) param) f"

definition devEraseConfigInFlash :: "'f spi \<Rightarrow> 'f \<Rightarrow> 'f" where
  "devEraseConfigInFlash fl f =
     fold (run_spi fl) [SpiErase (DEVICE_CONFIG_START_SEC + 2), SpiErase DEVICE_CONFIG_START_SEC,
       SpiErase (DEVICE_CONFIG_START_SEC + 1)] f"

subsection \<open>The cipher\<close>

definition IOTGO_FLASH_CIPHER_SECTOR :: nat where
  "IOTGO_FLASH_CIPHER_SECTOR = 0xF8"

definition userLoadIoTgoFlashCipher :: "'f spi \<Rightarrow> 'f \<Rightarrow> bytes" where
  "userLoadIoTgoFlashCipher fl f = spi_read fl IOTGO_FLASH_CIPHER_SECTOR SPI_FLASH_SEC_SIZE f"

definition userStoreIoTgoFlashCipher :: "'f spi \<Rightarrow> bytes \<Rightarrow> 'f \<Rightarrow> 'f" where
  "userStoreIoTgoFlashCipher fl param f =
     fold (run_spi fl) [SpiErase IOTGO_FLASH_CIPHER_SECTOR, SpiWrite IOTGO_FLASH_CIPHER_SECTOR param] f"

text \<open>\<open>r i\<close> is the value of \<open>rand()\<close> for byte \<open>i\<close>.\<close>

definition cipher_byte :: "(nat \<Rightarrow> int) \<Rightarrow> u32 \<Rightarrow> nat \<Rightarrow> u8" where
  "cipher_byte r cipher i =
     (if i = 7 then ucast (drop_bit 24 cipher AND 0xFF)
      else if i = 170 then ucast (drop_bit 16 cipher AND 0xFF)
      else if i = 1700 then ucast (drop_bit 8 cipher AND 0xFF)
      else if i = 1709 then ucast (cipher AND 0xFF)
      else word_of_int (r i smod 256))"

definition iotgoFlashCipher :: "'f spi \<Rightarrow> bool \<Rightarrow> (nat \<Rightarrow> int) \<Rightarrow> u32 \<Rightarrow> u32 \<Rightarrow> 'f \<Rightarrow> bool \<times> 'f" where
  "iotgoFlashCipher fl os_zalloc r esp8266_id flash_id f =
     (if \<not> os_zalloc then (False, f)
      else
        (let cipher = esp8266_id XOR flash_id
         in (True, userStoreIoTgoFlashCipher fl (map (cipher_byte r cipher) [0..<SPI_FLASH_SEC_SIZE]) f)))"

definition iotgoFlashDecipher :: "'f spi \<Rightarrow> bool \<Rightarrow> u32 \<Rightarrow> u32 \<Rightarrow> 'f \<Rightarrow> bool" where
  "iotgoFlashDecipher fl os_zalloc esp8266_id flash_id f =
     (if \<not> os_zalloc then False
      else
        (let psector = userLoadIoTgoFlashCipher fl f;
             cipher = push_bit 24 (ucast (psector ! 7)) OR push_bit 16 (ucast (psector ! 170))
               OR push_bit 8 (ucast (psector ! 1700)) OR ucast (psector ! 1709)
         in esp8266_id = (cipher XOR flash_id) \<and> flash_id = (cipher XOR esp8266_id)))"

subsection \<open>What the code relies on\<close>

text \<open>
  \<open>er k f\<close>: sector \<open>k\<close> is erased.  Data written to an erased sector is read back, and an operation
  on one sector leaves the others alone.
\<close>

definition spi_ok :: "'f spi \<Rightarrow> (nat \<Rightarrow> 'f \<Rightarrow> bool) \<Rightarrow> bool" where
  "spi_ok fl er \<longleftrightarrow>
     (\<forall>k f. er k (spi_erase fl k f))
     \<and> (\<forall>k f p. er k f \<longrightarrow> length p \<le> SPI_FLASH_SEC_SIZE \<longrightarrow> spi_read fl k (length p) (spi_write fl k p f) = p)
     \<and> (\<forall>k n f. length (spi_read fl k n f) = n)
     \<and> (\<forall>j k n f. j \<noteq> k \<longrightarrow> spi_read fl j n (spi_erase fl k f) = spi_read fl j n f)
     \<and> (\<forall>j k n f p. j \<noteq> k \<longrightarrow> spi_read fl j n (spi_write fl k p f) = spi_read fl j n f)"

lemma spi_okD:
  assumes "spi_ok fl er"
  shows "er k (spi_erase fl k f)"
    and "er k f \<Longrightarrow> length p \<le> SPI_FLASH_SEC_SIZE \<Longrightarrow> spi_read fl k (length p) (spi_write fl k p f) = p"
    and "length (spi_read fl k n f) = n"
    and "j \<noteq> k \<Longrightarrow> spi_read fl j n (spi_erase fl k f) = spi_read fl j n f"
    and "j \<noteq> k \<Longrightarrow> spi_read fl j n (spi_write fl k p f) = spi_read fl j n f"
  using assms by (simp_all add: spi_ok_def)

text \<open>A flash as a function from sectors to bytes, where writing clears bits.\<close>

definition nor_flash :: "(nat \<Rightarrow> bytes) spi" where
  "nor_flash = \<lparr>spi_read = \<lambda>k n f. map (\<lambda>i. if i < length (f k) then f k ! i else 0xFF) [0..<n],
     spi_erase = \<lambda>k f. f(k := []),
     spi_write = \<lambda>k p f. f(k := map (\<lambda>i. (if i < length (f k) then f k ! i else 0xFF) AND
       (if i < length p then p ! i else 0xFF)) [0..<max (length (f k)) (length p)])\<rparr>"

lemma nor_flash_ok: "spi_ok nor_flash (\<lambda>k f. f k = [])"
proof -
  have ff: "(255 :: u8) AND x = x" for x
  proof -
    have "(255 :: u8) = - 1" by simp
    then show ?thesis by (simp only: and.left_neutral)
  qed
  have "map (\<lambda>i. if i < length p then p ! i else 255) [0..<length p] = p" for p :: bytes
    by (rule nth_equalityI) simp_all
  then show ?thesis by (simp add: spi_ok_def nor_flash_def ff cong: if_cong)
qed

subsection \<open>Power failures\<close>

text \<open>
  The flash after \<open>i\<close> operations and a power failure during the next one, which leaves the sector
  of that operation in any state.
\<close>

definition torn :: "'f spi \<Rightarrow> spi_op list \<Rightarrow> nat \<Rightarrow> 'f \<Rightarrow> 'f \<Rightarrow> bool" where
  "torn fl ops i f g \<longleftrightarrow> i < length ops \<and>
     (\<forall>j n. j \<noteq> sector_of (ops ! i) \<longrightarrow> spi_read fl j n g = spi_read fl j n (fold (run_spi fl) (take i ops) f))"

lemma save_copy_complete:
  assumes ok: "spi_ok fl er" and len: "length param \<le> SPI_FLASH_SEC_SIZE"
  shows "load_copy fl base (length param) (save_copy fl base param f) = param"
proof -
  let ?flag = "spi_read fl (base + 2) flag_size f"
  have n: "length (?flag[0 := b]) = flag_size" "length (?flag[0 := b]) \<le> SPI_FLASH_SEC_SIZE" "(?flag[0 := b]) ! 0 = b" for b
    using spi_okD(3) [OF ok, of "base + 2" flag_size f] by (simp_all add: flag_size_def SPI_FLASH_SEC_SIZE_def)
  have fl: "spi_read fl (base + 2) flag_size (spi_write fl (base + 2) (?flag[0 := b]) (spi_erase fl (base + 2) g)) = ?flag[0 := b]" for b g
    using spi_okD(2) [OF ok spi_okD(1) [OF ok, of "base + 2" g] n(2) [of b]] n(1) by simp
  have cp: "spi_read fl k (length param) (spi_write fl k param (spi_erase fl k f)) = param" for k
    using spi_okD(1,2) [OF ok] len by blast
  show ?thesis
    by (cases "?flag ! 0 = 0")
      (simp_all add: save_copy_def save_copy_ops_def load_copy_def Let_def fl n(3) cp spi_okD(4,5) [OF ok]
        del: add_2_eq_Suc add_2_eq_Suc')
qed

lemma save_copy_torn:
  assumes ok: "spi_ok fl er" and len: "length param \<le> SPI_FLASH_SEC_SIZE"
    and torn: "torn fl (save_copy_ops fl base param f) i f g"
  shows "load_copy fl base (length param) g \<in> {load_copy fl base (length param) f, param}"
proof -
  have cp: "spi_read fl k (length param) (spi_write fl k param (spi_erase fl k f)) = param" for k
    using spi_okD(1,2) [OF ok] len by blast
  have "i < 4" using torn by (simp add: torn_def save_copy_ops_def Let_def split: if_splits)
  then consider "i = 0" | "i = 1" | "i = 2" | "i = 3" by linarith
  then show ?thesis
    using torn by cases
      (auto simp: torn_def save_copy_ops_def load_copy_def Let_def cp spi_okD(4,5) [OF ok] numeral_2_eq_2 numeral_3_eq_3
        split: if_splits)
qed

text \<open>
  C14: a power failure while parameters are saved loses nothing.  For the parameter block and for
  the device configuration: wherever the save is interrupted, and whatever the interrupted
  operation leaves in its sector, the next start loads the old or the new block; and a completed
  save is loaded back.
\<close>

theorem parameters_survive_power_loss:
  assumes ok: "spi_ok fl er" and len: "length param \<le> SPI_FLASH_SEC_SIZE" "length param mod 4 = 0"
  shows "(torn fl (save_copy_ops fl IOTGO_PARAM_START_SEC param f) i f g \<longrightarrow>
      iotgoFlashLoadParam fl (length param) g \<in> {iotgoFlashLoadParam fl (length param) f, param}) \<and>
    iotgoFlashLoadParam fl (length param) (iotgoFlashSaveParam fl param f) = param \<and>
    (torn fl (save_copy_ops fl DEVICE_CONFIG_START_SEC param f) i f g \<longrightarrow>
      devLoadConfigFromFlash fl (length param) g \<in> {devLoadConfigFromFlash fl (length param) f, param}) \<and>
    devLoadConfigFromFlash fl (length param) (devSaveConfigToFlash fl param (length param) f) = param"
proof -
  have n: "config_len (length param) = length param"
    using len by (simp add: config_len_def Let_def SPI_FLASH_SEC_SIZE_def)
  show ?thesis
    using save_copy_torn [OF ok len(1)] save_copy_complete [OF ok len(1)]
    by (simp add: iotgoFlashLoadParam_def iotgoFlashSaveParam_def devLoadConfigFromFlash_def devSaveConfigToFlash_def n)
qed

theorem parameters_survive_power_loss_witness:
  "iotgoFlashLoadParam nor_flash (length [1, 2, 3, 4 :: u8]) (iotgoFlashSaveParam nor_flash [1, 2, 3, 4] (\<lambda>_. [])) = [1, 2, 3, 4]"
  using parameters_survive_power_loss [OF nor_flash_ok, of "[1, 2, 3, 4]" "\<lambda>_. []" 0 "\<lambda>_. []"]
  by (simp add: SPI_FLASH_SEC_SIZE_def)

subsection \<open>The cipher\<close>

lemma cipher_bytes:
  "push_bit 24 (ucast (ucast (drop_bit 24 c AND 0xFF) :: u8)) OR push_bit 16 (ucast (ucast (drop_bit 16 c AND 0xFF) :: u8))
    OR push_bit 8 (ucast (ucast (drop_bit 8 c AND 0xFF) :: u8)) OR ucast (ucast (c AND 0xFF) :: u8) = (c :: u32)"
proof -
  have b: "ucast (x AND 0xFF) = (ucast x :: u8)" for x :: u32
  proof -
    have m: "(0xFF :: u32) = mask 8" by (simp add: mask_eq_exp_minus_1)
    show ?thesis unfolding m by (rule bit_word_eqI) (auto simp only: bit_simps bit_and_iff bit_mask_iff, simp_all)
  qed
  show ?thesis unfolding b
  proof (rule bit_word_eqI)
    fix n assume n: "n < LENGTH(32)"
    then consider "n < 8" | "8 \<le> n" "n < 16" | "16 \<le> n" "n < 24" | "24 \<le> n" "n < 32" by force
    then show "bit (push_bit 24 (ucast (ucast (drop_bit 24 c) :: u8)) OR push_bit 16 (ucast (ucast (drop_bit 16 c) :: u8))
      OR push_bit 8 (ucast (ucast (drop_bit 8 c) :: u8)) OR ucast (ucast c :: u8) :: u32) n = bit c n"
      by cases (auto simp: bit_simps)
  qed
qed

text \<open>A deciphered sector belongs to a chip and a flash with the same exclusive or of their numbers.\<close>

lemma cipher_roundtrip:
  assumes ok: "spi_ok fl er"
  shows "iotgoFlashDecipher fl True id2 fid2 (snd (iotgoFlashCipher fl True r id1 fid1 f)) \<longleftrightarrow>
    id1 XOR fid1 = id2 XOR fid2"
proof -
  define c where "c = id1 XOR fid1"
  let ?sector = "map (cipher_byte r c) [0..<SPI_FLASH_SEC_SIZE]"
  have "userLoadIoTgoFlashCipher fl (userStoreIoTgoFlashCipher fl ?sector f) = ?sector"
    using spi_okD(2) [OF ok spi_okD(1) [OF ok], of ?sector IOTGO_FLASH_CIPHER_SECTOR f]
    by (simp add: userLoadIoTgoFlashCipher_def userStoreIoTgoFlashCipher_def SPI_FLASH_SEC_SIZE_def)
  moreover have "?sector ! i = cipher_byte r c i" if "i < 4096" for i
    using that by (simp add: SPI_FLASH_SEC_SIZE_def)
  ultimately have "iotgoFlashDecipher fl True id2 fid2 (snd (iotgoFlashCipher fl True r id1 fid1 f)) \<longleftrightarrow>
      id2 = (c XOR fid2) \<and> fid2 = (c XOR id2)"
    by (simp add: iotgoFlashDecipher_def iotgoFlashCipher_def Let_def cipher_byte_def cipher_bytes flip: c_def)
  also have "\<dots> \<longleftrightarrow> c = id2 XOR fid2"
  proof
    assume "id2 = (c XOR fid2) \<and> fid2 = (c XOR id2)"
    then have "id2 = c XOR fid2" by blast
    then have "id2 XOR fid2 = (c XOR fid2) XOR fid2" by (rule arg_cong [of _ _ "\<lambda>x. x XOR fid2"])
    also have "\<dots> = c" by (simp add: xor.assoc)
    finally show "c = id2 XOR fid2" by (rule sym)
  next
    assume "c = id2 XOR fid2"
    moreover have "(id2 XOR fid2) XOR fid2 = id2" by (simp add: xor.assoc)
    moreover have "(id2 XOR fid2) XOR id2 = fid2" by (subst xor.commute [of id2 fid2]) (simp add: xor.assoc)
    ultimately show "id2 = (c XOR fid2) \<and> fid2 = (c XOR id2)" by simp
  qed
  finally show ?thesis by (simp add: c_def)
qed

end
