(* ===== verification/Bconn.thy ===== *)
theory Bconn
  imports FwPrelude
begin

text \<open>
  \<open>app/user/iotgo_bconn.c\<close>: the request to the distributor, which answers with the host and port of
  the server.  Every way a request can end calls \<open>distorPostResultToNetworkCenter\<close>, which reports
  the first result of a request to the network task and ignores the others.

  The state of the TCP connection in the SDK is not modelled: its callbacks are the events, the
  results of its functions are arguments, and the reports to the network task are recorded in
  \<open>results\<close>.  The JSON tokenizer of the SDK is a parameter: \<open>items\<close> gives the names it meets in the
  text that begins at the first brace, each with the value behind it, or none where
  \<open>jsonIoTgoGetString\<close> or \<open>jsonIoTgoGetNumber\<close> refuse it.
\<close>

subsection \<open>State\<close>

datatype IoTgoDistributorResult =
  RESULT_OK | RESULT_ERR_DNS | RESULT_ERR_CONN | RESULT_ERR_RESP | RESULT_ERR_REQ | RESULT_ERR_TIMEOUT

datatype json_item =
  ItemIP "string option" | ItemPort "int option" | ItemError "int option" | ItemReason "string option" | ItemOther

datatype bconn_call = DistorSend | DistorConnect | DistorLookup | DistorDisconnect | FlashSaveLastIp u32

record bconn =
  server_host :: string
  server_port :: int
  distor_conn_timer :: os_timer
  distor_timeout_timer :: os_timer
  post_result_flag :: bool
  bconn_spro :: bool
  distor_last_ip :: u32
  distor_error_cnt :: nat
  iot_distributor_last_ip :: u32
  results :: "IoTgoDistributorResult list"
  bconn_calls :: "bconn_call list"

definition bcall :: "bconn_call \<Rightarrow> bconn \<Rightarrow> bconn" where
  "bcall c s = s\<lparr>bconn_calls := bconn_calls s @ [c]\<rparr>"

subsection \<open>The result of a request\<close>

definition distorPostResultToNetworkCenter :: "IoTgoDistributorResult \<Rightarrow> bconn \<Rightarrow> bconn" where
  "distorPostResultToNetworkCenter error_code s =
     (if \<not> post_result_flag s then
        (let s = s\<lparr>distor_timeout_timer := Disarmed, distor_conn_timer := Disarmed, post_result_flag := True,
                   results := results s @ [error_code]\<rparr>
         in if error_code = RESULT_OK then
              (let s = s\<lparr>distor_error_cnt := 0\<rparr>
               in if distor_last_ip s \<noteq> 0 \<and> iot_distributor_last_ip s \<noteq> distor_last_ip s
                  then bcall (FlashSaveLastIp (distor_last_ip s)) (s\<lparr>iot_distributor_last_ip := distor_last_ip s\<rparr>)
                  else s)
            else s\<lparr>distor_error_cnt := to_u8 (int (distor_error_cnt s) + 1)\<rparr>)
      else s)"

definition distorSetServerInfo :: "string \<Rightarrow> int \<Rightarrow> bconn \<Rightarrow> bconn" where
  "distorSetServerInfo host port s = s\<lparr>server_host := host, server_port := port\<rparr>"

definition distorGetServerInfo :: "bconn \<Rightarrow> string \<times> int" where
  "distorGetServerInfo s = (server_host s, server_port s)"

subsection \<open>The answer of the distributor\<close>

record reply =
  rp_ip :: "string option"
  rp_port :: "int option"
  rp_error :: "int option"

text \<open>The loop over the names; a refused value ends it.\<close>

fun reply_loop :: "json_item list \<Rightarrow> reply \<Rightarrow> reply" where
  "reply_loop [] r = r"
| "reply_loop (it # its) r =
     (case it of
        ItemIP v \<Rightarrow> (case v of None \<Rightarrow> r | Some x \<Rightarrow> reply_loop its (r\<lparr>rp_ip := Some x\<rparr>))
      | ItemPort v \<Rightarrow> (case v of None \<Rightarrow> r | Some x \<Rightarrow> reply_loop its (r\<lparr>rp_port := Some x\<rparr>))
      | ItemError v \<Rightarrow> (case v of None \<Rightarrow> r | Some x \<Rightarrow> reply_loop its (r\<lparr>rp_error := Some x\<rparr>))
      | ItemReason v \<Rightarrow> (case v of None \<Rightarrow> r | Some x \<Rightarrow> reply_loop its r)
      | ItemOther \<Rightarrow> reply_loop its r)"

text \<open>\<open>pdata\<close> is the text of the message; the four strings it must contain select whether it is parsed.\<close>

definition distorSproOnePkgCb :: "(string \<Rightarrow> json_item list) \<Rightarrow> string \<Rightarrow> bconn \<Rightarrow> bconn" where
  "distorSproOnePkgCb items pdata s =
     (let temp = c_strstr pdata (''HTTP/1.1 200 OK'' @ [CHR 0x0D, CHR 0x0A]);
          temp1 = c_strstr pdata ''{'';
          temp2 = c_strstr pdata ''}'';
          temp3 = c_strstr pdata [CHR 0x0D, CHR 0x0A, CHR 0x0D, CHR 0x0A];
          r0 = \<lparr>rp_ip = None, rp_port = None, rp_error = None\<rparr>;
          r = (if temp \<noteq> None \<and> temp1 \<noteq> None \<and> temp2 \<noteq> None \<and> temp3 \<noteq> None
               then reply_loop (items (drop (the temp1) pdata)) r0 else r0)
      in (case (rp_error r, rp_ip r, rp_port r) of
            (Some error, Some ip, Some port) \<Rightarrow>
              if error = 0 then distorPostResultToNetworkCenter RESULT_OK (distorSetServerInfo ip port s)
              else distorPostResultToNetworkCenter RESULT_ERR_RESP s
          | _ \<Rightarrow> distorPostResultToNetworkCenter RESULT_ERR_RESP s))"

subsection \<open>Callbacks\<close>

text \<open>The integers are the results of \<open>espconn_secure_send\<close> and \<open>espconn_secure_connect\<close>.\<close>

definition cbDistorConnTimer :: "int \<Rightarrow> bconn \<Rightarrow> bconn" where
  "cbDistorConnTimer ret s =
     (let s = bcall DistorSend s
      in if ret = 0 then s else distorPostResultToNetworkCenter RESULT_ERR_REQ s)"

definition cbDistorTimeoutTimer :: "bconn \<Rightarrow> bconn" where
  "cbDistorTimeoutTimer s = distorPostResultToNetworkCenter RESULT_ERR_TIMEOUT s"

definition distorConnTCPDisconCallback :: "bconn \<Rightarrow> bconn" where
  "distorConnTCPDisconCallback s = distorPostResultToNetworkCenter RESULT_ERR_CONN s"

definition distorConnTCPReconCallback :: "bconn \<Rightarrow> bconn" where
  "distorConnTCPReconCallback s = distorPostResultToNetworkCenter RESULT_ERR_CONN s"

definition distorConnTCPConnectedCallback :: "bconn \<Rightarrow> bconn" where
  "distorConnTCPConnectedCallback s = s\<lparr>distor_conn_timer := Armed 200 False\<rparr>"

definition connToDistributor :: "int \<Rightarrow> bconn \<Rightarrow> bconn" where
  "connToDistributor ret s =
     (let s = bcall DistorConnect s
      in if ret = 0 then s else distorPostResultToNetworkCenter RESULT_ERR_CONN s)"

definition distorDnsFoundCallback :: "u32 option \<Rightarrow> int \<Rightarrow> bconn \<Rightarrow> bconn" where
  "distorDnsFoundCallback ipaddr ret s =
     (case ipaddr of
        None \<Rightarrow> distorPostResultToNetworkCenter RESULT_ERR_DNS s
      | Some ip \<Rightarrow>
          if ip \<noteq> 0 then connToDistributor ret (s\<lparr>distor_last_ip := ip\<rparr>)
          else distorPostResultToNetworkCenter RESULT_ERR_DNS s)"

subsection \<open>Starting and stopping\<close>

text \<open>\<open>host_ip\<close> is what \<open>ipaddr_addr\<close> makes of the configured host; 0xFFFFFFFF is no address.\<close>

definition distorGetDistorServerIP :: "u32 \<Rightarrow> bconn \<Rightarrow> u32 \<times> bconn" where
  "distorGetDistorServerIP host_ip s =
     (if distor_error_cnt s \<ge> 3 then
        (let s = s\<lparr>distor_error_cnt := 0\<rparr>
         in (if iot_distributor_last_ip s \<noteq> 0 then iot_distributor_last_ip s else 0xFFFFFFFF, s))
      else (host_ip, s))"

definition launchTCPConnToDistributor :: "u32 \<Rightarrow> int \<Rightarrow> bconn \<Rightarrow> bconn" where
  "launchTCPConnToDistributor host_ip ret s =
     (let (ip, s) = distorGetDistorServerIP host_ip s
      in if ip = 0xFFFFFFFF then bcall DistorLookup s else connToDistributor ret s)"

definition startDistorRequest :: "bool \<Rightarrow> u32 \<Rightarrow> int \<Rightarrow> bconn \<Rightarrow> bconn" where
  "startDistorRequest os_zalloc host_ip ret s =
     (let s = s\<lparr>distor_last_ip := 0, distor_timeout_timer := Armed 10000 False, bconn_spro := os_zalloc,
                post_result_flag := False\<rparr>
      in launchTCPConnToDistributor host_ip ret s)"

definition stopDistorRequest :: "bconn \<Rightarrow> bconn" where
  "stopDistorRequest s = (bcall DistorDisconnect s)\<lparr>bconn_spro := False\<rparr>"

text \<open>What can happen between a start and the next one.\<close>

datatype bconn_event =
  DnsFound "u32 option" int | TcpConnected | ConnTimer int | TimeoutTimer | TcpDisconnected
| TcpReconnected | MessageReceived string | RequestStopped

definition bconn_step :: "(string \<Rightarrow> json_item list) \<Rightarrow> bconn_event \<Rightarrow> bconn \<Rightarrow> bconn" where
  "bconn_step items ev s =
     (case ev of
        DnsFound ip ret \<Rightarrow> distorDnsFoundCallback ip ret s
      | TcpConnected \<Rightarrow> distorConnTCPConnectedCallback s
      | ConnTimer ret \<Rightarrow> cbDistorConnTimer ret s
      | TimeoutTimer \<Rightarrow> cbDistorTimeoutTimer s
      | TcpDisconnected \<Rightarrow> distorConnTCPDisconCallback s
      | TcpReconnected \<Rightarrow> distorConnTCPReconCallback s
      | MessageReceived pdata \<Rightarrow> distorSproOnePkgCb items pdata s
      | RequestStopped \<Rightarrow> stopDistorRequest s)"

subsection \<open>One result for each request\<close>

lemma post_result_cases:
  "results (distorPostResultToNetworkCenter r s) = (if post_result_flag s then results s else results s @ [r])"
  "post_result_flag (distorPostResultToNetworkCenter r s)"
  by (simp_all add: distorPostResultToNetworkCenter_def bcall_def Let_def)

lemmas bconn_defs = distorDnsFoundCallback_def connToDistributor_def distorConnTCPConnectedCallback_def
  cbDistorConnTimer_def cbDistorTimeoutTimer_def distorConnTCPDisconCallback_def distorConnTCPReconCallback_def
  stopDistorRequest_def bcall_def

lemma set_server_info_flag [simp]:
  "post_result_flag (distorSetServerInfo h p s) = post_result_flag s" "results (distorSetServerInfo h p s) = results s"
  by (simp_all add: distorSetServerInfo_def)

lemma message_result:
  "\<exists>r \<in> {RESULT_OK, RESULT_ERR_RESP}. results (distorSproOnePkgCb items pdata s) =
      (if post_result_flag s then results s else results s @ [r]) \<and>
    post_result_flag (distorSproOnePkgCb items pdata s)"
  by (auto simp: distorSproOnePkgCb_def post_result_cases Let_def split: option.splits)

text \<open>The results of a request, given those before it: none while it runs, then one.\<close>

definition one_result :: "IoTgoDistributorResult list \<Rightarrow> bconn \<Rightarrow> bool" where
  "one_result before s \<longleftrightarrow> (if post_result_flag s then \<exists>r. results s = before @ [r] else results s = before)"

lemma bconn_step_one_result:
  assumes "one_result before s" shows "one_result before (bconn_step items ev s)"
proof (cases ev)
  case (MessageReceived pdata)
  with assms message_result [of items pdata s] show ?thesis
    by (auto simp: one_result_def bconn_step_def split: if_splits)
next
  case (DnsFound ip ret)
  with assms show ?thesis
    by (auto simp: one_result_def bconn_step_def bconn_defs post_result_cases Let_def split: if_splits option.splits)
qed (use assms in \<open>auto simp: one_result_def bconn_step_def bconn_defs post_result_cases Let_def split: if_splits\<close>)

lemma bconn_step_flag: "post_result_flag s \<Longrightarrow> post_result_flag (bconn_step items ev s)"
  using message_result [of items _ s]
  by (cases ev) (auto simp: bconn_step_def bconn_defs post_result_cases Let_def split: option.splits)

lemma bconn_run:
  assumes "one_result before s"
  shows "one_result before (fold (bconn_step items) evs s)"
    and "post_result_flag s \<or> TimeoutTimer \<in> set evs \<Longrightarrow> post_result_flag (fold (bconn_step items) evs s)"
proof -
  show "one_result before (fold (bconn_step items) evs s)"
    using assms by (induction evs arbitrary: s) (simp_all add: bconn_step_one_result)
  show "post_result_flag s \<or> TimeoutTimer \<in> set evs \<Longrightarrow> post_result_flag (fold (bconn_step items) evs s)"
  proof (induction evs arbitrary: s)
    case (Cons ev evs)
    have "post_result_flag (bconn_step items ev s) \<or> TimeoutTimer \<in> set evs"
      using Cons.prems bconn_step_flag [of s items ev]
      by (auto simp: bconn_step_def cbDistorTimeoutTimer_def post_result_cases)
    from Cons.IH [OF this] show ?case by simp
  qed simp
qed

lemma start_one_result: "one_result (results s) (startDistorRequest z host_ip ret s)"
  by (auto simp: one_result_def startDistorRequest_def launchTCPConnToDistributor_def distorGetDistorServerIP_def
    connToDistributor_def bcall_def post_result_cases Let_def split: prod.splits if_splits)

text \<open>
  C37: a request to the distributor is answered to the network task at most once, whatever
  callbacks come and in whatever order; exactly once if its timeout fires; and while it is not
  answered the timeout is armed.
\<close>

theorem distributor_answers_once:
  assumes "s0 = startDistorRequest z host_ip ret s" "s1 = fold (bconn_step items) evs s0"
  shows "length (results s1) \<le> Suc (length (results s)) \<and> take (length (results s)) (results s1) = results s \<and>
    (TimeoutTimer \<in> set evs \<longrightarrow> length (results s1) = Suc (length (results s))) \<and>
    (length (results s1) = length (results s) \<longrightarrow> distor_timeout_timer s1 = Armed 10000 False)"
proof -
  have one: "one_result (results s) s1" using bconn_run(1) [OF start_one_result] assms by simp
  have timer: "\<not> post_result_flag s1 \<longrightarrow> distor_timeout_timer s1 = Armed 10000 False"
  proof -
    have start: "\<not> post_result_flag s0 \<longrightarrow> distor_timeout_timer s0 = Armed 10000 False"
      by (auto simp: assms(1) startDistorRequest_def launchTCPConnToDistributor_def distorGetDistorServerIP_def
        connToDistributor_def bcall_def post_result_cases Let_def split: prod.splits if_splits)
    have step: "\<not> post_result_flag (bconn_step items ev t) \<longrightarrow> distor_timeout_timer (bconn_step items ev t) = Armed 10000 False"
      if "\<not> post_result_flag t \<longrightarrow> distor_timeout_timer t = Armed 10000 False" for ev t
      using that message_result [of items _ t] bconn_step_flag [of t items ev]
      by (cases ev) (auto simp: bconn_step_def bconn_defs post_result_cases Let_def split: option.splits)
    show ?thesis unfolding assms(2) using start
      by (induction evs arbitrary: s0) (simp_all add: step)
  qed
  have "TimeoutTimer \<in> set evs \<longrightarrow> post_result_flag s1"
    using bconn_run(2) [OF start_one_result] assms by blast
  with one timer show ?thesis by (auto simp: one_result_def split: if_splits)
qed

definition idle_bconn :: bconn where
  "idle_bconn = \<lparr>server_host = [], server_port = 0, distor_conn_timer = Disarmed, distor_timeout_timer = Disarmed,
     post_result_flag = False, bconn_spro = False, distor_last_ip = 0, distor_error_cnt = 0,
     iot_distributor_last_ip = 0, results = [], bconn_calls = []\<rparr>"

theorem distributor_answers_once_witness:
  "\<exists>s1. s1 = fold (bconn_step (\<lambda>_. [])) [TcpConnected, ConnTimer (-1), TcpDisconnected, TimeoutTimer]
      (startDistorRequest True 0xFFFFFFFF 0 idle_bconn) \<and> length (results s1) = 1"
  using distributor_answers_once [OF refl refl, where s = idle_bconn and items = "\<lambda>_. []" and z = True and ret = 0
    and host_ip = "0xFFFFFFFF" and evs = "[TcpConnected, ConnTimer (-1), TcpDisconnected, TimeoutTimer]"]
  by (simp add: idle_bconn_def)

text \<open>An accepted answer: error 0, a host and a port, in any order, among other names.\<close>

lemma reply_loop_fields:
  assumes "set its \<subseteq> {ItemError (Some e), ItemIP (Some h), ItemPort (Some p), ItemReason (Some x), ItemOther}"
  shows "reply_loop its r = \<lparr>rp_ip = (if ItemIP (Some h) \<in> set its then Some h else rp_ip r),
    rp_port = (if ItemPort (Some p) \<in> set its then Some p else rp_port r),
    rp_error = (if ItemError (Some e) \<in> set its then Some e else rp_error r)\<rparr>"
  using assms by (induction its arbitrary: r) auto

end
