(* ===== verification/Upgrade.thy ===== *)
theory Upgrade
  imports FlashStore SproHttp CJson
begin

text \<open>
  Firmware upgrade: \<open>app/user/iotgo_upgrade.c\<close>.  A request of the server names an image and its
  SHA-256; the image is fetched by HTTP in ranges of one sector, each answer is cut out of the
  stream by the packet assembler and flashed into the half of the flash that does not run, and
  the flashed image is checked against the digest before the end is reported.

  The SPI flash and the results of its operations are a parameter (\<open>chip\<close>), as are the tokenizer
  of the SDK (\<open>toks\<close>, the tokens of a text) and SHA-256 (\<open>env_sha\<close>, the digest of the bytes passed to
  \<open>sha256_update\<close> in order).  Calls of other components, posted messages and network operations are
  recorded in order in \<open>upgrade_calls\<close>.
\<close>

subsection \<open>State\<close>

definition IOTGO_UPGRADE_BIN_MAX_LEN :: int where
  "IOTGO_UPGRADE_BIN_MAX_LEN = 460 * 1024"

definition IOTGO_UPGRADE_BIN1_START_SECTOR :: nat where
  "IOTGO_UPGRADE_BIN1_START_SECTOR = 0x01"

definition IOTGO_UPGRADE_BIN2_START_SECTOR :: nat where
  "IOTGO_UPGRADE_BIN2_START_SECTOR = 0x81"

definition IOTGO_UPGRADE_TIMEOUT :: nat where
  "IOTGO_UPGRADE_TIMEOUT = 180"

definition IOTGO_FM_VERSION :: string where
  "IOTGO_FM_VERSION = ''1.0.0''"

record 'f chip =
  chip_spi :: "'f spi"
  op_ok :: "spi_op \<Rightarrow> 'f \<Rightarrow> bool"
  read_ok :: "nat \<Rightarrow> nat \<Rightarrow> 'f \<Rightarrow> bool"

text \<open>What the firmware knows of its device: identifiers, model, whether the first image runs.\<close>

record upgrade_env =
  env_deviceid :: string
  env_apikey :: string
  env_model :: string
  env_bin1 :: bool
  env_sha :: "bytes \<Rightarrow> bytes"
  env_ip :: "string \<Rightarrow> u32"

record IoTgoUpgradeInfo =
  ui_name :: string
  ui_version :: string
  ui_auto_restart :: nat
  ui_http :: bool
  ui_host :: string
  ui_port :: int
  ui_path :: string
  ui_sha256 :: string
  ui_sector :: nat
  ui_sequence :: string

record IoTgoNewBinInfo =
  nb_name :: string
  nb_version :: string
  nb_length :: nat
  nb_sha256 :: string

record IoTgoUpgradeBinInfo =
  bi_name :: string
  bi_sha256 :: string
  bi_dlurl :: string

record UPGRADEFILE =
  file_length :: int
  range_start :: nat
  range_end :: nat
  downloaded_length :: int
  couter :: nat

datatype upgrade_msg = GetUpgradeData | UpgradeExit nat | ReconnectAgain | UpgradeEnter

datatype upgrade_call =
  Post upgrade_msg | SendRequest string | ConnectServer | LookupServer string | DisconnectServer
| RespondErrorCode nat string | QueueUpgradeState nat string | SaveNewBinInfo | ArmRestart nat | RestartForNewBin

record 'f upgrade =
  upgrade_http_buffer :: "string option"
  iotgo_upgrade_info :: "IoTgoUpgradeInfo option"
  download_sector_buffer :: "bytes option"
  started :: bool
  upgrade_progress_timer :: os_timer
  upgrade_enter_timer :: os_timer
  upgrade_exit_timer :: os_timer
  upgrade_timeout :: nat
  upgrade_spro :: "spro option"
  connect_server_again_timer :: os_timer
  connect_server_again_counter :: nat
  flash_sector_index :: nat
  upgrade_started_flag :: bool
  upgrade_file :: UPGRADEFILE
  new_bin_info :: IoTgoNewBinInfo
  chip_flash :: 'f
  upgrade_calls :: "upgrade_call list"

definition ucall :: "upgrade_call \<Rightarrow> 'f upgrade \<Rightarrow> 'f upgrade" where
  "ucall c s = s\<lparr>upgrade_calls := upgrade_calls s @ [c]\<rparr>"

definition system_os_post :: "upgrade_msg \<Rightarrow> 'f upgrade \<Rightarrow> 'f upgrade" where
  "system_os_post m = ucall (Post m)"

subsection \<open>Flashing and checking\<close>

definition flashOneSector :: "'f chip \<Rightarrow> nat \<Rightarrow> bytes \<Rightarrow> 'f \<Rightarrow> bool \<times> 'f" where
  "flashOneSector c sector src f =
     (let erase = SpiErase sector; f1 = run_spi (chip_spi c) erase f
      in if op_ok c erase f then
           (let write = SpiWrite sector (take SPI_FLASH_SEC_SIZE src)
            in (op_ok c write f1, run_spi (chip_spi c) write f1))
         else (False, f1))"

definition storeFileToFlash :: "'f chip \<Rightarrow> 'f upgrade \<Rightarrow> (bool \<times> 'f upgrade) option" where
  "storeFileToFlash c s =
     do {
       info \<leftarrow> iotgo_upgrade_info s;
       buf \<leftarrow> download_sector_buffer s;
       let r = flashOneSector c (to_u16 (int (flash_sector_index s) + int (ui_sector info))) buf (chip_flash s);
       let s = s\<lparr>chip_flash := snd r\<rparr>;
       if fst r then Some (True, s\<lparr>flash_sector_index := to_u16 (int (flash_sector_index s) + 1)\<rparr>)
       else Some (False, s)
     }"

fun c_strcmp :: "string \<Rightarrow> string \<Rightarrow> int" where
  "c_strcmp [] [] = 0"
| "c_strcmp [] (d # ds) = - int (of_char d)"
| "c_strcmp (c # cs) [] = int (of_char c)"
| "c_strcmp (c # cs) (d # ds) = (if c = d then c_strcmp cs ds else int (of_char c) - int (of_char d))"

definition modelMatch :: "upgrade_env \<Rightarrow> string \<Rightarrow> bool" where
  "modelMatch env model \<longleftrightarrow> c_strcmp (env_model env) model = 0"

definition verifyFirmwareVersion :: "string \<Rightarrow> bool" where
  "verifyFirmwareVersion version \<longleftrightarrow> c_strcmp version IOTGO_FM_VERSION > 0"

text \<open>
  The loop over whole sectors.  \<open>i\<close> is a \<open>uint16\<close>, so the loop does not end when there are 65536 or
  more; \<open>buf\<close> is the sector buffer, \<open>acc\<close> what was passed to \<open>sha256_update\<close>.
\<close>

partial_function (option) verify_loop ::
  "'f chip \<Rightarrow> nat \<Rightarrow> nat \<Rightarrow> 'f \<Rightarrow> nat \<Rightarrow> bytes \<Rightarrow> bytes \<Rightarrow> (nat \<times> bytes \<times> bytes) option" where
  "verify_loop c start len f i buf acc =
     (if i < len div SPI_FLASH_SEC_SIZE then
        if read_ok c (start + i) SPI_FLASH_SEC_SIZE f then
          (let buf = spi_read (chip_spi c) (start + i) SPI_FLASH_SEC_SIZE f
           in verify_loop c start len f (to_u16 (int i + 1)) buf (acc @ buf))
        else verify_loop c start len f (to_u16 (int i + 1)) buf acc
      else Some (i, buf, acc))"

definition digest_hex :: "(bytes \<Rightarrow> bytes) \<Rightarrow> bytes \<Rightarrow> string" where
  "digest_hex sha bs = concat (map (\<lambda>b. [hex_chr (unat b div 16), hex_chr (unat b mod 16)]) (take 32 (sha bs)))"

text \<open>The digest of \<open>len\<close> bytes from sector \<open>start\<close> on, and the sector buffer afterwards.\<close>

definition flash_digest :: "(bytes \<Rightarrow> bytes) \<Rightarrow> 'f chip \<Rightarrow> nat \<Rightarrow> nat \<Rightarrow> 'f \<Rightarrow> bytes \<Rightarrow> (string \<times> bytes) option" where
  "flash_digest sha c start len f buf =
     do {
       (i, buf, acc) \<leftarrow> verify_loop c start len f 0 buf [];
       let rest = len mod SPI_FLASH_SEC_SIZE;
       let buf = (if read_ok c (start + i) rest f
                  then spi_read (chip_spi c) (start + i) rest f @ drop rest buf else buf);
       Some (digest_hex sha (acc @ take rest buf), buf)
     }"

text \<open>\<open>junk\<close>: what \<open>os_malloc\<close> leaves in the buffer, or no memory.\<close>

definition iotgoUpgradeVerifyFlashData ::
  "(bytes \<Rightarrow> bytes) \<Rightarrow> 'f chip \<Rightarrow> bytes option \<Rightarrow> nat \<Rightarrow> nat \<Rightarrow> string \<Rightarrow> 'f \<Rightarrow> bool option" where
  "iotgoUpgradeVerifyFlashData sha c junk start len digest f =
     (case junk of
        None \<Rightarrow> Some False
      | Some buf \<Rightarrow> map_option (\<lambda>r. fst r = digest) (flash_digest sha c start len f buf))"

definition verifyFlashData ::
  "(bytes \<Rightarrow> bytes) \<Rightarrow> 'f chip \<Rightarrow> nat \<Rightarrow> nat \<Rightarrow> string \<Rightarrow> 'f upgrade \<Rightarrow> (bool \<times> 'f upgrade) option" where
  "verifyFlashData sha c start len digest s =
     do {
       buf \<leftarrow> download_sector_buffer s;
       r \<leftarrow> flash_digest sha c start len (chip_flash s) buf;
       Some (fst r = digest, s\<lparr>download_sector_buffer := Some (snd r)\<rparr>)
     }"

datatype IoTgoUpgradeNewBinResult =
  NEW_BIN_RESULT_OK | NEW_BIN_RESULT_BAD_VERSION | NEW_BIN_RESULT_BAD_NAME | NEW_BIN_RESULT_BAD_DIGEST

fun new_bin_code :: "IoTgoUpgradeNewBinResult \<Rightarrow> nat" where
  "new_bin_code NEW_BIN_RESULT_OK = 0"
| "new_bin_code NEW_BIN_RESULT_BAD_VERSION = 411"
| "new_bin_code NEW_BIN_RESULT_BAD_NAME = 412"
| "new_bin_code NEW_BIN_RESULT_BAD_DIGEST = 413"

text \<open>\<open>os_strncmp\<close> with the length of the second string compares a prefix.\<close>

definition iotgoUpgradeVerifyNewBin ::
  "upgrade_env \<Rightarrow> 'f chip \<Rightarrow> bytes option \<Rightarrow> 'f upgrade \<Rightarrow> IoTgoUpgradeNewBinResult option" where
  "iotgoUpgradeVerifyNewBin env c junk s =
     (let info = new_bin_info s;
          expected = (if env_bin1 env then ''user2.bin'' else ''user1.bin'');
          start = (if env_bin1 env then IOTGO_UPGRADE_BIN2_START_SECTOR else IOTGO_UPGRADE_BIN1_START_SECTOR)
      in if take (length expected) (nb_name info) \<noteq> expected then Some NEW_BIN_RESULT_BAD_NAME
         else if \<not> verifyFirmwareVersion (nb_version info) then Some NEW_BIN_RESULT_BAD_VERSION
         else map_option (\<lambda>ok. if ok then NEW_BIN_RESULT_OK else NEW_BIN_RESULT_BAD_DIGEST)
           (iotgoUpgradeVerifyFlashData (env_sha env) c junk start (nb_length info) (nb_sha256 info) (chip_flash s)))"

subsection \<open>Asking for a range\<close>

text \<open>The range asked for; the comparison is one of unsigned numbers.\<close>

definition next_range :: "UPGRADEFILE \<Rightarrow> UPGRADEFILE" where
  "next_range u =
     (let u = u\<lparr>range_start := to_u32 (int (couter u) * 4096)\<rparr>
      in if to_u32 (int (range_start u) + 4095) \<ge> to_u32 (file_length u - 1)
         then u\<lparr>range_end := to_u32 (file_length u - 1)\<rparr>
         else u\<lparr>range_end := to_u32 (int (range_start u) + 4095)\<rparr>)"

definition crlf :: string where
  "crlf = [CHR 0x0D, CHR 0x0A]"

definition range_text :: "UPGRADEFILE \<Rightarrow> string" where
  "range_text u = ''Range: bytes='' @ int_dec (to_s32 (int (range_start u))) @ ''-''
     @ int_dec (to_s32 (int (range_end u))) @ crlf"

definition request_text :: "upgrade_env \<Rightarrow> string \<Rightarrow> string \<Rightarrow> string \<Rightarrow> string" where
  "request_text env path ts rng =
     ''GET '' @ path @ ''?deviceid='' @ env_deviceid env @ ''&ts='' @ ts @ ''&sign=''
     @ digest_hex (env_sha env) (bytes_of (env_deviceid env @ ts @ env_apikey env)) @ '' HTTP/1.1'' @ crlf
     @ ''Host: dl.itead.cn'' @ crlf @ rng @ ''User-Agent: itead-device'' @ crlf @ crlf"

text \<open>\<open>r\<close> is the value of \<open>rand()\<close>, \<open>sent\<close> whether \<open>espconn_send\<close> takes the request; the buffer has 512 bytes.\<close>

definition iotgoUpgradeDownload :: "upgrade_env \<Rightarrow> nat \<Rightarrow> bool \<Rightarrow> 'f upgrade \<Rightarrow> 'f upgrade option" where
  "iotgoUpgradeDownload env r sent s =
     do {
       let s = s\<lparr>upgrade_file := next_range (upgrade_file s)\<rparr>;
       info \<leftarrow> iotgo_upgrade_info s;
       _ \<leftarrow> upgrade_http_buffer s;
       let text = request_text env (ui_path info) (nat_dec (r mod 4294967296)) (range_text (upgrade_file s));
       if length text \<ge> 512 then None
       else do {
         let s = s\<lparr>upgrade_http_buffer := Some text\<rparr>;
         if sent then Some (ucall (SendRequest text) s)
         else Some (system_os_post ReconnectAgain s)
       }
     }"

subsection \<open>Receiving\<close>

text \<open>
  \<open>os_strstr\<close> from index \<open>i\<close> of the memory \<open>pdata\<close>, when its result counts only before \<open>len\<close>; the
  outer option is \<open>None\<close> when the search runs past the memory.
\<close>

definition strstr_in :: "bytes \<Rightarrow> nat \<Rightarrow> bytes \<Rightarrow> nat \<Rightarrow> nat option option" where
  "strstr_in pdata i pat len =
     map_option (\<lambda>j. if j \<noteq> -1 \<and> int i + j < int len then Some (i + nat j) else None) (indexOf (drop i pdata) pat)"

definition getContentLength :: "bytes \<Rightarrow> nat \<Rightarrow> int option" where
  "getContentLength pdata len =
     do {
       t1 \<leftarrow> strstr_in pdata 0 CONTENT_LENGTH_IS len;
       case t1 of
         None \<Rightarrow> Some (-1)
       | Some t1 \<Rightarrow> do {
           t2 \<leftarrow> strstr_in pdata t1 CRLF len;
           case t2 of
             None \<Rightarrow> Some (-1)
           | Some _ \<Rightarrow> atoi (str_of (drop (t1 + length CONTENT_LENGTH_IS) pdata))
         }
     }"

definition getUserBinLength :: "bytes \<Rightarrow> nat \<Rightarrow> int option" where
  "getUserBinLength pdata len =
     do {
       t1 \<leftarrow> strstr_in pdata 0 (bytes_of ''Content-Range'') len;
       case t1 of
         None \<Rightarrow> Some (-1)
       | Some t1 \<Rightarrow> do {
           t2 \<leftarrow> strstr_in pdata t1 (bytes_of ''/'') len;
           case t2 of
             None \<Rightarrow> Some (-1)
           | Some t2 \<Rightarrow> do {
               t3 \<leftarrow> strstr_in pdata t2 CRLF len;
               case t3 of
                 None \<Rightarrow> Some (-1)
               | Some _ \<Rightarrow> atoi (str_of (drop (Suc t2) pdata))
             }
         }
     }"

definition storeUpgradeDataToFlash :: "upgrade_env \<Rightarrow> 'f chip \<Rightarrow> nat \<Rightarrow> 'f upgrade \<Rightarrow> 'f upgrade option" where
  "storeUpgradeDataToFlash env c len s =
     do {
       (ok, s) \<leftarrow> storeFileToFlash c s;
       if ok then do {
         let u = upgrade_file s;
         let u = u\<lparr>couter := to_u16 (int (couter u) + 1), downloaded_length := to_s32 (downloaded_length u + int len)\<rparr>;
         let s = s\<lparr>upgrade_file := u\<rparr>;
         if downloaded_length u \<ge> file_length u then do {
           info \<leftarrow> iotgo_upgrade_info s;
           (good, s) \<leftarrow> verifyFlashData (env_sha env) c (ui_sector info) (to_u32 (file_length u)) (ui_sha256 info) s;
           Some (system_os_post (UpgradeExit (if good then 0 else 409)) s)
         } else Some (system_os_post GetUpgradeData s)
       } else Some (system_os_post (UpgradeExit 404) s)
     }"

definition error_ret :: "'f upgrade \<Rightarrow> 'f upgrade" where
  "error_ret = system_os_post (UpgradeExit 404)"

definition HTTP_PARTIAL :: bytes where
  "HTTP_PARTIAL = bytes_of ''HTTP/1.1 206 Partial Content'' @ CRLF"

text \<open>The first packet of a download tells the length of the file; the flag of the result is an error.\<close>

definition first_package :: "bytes \<Rightarrow> nat \<Rightarrow> 'f upgrade \<Rightarrow> (bool \<times> 'f upgrade) option" where
  "first_package pdata len s =
     (if \<not> started s then do {
        n \<leftarrow> getUserBinLength pdata len;
        let s = s\<lparr>started := True, upgrade_file := (upgrade_file s)\<lparr>file_length := n\<rparr>\<rparr>;
        if n > IOTGO_UPGRADE_BIN_MAX_LEN then Some (True, s\<lparr>started := False\<rparr>)
        else Some (False, s)
      } else Some (False, s))"

text \<open>The body of a packet into the sector buffer, behind which it is 0xFF.\<close>

definition fill_sector :: "bytes \<Rightarrow> nat \<Rightarrow> bytes option" where
  "fill_sector src n =
     (if n \<le> length src \<and> n \<le> SPI_FLASH_SEC_SIZE
      then Some (take n src @ replicate (SPI_FLASH_SEC_SIZE - n) 0xFF) else None)"

text \<open>\<open>pdata\<close> is the memory from the packet on, of which \<open>len\<close> bytes are the packet.\<close>

definition upgradeTCPSproOnePkgCb ::
  "upgrade_env \<Rightarrow> 'f chip \<Rightarrow> bytes \<Rightarrow> nat \<Rightarrow> bool \<Rightarrow> 'f upgrade \<Rightarrow> 'f upgrade option" where
  "upgradeTCPSproOnePkgCb env c pdata len flag s =
     (if \<not> flag then Some (error_ret s)
      else do {
        (failed, s) \<leftarrow> first_package pdata len s;
        if failed then Some (error_ret s)
        else do {
          t1 \<leftarrow> strstr_in pdata 0 HTTP_PARTIAL len;
          case t1 of
            None \<Rightarrow> Some (error_ret s)
          | Some t1 \<Rightarrow> do {
              n \<leftarrow> getContentLength (drop t1 pdata) len;
              let pkg_len = to_u16 n;
              if pkg_len > SPI_FLASH_SEC_SIZE then Some (error_ret s)
              else do {
                t2 \<leftarrow> strstr_in pdata 0 (CRLF @ CRLF) len;
                case t2 of
                  None \<Rightarrow> Some (error_ret s)
                | Some t2 \<Rightarrow> do {
                    _ \<leftarrow> download_sector_buffer s;
                    buf \<leftarrow> fill_sector (drop (t2 + 4) pdata) pkg_len;
                    storeUpgradeDataToFlash env c pkg_len (s\<lparr>download_sector_buffer := Some buf\<rparr>)
                  }
              }
            }
        }
      })"

text \<open>
  The calls the packet assembler made of the callback.  \<open>behind\<close> stands for what the buffer holds
  behind the packet.
\<close>

fun run_packages :: "upgrade_env \<Rightarrow> 'f chip \<Rightarrow> bytes \<Rightarrow> package list \<Rightarrow> 'f upgrade \<Rightarrow> 'f upgrade option" where
  "run_packages env c behind [] s = Some s"
| "run_packages env c behind (p # ps) s =
     do {
       s \<leftarrow> upgradeTCPSproOnePkgCb env c (pkg_bytes p @ behind) (pkg_told p) (pkg_ok p) s;
       run_packages env c behind ps s
     }"

definition new_packages :: "spro option \<Rightarrow> spro option \<Rightarrow> package list" where
  "new_packages old new =
     (case (old, new) of
        (Some o1, Some o2) \<Rightarrow> drop (length (packages o1)) (packages o2)
      | _ \<Rightarrow> [])"

definition upgradeDownloadTCPRecvCallback ::
  "upgrade_env \<Rightarrow> 'f chip \<Rightarrow> bytes \<Rightarrow> nat \<Rightarrow> bytes \<Rightarrow> 'f upgrade \<Rightarrow> 'f upgrade option" where
  "upgradeDownloadTCPRecvCallback env c behind arg data s =
     do {
       obj \<leftarrow> spTcpRecv (upgrade_spro s) arg (Some data);
       run_packages env c behind (new_packages (upgrade_spro s) obj) (s\<lparr>upgrade_spro := obj\<rparr>)
     }"

text \<open>The timer of the packet assembler, which hands over an unfinished packet as an error.\<close>

definition upgrade_spro_timer :: "upgrade_env \<Rightarrow> 'f chip \<Rightarrow> bytes \<Rightarrow> 'f upgrade \<Rightarrow> 'f upgrade option" where
  "upgrade_spro_timer env c behind s =
     do {
       obj \<leftarrow> spro10sTimerCallback (upgrade_spro s);
       run_packages env c behind (new_packages (upgrade_spro s) obj) (s\<lparr>upgrade_spro := obj\<rparr>)
     }"

subsection \<open>Connecting\<close>

definition upgradeDownloadTCPSendCallback :: "'f upgrade \<Rightarrow> 'f upgrade" where
  "upgradeDownloadTCPSendCallback s = s"

definition upgradeDownloadTCPDisconCallback :: "'f upgrade \<Rightarrow> 'f upgrade" where
  "upgradeDownloadTCPDisconCallback = system_os_post ReconnectAgain"

definition upgradeDownloadTCPReconCallback :: "'f upgrade \<Rightarrow> 'f upgrade" where
  "upgradeDownloadTCPReconCallback = system_os_post ReconnectAgain"

definition upgradeDownloadTCPConnectedCallback :: "'f upgrade \<Rightarrow> 'f upgrade" where
  "upgradeDownloadTCPConnectedCallback = system_os_post GetUpgradeData"

text \<open>\<open>ret\<close> is the result of \<open>espconn_connect\<close>.\<close>

definition establishTCP :: "int \<Rightarrow> 'f upgrade \<Rightarrow> 'f upgrade" where
  "establishTCP ret s =
     (let s = ucall ConnectServer s in if ret = 0 then s else system_os_post ReconnectAgain s)"

definition upgradeDnsFoundCallback :: "u32 option \<Rightarrow> int \<Rightarrow> 'f upgrade \<Rightarrow> 'f upgrade" where
  "upgradeDnsFoundCallback ipaddr ret s =
     (case ipaddr of
        None \<Rightarrow> system_os_post ReconnectAgain s
      | Some ip \<Rightarrow> if ip \<noteq> 0 then establishTCP ret s else system_os_post ReconnectAgain s)"

definition connectToDownloadServer :: "upgrade_env \<Rightarrow> int \<Rightarrow> 'f upgrade \<Rightarrow> 'f upgrade option" where
  "connectToDownloadServer env ret s =
     do {
       info \<leftarrow> iotgo_upgrade_info s;
       Some (if env_ip env (ui_host info) = 0xFFFFFFFF then ucall (LookupServer (ui_host info)) s
             else establishTCP ret s)
     }"

definition connectUpgradeServerAgain :: "upgrade_env \<Rightarrow> int \<Rightarrow> 'f upgrade \<Rightarrow> 'f upgrade option" where
  "connectUpgradeServerAgain = connectToDownloadServer"

definition iotgoUpgradeReconnect :: "'f upgrade \<Rightarrow> 'f upgrade" where
  "iotgoUpgradeReconnect s =
     (if \<not> upgrade_started_flag s then s
      else
        (let s = s\<lparr>connect_server_again_counter := to_u8 (int (connect_server_again_counter s) + 1)\<rparr>
         in if connect_server_again_counter s < 4
            then s\<lparr>connect_server_again_timer := Armed (1000 * connect_server_again_counter s) False\<rparr>
            else system_os_post (UpgradeExit 404) s))"

subsection \<open>Start and stop\<close>

text \<open>The results of the two allocations.\<close>

definition iotgoUpgradeMalloc :: "bool \<Rightarrow> bool \<Rightarrow> 'f upgrade \<Rightarrow> 'f upgrade" where
  "iotgoUpgradeMalloc os_malloc os_zalloc s =
     s\<lparr>upgrade_http_buffer := (if os_malloc then Some [] else None),
       download_sector_buffer := (if os_zalloc then Some (replicate SPI_FLASH_SEC_SIZE 0) else None)\<rparr>"

definition iotgoUpgradeFree :: "'f upgrade \<Rightarrow> 'f upgrade" where
  "iotgoUpgradeFree s = s\<lparr>upgrade_http_buffer := None, download_sector_buffer := None, iotgo_upgrade_info := None\<rparr>"

definition cbUpgradeTimer :: "'f upgrade \<Rightarrow> 'f upgrade" where
  "cbUpgradeTimer s =
     (let u = upgrade_file s;
          s = (if downloaded_length u = file_length u then s\<lparr>upgrade_progress_timer := Disarmed\<rparr> else s);
          s = s\<lparr>upgrade_timeout := to_u16 (int (upgrade_timeout s) + 1)\<rparr>
      in if upgrade_timeout s \<ge> IOTGO_UPGRADE_TIMEOUT \<and> file_length u \<noteq> downloaded_length u \<and> file_length u \<noteq> 0
         then system_os_post (UpgradeExit 404) s else s)"

definition no_file :: UPGRADEFILE where
  "no_file = \<lparr>file_length = 0, range_start = 0, range_end = 0, downloaded_length = 0, couter = 0\<rparr>"

definition iotgoUpgradeStart ::
  "upgrade_env \<Rightarrow> bool \<Rightarrow> bool \<Rightarrow> bool \<Rightarrow> int \<Rightarrow> 'f upgrade \<Rightarrow> 'f upgrade option" where
  "iotgoUpgradeStart env sp os_malloc os_zalloc ret s =
     do {
       let s = s\<lparr>upgrade_spro := spCreateObject sp SPRO_PKG_TYPE_IOT_UPGRADE (Some 0) (1024 * 5)\<rparr>;
       let s = iotgoUpgradeMalloc os_malloc os_zalloc s;
       let s = s\<lparr>connect_server_again_counter := 0, started := False, upgrade_file := no_file, upgrade_timeout := 0\<rparr>;
       s \<leftarrow> connectToDownloadServer env ret s;
       Some (s\<lparr>upgrade_progress_timer := Armed 1000 True, upgrade_started_flag := True\<rparr>)
     }"

definition sendUpgradeState :: "nat \<Rightarrow> string \<Rightarrow> 'f upgrade \<Rightarrow> 'f upgrade" where
  "sendUpgradeState err_code seq = ucall (QueueUpgradeState err_code seq)"

definition cbUpgradeExit0Timer :: "'f upgrade \<Rightarrow> 'f upgrade" where
  "cbUpgradeExit0Timer = ucall RestartForNewBin"

definition save_new_bin_info :: "'f upgrade \<Rightarrow> 'f upgrade option" where
  "save_new_bin_info s =
     do {
       info \<leftarrow> iotgo_upgrade_info s;
       Some (ucall SaveNewBinInfo (s\<lparr>new_bin_info := \<lparr>nb_name = ui_name info, nb_version = ui_version info,
         nb_length = to_u32 (file_length (upgrade_file s)), nb_sha256 = ui_sha256 info\<rparr>\<rparr>))
     }"

definition iotgoUpgradeStop :: "nat \<Rightarrow> 'f upgrade \<Rightarrow> 'f upgrade option" where
  "iotgoUpgradeStop error_code s =
     do {
       s \<leftarrow> (if error_code = 0 then save_new_bin_info s else Some s);
       let s = s\<lparr>upgrade_started_flag := False, connect_server_again_timer := Disarmed\<rparr>;
       let s = ucall DisconnectServer s;
       let s = s\<lparr>connect_server_again_counter := 0, started := False, upgrade_file := no_file, upgrade_timeout := 0,
                 flash_sector_index := 0, upgrade_progress_timer := Disarmed\<rparr>;
       info \<leftarrow> iotgo_upgrade_info s;
       let s = sendUpgradeState error_code (ui_sequence info) s;
       let s = s\<lparr>upgrade_spro := None\<rparr>;
       let s = (if error_code = 0 \<and> ui_auto_restart info \<noteq> 0
                then s\<lparr>upgrade_exit_timer := Armed 3000 False\<rparr> else s);
       Some (iotgoUpgradeFree s)
     }"

subsection \<open>Restart on request\<close>

definition cbRestartForNewBinTimer :: "'f upgrade \<Rightarrow> 'f upgrade" where
  "cbRestartForNewBinTimer = ucall RestartForNewBin"

text \<open>\<open>seq\<close> is the sequence of the request.\<close>

definition iotgoUpgradeRestartForNewBin ::
  "upgrade_env \<Rightarrow> 'f chip \<Rightarrow> bytes option \<Rightarrow> string \<Rightarrow> 'f upgrade \<Rightarrow> 'f upgrade option" where
  "iotgoUpgradeRestartForNewBin env c junk seq s =
     do {
       result \<leftarrow> iotgoUpgradeVerifyNewBin env c junk s;
       let s = ucall (RespondErrorCode (new_bin_code result) seq) s;
       Some (if result = NEW_BIN_RESULT_OK then ucall (ArmRestart 3000) s else s)
     }"

end
