(* ===== verification/UpgradeSpec.thy ===== *)
theory UpgradeSpec
  imports Upgrade
begin

text \<open>
  What a download does: the answers of the server are cut out of the stream, flashed one sector
  each, and the image is reported good exactly when its digest is the one of the request.
\<close>

subsection \<open>Decimal numbers in a head\<close>

definition stops_number :: "string \<Rightarrow> bool" where
  "stops_number s \<longleftrightarrow> (case s of [] \<Rightarrow> True | c # _ \<Rightarrow> \<not> c_isdigit c)"

lemma digits_val_stop: "stops_number s \<Longrightarrow> digits_val a s = a"
  by (cases s) (simp_all add: stops_number_def)

lemma digits_val_append:
  "\<forall>c \<in> set xs. c_isdigit c \<Longrightarrow> digits_val a (xs @ ys) = digits_val (digits_val a xs) ys"
  by (induction xs arbitrary: a) simp_all

lemma nat_dec_digits: "c \<in> set (nat_dec n) \<Longrightarrow> c_isdigit c"
  by (induction n rule: nat_dec.induct)
    (subst (asm) (2) nat_dec.simps, auto simp: c_isdigit_digit_chr split: if_splits)

lemma nat_dec_val: "digits_val 0 (nat_dec n) = int n"
proof (induction n rule: nat_dec.induct)
  case (1 n)
  show ?case
  proof (cases "n < 10")
    case True
    then show ?thesis by (subst nat_dec.simps) (simp add: c_isdigit_digit_chr digit_val_digit_chr)
  next
    case False
    have d: "\<forall>c \<in> set (nat_dec (n div 10)). c_isdigit c" using nat_dec_digits by blast
    have "int n = 10 * int (n div 10) + int (n mod 10)"
      by (metis mult.commute of_nat_add of_nat_mult of_nat_numeral div_mult_mod_eq)
    with False 1 show ?thesis
      by (subst nat_dec.simps) (simp add: digits_val_append [OF d] c_isdigit_digit_chr digit_val_digit_chr)
  qed
qed

lemma nat_dec_nonempty: "nat_dec n \<noteq> []"
  by (subst nat_dec.simps) simp

lemma length_nat_dec: "n < 10 ^ Suc k \<Longrightarrow> length (nat_dec n) \<le> Suc k"
proof (induction k arbitrary: n)
  case 0
  then show ?case by (subst nat_dec.simps) simp
next
  case (Suc k)
  then have "n div 10 < 10 ^ Suc k" by (simp add: less_mult_imp_div_less mult.commute)
  from Suc.IH [OF this] show ?case by (subst nat_dec.simps) simp
qed

lemma not_space_digit: "c_isdigit c \<Longrightarrow> \<not> c_isspace c \<and> c \<noteq> CHR ''-'' \<and> c \<noteq> CHR ''+''"
  by (auto simp: c_isdigit_def c_isspace_def)

lemma atoi_val_nat_dec:
  assumes "stops_number s" shows "atoi_val (nat_dec n @ s) = int n"
proof -
  obtain c cs where c: "nat_dec n = c # cs" using nat_dec_nonempty by (cases "nat_dec n") auto
  have "c_isdigit c" using nat_dec_digits [of c n] c by simp
  then have "atoi_val (nat_dec n @ s) = digits_val 0 (nat_dec n @ s)"
    using not_space_digit c by (simp add: atoi_val_def)
  also have "\<dots> = int n"
    using assms digits_val_append [of "nat_dec n" 0 s] nat_dec_digits by (simp add: nat_dec_val digits_val_stop)
  finally show ?thesis .
qed

lemma atoi_nat_dec: "stops_number s \<Longrightarrow> n < 2147483648 \<Longrightarrow> atoi (nat_dec n @ s) = Some (int n)"
  by (simp add: atoi_def atoi_val_nat_dec)

text \<open>The same on bytes.\<close>

lemma digit_nonzero: "c_isdigit c \<Longrightarrow> (of_char c :: nat) < 256 \<and> (of_char c :: nat) \<noteq> 0"
  by (auto simp: c_isdigit_def)

lemma str_of_bytes:
  assumes "\<forall>c \<in> set s. 0 < (of_char c :: nat) \<and> (of_char c :: nat) < 256"
  shows "str_of (bytes_of s @ bs) = s @ str_of bs"
  using assms
proof (induction s)
  case Nil
  then show ?case by (simp add: bytes_of_def)
next
  case (Cons c s)
  then have "unat (word_of_nat (of_char c) :: u8) = of_char c" by (simp add: unat_of_nat)
  moreover from this Cons.prems have "(word_of_nat (of_char c) :: u8) \<noteq> 0" by (metis list.set_intros(1) neq0_conv unat_0)
  ultimately show ?case using Cons by (simp add: str_of_def bytes_of_def)
qed

definition decimal :: "nat \<Rightarrow> bytes" where
  "decimal n = bytes_of (nat_dec n)"

lemma str_of_CRLF: "stops_number (str_of (CRLF @ bs))"
  by (simp add: stops_number_def str_of_def CRLF_def c_isdigit_def)

lemma atoi_decimal:
  assumes "n < 2147483648" shows "atoi (str_of (decimal n @ CRLF @ bs)) = Some (int n)"
proof -
  have "\<forall>c \<in> set (nat_dec n). 0 < (of_char c :: nat) \<and> (of_char c :: nat) < 256"
    using nat_dec_digits digit_nonzero by blast
  then show ?thesis
    unfolding decimal_def using assms str_of_CRLF by (simp only: str_of_bytes atoi_nat_dec)
qed

lemma decimal_text: "b \<in> set (decimal n) \<Longrightarrow> 48 \<le> unat b \<and> unat b \<le> 57"
proof -
  assume "b \<in> set (decimal n)"
  then obtain c where c: "c_isdigit c" "b = word_of_nat (of_char c)"
    using nat_dec_digits by (auto simp: decimal_def bytes_of_def)
  then have "unat b = of_char c" by (simp add: unat_of_nat c_isdigit_def)
  with c show ?thesis by (simp add: c_isdigit_def)
qed

subsection \<open>The head of an answer\<close>

text \<open>
  \<open>answer_head H n flen\<close>: the head of a partial content answer with \<open>n\<close> bytes of a file of \<open>flen\<close>
  bytes.  It ends in its first empty line; other header lines are free.
\<close>

definition answer_head :: "bytes \<Rightarrow> nat \<Rightarrow> nat \<Rightarrow> bool" where
  "answer_head H n flen \<longleftrightarrow> 0 \<notin> set H \<and> 4 \<le> length H \<and> c_strstr H (CRLF @ CRLF) = Some (length H - 4) \<and>
     take (length HTTP_PARTIAL) H = HTTP_PARTIAL \<and>
     (\<exists>p post. c_strstr H CONTENT_LENGTH_IS = Some p \<and> drop (p + length CONTENT_LENGTH_IS) H = decimal n @ CRLF @ post) \<and>
     (\<exists>p q post. c_strstr H (bytes_of ''Content-Range'') = Some p \<and> c_strstr (drop p H) (bytes_of ''/'') = Some q \<and>
        drop (Suc (p + q)) H = decimal flen @ CRLF @ post)"

lemma answer_http_header:
  assumes "answer_head H n flen" and "n \<le> SPI_FLASH_SEC_SIZE"
  shows "http_header H (int n)"
proof -
  from assms(1) obtain p post where p: "c_strstr H CONTENT_LENGTH_IS = Some p"
    "drop (p + length CONTENT_LENGTH_IS) H = decimal n @ CRLF @ post" unfolding answer_head_def by blast
  have "length (decimal n) \<le> Suc 3"
    using assms(2) length_nat_dec [of n 3] by (simp add: decimal_def bytes_of_def SPI_FLASH_SEC_SIZE_def)
  moreover have "13 \<notin> set (decimal n)" using decimal_text [of 13 n] by auto
  moreover have "atoi (str_of (decimal n)) = Some (int n)"
  proof -
    have "\<forall>c \<in> set (nat_dec n). 0 < (of_char c :: nat) \<and> (of_char c :: nat) < 256"
      using nat_dec_digits digit_nonzero by blast
    from str_of_bytes [OF this, of "[]"] show ?thesis
      using atoi_nat_dec [of "[]" n] assms(2)
      by (simp add: decimal_def stops_number_def SPI_FLASH_SEC_SIZE_def str_of_def)
  qed
  ultimately have "\<exists>p num post. c_strstr H CONTENT_LENGTH_IS = Some p \<and> drop (p + 16) H = num @ CRLF @ post \<and>
      13 \<notin> set num \<and> length num \<le> 10 \<and> atoi (str_of num) = Some (int n)"
    using p length_key(1) by (intro exI [of _ p] exI [of _ "decimal n"] exI [of _ post]) simp
  with assms(1) show ?thesis unfolding http_header_def answer_head_def by blast
qed

text \<open>A search that succeeds in a text before its terminator.\<close>

lemma strstr_in_text:
  assumes "0 \<notin> set H" "i \<le> length H" "c_strstr (drop i H) t = Some j" "i + j < len"
  shows "strstr_in (H @ x) i t len = Some (Some (i + j))"
proof -
  have "0 \<notin> set (drop i H)" using assms(1) by (meson in_set_dropD)
  from indexOf_prefix [OF this assms(3), of x] show ?thesis
    using assms(2,4) by (simp add: strstr_in_def)
qed

lemma c_strstr_later:
  "c_strstr xs t = Some i \<Longrightarrow> j \<le> i \<Longrightarrow> c_strstr (drop j xs) t = Some (i - j)"
proof (induction j arbitrary: xs i)
  case (Suc j)
  then obtain x xs' where x: "xs = x # xs'" by (cases xs) (auto split: if_splits)
  with Suc.prems have "c_strstr xs' t = Some (i - 1)" by (auto split: if_splits)
  from Suc.IH [OF this] Suc.prems(2) show ?case by (simp add: x)
qed simp

lemma CRLF_in_number: "c_strstr (decimal n @ CRLF @ x) CRLF = Some (length (decimal n))"
proof -
  have "13 \<notin> set (decimal n)" using decimal_text [of 13 n] by auto
  from c_strstr_pattern [OF this, of "[10]" x] show ?thesis by (simp add: CRLF_def)
qed

lemma c_strstr_drop_absent:
  "c_strstr xs t = None \<Longrightarrow> c_strstr (drop k xs) t = None"
proof (induction k arbitrary: xs)
  case (Suc k)
  then show ?case by (cases xs) (auto split: if_splits)
qed simp

text \<open>The first line end from an index before a number is the one behind it, or an earlier one.\<close>

lemma CRLF_before_number:
  assumes "drop k H = decimal n @ CRLF @ post" "i \<le> k"
  shows "\<exists>j. c_strstr (drop i H) CRLF = Some j \<and> i + j + 2 \<le> length H"
proof -
  have "drop k H = drop (k - i) (drop i H)" using assms(2) by simp
  moreover have "c_strstr (drop k H) CRLF \<noteq> None" unfolding assms(1) CRLF_in_number by simp
  ultimately obtain j where j: "c_strstr (drop i H) CRLF = Some j" using c_strstr_drop_absent by fastforce
  from c_strstr_bound [OF j] have "j + 2 \<le> length H - i" by (simp add: CRLF_def)
  with j show ?thesis by (intro exI [of _ j]) linarith
qed

lemma getUserBinLength_head:
  assumes "answer_head H n flen" "flen < 2147483648" "length H \<le> len"
  shows "getUserBinLength (H @ x) len = Some (int flen)"
proof -
  from assms(1) obtain p q post where z: "0 \<notin> set H" and p: "c_strstr H (bytes_of ''Content-Range'') = Some p"
    and q: "c_strstr (drop p H) (bytes_of ''/'') = Some q" and d: "drop (Suc (p + q)) H = decimal flen @ CRLF @ post"
    unfolding answer_head_def by blast
  have pb: "p + 13 \<le> length H" using c_strstr_bound [OF p] by (simp add: bytes_of_def)
  have qb: "p + q + 1 \<le> length H" using c_strstr_bound [OF q] pb by (simp add: bytes_of_def)
  obtain j where j: "c_strstr (drop (p + q) H) CRLF = Some j" "p + q + j + 2 \<le> length H"
    using CRLF_before_number [OF d, of "p + q"] by auto
  have "strstr_in (H @ x) 0 (bytes_of ''Content-Range'') len = Some (Some p)"
    using strstr_in_text [of H 0 _ p len x] z p pb assms(3) by simp
  moreover have "strstr_in (H @ x) p (bytes_of ''/'') len = Some (Some (p + q))"
    using z q pb qb assms(3) by (intro strstr_in_text) linarith+
  moreover have "strstr_in (H @ x) (p + q) CRLF len = Some (Some (p + q + j))"
    using z j qb assms(3) by (intro strstr_in_text) linarith+
  moreover have "drop (Suc (p + q)) (H @ x) = decimal flen @ CRLF @ post @ x" using d qb by simp
  ultimately show ?thesis unfolding getUserBinLength_def using assms(2) by (simp add: atoi_decimal)
qed

lemma getContentLength_head:
  assumes "answer_head H n flen" "n < 2147483648" "length H \<le> len"
  shows "getContentLength (H @ x) len = Some (int n)"
proof -
  from assms(1) obtain p post where z: "0 \<notin> set H" and p: "c_strstr H CONTENT_LENGTH_IS = Some p"
    and d: "drop (p + length CONTENT_LENGTH_IS) H = decimal n @ CRLF @ post"
    unfolding answer_head_def by blast
  have pb: "p + length CONTENT_LENGTH_IS \<le> length H" using c_strstr_bound [OF p] by simp
  then have pb': "p + 16 \<le> length H" by (simp add: length_key)
  obtain j where j: "c_strstr (drop p H) CRLF = Some j" "p + j + 2 \<le> length H"
    using CRLF_before_number [OF d, of p] by auto
  have "strstr_in (H @ x) 0 CONTENT_LENGTH_IS len = Some (Some p)"
    using strstr_in_text [of H 0 _ p len x] z p pb' assms(3) by simp
  moreover have "strstr_in (H @ x) p CRLF len = Some (Some (p + j))"
    using z j pb' assms(3) by (intro strstr_in_text) linarith+
  moreover have "drop (p + length CONTENT_LENGTH_IS) (H @ x) = decimal n @ CRLF @ post @ x"
    using d pb by (simp only: drop_append) simp
  ultimately show ?thesis unfolding getContentLength_def using assms(2) by (simp add: atoi_decimal)
qed

subsection \<open>One answer\<close>

definition sector_image :: "bytes \<Rightarrow> bytes" where
  "sector_image d = d @ replicate (SPI_FLASH_SEC_SIZE - length d) 0xFF"

text \<open>The first answer sets the length of the file.\<close>

definition note_length :: "nat \<Rightarrow> 'f upgrade \<Rightarrow> 'f upgrade" where
  "note_length flen s =
     (if started s then s else s\<lparr>started := True, upgrade_file := (upgrade_file s)\<lparr>file_length := int flen\<rparr>\<rparr>)"

lemma answer_package:
  assumes head: "answer_head H (length d) flen" and "length d \<le> SPI_FLASH_SEC_SIZE" "int flen \<le> IOTGO_UPGRADE_BIN_MAX_LEN"
    and "download_sector_buffer s \<noteq> None"
  shows "upgradeTCPSproOnePkgCb env c (H @ d @ behind) (length (H @ d)) True s =
    storeUpgradeDataToFlash env c (length d) ((note_length flen s)\<lparr>download_sector_buffer := Some (sector_image d)\<rparr>)"
proof -
  let ?len = "length (H @ d)"
  have z: "0 \<notin> set H" and H4: "4 \<le> length H" and e: "c_strstr H (CRLF @ CRLF) = Some (length H - 4)"
    and t: "take (length HTTP_PARTIAL) H = HTTP_PARTIAL" using head by (simp_all add: answer_head_def)
  have fl: "flen < 2147483648" using assms(3) by (simp add: IOTGO_UPGRADE_BIN_MAX_LEN_def)
  have n: "length d < 2147483648" "to_u16 (int (length d)) = length d"
    using assms(2) by (simp_all add: SPI_FLASH_SEC_SIZE_def to_u16_small)
  have first: "first_package (H @ d @ behind) ?len s = Some (False, note_length flen s)"
    using getUserBinLength_head [OF head fl, of ?len "d @ behind"] assms(3)
    by (simp add: first_package_def note_length_def)
  have "c_strstr H HTTP_PARTIAL = Some 0"
  proof (cases H)
    case Nil
    with H4 show ?thesis by simp
  next
    case (Cons h hs)
    with t show ?thesis by simp
  qed
  then have t1: "strstr_in (H @ d @ behind) 0 HTTP_PARTIAL ?len = Some (Some 0)"
    using strstr_in_text [of H 0 HTTP_PARTIAL 0 ?len "d @ behind"] z H4 by force
  have "length H - 4 < ?len" using H4 by simp
  then have t2: "strstr_in (H @ d @ behind) 0 (CRLF @ CRLF) ?len = Some (Some (length H - 4))"
    using strstr_in_text [of H 0 "CRLF @ CRLF" "length H - 4" ?len "d @ behind"] z e by simp
  have len: "getContentLength (H @ d @ behind) ?len = Some (int (length d))"
    using getContentLength_head [OF head n(1), of ?len "d @ behind"] by simp
  have fill: "fill_sector (drop (length H - 4 + 4) (H @ d @ behind)) (length d) = Some (sector_image d)"
    using H4 assms(2) by (simp add: fill_sector_def sector_image_def)
  have buf: "download_sector_buffer (note_length flen s) = download_sector_buffer s" by (simp add: note_length_def)
  obtain b where b: "download_sector_buffer s = Some b" using assms(4) by auto
  show ?thesis
    unfolding upgradeTCPSproOnePkgCb_def first
    using t1 t2 len fill n(2) buf b assms(2) by simp
qed

subsection \<open>The flash\<close>

text \<open>
  A chip on which every operation succeeds: what \<open>spi_ok\<close> says, and a shorter read gives the
  begin of a longer one.
\<close>

definition chip_good :: "'f chip \<Rightarrow> (nat \<Rightarrow> 'f \<Rightarrow> bool) \<Rightarrow> bool" where
  "chip_good c er \<longleftrightarrow> spi_ok (chip_spi c) er \<and> (\<forall>op f. op_ok c op f) \<and> (\<forall>k n f. read_ok c k n f) \<and>
     (\<forall>k n m f. n \<le> m \<longrightarrow> spi_read (chip_spi c) k n f = take n (spi_read (chip_spi c) k m f))"

lemma chip_goodD:
  assumes "chip_good c er"
  shows "spi_ok (chip_spi c) er" "op_ok c op f" "read_ok c k n f"
    "n \<le> m \<Longrightarrow> spi_read (chip_spi c) k n f = take n (spi_read (chip_spi c) k m f)"
  using assms by (simp_all add: chip_good_def)

definition flashed :: "'f chip \<Rightarrow> nat \<Rightarrow> bytes \<Rightarrow> 'f \<Rightarrow> 'f" where
  "flashed c k d f = run_spi (chip_spi c) (SpiWrite k d) (run_spi (chip_spi c) (SpiErase k) f)"

lemma flashOneSector_good:
  assumes "chip_good c er" "length d = SPI_FLASH_SEC_SIZE"
  shows "flashOneSector c k d f = (True, flashed c k d f)"
  using assms by (simp add: flashOneSector_def flashed_def chip_goodD(2))

lemma flashed_read:
  assumes good: "chip_good c er" and d: "length d = SPI_FLASH_SEC_SIZE"
  shows "spi_read (chip_spi c) k SPI_FLASH_SEC_SIZE (flashed c k d f) = d"
    and "j \<noteq> k \<Longrightarrow> spi_read (chip_spi c) j n (flashed c k d f) = spi_read (chip_spi c) j n f"
proof -
  note ok = chip_goodD(1) [OF good]
  show "spi_read (chip_spi c) k SPI_FLASH_SEC_SIZE (flashed c k d f) = d"
    using spi_okD(2) [OF ok spi_okD(1) [OF ok], of d k f] d by (simp add: flashed_def)
  show "j \<noteq> k \<Longrightarrow> spi_read (chip_spi c) j n (flashed c k d f) = spi_read (chip_spi c) j n f"
    by (simp add: flashed_def spi_okD(4,5) [OF ok])
qed

text \<open>The first \<open>len\<close> bytes from a sector on.\<close>

definition flash_bytes :: "'f chip \<Rightarrow> nat \<Rightarrow> nat \<Rightarrow> 'f \<Rightarrow> bytes" where
  "flash_bytes c start len f =
     concat (map (\<lambda>j. spi_read (chip_spi c) (start + j) SPI_FLASH_SEC_SIZE f) [0..<len div SPI_FLASH_SEC_SIZE])
     @ spi_read (chip_spi c) (start + len div SPI_FLASH_SEC_SIZE) (len mod SPI_FLASH_SEC_SIZE) f"

lemma verify_loop_good:
  assumes good: "chip_good c er" and "i \<le> len div SPI_FLASH_SEC_SIZE" "len div SPI_FLASH_SEC_SIZE < 65536"
  shows "\<exists>buf'. verify_loop c start len f i buf acc = Some (len div SPI_FLASH_SEC_SIZE, buf',
    acc @ concat (map (\<lambda>j. spi_read (chip_spi c) (start + j) SPI_FLASH_SEC_SIZE f) [i..<len div SPI_FLASH_SEC_SIZE]))"
  using assms(2)
proof (induction "len div SPI_FLASH_SEC_SIZE - i" arbitrary: i buf acc)
  case 0
  then show ?case by (subst verify_loop.simps) simp
next
  case (Suc m)
  then have i: "i < len div SPI_FLASH_SEC_SIZE" by linarith
  then have u: "to_u16 (int i + 1) = Suc i" using assms(3) by (simp add: to_u16_add1)
  let ?b = "spi_read (chip_spi c) (start + i) SPI_FLASH_SEC_SIZE f"
  have "verify_loop c start len f i buf acc = verify_loop c start len f (Suc i) ?b (acc @ ?b)"
    using i by (subst verify_loop.simps) (simp add: chip_goodD(3) [OF good] u Let_def)
  with Suc(1) [of "Suc i" ?b "acc @ ?b"] Suc(2) i show ?case by (simp add: upt_conv_Cons)
qed

lemma flash_digest_good:
  assumes good: "chip_good c er" and "len div SPI_FLASH_SEC_SIZE < 65536"
  shows "\<exists>buf'. flash_digest sha c start len f buf = Some (digest_hex sha (flash_bytes c start len f), buf')"
proof -
  obtain b where b: "verify_loop c start len f 0 buf [] = Some (len div SPI_FLASH_SEC_SIZE, b,
    concat (map (\<lambda>j. spi_read (chip_spi c) (start + j) SPI_FLASH_SEC_SIZE f) [0..<len div SPI_FLASH_SEC_SIZE]))"
    using verify_loop_good [OF good, of 0 len start f buf "[]"] assms(2) by auto
  show ?thesis
    by (simp add: flash_digest_def b chip_goodD(3) [OF good] flash_bytes_def Let_def
      spi_okD(3) [OF chip_goodD(1) [OF good]])
qed

text \<open>With 65536 sectors or more, as for a negative length, the check does not end.\<close>

lemma verify_loop_ends:
  assumes "verify_loop c start len f i buf acc = Some r" "i < 65536"
  shows "len div SPI_FLASH_SEC_SIZE < 65536"
proof -
  have "i < 65536 \<longrightarrow> len div SPI_FLASH_SEC_SIZE < 65536"
    by (rule verify_loop.raw_induct [OF _ assms(1), of "\<lambda>c start len f i buf acc r. i < 65536 \<longrightarrow> len div SPI_FLASH_SEC_SIZE < 65536"])
      (auto split: if_splits simp: Let_def)
  with assms(2) show ?thesis by simp
qed

lemma flash_digest_ends: "flash_digest sha c start len f buf = Some r \<Longrightarrow> len div SPI_FLASH_SEC_SIZE < 65536"
  using verify_loop_ends [of c start len f 0 buf "[]"] by (auto simp: flash_digest_def bind_Some_iff)

subsection \<open>The sectors of an image\<close>

definition image_part :: "nat \<Rightarrow> bytes \<Rightarrow> bytes" where
  "image_part i img = take SPI_FLASH_SEC_SIZE (drop (SPI_FLASH_SEC_SIZE * i) img)"

definition image_sectors :: "nat \<Rightarrow> nat" where
  "image_sectors len = (len + (SPI_FLASH_SEC_SIZE - 1)) div SPI_FLASH_SEC_SIZE"

lemma image_parts:
  assumes "m * SPI_FLASH_SEC_SIZE \<le> length img"
  shows "concat (map (\<lambda>i. image_part i img) [0..<m]) = take (m * SPI_FLASH_SEC_SIZE) img"
  using assms
proof (induction m)
  case (Suc m)
  then have "m * SPI_FLASH_SEC_SIZE \<le> length img" by simp
  moreover have "Suc m * SPI_FLASH_SEC_SIZE = m * SPI_FLASH_SEC_SIZE + SPI_FLASH_SEC_SIZE" by simp
  then have "take (Suc m * SPI_FLASH_SEC_SIZE) img = take (m * SPI_FLASH_SEC_SIZE) img @ image_part m img"
    by (simp only: take_add image_part_def mult.commute)
  ultimately show ?case using Suc.IH by simp
qed simp

lemma flash_bytes_image:
  assumes good: "chip_good c er"
    and stored: "\<And>i. SPI_FLASH_SEC_SIZE * i < length img \<Longrightarrow>
      spi_read (chip_spi c) (start + i) SPI_FLASH_SEC_SIZE f = sector_image (image_part i img)"
  shows "flash_bytes c start (length img) f = img"
proof -
  define m where "m = length img div SPI_FLASH_SEC_SIZE"
  define r where "r = length img mod SPI_FLASH_SEC_SIZE"
  have S: "0 < SPI_FLASH_SEC_SIZE" by (simp add: SPI_FLASH_SEC_SIZE_def)
  have mr: "length img = m * SPI_FLASH_SEC_SIZE + r" "r < SPI_FLASH_SEC_SIZE" using S by (simp_all add: m_def r_def)
  have full: "spi_read (chip_spi c) (start + i) SPI_FLASH_SEC_SIZE f = image_part i img" if "i < m" for i
  proof -
    have "Suc i * SPI_FLASH_SEC_SIZE \<le> m * SPI_FLASH_SEC_SIZE" using that by (intro mult_le_mono1) simp
    then have i: "SPI_FLASH_SEC_SIZE * i + SPI_FLASH_SEC_SIZE \<le> length img" using mr by (simp add: mult.commute)
    then have "length (image_part i img) = SPI_FLASH_SEC_SIZE" by (simp add: image_part_def)
    then show ?thesis using stored [of i] i S by (simp add: sector_image_def)
  qed
  have "concat (map (\<lambda>i. spi_read (chip_spi c) (start + i) SPI_FLASH_SEC_SIZE f) [0..<m]) = concat (map (\<lambda>i. image_part i img) [0..<m])"
    by (intro arg_cong [of _ _ concat] map_cong) (simp_all add: full)
  also have "\<dots> = take (m * SPI_FLASH_SEC_SIZE) img" using mr by (intro image_parts) simp
  finally have a: "concat (map (\<lambda>i. spi_read (chip_spi c) (start + i) SPI_FLASH_SEC_SIZE f) [0..<m]) = take (m * SPI_FLASH_SEC_SIZE) img" .
  have b: "spi_read (chip_spi c) (start + m) r f = drop (m * SPI_FLASH_SEC_SIZE) img"
  proof (cases "r = 0")
    case True
    then show ?thesis using spi_okD(3) [OF chip_goodD(1) [OF good], of "start + m" 0 f] mr by simp
  next
    case False
    then have "spi_read (chip_spi c) (start + m) SPI_FLASH_SEC_SIZE f = sector_image (image_part m img)"
      using mr by (intro stored) (simp add: mult.commute)
    moreover have "image_part m img = drop (m * SPI_FLASH_SEC_SIZE) img" "length (image_part m img) = r"
      using mr by (simp_all add: image_part_def mult.commute)
    ultimately show ?thesis
      using chip_goodD(4) [OF good, of r SPI_FLASH_SEC_SIZE "start + m" f] mr(2) by (simp add: sector_image_def)
  qed
  show ?thesis unfolding flash_bytes_def m_def [symmetric] r_def [symmetric] a b by simp
qed

subsection \<open>The stream of an answer\<close>

text \<open>The packet assembler of a download, with the bytes it holds.\<close>

definition assembler :: "bytes \<Rightarrow> spro \<Rightarrow> bool" where
  "assembler held obj \<longleftrightarrow> pkg_type obj = SPRO_PKG_TYPE_IOT_UPGRADE \<and> http_clean obj \<and> buffer_size obj = 5120 \<and>
     pkg_proc_cb obj = Some 0 \<and> contents obj = held"

lemma assembler_created: "spCreateObject True SPRO_PKG_TYPE_IOT_UPGRADE (Some 0) (1024 * 5) = Some obj \<Longrightarrow> assembler [] obj"
  by (auto simp: spCreateObject_def assembler_def http_clean_def spro_inv_def contents_def)

fun receive_all ::
  "upgrade_env \<Rightarrow> 'f chip \<Rightarrow> bytes \<Rightarrow> nat \<Rightarrow> bytes list \<Rightarrow> 'f upgrade \<Rightarrow> 'f upgrade option" where
  "receive_all env c behind arg [] s = Some s"
| "receive_all env c behind arg (g # gs) s =
     Option.bind (upgradeDownloadTCPRecvCallback env c behind arg g s) (receive_all env c behind arg gs)"

lemma bind_nothing_left [simp]:
  "Option.bind m (receive_all env c behind arg []) = m" "Option.bind m (run_packages env c behind []) = m"
  by (cases m, simp_all)+

lemma receive_part:
  assumes header: "http_header H (int (length d))" and obj: "upgrade_spro s = Some obj" "assembler held obj"
    and c: "held @ g @ rest = H @ d" "rest \<noteq> []" and size: "length (H @ d) < 5120"
  shows "\<exists>obj'. assembler (held @ g) obj' \<and>
    upgradeDownloadTCPRecvCallback env c behind arg g s = Some (s\<lparr>upgrade_spro := Some obj'\<rparr>)"
proof -
  let ?o = "obj\<lparr>sp_arg := arg\<rparr>"
  have clean: "http_clean ?o" using obj(2) by (intro http_clean_cong [of obj ?o]) (simp_all add: assembler_def)
  have cont: "contents ?o = held" using obj(2) by (simp add: contents_def assembler_def)
  have sz: "length (H @ d) < buffer_size ?o" "buffer_size ?o \<le> 32768"
    using size obj(2) by (simp_all add: assembler_def)
  from http_partial [OF header clean _ c(2) sz, of g arg] c(1) cont obtain t where
    t: "processHTTPPackage arg g ?o = Some t" "http_clean t" "contents t = held @ g" "quiet ?o t" by auto
  have "assembler (held @ g) t" using t obj(2) by (simp add: assembler_def quiet_def same_object_def)
  moreover have "new_packages (Some obj) (Some t) = []" using t(4) by (simp add: new_packages_def quiet_def)
  moreover have "spTcpRecv (Some obj) arg (Some g) = Some (Some t)"
    using t(1) obj(2) by (simp add: spTcpRecv_def assembler_def)
  ultimately show ?thesis using obj(1) by (auto simp: upgradeDownloadTCPRecvCallback_def)
qed

lemma receive_end:
  assumes header: "http_header H (int (length d))" and obj: "upgrade_spro s = Some obj" "assembler held obj"
    and c: "held @ g = H @ d" and size: "length (H @ d) < 5120"
  shows "\<exists>obj'. assembler [] obj' \<and> upgradeDownloadTCPRecvCallback env c behind arg g s =
    upgradeTCPSproOnePkgCb env c (H @ d @ behind) (length (H @ d)) True (s\<lparr>upgrade_spro := Some obj'\<rparr>)"
proof -
  let ?o = "obj\<lparr>sp_arg := arg\<rparr>"
  have clean: "http_clean ?o" using obj(2) by (intro http_clean_cong [of obj ?o]) (simp_all add: assembler_def)
  have cont: "contents ?o @ g = H @ d" using obj(2) c by (simp add: contents_def assembler_def)
  have sz: "length (H @ d) < buffer_size ?o" "buffer_size ?o \<le> 32768"
    using size obj(2) by (simp_all add: assembler_def)
  from http_complete [OF header clean cont sz, of arg] obtain t where
    t: "processHTTPPackage arg g ?o = Some t" "http_clean t" "contents t = []" "same_object ?o t"
      "packages t = packages ?o @ pack ?o arg (H @ d, True)" by auto
  have "assembler [] t" using t obj(2) by (simp add: assembler_def same_object_def)
  moreover have "new_packages (Some obj) (Some t) = [Package 0 arg (H @ d) (length (H @ d)) True]"
    using t(5) obj(2) by (simp add: new_packages_def pack_def assembler_def)
  moreover have "spTcpRecv (Some obj) arg (Some g) = Some (Some t)"
    using t(1) obj(2) by (simp add: spTcpRecv_def assembler_def)
  ultimately show ?thesis using obj(1) by (intro exI [of _ t]) (simp add: upgradeDownloadTCPRecvCallback_def)
qed

lemma receive_answer:
  assumes header: "http_header H (int (length d))" and "upgrade_spro s = Some obj" "assembler held obj"
    and size: "length (H @ d) < 5120"
    and "\<forall>g \<in> set gs. g \<noteq> []" "gs \<noteq> []" "held @ concat gs = H @ d"
  shows "\<exists>obj'. assembler [] obj' \<and> receive_all env c behind arg gs s =
    upgradeTCPSproOnePkgCb env c (H @ d @ behind) (length (H @ d)) True (s\<lparr>upgrade_spro := Some obj'\<rparr>)"
  using assms(2,3,5-)
proof (induction gs arbitrary: s obj held)
  case (Cons g gs)
  show ?case
  proof (cases "gs = []")
    case True
    with Cons.prems(5) have "held @ g = H @ d" by simp
    from receive_end [OF header Cons.prems(1,2) this size] True show ?thesis by simp
  next
    case False
    then have rest: "concat gs \<noteq> []" using Cons.prems(3) by (cases gs) auto
    have "held @ g @ concat gs = H @ d" using Cons.prems(5) by simp
    from receive_part [OF header Cons.prems(1,2) this rest size] obtain t where
      t: "assembler (held @ g) t" "upgradeDownloadTCPRecvCallback env c behind arg g s = Some (s\<lparr>upgrade_spro := Some t\<rparr>)"
      by blast
    from Cons.IH [of "s\<lparr>upgrade_spro := Some t\<rparr>" t "held @ g"] t(1) Cons.prems False show ?thesis by (simp add: t(2))
  qed
qed simp

subsection \<open>One round: a request and its answer\<close>

fun download_round :: "upgrade_env \<Rightarrow> 'f chip \<Rightarrow> nat \<times> bytes \<times> bytes list \<Rightarrow> 'f upgrade \<Rightarrow> 'f upgrade option" where
  "download_round env c (r, behind, gs) s =
     Option.bind (iotgoUpgradeDownload env r True s) (receive_all env c behind 0 gs)"

fun download_rounds :: "upgrade_env \<Rightarrow> 'f chip \<Rightarrow> (nat \<times> bytes \<times> bytes list) list \<Rightarrow> 'f upgrade \<Rightarrow> 'f upgrade option" where
  "download_rounds env c [] s = Some s"
| "download_rounds env c (x # xs) s = Option.bind (download_round env c x s) (download_rounds env c xs)"

lemma download_rounds_snoc:
  "download_rounds env c (xs @ [x]) s = Option.bind (download_rounds env c xs s) (download_round env c x)"
proof (induction xs arbitrary: s)
  case Nil
  then show ?case by (cases "download_round env c x s") simp_all
next
  case (Cons y xs)
  then show ?case by (cases "download_round env c y s") simp_all
qed

text \<open>The answer to a request: the segments \<open>gs\<close> are a head and the bytes \<open>d\<close> of a file of \<open>flen\<close> bytes.\<close>

definition answers_with :: "bytes \<Rightarrow> nat \<Rightarrow> bytes list \<Rightarrow> bool" where
  "answers_with d flen gs \<longleftrightarrow> gs \<noteq> [] \<and> (\<forall>g \<in> set gs. g \<noteq> []) \<and>
     (\<exists>H. answer_head H (length d) flen \<and> length (H @ d) < 5120 \<and> concat gs = H @ d)"

text \<open>What a round sends and posts; the first request asks for a whole sector.\<close>

definition asked_range :: "nat \<Rightarrow> nat \<Rightarrow> string" where
  "asked_range i flen = ''Range: bytes='' @ nat_dec (4096 * i) @ ''-''
     @ nat_dec (if i = 0 then 4095 else min (4096 * i + 4095) (flen - 1)) @ crlf"

definition round_calls :: "upgrade_env \<Rightarrow> IoTgoUpgradeInfo \<Rightarrow> bytes \<Rightarrow> nat \<Rightarrow> nat \<Rightarrow> upgrade_call list" where
  "round_calls env info img r i =
     [SendRequest (request_text env (ui_path info) (nat_dec (r mod 4294967296)) (asked_range i (length img))),
      Post (if Suc i < image_sectors (length img) then GetUpgradeData
            else UpgradeExit (if digest_hex (env_sha env) img = ui_sha256 info then 0 else 409))]"

lemma next_range_eq:
  assumes "couter u = i" "file_length u = (if i = 0 then 0 else int flen)" "4096 * i < flen" "flen \<le> 471040"
  shows "range_text (next_range u) = asked_range i flen" "couter (next_range u) = i"
    "file_length (next_range u) = file_length u" "downloaded_length (next_range u) = downloaded_length u"
proof -
  have i: "i \<le> 114" using assms(3,4) by linarith
  have st: "to_u32 (int i * 4096) = 4096 * i" using to_u32_small [of "4096 * i"] i by (simp add: mult.commute)
  have en: "to_u32 (4096 * int i + 4095) = 4096 * i + 4095" using to_u32_small [of "4096 * i + 4095"] i by simp
  have last: "to_u32 (int flen - 1) = flen - 1" using to_u32_diff [of 1 flen] assms(3,4) by simp
  have first: "to_u32 (- 1) = 4294967295" "to_u32 4095 = 4095" by (simp_all add: to_u32_def)
  have re: "range_start (next_range u) = 4096 * i"
    "range_end (next_range u) = (if i = 0 then 4095 else min (4096 * i + 4095) (flen - 1))"
    using assms(1,2) by (auto simp: next_range_def Let_def st en last first)
  have "to_s32 (int n) = int n" if "n \<le> 471040" for n using that by (simp add: to_s32_def)
  then have "int_dec (to_s32 (int n)) = nat_dec n" if "n \<le> 471040" for n using that by (simp add: int_dec_def)
  moreover have "range_start (next_range u) \<le> 471040" "range_end (next_range u) \<le> 471040"
    using assms(3,4) i unfolding re by auto
  ultimately have "int_dec (to_s32 (int (range_start (next_range u)))) = nat_dec (range_start (next_range u))"
    "int_dec (to_s32 (int (range_end (next_range u)))) = nat_dec (range_end (next_range u))" by blast+
  then show "range_text (next_range u) = asked_range i flen" by (simp only: range_text_def asked_range_def re)
  show "couter (next_range u) = i" "file_length (next_range u) = file_length u"
    "downloaded_length (next_range u) = downloaded_length u"
    using assms(1) by (simp_all add: next_range_def Let_def)
qed

lemma request_fits:
  assumes "length path + length (env_deviceid env) \<le> 250" "i \<le> 114" "flen \<le> 471040"
  shows "length (request_text env path (nat_dec (r mod 4294967296)) (asked_range i flen)) < 512"
proof -
  have "length (digest_hex sha bs) \<le> 64" for sha and bs :: bytes
  proof -
    have "length (concat (map (\<lambda>b. [f b, g b]) xs)) = 2 * length xs" for f g :: "u8 \<Rightarrow> char" and xs
      by (induction xs) simp_all
    then show ?thesis by (simp add: digest_hex_def)
  qed
  note sign = this [of "env_sha env" "bytes_of (env_deviceid env @ nat_dec (r mod 4294967296) @ env_apikey env)"]
  have "length (nat_dec (r mod 4294967296)) \<le> Suc 9" by (rule length_nat_dec) simp
  moreover have "length (nat_dec (4096 * i)) \<le> Suc 5" using assms(2) by (intro length_nat_dec) simp
  moreover have "length (nat_dec (if i = 0 then 4095 else min (4096 * i + 4095) (flen - 1))) \<le> Suc 5"
    using assms(3) by (intro length_nat_dec) (auto simp: min_def)
  ultimately show ?thesis using assms(1) sign
    by (simp add: request_text_def asked_range_def crlf_def del: min_less_iff_conj split del: if_split)
qed

subsection \<open>The state after some rounds\<close>

definition progress ::
  "'f chip \<Rightarrow> IoTgoUpgradeInfo \<Rightarrow> bytes \<Rightarrow> 'f \<Rightarrow> nat \<Rightarrow> 'f upgrade \<Rightarrow> bool" where
  "progress c info img f0 i s \<longleftrightarrow>
     iotgo_upgrade_info s = Some info \<and> upgrade_http_buffer s \<noteq> None \<and> download_sector_buffer s \<noteq> None \<and>
     (\<exists>obj. upgrade_spro s = Some obj \<and> assembler [] obj) \<and> flash_sector_index s = i \<and>
     couter (upgrade_file s) = i \<and> downloaded_length (upgrade_file s) = int (min (4096 * i) (length img)) \<and>
     (started s \<longleftrightarrow> i \<noteq> 0) \<and> file_length (upgrade_file s) = (if i = 0 then 0 else int (length img)) \<and>
     (\<forall>j < i. spi_read (chip_spi c) (ui_sector info + j) SPI_FLASH_SEC_SIZE (chip_flash s) = sector_image (image_part j img)) \<and>
     (\<forall>j n. j < ui_sector info \<or> ui_sector info + i \<le> j \<longrightarrow>
        spi_read (chip_spi c) j n (chip_flash s) = spi_read (chip_spi c) j n f0)"

lemma image_sectors_less: "i < image_sectors n \<longleftrightarrow> 4096 * i < n"
  by (simp add: image_sectors_def SPI_FLASH_SEC_SIZE_def) linarith

lemma progress_flashed:
  assumes good: "chip_good c er" and "progress c info img f0 i s" "length d = SPI_FLASH_SEC_SIZE" "d = sector_image (image_part i img)"
    and f: "f = flashed c (i + ui_sector info) d (chip_flash s)"
  shows "j < Suc i \<Longrightarrow> spi_read (chip_spi c) (ui_sector info + j) SPI_FLASH_SEC_SIZE f = sector_image (image_part j img)"
    and "j < ui_sector info \<or> ui_sector info + Suc i \<le> j \<Longrightarrow> spi_read (chip_spi c) j n f = spi_read (chip_spi c) j n f0"
proof -
  note fl = flashed_read [OF good assms(3), where k = "i + ui_sector info"]
  show "spi_read (chip_spi c) (ui_sector info + j) SPI_FLASH_SEC_SIZE f = sector_image (image_part j img)" if "j < Suc i"
  proof (cases "j = i")
    case True
    with fl(1) assms(4) f show ?thesis by (simp add: add.commute)
  next
    case False
    with that assms(2) show ?thesis unfolding f by (subst fl(2)) (simp_all add: progress_def)
  qed
  show "spi_read (chip_spi c) j n f = spi_read (chip_spi c) j n f0" if "j < ui_sector info \<or> ui_sector info + Suc i \<le> j"
    unfolding f using that assms(2) by (subst fl(2)) (auto simp: progress_def)
qed

text \<open>Storing the next part of the image.\<close>

lemma store_part:
  assumes good: "chip_good c er"
    and s: "iotgo_upgrade_info s = Some info" "download_sector_buffer s = Some b" "length b = SPI_FLASH_SEC_SIZE"
    and u: "flash_sector_index s = i" "couter (upgrade_file s) = i" "downloaded_length (upgrade_file s) = int m"
      "file_length (upgrade_file s) = int flen"
    and bounds: "i \<le> 60000" "ui_sector info \<le> 1000" "m + len < 2147483648" "flen \<le> 471040"
  defines "s1 \<equiv> s\<lparr>chip_flash := flashed c (i + ui_sector info) b (chip_flash s), flash_sector_index := Suc i,
    upgrade_file := (upgrade_file s)\<lparr>couter := Suc i, downloaded_length := int (m + len)\<rparr>\<rparr>"
  shows "m + len < flen \<Longrightarrow> storeUpgradeDataToFlash env c len s = Some (system_os_post GetUpgradeData s1)"
    and "flen \<le> m + len \<Longrightarrow> \<exists>b'. storeUpgradeDataToFlash env c len s = Some (system_os_post
      (UpgradeExit (if digest_hex (env_sha env) (flash_bytes c (ui_sector info) flen (chip_flash s1)) = ui_sha256 info then 0 else 409))
      (s1\<lparr>download_sector_buffer := Some b'\<rparr>))"
proof -
  have k: "to_u16 (int i + int (ui_sector info)) = i + ui_sector info" "to_u16 (int i + 1) = Suc i"
    using to_u16_small [of "i + ui_sector info"] to_u16_small [of "Suc i"] bounds by (simp_all add: add.commute)
  have l: "to_s32 (int m + int len) = int m + int len" using bounds(3) by (simp add: to_s32_def)
  have stored: "storeFileToFlash c s = Some (True, s\<lparr>chip_flash := flashed c (i + ui_sector info) b (chip_flash s),
      flash_sector_index := Suc i\<rparr>)"
    using s u(1) k by (simp add: storeFileToFlash_def flashOneSector_good [OF good] Let_def)
  show "storeUpgradeDataToFlash env c len s = Some (system_os_post GetUpgradeData s1)" if "m + len < flen"
    using that by (simp add: storeUpgradeDataToFlash_def stored u k l s1_def Let_def)
  have v: "to_u32 (int flen) = flen" using bounds(4) by (simp add: to_u32_small)
  have "flen div SPI_FLASH_SEC_SIZE < 65536" using bounds(4) by (simp add: SPI_FLASH_SEC_SIZE_def)
  from flash_digest_good [OF good this, of "env_sha env" "ui_sector info" "chip_flash s1" b] obtain b' where
    "flash_digest (env_sha env) c (ui_sector info) flen (chip_flash s1) b =
      Some (digest_hex (env_sha env) (flash_bytes c (ui_sector info) flen (chip_flash s1)), b')" by blast
  then show "\<exists>b'. storeUpgradeDataToFlash env c len s = Some (system_os_post
      (UpgradeExit (if digest_hex (env_sha env) (flash_bytes c (ui_sector info) flen (chip_flash s1)) = ui_sha256 info then 0 else 409))
      (s1\<lparr>download_sector_buffer := Some b'\<rparr>))" if "flen \<le> m + len"
    using that s by (intro exI [of _ b'])
      (simp add: storeUpgradeDataToFlash_def stored u k l v s1_def Let_def verifyFlashData_def)
qed

lemma download_sends:
  fixes r :: nat
  assumes "progress c info img f0 i s" and "4096 * i < length img" "length img \<le> 471040"
    and "length (ui_path info) + length (env_deviceid env) \<le> 250"
  defines "text \<equiv> request_text env (ui_path info) (nat_dec (r mod 4294967296)) (asked_range i (length img))"
  shows "iotgoUpgradeDownload env r True s =
    Some (ucall (SendRequest text) (s\<lparr>upgrade_file := next_range (upgrade_file s), upgrade_http_buffer := Some text\<rparr>))"
proof -
  have u: "couter (upgrade_file s) = i" "file_length (upgrade_file s) = (if i = 0 then 0 else int (length img))"
    using assms(1) unfolding progress_def by blast+
  have "length text < 512" unfolding text_def using assms(2-4) by (intro request_fits) linarith+
  moreover have "range_text (next_range (upgrade_file s)) = asked_range i (length img)"
    using next_range_eq(1) [OF u assms(2,3)] .
  moreover obtain h where "upgrade_http_buffer s = Some h" using assms(1) unfolding progress_def by blast
  moreover have "iotgo_upgrade_info s = Some info" using assms(1) unfolding progress_def by blast
  ultimately show ?thesis by (simp add: iotgoUpgradeDownload_def text_def Let_def)
qed

lemma download_round_step:
  assumes good: "chip_good c er" and prog: "progress c info img f0 i s"
    and i: "4096 * i < length img" "length img \<le> 471040" "ui_sector info \<le> 1000"
    and path: "length (ui_path info) + length (env_deviceid env) \<le> 250"
    and ans: "answers_with (image_part i img) (length img) gs"
  shows "\<exists>s'. download_round env c (r, behind, gs) s = Some s' \<and> progress c info img f0 (Suc i) s' \<and>
    upgrade_calls s' = upgrade_calls s @ round_calls env info img r i"
proof -
  let ?d = "image_part i img" and ?n = "length img"
  let ?text = "request_text env (ui_path info) (nat_dec (r mod 4294967296)) (asked_range i ?n)"
  have d: "length ?d \<le> SPI_FLASH_SEC_SIZE" "4096 * i + length ?d = min (4096 * Suc i) ?n"
    using i(1) by (auto simp: image_part_def SPI_FLASH_SEC_SIZE_def min_def)
  then have sec: "length (sector_image ?d) = SPI_FLASH_SEC_SIZE" by (simp add: sector_image_def)
  obtain H where H: "answer_head H (length ?d) ?n" "length (H @ ?d) < 5120" "concat gs = H @ ?d"
    and gs: "gs \<noteq> []" "\<forall>g \<in> set gs. g \<noteq> []" using ans by (auto simp: answers_with_def)
  define s1 where "s1 = ucall (SendRequest ?text) (s\<lparr>upgrade_file := next_range (upgrade_file s), upgrade_http_buffer := Some ?text\<rparr>)"
  have sent: "iotgoUpgradeDownload env r True s = Some s1"
    unfolding s1_def by (rule download_sends [OF prog i(1,2) path])
  obtain obj where obj: "upgrade_spro s1 = Some obj" "assembler [] obj"
    using prog by (auto simp: progress_def s1_def ucall_def)
  obtain obj' where obj': "assembler [] obj'" and recv: "receive_all env c behind 0 gs s1 =
      upgradeTCPSproOnePkgCb env c (H @ ?d @ behind) (length (H @ ?d)) True (s1\<lparr>upgrade_spro := Some obj'\<rparr>)"
    using receive_answer [OF answer_http_header [OF H(1) d(1)] obj H(2) gs(2,1), where env = env and c = c and behind = behind and arg = 0]
      H(3) by auto
  define s3 where "s3 = (note_length ?n (s1\<lparr>upgrade_spro := Some obj'\<rparr>))\<lparr>download_sector_buffer := Some (sector_image ?d)\<rparr>"
  have buf: "download_sector_buffer (s1\<lparr>upgrade_spro := Some obj'\<rparr>) \<noteq> None"
    using prog by (simp add: progress_def s1_def ucall_def)
  have max: "int ?n \<le> IOTGO_UPGRADE_BIN_MAX_LEN" using i(2) by (simp add: IOTGO_UPGRADE_BIN_MAX_LEN_def)
  have cb: "download_round env c (r, behind, gs) s = storeUpgradeDataToFlash env c (length ?d) s3"
    unfolding download_round.simps sent s3_def by (simp only: bind.bind_lunit recv answer_package [OF H(1) d(1) max buf])
  have u0: "couter (upgrade_file s) = i" "file_length (upgrade_file s) = (if i = 0 then 0 else int ?n)"
    "downloaded_length (upgrade_file s) = int (min (4096 * i) ?n)" "started s \<longleftrightarrow> i \<noteq> 0"
    using prog unfolding progress_def by blast+
  note nr = next_range_eq(2-4) [OF u0(1,2) i(1,2)]
  have s3: "iotgo_upgrade_info s3 = Some info" "download_sector_buffer s3 = Some (sector_image ?d)"
    "flash_sector_index s3 = i" "couter (upgrade_file s3) = i" "downloaded_length (upgrade_file s3) = int (4096 * i)"
    "file_length (upgrade_file s3) = int ?n" "started s3" "chip_flash s3 = chip_flash s" "upgrade_http_buffer s3 = Some ?text"
    "upgrade_spro s3 = Some obj'" "upgrade_calls s3 = upgrade_calls s @ [SendRequest ?text]"
    using prog u0 nr i(1) by (auto simp: progress_def s3_def s1_def note_length_def ucall_def)
  define s4 where "s4 = s3\<lparr>chip_flash := flashed c (i + ui_sector info) (sector_image ?d) (chip_flash s3), flash_sector_index := Suc i,
    upgrade_file := (upgrade_file s3)\<lparr>couter := Suc i, downloaded_length := int (4096 * i + length ?d)\<rparr>\<rparr>"
  have bounds: "i \<le> 60000" "4096 * i + length ?d < 2147483648" using i d(2) by linarith+
  note store = store_part [OF good s3(1,2) sec s3(3-6) bounds(1) i(3) bounds(2) i(2), of env, folded s4_def]
  note fl = progress_flashed [OF good prog sec refl refl]
  have prog4: "progress c info img f0 (Suc i) (s4\<lparr>upgrade_calls := x, download_sector_buffer := Some b\<rparr>)" for x b
    unfolding progress_def s4_def using s3 obj' d(2) fl by simp
  have calls4: "upgrade_calls s4 = upgrade_calls s @ [SendRequest ?text]" by (simp add: s4_def s3(11))
  show ?thesis
  proof (cases "4096 * i + length ?d < ?n")
    case True
    then have more: "Suc i < image_sectors ?n" using d(2) by (simp add: image_sectors_less)
    obtain b where b: "download_sector_buffer s4 = Some b" using s3(2) by (simp add: s4_def)
    have "system_os_post GetUpgradeData s4 =
        s4\<lparr>upgrade_calls := upgrade_calls s4 @ [Post GetUpgradeData], download_sector_buffer := Some b\<rparr>"
      using b by (simp add: system_os_post_def ucall_def)
    with prog4 calls4 more show ?thesis by (simp add: cb store(1) [OF True] round_calls_def del: download_round.simps)
  next
    case False
    then have all: "?n \<le> 4096 * i + length ?d" by simp
    with d(2) have k: "\<not> Suc i < image_sectors ?n" by (simp add: image_sectors_less)
    have "flash_bytes c (ui_sector info) ?n (chip_flash s4) = img"
    proof (rule flash_bytes_image [OF good])
      fix j assume "SPI_FLASH_SEC_SIZE * j < ?n"
      with k have "j < Suc i" by (simp add: image_sectors_less SPI_FLASH_SEC_SIZE_def)
      with prog4 [of "[]" "[]"] show "spi_read (chip_spi c) (ui_sector info + j) SPI_FLASH_SEC_SIZE (chip_flash s4) = sector_image (image_part j img)"
        by (simp add: progress_def)
    qed
    with store(2) [OF all] obtain b where "storeUpgradeDataToFlash env c (length ?d) s3 = Some (system_os_post
        (UpgradeExit (if digest_hex (env_sha env) img = ui_sha256 info then 0 else 409)) (s4\<lparr>download_sector_buffer := Some b\<rparr>))" by auto
    moreover have "system_os_post m (s4\<lparr>download_sector_buffer := Some b\<rparr>) =
        s4\<lparr>upgrade_calls := upgrade_calls s4 @ [Post m], download_sector_buffer := Some b\<rparr>" for m
      by (simp add: system_os_post_def ucall_def)
    ultimately show ?thesis using prog4 calls4 k by (simp add: cb round_calls_def del: download_round.simps)
  qed
qed

subsection \<open>A whole download\<close>

lemma start_progress:
  assumes "iotgoUpgradeStart env True True True ret s0 = Some s" "iotgo_upgrade_info s0 = Some info" "flash_sector_index s0 = 0"
  shows "progress c info img (chip_flash s0) 0 s" "chip_flash s = chip_flash s0"
proof -
  obtain obj where obj: "spCreateObject True SPRO_PKG_TYPE_IOT_UPGRADE (Some 0) (1024 * 5) = Some obj"
    by (simp add: spCreateObject_def)
  then have obj': "spCreateObject True SPRO_PKG_TYPE_IOT_UPGRADE (Some 0) 5120 = Some obj" by simp
  from assms show "progress c info img (chip_flash s0) 0 s" "chip_flash s = chip_flash s0"
    by (auto simp: iotgoUpgradeStart_def iotgoUpgradeMalloc_def connectToDownloadServer_def establishTCP_def
      system_os_post_def ucall_def no_file_def progress_def obj' assembler_created [OF obj] Let_def bind_Some_iff
      simp del: One_nat_def split: if_splits)
qed

lemma download_rounds_progress:
  assumes good: "chip_good c er" and start: "progress c info img f0 0 s"
    and img: "length img \<le> 471040" "ui_sector info \<le> 1000"
    and path: "length (ui_path info) + length (env_deviceid env) \<le> 250"
    and n: "length answers \<le> image_sectors (length img)"
    and ans: "\<forall>i < length answers. answers_with (image_part i img) (length img) (snd (snd (answers ! i)))"
    and "m \<le> length answers"
  shows "\<exists>s'. download_rounds env c (take m answers) s = Some s' \<and> progress c info img f0 m s' \<and>
    upgrade_calls s' = upgrade_calls s @ concat (map (\<lambda>i. round_calls env info img (fst (answers ! i)) i) [0..<m])"
  using assms(8)
proof (induction m)
  case 0
  then show ?case using start by simp
next
  case (Suc m)
  then have m: "m < length answers" by simp
  with Suc.IH obtain t where t: "download_rounds env c (take m answers) s = Some t" "progress c info img f0 m t"
    "upgrade_calls t = upgrade_calls s @ concat (map (\<lambda>i. round_calls env info img (fst (answers ! i)) i) [0..<m])" by auto
  obtain r behind gs where a: "answers ! m = (r, behind, gs)" by (cases "answers ! m") auto
  have "4096 * m < length img" using m n image_sectors_less [of m "length img"] by linarith
  moreover have "answers_with (image_part m img) (length img) gs" using ans m a by force
  ultimately obtain s' where s': "download_round env c (r, behind, gs) t = Some s'" "progress c info img f0 (Suc m) s'"
    "upgrade_calls s' = upgrade_calls t @ round_calls env info img r m"
    using download_round_step [OF good t(2) _ img path] by blast
  have "download_rounds env c (take (Suc m) answers) s = Some s'"
    unfolding take_Suc_conv_app_nth [OF m] download_rounds_snoc t(1) a using s'(1) by simp
  with s' t(3) a show ?case by simp
qed

text \<open>
  C1: an upgrade that is served completes.  After the start of a download, when the server answers
  every request with the range of an image of at most 460 KB, each answer in any segmentation and
  with any other header lines, then one request per sector is sent, for consecutive ranges; the
  flash holds the image, the last sector padded, and every sector outside is untouched; and after
  the last answer, only then, the end is posted, without error exactly when the digest of the
  image is the one of the upgrade request.
\<close>

theorem upgrade_download_completes:
  assumes good: "chip_good c er"
    and start: "iotgoUpgradeStart env True True True ret s0 = Some s" "iotgo_upgrade_info s0 = Some info"
      "flash_sector_index s0 = 0" "ui_sector info \<le> 129" "length (ui_path info) + length (env_deviceid env) \<le> 250"
    and img: "length img \<le> 471040" "length answers = image_sectors (length img)"
      "\<forall>i < length answers. answers_with (image_part i img) (length img) (snd (snd (answers ! i)))"
  shows "\<exists>s'. download_rounds env c answers s = Some s' \<and>
    upgrade_calls s' = upgrade_calls s @ concat (map (\<lambda>i. round_calls env info img (fst (answers ! i)) i) [0..<length answers]) \<and>
    (\<forall>i < length answers. spi_read (chip_spi c) (ui_sector info + i) SPI_FLASH_SEC_SIZE (chip_flash s') = sector_image (image_part i img)) \<and>
    (\<forall>k n. k < ui_sector info \<or> ui_sector info + length answers \<le> k \<longrightarrow>
      spi_read (chip_spi c) k n (chip_flash s') = spi_read (chip_spi c) k n (chip_flash s0))"
proof -
  have sector: "ui_sector info \<le> 1000" using start(4) by simp
  obtain s' where "download_rounds env c (take (length answers) answers) s = Some s'"
    "progress c info img (chip_flash s0) (length answers) s'"
    "upgrade_calls s' = upgrade_calls s @ concat (map (\<lambda>i. round_calls env info img (fst (answers ! i)) i) [0..<length answers])"
    using download_rounds_progress [OF good start_progress(1) [OF start(1-3)] img(1) sector start(5) eq_refl [OF img(2)] img(3) le_refl]
    by blast
  then show ?thesis unfolding progress_def by auto
qed

definition nor_chip :: "(nat \<Rightarrow> bytes) chip" where
  "nor_chip = \<lparr>chip_spi = nor_flash, op_ok = \<lambda>_ _. True, read_ok = \<lambda>_ _ _. True\<rparr>"

lemma nor_chip_good: "chip_good nor_chip (\<lambda>k f. f k = [])"
proof -
  have "map f [0..<n] = take n (map f [0..<m])" if "n \<le> m" for f :: "nat \<Rightarrow> u8" and n m
    using that by (simp add: take_map take_upt)
  then show ?thesis using nor_flash_ok by (simp add: chip_good_def nor_chip_def) (simp add: nor_flash_def)
qed

definition example_env :: upgrade_env where
  "example_env = \<lparr>env_deviceid = ''1000'', env_apikey = ''k'', env_model = ''ITA'', env_bin1 = True,
     env_sha = \<lambda>bs. bs, env_ip = \<lambda>_. 0xFFFFFFFF\<rparr>"

definition example_info :: IoTgoUpgradeInfo where
  "example_info = \<lparr>ui_name = ''user2.bin'', ui_version = ''1.0.1'', ui_auto_restart = 1, ui_http = True,
     ui_host = ''dl.itead.cn'', ui_port = 80, ui_path = ''/ota/user2.bin'', ui_sha256 = ''e9ff'', ui_sector = 0x81,
     ui_sequence = ''7''\<rparr>"

definition example_idle :: "(nat \<Rightarrow> bytes) upgrade" where
  "example_idle = \<lparr>upgrade_http_buffer = None, iotgo_upgrade_info = Some example_info, download_sector_buffer = None,
     started = False, upgrade_progress_timer = Disarmed, upgrade_enter_timer = Disarmed, upgrade_exit_timer = Disarmed,
     upgrade_timeout = 0, upgrade_spro = None, connect_server_again_timer = Disarmed, connect_server_again_counter = 0,
     flash_sector_index = 0, upgrade_started_flag = False, upgrade_file = no_file,
     new_bin_info = \<lparr>nb_name = [], nb_version = [], nb_length = 0, nb_sha256 = []\<rparr>, chip_flash = (\<lambda>_. []), upgrade_calls = []\<rparr>"

definition example_head :: bytes where
  "example_head = HTTP_PARTIAL @ bytes_of ''Content-Range: bytes 0-1/2'' @ CRLF @ CONTENT_LENGTH_IS @ bytes_of ''2'' @ CRLF @ CRLF"

lemma example_answer_head: "answer_head example_head 2 2"
proof -
  have a: "0 \<notin> set example_head" "4 \<le> length example_head" "c_strstr example_head (CRLF @ CRLF) = Some (length example_head - 4)"
    "take (length HTTP_PARTIAL) example_head = HTTP_PARTIAL" by code_simp+
  have b: "c_strstr example_head CONTENT_LENGTH_IS = Some 58"
    "drop (58 + length CONTENT_LENGTH_IS) example_head = decimal 2 @ CRLF @ CRLF" by code_simp+
  have d: "c_strstr example_head (bytes_of ''Content-Range'') = Some 30" "c_strstr (drop 30 example_head) (bytes_of ''/'') = Some 24"
    "drop (Suc (30 + 24)) example_head = decimal 2 @ CRLF @ CONTENT_LENGTH_IS @ bytes_of ''2'' @ CRLF @ CRLF" by code_simp+
  show ?thesis unfolding answer_head_def using a b d by blast
qed

lemma example_answer: "answers_with [0xE9, 0xFF] 2 [take 30 example_head, drop 30 example_head @ [0xE9], [0xFF]]"
proof -
  have "answer_head example_head (length [0xE9 :: u8, 0xFF]) 2" using example_answer_head by (simp add: numeral_2_eq_2)
  moreover have "length (example_head @ [0xE9, 0xFF]) < 5120" "take 30 example_head \<noteq> []" by code_simp+
  moreover have "take 30 example_head @ drop 30 example_head @ [0xE9, 0xFF] = example_head @ [0xE9, 0xFF]"
    by (metis append_take_drop_id append_assoc)
  ultimately show ?thesis by (auto simp: answers_with_def)
qed

theorem upgrade_download_completes_witness:
  "\<exists>s'. Option.bind (iotgoUpgradeStart example_env True True True 0 example_idle)
      (download_rounds example_env nor_chip [(5, [], [take 30 example_head, drop 30 example_head @ [0xE9], [0xFF]])]) = Some s' \<and>
    last (upgrade_calls s') = Post (UpgradeExit 0) \<and>
    spi_read nor_flash 0x81 SPI_FLASH_SEC_SIZE (chip_flash s') = sector_image [0xE9, 0xFF]"
proof -
  let ?img = "[0xE9, 0xFF] :: bytes"
  let ?answers = "[(5 :: nat, [] :: bytes, [take 30 example_head, drop 30 example_head @ [0xE9], [0xFF]])]"
  obtain s where s: "iotgoUpgradeStart example_env True True True 0 example_idle = Some s"
    by (simp add: iotgoUpgradeStart_def connectToDownloadServer_def iotgoUpgradeMalloc_def example_idle_def Let_def)
  have k: "image_sectors (length ?img) = 1" by (simp add: image_sectors_def SPI_FLASH_SEC_SIZE_def)
  have part: "image_part 0 ?img = ?img" by (simp add: image_part_def SPI_FLASH_SEC_SIZE_def)
  have dig: "digest_hex (env_sha example_env) ?img = ui_sha256 example_info" by code_simp
  have sec: "ui_sector example_info = 0x81" by (simp add: example_info_def)
  have "answers_with (image_part 0 ?img) (length ?img) (snd (snd (?answers ! 0)))"
    using example_answer unfolding part by (simp add: numeral_2_eq_2)
  then have "\<forall>i < length ?answers. answers_with (image_part i ?img) (length ?img) (snd (snd (?answers ! i)))" by simp
  moreover have "length ?answers = image_sectors (length ?img)" unfolding k by simp
  moreover have "iotgo_upgrade_info example_idle = Some example_info" "flash_sector_index example_idle = 0" "length ?img \<le> 471040"
    "ui_sector example_info \<le> 129" "length (ui_path example_info) + length (env_deviceid example_env) \<le> 250"
    by (simp_all add: example_idle_def example_info_def example_env_def)
  ultimately obtain s' where s': "download_rounds example_env nor_chip ?answers s = Some s'"
    "upgrade_calls s' = upgrade_calls s @ concat (map (\<lambda>i. round_calls example_env example_info ?img (fst (?answers ! i)) i) [0..<length ?answers])"
    "\<forall>i < length ?answers. spi_read (chip_spi nor_chip) (ui_sector example_info + i) SPI_FLASH_SEC_SIZE (chip_flash s') = sector_image (image_part i ?img)"
    using upgrade_download_completes [OF nor_chip_good s] by blast
  from s'(2) have "upgrade_calls s' = upgrade_calls s @ round_calls example_env example_info ?img 5 0" by simp
  then have "last (upgrade_calls s') = Post (UpgradeExit 0)" unfolding round_calls_def k dig by simp
  moreover from s'(3) have "spi_read nor_flash 0x81 SPI_FLASH_SEC_SIZE (chip_flash s') = sector_image (image_part 0 ?img)"
    by (simp add: sec nor_chip_def del: One_nat_def)
  ultimately show ?thesis unfolding part s bind.bind_lunit using s'(1) by blast
qed

end
