(* ===== verification/UpgradeSafe.thy ===== *)
theory UpgradeSafe
  imports UpgradeSpec
begin

text \<open>
  What an upgrade promises whatever the server sends: an image is recorded as new firmware only if
  it has the digest of the request, and the check before the restart finds it again.
\<close>

subsection \<open>A download between its start and its stop\<close>

text \<open>\<open>upgrade_run env c n s s'\<close>: callbacks and messages of a download, among them \<open>n\<close> packets.\<close>

inductive upgrade_run :: "upgrade_env \<Rightarrow> 'f chip \<Rightarrow> nat \<Rightarrow> 'f upgrade \<Rightarrow> 'f upgrade \<Rightarrow> bool"
  for env :: upgrade_env and c :: "'f chip" where
  run_refl: "upgrade_run env c 0 s s"
| run_packet: "upgrade_run env c n s t \<Longrightarrow> upgradeTCPSproOnePkgCb env c pdata len flag t = Some u \<Longrightarrow> upgrade_run env c (Suc n) s u"
| run_segment: "upgrade_run env c n s t \<Longrightarrow> upgrade_run env c n s (t\<lparr>upgrade_spro := obj\<rparr>)"
| run_download: "upgrade_run env c n s t \<Longrightarrow> iotgoUpgradeDownload env r sent t = Some u \<Longrightarrow> upgrade_run env c n s u"
| run_connect: "upgrade_run env c n s t \<Longrightarrow> connectToDownloadServer env ret t = Some u \<Longrightarrow> upgrade_run env c n s u"
| run_dns: "upgrade_run env c n s t \<Longrightarrow> upgrade_run env c n s (upgradeDnsFoundCallback ip ret t)"
| run_connected: "upgrade_run env c n s t \<Longrightarrow> upgrade_run env c n s (upgradeDownloadTCPConnectedCallback t)"
| run_disconnected: "upgrade_run env c n s t \<Longrightarrow> upgrade_run env c n s (upgradeDownloadTCPDisconCallback t)"
| run_broken: "upgrade_run env c n s t \<Longrightarrow> upgrade_run env c n s (upgradeDownloadTCPReconCallback t)"
| run_again: "upgrade_run env c n s t \<Longrightarrow> upgrade_run env c n s (iotgoUpgradeReconnect t)"
| run_tick: "upgrade_run env c n s t \<Longrightarrow> upgrade_run env c n s (cbUpgradeTimer t)"

definition reported_good :: "nat \<Rightarrow> 'f upgrade \<Rightarrow> bool" where
  "reported_good before s \<longleftrightarrow> Post (UpgradeExit 0) \<in> set (drop before (upgrade_calls s))"

text \<open>
  The invariant of a run with \<open>n\<close> packets: no more was counted than sectors were written, and a
  reported image lies in the sectors that will not be written again and has the digest.
\<close>

definition upgrade_inv :: "upgrade_env \<Rightarrow> 'f chip \<Rightarrow> IoTgoUpgradeInfo \<Rightarrow> nat \<Rightarrow> nat \<Rightarrow> 'f upgrade \<Rightarrow> bool" where
  "upgrade_inv env c info before n s \<longleftrightarrow>
     iotgo_upgrade_info s = Some info \<and> before \<le> length (upgrade_calls s) \<and>
     flash_sector_index s \<le> n \<and> couter (upgrade_file s) = flash_sector_index s \<and>
     0 \<le> downloaded_length (upgrade_file s) \<and> downloaded_length (upgrade_file s) \<le> 4096 * int (flash_sector_index s) \<and>
     (started s \<longrightarrow> -2147483648 \<le> file_length (upgrade_file s) \<and> file_length (upgrade_file s) \<le> IOTGO_UPGRADE_BIN_MAX_LEN) \<and>
     (reported_good before s \<longrightarrow> started s \<and> 0 \<le> file_length (upgrade_file s) \<and>
        file_length (upgrade_file s) \<le> downloaded_length (upgrade_file s) \<and>
        digest_hex (env_sha env) (flash_bytes c (ui_sector info) (nat (file_length (upgrade_file s))) (chip_flash s)) = ui_sha256 info)"

text \<open>Steps that touch nothing the invariant mentions but add calls that report no success.\<close>

lemma upgrade_inv_calls:
  assumes "upgrade_inv env c info before n s" and "upgrade_calls t = upgrade_calls s @ new" "Post (UpgradeExit 0) \<notin> set new"
    and "iotgo_upgrade_info t = iotgo_upgrade_info s" "flash_sector_index t = flash_sector_index s"
      "file_length (upgrade_file t) = file_length (upgrade_file s)" "couter (upgrade_file t) = couter (upgrade_file s)"
      "downloaded_length (upgrade_file t) = downloaded_length (upgrade_file s)" "started t = started s" "chip_flash t = chip_flash s"
  shows "upgrade_inv env c info before n t"
proof -
  have "before \<le> length (upgrade_calls s)" using assms(1) by (simp add: upgrade_inv_def)
  then have "reported_good before t = reported_good before s" using assms(2,3) by (simp add: reported_good_def)
  with assms show ?thesis by (simp add: upgrade_inv_def)
qed

lemma upgrade_inv_ucall:
  assumes "upgrade_inv env c info before n s" "x \<noteq> Post (UpgradeExit 0)"
  shows "upgrade_inv env c info before n (ucall x s)"
  by (rule upgrade_inv_calls [OF assms(1), where new = "[x]"]) (use assms(2) in \<open>auto simp: ucall_def\<close>)

lemma next_range_keeps:
  "file_length (next_range u) = file_length u" "couter (next_range u) = couter u" "downloaded_length (next_range u) = downloaded_length u"
  by (simp_all add: next_range_def Let_def)

lemma upgrade_inv_quiet:
  assumes "upgrade_inv env c info before n s"
  shows "iotgoUpgradeDownload env r sent s = Some t \<Longrightarrow> upgrade_inv env c info before n t"
    and "connectToDownloadServer env ret s = Some t \<Longrightarrow> upgrade_inv env c info before n t"
    and "upgrade_inv env c info before n (s\<lparr>upgrade_spro := obj\<rparr>)"
    and "upgrade_inv env c info before n (upgradeDnsFoundCallback ip ret s)"
    and "upgrade_inv env c info before n (upgradeDownloadTCPConnectedCallback s)"
    and "upgrade_inv env c info before n (upgradeDownloadTCPDisconCallback s)"
    and "upgrade_inv env c info before n (upgradeDownloadTCPReconCallback s)"
    and "upgrade_inv env c info before n (iotgoUpgradeReconnect s)"
    and "upgrade_inv env c info before n (cbUpgradeTimer s)"
    and "upgrade_inv env c info before n (error_ret s)"
proof -
  note add = upgrade_inv_calls [OF assms]
  note defs = system_os_post_def ucall_def
  show "upgrade_inv env c info before n t" if "iotgoUpgradeDownload env r sent s = Some t"
  proof -
    from that obtain a where "t = s\<lparr>upgrade_file := next_range (upgrade_file s), upgrade_http_buffer := Some a,
        upgrade_calls := upgrade_calls s @ [if sent then SendRequest a else Post ReconnectAgain]\<rparr>"
      by (auto simp: iotgoUpgradeDownload_def bind_Some_iff Let_def defs split: if_splits)
    then show ?thesis by (intro add) (auto simp: next_range_keeps split: if_splits)
  qed
  note one = upgrade_inv_ucall [OF assms] and two = upgrade_inv_ucall [OF upgrade_inv_ucall [OF assms]]
  have establish: "upgrade_inv env c info before n (establishTCP ret s)"
    using one [of ConnectServer] two [of ConnectServer "Post ReconnectAgain"]
    by (simp add: establishTCP_def system_os_post_def Let_def)
  show "upgrade_inv env c info before n t" if "connectToDownloadServer env ret s = Some t"
    using that establish one by (auto simp: connectToDownloadServer_def bind_Some_iff split: if_splits)
  show "upgrade_inv env c info before n (s\<lparr>upgrade_spro := obj\<rparr>)" by (rule add [where new = "[]"]) simp_all
  show "upgrade_inv env c info before n (upgradeDnsFoundCallback ip ret s)"
    using establish one by (simp add: upgradeDnsFoundCallback_def system_os_post_def split: option.split)
  show "upgrade_inv env c info before n (upgradeDownloadTCPConnectedCallback s)"
    "upgrade_inv env c info before n (upgradeDownloadTCPDisconCallback s)"
    "upgrade_inv env c info before n (upgradeDownloadTCPReconCallback s)"
    "upgrade_inv env c info before n (error_ret s)"
    using one by (simp_all add: upgradeDownloadTCPConnectedCallback_def upgradeDownloadTCPDisconCallback_def
      upgradeDownloadTCPReconCallback_def error_ret_def system_os_post_def)
  show "upgrade_inv env c info before n (iotgoUpgradeReconnect s)"
  proof (cases "upgrade_started_flag s \<and> \<not> to_u8 (int (connect_server_again_counter s) + 1) < 4")
    case True
    then show ?thesis by (intro add [where new = "[Post (UpgradeExit 404)]"]) (simp_all add: iotgoUpgradeReconnect_def defs Let_def)
  next
    case False
    then show ?thesis by (intro add [where new = "[]"]) (auto simp: iotgoUpgradeReconnect_def defs Let_def)
  qed
  show "upgrade_inv env c info before n (cbUpgradeTimer s)"
  proof -
    define s1 where "s1 = (if downloaded_length (upgrade_file s) = file_length (upgrade_file s)
      then s\<lparr>upgrade_progress_timer := Disarmed\<rparr> else s)"
    define s2 where "s2 = s1\<lparr>upgrade_timeout := to_u16 (int (upgrade_timeout s1) + 1)\<rparr>"
    have "upgrade_inv env c info before n s2" by (rule add [where new = "[]"]) (simp_all add: s2_def s1_def)
    moreover have "cbUpgradeTimer s \<in> {s2, ucall (Post (UpgradeExit 404)) s2}"
      by (simp add: cbUpgradeTimer_def s2_def s1_def Let_def system_os_post_def)
    ultimately show ?thesis using upgrade_inv_ucall [of env c info before n s2 "Post (UpgradeExit 404)"] by auto
  qed
qed

lemma upgrade_inv_Suc: "upgrade_inv env c info before n s \<Longrightarrow> upgrade_inv env c info before (Suc n) s"
  by (simp add: upgrade_inv_def)

subsection \<open>Packets\<close>

lemma atoi_range: "atoi x = Some v \<Longrightarrow> -2147483648 \<le> v \<and> v \<le> 2147483647"
  by (simp add: atoi_def Let_def split: if_splits)

lemma getUserBinLength_range: "getUserBinLength pdata len = Some v \<Longrightarrow> -2147483648 \<le> v \<and> v \<le> 2147483647"
  by (auto simp: getUserBinLength_def bind_Some_iff dest!: atoi_range split: option.splits)

lemma first_package_inv:
  assumes "upgrade_inv env c info before n s" "first_package pdata len s = Some (failed, t)"
  shows "upgrade_inv env c info before n t" "\<not> failed \<Longrightarrow> started t"
  using assms getUserBinLength_range [of pdata len]
  by (auto simp: first_package_def upgrade_inv_def reported_good_def bind_Some_iff Let_def split: if_splits)

text \<open>Writing behind an image does not change it.\<close>

lemma flash_bytes_flashed:
  assumes good: "chip_good c er" and d: "length d = SPI_FLASH_SEC_SIZE" and k: "start + image_sectors len \<le> k"
  shows "flash_bytes c start len (flashed c k d f) = flash_bytes c start len f"
proof -
  note fl = flashed_read(2) [OF good d, where k = k]
  have whole: "start + j \<noteq> k" if "j < len div SPI_FLASH_SEC_SIZE" for j
  proof -
    have "SPI_FLASH_SEC_SIZE * j < len" using that by (simp add: SPI_FLASH_SEC_SIZE_def)
    then have "j < image_sectors len" by (simp add: image_sectors_less SPI_FLASH_SEC_SIZE_def)
    with k show ?thesis by linarith
  qed
  have "spi_read (chip_spi c) (start + len div SPI_FLASH_SEC_SIZE) (len mod SPI_FLASH_SEC_SIZE) (flashed c k d f) =
      spi_read (chip_spi c) (start + len div SPI_FLASH_SEC_SIZE) (len mod SPI_FLASH_SEC_SIZE) f"
  proof (cases "len mod SPI_FLASH_SEC_SIZE = 0")
    case True
    have "spi_read (chip_spi c) j 0 g = []" for j g using spi_okD(3) [OF chip_goodD(1) [OF good], of j 0 g] by simp
    then show ?thesis unfolding True by simp
  next
    case False
    have "len = SPI_FLASH_SEC_SIZE * (len div SPI_FLASH_SEC_SIZE) + len mod SPI_FLASH_SEC_SIZE" by simp
    with False have "4096 * (len div SPI_FLASH_SEC_SIZE) < len" unfolding SPI_FLASH_SEC_SIZE_def by linarith
    then have "len div SPI_FLASH_SEC_SIZE < image_sectors len" by (simp add: image_sectors_less)
    with k show ?thesis by (intro fl) linarith
  qed
  moreover have "map (\<lambda>j. spi_read (chip_spi c) (start + j) SPI_FLASH_SEC_SIZE (flashed c k d f)) [0..<len div SPI_FLASH_SEC_SIZE] =
      map (\<lambda>j. spi_read (chip_spi c) (start + j) SPI_FLASH_SEC_SIZE f) [0..<len div SPI_FLASH_SEC_SIZE]"
    using fl whole by simp
  ultimately show ?thesis unfolding flash_bytes_def by (simp only:)
qed

text \<open>A file length below zero never passes the check, which does not end.\<close>

lemma store_negative:
  assumes good: "chip_good c er" and s: "iotgo_upgrade_info s = Some info" "download_sector_buffer s = Some b" "length b = SPI_FLASH_SEC_SIZE"
    and u: "-2147483648 \<le> file_length (upgrade_file s)" "file_length (upgrade_file s) < 0"
      "0 \<le> downloaded_length (upgrade_file s)" "downloaded_length (upgrade_file s) + int len < 2147483648"
  shows "storeUpgradeDataToFlash env c len s = None"
proof -
  have l: "to_s32 (downloaded_length (upgrade_file s) + int len) = downloaded_length (upgrade_file s) + int len"
    using u by (simp add: to_s32_def)
  have "file_length (upgrade_file s) mod 4294967296 = file_length (upgrade_file s) + 4294967296"
    using u(1,2) by (simp add: int_mod_pos_eq [where q = "-1"])
  then have "2147483648 \<le> to_u32 (file_length (upgrade_file s))" using u(1) by (simp add: to_u32_def)
  then have "\<not> to_u32 (file_length (upgrade_file s)) div SPI_FLASH_SEC_SIZE < 65536"
    unfolding SPI_FLASH_SEC_SIZE_def by linarith
  then have "flash_digest sha c k (to_u32 (file_length (upgrade_file s))) f b = None" for sha k f
    using flash_digest_ends [of sha c k "to_u32 (file_length (upgrade_file s))" f b] by (metis not_Some_eq)
  then show ?thesis using s u(2,3) l
    by (simp add: storeUpgradeDataToFlash_def storeFileToFlash_def flashOneSector_good [OF good s(3)] verifyFlashData_def Let_def)
qed

lemma store_inv:
  assumes good: "chip_good c er" and inv: "upgrade_inv env c info before n s" and st: "started s"
    and b: "download_sector_buffer s = Some b" "length b = SPI_FLASH_SEC_SIZE" and len: "len \<le> SPI_FLASH_SEC_SIZE"
    and bounds: "n \<le> 60000" "ui_sector info \<le> 1000" and t: "storeUpgradeDataToFlash env c len s = Some t"
  shows "upgrade_inv env c info before (Suc n) t"
proof -
  let ?i = "flash_sector_index s" and ?fl = "file_length (upgrade_file s)" and ?m = "nat (downloaded_length (upgrade_file s))"
  from inv st have I: "iotgo_upgrade_info s = Some info" "before \<le> length (upgrade_calls s)" "?i \<le> n"
    "couter (upgrade_file s) = ?i" "0 \<le> downloaded_length (upgrade_file s)" "downloaded_length (upgrade_file s) \<le> 4096 * int ?i"
    "-2147483648 \<le> ?fl" "?fl \<le> IOTGO_UPGRADE_BIN_MAX_LEN"
    unfolding upgrade_inv_def by blast+
  have m: "downloaded_length (upgrade_file s) = int ?m" using I(5) by simp
  have mb: "?m \<le> 4096 * ?i" using I(5,6) by linarith
  have fits: "?m + len < 2147483648" using mb I(3) bounds(1) len unfolding SPI_FLASH_SEC_SIZE_def by linarith
  have pos: "0 \<le> ?fl"
  proof (rule ccontr)
    assume "\<not> 0 \<le> ?fl"
    then have "storeUpgradeDataToFlash env c len s = None"
      using I b fits by (intro store_negative [OF good I(1) b]) linarith+
    with t show False by simp
  qed
  then have fl: "?fl = int (nat ?fl)" "nat ?fl \<le> 471040" using I(8) by (simp_all add: IOTGO_UPGRADE_BIN_MAX_LEN_def)
  have ib: "?i \<le> 60000" using I(3) bounds(1) by simp
  note store = store_part [OF good I(1) b refl I(4) m fl(1) ib bounds(2) fits fl(2), of env]
  let ?f = "flashed c (?i + ui_sector info) b (chip_flash s)"
  have old: "flash_bytes c (ui_sector info) (nat ?fl) ?f = flash_bytes c (ui_sector info) (nat ?fl) (chip_flash s)"
    if "nat ?fl \<le> ?m"
  proof (rule flash_bytes_flashed [OF good b(2)])
    have "\<not> ?i < image_sectors (nat ?fl)" using that mb by (simp add: image_sectors_less)
    then show "ui_sector info + image_sectors (nat ?fl) \<le> ?i + ui_sector info" by simp
  qed
  have before: "nat ?fl \<le> ?m" "digest_hex (env_sha env) (flash_bytes c (ui_sector info) (nat ?fl) (chip_flash s)) = ui_sha256 info"
    if "reported_good before s"
    using inv that unfolding upgrade_inv_def by auto
  show ?thesis
  proof (cases "?m + len < nat ?fl")
    case True
    then have "\<not> reported_good before s" using before(1) by linarith
    with store(1) [OF True] t I(1-3) mb len st pos show ?thesis
      by (auto simp: upgrade_inv_def reported_good_def system_os_post_def ucall_def SPI_FLASH_SEC_SIZE_def I(7,8))
  next
    case False
    then have "nat ?fl \<le> ?m + len" by simp
    from store(2) [OF this] t obtain b' where t': "t = system_os_post
      (UpgradeExit (if digest_hex (env_sha env) (flash_bytes c (ui_sector info) (nat ?fl) ?f) = ui_sha256 info then 0 else 409))
      (s\<lparr>chip_flash := ?f, flash_sector_index := Suc ?i, upgrade_file := (upgrade_file s)\<lparr>couter := Suc ?i,
         downloaded_length := int (?m + len)\<rparr>, download_sector_buffer := Some b'\<rparr>)" by auto
    show ?thesis
    proof (cases "reported_good before s")
      case True
      note dig = old [OF before(1) [OF True]] before(2) [OF True]
      from True t' I(1-3) mb len st pos False show ?thesis
        by (auto simp: upgrade_inv_def reported_good_def system_os_post_def ucall_def SPI_FLASH_SEC_SIZE_def I(7,8) dig)
    next
      case unreported: False
      from unreported t' I(1-3) mb len st pos False show ?thesis
        by (auto simp: upgrade_inv_def reported_good_def system_os_post_def ucall_def SPI_FLASH_SEC_SIZE_def I(7,8) split: if_splits)
    qed
  qed
qed

lemma packet_inv:
  assumes good: "chip_good c er" and inv: "upgrade_inv env c info before n s"
    and bounds: "n \<le> 60000" "ui_sector info \<le> 1000" and t: "upgradeTCPSproOnePkgCb env c pdata len flag s = Some t"
  shows "upgrade_inv env c info before (Suc n) t"
proof -
  have err: "upgrade_inv env c info before (Suc n) (error_ret u)" if "upgrade_inv env c info before n u" for u
    using upgrade_inv_quiet(10) [OF that] by (rule upgrade_inv_Suc)
  show ?thesis
  proof (cases flag)
    case False
    with t err [OF inv] show ?thesis by (simp add: upgradeTCPSproOnePkgCb_def)
  next
    case True
    with t obtain failed u where u: "first_package pdata len s = Some (failed, u)"
      by (auto simp: upgradeTCPSproOnePkgCb_def bind_Some_iff)
    note first = first_package_inv [OF inv u]
    show ?thesis
    proof (cases "t = error_ret u")
      case True
      with err [OF first(1)] show ?thesis by simp
    next
      case False
      with t u \<open>flag\<close> obtain m t2 buf where "\<not> failed" "\<not> SPI_FLASH_SEC_SIZE < to_u16 m"
        and buf: "fill_sector (drop (t2 + 4) pdata) (to_u16 m) = Some buf"
        and store: "storeUpgradeDataToFlash env c (to_u16 m) (u\<lparr>download_sector_buffer := Some buf\<rparr>) = Some t"
        by (auto simp: upgradeTCPSproOnePkgCb_def bind_Some_iff Let_def split: if_splits option.splits)
      moreover have "length buf = SPI_FLASH_SEC_SIZE" using buf by (auto simp: fill_sector_def split: if_splits)
      moreover have "upgrade_inv env c info before n (u\<lparr>download_sector_buffer := Some buf\<rparr>)"
        by (rule upgrade_inv_calls [OF first(1), where new = "[]"]) simp_all
      ultimately show ?thesis
        using first(2) by (intro store_inv [OF good _ _ _ _ _ bounds store, where b = buf]) simp_all
    qed
  qed
qed

lemma upgrade_run_inv:
  assumes "upgrade_run env c n s t" "chip_good c er" "upgrade_inv env c info before 0 s" "n \<le> 60000" "ui_sector info \<le> 1000"
  shows "upgrade_inv env c info before n t"
  using assms(1,3,4)
proof (induction rule: upgrade_run.induct)
  case (run_packet n s t pdata len flag u)
  then show ?case using packet_inv [OF assms(2) _ _ assms(5)] by simp
next
  case (run_download n s t r sent u)
  then show ?case using upgrade_inv_quiet(1) by blast
next
  case (run_connect n s t ret u)
  then show ?case using upgrade_inv_quiet(2) by blast
qed (simp_all add: upgrade_inv_quiet(3-9))

subsection \<open>Recording the image\<close>

text \<open>The request belongs to the image that does not run, and to a newer version.\<close>

definition request_info :: "upgrade_env \<Rightarrow> IoTgoUpgradeInfo \<Rightarrow> bool" where
  "request_info env info \<longleftrightarrow> verifyFirmwareVersion (ui_version info) \<and>
     ui_name info = (if env_bin1 env then ''user2.bin'' else ''user1.bin'') \<and>
     ui_sector info = (if env_bin1 env then IOTGO_UPGRADE_BIN2_START_SECTOR else IOTGO_UPGRADE_BIN1_START_SECTOR)"

lemma start_inv:
  assumes "iotgoUpgradeStart env sp m z ret s0 = Some s" "iotgo_upgrade_info s0 = Some info" "flash_sector_index s0 = 0"
  shows "upgrade_inv env c info (length (upgrade_calls s)) 0 s"
  using assms
  by (auto simp: iotgoUpgradeStart_def iotgoUpgradeMalloc_def connectToDownloadServer_def establishTCP_def
    system_os_post_def ucall_def no_file_def upgrade_inv_def reported_good_def Let_def bind_Some_iff split: if_splits)

lemma stop_records:
  assumes "iotgoUpgradeStop 0 s = Some t" "iotgo_upgrade_info s = Some info"
  shows "new_bin_info t = \<lparr>nb_name = ui_name info, nb_version = ui_version info,
      nb_length = to_u32 (file_length (upgrade_file s)), nb_sha256 = ui_sha256 info\<rparr>"
    and "chip_flash t = chip_flash s" "iotgo_upgrade_info t = None"
  using assms
  by (auto simp: iotgoUpgradeStop_def save_new_bin_info_def sendUpgradeState_def ucall_def iotgoUpgradeFree_def bind_Some_iff Let_def
    split: if_splits)



end
