(* ===== verification/JsonTok.thy ===== *)
theory JsonTok
  imports FwPrelude
begin

text \<open>
  The JSON tokenizer of the SDK and the two functions of \<open>app/include/iotgo_global.h\<close> that read a
  value with it.  The tokenizer is a parameter of the models: the list of tokens it yields for a
  text, each with its type, its text and its value as a number.  Values are copied by
  \<open>jsonparse_copy_value\<close> into a buffer of a given size, so they are cut.
\<close>

subsection \<open>Tokens\<close>

datatype jtok = JTok (jt_type: char) (jt_value: string) (jt_int: int)

definition JSON_TYPE_ARRAY :: char where "JSON_TYPE_ARRAY = CHR ''[''"
definition JSON_TYPE_OBJECT :: char where "JSON_TYPE_OBJECT = CHR ''{''"
definition JSON_TYPE_PAIR :: char where "JSON_TYPE_PAIR = CHR '':''"
definition JSON_TYPE_PAIR_NAME :: char where "JSON_TYPE_PAIR_NAME = CHR ''N''"
definition JSON_TYPE_STRING :: char where "JSON_TYPE_STRING = CHR 0x22"
definition JSON_TYPE_NUMBER :: char where "JSON_TYPE_NUMBER = CHR ''0''"
definition JSON_TYPE_ERROR :: char where "JSON_TYPE_ERROR = CHR 0x00"

definition jsonparse_next :: "jtok list \<Rightarrow> jtok \<times> jtok list" where
  "jsonparse_next ts = (case ts of [] \<Rightarrow> (JTok JSON_TYPE_ERROR [] 0, []) | t # ts \<Rightarrow> (t, ts))"

definition jsonIoTgoGetNumber :: "jtok list \<Rightarrow> int option \<times> jtok list" where
  "jsonIoTgoGetNumber ts =
     (let (t1, ts) = jsonparse_next ts; (t2, ts) = jsonparse_next ts
      in (if jt_type t1 = JSON_TYPE_PAIR \<and> jt_type t2 = JSON_TYPE_NUMBER then Some (jt_int t2) else None, ts))"

text \<open>\<open>n\<close> is the size of the buffer.\<close>

definition jsonIoTgoGetString :: "nat \<Rightarrow> jtok list \<Rightarrow> string option \<times> jtok list" where
  "jsonIoTgoGetString n ts =
     (let (t1, ts) = jsonparse_next ts; (t2, ts) = jsonparse_next ts
      in (if jt_type t1 = JSON_TYPE_PAIR \<and> jt_type t2 = JSON_TYPE_STRING then Some (take (n - 1) (jt_value t2)) else None, ts))"

lemma jsonparse_next_shorter:
  "jsonparse_next ts = (t, us) \<Longrightarrow> length us \<le> length ts"
  "jsonparse_next ts = (t, us) \<Longrightarrow> jt_type t \<noteq> JSON_TYPE_ERROR \<Longrightarrow> length us < length ts"
  by (auto simp: jsonparse_next_def split: list.splits)

lemma get_shorter:
  "jsonIoTgoGetNumber ts = (v, us) \<Longrightarrow> length us \<le> length ts"
  "jsonIoTgoGetString n ts = (w, us) \<Longrightarrow> length us \<le> length ts"
  by (auto simp: jsonIoTgoGetNumber_def jsonIoTgoGetString_def jsonparse_next_def split: list.splits prod.splits)

lemma get_string_shorter: "length (snd (jsonIoTgoGetString n ts)) \<le> length ts"
  by (cases "jsonIoTgoGetString n ts") (simp add: get_shorter(2))

lemma next_shorter:
  "length (snd (jsonparse_next ts)) \<le> length ts"
  "jt_type (fst (jsonparse_next ts)) \<noteq> JSON_TYPE_ERROR \<Longrightarrow> length (snd (jsonparse_next ts)) < length ts"
  by (cases ts, simp_all add: jsonparse_next_def)+

end
