(* ===== verification/UpgradeReq.thy ===== *)
theory UpgradeReq
  imports UpgradeSafe JsonTok
begin

text \<open>
  The upgrade request of the server in \<open>app/user/iotgo_upgrade.c\<close>: it is read with the tokenizer of
  the SDK, checked, answered with one code, and its download address is taken apart.
\<close>

subsection \<open>The list of images\<close>

record bin_fields =
  bf_name :: "string option"
  bf_sha256 :: bool
  bf_dlurl :: bool
  bf_info :: IoTgoUpgradeBinInfo

text \<open>The value of one name; a value of the wrong type ends the loop of \<open>procOneBinListInfo\<close>.\<close>

definition bin_value :: "jtok \<Rightarrow> jtok list \<Rightarrow> bin_fields \<Rightarrow> bin_fields option \<times> jtok list" where
  "bin_value t ts b =
     (if jt_type t \<noteq> JSON_TYPE_PAIR_NAME then (Some b, ts)
      else if jt_value t = ''name'' then
        map_prod (map_option (\<lambda>x. b\<lparr>bf_name := Some x\<rparr>)) (\<lambda>us. us) (jsonIoTgoGetString 20 ts)
      else if jt_value t = ''digest'' then
        map_prod (map_option (\<lambda>x. b\<lparr>bf_sha256 := True, bf_info := (bf_info b)\<lparr>bi_sha256 := x\<rparr>\<rparr>)) (\<lambda>us. us) (jsonIoTgoGetString 65 ts)
      else if jt_value t = ''downloadUrl'' then
        map_prod (map_option (\<lambda>x. b\<lparr>bf_dlurl := True, bf_info := (bf_info b)\<lparr>bi_dlurl := x\<rparr>\<rparr>)) (\<lambda>us. us) (jsonIoTgoGetString 150 ts)
      else (Some b, ts))"

lemma bin_value_shorter: "length (snd (bin_value t ts b)) \<le> length ts"
  using get_string_shorter by (simp add: bin_value_def)

function bin_loop :: "jtok list \<Rightarrow> bin_fields \<Rightarrow> bin_fields \<times> jtok list" where
  "bin_loop ts b =
     (let n = jsonparse_next ts; v = bin_value (fst n) (snd n) b
      in if jt_type (fst n) \<in> {CHR '']'', CHR ''}'', JSON_TYPE_ERROR} then (b, snd n)
         else case fst v of None \<Rightarrow> (b, snd v) | Some b' \<Rightarrow> bin_loop (snd v) b')"
  by pat_completeness auto

termination
proof (relation "measure (length \<circ> fst)")
  fix ts :: "jtok list" and b b' and n v
  assume n: "n = jsonparse_next ts" "v = bin_value (fst n) (snd n) b"
    and "jt_type (fst n) \<notin> {CHR '']'', CHR ''}'', JSON_TYPE_ERROR}"
  then have "length (snd n) < length ts" using next_shorter(2) by simp
  then show "((snd v, b'), ts, b) \<in> measure (length \<circ> fst)"
    using bin_value_shorter [of "fst n" "snd n" b] n(2) by simp
qed simp

declare bin_loop.simps [simp del]

lemma bin_loop_shorter: "length (snd (bin_loop ts b)) \<le> length ts"
proof (induction ts b rule: bin_loop.induct)
  case (1 ts b)
  let ?n = "jsonparse_next ts"
  let ?v = "bin_value (fst ?n) (snd ?n) b"
  have le: "length (snd ?n) \<le> length ts" "length (snd ?v) \<le> length (snd ?n)"
    by (rule next_shorter(1), rule bin_value_shorter)
  show ?case
  proof (cases "jt_type (fst ?n) \<in> {CHR '']'', CHR ''}'', JSON_TYPE_ERROR}")
    case True
    then show ?thesis using le by (subst bin_loop.simps) (simp add: Let_def)
  next
    case False
    have "length (snd (bin_loop (snd ?v) b')) \<le> length (snd ?v)" if "fst ?v = Some b'" for b'
      by (rule 1 [OF refl refl False that])
    with False le show ?thesis by (subst bin_loop.simps) (auto simp: Let_def split: option.split intro: le_trans)
  qed
qed

definition procOneBinListInfo :: "jtok list \<Rightarrow> IoTgoUpgradeBinInfo \<Rightarrow> bool \<times> IoTgoUpgradeBinInfo \<times> jtok list" where
  "procOneBinListInfo ts info =
     (let r = bin_loop ts \<lparr>bf_name = None, bf_sha256 = False, bf_dlurl = False, bf_info = info\<rparr>; b = fst r
      in (bf_sha256 b \<and> bf_dlurl b \<and> bf_name b = Some (bi_name (bf_info b)) \<and> length (bi_sha256 (bf_info b)) = 64,
          bf_info b, snd r))"

lemma procOneBinListInfo_shorter: "length (snd (snd (procOneBinListInfo ts info))) \<le> length ts"
  by (simp add: procOneBinListInfo_def Let_def bin_loop_shorter)

function bin_list_loop :: "jtok list \<Rightarrow> IoTgoUpgradeBinInfo \<Rightarrow> bool \<times> IoTgoUpgradeBinInfo \<times> jtok list" where
  "bin_list_loop ts info =
     (let n = jsonparse_next ts; r = procOneBinListInfo (snd n) info
      in if jt_type (fst n) \<in> {CHR '']'', JSON_TYPE_ERROR} then (False, info, snd n)
         else if jt_type (fst n) = JSON_TYPE_OBJECT then
           (if fst r then r else bin_list_loop (snd (snd r)) (fst (snd r)))
         else bin_list_loop (snd n) info)"
  by pat_completeness auto

termination
proof (relation "measure (length \<circ> fst)")
  fix ts :: "jtok list" and info n r
  assume n: "n = jsonparse_next ts" "r = procOneBinListInfo (snd n) info"
    and "jt_type (fst n) \<notin> {CHR '']'', JSON_TYPE_ERROR}"
  then have lt: "length (snd n) < length ts" using next_shorter(2) by simp
  then show "((snd (snd r), fst (snd r)), ts, info) \<in> measure (length \<circ> fst)"
    using procOneBinListInfo_shorter [of "snd n" info] n(2) by simp
  show "((snd n, info), ts, info) \<in> measure (length \<circ> fst)" using lt by simp
qed simp

declare bin_list_loop.simps [simp del]

lemma bin_list_loop_shorter: "length (snd (snd (bin_list_loop ts info))) \<le> length ts"
proof (induction ts info rule: bin_list_loop.induct)
  case (1 ts info)
  let ?n = "jsonparse_next ts"
  let ?r = "procOneBinListInfo (snd ?n) info"
  have le: "length (snd ?n) \<le> length ts" "length (snd (snd ?r)) \<le> length (snd ?n)"
    by (rule next_shorter(1), rule procOneBinListInfo_shorter)
  show ?case
  proof (cases "jt_type (fst ?n) \<in> {CHR '']'', JSON_TYPE_ERROR}")
    case True
    then show ?thesis using le by (subst bin_list_loop.simps) (simp add: Let_def)
  next
    case False
    show ?thesis
    proof (cases "jt_type (fst ?n) = JSON_TYPE_OBJECT")
      case True
      with 1(1) [OF refl refl False True] False le show ?thesis
        by (subst bin_list_loop.simps) (auto simp: Let_def intro: le_trans)
    next
      case other: False
      with 1(2) [OF refl refl False other] False le show ?thesis
        by (subst bin_list_loop.simps) (auto simp: Let_def intro: le_trans)
    qed
  qed
qed

definition jsonIoTgoProcBinList :: "jtok list \<Rightarrow> IoTgoUpgradeBinInfo \<Rightarrow> bool \<times> IoTgoUpgradeBinInfo \<times> jtok list" where
  "jsonIoTgoProcBinList ts info =
     (let (t1, ts) = jsonparse_next ts; (t2, ts) = jsonparse_next ts
      in if jt_type t1 = JSON_TYPE_PAIR \<and> jt_type t2 = JSON_TYPE_ARRAY then bin_list_loop ts info
         else (False, info, ts))"

lemma jsonIoTgoProcBinList_shorter: "length (snd (snd (jsonIoTgoProcBinList ts info))) \<le> length ts"
proof -
  let ?a = "snd (jsonparse_next ts)"
  have "length ?a \<le> length ts" "length (snd (jsonparse_next ?a)) \<le> length ?a" by (rule next_shorter(1))+
  then show ?thesis
    using bin_list_loop_shorter [of "snd (jsonparse_next ?a)" info]
    by (simp add: jsonIoTgoProcBinList_def case_prod_beta)
qed

subsection \<open>The download address\<close>

text \<open>
  \<open>host\<close> has 50 bytes, \<open>path\<close> 100 and the local \<open>temp\<close> 10.  The number of bytes copied into \<open>temp\<close> is
  converted to an unsigned one, so a colon behind the first slash runs over the memory.
\<close>

definition parseDownloadURLToUpgradeInfo :: "string \<Rightarrow> IoTgoUpgradeInfo \<Rightarrow> IoTgoUpgradeInfo option" where
  "parseDownloadURLToUpgradeInfo dlurl info =
     (if take 7 dlurl = ''http://'' then
        (let info = info\<lparr>ui_http := True, ui_host := []\<rparr>; addr = drop 7 dlurl
         in case (c_strstr addr '':'', c_strstr addr ''/'') of
              (Some colon, Some slash) \<Rightarrow>
                if colon \<ge> 50 \<or> int slash - int colon + 1 < 0 \<or> int slash - int colon + 1 > 10 \<or> length (drop slash addr) \<ge> 100 then None
                else map_option (\<lambda>p. info\<lparr>ui_host := take colon addr, ui_port := int (to_u32 p), ui_path := drop slash addr\<rparr>)
                  (atoi (take (nat (int slash - int colon + 1)) (drop (Suc colon) addr)))
            | (None, Some slash) \<Rightarrow>
                if slash \<ge> 50 \<or> length (drop slash addr) \<ge> 100 then None
                else Some (info\<lparr>ui_host := take slash addr, ui_port := 80, ui_path := drop slash addr\<rparr>)
            | (_, None) \<Rightarrow> Some info)
      else Some (info\<lparr>ui_http := False\<rparr>))"

subsection \<open>The request\<close>

definition cbUpgradeEnterTimer :: "'f upgrade \<Rightarrow> 'f upgrade" where
  "cbUpgradeEnterTimer = system_os_post UpgradeEnter"

record upgrade_req =
  uq_binlist :: bool
  uq_userbin :: bool
  uq_bin :: IoTgoUpgradeBinInfo
  uq_sequence :: "string option"
  uq_model :: "string option"
  uq_version :: "string option"
  uq_auto_restart :: "int option"

definition get_into :: "(string \<Rightarrow> upgrade_req) \<Rightarrow> nat \<Rightarrow> jtok list \<Rightarrow> upgrade_req \<Rightarrow> upgrade_req \<times> jtok list" where
  "get_into f n ts q = (let r = jsonIoTgoGetString n ts in (case fst r of None \<Rightarrow> q | Some x \<Rightarrow> f x, snd r))"

text \<open>One name of the request, with its value; a name that was found is not looked at again.\<close>

definition req_value :: "jtok \<Rightarrow> jtok list \<Rightarrow> upgrade_req \<Rightarrow> upgrade_req \<times> jtok list" where
  "req_value t ts q =
     (if jt_type t \<noteq> JSON_TYPE_PAIR_NAME then (q, ts)
      else if \<not> uq_binlist q \<and> jt_value t = ''binList'' then
        (let r = jsonIoTgoProcBinList ts (uq_bin q)
         in (q\<lparr>uq_binlist := True, uq_userbin := fst r, uq_bin := fst (snd r)\<rparr>, snd (snd r)))
      else if uq_sequence q = None \<and> jt_value t = ''sequence'' then get_into (\<lambda>x. q\<lparr>uq_sequence := Some x\<rparr>) 51 ts q
      else if uq_model q = None \<and> jt_value t = ''model'' then get_into (\<lambda>x. q\<lparr>uq_model := Some x\<rparr>) 21 ts q
      else if uq_version q = None \<and> jt_value t = ''version'' then get_into (\<lambda>x. q\<lparr>uq_version := Some x\<rparr>) 6 ts q
      else if uq_auto_restart q = None \<and> jt_value t = ''autoRestart'' then
        (let r = jsonIoTgoGetNumber ts in (case fst r of None \<Rightarrow> q | Some x \<Rightarrow> q\<lparr>uq_auto_restart := Some x\<rparr>, snd r))
      else (q, ts))"

lemma req_value_shorter: "length (snd (req_value t ts q)) \<le> length ts"
proof -
  have "length (snd (jsonIoTgoGetNumber ts)) \<le> length ts"
    by (cases "jsonIoTgoGetNumber ts") (simp add: get_shorter(1))
  then show ?thesis
    by (simp add: req_value_def get_into_def Let_def get_string_shorter jsonIoTgoProcBinList_shorter)
qed

function req_loop :: "jtok list \<Rightarrow> upgrade_req \<Rightarrow> upgrade_req" where
  "req_loop ts q =
     (let n = jsonparse_next ts; v = req_value (fst n) (snd n) q
      in if jt_type (fst n) = JSON_TYPE_ERROR then q else req_loop (snd v) (fst v))"
  by pat_completeness auto

termination
proof (relation "measure (length \<circ> fst)")
  fix ts :: "jtok list" and q n v
  assume n: "n = jsonparse_next ts" "v = req_value (fst n) (snd n) q" and "jt_type (fst n) \<noteq> JSON_TYPE_ERROR"
  then have "length (snd n) < length ts" using next_shorter(2) by simp
  then show "((snd v, fst v), ts, q) \<in> measure (length \<circ> fst)"
    using req_value_shorter [of "fst n" "snd n" q] n(2) by simp
qed simp

declare req_loop.simps [simp del]

definition own_bin_name :: "upgrade_env \<Rightarrow> string" where
  "own_bin_name env = (if env_bin1 env then ''user2.bin'' else ''user1.bin'')"

definition empty_req :: "upgrade_env \<Rightarrow> upgrade_req" where
  "empty_req env = \<lparr>uq_binlist = False, uq_userbin = False,
     uq_bin = \<lparr>bi_name = own_bin_name env, bi_sha256 = [], bi_dlurl = []\<rparr>,
     uq_sequence = None, uq_model = None, uq_version = None, uq_auto_restart = None\<rparr>"

text \<open>The structure that \<open>os_zalloc\<close> returns.\<close>

definition zero_info :: IoTgoUpgradeInfo where
  "zero_info = \<lparr>ui_name = [], ui_version = [], ui_auto_restart = 0, ui_http = False, ui_host = [], ui_port = 0, ui_path = [],
     ui_sha256 = [], ui_sector = 0, ui_sequence = []\<rparr>"

definition new_info :: "upgrade_env \<Rightarrow> upgrade_req \<Rightarrow> string \<Rightarrow> string \<Rightarrow> int \<Rightarrow> IoTgoUpgradeInfo option" where
  "new_info env q version seq auto_restart =
     do {
       let info = zero_info\<lparr>ui_name := bi_name (uq_bin q), ui_version := version, ui_sha256 := bi_sha256 (uq_bin q),
         ui_sequence := seq,
         ui_sector := (if env_bin1 env then IOTGO_UPGRADE_BIN2_START_SECTOR else IOTGO_UPGRADE_BIN1_START_SECTOR)\<rparr>;
       info \<leftarrow> parseDownloadURLToUpgradeInfo (bi_dlurl (uq_bin q)) info;
       Some (info\<lparr>ui_auto_restart := to_u8 auto_restart\<rparr>)
     }"

text \<open>\<open>m1\<close> and \<open>m2\<close>: whether \<open>os_zalloc\<close> has memory for the tokenizer and for the upgrade information.\<close>

definition iotgoUpgradeProcessRequest ::
  "upgrade_env \<Rightarrow> (string \<Rightarrow> jtok list) \<Rightarrow> bool \<Rightarrow> bool \<Rightarrow> string \<Rightarrow> 'f upgrade \<Rightarrow> 'f upgrade option" where
  "iotgoUpgradeProcessRequest env toks m1 m2 data s =
     (if \<not> m1 then None
      else
        (let q = req_loop (toks data) (empty_req env);
             seq = (case uq_sequence q of None \<Rightarrow> [] | Some x \<Rightarrow> x)
         in case (uq_version q, uq_auto_restart q) of
              (Some version, Some auto_restart) \<Rightarrow>
                if \<not> (uq_binlist q \<and> uq_sequence q \<noteq> None \<and> uq_userbin q) then Some (ucall (RespondErrorCode 400 seq) s)
                else if \<not> (case uq_model q of None \<Rightarrow> False | Some model \<Rightarrow> modelMatch env model) then Some (ucall (RespondErrorCode 406 seq) s)
                else if \<not> verifyFirmwareVersion version then Some (ucall (RespondErrorCode 410 seq) s)
                else if \<not> m2 then None
                else do {
                  info \<leftarrow> new_info env q version seq auto_restart;
                  Some ((ucall (RespondErrorCode 0 seq) (s\<lparr>iotgo_upgrade_info := Some info\<rparr>))\<lparr>upgrade_enter_timer := Armed 50 False\<rparr>)
                }
            | _ \<Rightarrow> Some (ucall (RespondErrorCode 400 seq) s)))"

subsection \<open>What a request leaves\<close>

lemma bin_value_name: "fst (bin_value t ts b) = Some b' \<Longrightarrow> bi_name (bf_info b') = bi_name (bf_info b)"
  by (auto simp: bin_value_def split: if_splits)

lemma bin_loop_name: "bi_name (bf_info (fst (bin_loop ts b))) = bi_name (bf_info b)"
proof (induction ts b rule: bin_loop.induct)
  case (1 ts b)
  let ?n = "jsonparse_next ts"
  show ?case
  proof (cases "jt_type (fst ?n) \<in> {CHR '']'', CHR ''}'', JSON_TYPE_ERROR}")
    case True
    then show ?thesis by (subst bin_loop.simps) (simp add: Let_def)
  next
    case False
    from 1 [OF refl refl False] bin_value_name [of "fst ?n" "snd ?n" b] show ?thesis
      using False by (subst bin_loop.simps) (auto simp: Let_def split: option.split)
  qed
qed

lemma procOneBinListInfo_result:
  "bi_name (fst (snd (procOneBinListInfo ts info))) = bi_name info"
  "fst (procOneBinListInfo ts info) \<Longrightarrow> length (bi_sha256 (fst (snd (procOneBinListInfo ts info)))) = 64"
  using bin_loop_name [of ts] by (simp_all add: procOneBinListInfo_def Let_def)

lemma bin_list_loop_result:
  "bi_name (fst (snd (bin_list_loop ts info))) = bi_name info \<and>
    (fst (bin_list_loop ts info) \<longrightarrow> length (bi_sha256 (fst (snd (bin_list_loop ts info)))) = 64)"
proof (induction ts info rule: bin_list_loop.induct)
  case (1 ts info)
  let ?n = "jsonparse_next ts"
  let ?r = "procOneBinListInfo (snd ?n) info"
  show ?case
  proof (cases "jt_type (fst ?n) \<in> {CHR '']'', JSON_TYPE_ERROR}")
    case True
    then show ?thesis by (subst (1 2 3) bin_list_loop.simps) (simp add: Let_def)
  next
    case False
    have eq: "bin_list_loop ts info = (if jt_type (fst ?n) = JSON_TYPE_OBJECT then
        (if fst ?r then ?r else bin_list_loop (snd (snd ?r)) (fst (snd ?r))) else bin_list_loop (snd ?n) info)"
      using False by (subst bin_list_loop.simps) (simp add: Let_def)
    show ?thesis
      using 1(1) [OF refl refl False] 1(2) [OF refl refl False] procOneBinListInfo_result [of "snd ?n" info]
      unfolding eq by simp
  qed
qed

definition req_inv :: "upgrade_env \<Rightarrow> upgrade_req \<Rightarrow> bool" where
  "req_inv env q \<longleftrightarrow> bi_name (uq_bin q) = own_bin_name env \<and> (uq_userbin q \<longrightarrow> length (bi_sha256 (uq_bin q)) = 64)"

lemma req_value_inv: "req_inv env q \<Longrightarrow> req_inv env (fst (req_value t ts q))"
  using bin_list_loop_result
  by (auto simp: req_inv_def req_value_def get_into_def jsonIoTgoProcBinList_def Let_def split: option.splits prod.splits)

lemma req_loop_inv: "req_inv env q \<Longrightarrow> req_inv env (req_loop ts q)"
proof (induction ts q rule: req_loop.induct)
  case (1 ts q)
  then show ?case by (subst req_loop.simps) (auto simp: Let_def req_value_inv)
qed

lemma parseDownloadURL_keeps:
  assumes "parseDownloadURLToUpgradeInfo url info = Some info'"
  shows "ui_name info' = ui_name info" "ui_version info' = ui_version info" "ui_sha256 info' = ui_sha256 info"
    "ui_sector info' = ui_sector info" "ui_sequence info' = ui_sequence info"
  using assms by (auto simp: parseDownloadURLToUpgradeInfo_def Let_def split: if_splits option.splits)


definition example_toks :: "jtok list" where
  "example_toks =
     (let name = \<lambda>x. JTok JSON_TYPE_PAIR_NAME x 0; colon = JTok JSON_TYPE_PAIR '':'' 0; str = \<lambda>x. JTok JSON_TYPE_STRING x 0;
          pair = \<lambda>x y. [name x, colon, str y]
      in [JTok JSON_TYPE_OBJECT [] 0, name ''binList'', colon, JTok JSON_TYPE_ARRAY [] 0, JTok JSON_TYPE_OBJECT [] 0]
         @ pair ''name'' ''user2.bin'' @ pair ''digest'' (replicate 64 (CHR ''a''))
         @ pair ''downloadUrl'' ''http://dl.itead.cn:8080/ota/user2.bin'' @ [JTok (CHR ''}'') [] 0, JTok (CHR '']'') [] 0]
         @ pair ''sequence'' ''1400'' @ pair ''model'' ''ITA'' @ pair ''version'' ''1.2.0''
         @ [name ''autoRestart'', colon, JTok JSON_TYPE_NUMBER [] 1])"


subsection \<open>Addresses\<close>

lemma parse_http:
  "parseDownloadURLToUpgradeInfo (''http://'' @ addr) info =
     (case (c_strstr addr '':'', c_strstr addr ''/'') of
        (Some colon, Some slash) \<Rightarrow>
          if colon \<ge> 50 \<or> int slash - int colon + 1 < 0 \<or> int slash - int colon + 1 > 10 \<or> length (drop slash addr) \<ge> 100 then None
          else map_option (\<lambda>p. info\<lparr>ui_http := True, ui_host := take colon addr, ui_port := int (to_u32 p), ui_path := drop slash addr\<rparr>)
            (atoi (take (nat (int slash - int colon + 1)) (drop (Suc colon) addr)))
      | (None, Some slash) \<Rightarrow>
          if slash \<ge> 50 \<or> length (drop slash addr) \<ge> 100 then None
          else Some (info\<lparr>ui_http := True, ui_host := take slash addr, ui_port := 80, ui_path := drop slash addr\<rparr>)
      | (_, None) \<Rightarrow> Some (info\<lparr>ui_http := True, ui_host := []\<rparr>))"
proof -
  have "take 7 (''http://'' @ addr) = ''http://''" "drop 7 (''http://'' @ addr) = addr" by simp_all
  then show ?thesis unfolding parseDownloadURLToUpgradeInfo_def Let_def by (simp split: option.split)
qed

text \<open>
  the address of an image is taken apart into host, port and path, with port 80 where none is
  given.  An address without a port whose path has a colon, at least two characters behind its
  begin, has no defined result: the copy of the port runs over the memory.
\<close>

theorem download_url_parsed:
  assumes "CHR '':'' \<notin> set host" "CHR ''/'' \<notin> set host" "length host < 50"
    and "path = CHR ''/'' # rest" "length path < 100" "port < 100000000"
  shows "parseDownloadURLToUpgradeInfo (''http://'' @ host @ '':'' @ nat_dec port @ path) info =
      Some (info\<lparr>ui_http := True, ui_host := host, ui_port := int port, ui_path := path\<rparr>) \<and>
    (if CHR '':'' \<notin> set rest
     then parseDownloadURLToUpgradeInfo (''http://'' @ host @ path) info =
       Some (info\<lparr>ui_http := True, ui_host := host, ui_port := 80, ui_path := path\<rparr>)
     else hd rest = CHR '':'' \<or> parseDownloadURLToUpgradeInfo (''http://'' @ host @ path) info = None)"
proof
  have digits: "CHR ''/'' \<notin> set (nat_dec port)"
    using nat_dec_digits [of "CHR ''/''" port] by (auto simp: c_isdigit_def)
  let ?addr = "host @ '':'' @ nat_dec port @ path" and ?h = "length host" and ?d = "length (nat_dec port)"
  have d: "?d \<le> Suc 7" using assms(6) by (intro length_nat_dec) simp
  have colon: "c_strstr ?addr '':'' = Some ?h"
    using c_strstr_skip [OF assms(1), of "nat_dec port @ path"] by simp
  have "CHR ''/'' \<notin> set (host @ '':'' @ nat_dec port)" using assms(2) digits by simp
  from c_strstr_skip [OF this, of rest] have slash: "c_strstr ?addr ''/'' = Some (?h + Suc ?d)"
    by (simp add: assms(4))
  have tmp: "take (?d + 2) (drop (Suc ?h) ?addr) = nat_dec port @ take 2 path" by simp
  have "stops_number (take 2 path)" by (simp add: assms(4) stops_number_def c_isdigit_def)
  then have port: "atoi (take (?d + 2) (drop (Suc ?h) ?addr)) = Some (int port)"
    unfolding tmp using assms(6) by (intro atoi_nat_dec) simp_all
  have u: "to_u32 (int port) = port" using assms(6) by (simp add: to_u32_small)
  have n: "int (?h + Suc ?d) - int ?h + 1 = int (?d + 2)" by simp
  have parts: "take ?h ?addr = host" "drop (?h + Suc ?d) ?addr = path" by simp_all
  have "int (?d + 2) \<le> 10" "nat (int (?d + 2)) = ?d + 2" using d by simp_all
  then show "parseDownloadURLToUpgradeInfo (''http://'' @ host @ '':'' @ nat_dec port @ path) info =
      Some (info\<lparr>ui_http := True, ui_host := host, ui_port := int port, ui_path := path\<rparr>)"
    unfolding parse_http colon slash prod.case option.case parts n using assms(3,5) port u by simp
next
  let ?h = "length host"
  have slash: "c_strstr (host @ path) ''/'' = Some ?h" using c_strstr_skip [OF assms(2), of rest] by (simp add: assms(4))
  have parts: "take ?h (host @ path) = host" "drop ?h (host @ path) = path" by simp_all
  show "if CHR '':'' \<notin> set rest
     then parseDownloadURLToUpgradeInfo (''http://'' @ host @ path) info =
       Some (info\<lparr>ui_http := True, ui_host := host, ui_port := 80, ui_path := path\<rparr>)
     else hd rest = CHR '':'' \<or> parseDownloadURLToUpgradeInfo (''http://'' @ host @ path) info = None"
  proof (cases "CHR '':'' \<in> set rest")
    case False
    then have "CHR '':'' \<notin> set (host @ path)" using assms(1,4) by simp
    then have "c_strstr (host @ path) '':'' = None" by (rule c_strstr_absent)
    then show ?thesis using False assms(3,5) unfolding parse_http slash by (simp add: parts)
  next
    case True
    then obtain a b where ab: "rest = a @ CHR '':'' # b" "CHR '':'' \<notin> set a" by (meson split_list_first)
    have "CHR '':'' \<notin> set (host @ CHR ''/'' # a)" using assms(1) ab(2) by simp
    from c_strstr_skip [OF this, of b] have "c_strstr (host @ path) '':'' = Some (?h + Suc (length a))"
      by (simp add: assms(4) ab(1))
    then have "parseDownloadURLToUpgradeInfo (''http://'' @ host @ path) info = None" if "a \<noteq> []"
      using that unfolding parse_http slash by simp
    with True ab(1) show ?thesis by (cases a) auto
  qed
qed

theorem download_url_parsed_witness:
  "parseDownloadURLToUpgradeInfo (''http://'' @ ''dl.itead.cn'' @ '':'' @ nat_dec 8080 @ ''/ota/a:b'') zero_info =
      Some (zero_info\<lparr>ui_http := True, ui_host := ''dl.itead.cn'', ui_port := 8080, ui_path := ''/ota/a:b''\<rparr>) \<and>
    parseDownloadURLToUpgradeInfo (''http://'' @ ''dl.itead.cn'' @ ''/ota/a:b'') zero_info = None"
  using download_url_parsed [of "''dl.itead.cn''" "''/ota/a:b''" "''ota/a:b''" 8080 zero_info] by simp

end
