(* ===== verification/UpgradeOver.thy ===== *)
theory UpgradeOver
  imports UpgradeSpec
begin

text \<open>
  Nothing ties the sectors written to the length of the image: each answer, however short, is given
  a sector of its own.
\<close>

fun packets :: "upgrade_env \<Rightarrow> 'f chip \<Rightarrow> bytes \<Rightarrow> nat \<Rightarrow> 'f upgrade \<Rightarrow> 'f upgrade option" where
  "packets env c p 0 s = Some s"
| "packets env c p (Suc k) s = Option.bind (packets env c p k s) (upgradeTCPSproOnePkgCb env c p (length p) True)"

lemma packets_progress:
  assumes good: "chip_good c er" and start: "progress c info [] f0 0 s"
    and H: "answer_head H 0 flen" and fl: "0 < flen" "flen \<le> 471040" and sector: "ui_sector info \<le> 1000"
  shows "k \<le> 60000 \<Longrightarrow> \<exists>t. packets env c H k s = Some t \<and> iotgo_upgrade_info t = Some info \<and> download_sector_buffer t \<noteq> None \<and>
    flash_sector_index t = k \<and> couter (upgrade_file t) = k \<and> downloaded_length (upgrade_file t) = 0 \<and>
    (k \<noteq> 0 \<longrightarrow> started t) \<and> (started t \<longrightarrow> file_length (upgrade_file t) = int flen) \<and>
    upgrade_calls t = upgrade_calls s @ replicate k (Post GetUpgradeData) \<and>
    (\<forall>j < k. spi_read (chip_spi c) (ui_sector info + j) SPI_FLASH_SEC_SIZE (chip_flash t) = sector_image [])"
proof (induction k)
  case 0
  then show ?case using start by (auto simp: progress_def)
next
  case (Suc k)
  then obtain t where t: "packets env c H k s = Some t" "iotgo_upgrade_info t = Some info" "download_sector_buffer t \<noteq> None"
    "flash_sector_index t = k" "couter (upgrade_file t) = k" "downloaded_length (upgrade_file t) = 0"
    "started t \<longrightarrow> file_length (upgrade_file t) = int flen"
    "upgrade_calls t = upgrade_calls s @ replicate k (Post GetUpgradeData)"
    and sec: "\<forall>j < k. spi_read (chip_spi c) (ui_sector info + j) SPI_FLASH_SEC_SIZE (chip_flash t) = sector_image []"
    by auto
  let ?u = "(note_length flen t)\<lparr>download_sector_buffer := Some (sector_image [])\<rparr>"
  have u: "iotgo_upgrade_info ?u = Some info" "download_sector_buffer ?u = Some (sector_image [])"
    "length (sector_image [] :: bytes) = SPI_FLASH_SEC_SIZE" "flash_sector_index ?u = k" "couter (upgrade_file ?u) = k"
    "downloaded_length (upgrade_file ?u) = int 0" "file_length (upgrade_file ?u) = int flen" "started ?u"
    "upgrade_calls ?u = upgrade_calls t" "chip_flash ?u = chip_flash t"
    using t by (auto simp: note_length_def sector_image_def)
  have "upgradeTCPSproOnePkgCb env c H (length H) True t = storeUpgradeDataToFlash env c 0 ?u"
    using answer_package [of H "[]" flen t env c "[]"] H fl t(3) by (simp add: IOTGO_UPGRADE_BIN_MAX_LEN_def)
  moreover have "0 + 0 < flen" "k \<le> 60000" "(0::nat) + 0 < 2147483648" using fl Suc.prems by simp_all
  ultimately have step: "packets env c H (Suc k) s = Some (system_os_post GetUpgradeData
      (?u\<lparr>chip_flash := flashed c (k + ui_sector info) (sector_image []) (chip_flash ?u), flash_sector_index := Suc k,
        upgrade_file := (upgrade_file ?u)\<lparr>couter := Suc k, downloaded_length := int (0 + 0)\<rparr>\<rparr>))"
    using store_part(1) [OF good u(1-7) _ sector _ fl(2), of 0 env] t(1) by simp
  note fr = flashed_read [OF good u(3), where k = "k + ui_sector info" and f = "chip_flash t"]
  have "spi_read (chip_spi c) (ui_sector info + j) SPI_FLASH_SEC_SIZE
      (flashed c (k + ui_sector info) (sector_image []) (chip_flash t)) = sector_image []" if "j < Suc k" for j
    using that sec fr(1) fr(2) [of "ui_sector info + j"] by (cases "j = k") (simp_all add: add.commute)
  with step u t(8) show ?case by (simp add: system_os_post_def ucall_def replicate_append_same del: packets.simps)
qed

text \<open>
  answers without a body run over the flash.  When the server answers each request with an empty
  body (\<open>Content-Length: 0\<close>), every answer erases the next sector and asks again: after \<open>k\<close> answers
  the \<open>k\<close> sectors from the begin of the image on are blank, whatever \<open>k\<close> up to 60000 and however
  short the announced file, with the parameters behind the first image and everything else there.
\<close>

theorem empty_answers_overrun:
  assumes "chip_good c er" "iotgoUpgradeStart env True True True ret s0 = Some s" "iotgo_upgrade_info s0 = Some info"
    "flash_sector_index s0 = 0" "ui_sector info \<le> 129" "answer_head H 0 flen" "0 < flen" "flen \<le> 471040" "k \<le> 60000"
  shows "\<exists>t. packets env c H k s = Some t \<and> upgrade_calls t = upgrade_calls s @ replicate k (Post GetUpgradeData) \<and>
    (\<forall>j < k. spi_read (chip_spi c) (ui_sector info + j) SPI_FLASH_SEC_SIZE (chip_flash t) = replicate SPI_FLASH_SEC_SIZE 0xFF)"
proof -
  have "ui_sector info \<le> 1000" using assms(5) by simp
  from packets_progress [OF assms(1) start_progress(1) [OF assms(2-4)] assms(6-8) this assms(9), of env]
  show ?thesis by (auto simp: sector_image_def)
qed

definition empty_head :: bytes where
  "empty_head = HTTP_PARTIAL @ bytes_of ''Content-Range: bytes 0-0/2'' @ CRLF @ CONTENT_LENGTH_IS @ bytes_of ''0'' @ CRLF @ CRLF"

theorem empty_answers_overrun_witness:
  "\<exists>s t. iotgoUpgradeStart example_env True True True 0 (example_idle\<lparr>iotgo_upgrade_info := Some (example_info\<lparr>ui_sector := 1\<rparr>)\<rparr>) = Some s \<and>
    packets example_env nor_chip empty_head 200 s = Some t \<and>
    spi_read nor_flash IOTGO_PARAM_START_SEC SPI_FLASH_SEC_SIZE (chip_flash t) = replicate SPI_FLASH_SEC_SIZE 0xFF"
proof -
  let ?s0 = "example_idle\<lparr>iotgo_upgrade_info := Some (example_info\<lparr>ui_sector := 1\<rparr>)\<rparr>"
  obtain s where s: "iotgoUpgradeStart example_env True True True 0 ?s0 = Some s"
    by (simp add: iotgoUpgradeStart_def connectToDownloadServer_def iotgoUpgradeMalloc_def example_idle_def Let_def)
  have a: "0 \<notin> set empty_head" "4 \<le> length empty_head" "c_strstr empty_head (CRLF @ CRLF) = Some (length empty_head - 4)"
    "take (length HTTP_PARTIAL) empty_head = HTTP_PARTIAL" by code_simp+
  have b: "c_strstr empty_head CONTENT_LENGTH_IS = Some 58"
    "drop (58 + length CONTENT_LENGTH_IS) empty_head = decimal 0 @ CRLF @ CRLF" by code_simp+
  have d: "c_strstr empty_head (bytes_of ''Content-Range'') = Some 30" "c_strstr (drop 30 empty_head) (bytes_of ''/'') = Some 24"
    "drop (Suc (30 + 24)) empty_head = decimal 2 @ CRLF @ CONTENT_LENGTH_IS @ bytes_of ''0'' @ CRLF @ CRLF" by code_simp+
  have H: "answer_head empty_head 0 2" unfolding answer_head_def using a b d by blast
  obtain t where t: "packets example_env nor_chip empty_head 200 s = Some t"
    "\<forall>j < 200. spi_read (chip_spi nor_chip) (1 + j) SPI_FLASH_SEC_SIZE (chip_flash t) = replicate SPI_FLASH_SEC_SIZE 0xFF"
    using empty_answers_overrun [OF nor_chip_good s _ _ _ H, of "example_info\<lparr>ui_sector := 1\<rparr>" 200]
    by (auto simp: example_idle_def)
  from t(2) have "spi_read nor_flash (1 + 119) SPI_FLASH_SEC_SIZE (chip_flash t) = replicate SPI_FLASH_SEC_SIZE 0xFF"
    by (auto simp: nor_chip_def dest: spec [of _ 119])
  then show ?thesis using s t(1) by (auto simp: IOTGO_PARAM_START_SEC_def)
qed

end
