(* ===== verification/JsonSend.thy ===== *)
theory JsonSend
  imports FwPrelude
begin

text \<open>
  \<open>app/user/iotgo_json.c\<close>: messages are printed from a tree by the library of the SDK, one
  character at a time through \<open>json_putchar\<close>, into a buffer of 1024 bytes.  The library is a
  parameter: \<open>jsontree_reset\<close> and the characters it prints for a context.
\<close>

subsection \<open>Trees and contexts\<close>

datatype jsontree_value =
  JtString string | JtInt int | JtObject "(string \<times> jsontree_value) list" | JtOther

record jsontree_context =
  jt_values :: "jsontree_value option list"
  jt_index :: "nat list"
  jt_depth :: nat
  jt_path :: nat
  jt_callback_state :: int

definition JSONTREE_MAX_DEPTH :: nat where
  "JSONTREE_MAX_DEPTH = 10"

text \<open>
  The first pair whose name begins with the \<open>n\<close> characters of \<open>start\<close>: \<open>os_strncmp\<close> is 0 where both
  strings agree up to there.
\<close>

definition name_matches :: "string \<Rightarrow> nat \<Rightarrow> string \<Rightarrow> bool" where
  "name_matches start n name \<longleftrightarrow> take n start = take n name"

fun find_pair :: "string \<Rightarrow> nat \<Rightarrow> nat \<Rightarrow> (string \<times> jsontree_value) list \<Rightarrow> (nat \<times> jsontree_value) option" where
  "find_pair start n i [] = None"
| "find_pair start n i ((name, v) # ps) =
     (if name_matches start n name then Some (i, v) else find_pair start n (Suc i) ps)"

text \<open>One level down; writing a level beyond the arrays has no defined result.\<close>

definition json_descend :: "nat \<times> jsontree_value \<Rightarrow> jsontree_context \<Rightarrow> jsontree_context option" where
  "json_descend iv c =
     (let d = to_u8 (int (jt_depth c) + 1) in
      if jt_depth c < JSONTREE_MAX_DEPTH \<and> d < JSONTREE_MAX_DEPTH
      then Some (c\<lparr>jt_index := (jt_index c)[jt_depth c := fst iv, d := 0], jt_depth := d,
                   jt_values := (jt_values c)[d := Some (snd iv)]\<rparr>)
      else None)"

definition path_level :: "string \<Rightarrow> nat \<Rightarrow> jsontree_value \<Rightarrow> jsontree_context \<Rightarrow>
    (jsontree_value option \<times> jsontree_context) option" where
  "path_level start n v c =
     (case v of
        JtObject pairs \<Rightarrow>
          (case find_pair start n 0 pairs of
             None \<Rightarrow> Some (None, c)
           | Some iv \<Rightarrow> map_option (Pair (Some (snd iv))) (json_descend iv c))
      | _ \<Rightarrow> Some (None, c))"

fun path_loop :: "nat \<Rightarrow> string \<Rightarrow> jsontree_value \<Rightarrow> jsontree_context \<Rightarrow>
    (jsontree_value option \<times> jsontree_context) option" where
  "path_loop 0 start v c = None"
| "path_loop (Suc k) start v c =
     (case c_strstr start ''/'' of
        Some 0 \<Rightarrow> Some (Some v, c)
      | Some n \<Rightarrow>
          Option.bind (path_level start n v c) (\<lambda>(w, c).
            if drop (Suc n) start \<noteq> [] \<and> w \<noteq> None then path_loop k (drop (Suc n) start) (the w) c
            else Some (w, c))
      | None \<Rightarrow> path_level start (length start) v c)"

text \<open>Every round but the last takes at least two characters of the path.\<close>

definition find_json_path ::
    "jsontree_context \<Rightarrow> string \<Rightarrow> (jsontree_value option \<times> jsontree_context) option" where
  "find_json_path json path =
     Option.bind (jt_values json ! 0) (\<lambda>v.
       map_option (\<lambda>(w, c). (w, c\<lparr>jt_callback_state := 0\<rparr>)) (path_loop (Suc (length path)) path v json))"

subsection \<open>Printing\<close>

record json_out =
  json_buf :: "bytes option"
  pos :: nat
  buf_size :: nat

definition IOTGO_JSON_BUFFER_SIZE :: nat where
  "IOTGO_JSON_BUFFER_SIZE = 1024"

definition json_putchar :: "u8 \<Rightarrow> json_out \<Rightarrow> u8 \<times> json_out" where
  "json_putchar ch s =
     (case json_buf s of
        Some buf \<Rightarrow>
          if pos s < buf_size s then (ch, s\<lparr>json_buf := Some (buf[pos s := ch]), pos := pos s + 1\<rparr>) else (0, s)
      | None \<Rightarrow> (0, s))"

text \<open>
  \<open>block\<close> is the allocated buffer; \<open>printed\<close> gives the characters the library prints for a context.
  The terminator is written behind the last character, wherever that is.
\<close>

definition json_ws_send ::
    "(jsontree_context \<Rightarrow> jsontree_context) \<Rightarrow> (jsontree_context \<Rightarrow> bytes) \<Rightarrow> bytes option \<Rightarrow>
     jsontree_value \<Rightarrow> string \<Rightarrow> bytes \<Rightarrow> bytes option" where
  "json_ws_send jsontree_reset printed block tree path pbuf =
     do {
       let json = jsontree_reset \<lparr>jt_values = replicate 10 None, jt_index = replicate 10 0, jt_depth = 0,
                                  jt_path = 0, jt_callback_state = 0\<rparr>;
       (_, json) \<leftarrow> find_json_path (json\<lparr>jt_values := (jt_values json)[0 := Some tree]\<rparr>) path;
       let s = fold (\<lambda>ch s. snd (json_putchar ch s)) (printed (json\<lparr>jt_path := jt_depth json\<rparr>))
                 \<lparr>json_buf = block, pos = 0, buf_size = IOTGO_JSON_BUFFER_SIZE\<rparr>;
       buf \<leftarrow> json_buf s;
       if pos s < length buf \<and> pos s \<le> length pbuf
       then Some (take (pos s) (buf[pos s := 0]) @ drop (pos s) pbuf)
       else None
     }"

subsection \<open>What is printed\<close>

lemma putchar_fold:
  assumes "length buf = 1024"
  shows "fold (\<lambda>ch s. snd (json_putchar ch s)) out \<lparr>json_buf = Some buf, pos = p, buf_size = 1024\<rparr> =
    \<lparr>json_buf = Some (take p buf @ take (1024 - p) out @ drop (p + length (take (1024 - p) out)) buf),
     pos = p + length (take (1024 - p) out), buf_size = 1024\<rparr>"
  using assms
proof (induction out arbitrary: buf p)
  case (Cons x xs)
  show ?case
  proof (cases "p < 1024")
    case True
    then obtain m where m: "1024 - p = Suc m" "1024 - Suc p = m" by (metis Suc_diff_Suc)
    have "take (Suc p) (buf[p := x]) = take p buf @ [x]"
      using True Cons.prems by (simp add: take_Suc_conv_app_nth)
    then show ?thesis
      using True Cons.prems m Cons.IH [of "buf[p := x]" "Suc p"] by (simp add: json_putchar_def)
  next
    case False
    then show ?thesis using Cons.prems Cons.IH [of buf p] by (simp add: json_putchar_def)
  qed
qed simp

text \<open>
  A reset context finds a tree by its name.
\<close>

definition reset_ok :: "(jsontree_context \<Rightarrow> jsontree_context) \<Rightarrow> bool" where
  "reset_ok r \<longleftrightarrow> (\<forall>c. jt_depth (r c) = 0 \<and> length (jt_values (r c)) = length (jt_values c) \<and>
     length (jt_index (r c)) = length (jt_index c))"

lemma find_named:
  assumes "jt_values c \<noteq> []" "jt_values c ! 0 = Some (JtObject [(name, v)])" "jt_depth c = 0"
    and "CHR ''/'' \<notin> set name"
  shows "\<exists>c'. find_json_path c name = Some (Some v, c') \<and> jt_depth c' = 1 \<and>
    jt_values c' = (jt_values c)[1 := Some v]"
  using assms
  by (simp add: find_json_path_def c_strstr_absent path_level_def name_matches_def json_descend_def
    JSONTREE_MAX_DEPTH_def to_u8_def)

lemma json_ws_send_text:
  assumes "reset_ok r" "length block = 1024" "length pbuf = 1024" "CHR ''/'' \<notin> set name"
  shows "\<exists>c. jt_depth c = 1 \<and> jt_path c = 1 \<and> jt_values c ! 1 = Some v \<and>
    json_ws_send r printed (Some block) (JtObject [(name, v)]) name pbuf =
      (if length (printed c) < 1024 then Some (printed c @ drop (length (printed c)) pbuf) else None)"
proof -
  define c0 where "c0 = r \<lparr>jt_values = replicate 10 None, jt_index = replicate 10 0, jt_depth = 0,
                           jt_path = 0, jt_callback_state = 0\<rparr>"
  define c1 where "c1 = c0\<lparr>jt_values := (jt_values c0)[0 := Some (JtObject [(name, v)])]\<rparr>"
  have len: "length (jt_values c0) = 10" "jt_depth c0 = 0"
    using assms(1) by (simp_all add: reset_ok_def c0_def)
  then have c1: "jt_values c1 \<noteq> []" "jt_values c1 ! 0 = Some (JtObject [(name, v)])" "jt_depth c1 = 0"
    "length (jt_values c1) = 10"
    by (auto simp: c1_def)
  from find_named [OF c1(1-3) assms(4)] obtain c2 where
    c2: "find_json_path c1 name = Some (Some v, c2)" "jt_depth c2 = 1" "jt_values c2 = (jt_values c1)[1 := Some v]"
    by blast
  let ?c = "c2\<lparr>jt_path := jt_depth c2\<rparr>"
  have "json_ws_send r printed (Some block) (JtObject [(name, v)]) name pbuf =
      (if length (printed ?c) < 1024 then Some (printed ?c @ drop (length (printed ?c)) pbuf) else None)"
    unfolding json_ws_send_def c0_def [symmetric] Let_def c1_def [symmetric] IOTGO_JSON_BUFFER_SIZE_def
    using assms(2,3) c2(1) by (auto simp: putchar_fold [OF assms(2)])
  then show ?thesis using c2 c1(4) by (intro exI [of _ ?c]) simp
qed

end
