(* ===== verification/Pconn.thy ===== *)
theory Pconn
  imports Core SendQueue Spro Bconn Clock CJson JsonSend JsonTok
begin

text \<open>
  \<open>app/user/iotgo_pconn.c\<close>: the connection to the server, and how the network task uses it.  The
  state puts together the parts the connection works on: the network task (\<open>Core\<close>), the queue of
  messages to the server (\<open>SendQueue\<close>), the packet assembler, the server address of the
  distributor request and the clock.

  The TCP connection belongs to the SDK: what is handed to \<open>espconn_secure_send\<close> is recorded in
  \<open>sent\<close>, other calls in \<open>esp_calls\<close>, and results of the SDK come from the environment.  \<open>char\<close> is
  unsigned on this target.
\<close>

subsection \<open>State\<close>

datatype esp_call = EspConnect | EspLookup string | EspDisconnect

text \<open>The callbacks of the device description that get a message, and the upgrade module.\<close>

datatype message_call =
  RespOfUpdateCallback | RespOfQueryCallback | ReqOfUpdateCallback | ReqOfQueryCallback
| ReqofRegisterCallback | ReqofNotifyCallback | UpgradeProcessRequest | UpgradeRestartForNewBin

record client_tcp =
  local_port :: nat
  remote_port :: int
  remote_ip :: u32
  connect_cb :: bool
  recon_cb :: bool
  recv_cb :: bool
  discon_cb :: bool
  sent_cb :: bool

record pconn =
  pc_net :: net
  pc_queue :: queue_state
  pc_bconn :: bconn
  pc_clock :: clock_state
  network_spro :: "spro option"
  client_tcp :: client_tcp
  client_tcp_initialized_flag :: bool
  send_queue_timer :: os_timer
  send_counter :: nat
  ts_counter :: nat
  json_int_reqts :: nat
  dev_id :: string
  dev_factory_apikey :: string
  dev_owner_uuid :: string
  server_sequence :: string
  message_callbacks :: "message_call list"
  messages :: "(message_call \<times> bytes) list"
  sent :: "bytes list"
  mcu_text :: string
  esp_calls :: "esp_call list"

text \<open>
  The environment: the values the network task reads, the result of the n-th send, of a connect, of
  \<open>ipaddr_addr\<close>; the JSON library; what \<open>os_malloc\<close> gives for a buffer of 1024 bytes; \<open>rand\<close>, the
  free port, and the constants of the device.
\<close>

record pconn_env =
  env_sdk :: sdk
  env_send :: "nat \<Rightarrow> int"
  env_connect :: int
  env_ipaddr :: "string \<Rightarrow> u32"
  env_jsontree_reset :: "jsontree_context \<Rightarrow> jsontree_context"
  env_jsontree_printed :: "jsontree_context \<Rightarrow> bytes"
  env_temp_buffer :: "bytes option"
  env_json_block :: "bytes option"
  env_rand :: int
  env_port :: nat
  env_zalloc :: bool
  env_fm_version :: string
  env_model :: string

definition on_net :: "(net \<Rightarrow> net) \<Rightarrow> pconn \<Rightarrow> pconn" where
  "on_net f p = p\<lparr>pc_net := f (pc_net p)\<rparr>"

definition pc_post :: "IoTgoSignalSet \<Rightarrow> nat \<Rightarrow> pconn \<Rightarrow> pconn" where
  "pc_post m par p = on_net (post_core m par) p"

definition esp_do :: "esp_call \<Rightarrow> pconn \<Rightarrow> pconn" where
  "esp_do c p = p\<lparr>esp_calls := esp_calls p @ [c]\<rparr>"

subsection \<open>The queue of the server connection\<close>

definition pc_link :: "pconn \<Rightarrow> linkQueue" where
  "pc_link p = snd (pc_queue p)"

definition set_link :: "linkQueue \<Rightarrow> pconn \<Rightarrow> pconn" where
  "set_link q p = p\<lparr>pc_queue := (fst (pc_queue p), q)\<rparr>"

text \<open>\<open>iotgoQueueAdd\<close> tells the network task when there is something to send again.\<close>

definition pc_queue_add :: "bytes option \<Rightarrow> nat \<Rightarrow> bool \<Rightarrow> pconn \<Rightarrow> pconn option" where
  "pc_queue_add data type del p =
     map_option (\<lambda>(ok, tell, q). (if tell then pc_post MSG_CORE_SEND_JSON 0 else (\<lambda>p. p)) (set_link q p))
       (iotgoQueueAdd (fst (pc_queue p)) data type del (pc_link p))"

definition pc_delete_all :: "pconn \<Rightarrow> pconn option" where
  "pc_delete_all p = map_option (\<lambda>q. set_link q p) (iotgoQueueDeleteAll (pc_link p))"

definition IOTGO_NULL :: nat where "IOTGO_NULL = 0"
definition IOTGO_ERROR0 :: nat where "IOTGO_ERROR0 = 2"
definition IOTGO_DATE :: nat where "IOTGO_DATE = 7"
definition IOTGO_REGISTER :: nat where "IOTGO_REGISTER = 8"
definition IOTGO_USER_DEFAULT :: nat where "IOTGO_USER_DEFAULT = 97"

subsection \<open>Messages the connection composes\<close>

text \<open>A tree is printed into a zeroed buffer, which is queued and freed.\<close>

definition queue_tree :: "pconn_env \<Rightarrow> string \<Rightarrow> (string \<times> jsontree_value) list \<Rightarrow> nat \<Rightarrow> pconn \<Rightarrow> pconn option" where
  "queue_tree env name pairs type p =
     (case env_temp_buffer env of
        None \<Rightarrow> Some p
      | Some block \<Rightarrow>
          do {
            text \<leftarrow> json_ws_send (env_jsontree_reset env) (env_jsontree_printed env) (env_json_block env)
                     (JtObject [(name, JtObject pairs)]) name (replicate (length block) 0);
            pc_queue_add (Some text) type False p
          })"

definition iotgoPconnDeviceDate :: "pconn_env \<Rightarrow> pconn \<Rightarrow> pconn option" where
  "iotgoPconnDeviceDate env p =
     queue_tree env ''iotgo_tree_date''
       [(''userAgent'', JtString ''device''), (''apikey'', JtString (dev_owner_uuid p)),
        (''deviceid'', JtString (dev_id p)), (''action'', JtString ''date'')] IOTGO_DATE p"

definition iotgoGenerateTimestamp :: "pconn_env \<Rightarrow> pconn \<Rightarrow> nat \<times> pconn" where
  "iotgoGenerateTimestamp env p =
     (to_u32 (int (ts_counter p) + env_rand env smod 1000), p\<lparr>ts_counter := to_u32 (int (ts_counter p) + 1)\<rparr>)"

definition iotgoPconnDeviceRegister :: "pconn_env \<Rightarrow> pconn \<Rightarrow> pconn option" where
  "iotgoPconnDeviceRegister env p =
     (let p = p\<lparr>network_spro := snd (spSetPkgType SPRO_PKG_TYPE_WEBSOCKET13 (network_spro p))\<rparr> in
      case env_temp_buffer env of
        None \<Rightarrow> Some p
      | Some _ \<Rightarrow>
          (let (ts, p) = iotgoGenerateTimestamp env p;
               p = p\<lparr>json_int_reqts := ts, dev_owner_uuid := ''Invalid owner uuid''\<rparr>
           in queue_tree env ''iotgo_tree_register''
                [(''userAgent'', JtString ''device''), (''apikey'', JtString (dev_factory_apikey p)),
                 (''deviceid'', JtString (dev_id p)), (''action'', JtString ''register''), (''version'', JtInt 2),
                 (''romVersion'', JtString (env_fm_version env)), (''model'', JtString (env_model env)),
                 (''ts'', JtInt (to_s32 (int ts)))] IOTGO_REGISTER p))"

text \<open>\<open>sendError0ToServer\<close> of \<open>iotgo_core.c\<close>.\<close>

definition sendError0ToServer :: "pconn_env \<Rightarrow> pconn \<Rightarrow> pconn option" where
  "sendError0ToServer env p =
     queue_tree env ''iotgo_tree_resp_server_error_0''
       [(''error'', JtInt 0), (''userAgent'', JtString ''device''), (''apikey'', JtString (dev_owner_uuid p)),
        (''deviceid'', JtString (dev_id p))] IOTGO_ERROR0 p"

text \<open>The buffer of \<open>cJSON_PrintUnformatted\<close> ends with its terminator.\<close>

definition iotgoPconnRespondErrorCode :: "int \<Rightarrow> string \<Rightarrow> pconn \<Rightarrow> pconn option" where
  "iotgoPconnRespondErrorCode err_code seq p =
     do {
       let root = cJSON_AddItemToObject cJSON_CreateObject ''userAgent'' (cJSON_CreateString ''device'');
       let root = cJSON_AddItemToObject root ''apikey'' (cJSON_CreateString (dev_owner_uuid p));
       let root = cJSON_AddItemToObject root ''deviceid'' (cJSON_CreateString (dev_id p));
       let root = cJSON_AddItemToObject root ''error'' (cJSON_CreateNumber err_code);
       let root = cJSON_AddItemToObject root ''sequence'' (cJSON_CreateString seq);
       json \<leftarrow> cJSON_PrintUnformatted root;
       pc_queue_add (map_option (\<lambda>s. bytes_of s @ [0]) json) IOTGO_ERROR0 False p
     }"

subsection \<open>Sending\<close>

definition IOTGO_SEND_OK :: nat where "IOTGO_SEND_OK = 0"
definition IOTGO_WILD_POINT :: nat where "IOTGO_WILD_POINT = 1"
definition IOTGO_DATA_LENGTH_OVER :: nat where "IOTGO_DATA_LENGTH_OVER = 2"
definition IOTGO_NETWORK_ABNORMAL :: nat where "IOTGO_NETWORK_ABNORMAL = 3"
definition IOTGO_UPGRADE_LOCK :: nat where "IOTGO_UPGRADE_LOCK = 4"
definition IOTGO_SEND_ERROR :: nat where "IOTGO_SEND_ERROR = 5"

lemmas send_codes = IOTGO_SEND_OK_def IOTGO_WILD_POINT_def IOTGO_DATA_LENGTH_OVER_def
  IOTGO_NETWORK_ABNORMAL_def IOTGO_UPGRADE_LOCK_def IOTGO_SEND_ERROR_def

text \<open>The comparison of bytes stops at the first that differs; it does not read beyond the block.\<close>

fun bytes_match :: "bytes \<Rightarrow> bytes \<Rightarrow> bool option" where
  "bytes_match [] data = Some True"
| "bytes_match (b # bs) [] = None"
| "bytes_match (b # bs) (d # data) = (if d = b then bytes_match bs data else Some False)"

definition buffer_put :: "nat \<Rightarrow> bytes \<Rightarrow> bytes \<Rightarrow> bytes option" where
  "buffer_put i src buf =
     (if i + length src \<le> length buf then Some (take i buf @ src @ drop (i + length src) buf) else None)"

definition frame_header :: "nat \<Rightarrow> bytes option" where
  "frame_header data_len =
     (if data_len \<le> 125 then Some [0x81, word_of_nat (0x80 + data_len), 0, 0, 0, 0]
      else if data_len \<ge> 126 \<and> data_len \<le> 65500
      then Some [0x81, 0x80 + 126, word_of_nat (data_len div 256 mod 256), word_of_nat (data_len mod 256), 0, 0, 0, 0]
      else None)"

text \<open>
  The contents of the buffer of \<open>1024 + 512\<close> bytes that are sent, or the code returned instead.
  The message is copied before its length is compared with the buffer.
\<close>

definition network_frame :: "bytes \<Rightarrow> (nat + bytes) option" where
  "network_frame data_to_send =
     do {
       let network_buffer = replicate (IOTGO_JSON_BUFFER_SIZE + 512) 0;
       ping \<leftarrow> bytes_match [0x89, 0x80, 0, 0, 0, 0] data_to_send;
       if ping then do {
         network_buffer \<leftarrow> buffer_put 0 (take 6 data_to_send) network_buffer;
         Some (Inr (take 6 network_buffer))
       } else do {
         data_len \<leftarrow> c_strlen data_to_send;
         case frame_header data_len of
           None \<Rightarrow> Some (Inl IOTGO_DATA_LENGTH_OVER)
         | Some header \<Rightarrow> do {
             network_buffer \<leftarrow> buffer_put 0 header network_buffer;
             network_buffer \<leftarrow> buffer_put (length header) (take data_len data_to_send) network_buffer;
             let len = to_u16 (int (data_len + length header));
             if len > IOTGO_JSON_BUFFER_SIZE + 512 then Some (Inl IOTGO_DATA_LENGTH_OVER)
             else Some (Inr (take len network_buffer))
           }
       }
     }"

definition esp_send :: "pconn_env \<Rightarrow> bytes \<Rightarrow> pconn \<Rightarrow> int \<times> pconn" where
  "esp_send env bs p = (env_send env (length (sent p)), p\<lparr>sent := sent p @ [bs]\<rparr>)"

definition iotgoNetworkSendString :: "pconn_env \<Rightarrow> bytes \<Rightarrow> pconn \<Rightarrow> (int \<times> pconn) option" where
  "iotgoNetworkSendString env data_to_send p =
     map_option (\<lambda>r. case r of Inl code \<Rightarrow> (int code, p) | Inr frame \<Rightarrow> esp_send env frame p)
       (network_frame data_to_send)"

text \<open>The same function for callers outside the queue, with a buffer of its own.\<close>

definition sendIoTgoPkg :: "pconn_env \<Rightarrow> bytes \<Rightarrow> pconn \<Rightarrow> (int \<times> pconn) option" where
  "sendIoTgoPkg env data_to_send p =
     map_option (\<lambda>r. case r of Inl code \<Rightarrow> (int code, p) | Inr frame \<Rightarrow> esp_send env frame p)
       (network_frame data_to_send)"

text \<open>The head is read before it is known whether there is one.\<close>

definition iotgoPconnSendJson :: "pconn_env \<Rightarrow> pconn \<Rightarrow> pconn option" where
  "iotgoPconnSendJson env p =
     do {
       let mode = iotgoDeviceMode (pc_net p);
       node \<leftarrow> node_at (q_heap (pc_link p)) (q_head (pc_link p));
       if n_data node = 0 then Some (pc_post MSG_CORE_SEND_JSON_FINISHED IOTGO_WILD_POINT p)
       else if DEVICE_MODE_WORK_NORMAL \<noteq> mode \<and> DEVICE_MODE_WORK_INIT \<noteq> mode
       then Some (pc_post MSG_CORE_SEND_JSON_FINISHED IOTGO_NETWORK_ABNORMAL p)
       else do {
         data \<leftarrow> iotgoQueueHeadData (pc_link p);
         (status, p) \<leftarrow> iotgoNetworkSendString env data p;
         if int IOTGO_SEND_OK = status then Some (pc_post MSG_CORE_SEND_JSON_FINISHED IOTGO_SEND_OK p)
         else if int IOTGO_UPGRADE_LOCK = status then Some (pc_post MSG_CORE_SEND_JSON_FINISHED IOTGO_UPGRADE_LOCK p)
         else if int IOTGO_DATA_LENGTH_OVER = status
         then Some (pc_post MSG_CORE_SEND_JSON_FINISHED IOTGO_DATA_LENGTH_OVER p)
         else Some (pc_post MSG_CORE_SEND_JSON_AGAIN IOTGO_SEND_ERROR p)
       }
     }"

definition iotgoPconnSendJsonAgain :: "pconn \<Rightarrow> pconn option" where
  "iotgoPconnSendJsonAgain p =
     (if send_counter p \<ge> 3 then do {
        let p = p\<lparr>send_queue_timer := Disarmed\<rparr>;
        type \<leftarrow> iotgoQueueHeadType (pc_link p);
        p \<leftarrow> (if IOTGO_REGISTER = type then map_option (pc_post MSG_CORE_REGISTER_ERR 0) (pc_delete_all p)
              else Some (pc_post MSG_CORE_SEND_JSON_FINISHED IOTGO_SEND_ERROR p));
        Some (p\<lparr>send_counter := 0\<rparr>)
      } else
        (let p = (if send_counter p = 0 then p\<lparr>send_queue_timer := Armed 1000 False\<rparr>
                  else if send_counter p = 1 then p\<lparr>send_queue_timer := Armed 2000 False\<rparr>
                  else if send_counter p = 2 then p\<lparr>send_queue_timer := Armed 4000 False\<rparr>
                  else p)
         in Some (p\<lparr>send_counter := to_u8 (int (send_counter p) + 1)\<rparr>)))"

definition ESC :: char where
  "ESC = CHR 0x1B"

definition post_next :: "pconn \<Rightarrow> pconn" where
  "post_next p = (if iotgoQueueLength (pc_link p) > 0 then pc_post MSG_CORE_SEND_JSON 0 p else p)"

definition iotgoPconnSendNextJson :: "nat \<Rightarrow> pconn \<Rightarrow> pconn option" where
  "iotgoPconnSendNextJson error_code p =
     do {
       type \<leftarrow> iotgoQueueHeadType (pc_link p);
       q \<leftarrow> iotgoQueueDeleteHead (pc_link p);
       let p = (set_link q p)\<lparr>send_counter := 0\<rparr>;
       let p = (if error_code = IOTGO_WILD_POINT then p
                else if error_code = IOTGO_DATA_LENGTH_OVER then post_next p
                else if error_code = IOTGO_SEND_ERROR then post_next p
                else if error_code = IOTGO_NETWORK_ABNORMAL then p
                else if error_code = IOTGO_UPGRADE_LOCK then p
                else if error_code = IOTGO_SEND_OK then post_next p
                else p);
       Some (if error_code \<noteq> IOTGO_SEND_OK \<and> type \<ge> IOTGO_USER_DEFAULT
             then p\<lparr>mcu_text := mcu_text p @ ''AT+SEND=fail'' @ [ESC]\<rparr>
             else if error_code = IOTGO_SEND_OK \<and> type \<ge> IOTGO_USER_DEFAULT
             then p\<lparr>mcu_text := mcu_text p @ ''AT+SEND=ok'' @ [ESC]\<rparr>
             else p)
     }"

text \<open>The timer is a one-shot timer: it is no longer armed when its callback runs.\<close>

definition cbSendQueueTimer :: "pconn \<Rightarrow> pconn" where
  "cbSendQueueTimer p = post_next (p\<lparr>send_queue_timer := Disarmed\<rparr>)"

definition initSendQueueTime :: "pconn \<Rightarrow> pconn" where
  "initSendQueueTime p = p\<lparr>send_queue_timer := Disarmed\<rparr>"

end
