(* ===== verification/PconnMsg.thy ===== *)
theory PconnMsg
  imports Pconn
begin

text \<open>
  Messages from the server in \<open>app/user/iotgo_pconn.c\<close>: reading the fields of a message with the
  tokenizer of the SDK, finding out what it is, and acting on it.  The tokenizer is the parameter
  \<open>toks\<close>.  The memory of the receive buffer from the message on is an argument, because the text of
  a message is read up to its terminator and not up to the end of the frame.
\<close>

subsection \<open>Fields\<close>

datatype IoTgoPkgType =
  IOTGO_PKG_TYPE_INVALID | IOTGO_PKG_TYPE_RESP_OF_INIT | IOTGO_PKG_TYPE_RESP_OF_INIT_FAILED
| IOTGO_PKG_TYPE_RESP_OF_UPDATE | IOTGO_PKG_TYPE_RESP_OF_QUERY | IOTGO_PKG_TYPE_RESP_OF_DATE
| IOTGO_PKG_TYPE_REQ_OF_UPDATE | IOTGO_PKG_TYPE_REQ_OF_QUERY | IOTGO_PKG_TYPE_REQ_OF_UPGRADE
| IOTGO_PKG_TYPE_RET_OF_RESTART | IOTGO_PKG_TYPE_REQ_OF_REDIRECT | IOTGO_PKG_TYPE_REQ_OF_NOTIFY_CONFIG
| IOTGO_PKG_TYPE_ERROR_OF_FORBIDDEN

text \<open>A field is set once: the flag of the source is whether there is a value.\<close>

record pkg_fields =
  pf_error :: "int option"
  pf_reason :: "string option"
  pf_apikey :: "string option"
  pf_deviceid :: "string option"
  pf_action :: "string option"
  pf_params :: bool
  pf_date :: "string option"
  pf_config :: bool
  pf_hb :: "int option"
  pf_hbi :: "int option"
  pf_regi :: "int option"
  pf_server_ip :: "string option"
  pf_server_port :: "int option"
  pf_cmd :: "string option"
  pf_sequence :: "string option"

definition no_fields :: pkg_fields where
  "no_fields = \<lparr>pf_error = None, pf_reason = None, pf_apikey = None, pf_deviceid = None, pf_action = None,
     pf_params = False, pf_date = None, pf_config = False, pf_hb = None, pf_hbi = None, pf_regi = None,
     pf_server_ip = None, pf_server_port = None, pf_cmd = None, pf_sequence = None\<rparr>"

text \<open>A value of the wrong type ends the loop.\<close>

definition text_field :: "nat \<Rightarrow> (string \<Rightarrow> pkg_fields) \<Rightarrow> jtok list \<Rightarrow> pkg_fields option \<times> jtok list" where
  "text_field n put ts = map_prod (map_option put) (\<lambda>us. us) (jsonIoTgoGetString n ts)"

definition number_field :: "(int \<Rightarrow> pkg_fields) \<Rightarrow> jtok list \<Rightarrow> pkg_fields option \<times> jtok list" where
  "number_field put ts = map_prod (map_option put) (\<lambda>us. us) (jsonIoTgoGetNumber ts)"

definition pkg_value :: "jtok \<Rightarrow> jtok list \<Rightarrow> pkg_fields \<Rightarrow> pkg_fields option \<times> jtok list" where
  "pkg_value t ts f =
     (if jt_type t \<noteq> JSON_TYPE_PAIR_NAME then (Some f, ts)
      else if pf_apikey f = None \<and> jt_value t = ''apikey'' then text_field 37 (\<lambda>x. f\<lparr>pf_apikey := Some x\<rparr>) ts
      else if pf_deviceid f = None \<and> jt_value t = ''deviceid'' then text_field 11 (\<lambda>x. f\<lparr>pf_deviceid := Some x\<rparr>) ts
      else if pf_error f = None \<and> jt_value t = ''error'' then number_field (\<lambda>x. f\<lparr>pf_error := Some x\<rparr>) ts
      else if pf_action f = None \<and> jt_value t = ''action'' then text_field 10 (\<lambda>x. f\<lparr>pf_action := Some x\<rparr>) ts
      else if \<not> pf_params f \<and> jt_value t = ''params'' then
        (let (t1, ts) = jsonparse_next ts; (t2, ts) = jsonparse_next ts
         in (if jt_type t1 = JSON_TYPE_PAIR \<and> jt_type t2 \<in> {JSON_TYPE_OBJECT, JSON_TYPE_ARRAY, JSON_TYPE_NUMBER}
             then Some (f\<lparr>pf_params := True\<rparr>) else None, ts))
      else if pf_reason f = None \<and> jt_value t = ''reason'' then text_field 50 (\<lambda>x. f\<lparr>pf_reason := Some x\<rparr>) ts
      else if pf_date f = None \<and> jt_value t = ''date'' then text_field 25 (\<lambda>x. f\<lparr>pf_date := Some x\<rparr>) ts
      else if \<not> pf_config f \<and> jt_value t = ''config'' then (Some (f\<lparr>pf_config := True\<rparr>), ts)
      else if pf_hb f = None \<and> jt_value t = ''hb'' then number_field (\<lambda>x. f\<lparr>pf_hb := Some x\<rparr>) ts
      else if pf_hbi f = None \<and> jt_value t = ''hbInterval'' then number_field (\<lambda>x. f\<lparr>pf_hbi := Some x\<rparr>) ts
      else if pf_regi f = None \<and> jt_value t = ''regInterval'' then number_field (\<lambda>x. f\<lparr>pf_regi := Some x\<rparr>) ts
      else if pf_server_ip f = None \<and> jt_value t = ''IP'' then text_field 51 (\<lambda>x. f\<lparr>pf_server_ip := Some x\<rparr>) ts
      else if pf_server_port f = None \<and> jt_value t = ''port'' then number_field (\<lambda>x. f\<lparr>pf_server_port := Some x\<rparr>) ts
      else if pf_cmd f = None \<and> jt_value t = ''cmd'' then text_field 20 (\<lambda>x. f\<lparr>pf_cmd := Some x\<rparr>) ts
      else if pf_sequence f = None \<and> jt_value t = ''sequence'' then
        (case jsonIoTgoGetString 51 ts of (v, us) \<Rightarrow> (Some (case v of None \<Rightarrow> f | Some x \<Rightarrow> f\<lparr>pf_sequence := Some x\<rparr>), us))
      else (Some f, ts))"

lemma pkg_value_shorter: "length (snd (pkg_value t ts f)) \<le> length ts"
proof -
  have tf: "length (snd (text_field n put us)) \<le> length us" for n put us
    using get_string_shorter by (simp add: text_field_def)
  have nf: "length (snd (number_field put us)) \<le> length us" for put us
    by (cases "jsonIoTgoGetNumber us") (simp add: number_field_def get_shorter(1))
  have two: "length (snd (jsonparse_next (snd (jsonparse_next us)))) \<le> length us" for us
    using next_shorter(1) le_trans by blast
  have split: "length (snd (if b then x else y)) \<le> length ts"
    if "length (snd x) \<le> length ts" "length (snd y) \<le> length ts" for b and x y :: "pkg_fields option \<times> jtok list"
    using that by simp
  show ?thesis
    unfolding pkg_value_def
    by (intro split tf nf)
      (use two [of ts] get_string_shorter [of 51 ts] in \<open>simp_all add: case_prod_beta Let_def\<close>)
qed

function pkg_loop :: "jtok list \<Rightarrow> pkg_fields \<Rightarrow> pkg_fields" where
  "pkg_loop ts f =
     (let n = jsonparse_next ts; v = pkg_value (fst n) (snd n) f
      in if jt_type (fst n) = JSON_TYPE_ERROR then f
         else case fst v of None \<Rightarrow> f | Some f' \<Rightarrow> pkg_loop (snd v) f')"
  by pat_completeness auto

termination
proof (relation "measure (length \<circ> fst)")
  fix ts :: "jtok list" and f f' and n v
  assume n: "n = jsonparse_next ts" "v = pkg_value (fst n) (snd n) f" and "jt_type (fst n) \<noteq> JSON_TYPE_ERROR"
  then have "length (snd n) < length ts" using next_shorter(2) by simp
  then show "((snd v, f'), ts, f) \<in> measure (length \<circ> fst)"
    using pkg_value_shorter [of "fst n" "snd n" f] n(2) by simp
qed simp

declare pkg_loop.simps [simp del]

subsection \<open>What a message is\<close>

definition doNotifyConfig :: "pconn_env \<Rightarrow> int \<Rightarrow> int \<Rightarrow> pconn \<Rightarrow> pconn" where
  "doNotifyConfig env hb hbi p =
     (if 1 = hb
      then on_net (iotgoCoreHeartbeatStart (env_sdk env)) (on_net (iotgoCoreHeartbeatSetMaxOffset (to_u32 hbi)) p)
      else on_net iotgoCoreHeartbeatStop p)"

text \<open>The conditions that most branches share.\<close>

definition from_owner :: "pkg_fields \<Rightarrow> pconn \<Rightarrow> bool" where
  "from_owner f p \<longleftrightarrow> pf_apikey f = Some (dev_owner_uuid p) \<and> pf_deviceid f = Some (dev_id p)"

definition classify :: "pconn_env \<Rightarrow> pkg_fields \<Rightarrow> pconn \<Rightarrow> IoTgoPkgType \<times> pconn" where
  "classify env f p =
     (if from_owner f p \<and> pf_action f = Some ''update'' \<and> pf_params f then (IOTGO_PKG_TYPE_REQ_OF_UPDATE, p)
      else if from_owner f p \<and> pf_action f = Some ''upgrade'' \<and> pf_params f then (IOTGO_PKG_TYPE_REQ_OF_UPGRADE, p)
      else if from_owner f p \<and> pf_action f = Some ''restart'' then (IOTGO_PKG_TYPE_RET_OF_RESTART, p)
      else if from_owner f p \<and> pf_action f = Some ''redirect'' \<and> pf_server_ip f \<noteq> None \<and> pf_server_port f \<noteq> None
      then (IOTGO_PKG_TYPE_REQ_OF_REDIRECT,
            p\<lparr>pc_bconn := distorSetServerInfo (the (pf_server_ip f)) (the (pf_server_port f)) (pc_bconn p)\<rparr>)
      else if from_owner f p \<and> pf_action f = Some ''notify'' \<and> pf_cmd f = Some ''config'' \<and> pf_hb f \<noteq> None \<and> pf_hbi f \<noteq> None
      then (IOTGO_PKG_TYPE_REQ_OF_NOTIFY_CONFIG, doNotifyConfig env (the (pf_hb f)) (the (pf_hbi f)) p)
      else if from_owner f p \<and> pf_action f = Some ''queryDev'' \<and> pf_params f then (IOTGO_PKG_TYPE_REQ_OF_QUERY, p)
      else if from_owner f p \<and> pf_error f = Some 0 \<and> pf_params f then (IOTGO_PKG_TYPE_RESP_OF_QUERY, p)
      else if from_owner f p \<and> pf_error f = Some 0 \<and> \<not> pf_params f \<and> pf_date f = None then (IOTGO_PKG_TYPE_RESP_OF_UPDATE, p)
      else if from_owner f p \<and> pf_error f = Some 0 \<and> pf_date f \<noteq> None then (IOTGO_PKG_TYPE_RESP_OF_DATE, p)
      else if pf_apikey f \<noteq> None \<and> length (the (pf_apikey f)) = length (dev_factory_apikey p)
        \<and> the (pf_apikey f) \<noteq> dev_factory_apikey p \<and> pf_deviceid f = Some (dev_id p)
        \<and> pf_error f = Some 0 \<and> \<not> pf_params f
      then (IOTGO_PKG_TYPE_RESP_OF_INIT,
            (let p = p\<lparr>dev_owner_uuid := the (pf_apikey f)\<rparr>
             in if pf_config f \<and> pf_hb f \<noteq> None \<and> pf_hbi f \<noteq> None
                then doNotifyConfig env (the (pf_hb f)) (the (pf_hbi f)) p else p))
      else if pf_error f = Some 404 \<and> pf_apikey f = Some (dev_factory_apikey p) \<and> pf_deviceid f = Some (dev_id p)
      then (IOTGO_PKG_TYPE_RESP_OF_INIT_FAILED,
            case pf_regi f of None \<Rightarrow> p | Some regi \<Rightarrow> on_net (iotgoCoreSetRegInterval (to_u32 regi)) p)
      else if pf_error f = Some 403 \<and> from_owner f p then (IOTGO_PKG_TYPE_ERROR_OF_FORBIDDEN, p)
      else (IOTGO_PKG_TYPE_INVALID, p))"

definition parseTypeOfIoTgoPkg :: "pconn_env \<Rightarrow> (string \<Rightarrow> jtok list) \<Rightarrow> string \<Rightarrow> pconn \<Rightarrow> IoTgoPkgType \<times> pconn" where
  "parseTypeOfIoTgoPkg env toks data p =
     (let f = pkg_loop (toks data) no_fields;
          p = (case pf_sequence f of None \<Rightarrow> p | Some x \<Rightarrow> p\<lparr>server_sequence := x\<rparr>)
      in classify env f p)"

subsection \<open>The answer to a date request\<close>

function date_loop :: "jtok list \<Rightarrow> string option \<Rightarrow> string option" where
  "date_loop ts d =
     (let n = jsonparse_next ts; v = jsonIoTgoGetString 25 (snd n)
      in if jt_type (fst n) = JSON_TYPE_ERROR then d
         else if JSON_TYPE_PAIR_NAME \<noteq> jt_type (fst n) then date_loop (snd n) d
         else if jt_value (fst n) = ''date'' then
           (case fst v of None \<Rightarrow> d | Some x \<Rightarrow> date_loop (snd v) (Some x))
         else date_loop (snd n) d)"
  by pat_completeness auto

termination
proof (relation "measure (length \<circ> fst)")
  fix ts :: "jtok list" and d :: "string option" and x n v
  assume n: "n = jsonparse_next ts" "v = jsonIoTgoGetString 25 (snd n)" "jt_type (fst n) \<noteq> JSON_TYPE_ERROR"
  then have lt: "length (snd n) < length ts" using next_shorter(2) by simp
  then show "((snd n, d), ts, d) \<in> measure (length \<circ> fst)" by simp
  show "((snd v, Some x), ts, d) \<in> measure (length \<circ> fst)"
    using get_string_shorter [of 25 "snd n"] n(2) lt by simp
  show "((snd n, d), ts, d) \<in> measure (length \<circ> fst)" using lt by simp
qed simp

declare date_loop.simps [simp del]

text \<open>All fields of the local time are set when its text is accepted.\<close>

definition deviceRespDateCallback :: "(string \<Rightarrow> jtok list) \<Rightarrow> string \<Rightarrow> pconn \<Rightarrow> pconn" where
  "deviceRespDateCallback toks data p =
     (case date_loop (toks data) None of
        None \<Rightarrow> p
      | Some gmt_date \<Rightarrow>
          (case parseGMTTimeFromString (Some gmt_date) (current_time (pc_clock p)) of (ok, gmt_time) \<Rightarrow>
            if ok then pc_post MSG_CORE_DATE_OK 0 (p\<lparr>pc_clock := setGMTTime gmt_time (pc_clock p)\<rparr>) else p))"

subsection \<open>Acting on a message\<close>

text \<open>The callbacks of the device description are called where they are registered.\<close>

definition hand_over :: "message_call \<Rightarrow> bytes \<Rightarrow> pconn \<Rightarrow> pconn" where
  "hand_over c data p = p\<lparr>messages := messages p @ [(c, c_string data)]\<rparr>"

definition tell_device :: "message_call \<Rightarrow> bytes \<Rightarrow> pconn \<Rightarrow> pconn" where
  "tell_device c data p = (if c \<in> set (message_callbacks p) then hand_over c data p else p)"

definition pc_mode :: "IoTgoDeviceMode \<Rightarrow> pconn \<Rightarrow> pconn" where
  "pc_mode m p = on_net (iotgoSetDeviceMode m) p"

definition act_on_pkg :: "pconn_env \<Rightarrow> (string \<Rightarrow> jtok list) \<Rightarrow> bytes \<Rightarrow> pconn \<Rightarrow> pconn" where
  "act_on_pkg env toks data p =
     (let (type, p) = parseTypeOfIoTgoPkg env toks (str_of data) p in
      case type of
        IOTGO_PKG_TYPE_RESP_OF_UPDATE \<Rightarrow> tell_device RespOfUpdateCallback data (pc_mode DEVICE_MODE_WORK_NORMAL p)
      | IOTGO_PKG_TYPE_RESP_OF_QUERY \<Rightarrow> tell_device RespOfQueryCallback data (pc_mode DEVICE_MODE_WORK_NORMAL p)
      | IOTGO_PKG_TYPE_RESP_OF_DATE \<Rightarrow> deviceRespDateCallback toks (str_of data) (pc_mode DEVICE_MODE_WORK_NORMAL p)
      | IOTGO_PKG_TYPE_REQ_OF_UPDATE \<Rightarrow> tell_device ReqOfUpdateCallback data (pc_mode DEVICE_MODE_WORK_NORMAL p)
      | IOTGO_PKG_TYPE_REQ_OF_REDIRECT \<Rightarrow> pc_post MSG_CORE_REDIRECT 0 (pc_mode DEVICE_MODE_WORK_NORMAL p)
      | IOTGO_PKG_TYPE_REQ_OF_NOTIFY_CONFIG \<Rightarrow>
          (let p = pc_mode DEVICE_MODE_WORK_NORMAL p
           in if ReqofNotifyCallback \<in> set (message_callbacks p) then hand_over ReqofNotifyCallback data p
              else pc_post MSG_CORE_NOTIFY_CONFIG 0 p)
      | IOTGO_PKG_TYPE_REQ_OF_QUERY \<Rightarrow> tell_device ReqOfQueryCallback data (pc_mode DEVICE_MODE_WORK_NORMAL p)
      | IOTGO_PKG_TYPE_RESP_OF_INIT \<Rightarrow> pc_post MSG_CORE_REGISTERED 0 (tell_device ReqofRegisterCallback data p)
      | IOTGO_PKG_TYPE_REQ_OF_UPGRADE \<Rightarrow> hand_over UpgradeProcessRequest data p
      | IOTGO_PKG_TYPE_RET_OF_RESTART \<Rightarrow> hand_over UpgradeRestartForNewBin data p
      | IOTGO_PKG_TYPE_RESP_OF_INIT_FAILED \<Rightarrow> pc_post MSG_CORE_REGISTER_ERR 0 p
      | IOTGO_PKG_TYPE_ERROR_OF_FORBIDDEN \<Rightarrow> p
      | IOTGO_PKG_TYPE_INVALID \<Rightarrow> p)"

text \<open>
  \<open>pdata\<close> is the memory from the packet on, \<open>len\<close> the length of the packet.  The payload of a text
  frame begins behind its header; the length in the header must be that of the packet.
\<close>

definition byte_at :: "bytes \<Rightarrow> nat \<Rightarrow> u8 option" where
  "byte_at bs k = (if k < length bs then Some (bs ! k) else None)"

definition frame_data :: "bytes \<Rightarrow> nat \<Rightarrow> bytes option option" where
  "frame_data pdata len =
     do {
       b1 \<leftarrow> byte_at pdata 1;
       if b1 \<le> 125 then Some (if unat b1 + 2 = len then Some (drop 2 pdata) else None)
       else if b1 = 126 then do {
         b2 \<leftarrow> byte_at pdata 2;
         b3 \<leftarrow> byte_at pdata 3;
         Some (if to_u16 (int (unat b2 * 256 + unat b3)) + 4 = len then Some (drop 4 pdata) else None)
       } else Some None
     }"

definition clientTCPSproOnePkgCb ::
    "pconn_env \<Rightarrow> (string \<Rightarrow> jtok list) \<Rightarrow> bytes \<Rightarrow> nat \<Rightarrow> pconn \<Rightarrow> pconn option" where
  "clientTCPSproOnePkgCb env toks pdata len p =
     do {
       i \<leftarrow> indexOf pdata (bytes_of ''HTTP/1.1 101 Switching Protocols'');
       if i \<noteq> -1 then Some (pc_post MSG_CORE_WS_CONNECTED 0 p)
       else do {
         b0 \<leftarrow> byte_at pdata 0;
         if b0 = 0x81 then do {
           found \<leftarrow> frame_data pdata len;
           case found of
             None \<Rightarrow> Some p
           | Some data \<Rightarrow>
               if 0 \<in> set data then
                 Some (act_on_pkg env toks data (on_net (iotgoCoreRefreshLastPkgTime (env_sdk env)) p))
               else None
         } else if b0 = 0x8a then do {
           b1 \<leftarrow> byte_at pdata 1;
           Some (if b1 = 0 then pc_post MSG_CORE_WS_PING_OK 0 p else p)
         } else Some p
       }
     }"

end
