(* ===== verification/PconnRun.thy ===== *)
theory PconnRun
  imports PconnMsg
begin

text \<open>
  The TCP connection of \<open>app/user/iotgo_pconn.c\<close>, and the network task with the connection below it:
  the calls the handlers of \<open>Core\<close> record are carried out, and what the connection posts is handled.
\<close>

subsection \<open>Connecting\<close>

definition connTCP :: "pconn_env \<Rightarrow> pconn \<Rightarrow> pconn" where
  "connTCP env p =
     (let p = esp_do EspConnect p;
          p = (if env_connect env = 0 then p else pc_post MSG_CORE_CONNECT_SERVER_ERR 0 p)
      in p\<lparr>client_tcp_initialized_flag := True\<rparr>)"

definition dnsFoundCallback :: "pconn_env \<Rightarrow> u32 option \<Rightarrow> pconn \<Rightarrow> pconn" where
  "dnsFoundCallback env ipaddr p =
     (case ipaddr of
        None \<Rightarrow> pc_post MSG_CORE_CONNECT_SERVER_ERR 0 p
      | Some ip \<Rightarrow>
          if ip \<noteq> 0 then connTCP env (p\<lparr>client_tcp := (client_tcp p)\<lparr>remote_ip := ip\<rparr>\<rparr>) else p)"

definition iotgoPconnConnect :: "pconn_env \<Rightarrow> string \<times> int \<Rightarrow> pconn \<Rightarrow> pconn" where
  "iotgoPconnConnect env host_info p =
     (let ip = env_ipaddr env (fst host_info);
          p = p\<lparr>client_tcp := \<lparr>local_port = env_port env, remote_port = snd host_info, remote_ip = ip,
                  connect_cb = True, recon_cb = True, recv_cb = False, discon_cb = False, sent_cb = False\<rparr>\<rparr>
      in if ip = 0xFFFFFFFF then esp_do (EspLookup (fst host_info)) p else connTCP env p)"

definition clientTCPConnectedCallback :: "pconn \<Rightarrow> pconn" where
  "clientTCPConnectedCallback p =
     pc_post MSG_CORE_SERVER_CONNECTED 0
       (p\<lparr>client_tcp := (client_tcp p)\<lparr>recv_cb := True, discon_cb := True, sent_cb := True\<rparr>\<rparr>)"

definition clientTCPDisconCallback :: "pconn \<Rightarrow> pconn" where
  "clientTCPDisconCallback p = pc_post MSG_CORE_SERVER_DISCONNECTED 0 p"

definition clientTCPReconCallback :: "pconn \<Rightarrow> pconn" where
  "clientTCPReconCallback p = pc_post MSG_CORE_RECONNECT_SERVER 0 p"

definition iotgoPconnDisconnect :: "pconn \<Rightarrow> pconn" where
  "iotgoPconnDisconnect p =
     (if \<not> client_tcp_initialized_flag p then p
      else esp_do EspDisconnect (on_net iotgoCoreHeartbeatStop p))"

definition line :: "string \<Rightarrow> bytes" where
  "line s = bytes_of s @ [13, 10]"

definition handshake :: bytes where
  "handshake = line ''GET /api/ws HTTP/1.1'' @ line ''Host: iotgo.iteadstudio.com'' @ line ''Connection: upgrade'' @
     line ''Upgrade: websocket'' @ line ''Sec-WebSocket-Key: ITEADTmobiM0x1DabcEsnw=='' @
     line ''Sec-WebSocket-Version: 13'' @ line []"

definition iotgoPconnSwitchToWebSocket :: "pconn_env \<Rightarrow> pconn \<Rightarrow> pconn" where
  "iotgoPconnSwitchToWebSocket env p =
     snd (esp_send env handshake (p\<lparr>network_spro := snd (spSetPkgType SPRO_PKG_TYPE_HTTP11 (network_spro p))\<rparr>))"

definition IOTGO_IOT_TCP_CLIENT_RECV_BUFFER_SIZE :: nat where
  "IOTGO_IOT_TCP_CLIENT_RECV_BUFFER_SIZE = 2048"

definition iotgoPconnInit :: "pconn_env \<Rightarrow> pconn \<Rightarrow> pconn" where
  "iotgoPconnInit env p =
     (initSendQueueTime p)\<lparr>network_spro :=
       spCreateObject (env_zalloc env) SPRO_PKG_TYPE_HTTP11 (Some 0) IOTGO_IOT_TCP_CLIENT_RECV_BUFFER_SIZE\<rparr>"

subsection \<open>Receiving\<close>

text \<open>
  The assembler calls back for every packet in a segment; \<open>behind\<close> is what the memory holds behind
  the packet.
\<close>

fun packets_received :: "pconn_env \<Rightarrow> (string \<Rightarrow> jtok list) \<Rightarrow> bytes \<Rightarrow> package list \<Rightarrow> pconn \<Rightarrow> pconn option" where
  "packets_received env toks behind [] p = Some p"
| "packets_received env toks behind (k # ks) p =
     Option.bind (clientTCPSproOnePkgCb env toks (pkg_bytes k @ behind) (pkg_told k) p)
       (packets_received env toks behind ks)"

definition clientTCPRecvCallback :: "pconn_env \<Rightarrow> (string \<Rightarrow> jtok list) \<Rightarrow> bytes \<Rightarrow> bytes \<Rightarrow> pconn \<Rightarrow> pconn option" where
  "clientTCPRecvCallback env toks behind pdata p =
     do {
       obj \<leftarrow> spTcpRecv (network_spro p) 0 (Some pdata);
       let before = (case network_spro p of None \<Rightarrow> 0 | Some s \<Rightarrow> length (packages s));
       let new = (case obj of None \<Rightarrow> [] | Some s \<Rightarrow> drop before (packages s));
       packets_received env toks behind new (p\<lparr>network_spro := obj\<rparr>)
     }"

subsection \<open>The network task and the connection\<close>

definition pconn_do :: "pconn_env \<Rightarrow> net_call \<Rightarrow> pconn \<Rightarrow> pconn option" where
  "pconn_do env c p =
     (case c of
        PconnInit \<Rightarrow> Some (iotgoPconnInit env p)
      | PconnConnect \<Rightarrow> Some (iotgoPconnConnect env (distorGetServerInfo (pc_bconn p)) p)
      | PconnDisconnect \<Rightarrow> Some (iotgoPconnDisconnect p)
      | PconnSwitchToWebSocket \<Rightarrow> Some (iotgoPconnSwitchToWebSocket env p)
      | PconnDeviceRegister \<Rightarrow> iotgoPconnDeviceRegister env p
      | PconnDeviceDate \<Rightarrow> iotgoPconnDeviceDate env p
      | PconnSendJson \<Rightarrow> iotgoPconnSendJson env p
      | PconnSendJsonAgain \<Rightarrow> iotgoPconnSendJsonAgain p
      | PconnSendNextJson e \<Rightarrow> iotgoPconnSendNextJson e p
      | QueueDeleteAll \<Rightarrow> pc_delete_all p
      | QueueAddPing bs \<Rightarrow> pc_queue_add (Some bs) IOTGO_PING False p
      | SendError0 \<Rightarrow> sendError0ToServer env p
      | _ \<Rightarrow> Some p)"

fun pconn_do_all :: "pconn_env \<Rightarrow> net_call list \<Rightarrow> pconn \<Rightarrow> pconn option" where
  "pconn_do_all env [] p = Some p"
| "pconn_do_all env (c # cs) p = Option.bind (pconn_do env c p) (pconn_do_all env cs)"

text \<open>
  The handlers whose calls can be carried out after the handler: they come last in it, or what
  follows them is independent of them.  The calls of the other handlers are only recorded.
\<close>

definition calls_last :: "IoTgoSignalSet \<Rightarrow> bool" where
  "calls_last m \<longleftrightarrow> m \<in> {MSG_CORE_SEND_JSON, MSG_CORE_SEND_JSON_AGAIN, MSG_CORE_SEND_JSON_FINISHED,
     MSG_CORE_SERVER_CONNECTED, MSG_CORE_WS_CONNECT, MSG_CORE_CONNECT_SERVER, MSG_CORE_REGISTER,
     MSG_CORE_DATE, MSG_CORE_NOTIFY_CONFIG}"

definition task_step :: "pconn_env \<Rightarrow> pconn \<Rightarrow> pconn option" where
  "task_step env p =
     (case core_q (pc_net p) of
        [] \<Rightarrow> Some p
      | ev # _ \<Rightarrow>
          do {
            n \<leftarrow> core_step (env_sdk env) (pc_net p);
            if calls_last (fst ev)
            then pconn_do_all env (drop (length (calls (pc_net p))) (calls n)) (p\<lparr>pc_net := n\<rparr>)
            else Some (p\<lparr>pc_net := n\<rparr>)
          })"

datatype pconn_event =
  TaskRuns | SendTimer | Received bytes bytes | Connected | Disconnected | Reconnected
| ServerFound "u32 option" | MessageQueued bytes nat bool

definition pconn_step :: "pconn_env \<Rightarrow> (string \<Rightarrow> jtok list) \<Rightarrow> pconn_event \<Rightarrow> pconn \<Rightarrow> pconn option" where
  "pconn_step env toks ev p =
     (case ev of
        TaskRuns \<Rightarrow> task_step env p
      | SendTimer \<Rightarrow> if send_queue_timer p = Disarmed then Some p else Some (cbSendQueueTimer p)
      | Received behind pdata \<Rightarrow> clientTCPRecvCallback env toks behind pdata p
      | Connected \<Rightarrow> Some (clientTCPConnectedCallback p)
      | Disconnected \<Rightarrow> Some (clientTCPDisconCallback p)
      | Reconnected \<Rightarrow> Some (clientTCPReconCallback p)
      | ServerFound ip \<Rightarrow> Some (dnsFoundCallback env ip p)
      | MessageQueued bs type del \<Rightarrow> pc_queue_add (Some bs) type del p)"

fun pconn_run :: "pconn_env \<Rightarrow> (string \<Rightarrow> jtok list) \<Rightarrow> pconn_event list \<Rightarrow> pconn \<Rightarrow> pconn option" where
  "pconn_run env toks [] p = Some p"
| "pconn_run env toks (ev # evs) p = Option.bind (pconn_step env toks ev p) (pconn_run env toks evs)"

end
