(* ===== verification/PconnFrame.thy ===== *)
theory PconnFrame
  imports Pconn
begin

text \<open>
  The frames of \<open>iotgoNetworkSendString\<close>: read back by the rules of RFC 6455 they give the message,
  up to the size of the buffer; longer messages run over it before their length is looked at.
\<close>

subsection \<open>Reading a client frame\<close>

definition unmask :: "bytes \<Rightarrow> bytes \<Rightarrow> bytes" where
  "unmask key body = map (\<lambda>i. body ! i XOR key ! (i mod 4)) [0..<length body]"

definition masked_body :: "nat \<Rightarrow> bytes \<Rightarrow> bytes option" where
  "masked_body n r = (if length r = 4 + n then Some (unmask (take 4 r) (drop 4 r)) else None)"

text \<open>A final text frame with the mask bit, the length in 7 or in 16 bits, the key and the payload.\<close>

fun read_client_frame :: "bytes \<Rightarrow> bytes option" where
  "read_client_frame (b0 # b1 # r) =
     (if b0 = 0x81 \<and> 128 \<le> unat b1 then
        (if unat b1 - 128 \<le> 125 then masked_body (unat b1 - 128) r
         else if unat b1 - 128 = 126 then
           (case r of h # l # r' \<Rightarrow> masked_body (256 * unat h + unat l) r' | _ \<Rightarrow> None)
         else None)
      else None)"
| "read_client_frame _ = None"

lemma unmask_zero [simp]: "unmask [0, 0, 0, 0] body = body"
proof (rule nth_equalityI)
  fix i assume "i < length (unmask [0, 0, 0, 0] body)"
  moreover have "[0, 0, 0, 0 :: u8] ! (i mod 4) = 0"
  proof -
    have "i mod 4 < 4" by simp
    then have "i mod 4 \<in> {0, 1, 2, 3}" by auto
    then show ?thesis by auto
  qed
  ultimately show "unmask [0, 0, 0, 0] body ! i = body ! i" by (simp add: unmask_def)
qed (simp add: unmask_def)

lemma masked_body_zero [simp]: "masked_body n (0 # 0 # 0 # 0 # body) = (if length body = n then Some body else None)"
  by (simp add: masked_body_def)

subsection \<open>The frame of a message\<close>

lemma put_header: "length h \<le> 1536 \<Longrightarrow> buffer_put 0 h (replicate 1536 0) = Some (h @ replicate (1536 - length h) 0)"
  by (simp add: buffer_put_def)

lemma put_payload:
  "buffer_put (length h) d (h @ replicate m 0) =
     (if length d \<le> m then Some (h @ d @ replicate (m - length d) 0) else None)"
  by (simp add: buffer_put_def)

definition plain_text :: "bytes \<Rightarrow> bool" where
  "plain_text d \<longleftrightarrow> 0 \<notin> set d \<and> take 1 d \<noteq> [0x89]"

lemma c_strlen_text: "0 \<notin> set d \<Longrightarrow> c_strlen (d @ 0 # rest) = Some (length d)"
  by (auto simp: c_strlen_def c_string_def takeWhile_tail intro!: arg_cong [of _ _ length] iffD2 [OF takeWhile_eq_all_conv])

lemma to_u16_add: "a + b < 65536 \<Longrightarrow> to_u16 (int a + int b) = a + b"
  using to_u16_small [of "a + b"] by simp

lemma network_frame_text:
  assumes "plain_text d"
  shows "network_frame (d @ 0 # rest) =
    (case frame_header (length d) of
       None \<Rightarrow> Some (Inl IOTGO_DATA_LENGTH_OVER)
     | Some h \<Rightarrow> if length h + length d \<le> 1536 then Some (Inr (h @ d)) else None)"
proof -
  have "bytes_match [0x89, 0x80, 0, 0, 0, 0] (d @ 0 # rest) = Some False"
    using assms by (cases d) (auto simp: plain_text_def)
  moreover have "c_strlen (d @ 0 # rest) = Some (length d)"
    using assms by (simp add: plain_text_def c_strlen_text)
  moreover have "length h \<le> 8" if "frame_header (length d) = Some h" for h
    using that by (auto simp: frame_header_def split: if_splits)
  ultimately show ?thesis
    by (auto simp: network_frame_def IOTGO_JSON_BUFFER_SIZE_def put_header put_payload to_u16_add Let_def
      split: option.split)
qed

lemma read_frame_header:
  assumes "frame_header (length d) = Some h"
  shows "read_client_frame (h @ d) = Some d"
proof (cases "length d \<le> 125")
  case True
  then have "unat (word_of_nat (128 + length d) :: u8) = 128 + length d"
    by (simp add: unat_of_nat take_bit_eq_mod del: of_nat_add)
  with assms True show ?thesis by (auto simp: frame_header_def simp del: of_nat_add)
next
  case False
  then have n: "length d \<le> 65500" "126 \<le> length d" using assms by (auto simp: frame_header_def split: if_splits)
  have "unat (word_of_nat (length d div 256 mod 256) :: u8) = length d div 256"
    "unat (word_of_nat (length d mod 256) :: u8) = length d mod 256"
    using n by (simp_all add: unat_of_nat take_bit_eq_mod)
  with assms False n show ?thesis by (auto simp: frame_header_def)
qed

text \<open>
  C24: a message without a terminator that does not begin like a ping becomes, up to 1528 bytes, a frame
  of at most 1536 bytes which a reader of RFC 6455 takes back to the message; a longer one is
  copied beyond the buffer, except that above 65500 bytes it is refused with
  \<open>IOTGO_DATA_LENGTH_OVER\<close> before it is copied.
\<close>

theorem sent_frame_read_back:
  assumes "plain_text d"
  shows "case network_frame (d @ 0 # rest) of
      None \<Rightarrow> 1528 < length d \<and> length d \<le> 65500
    | Some (Inl code) \<Rightarrow> 65500 < length d \<and> code = IOTGO_DATA_LENGTH_OVER
    | Some (Inr f) \<Rightarrow> length d \<le> 1528 \<and> length f \<le> 1536 \<and> read_client_frame f = Some d"
proof (cases "frame_header (length d)")
  case None
  then show ?thesis by (simp add: network_frame_text [OF assms]) (auto simp: frame_header_def split: if_splits)
next
  case (Some h)
  moreover have "length h = (if length d \<le> 125 then 6 else 8)" "length d \<le> 65500"
    using Some by (auto simp: frame_header_def split: if_splits)
  ultimately show ?thesis using read_frame_header [OF Some] by (auto simp: network_frame_text [OF assms])
qed

theorem sent_frame_read_back_witness:
  "case network_frame ([123, 125] @ 0 # [7]) of Some (Inr f) \<Rightarrow> read_client_frame f = Some [123, 125] | _ \<Rightarrow> False"
  using sent_frame_read_back [of "[123, 125]" "[7]"] by (auto simp: plain_text_def split: option.splits sum.splits)

end
