(* ===== verification/PconnQueue.thy ===== *)
theory PconnQueue
  imports PconnRun PconnFrame
begin

text \<open>
  The queue of messages to the server as the network task works it off: every message is tried up
  to four times with pauses of one, two and four seconds, in order; and what happens when the queue
  is emptied, or the retry timer fires, while a message is on its way.
\<close>

subsection \<open>What the sender is to do\<close>

text \<open>
  The attempts at one message, the i-th send being the first: how many, whether the last succeeded,
  and the time they take.  \<open>transcript\<close> is the whole queue: the frames, the text for the
  microcontroller, the time.
\<close>

fun deliver :: "(nat \<Rightarrow> int) \<Rightarrow> nat \<Rightarrow> nat list \<Rightarrow> nat \<times> bool \<times> nat" where
  "deliver ret i [] = (1, ret i = 0, 0)"
| "deliver ret i (d # ds) =
     (if ret i = 0 then (1, True, 0)
      else let (n, ok, ms) = deliver ret (Suc i) ds in (Suc n, ok, d + ms))"

definition result_text :: "nat \<Rightarrow> bool \<Rightarrow> string" where
  "result_text type ok =
     (if type \<ge> IOTGO_USER_DEFAULT then (if ok then ''AT+SEND=ok'' else ''AT+SEND=fail'') @ [ESC] else [])"

definition frame_of :: "bytes \<Rightarrow> bytes" where
  "frame_of d = (case network_frame d of Some (Inr f) \<Rightarrow> f | _ \<Rightarrow> [])"

fun transcript :: "(nat \<Rightarrow> int) \<Rightarrow> nat \<Rightarrow> (nat \<times> bytes) list \<Rightarrow> bytes list \<times> string \<times> nat" where
  "transcript ret i [] = ([], [], 0)"
| "transcript ret i ((type, d) # xs) =
     (let (n, ok, ms) = deliver ret i [1000, 2000, 4000]; (fs, tx, ms') = transcript ret (i + n) xs
      in (replicate n (frame_of d) @ fs, result_text type ok @ tx, ms + ms'))"

subsection \<open>The task and the timer\<close>

text \<open>The task handles its messages; when there is none, the timer is the next to run.\<close>

definition turn :: "pconn_env \<Rightarrow> pconn \<Rightarrow> (nat \<times> pconn) option" where
  "turn env p =
     (if core_q (pc_net p) \<noteq> [] then map_option (Pair 0) (task_step env p)
      else case send_queue_timer p of
        Disarmed \<Rightarrow> Some (0, p)
      | Armed ms _ \<Rightarrow> Some (ms, cbSendQueueTimer p))"

fun turns :: "pconn_env \<Rightarrow> nat \<Rightarrow> pconn \<Rightarrow> (nat \<times> pconn) option" where
  "turns env 0 p = Some (0, p)"
| "turns env (Suc n) p =
     Option.bind (turn env p) (\<lambda>(ms, p). map_option (\<lambda>(ms', p). (ms + ms', p)) (turns env n p))"

lemma turns_add:
  "turns env m p = Some (a, p') \<Longrightarrow> turns env n p' = Some (b, p'') \<Longrightarrow> turns env (m + n) p = Some (a + b, p'')"
proof (induction m arbitrary: p a)
  case (Suc m)
  from Suc.prems(1) obtain ms q a' where "turn env p = Some (ms, q)" "turns env m q = Some (a', p')" "a = ms + a'"
    by (auto simp: bind_Some_iff)
  with Suc.IH [of q a'] Suc.prems(2) show ?case by simp
qed simp

subsection \<open>Steps\<close>

lemma queue_rep_head:
  assumes "queue_rep s (x # xs)"
  obtains nd where "node_at (q_heap (snd s)) (q_head (snd s)) = Some nd" "n_data nd \<noteq> 0"
proof -
  from assms obtain F es where es: "erep F (snd s) es" "map payload es = x # xs"
    by (auto simp: queue_rep_def qrep_def)
  then obtain a b t d es' where "es = (a, b, t, d) # es'" by (cases es) auto
  from erep_node [OF es(1) [unfolded this]] that show ?thesis by (auto simp: node_at_def)
qed

text \<open>A task message that is handled by one call of the connection.\<close>

definition one_call :: "IoTgoSignalSet \<times> nat \<Rightarrow> net_call option" where
  "one_call ev =
     (case fst ev of
        MSG_CORE_SEND_JSON \<Rightarrow> Some PconnSendJson
      | MSG_CORE_SEND_JSON_AGAIN \<Rightarrow> Some PconnSendJsonAgain
      | MSG_CORE_SEND_JSON_FINISHED \<Rightarrow> Some (PconnSendNextJson (snd ev))
      | _ \<Rightarrow> None)"

text \<open>What the messages of the sender do not touch in the network task.\<close>

definition same_device :: "net \<Rightarrow> net \<Rightarrow> bool" where
  "same_device n n' \<longleftrightarrow> device_q n = device_q n' \<and> is_first_action_date n = is_first_action_date n'"

lemma same_device_post [simp]: "same_device (post_core m a n) n' \<longleftrightarrow> same_device n n'"
  by (simp add: same_device_def post_core_def)

lemma pconn_do_one: "Option.bind r (pconn_do_all env []) = r"
  by (cases r) simp_all

lemma task_step_call:
  assumes "core_q (pc_net p) = ev # q" "one_call ev = Some c"
  shows "\<exists>n. core_q n = q \<and> device_mode n = device_mode (pc_net p) \<and>
    task_step env p = pconn_do env c (p\<lparr>pc_net := n\<rparr>) \<and> same_device n (pc_net p)"
proof -
  let ?n = "call c ((pc_net p)\<lparr>core_q := q\<rparr>)"
  from assms(2) consider "fst ev = MSG_CORE_SEND_JSON" "c = PconnSendJson"
    | "fst ev = MSG_CORE_SEND_JSON_AGAIN" "c = PconnSendJsonAgain"
    | "fst ev = MSG_CORE_SEND_JSON_FINISHED" "c = PconnSendNextJson (snd ev)"
    by (cases "fst ev") (simp_all add: one_call_def)
  then have "core_step (env_sdk env) (pc_net p) = Some ?n \<and> calls_last (fst ev)"
    by cases (simp_all add: core_step_def task_defs calls_last_def assms(1))
  then have "task_step env p = pconn_do env c (p\<lparr>pc_net := ?n\<rparr>)"
    using assms(1) by (simp add: task_step_def call_def pconn_do_one)
  then show ?thesis by (intro exI [of _ ?n]) (simp add: call_def same_device_def)
qed

lemma post_fields [simp]:
  "core_q n = [] \<Longrightarrow> core_q (post_core m a n) = [(m, a)]"
  "device_mode (post_core m a n) = device_mode n"
  by (simp_all add: post_core_def IOTGO_TASK_CORE_QLEN_def)

lemma pc_post_simps [simp]:
  "pc_post m a p = p\<lparr>pc_net := post_core m a (pc_net p)\<rparr>"
  by (simp add: pc_post_def on_net_def)

text \<open>A network task with one message, in the normal mode.\<close>

definition busy :: "IoTgoSignalSet \<times> nat \<Rightarrow> net \<Rightarrow> bool" where
  "busy ev n \<longleftrightarrow> core_q n = [ev] \<and> device_mode n = DEVICE_MODE_WORK_NORMAL"

definition settled :: "net \<Rightarrow> bool" where
  "settled n \<longleftrightarrow> core_q n = [] \<and> device_mode n = DEVICE_MODE_WORK_NORMAL"

lemma send_step:
  assumes "busy (MSG_CORE_SEND_JSON, a) (pc_net p)" "queue_rep (pc_queue p) ((type, d) # xs)"
    and "network_frame d = Some (Inr f)" "env_send env (length (sent p)) \<le> 0"
  shows "\<exists>n. busy (if env_send env (length (sent p)) = 0 then (MSG_CORE_SEND_JSON_FINISHED, IOTGO_SEND_OK)
                   else (MSG_CORE_SEND_JSON_AGAIN, IOTGO_SEND_ERROR)) n \<and>
    turn env p = Some (0, p\<lparr>pc_net := n, sent := sent p @ [f]\<rparr>) \<and>
    same_device n (pc_net p)"
proof -
  from task_step_call [of p "(MSG_CORE_SEND_JSON, a)" "[]" PconnSendJson env] assms(1) obtain n where
    n: "core_q n = []" "device_mode n = DEVICE_MODE_WORK_NORMAL"
    "task_step env p = iotgoPconnSendJson env (p\<lparr>pc_net := n\<rparr>)" "same_device n (pc_net p)"
    by (auto simp: busy_def one_call_def pconn_do_def)
  from queue_rep_head [OF assms(2)] obtain nd where
    nd: "node_at (q_heap (snd (pc_queue p))) (q_head (snd (pc_queue p))) = Some nd" "n_data nd \<noteq> 0" by blast
  have "iotgoQueueHeadData (snd (pc_queue p)) = Some d"
    using server_queue.head [OF assms(2)] by simp
  then have "turn env p = Some (0, p\<lparr>pc_net := (if env_send env (length (sent p)) = 0
      then post_core MSG_CORE_SEND_JSON_FINISHED IOTGO_SEND_OK n
      else post_core MSG_CORE_SEND_JSON_AGAIN IOTGO_SEND_ERROR n), sent := sent p @ [f]\<rparr>)"
    using n nd assms by (auto simp: turn_def busy_def iotgoPconnSendJson_def pc_link_def iotgoDeviceMode_def
      iotgoNetworkSendString_def esp_send_def send_codes)
  then show ?thesis using n
    by (intro exI [of _ "if env_send env (length (sent p)) = 0 then post_core MSG_CORE_SEND_JSON_FINISHED IOTGO_SEND_OK n
        else post_core MSG_CORE_SEND_JSON_AGAIN IOTGO_SEND_ERROR n"]) (auto simp: busy_def)
qed

lemma again_step:
  assumes "busy (MSG_CORE_SEND_JSON_AGAIN, a) (pc_net p)" "send_counter p < 3"
  shows "\<exists>n. settled n \<and> turn env p = Some (0, p\<lparr>pc_net := n, send_counter := Suc (send_counter p),
      send_queue_timer := Armed ([1000, 2000, 4000] ! send_counter p) False\<rparr>)"
proof -
  from task_step_call [of p "(MSG_CORE_SEND_JSON_AGAIN, a)" "[]" PconnSendJsonAgain env] assms(1) obtain n where
    n: "core_q n = []" "device_mode n = DEVICE_MODE_WORK_NORMAL"
    "task_step env p = iotgoPconnSendJsonAgain (p\<lparr>pc_net := n\<rparr>)"
    by (auto simp: busy_def one_call_def pconn_do_def)
  have "send_counter p \<in> {0, 1, 2}" using assms(2) by auto
  then show ?thesis using n assms(1)
    by (intro exI [of _ n]) (auto simp: turn_def busy_def settled_def iotgoPconnSendJsonAgain_def to_u8_def)
qed

lemma timer_step:
  assumes "settled (pc_net p)" "queue_rep (pc_queue p) (x # xs)" "send_queue_timer p = Armed ms r"
  shows "\<exists>n. busy (MSG_CORE_SEND_JSON, 0) n \<and> turn env p = Some (ms, p\<lparr>pc_net := n, send_queue_timer := Disarmed\<rparr>)"
  using assms server_queue.len [OF assms(2)]
  by (intro exI [of _ "post_core MSG_CORE_SEND_JSON 0 (pc_net p)"])
    (cases p, auto simp: turn_def settled_def busy_def cbSendQueueTimer_def post_next_def pc_link_def)

lemma give_up_step:
  assumes "busy (MSG_CORE_SEND_JSON_AGAIN, a) (pc_net p)" "send_counter p = 3" "queue_rep (pc_queue p) ((type, d) # xs)"
    and "type \<noteq> IOTGO_REGISTER"
  shows "\<exists>n. busy (MSG_CORE_SEND_JSON_FINISHED, IOTGO_SEND_ERROR) n \<and>
    turn env p = Some (0, p\<lparr>pc_net := n, send_counter := 0, send_queue_timer := Disarmed\<rparr>)"
proof -
  from task_step_call [of p "(MSG_CORE_SEND_JSON_AGAIN, a)" "[]" PconnSendJsonAgain env] assms(1) obtain n where
    n: "core_q n = []" "device_mode n = DEVICE_MODE_WORK_NORMAL"
    "task_step env p = iotgoPconnSendJsonAgain (p\<lparr>pc_net := n\<rparr>)"
    by (auto simp: busy_def one_call_def pconn_do_def)
  have "iotgoQueueHeadType (snd (pc_queue p)) = Some type" using server_queue.head [OF assms(3)] by simp
  then have "turn env p = Some (0, p\<lparr>pc_net := post_core MSG_CORE_SEND_JSON_FINISHED IOTGO_SEND_ERROR n,
      send_counter := 0, send_queue_timer := Disarmed\<rparr>)"
    using n assms by (simp add: turn_def busy_def iotgoPconnSendJsonAgain_def pc_link_def)
  then show ?thesis using n by (intro exI, intro conjI) (auto simp: busy_def)
qed

lemma finish_step:
  assumes "busy (MSG_CORE_SEND_JSON_FINISHED, code) (pc_net p)" "queue_rep (pc_queue p) ((type, d) # xs)"
    and "code = (if ok then IOTGO_SEND_OK else IOTGO_SEND_ERROR)"
  shows "\<exists>n s. queue_rep s xs \<and> (if xs = [] then settled n else busy (MSG_CORE_SEND_JSON, 0) n) \<and>
    turn env p = Some (0, p\<lparr>pc_net := n, pc_queue := s, send_counter := 0, mcu_text := mcu_text p @ result_text type ok\<rparr>) \<and>
    same_device n (pc_net p)"
proof -
  from task_step_call [of p "(MSG_CORE_SEND_JSON_FINISHED, code)" "[]" "PconnSendNextJson code" env] assms(1) obtain n where
    n: "core_q n = []" "device_mode n = DEVICE_MODE_WORK_NORMAL"
    "task_step env p = iotgoPconnSendNextJson code (p\<lparr>pc_net := n\<rparr>)" "same_device n (pc_net p)"
    by (auto simp: busy_def one_call_def pconn_do_def)
  from server_queue.del [OF assms(2)] obtain q where
    q: "iotgoQueueDeleteHead (snd (pc_queue p)) = Some q" "queue_rep (fst (pc_queue p), q) xs"
    by (auto simp: queue_del_def)
  have head: "iotgoQueueHeadType (snd (pc_queue p)) = Some type" using server_queue.head [OF assms(2)] by simp
  have len: "iotgoQueueLength q = length xs" using server_queue.len [OF q(2)] by simp
  let ?n = "if xs = [] then n else post_core MSG_CORE_SEND_JSON 0 n"
  have "turn env p = Some (0, p\<lparr>pc_net := ?n, pc_queue := (fst (pc_queue p), q), send_counter := 0,
      mcu_text := mcu_text p @ result_text type ok\<rparr>)"
    using n q head len assms(1,3)
    by (cases "xs = []"; cases ok; cases "IOTGO_USER_DEFAULT \<le> type")
      (simp_all add: turn_def busy_def iotgoPconnSendNextJson_def pc_link_def set_link_def post_next_def
        result_text_def send_codes)
  then show ?thesis using n q(2)
    by (intro exI [of _ ?n] exI [of _ "(fst (pc_queue p), q)"]) (auto simp: busy_def settled_def)
qed

subsection \<open>One message\<close>

text \<open>The sender between two steps: nothing but these has changed.\<close>

definition sender_at :: "pconn \<Rightarrow> queue_state \<Rightarrow> bytes list \<Rightarrow> string \<Rightarrow> bool" where
  "sender_at p s fs tx \<longleftrightarrow>
     pc_queue p = s \<and> sent p = fs \<and> mcu_text p = tx \<and> send_queue_timer p = Disarmed"

lemma turns_1: "turn env p = Some (ms, p') \<Longrightarrow> turns env (Suc 0) p = Some (ms, p')"
  by simp

lemma sender_sends:
  assumes "busy (MSG_CORE_SEND_JSON, a) (pc_net p)" "queue_rep s ((type, d) # xs)" "sender_at p s fs tx"
    and "network_frame d = Some (Inr f)" "\<forall>i. env_send env i \<le> 0"
  shows "\<exists>n. busy (if env_send env (length fs) = 0 then (MSG_CORE_SEND_JSON_FINISHED, IOTGO_SEND_OK)
                   else (MSG_CORE_SEND_JSON_AGAIN, IOTGO_SEND_ERROR)) n \<and>
    turn env p = Some (0, p\<lparr>pc_net := n, sent := fs @ [f]\<rparr>)"
proof -
  have "env_send env (length (sent p)) \<le> 0" "queue_rep (pc_queue p) ((type, d) # xs)" "fs = sent p"
    using assms(2,3,5) by (auto simp: sender_at_def)
  with send_step [OF assms(1) _ assms(4)] show ?thesis by blast
qed

lemma message_tried:
  assumes "busy (MSG_CORE_SEND_JSON, a) (pc_net p)" "queue_rep s ((type, d) # xs)" "sender_at p s fs tx"
    and "ds = drop (send_counter p) [1000, 2000, 4000]" "send_counter p \<le> 3"
    and "network_frame d = Some (Inr f)" "type \<noteq> IOTGO_REGISTER" "\<forall>i. env_send env i \<le> 0"
    and "deliver (env_send env) (length fs) ds = (n, ok, ms)"
  shows "\<exists>k p'. turns env k p = Some (ms, p') \<and> sender_at p' s (fs @ replicate n f) tx \<and>
    busy (MSG_CORE_SEND_JSON_FINISHED, if ok then IOTGO_SEND_OK else IOTGO_SEND_ERROR) (pc_net p')"
  using assms
proof (induction ds arbitrary: p a fs n ms)
  case Nil
  note at = Nil.prems(3) [unfolded sender_at_def]
  obtain n1 where n1: "busy (if env_send env (length fs) = 0 then (MSG_CORE_SEND_JSON_FINISHED, IOTGO_SEND_OK)
      else (MSG_CORE_SEND_JSON_AGAIN, IOTGO_SEND_ERROR)) n1"
    "turn env p = Some (0, p\<lparr>pc_net := n1, sent := fs @ [f]\<rparr>)"
    using sender_sends [OF Nil.prems(1-3,6,8)] by blast
  show ?case
  proof (cases "env_send env (length fs) = 0")
    case True
    with n1 Nil.prems(9) at show ?thesis
      by (intro exI [of _ "Suc 0"] exI) (auto simp: sender_at_def)
  next
    case False
    let ?p = "p\<lparr>pc_net := n1, sent := fs @ [f]\<rparr>"
    have "send_counter ?p = 3" using Nil.prems(4,5) by simp
    moreover have "busy (MSG_CORE_SEND_JSON_AGAIN, IOTGO_SEND_ERROR) (pc_net ?p)" using n1(1) False by simp
    moreover have "queue_rep (pc_queue ?p) ((type, d) # xs)" using at Nil.prems(2) by simp
    ultimately obtain n2 where "busy (MSG_CORE_SEND_JSON_FINISHED, IOTGO_SEND_ERROR) n2"
      "turn env ?p = Some (0, ?p\<lparr>pc_net := n2, send_counter := 0, send_queue_timer := Disarmed\<rparr>)"
      using give_up_step Nil.prems(7) by blast
    with turns_add [OF turns_1 [OF n1(2)] turns_1 [of env ?p]] Nil.prems(9) False at show ?thesis
      by (intro exI [of _ "Suc 0 + Suc 0"] exI) (auto simp: sender_at_def)
  qed
next
  case (Cons d0 ds)
  note at = Cons.prems(3) [unfolded sender_at_def]
  obtain n1 where n1: "busy (if env_send env (length fs) = 0 then (MSG_CORE_SEND_JSON_FINISHED, IOTGO_SEND_OK)
      else (MSG_CORE_SEND_JSON_AGAIN, IOTGO_SEND_ERROR)) n1"
    "turn env p = Some (0, p\<lparr>pc_net := n1, sent := fs @ [f]\<rparr>)"
    using sender_sends [OF Cons.prems(1-3,6,8)] by blast
  show ?case
  proof (cases "env_send env (length fs) = 0")
    case True
    with n1 Cons.prems(9) at show ?thesis
      by (intro exI [of _ "Suc 0"] exI) (auto simp: sender_at_def)
  next
    case False
    let ?p = "p\<lparr>pc_net := n1, sent := fs @ [f]\<rparr>"
    have "length (d0 # ds) = 3 - send_counter p" unfolding Cons.prems(4) by simp
    then have c: "send_counter p < 3" by simp
    then have d0: "[1000, 2000, 4000] ! send_counter p = d0" "ds = drop (Suc (send_counter p)) [1000, 2000, 4000]"
      using Cons.prems(4) by (simp_all add: Cons_nth_drop_Suc [symmetric])
    have again: "busy (MSG_CORE_SEND_JSON_AGAIN, IOTGO_SEND_ERROR) (pc_net ?p)" using n1(1) False by simp
    from again_step [OF this, of env] c d0(1) obtain n2 where n2: "settled n2"
      "turn env ?p = Some (0, ?p\<lparr>pc_net := n2, send_counter := Suc (send_counter p), send_queue_timer := Armed d0 False\<rparr>)"
      by auto
    let ?q = "?p\<lparr>pc_net := n2, send_counter := Suc (send_counter p), send_queue_timer := Armed d0 False\<rparr>"
    have "queue_rep (pc_queue ?q) ((type, d) # xs)" using at Cons.prems(2) by simp
    from timer_step [of ?q, OF _ this, of d0 False env] n2(1) obtain n3 where n3: "busy (MSG_CORE_SEND_JSON, 0) n3"
      "turn env ?q = Some (d0, ?q\<lparr>pc_net := n3, send_queue_timer := Disarmed\<rparr>)" by auto
    let ?r = "?q\<lparr>pc_net := n3, send_queue_timer := Disarmed\<rparr>"
    obtain n' ms' where del: "deliver (env_send env) (length (fs @ [f])) ds = (n', ok, ms')" "n = Suc n'" "ms = d0 + ms'"
      using Cons.prems(9) False by (auto split: prod.splits)
    have "sender_at ?r s (fs @ [f]) tx" using at by (simp add: sender_at_def)
    from Cons.IH [of 0 ?r "fs @ [f]" n' ms', OF _ Cons.prems(2) this _ _ Cons.prems(6-8) del(1)] n3(1) d0(2) c
    obtain k p' where k: "turns env k ?r = Some (ms', p')" "sender_at p' s ((fs @ [f]) @ replicate n' f) tx"
      "busy (MSG_CORE_SEND_JSON_FINISHED, if ok then IOTGO_SEND_OK else IOTGO_SEND_ERROR) (pc_net p')"
      by auto
    have "\<exists>K. turns env K p = Some (ms, p')"
      using turns_add [OF turns_1 [OF n1(2)] turns_add [OF turns_1 [OF n2(2)] turns_add [OF turns_1 [OF n3(2)] k(1)]]]
      unfolding del(3) add_0 by blast
    moreover have "sender_at p' s (fs @ replicate n f) tx" using k(2) del(2) by simp
    ultimately show ?thesis using k(3) by blast
  qed
qed

subsection \<open>The whole queue\<close>

lemma queue_worked_off:
  assumes "xs \<noteq> []" "busy (MSG_CORE_SEND_JSON, a) (pc_net p)" "queue_rep s xs" "sender_at p s fs tx"
    and "send_counter p = 0" "\<forall>(type, d) \<in> set xs. type \<noteq> IOTGO_REGISTER \<and> (\<exists>f. network_frame d = Some (Inr f))"
    and "\<forall>i. env_send env i \<le> 0" "transcript (env_send env) (length fs) xs = (gs, tx', ms)"
  shows "\<exists>k p' s'. turns env k p = Some (ms, p') \<and> sender_at p' s' (fs @ gs) (tx @ tx') \<and> settled (pc_net p') \<and>
    queue_rep s' []"
  using assms
proof (induction xs arbitrary: p a s fs tx gs tx' ms)
  case (Cons x xs)
  obtain type d where x: "x = (type, d)" by (cases x)
  from Cons.prems(6) obtain f where f: "network_frame d = Some (Inr f)" "type \<noteq> IOTGO_REGISTER" by (auto simp: x)
  obtain n ok m where del: "deliver (env_send env) (length fs) [1000, 2000, 4000] = (n, ok, m)" by (metis prod_cases3)
  obtain gs1 tx1 ms1 where tr: "transcript (env_send env) (length (fs @ replicate n f)) xs = (gs1, tx1, ms1)"
    by (metis prod_cases3)
  have eq: "gs = replicate n f @ gs1" "tx' = result_text type ok @ tx1" "ms = m + ms1"
    using Cons.prems(8) del tr f by (simp_all add: x frame_of_def)
  from message_tried [OF Cons.prems(2) Cons.prems(3) [unfolded x] Cons.prems(4) _ _ f Cons.prems(7), of _ n ok m]
    Cons.prems(5) del
  obtain k p1 where k: "turns env k p = Some (m, p1)" "sender_at p1 s (fs @ replicate n f) tx"
    "busy (MSG_CORE_SEND_JSON_FINISHED, if ok then IOTGO_SEND_OK else IOTGO_SEND_ERROR) (pc_net p1)" by auto
  have "queue_rep (pc_queue p1) ((type, d) # xs)" using k(2) Cons.prems(3) by (simp add: sender_at_def x)
  from finish_step [OF k(3) this refl, of env] obtain n2 s2 where
    n2: "queue_rep s2 xs" "if xs = [] then settled n2 else busy (MSG_CORE_SEND_JSON, 0) n2"
    "turn env p1 = Some (0, p1\<lparr>pc_net := n2, pc_queue := s2, send_counter := 0,
       mcu_text := mcu_text p1 @ result_text type ok\<rparr>)" by blast
  let ?p2 = "p1\<lparr>pc_net := n2, pc_queue := s2, send_counter := 0, mcu_text := mcu_text p1 @ result_text type ok\<rparr>"
  have at: "sender_at ?p2 s2 (fs @ replicate n f) (tx @ result_text type ok)" using k(2) by (simp add: sender_at_def)
  have two: "turns env (k + Suc 0) p = Some (m + 0, ?p2)" using turns_add [OF k(1) turns_1 [OF n2(3)]] by simp
  show ?case
  proof (cases "xs = []")
    case True
    then have e: "gs = replicate n f" "tx' = result_text type ok" "ms = m + 0" using tr eq by simp_all
    have "settled (pc_net ?p2)" "queue_rep s2 []" using n2(1,2) True by simp_all
    with two at show ?thesis unfolding e by blast
  next
    case False
    have later: "\<forall>(type, d) \<in> set xs. type \<noteq> IOTGO_REGISTER \<and> (\<exists>f. network_frame d = Some (Inr f))"
      using Cons.prems(6) by simp
    have "busy (MSG_CORE_SEND_JSON, 0) (pc_net ?p2)" "send_counter ?p2 = 0" using n2(2) False by simp_all
    from Cons.IH [OF False this(1) n2(1) at this(2) later Cons.prems(7) tr]
    obtain k' p' s' where "turns env k' ?p2 = Some (ms1, p')"
      "sender_at p' s' ((fs @ replicate n f) @ gs1) ((tx @ result_text type ok) @ tx1)" "settled (pc_net p')" "queue_rep s' []"
      by blast
    moreover from turns_add [OF two this(1)] have "\<exists>K. turns env K p = Some (ms, p')" unfolding eq(3) add_0_right by blast
    ultimately show ?thesis unfolding eq append_assoc by blast
  qed
qed simp

lemma deliver_bounds: "deliver ret i ds = (n, ok, ms) \<Longrightarrow> n \<le> Suc (length ds) \<and> ms \<le> sum_list ds"
proof (induction ds arbitrary: i n ms)
  case (Cons d ds)
  obtain n' ok' ms' where "deliver ret (Suc i) ds = (n', ok', ms')" by (metis prod_cases3)
  with Cons show ?case by (fastforce split: if_splits)
qed simp

lemma transcript_bounds:
  "transcript ret i xs = (fs, tx, ms) \<Longrightarrow> length fs \<le> 4 * length xs \<and> ms \<le> 7000 * length xs"
proof (induction xs arbitrary: i fs tx ms)
  case (Cons x xs)
  obtain type d where x: "x = (type, d)" by (cases x)
  obtain n ok m where del: "deliver ret i [1000, 2000, 4000] = (n, ok, m)" by (metis prod_cases3)
  obtain gs tx1 ms1 where tr: "transcript ret (i + n) xs = (gs, tx1, ms1)" by (metis prod_cases3)
  from deliver_bounds [OF del] Cons.IH [OF tr] Cons.prems del tr show ?case by (auto simp: x)
qed simp

text \<open>
  C4: when the task is told that there is something to send, the device is connected, every message
  fits the buffer and no message is the registration, the queue is worked off: the frames handed to
  the connection are, in the order of the queue, each message once, and once more after one, two
  and four seconds while sending fails; the microcontroller is told the result of each of its
  messages; and this takes at most seven seconds a message.
\<close>

theorem server_queue_worked_off:
  assumes "core_q (pc_net p) = [(MSG_CORE_SEND_JSON, a)]" "iotgoDeviceMode (pc_net p) = DEVICE_MODE_WORK_NORMAL"
    and "queue_rep (pc_queue p) xs" "xs \<noteq> []" "send_counter p = 0" "send_queue_timer p = Disarmed"
    and "\<forall>(type, d) \<in> set xs. type \<noteq> IOTGO_REGISTER \<and> (\<exists>f. network_frame d = Some (Inr f))"
    and "\<forall>i. env_send env i \<le> 0"
    and "transcript (env_send env) (length (sent p)) xs = (fs, tx, ms)"
  shows "\<exists>k p'. turns env k p = Some (ms, p') \<and> core_q (pc_net p') = [] \<and> queue_rep (pc_queue p') [] \<and>
    sent p' = sent p @ fs \<and> mcu_text p' = mcu_text p @ tx \<and> ms \<le> 7000 * length xs"
proof -
  have "busy (MSG_CORE_SEND_JSON, a) (pc_net p)" "sender_at p (pc_queue p) (sent p) (mcu_text p)"
    using assms(1,2,6) by (simp_all add: busy_def sender_at_def iotgoDeviceMode_def)
  from queue_worked_off [OF assms(4) this(1) assms(3) this(2) assms(5,7-9)] transcript_bounds [OF assms(9)]
  show ?thesis by (auto simp: sender_at_def settled_def)
qed

text \<open>A state for the examples, and an environment in which only the first send fails.\<close>

definition idle_net :: net where
  "idle_net = net_init\<lparr>device_mode := DEVICE_MODE_WORK_NORMAL\<rparr>"

definition idle_pconn :: "queue_state \<Rightarrow> net \<Rightarrow> pconn" where
  "idle_pconn s n = \<lparr>pc_net = n, pc_queue = s,
     pc_bconn = \<lparr>server_host = [], server_port = 0, distor_conn_timer = Disarmed, distor_timeout_timer = Disarmed,
       post_result_flag = False, bconn_spro = False, distor_last_ip = 0, distor_error_cnt = 0,
       iot_distributor_last_ip = 0, results = [], bconn_calls = []\<rparr>,
     pc_clock = clock_init, network_spro = None,
     client_tcp = \<lparr>local_port = 0, remote_port = 0, remote_ip = 0, connect_cb = False, recon_cb = False,
       recv_cb = False, discon_cb = False, sent_cb = False\<rparr>,
     client_tcp_initialized_flag = False, send_queue_timer = Disarmed, send_counter = 0, ts_counter = 0,
     json_int_reqts = 0, dev_id = ''1000000001'', dev_factory_apikey = ''factory'', dev_owner_uuid = ''owner'',
     server_sequence = [], message_callbacks = [], messages = [], sent = [], mcu_text = [], esp_calls = []\<rparr>"

definition example_env :: "(nat \<Rightarrow> int) \<Rightarrow> pconn_env" where
  "example_env ret = \<lparr>env_sdk = \<lparr>sdk_rand = 0, sdk_time = 0, sdk_opmode = 1, sdk_station = STATION_GOT_IP\<rparr>,
     env_send = ret, env_connect = 0, env_ipaddr = (\<lambda>_. 0), env_jsontree_reset = (\<lambda>c. c\<lparr>jt_depth := 0\<rparr>),
     env_jsontree_printed = (\<lambda>_. [123, 125]), env_temp_buffer = Some (replicate 1024 0),
     env_json_block = Some (replicate 1024 0), env_rand = 0, env_port = 4096, env_zalloc = True,
     env_fm_version = ''1.6.0'', env_model = ''M''\<rparr>"

lemma idle_pconn_fields [simp]:
  "pc_net (idle_pconn s n) = n" "pc_queue (idle_pconn s n) = s" "send_counter (idle_pconn s n) = 0"
  "send_queue_timer (idle_pconn s n) = Disarmed" "sent (idle_pconn s n) = []" "mcu_text (idle_pconn s n) = []"
  by (simp_all add: idle_pconn_def)

lemma example_env_send [simp]: "env_send (example_env ret) = ret"
  by (simp add: example_env_def)

lemma one_message_queue:
  assumes "copy_data bs t = Some d"
  obtains s where "queue_rep s [(t, d)]"
proof -
  have "queue_rep (bump_malloc, empty_queue) []"
    using empty_queue_rep bump_malloc_ok by (auto simp: queue_rep_def intro!: exI [of _ Map.empty])
  from server_queue.add [OF this assms(1), of False] that show ?thesis by (auto simp: add_spec_def)
qed

theorem server_queue_worked_off_witness:
  "\<exists>s k p'. turns (example_env (\<lambda>i. if i = 0 then - 1 else 0)) k
      (idle_pconn s (idle_net\<lparr>core_q := [(MSG_CORE_SEND_JSON, 0)]\<rparr>)) = Some (1000, p') \<and>
    sent p' = [[0x81, 0x82, 0, 0, 0, 0, 104, 105], [0x81, 0x82, 0, 0, 0, 0, 104, 105]] \<and>
    mcu_text p' = ''AT+SEND=ok'' @ [ESC]"
proof -
  have "copy_data [104, 105, 0] 97 = Some [104, 105, 0]" by (simp add: copy_data_def IOTGO_PING_def)
  from one_message_queue [OF this] obtain s where s: "queue_rep s [(97, [104, 105, 0])]" by blast
  have f: "network_frame [104, 105, 0] = Some (Inr [0x81, 0x82, 0, 0, 0, 0, 104, 105])"
    using network_frame_text [of "[104, 105]" "[]"] by (simp add: plain_text_def frame_header_def)
  let ?env = "example_env (\<lambda>i. if i = 0 then - 1 else 0)"
  let ?p = "idle_pconn s (idle_net\<lparr>core_q := [(MSG_CORE_SEND_JSON, 0)]\<rparr>)"
  have "transcript (env_send ?env) (length (sent ?p)) [(97, [104, 105, 0])] =
      ([[0x81, 0x82, 0, 0, 0, 0, 104, 105], [0x81, 0x82, 0, 0, 0, 0, 104, 105]], ''AT+SEND=ok'' @ [ESC], 1000)"
    by (simp add: frame_of_def f result_text_def IOTGO_USER_DEFAULT_def)
  moreover have "core_q (pc_net ?p) = [(MSG_CORE_SEND_JSON, 0)]" "iotgoDeviceMode (pc_net ?p) = DEVICE_MODE_WORK_NORMAL"
    by (simp_all add: idle_net_def iotgoDeviceMode_def)
  moreover have "queue_rep (pc_queue ?p) [(97, [104, 105, 0])]" "\<forall>i. env_send ?env i \<le> 0" using s by simp_all
  ultimately have "\<exists>k p'. turns ?env k ?p = Some (1000, p') \<and> core_q (pc_net p') = [] \<and> queue_rep (pc_queue p') [] \<and>
      sent p' = sent ?p @ [[0x81, 0x82, 0, 0, 0, 0, 104, 105], [0x81, 0x82, 0, 0, 0, 0, 104, 105]] \<and>
      mcu_text p' = mcu_text ?p @ ''AT+SEND=ok'' @ [ESC] \<and> 1000 \<le> 7000 * length [(97 :: nat, [104, 105, 0 :: u8])]"
    using f by (intro server_queue_worked_off) (simp_all add: IOTGO_REGISTER_def)
  then show ?thesis by (intro exI [of _ s]) auto
qed

subsection \<open>A queue that is emptied\<close>

lemma post_core_appends: "\<exists>r. core_q (post_core m a s) = core_q s @ r"
  by (simp add: post_core_def)

lemma no_head: "node_at h 0 = None"
  by (simp add: node_at_def split: option.split block.split)

text \<open>
  when the connection comes up while a request to send is still waiting, its handler empties the
  queue, and the request then reads the type of the head through the null pointer.
\<close>

theorem flush_breaks_pending_send:
  assumes "core_q (pc_net p) = (MSG_CORE_SERVER_CONNECTED, a) # (MSG_CORE_SEND_JSON, b) # q" "queue_rep (pc_queue p) xs"
  shows "\<exists>p'. task_step env p = Some p' \<and> task_step env p' = None"
proof -
  from assms(2) obtain F where F: "qrep F (snd (pc_queue p)) xs" by (auto simp: queue_rep_def)
  then obtain q' where q': "iotgoQueueDeleteAll (snd (pc_queue p)) = Some q'" and null: "q_head q' = 0"
    using queue_delete_all by fastforce
  let ?s = "(call QueueDeleteAll ((pc_net p)\<lparr>core_q := (MSG_CORE_SEND_JSON, b) # q\<rparr>))\<lparr>try_conn_server_counter := 0\<rparr>"
  have "core_step (env_sdk env) (pc_net p) = Some (post_core MSG_CORE_WS_CONNECT 0 ?s)"
    by (simp add: core_step_def task_defs assms(1))
  moreover have "calls (post_core MSG_CORE_WS_CONNECT 0 ?s) = calls (pc_net p) @ [QueueDeleteAll]"
    by (simp add: post_core_def call_def)
  ultimately have one: "task_step env p =
      Some (set_link q' (p\<lparr>pc_net := post_core MSG_CORE_WS_CONNECT 0 ?s\<rparr>))" (is "_ = Some ?p")
    using q' by (simp add: task_step_def assms(1) calls_last_def pconn_do_def pc_delete_all_def pc_link_def)
  obtain r where "core_q (post_core MSG_CORE_WS_CONNECT 0 ?s) = core_q ?s @ r" using post_core_appends by blast
  then have "core_q (pc_net ?p) = (MSG_CORE_SEND_JSON, b) # q @ r" by (simp add: set_link_def call_def)
  from task_step_call [OF this, of PconnSendJson env] obtain n where
    "task_step env ?p = iotgoPconnSendJson env (?p\<lparr>pc_net := n\<rparr>)"
    by (auto simp: one_call_def pconn_do_def)
  also have "\<dots> = None"
    using null by (simp add: iotgoPconnSendJson_def pc_link_def set_link_def no_head Let_def)
  finally show ?thesis using one by blast
qed

theorem flush_breaks_pending_send_witness:
  "\<exists>p'. task_step (example_env (\<lambda>i. 0)) (idle_pconn (bump_malloc, empty_queue)
      (idle_net\<lparr>core_q := [(MSG_CORE_SERVER_CONNECTED, 0), (MSG_CORE_SEND_JSON, 0)]\<rparr>)) = Some p' \<and>
    task_step (example_env (\<lambda>i. 0)) p' = None"
proof -
  have "queue_rep (bump_malloc, empty_queue) []"
    using empty_queue_rep bump_malloc_ok by (auto simp: queue_rep_def intro!: exI [of _ Map.empty])
  then show ?thesis by (intro flush_breaks_pending_send [where xs = "[]" and a = 0 and b = 0 and q = "[]"]) simp_all
qed

lemma send_with_next:
  assumes "core_q (pc_net r) = [(MSG_CORE_SEND_JSON, a), ev]" "device_mode (pc_net r) = DEVICE_MODE_WORK_NORMAL"
    and "queue_rep (pc_queue r) ((type, d) # xs)" "network_frame d = Some (Inr f)" "env_send env (length (sent r)) = 0"
  shows "\<exists>n. task_step env r = Some (r\<lparr>pc_net := n, sent := sent r @ [f]\<rparr>) \<and>
    core_q n = [ev, (MSG_CORE_SEND_JSON_FINISHED, IOTGO_SEND_OK)] \<and> device_mode n = DEVICE_MODE_WORK_NORMAL"
proof -
  from task_step_call [OF assms(1), of PconnSendJson env] assms(2) obtain n where
    n: "core_q n = [ev]" "device_mode n = DEVICE_MODE_WORK_NORMAL" "task_step env r = iotgoPconnSendJson env (r\<lparr>pc_net := n\<rparr>)"
    by (auto simp: one_call_def pconn_do_def)
  from queue_rep_head [OF assms(3)] obtain nd where
    nd: "node_at (q_heap (snd (pc_queue r))) (q_head (snd (pc_queue r))) = Some nd" "n_data nd \<noteq> 0" by blast
  have "iotgoQueueHeadData (snd (pc_queue r)) = Some d" using server_queue.head [OF assms(3)] by simp
  then have "task_step env r = Some (r\<lparr>pc_net := post_core MSG_CORE_SEND_JSON_FINISHED IOTGO_SEND_OK n, sent := sent r @ [f]\<rparr>)"
    using n nd assms by (simp add: iotgoPconnSendJson_def pc_link_def iotgoDeviceMode_def
      iotgoNetworkSendString_def esp_send_def send_codes)
  moreover have "core_q (post_core MSG_CORE_SEND_JSON_FINISHED IOTGO_SEND_OK n) = [ev, (MSG_CORE_SEND_JSON_FINISHED, IOTGO_SEND_OK)]"
    using n(1) by (simp add: post_core_def IOTGO_TASK_CORE_QLEN_def)
  ultimately show ?thesis using n(2) by (metis post_fields(2))
qed

text \<open>Two messages that sending has finished, and one message in the queue.\<close>

lemma finished_twice:
  assumes "core_q (pc_net r) = [(MSG_CORE_SEND_JSON_FINISHED, IOTGO_SEND_OK), (MSG_CORE_SEND_JSON_FINISHED, IOTGO_SEND_OK)]"
    and "queue_rep (pc_queue r) [(type, d)]"
  shows "\<exists>p'. task_step env r = Some p' \<and> sent p' = sent r \<and> task_step env p' = None"
proof -
  have call: "\<exists>n. core_q n = evs \<and> task_step env r = iotgoPconnSendNextJson IOTGO_SEND_OK (r\<lparr>pc_net := n\<rparr>)"
    if "core_q (pc_net r) = (MSG_CORE_SEND_JSON_FINISHED, IOTGO_SEND_OK) # evs" for r evs
    using task_step_call [OF that, of "PconnSendNextJson IOTGO_SEND_OK" env] by (auto simp: one_call_def pconn_do_def)
  from call [OF assms(1)] obtain n where n: "core_q n = [(MSG_CORE_SEND_JSON_FINISHED, IOTGO_SEND_OK)]"
    "task_step env r = iotgoPconnSendNextJson IOTGO_SEND_OK (r\<lparr>pc_net := n\<rparr>)" by auto
  from server_queue.del [OF assms(2)] obtain q where
    q: "iotgoQueueDeleteHead (snd (pc_queue r)) = Some q" "queue_rep (fst (pc_queue r), q) []" by (auto simp: queue_del_def)
  then obtain F where "qrep F q []" by (auto simp: queue_rep_def)
  then have empty: "q_head q = 0" "q_length q = 0" by (simp_all add: queue_empty)
  have "iotgoQueueHeadType (snd (pc_queue r)) = Some type" using server_queue.head [OF assms(2)] by simp
  then obtain p' where p': "task_step env r = Some p'" "pc_net p' = n" "pc_link p' = q" "sent p' = sent r"
    using n(2) q(1) empty by (cases "type \<ge> IOTGO_USER_DEFAULT") (simp_all add: iotgoPconnSendNextJson_def pc_link_def
      set_link_def post_next_def iotgoQueueLength_def send_codes)
  from call [of p'] n(1) p'(2) obtain n' where
    "task_step env p' = iotgoPconnSendNextJson IOTGO_SEND_OK (p'\<lparr>pc_net := n'\<rparr>)" by auto
  also have "\<dots> = None"
    using p'(3) empty(1) by (simp add: iotgoPconnSendNextJson_def pc_link_def iotgoQueueHeadType_def no_head)
  finally show ?thesis using p' by blast
qed

text \<open>A message is queued, and then the timer runs.\<close>

lemma queued_and_timer:
  assumes "core_q (pc_net p) = []" "iotgoDeviceMode (pc_net p) = DEVICE_MODE_WORK_NORMAL"
    and "queue_rep (pc_queue p) []" "send_queue_timer p \<noteq> Disarmed" "copy_data bs type = Some d"
  shows "\<exists>p'. pconn_run env toks [MessageQueued bs type False, SendTimer] p = Some p' \<and> sent p' = sent p \<and>
    queue_rep (pc_queue p') [(type, d)] \<and> device_mode (pc_net p') = DEVICE_MODE_WORK_NORMAL \<and>
    core_q (pc_net p') = [(MSG_CORE_SEND_JSON, 0), (MSG_CORE_SEND_JSON, 0)]"
proof -
  from server_queue.add [OF assms(3,5), of False] obtain q where
    q: "iotgoQueueAdd (fst (pc_queue p)) (Some bs) type False (snd (pc_queue p)) = Some (True, True, q)"
    and rep: "queue_rep (fst (pc_queue p), q) [(type, d)]"
    by (auto simp: add_spec_def queue_add_def)
  have "iotgoQueueLength q = 1" using server_queue.len [OF rep] by simp
  with q rep assms(1,2,4) show ?thesis
    by (simp add: pconn_step_def pc_queue_add_def pc_link_def set_link_def cbSendQueueTimer_def post_next_def
      post_core_def IOTGO_TASK_CORE_QLEN_def iotgoDeviceMode_def)
qed

lemma pconn_run_append:
  "pconn_run env toks (es @ fs) p = Option.bind (pconn_run env toks es p) (pconn_run env toks fs)"
proof (induction es arbitrary: p)
  case (Cons e es)
  then show ?case by (cases "pconn_step env toks e p") simp_all
qed simp

text \<open>
  a retry timer that was armed before the queue was emptied makes the task send the next message
  twice and take it out of the queue twice: with one message, the second time through the null pointer.
\<close>

theorem stale_retry_timer_crashes:
  assumes "core_q (pc_net p) = []" "iotgoDeviceMode (pc_net p) = DEVICE_MODE_WORK_NORMAL"
    and "queue_rep (pc_queue p) []" "send_queue_timer p \<noteq> Disarmed" "\<forall>i. env_send env i = 0"
    and "copy_data bs type = Some d" "network_frame d = Some (Inr f)"
  shows "\<exists>p'. pconn_run env toks [MessageQueued bs type False, SendTimer, TaskRuns, TaskRuns, TaskRuns] p = Some p' \<and>
    sent p' = sent p @ [f, f] \<and> pconn_step env toks TaskRuns p' = None"
proof -
  from queued_and_timer [OF assms(1-4,6)] obtain p2 where
    p2: "pconn_run env toks [MessageQueued bs type False, SendTimer] p = Some p2" "sent p2 = sent p"
    "queue_rep (pc_queue p2) [(type, d)]" "device_mode (pc_net p2) = DEVICE_MODE_WORK_NORMAL"
    "core_q (pc_net p2) = [(MSG_CORE_SEND_JSON, 0), (MSG_CORE_SEND_JSON, 0)]" by blast
  from send_with_next [OF p2(5,4,3) assms(7)] assms(5) p2(2) obtain n3 where
    3: "task_step env p2 = Some (p2\<lparr>pc_net := n3, sent := sent p @ [f]\<rparr>)" (is "_ = Some ?p3") and
    q3: "core_q n3 = [(MSG_CORE_SEND_JSON, 0), (MSG_CORE_SEND_JSON_FINISHED, IOTGO_SEND_OK)]" "device_mode n3 = DEVICE_MODE_WORK_NORMAL"
    by auto
  from send_with_next [of ?p3, OF _ _ _ assms(7), of 0 _ type "[]" env] q3 p2(3) assms(5) obtain n4 where
    4: "task_step env ?p3 = Some (?p3\<lparr>pc_net := n4, sent := sent p @ [f, f]\<rparr>)" (is "_ = Some ?p4") and
    q4: "core_q n4 = [(MSG_CORE_SEND_JSON_FINISHED, IOTGO_SEND_OK), (MSG_CORE_SEND_JSON_FINISHED, IOTGO_SEND_OK)]"
    by auto
  have "queue_rep (pc_queue ?p4) [(type, d)]" using p2(3) by simp
  from finished_twice [OF _ this, of env] q4 obtain p5 where
    5: "task_step env ?p4 = Some p5" "sent p5 = sent p @ [f, f]" "task_step env p5 = None" by auto
  have "pconn_run env toks [TaskRuns, TaskRuns, TaskRuns] p2 = Some p5"
    using 3 4 5(1) by (simp add: pconn_step_def)
  with pconn_run_append [of env toks "[MessageQueued bs type False, SendTimer]" "[TaskRuns, TaskRuns, TaskRuns]" p] p2(1)
  have "pconn_run env toks [MessageQueued bs type False, SendTimer, TaskRuns, TaskRuns, TaskRuns] p = Some p5"
    by (simp del: pconn_run.simps)
  with 5(2,3) show ?thesis by (simp only: pconn_step_def pconn_event.case) blast
qed

theorem stale_retry_timer_crashes_witness:
  "\<exists>p'. pconn_run (example_env (\<lambda>i. 0)) (\<lambda>_. []) [MessageQueued [104, 105, 0] 97 False, SendTimer, TaskRuns, TaskRuns, TaskRuns]
      ((idle_pconn (bump_malloc, empty_queue) idle_net)\<lparr>send_queue_timer := Armed 4000 False\<rparr>) = Some p' \<and>
    pconn_step (example_env (\<lambda>i. 0)) (\<lambda>_. []) TaskRuns p' = None"
proof -
  let ?p = "(idle_pconn (bump_malloc, empty_queue) idle_net)\<lparr>send_queue_timer := Armed 4000 False\<rparr>"
  have "queue_rep (bump_malloc, empty_queue) []"
    using empty_queue_rep bump_malloc_ok by (auto simp: queue_rep_def intro!: exI [of _ Map.empty])
  then have rep: "queue_rep (pc_queue ?p) []" by simp
  have d: "copy_data [104, 105, 0] 97 = Some [104, 105, 0]" by (simp add: copy_data_def IOTGO_PING_def)
  have f: "network_frame [104, 105, 0] = Some (Inr [0x81, 0x82, 0, 0, 0, 0, 104, 105])"
    using network_frame_text [of "[104, 105]" "[]"] by (simp add: plain_text_def frame_header_def)
  have "core_q (pc_net ?p) = []" "iotgoDeviceMode (pc_net ?p) = DEVICE_MODE_WORK_NORMAL" "send_queue_timer ?p \<noteq> Disarmed"
    by (simp_all add: idle_net_def net_init_def iotgoDeviceMode_def)
  from stale_retry_timer_crashes [OF this(1,2) rep this(3) _ d f, of "example_env (\<lambda>i. 0)" "\<lambda>_. []"]
  show ?thesis by auto
qed

end
