(* ===== verification/PconnSession.thy ===== *)
theory PconnSession
  imports PconnQueue SproStream ClockSpec
begin

text \<open>
  Messages from the server as they act on the device: which messages are obeyed, how the answer to
  the registration and the answer to the request for the date bring the device up, from the bytes of
  a segment to the message for the device task.
\<close>

subsection \<open>The loops over tokens\<close>

lemma next_Cons [simp]: "jsonparse_next (t # ts) = (t, ts)" "jsonparse_next [] = (JTok JSON_TYPE_ERROR [] 0, [])"
  by (simp_all add: jsonparse_next_def)

lemma pkg_loop_Nil [simp]: "pkg_loop [] f = f"
  by (subst pkg_loop.simps) (simp add: Let_def)

lemma pkg_loop_Cons:
  "jt_type t \<noteq> JSON_TYPE_ERROR \<Longrightarrow>
    pkg_loop (t # ts) f = (case pkg_value t ts f of (None, _) \<Rightarrow> f | (Some f', us) \<Rightarrow> pkg_loop us f')"
  by (subst pkg_loop.simps) (simp add: Let_def case_prod_beta split: option.split prod.split)

lemma date_loop_Nil [simp]: "date_loop [] d = d"
  by (subst date_loop.simps) (simp add: Let_def)

lemma date_loop_Cons:
  "jt_type t \<noteq> JSON_TYPE_ERROR \<Longrightarrow>
    date_loop (t # ts) d =
      (if jt_type t = JSON_TYPE_PAIR_NAME \<and> jt_value t = ''date''
       then (case jsonIoTgoGetString 25 ts of (None, _) \<Rightarrow> d | (Some x, us) \<Rightarrow> date_loop us (Some x))
       else date_loop ts d)"
  by (subst date_loop.simps) (auto simp: Let_def case_prod_beta split: option.split prod.split)

text \<open>The tokens of an object with text and number members.\<close>

definition text_member :: "string \<Rightarrow> string \<Rightarrow> jtok list" where
  "text_member n v = [JTok JSON_TYPE_PAIR_NAME n 0, JTok JSON_TYPE_PAIR [] 0, JTok JSON_TYPE_STRING v 0]"

definition number_member :: "string \<Rightarrow> int \<Rightarrow> jtok list" where
  "number_member n i = [JTok JSON_TYPE_PAIR_NAME n 0, JTok JSON_TYPE_PAIR [] 0, JTok JSON_TYPE_NUMBER [] i]"

definition comma :: jtok where "comma = JTok (CHR '','') [] 0"

definition object_tokens :: "jtok list \<Rightarrow> jtok list" where
  "object_tokens ts = JTok JSON_TYPE_OBJECT [] 0 # ts @ [JTok (CHR ''}'') [] 0]"

text \<open>The answers of the server to the registration and to the request for the date.\<close>

definition register_answer :: "string \<Rightarrow> string \<Rightarrow> jtok list" where
  "register_answer dev key =
     object_tokens (number_member ''error'' 0 @ comma # text_member ''deviceid'' dev @ comma # text_member ''apikey'' key)"

definition date_answer :: "string \<Rightarrow> string \<Rightarrow> string \<Rightarrow> jtok list" where
  "date_answer dev key date =
     object_tokens (number_member ''error'' 0 @ comma # text_member ''deviceid'' dev @ comma # text_member ''apikey'' key @
       comma # text_member ''date'' date)"

lemmas token_defs = object_tokens_def text_member_def number_member_def comma_def
  JSON_TYPE_ARRAY_def JSON_TYPE_OBJECT_def JSON_TYPE_PAIR_def JSON_TYPE_PAIR_NAME_def JSON_TYPE_STRING_def
  JSON_TYPE_NUMBER_def JSON_TYPE_ERROR_def

lemmas value_defs = pkg_value_def text_field_def number_field_def jsonIoTgoGetString_def jsonIoTgoGetNumber_def

lemma register_answer_fields:
  assumes "length dev \<le> 10" "length key \<le> 36"
  shows "pkg_loop (register_answer dev key) no_fields =
    no_fields\<lparr>pf_error := Some 0, pf_deviceid := Some dev, pf_apikey := Some key\<rparr>"
  using assms by (simp add: register_answer_def token_defs value_defs pkg_loop_Cons no_fields_def Let_def)

lemma date_answer_fields:
  assumes "length dev \<le> 10" "length key \<le> 36" "length date \<le> 24"
  shows "pkg_loop (date_answer dev key date) no_fields =
    no_fields\<lparr>pf_error := Some 0, pf_deviceid := Some dev, pf_apikey := Some key, pf_date := Some date\<rparr>"
  using assms by (simp add: date_answer_def token_defs value_defs pkg_loop_Cons no_fields_def Let_def)

lemma date_answer_date:
  assumes "length date \<le> 24"
  shows "date_loop (date_answer dev key date) None = Some date"
  using assms by (simp add: date_answer_def token_defs jsonIoTgoGetString_def date_loop_Cons Let_def)

lemma no_fields_simps [simp]:
  "pf_apikey no_fields = None" "pf_deviceid no_fields = None" "pf_error no_fields = None" "pf_action no_fields = None"
  "\<not> pf_params no_fields" "pf_date no_fields = None" "\<not> pf_config no_fields" "pf_sequence no_fields = None"
  by (simp_all add: no_fields_def)

lemma parse_fields:
  "pkg_loop (toks s) no_fields = f \<Longrightarrow> pf_sequence f = None \<Longrightarrow> parseTypeOfIoTgoPkg env toks s p = classify env f p"
  by (simp add: parseTypeOfIoTgoPkg_def)

text \<open>The answer to a registration, when the owner is another one.\<close>

lemma register_parsed:
  assumes "toks s = register_answer (dev_id q) key" "length (dev_id q) \<le> 10" "length key \<le> 36"
    and "length key = length (dev_factory_apikey q)" "key \<noteq> dev_factory_apikey q" "key \<noteq> dev_owner_uuid q"
  shows "parseTypeOfIoTgoPkg env toks s q = (IOTGO_PKG_TYPE_RESP_OF_INIT, q\<lparr>dev_owner_uuid := key\<rparr>)"
proof -
  let ?f = "no_fields\<lparr>pf_error := Some 0, pf_deviceid := Some (dev_id q), pf_apikey := Some key\<rparr>"
  have "parseTypeOfIoTgoPkg env toks s q = classify env ?f q"
    by (rule parse_fields) (simp_all add: assms(1-3) register_answer_fields)
  moreover have "\<not> from_owner ?f q" using assms(6) by (simp add: from_owner_def)
  ultimately show ?thesis using assms(4,5) by (simp add: classify_def Let_def)
qed

subsection \<open>Who is obeyed\<close>



subsection \<open>From the segment to the message\<close>

definition handshake_text :: bytes where
  "handshake_text = bytes_of ''HTTP/1.1 101 Switching Protocols''"

text \<open>A text of the server that fits the buffer and does not contain the text of the handshake.\<close>

definition server_text :: "bytes \<Rightarrow> bool" where
  "server_text m \<longleftrightarrow> 0 \<notin> set m \<and> 2 * length (ws_encode (0x81, m)) \<le> 2048 \<and>
     c_strstr (ws_encode (0x81, m)) handshake_text = None"

definition listening :: "pconn \<Rightarrow> bool" where
  "listening p \<longleftrightarrow> (\<exists>s. network_spro p = Some s \<and> pkg_type s = SPRO_PKG_TYPE_WEBSOCKET13 \<and> spro_inv s \<and> ws_timer s \<and>
     contents s = [] \<and> buffer_size s = 2048 \<and> pkg_proc_cb s \<noteq> None)"

lemma no_handshake:
  assumes "c_strstr f handshake_text = None"
  shows "indexOf (f @ 0 # rest) handshake_text = Some (- 1)"
proof -
  have "c_string (f @ 0 # rest) = c_string f" by (simp add: c_string_def takeWhile_tail)
  moreover have "c_strstr (c_string f) handshake_text = None"
    using assms c_strstr_prefix_absent [of "c_string f" "dropWhile (\<lambda>b. b \<noteq> 0) f"] by (simp add: c_string_def)
  ultimately show ?thesis by (simp add: indexOf_def)
qed

lemma frame_data_encode:
  assumes "length m < 65536"
  shows "frame_data (ws_encode (0x81, m) @ behind) (length (ws_encode (0x81, m))) = Some (Some (m @ behind))"
proof (cases "length m \<le> 125")
  case True
  then have "unat (word_of_nat (length m) :: u8) = length m" by (intro unat_byte) simp
  moreover from this have "(word_of_nat (length m) :: u8) \<le> 125" using True by (simp add: word_le_nat_alt)
  ultimately show ?thesis using True by (simp add: frame_data_def byte_at_def ws_encode_def)
next
  case False
  have "unat (word_of_nat (length m div 256) :: u8) = length m div 256" "unat (word_of_nat (length m mod 256) :: u8) = length m mod 256"
    using assms by (intro unat_byte, simp)+
  then have "to_u16 (int (unat (word_of_nat (length m div 256) :: u8) * 256 + unat (word_of_nat (length m mod 256) :: u8))) = length m"
    using assms by (simp add: to_u16_small del: of_nat_add of_nat_mult)
  with False show ?thesis
    by (simp add: frame_data_def byte_at_def ws_encode_def Let_def del: of_nat_add of_nat_mult)
qed

lemma packet_acts:
  assumes "server_text m"
  shows "clientTCPSproOnePkgCb env toks (ws_encode (0x81, m) @ 0 # rest) (length (ws_encode (0x81, m))) p =
    Some (act_on_pkg env toks (m @ 0 # rest) (on_net (iotgoCoreRefreshLastPkgTime (env_sdk env)) p))"
proof -
  have "length m < 65536" using assms by (auto simp: server_text_def ws_encode_def Let_def split: if_splits)
  moreover have "byte_at (ws_encode (0x81, m) @ 0 # rest) 0 = Some 0x81" by (simp add: byte_at_def ws_encode_def Let_def)
  ultimately show ?thesis
    using assms no_handshake [of "ws_encode (0x81, m)" rest]
    by (simp add: clientTCPSproOnePkgCb_def server_text_def frame_data_encode handshake_text_def [symmetric])
qed

lemma received_text:
  assumes "listening p" "server_text m"
  shows "\<exists>s. listening (p\<lparr>network_spro := s\<rparr>) \<and> pconn_step env toks (Received (0 # rest) (ws_encode (0x81, m))) p =
    Some (act_on_pkg env toks (m @ 0 # rest) (on_net (iotgoCoreRefreshLastPkgTime (env_sdk env)) (p\<lparr>network_spro := s\<rparr>)))"
proof -
  from assms(1) obtain s where s: "network_spro p = Some s" "pkg_type s = SPRO_PKG_TYPE_WEBSOCKET13" "spro_inv s" "ws_timer s"
    "contents s = []" "buffer_size s = 2048" "pkg_proc_cb s \<noteq> None" by (auto simp: listening_def)
  then obtain cb where cb: "pkg_proc_cb s = Some cb" by blast
  let ?f = "ws_encode (0x81, m)"
  have msg: "ws_message (0x81, m)" "2 * length ?f \<le> 2048" "?f \<noteq> []"
    using assms(2) by (auto simp: server_text_def ws_message_def ws_encode_def Let_def split: if_splits)
  then have "whole_frame ?f" by (simp add: whole_frame_def ws_head_encode)
  from ws_chop_frame [OF this, of "[]"] have "ws_chop ?f = ([(?f, True)], [])" by (simp add: ws_chop_Wait)
  then have chop: "ws_chop (take (buffer_size s) (contents s @ ?f)) = ([(?f, True)], [])" using s(5,6) msg(2) by simp
  have "ws_head (contents s) = Wait" "2 * length ?f \<le> buffer_size s" using s(5,6) msg(2) by simp_all
  from ws_segment [OF s(2-4) this(1) msg(3) this(2) chop, of 0] obtain t where
    t: "spTcpRecv (Some s) 0 (Some ?f) = Some (Some t)" "spro_inv t" "ws_timer t" "same_object s t"
    "packages t = packages s @ [Package cb 0 ?f (length ?f) True]" "contents t = []"
    using cb by (auto simp: pack_def)
  have "listening (p\<lparr>network_spro := Some t\<rparr>)"
    using t s by (auto simp: listening_def same_object_def)
  moreover have "pconn_step env toks (Received (0 # rest) ?f) p =
      Some (act_on_pkg env toks (m @ 0 # rest) (on_net (iotgoCoreRefreshLastPkgTime (env_sdk env)) (p\<lparr>network_spro := Some t\<rparr>)))"
    by (simp add: pconn_step_def clientTCPRecvCallback_def s(1) t(1,5) packet_acts [OF assms(2)])
  ultimately show ?thesis by blast
qed

subsection \<open>The way from the registration to the device task\<close>

text \<open>What stays the same from step to step, or is said to change.\<close>

definition session :: "pconn \<Rightarrow> string \<Rightarrow> string \<Rightarrow> bytes list \<Rightarrow> (IoTgoSignalSet \<times> nat) list \<Rightarrow> bool" where
  "session p dev key fs dq \<longleftrightarrow> listening p \<and> dev_id p = dev \<and> dev_owner_uuid p = key \<and> sent p = fs \<and>
     device_q (pc_net p) = dq"

lemma session_net:
  "session p dev key fs dq \<Longrightarrow> device_q n = dq \<Longrightarrow> session (p\<lparr>pc_net := n\<rparr>) dev key fs dq"
  by (simp add: session_def listening_def)

lemma str_of_tail [simp]: "str_of (m @ 0 # rest) = str_of m"
  by (simp add: str_of_def takeWhile_tail)

lemma post_core_session [simp]: "device_q (post_core m a n) = device_q n" "device_mode (post_core m a n) = device_mode n"
  "is_first_action_date (post_core m a n) = is_first_action_date n"
  by (simp_all add: post_core_def)

lemma registration_answered:
  assumes "session p dev owner fs dq" "core_q (pc_net p) = []" "server_text m"
    and "toks (str_of m) = register_answer dev key" "length dev \<le> 10" "length key \<le> 36"
    and "length key = length (dev_factory_apikey p)" "key \<noteq> dev_factory_apikey p" "key \<noteq> owner"
  shows "\<exists>p'. pconn_step env toks (Received (0 # rest) (ws_encode (0x81, m))) p = Some p' \<and> session p' dev key fs dq \<and>
    core_q (pc_net p') = [(MSG_CORE_REGISTERED, 0)] \<and> device_mode (pc_net p') = device_mode (pc_net p) \<and>
    pc_queue p' = pc_queue p"
proof -
  have "listening p" using assms(1) by (simp add: session_def)
  from received_text [OF this assms(3), of env toks rest] obtain s where
    s: "listening (p\<lparr>network_spro := s\<rparr>)" "pconn_step env toks (Received (0 # rest) (ws_encode (0x81, m))) p =
    Some (act_on_pkg env toks (m @ 0 # rest) (on_net (iotgoCoreRefreshLastPkgTime (env_sdk env)) (p\<lparr>network_spro := s\<rparr>)))"
    by blast
  let ?q = "on_net (iotgoCoreRefreshLastPkgTime (env_sdk env)) (p\<lparr>network_spro := s\<rparr>)"
  have "parseTypeOfIoTgoPkg env toks (str_of m) ?q = (IOTGO_PKG_TYPE_RESP_OF_INIT, ?q\<lparr>dev_owner_uuid := key\<rparr>)"
    using assms(1,4-9) by (intro register_parsed) (simp_all add: session_def on_net_def)
  then have "act_on_pkg env toks (m @ 0 # rest) ?q =
      pc_post MSG_CORE_REGISTERED 0 (tell_device ReqofRegisterCallback (m @ 0 # rest) (?q\<lparr>dev_owner_uuid := key\<rparr>))"
    by (simp add: act_on_pkg_def)
  with s assms(1,2) show ?thesis
    by (simp add: session_def listening_def tell_device_def hand_over_def on_net_def iotgoCoreRefreshLastPkgTime_def)
qed

lemma registered_handled:
  assumes "session p dev key fs dq" "core_q (pc_net p) = [(MSG_CORE_REGISTERED, a)]" "\<not> setting_mode (pc_net p)"
  shows "\<exists>p'. pconn_step env toks TaskRuns p = Some p' \<and> session p' dev key fs dq \<and> core_q (pc_net p') = [(MSG_CORE_DATE, 0)] \<and>
    device_mode (pc_net p') = DEVICE_MODE_WORK_NORMAL \<and> is_first_action_date (pc_net p') \<and> pc_queue p' = pc_queue p"
proof -
  have "\<not> setting_mode ((pc_net p)\<lparr>core_q := [], try_register_counter := 0\<rparr>)"
    using assms(3) by (simp add: setting_mode_def iotgoDeviceMode_def)
  then show ?thesis using assms(1,2)
    by (auto simp: pconn_step_def task_step_def core_step_def task_defs calls_last_def iotgoSetDeviceMode_def Let_def
      intro!: session_net) (simp add: session_def)
qed

definition date_request :: "string \<Rightarrow> string \<Rightarrow> jsontree_value" where
  "date_request dev key = JtObject [(''userAgent'', JtString ''device''), (''apikey'', JtString key),
     (''deviceid'', JtString dev), (''action'', JtString ''date'')]"

text \<open>A library that prints short texts, and memory for them.\<close>

definition printing_env :: "pconn_env \<Rightarrow> bool" where
  "printing_env env \<longleftrightarrow> reset_ok (env_jsontree_reset env) \<and>
     (\<forall>c. plain_text (env_jsontree_printed env c) \<and> length (env_jsontree_printed env c) < 1024) \<and>
     (\<exists>b. env_temp_buffer env = Some b \<and> length b = 1024) \<and> (\<exists>b. env_json_block env = Some b \<and> length b = 1024)"

lemma date_requested:
  assumes "session p dev key fs dq" "core_q (pc_net p) = [(MSG_CORE_DATE, a)]" "queue_rep (pc_queue p) []" "printing_env env"
  shows "\<exists>p' c. pconn_step env toks TaskRuns p = Some p' \<and> session p' dev key fs dq \<and> core_q (pc_net p') = [(MSG_CORE_SEND_JSON, 0)] \<and>
    device_mode (pc_net p') = device_mode (pc_net p) \<and> is_first_action_date (pc_net p') = is_first_action_date (pc_net p) \<and>
    jt_values c ! 1 = Some (date_request dev key) \<and> queue_rep (pc_queue p') [(IOTGO_DATE, env_jsontree_printed env c @ [0])]"
proof -
  from assms(4) obtain temp block where env: "env_temp_buffer env = Some temp" "length temp = 1024"
    "env_json_block env = Some block" "length block = 1024" "reset_ok (env_jsontree_reset env)"
    and pr: "\<And>c. plain_text (env_jsontree_printed env c)" "\<And>c. length (env_jsontree_printed env c) < 1024"
    by (auto simp: printing_env_def)
  let ?n = "call PconnDeviceDate ((pc_net p)\<lparr>core_q := []\<rparr>)"
  have "task_step env p = Option.bind (iotgoPconnDeviceDate env (p\<lparr>pc_net := ?n\<rparr>)) (pconn_do_all env [])"
    using assms(2) by (simp add: task_step_def core_step_def task_defs calls_last_def call_def pconn_do_def)
  then have step: "task_step env p = iotgoPconnDeviceDate env (p\<lparr>pc_net := ?n\<rparr>)" by (simp only: pconn_do_one)
  have "CHR ''/'' \<notin> set ''iotgo_tree_date''" by simp
  from json_ws_send_text [OF env(5,4) _ this, of "replicate 1024 0" "date_request dev key" "env_jsontree_printed env"] obtain c where
    c: "jt_values c ! 1 = Some (date_request dev key)" and
    printed: "json_ws_send (env_jsontree_reset env) (env_jsontree_printed env) (Some block)
      (JtObject [(''iotgo_tree_date'', date_request dev key)]) ''iotgo_tree_date'' (replicate 1024 0) =
      Some (env_jsontree_printed env c @ drop (length (env_jsontree_printed env c)) (replicate 1024 0))"
    using pr(2) by auto
  let ?t = "env_jsontree_printed env c"
  obtain k where k: "1024 - length ?t = Suc k" using pr(2) [of c] by (metis Suc_diff_Suc)
  have "copy_data (?t @ drop (length ?t) (replicate 1024 0)) IOTGO_DATE = Some (?t @ [0])"
    using pr(1) [of c] by (simp add: copy_data_def IOTGO_DATE_def IOTGO_PING_def k plain_text_def takeWhile_tail)
      (metis takeWhile_eq_all_conv)
  from server_queue.add [OF assms(3) this, of False] obtain q where
    q: "iotgoQueueAdd (fst (pc_queue p)) (Some (?t @ drop (length ?t) (replicate 1024 0))) IOTGO_DATE False (snd (pc_queue p)) =
      Some (True, True, q)" "queue_rep (fst (pc_queue p), q) [(IOTGO_DATE, ?t @ [0])]"
    by (auto simp: add_spec_def queue_add_def)
  have "iotgoPconnDeviceDate env (p\<lparr>pc_net := ?n\<rparr>) =
      Some (p\<lparr>pc_net := post_core MSG_CORE_SEND_JSON 0 ?n, pc_queue := (fst (pc_queue p), q)\<rparr>)"
    using assms(1) printed q(1)
    by (simp add: iotgoPconnDeviceDate_def queue_tree_def env(1-3) session_def date_request_def pc_queue_add_def pc_link_def set_link_def)
  with step c q(2) assms(1) show ?thesis
    by (simp add: pconn_step_def session_def listening_def call_def) blast
qed

text \<open>The request is sent, and taken out of the queue.\<close>

lemma turn_task:
  "core_q (pc_net p) \<noteq> [] \<Longrightarrow> turn env p = Some (ms, p') \<Longrightarrow> pconn_step env toks TaskRuns p = Some p'"
  by (auto simp: turn_def pconn_step_def)

lemma request_sent:
  assumes "session p dev key fs dq" "core_q (pc_net p) = [(MSG_CORE_SEND_JSON, a)]"
    and "device_mode (pc_net p) = DEVICE_MODE_WORK_NORMAL" "is_first_action_date (pc_net p)"
    and "queue_rep (pc_queue p) [(type, d)]" "network_frame d = Some (Inr f)" "\<forall>i. env_send env i = 0"
  shows "\<exists>p'. pconn_run env toks [TaskRuns, TaskRuns] p = Some p' \<and> session p' dev key (fs @ [f]) dq \<and>
    core_q (pc_net p') = [] \<and> is_first_action_date (pc_net p') \<and> queue_rep (pc_queue p') []"
proof -
  have "busy (MSG_CORE_SEND_JSON, a) (pc_net p)" using assms(2,3) by (simp add: busy_def)
  from send_step [OF this assms(5,6), of env] assms(7) obtain n1 where
    n1: "busy (MSG_CORE_SEND_JSON_FINISHED, IOTGO_SEND_OK) n1" "same_device n1 (pc_net p)"
    "turn env p = Some (0, p\<lparr>pc_net := n1, sent := sent p @ [f]\<rparr>)" by auto
  let ?q = "p\<lparr>pc_net := n1, sent := sent p @ [f]\<rparr>"
  have "busy (MSG_CORE_SEND_JSON_FINISHED, IOTGO_SEND_OK) (pc_net ?q)" "queue_rep (pc_queue ?q) [(type, d)]"
    "IOTGO_SEND_OK = (if True then IOTGO_SEND_OK else IOTGO_SEND_ERROR)"
    using n1(1) assms(5) by simp_all
  from finish_step [OF this, of env] obtain n2 s where
    n2: "queue_rep s []" "settled n2" "same_device n2 (pc_net ?q)"
    "turn env ?q = Some (0, ?q\<lparr>pc_net := n2, pc_queue := s, send_counter := 0, mcu_text := mcu_text ?q @ result_text type True\<rparr>)"
    by auto
  have "core_q (pc_net p) \<noteq> []" "core_q (pc_net ?q) \<noteq> []" using assms(2) n1(1) by (simp_all add: busy_def)
  from turn_task [OF this(1) n1(3), of toks] turn_task [OF this(2) n2(4), of toks]
  have "pconn_run env toks [TaskRuns, TaskRuns] p =
      Some (?q\<lparr>pc_net := n2, pc_queue := s, send_counter := 0, mcu_text := mcu_text ?q @ result_text type True\<rparr>)" by simp
  with n2 n1(2) assms(1,4) show ?thesis
    by (auto simp: session_def listening_def settled_def same_device_def)
qed

lemma date_answered:
  assumes "session p dev key fs dq" "core_q (pc_net p) = []" "server_text m" "is_first_action_date (pc_net p)"
    and "toks (str_of m) = date_answer dev key (gmt_text t ms)" "length dev \<le> 10" "length key \<le> 36"
    and "gmt_valid t" "2000 < year t" "year t < 10000"
  shows "\<exists>p'. pconn_step env toks (Received (0 # rest) (ws_encode (0x81, m))) p = Some p' \<and> session p' dev key fs dq \<and>
    core_q (pc_net p') = [(MSG_CORE_DATE_OK, 0)] \<and> device_mode (pc_net p') = DEVICE_MODE_WORK_NORMAL \<and>
    is_first_action_date (pc_net p') \<and> pc_queue p' = pc_queue p \<and> pc_clock p' = setGMTTime t (pc_clock p)"
proof -
  have "listening p" using assms(1) by (simp add: session_def)
  from received_text [OF this assms(3), of env toks rest] obtain s where
    s: "listening (p\<lparr>network_spro := s\<rparr>)" "pconn_step env toks (Received (0 # rest) (ws_encode (0x81, m))) p =
    Some (act_on_pkg env toks (m @ 0 # rest) (on_net (iotgoCoreRefreshLastPkgTime (env_sdk env)) (p\<lparr>network_spro := s\<rparr>)))"
    by blast
  let ?q = "on_net (iotgoCoreRefreshLastPkgTime (env_sdk env)) (p\<lparr>network_spro := s\<rparr>)"
  let ?f = "no_fields\<lparr>pf_error := Some 0, pf_deviceid := Some dev, pf_apikey := Some key, pf_date := Some (gmt_text t ms)\<rparr>"
  have len: "length (gmt_text t ms) \<le> 24" by (simp add: gmt_text_def dec4_def dec2_def dec3_def)
  have "from_owner ?f ?q" using assms(1) by (simp add: from_owner_def session_def on_net_def)
  then have "classify env ?f ?q = (IOTGO_PKG_TYPE_RESP_OF_DATE, ?q)"
    by (simp add: classify_def)
  moreover have "parseTypeOfIoTgoPkg env toks (str_of m) ?q = classify env ?f ?q"
    by (rule parse_fields) (simp_all add: assms(5-7) date_answer_fields len)
  ultimately have "act_on_pkg env toks (m @ 0 # rest) ?q = deviceRespDateCallback toks (str_of m) (pc_mode DEVICE_MODE_WORK_NORMAL ?q)"
    by (simp add: act_on_pkg_def)
  also have "\<dots> = pc_post MSG_CORE_DATE_OK 0 ((pc_mode DEVICE_MODE_WORK_NORMAL ?q)\<lparr>pc_clock := setGMTTime t (pc_clock p)\<rparr>)"
    using parseGMT_gmt_text [OF assms(8-10)]
    by (simp add: deviceRespDateCallback_def assms(5) date_answer_date [OF len] pc_mode_def on_net_def)
  finally show ?thesis using s assms(1,2,4)
    by (simp add: session_def listening_def pc_mode_def on_net_def iotgoCoreRefreshLastPkgTime_def iotgoSetDeviceMode_def)
qed

lemma date_ok_handled:
  assumes "session p dev key fs dq" "core_q (pc_net p) = [(MSG_CORE_DATE_OK, a)]" "is_first_action_date (pc_net p)"
    and "length dq < IOTGO_TASK_DEVICE_CENTER_QLEN"
  shows "\<exists>p'. pconn_step env toks TaskRuns p = Some p' \<and> session p' dev key fs (dq @ [(SIG_DEVICE_READYED, 0)]) \<and>
    core_q (pc_net p') = [] \<and> device_mode (pc_net p') = device_mode (pc_net p) \<and> pc_clock p' = pc_clock p \<and>
    pc_queue p' = pc_queue p"
  using assms by (simp add: pconn_step_def task_step_def core_step_def task_defs calls_last_def session_def listening_def post_device_def)

text \<open>The first half: the answer to the registration, up to the sent request.\<close>

lemma registration_to_request:
  assumes "session p dev owner fs dq" "core_q (pc_net p) = []" "\<not> setting_mode (pc_net p)" "queue_rep (pc_queue p) []"
    and "length dev \<le> 10" "length key \<le> 36" "length key = length (dev_factory_apikey p)"
    and "key \<noteq> dev_factory_apikey p" "key \<noteq> owner" "printing_env env" "\<forall>i. env_send env i = 0"
    and "server_text m" "toks (str_of m) = register_answer dev key"
  shows "\<exists>p' c f. pconn_run env toks [Received (0 # rest) (ws_encode (0x81, m)), TaskRuns, TaskRuns, TaskRuns, TaskRuns] p = Some p' \<and>
    session p' dev key (fs @ [f]) dq \<and> core_q (pc_net p') = [] \<and> is_first_action_date (pc_net p') \<and>
    queue_rep (pc_queue p') [] \<and> read_client_frame f = Some (env_jsontree_printed env c) \<and>
    jt_values c ! 1 = Some (date_request dev key)"
proof -
  from registration_answered [where toks = toks and m = m, OF assms(1,2,12,13,5-9), of env rest] obtain p1 where
    p1: "pconn_step env toks (Received (0 # rest) (ws_encode (0x81, m))) p = Some p1"
    "session p1 dev key fs dq" "core_q (pc_net p1) = [(MSG_CORE_REGISTERED, 0)]"
    "device_mode (pc_net p1) = device_mode (pc_net p)" "pc_queue p1 = pc_queue p" by blast
  have "\<not> setting_mode (pc_net p1)" using assms(3) p1(4) by (simp add: setting_mode_def iotgoDeviceMode_def)
  from registered_handled [OF p1(2,3) this, of env toks] obtain p2 where
    p2: "pconn_step env toks TaskRuns p1 = Some p2" "session p2 dev key fs dq"
    "core_q (pc_net p2) = [(MSG_CORE_DATE, 0)]" "device_mode (pc_net p2) = DEVICE_MODE_WORK_NORMAL"
    "is_first_action_date (pc_net p2)" "pc_queue p2 = pc_queue p1" by blast
  have "queue_rep (pc_queue p2) []" using assms(4) p1(5) p2(6) by simp
  from date_requested [OF p2(2,3) this assms(10), of toks] obtain p3 c where
    p3: "pconn_step env toks TaskRuns p2 = Some p3" "session p3 dev key fs dq"
    "core_q (pc_net p3) = [(MSG_CORE_SEND_JSON, 0)]" "device_mode (pc_net p3) = device_mode (pc_net p2)"
    "is_first_action_date (pc_net p3) = is_first_action_date (pc_net p2)"
    "jt_values c ! 1 = Some (date_request dev key)"
    "queue_rep (pc_queue p3) [(IOTGO_DATE, env_jsontree_printed env c @ [0])]" by blast
  let ?t = "env_jsontree_printed env c"
  have plain: "plain_text ?t" "length ?t < 1024" using assms(10) by (simp_all add: printing_env_def)
  then obtain h where h: "frame_header (length ?t) = Some h" "length h + length ?t \<le> 1536"
    by (cases "length ?t \<le> 125") (auto simp: frame_header_def)
  then have f: "network_frame (?t @ [0]) = Some (Inr (h @ ?t))" "read_client_frame (h @ ?t) = Some ?t"
    using network_frame_text [OF plain(1), of "[]"] read_frame_header [OF h(1)] by simp_all
  from request_sent [OF p3(2,3) _ _ p3(7) f(1) assms(11), of toks] p2(4,5) p3(4,5) obtain p4 where
    p4: "pconn_run env toks [TaskRuns, TaskRuns] p3 = Some p4" "session p4 dev key (fs @ [h @ ?t]) dq"
    "core_q (pc_net p4) = []" "is_first_action_date (pc_net p4)" "queue_rep (pc_queue p4) []" by auto
  have "pconn_run env toks [Received (0 # rest) (ws_encode (0x81, m)), TaskRuns, TaskRuns, TaskRuns, TaskRuns] p = Some p4"
    using p1(1) p2(1) p3(1) p4(1) by simp
  with p4(2-5) p3(6) f(2) show ?thesis by blast
qed

text \<open>
  C3: a device that waits for the answer to its registration, with nothing left to handle or to send,
  is brought up by two answers of the server: from the bytes of the answer that gives it the owner's
  key, over the request for the date, which is sent as a frame that reads back as the printed
  request with the new key, to the bytes of the answer with the date, after which the clock holds
  that date, the device is in its normal mode and the device task is told once that it is ready.
\<close>

theorem registration_brings_device_up:
  assumes "listening p" "core_q (pc_net p) = []" "\<not> setting_mode (pc_net p)" "queue_rep (pc_queue p) []"
    and "length (device_q (pc_net p)) < IOTGO_TASK_DEVICE_CENTER_QLEN"
    and "length (dev_id p) \<le> 10" "length key \<le> 36" "length key = length (dev_factory_apikey p)"
    and "key \<noteq> dev_factory_apikey p" "key \<noteq> dev_owner_uuid p"
    and "printing_env env" "\<forall>i. env_send env i = 0"
    and "server_text ma" "toks (str_of ma) = register_answer (dev_id p) key"
    and "server_text mb" "toks (str_of mb) = date_answer (dev_id p) key (gmt_text t ms)"
    and "gmt_valid t" "2000 < year t" "year t < 10000"
  shows "\<exists>p' c f. pconn_run env toks [Received (0 # ra) (ws_encode (0x81, ma)), TaskRuns, TaskRuns, TaskRuns, TaskRuns,
      Received (0 # rb) (ws_encode (0x81, mb)), TaskRuns] p = Some p' \<and>
    dev_owner_uuid p' = key \<and> core_q (pc_net p') = [] \<and> queue_rep (pc_queue p') [] \<and>
    device_mode (pc_net p') = DEVICE_MODE_WORK_NORMAL \<and> device_q (pc_net p') = device_q (pc_net p) @ [(SIG_DEVICE_READYED, 0)] \<and>
    current_time (pc_clock p') = t \<and> sent p' = sent p @ [f] \<and>
    read_client_frame f = Some (env_jsontree_printed env c) \<and> jt_values c ! 1 = Some (date_request (dev_id p) key)"
proof -
  have "session p (dev_id p) (dev_owner_uuid p) (sent p) (device_q (pc_net p))" using assms(1) by (simp add: session_def)
  from registration_to_request [where toks = toks and m = ma, OF this assms(2-4,6-14), of ra] obtain p4 c f where
    p4: "pconn_run env toks [Received (0 # ra) (ws_encode (0x81, ma)), TaskRuns, TaskRuns, TaskRuns, TaskRuns] p = Some p4"
    "session p4 (dev_id p) key (sent p @ [f]) (device_q (pc_net p))" "core_q (pc_net p4) = []"
    "is_first_action_date (pc_net p4)" "queue_rep (pc_queue p4) []"
    "read_client_frame f = Some (env_jsontree_printed env c)" "jt_values c ! 1 = Some (date_request (dev_id p) key)" by blast
  from date_answered [where toks = toks and m = mb, OF p4(2,3) assms(15) p4(4) assms(16,6,7,17-19), of env rb] obtain p5 where
    p5: "pconn_step env toks (Received (0 # rb) (ws_encode (0x81, mb))) p4 = Some p5"
    "session p5 (dev_id p) key (sent p @ [f]) (device_q (pc_net p))" "core_q (pc_net p5) = [(MSG_CORE_DATE_OK, 0)]"
    "device_mode (pc_net p5) = DEVICE_MODE_WORK_NORMAL" "is_first_action_date (pc_net p5)" "pc_queue p5 = pc_queue p4"
    "pc_clock p5 = setGMTTime t (pc_clock p4)" by blast
  from date_ok_handled [OF p5(2,3,5) assms(5), of env toks] obtain p6 where
    p6: "pconn_step env toks TaskRuns p5 = Some p6"
    "session p6 (dev_id p) key (sent p @ [f]) (device_q (pc_net p) @ [(SIG_DEVICE_READYED, 0)])"
    "core_q (pc_net p6) = []" "device_mode (pc_net p6) = device_mode (pc_net p5)" "pc_clock p6 = pc_clock p5"
    "pc_queue p6 = pc_queue p5" by blast
  from pconn_run_append [of env toks "[Received (0 # ra) (ws_encode (0x81, ma)), TaskRuns, TaskRuns, TaskRuns, TaskRuns]"
      "[Received (0 # rb) (ws_encode (0x81, mb)), TaskRuns]" p]
  have "pconn_run env toks [Received (0 # ra) (ws_encode (0x81, ma)), TaskRuns, TaskRuns, TaskRuns, TaskRuns,
      Received (0 # rb) (ws_encode (0x81, mb)), TaskRuns] p = Some p6"
    unfolding p4(1) append.simps by (simp add: p5(1) p6(1))
  then show ?thesis
    using p4(5-7) p5(4,6,7) p6(2-6)
    by (intro exI [of _ p6] exI [of _ c] exI [of _ f]) (simp add: session_def setGMTTime_def Let_def)
qed

theorem registration_brings_device_up_witness:
  "\<exists>s p'. pconn_run (example_env (\<lambda>_. 0))
      (\<lambda>s. if s = ''r'' then register_answer ''1000000001'' ''abcdefg''
           else date_answer ''1000000001'' ''abcdefg'' (gmt_text (current_time clock_sample) 7))
      [Received [0] [0x81, 1, 114], TaskRuns, TaskRuns, TaskRuns, TaskRuns, Received [0] [0x81, 1, 100], TaskRuns]
      ((idle_pconn s idle_net)\<lparr>network_spro := spCreateObject True SPRO_PKG_TYPE_WEBSOCKET13 (Some 0) 2048\<rparr>) = Some p' \<and>
    dev_owner_uuid p' = ''abcdefg'' \<and> device_q (pc_net p') = [(SIG_DEVICE_READYED, 0)] \<and>
    current_time (pc_clock p') = current_time clock_sample"
proof -
  let ?t = "current_time clock_sample"
  let ?toks = "\<lambda>s. if s = ''r'' then register_answer ''1000000001'' ''abcdefg''
      else date_answer ''1000000001'' ''abcdefg'' (gmt_text ?t 7)"
  have queue: "queue_rep (bump_malloc, empty_queue) []"
    using empty_queue_rep bump_malloc_ok by (auto simp: queue_rep_def intro!: exI [of _ Map.empty])
  let ?p = "(idle_pconn (bump_malloc, empty_queue) idle_net)\<lparr>network_spro := spCreateObject True SPRO_PKG_TYPE_WEBSOCKET13 (Some 0) 2048\<rparr>"
  have dev: "dev_id ?p = ''1000000001''" "dev_factory_apikey ?p = ''factory''" "dev_owner_uuid ?p = ''owner''"
    "core_q (pc_net ?p) = []" "\<not> setting_mode (pc_net ?p)" "device_q (pc_net ?p) = []"
    by (simp_all add: idle_pconn_def idle_net_def net_init_def setting_mode_def iotgoDeviceMode_def)
  have listen: "listening ?p"
    by (simp add: listening_def spCreateObject_def spro_inv_def ws_timer_def contents_def)
  have texts: "ws_encode (0x81, [114]) = [0x81, 1, 114]" "ws_encode (0x81, [100]) = [0x81, 1, 100]"
    by (simp_all add: ws_encode_def Let_def)
  have names: "str_of [114] = ''r''" "str_of [100] = ''d''" by code_simp+
  have server: "server_text [114]" "server_text [100]"
    by (simp_all add: server_text_def texts handshake_text_def bytes_of_def)
  have env: "printing_env (example_env (\<lambda>_. 0))" "\<forall>i. env_send (example_env (\<lambda>_. 0)) i = 0"
    by (simp_all add: printing_env_def example_env_def reset_ok_def plain_text_def)
  have date: "gmt_valid ?t" "2000 < year ?t" "year ?t < 10000"
    by (simp_all add: clock_sample_def gmt_valid_def date_valid_def month_len_def leap_def)
  have pq: "pc_queue ?p = (bump_malloc, empty_queue)" by simp
  from registration_brings_device_up [where p = ?p and toks = ?toks and ma = "[114]" and mb = "[100]" and key = "''abcdefg''"
      and ms = 7 and ra = "[]" and rb = "[]", OF listen dev(4,5) _ _ _ _ _ _ _ env server(1) _ server(2) _ date]
  show ?thesis unfolding texts pq dev names
    by (simp add: queue IOTGO_TASK_DEVICE_CENTER_QLEN_def) blast
qed

end
