(* ===== verification/Trans.thy ===== *)
theory Trans
  imports Pconn LocTimer TimerSched U2art FlashStore
begin

text \<open>
  The transparent transmission device, \<open>app/device/FWTRX_TC.c\<close>: a microcontroller (MCU) on the
  serial port talks to the server through this firmware.  This theory holds the state and the
  commands the MCU can send; \<open>TransMsg\<close> holds what the server, the timers and the key cause.

  The state puts together the parts the device works on: the server connection (with the network
  task and the clock), the local timers, the scheduler, the queue of messages to the MCU, and the
  variables of the file itself.  The fields \<open>tr_crc\<close> and \<open>tr_tx\<close> are working copies of
  \<open>crc_enable\<close> and the output of the serial port, which belong to the command processor.

  Texts are C strings without their terminator.  The strings the firmware takes from the SDK, the
  flash chip and the allocator are parameters.
\<close>

subsection \<open>State\<close>

record tcConfig =
  baudrate :: nat
  cfg_crc :: bool
  cfg_watch_dog :: nat
  cfg_sled_off :: bool
  cfg_state_info :: nat
  cfg_timer_sync :: bool

definition TC_STATE_NORMAL :: nat where "TC_STATE_NORMAL = 1"
definition TC_STATE_NO_WIFI :: nat where "TC_STATE_NO_WIFI = 2"
definition TC_STATE_DISCONNECT :: nat where "TC_STATE_DISCONNECT = 3"
definition TC_STATE_UNREGISTER :: nat where "TC_STATE_UNREGISTER = 4"
definition TC_STATE_AP_SETTING :: nat where "TC_STATE_AP_SETTING = 5"
definition TC_STATE_ESPTOUCH_SETTING :: nat where "TC_STATE_ESPTOUCH_SETTING = 6"
definition TC_STATE_UPGRADE :: nat where "TC_STATE_UPGRADE = 7"

definition TC_SETTING_AP :: int where "TC_SETTING_AP = 1"
definition TC_SETTING_ESPTOUCH :: int where "TC_SETTING_ESPTOUCH = 2"
definition TC_SETTING_EXIT :: int where "TC_SETTING_EXIT = 3"

definition TCREQ_PERIOD :: nat where "TCREQ_PERIOD = 1"
definition TCREQ_MAX :: nat where "TCREQ_MAX = 20"

record 'f trans =
  tr_conn :: pconn
  tr_loct :: "'f loct"
  tr_sched :: "unit sched"
  tr_crc :: bool
  tr_tx :: bytes
  key_pressed_level_counter :: nat
  key_released_level_counter :: nat
  long_press_processed :: bool
  key_interrupt :: bool
  key_isr_timer :: os_timer
  selfap_timers :: nat
  app_high_ctrl_timer :: os_timer
  watch_dog_timer :: os_timer
  send_data_again_timer :: os_timer
  query_state_timer :: os_timer
  enter_ap_mode_timer :: os_timer
  enter_esptouch_mode_timer :: os_timer
  flow_control_timer :: os_timer
  modify_baudrate_timer :: os_timer
  modify_baudrate_arg :: nat
  tc_link_queue :: tc_state
  tcreq_couter :: nat
  tcreq_period :: nat
  tcreq_max :: nat
  flow_couter :: nat
  tmr_msg_flag :: bool
  again_counter :: nat
  query_state :: nat
  query_last_state :: nat
  tc_config :: tcConfig
  normal_mode_led_off :: bool
  high_ctrl_level :: bool
  uart_baud :: nat

text \<open>
  The environment: that of the connection, the flash chip as the timers and as the configuration
  use it, the allocator (the usable size for a requested size) and the two MAC addresses, if the
  SDK gives them.
\<close>

record 'f tr_env =
  tr_pconn :: pconn_env
  tr_flash :: "'f flash_ops"
  tr_spi :: "'f spi"
  tr_malloc :: "nat \<Rightarrow> nat option"
  tr_sta_mac :: "bytes option"
  tr_sap_mac :: "bytes option"
  tr_version :: string

type_synonym 'f tc_command = "'f tr_env \<Rightarrow> cJSON option \<Rightarrow> 'f trans \<Rightarrow> (U2artError \<times> 'f trans) option"

subsection \<open>Posts\<close>

definition tr_mode :: "'f trans \<Rightarrow> IoTgoDeviceMode" where
  "tr_mode s = iotgoDeviceMode (pc_net (tr_conn s))"

definition on_conn :: "(pconn \<Rightarrow> pconn) \<Rightarrow> 'f trans \<Rightarrow> 'f trans" where
  "on_conn f s = s\<lparr>tr_conn := f (tr_conn s)\<rparr>"

definition tr_post_core :: "IoTgoSignalSet \<Rightarrow> 'f trans \<Rightarrow> 'f trans" where
  "tr_post_core m s = on_conn (on_net (post_core m 0)) s"

definition tr_post_device :: "IoTgoSignalSet \<Rightarrow> 'f trans \<Rightarrow> 'f trans" where
  "tr_post_device m s = on_conn (on_net (post_device m 0)) s"

subsection \<open>Messages for the MCU\<close>

definition quoted :: "string \<Rightarrow> string" where
  "quoted s = CHR 0x22 # s @ [CHR 0x22]"

text \<open>The arrays the device sends: a name and the texts of further elements.\<close>

definition cmd_text :: "string \<Rightarrow> string list \<Rightarrow> string" where
  "cmd_text name args = ''['' @ quoted name @ concat (map (\<lambda>a. CHR '','' # a) args) @ '']''"

definition ret_of :: "string \<Rightarrow> string" where
  "ret_of v = cmd_text ''ret'' [v]"

definition c_text :: "string \<Rightarrow> bytes" where
  "c_text s = bytes_of s @ [0]"

definition send_mcu :: "string \<Rightarrow> 'f trans \<Rightarrow> (bool \<times> 'f trans) option" where
  "send_mcu txt s =
     map_option (\<lambda>(ok, out). (ok, s\<lparr>tr_tx := out\<rparr>))
       (send_data (Some (c_text txt)) (length txt) (tr_crc s) (tr_tx s))"

text \<open>The end of most commands: success if the answer was handed to the port.\<close>

definition answer :: "string \<Rightarrow> 'f trans \<Rightarrow> (U2artError \<times> 'f trans) option" where
  "answer txt s = map_option (\<lambda>(ok, s). (if ok then U2ART_SUCCESS else U2ART_INSIDE_ERROR, s)) (send_mcu txt s)"

text \<open>\<open>tcAddDataToQueue\<close> with the callback \<open>sendDataFromAppToMcu\<close>.\<close>

definition TC_NULL :: nat where "TC_NULL = 0"

definition sendDataFromAppToMcu :: "'f trans \<Rightarrow> 'f trans" where
  "sendDataFromAppToMcu s = tr_post_device SIG_DEVICE_UPDATE_BY_REMOTE s"

definition tc_queue :: "string \<Rightarrow> 'f trans \<Rightarrow> 'f trans option" where
  "tc_queue txt s =
     map_option (\<lambda>(ok, tell, q). (if tell then sendDataFromAppToMcu else (\<lambda>s. s)) (s\<lparr>tc_link_queue := q\<rparr>))
       (tc_add TC_NULL False (c_text txt) (tc_link_queue s))"

definition tc_delete :: "'f trans \<Rightarrow> 'f trans option" where
  "tc_delete s = map_option (\<lambda>q. s\<lparr>tc_link_queue := q\<rparr>) (tc_del (tc_link_queue s))"

text \<open>A text composed in a block of \<open>n\<close> bytes; the result of the allocation is not tested.\<close>

definition composed :: "'f tr_env \<Rightarrow> nat \<Rightarrow> string \<Rightarrow> string option" where
  "composed ev n txt =
     (case tr_malloc ev n of None \<Rightarrow> None | Some usable \<Rightarrow> if length txt < usable then Some txt else None)"

subsection \<open>The configuration in flash\<close>

text \<open>
  The structure as the compiler lays it out on this little-endian target: twelve bytes, three of
  them padding, taken to be zero.
\<close>

definition config_size :: nat where
  "config_size = 12"

definition config_bytes :: "tcConfig \<Rightarrow> bytes" where
  "config_bytes c = map word_of_nat
     [baudrate c mod 256, baudrate c div 256 mod 256, baudrate c div 65536 mod 256, baudrate c div 16777216 mod 256,
      of_bool (cfg_crc c), cfg_watch_dog c, of_bool (cfg_sled_off c), cfg_state_info c, of_bool (cfg_timer_sync c), 0, 0, 0]"

definition config_of_bytes :: "bytes \<Rightarrow> tcConfig" where
  "config_of_bytes b =
     \<lparr>baudrate = unat (b ! 0) + 256 * unat (b ! 1) + 65536 * unat (b ! 2) + 16777216 * unat (b ! 3),
      cfg_crc = (b ! 4 \<noteq> 0), cfg_watch_dog = unat (b ! 5), cfg_sled_off = (b ! 6 \<noteq> 0),
      cfg_state_info = unat (b ! 7), cfg_timer_sync = (b ! 8 \<noteq> 0)\<rparr>"

definition on_flash :: "('f \<Rightarrow> 'f) \<Rightarrow> 'f trans \<Rightarrow> 'f trans" where
  "on_flash f s = s\<lparr>tr_loct := (tr_loct s)\<lparr>flash := f (flash (tr_loct s))\<rparr>\<rparr>"

definition save_config :: "'f tr_env \<Rightarrow> tcConfig \<Rightarrow> 'f trans \<Rightarrow> 'f trans" where
  "save_config ev c s = on_flash (devSaveConfigToFlash (tr_spi ev) (config_bytes c) config_size) s"

definition change_config :: "'f tr_env \<Rightarrow> (tcConfig \<Rightarrow> tcConfig) \<Rightarrow> 'f trans \<Rightarrow> 'f trans" where
  "change_config ev f s = save_config ev (f (tc_config s)) (s\<lparr>tc_config := f (tc_config s)\<rparr>)"

subsection \<open>Arguments of commands\<close>

text \<open>A command without arguments, and the number of a command with one.\<close>

definition no_args :: "cJSON option \<Rightarrow> bool" where
  "no_args req = (case req of None \<Rightarrow> False | Some j \<Rightarrow> cj_type j = cJSON_Array \<and> cJSON_GetArraySize j = 1)"

definition typed_arg :: "int \<Rightarrow> cJSON option \<Rightarrow> int \<Rightarrow> cJSON_type \<Rightarrow> cJSON option" where
  "typed_arg n req i ty =
     (case req of
        None \<Rightarrow> None
      | Some j \<Rightarrow>
          if cj_type j \<noteq> cJSON_Array \<or> cJSON_GetArraySize j \<noteq> n then None
          else (case cJSON_GetArrayItem req i of
                  None \<Rightarrow> None
                | Some c \<Rightarrow> if cj_type c \<noteq> ty then None else Some c))"

definition number_arg :: "cJSON option \<Rightarrow> int option" where
  "number_arg req = map_option cj_valueint (typed_arg 2 req 1 cJSON_Number)"

subsection \<open>Commands that configure the device\<close>

definition processTickCmd :: "'f tc_command" where
  "processTickCmd ev req s =
     (if \<not> no_args req then Some (U2ART_INVALID_PARAMS, s) else answer (ret_of (quoted ''tock'')) s)"

definition modifyBaudrate :: "'f trans \<Rightarrow> 'f trans" where
  "modifyBaudrate s = s\<lparr>uart_baud := modify_baudrate_arg s\<rparr>"

definition processBaudCmd :: "'f tc_command" where
  "processBaudCmd ev req s =
     (case number_arg req of
        None \<Rightarrow> Some (U2ART_INVALID_PARAMS, s)
      | Some baud \<Rightarrow>
          if baud \<noteq> 9600 \<and> baud \<noteq> 115200 then Some (U2ART_INVALID_PARAMS, s)
          else do {
            let s = change_config ev (baudrate_update (\<lambda>_. to_u32 baud)) s;
            (ok, s) \<leftarrow> send_mcu (ret_of ''0'') s;
            Some (if ok then
                    (U2ART_SUCCESS, s\<lparr>modify_baudrate_timer := Armed 100 False,
                                      modify_baudrate_arg := baudrate (tc_config s)\<rparr>)
                  else (U2ART_INSIDE_ERROR, s))
          })"

definition cbWatchDogHighCtrlTimer :: "'f tr_env \<Rightarrow> 'f trans \<Rightarrow> 'f trans" where
  "cbWatchDogHighCtrlTimer ev s =
     change_config ev (cfg_watch_dog_update (\<lambda>_. 0)) (s\<lparr>high_ctrl_level := True, watch_dog_timer := Disarmed\<rparr>)"

definition TA_HIGH_PRIORITY_CTRL_LOW_WIDTH :: nat where
  "TA_HIGH_PRIORITY_CTRL_LOW_WIDTH = 500"

definition taWatchDogCallback :: "'f trans \<Rightarrow> 'f trans" where
  "taWatchDogCallback s =
     s\<lparr>high_ctrl_level := False, app_high_ctrl_timer := Armed TA_HIGH_PRIORITY_CTRL_LOW_WIDTH False\<rparr>"

definition processDogCmd :: "'f tc_command" where
  "processDogCmd ev req s =
     (case number_arg req of
        None \<Rightarrow> Some (U2ART_INVALID_PARAMS, s)
      | Some dog \<Rightarrow>
          if dog < 0 \<or> dog > 60 then Some (U2ART_INVALID_PARAMS, s)
          else answer (ret_of ''0'')
                 (change_config ev (cfg_watch_dog_update (\<lambda>_. to_u8 dog))
                   (s\<lparr>watch_dog_timer := (if dog = 0 then Disarmed else Armed (1000 * nat dog) True)\<rparr>)))"

definition processSledCmd :: "'f tc_command" where
  "processSledCmd ev req s =
     (case number_arg req of
        None \<Rightarrow> Some (U2ART_INVALID_PARAMS, s)
      | Some led \<Rightarrow>
          answer (ret_of ''0'')
            (change_config ev (cfg_sled_off_update (\<lambda>_. led = 0)) (s\<lparr>normal_mode_led_off := (led = 0)\<rparr>)))"

definition processStateInfoCmd :: "'f tc_command" where
  "processStateInfoCmd ev req s =
     (case number_arg req of
        None \<Rightarrow> Some (U2ART_INVALID_PARAMS, s)
      | Some info \<Rightarrow>
          answer (ret_of ''0'')
            (change_config ev (cfg_state_info_update (\<lambda>_. to_u8 info))
              (s\<lparr>query_state_timer := (if info = 0 then Disarmed else Armed 1000 True)\<rparr>)))"

text \<open>Here the answer is sent first, still with the check sums as they were.\<close>

definition processCrcCmd :: "'f tc_command" where
  "processCrcCmd ev req s =
     (case number_arg req of
        None \<Rightarrow> Some (U2ART_INVALID_PARAMS, s)
      | Some crc \<Rightarrow>
          do {
            (ok, s) \<leftarrow> send_mcu (ret_of ''0'') s;
            Some (if ok then (U2ART_SUCCESS, change_config ev (cfg_crc_update (\<lambda>_. crc \<noteq> 0)) (s\<lparr>tr_crc := (crc \<noteq> 0)\<rparr>))
                  else (U2ART_INSIDE_ERROR, s))
          })"

definition processTmrMsgCmd :: "'f tc_command" where
  "processTmrMsgCmd ev req s =
     (case number_arg req of
        None \<Rightarrow> Some (U2ART_INVALID_PARAMS, s)
      | Some msg \<Rightarrow>
          answer (ret_of ''0'')
            (change_config ev (cfg_timer_sync_update (\<lambda>_. msg \<noteq> 0)) (s\<lparr>tmr_msg_flag := (msg \<noteq> 0)\<rparr>)))"

subsection \<open>Commands that ask for information\<close>

text \<open>
  The state code of a device mode, with the code for the modes that have none.  The source
  compares modes as numbers, \<open>DEVICE_MODE_START\<close> is the smallest.
\<close>

definition state_code :: "nat \<Rightarrow> IoTgoDeviceMode \<Rightarrow> nat" where
  "state_code other m =
     (case m of
        DEVICE_MODE_WORK_NORMAL \<Rightarrow> TC_STATE_NORMAL
      | DEVICE_MODE_START \<Rightarrow> TC_STATE_NO_WIFI
      | DEVICE_MODE_WORK_AP_ERR \<Rightarrow> TC_STATE_NO_WIFI
      | DEVICE_MODE_WORK_AP_OK \<Rightarrow> TC_STATE_DISCONNECT
      | DEVICE_MODE_WORK_INIT \<Rightarrow> TC_STATE_UNREGISTER
      | DEVICE_MODE_SETTING \<Rightarrow> TC_STATE_AP_SETTING
      | DEVICE_MODE_SETTING_SELFAP \<Rightarrow> TC_STATE_ESPTOUCH_SETTING
      | _ \<Rightarrow> other)"

definition processStateCmd :: "'f tc_command" where
  "processStateCmd ev req s =
     (if \<not> no_args req then Some (U2ART_INVALID_PARAMS, s)
      else do {
        let mode = tr_mode s;
        let state = (if mode = DEVICE_MODE_UPGRADE then TC_STATE_UPGRADE else state_code TC_STATE_NORMAL mode);
        temp \<leftarrow> c_copy 20 (ret_of (int_dec (int state)));
        answer temp s
      })"

definition processRssiCmd :: "'f tc_command" where
  "processRssiCmd ev req s =
     (if tr_mode s \<noteq> DEVICE_MODE_WORK_NORMAL then Some (U2ART_ILLEGAL_OPERATION, s)
      else if \<not> no_args req then Some (U2ART_INVALID_PARAMS, s)
      else do {
        rssi \<leftarrow> c_copy 20 (ret_of (int_dec (iotgo_wifi_rssi (pc_net (tr_conn s)))));
        answer rssi s
      })"

text \<open>\<open>%04u\<close> and \<open>%02u\<close>.\<close>

definition dec_pad :: "nat \<Rightarrow> nat \<Rightarrow> string" where
  "dec_pad w n = replicate (w - length (nat_dec n)) (CHR ''0'') @ nat_dec n"

definition gmt_answer_text :: "IoTgoGMTTime \<Rightarrow> string" where
  "gmt_answer_text t =
     dec_pad 4 (nat (year t)) @ ''-'' @ dec_pad 2 (nat (month t)) @ ''-'' @ dec_pad 2 (nat (day t)) @ ''T'' @
     dec_pad 2 (nat (hour t)) @ '':'' @ dec_pad 2 (nat (minute t)) @ '':'' @ dec_pad 2 (nat (second t)) @ ''Z''"

definition processTimeCmd :: "'f tc_command" where
  "processTimeCmd ev req s =
     (if \<not> no_args req then Some (U2ART_INVALID_PARAMS, s)
      else do {
        let gmt_time = getGMTTime (pc_clock (tr_conn s)) zero_gmt;
        let code = (if year gmt_time = 1970 then ''1'' else ''0'');
        time \<leftarrow> c_copy 50 (cmd_text ''ret'' [code, quoted (gmt_answer_text gmt_time)]);
        answer time s
      })"

definition processVersionCmd :: "'f tc_command" where
  "processVersionCmd ev req s =
     (if \<not> no_args req then Some (U2ART_INVALID_PARAMS, s)
      else Option.bind (c_copy 30 (ret_of (quoted (tr_version ev)))) (\<lambda>temp. answer temp s))"

definition processDeviceId :: "'f tc_command" where
  "processDeviceId ev req s =
     (if \<not> no_args req then Some (U2ART_INVALID_PARAMS, s)
      else Option.bind (c_copy 30 (ret_of (quoted (dev_id (tr_conn s))))) (\<lambda>temp. answer temp s))"

definition hex_upper :: "nat \<Rightarrow> char" where
  "hex_upper d = (if d < 10 then char_of (48 + d) else char_of (55 + d))"

fun mac_text :: "bytes \<Rightarrow> string" where
  "mac_text [] = []"
| "mac_text [b] = [hex_upper (unat b div 16), hex_upper (unat b mod 16)]"
| "mac_text (b # bs) = [hex_upper (unat b div 16), hex_upper (unat b mod 16), CHR '':''] @ mac_text bs"

text \<open>The text is computed once; a MAC address that cannot be read leaves it empty.\<close>

definition iotgoStationMac :: "'f tr_env \<Rightarrow> string" where
  "iotgoStationMac ev = (case tr_sta_mac ev of None \<Rightarrow> [] | Some mac \<Rightarrow> mac_text mac)"

definition iotgoSapMac :: "'f tr_env \<Rightarrow> string" where
  "iotgoSapMac ev = (case tr_sap_mac ev of None \<Rightarrow> [] | Some mac \<Rightarrow> mac_text mac)"

definition processStamacCmd :: "'f tc_command" where
  "processStamacCmd ev req s =
     (if \<not> no_args req then Some (U2ART_INVALID_PARAMS, s)
      else Option.bind (c_copy 30 (ret_of (quoted (iotgoStationMac ev)))) (\<lambda>temp. answer temp s))"

text \<open>The same text, composed in an array of 18 bytes.\<close>

definition processSapMacCmd :: "'f tc_command" where
  "processSapMacCmd ev req s =
     (if \<not> no_args req then Some (U2ART_INVALID_PARAMS, s)
      else Option.bind (c_copy 18 (ret_of (quoted (iotgoSapMac ev)))) (\<lambda>temp. answer temp s))"

end
