(* ===== verification/TransReq.thy ===== *)
theory TransReq
  imports Trans
begin

text \<open>
  The remaining commands of \<open>app/device/FWTRX_TC.c\<close>: those that change the mode of the device,
  those that pass data between the MCU and the server, those of the local timers, and the table
  of all commands as the command processor gets it.
\<close>

subsection \<open>Setting modes\<close>

definition enterAp :: "'f trans \<Rightarrow> 'f trans" where
  "enterAp s = tr_post_core MSG_CORE_ENTER_SETTING_SELFAP_MODE s"

definition enterEsptouch :: "'f trans \<Rightarrow> 'f trans" where
  "enterEsptouch s = tr_post_core MSG_CORE_ENTER_SETTING_MODE s"

definition dealSettingMode :: "int \<Rightarrow> 'f trans \<Rightarrow> int \<times> 'f trans" where
  "dealSettingMode mode s =
     (let current = tr_mode s in
      if mode = TC_SETTING_AP then
        if current \<noteq> DEVICE_MODE_SETTING_SELFAP then
          if current = DEVICE_MODE_SETTING then
            (0, (tr_post_core MSG_CORE_EXIT_SETTING_MODE s)\<lparr>enter_ap_mode_timer := Armed 1500 False\<rparr>)
          else (0, tr_post_core MSG_CORE_ENTER_SETTING_SELFAP_MODE s)
        else (-1, s)
      else if mode = TC_SETTING_ESPTOUCH then
        if current \<noteq> DEVICE_MODE_SETTING then
          if current = DEVICE_MODE_SETTING_SELFAP then
            (0, (tr_post_core MSG_CORE_EXIT_SETTING_SELFAP_MODE s)\<lparr>enter_esptouch_mode_timer := Armed 1500 False\<rparr>)
          else (0, tr_post_core MSG_CORE_ENTER_SETTING_MODE s)
        else (-1, s)
      else if mode = TC_SETTING_EXIT then
        if current = DEVICE_MODE_SETTING_SELFAP then (0, tr_post_core MSG_CORE_EXIT_SETTING_SELFAP_MODE s)
        else if current = DEVICE_MODE_SETTING then (0, tr_post_core MSG_CORE_EXIT_SETTING_MODE s)
        else (-1, s)
      else (-2, s))"

definition processSettingCmd :: "'f tc_command" where
  "processSettingCmd ev req s =
     (case number_arg req of
        None \<Rightarrow> Some (U2ART_INVALID_PARAMS, s)
      | Some mode \<Rightarrow>
          (let (ret, s) = dealSettingMode mode s in
           if ret = 0 then answer (ret_of ''0'') s
           else if ret = -1 then Some (U2ART_ILLEGAL_OPERATION, s)
           else Some (U2ART_INVALID_PARAMS, s)))"

subsection \<open>Data for the server\<close>

text \<open>The fields every message of the device starts with.\<close>

definition device_object :: "'f trans \<Rightarrow> cJSON" where
  "device_object s =
     add_string (add_string (add_string cJSON_CreateObject ''userAgent'' ''device'')
       ''apikey'' (dev_owner_uuid (tr_conn s))) ''deviceid'' (dev_id (tr_conn s))"

text \<open>Printing a tree and sending it at once.  A tree that cannot be printed is a null pointer.\<close>

definition send_tree :: "'f tr_env \<Rightarrow> cJSON \<Rightarrow> 'f trans \<Rightarrow> (int \<times> 'f trans) option" where
  "send_tree ev j s =
     do {
       out \<leftarrow> cJSON_PrintUnformatted j;
       txt \<leftarrow> out;
       (r, p) \<leftarrow> sendIoTgoPkg (tr_pconn ev) (c_text txt) (tr_conn s);
       Some (r, s\<lparr>tr_conn := p\<rparr>)
     }"

definition send_and_answer :: "'f tr_env \<Rightarrow> cJSON \<Rightarrow> 'f trans \<Rightarrow> (U2artError \<times> 'f trans) option" where
  "send_and_answer ev j s =
     do {
       (r, s) \<leftarrow> send_tree ev j s;
       if r = 0 then answer (ret_of ''0'') s else Some (U2ART_INSIDE_ERROR, s)
     }"

text \<open>
  \<open>processUpdateCmd\<close> and \<open>processQueryCmd\<close> differ in the action they send and in the type of their
  last element.  Every attempt counts for the limit of requests.
\<close>

definition server_request :: "string \<Rightarrow> cJSON_type \<Rightarrow> 'f tc_command" where
  "server_request action ty ev req s =
     (let s = s\<lparr>tcreq_couter := to_u16 (int (tcreq_couter s) + 1)\<rparr> in
      if tcreq_couter s > tcreq_max s then Some (U2ART_BUSY_ERROR, s)
      else (case (typed_arg 3 req 1 cJSON_Number, typed_arg 3 req 2 ty) of
              (Some sequence, Some params) \<Rightarrow>
                if tr_mode s \<noteq> DEVICE_MODE_WORK_NORMAL then Some (U2ART_NETWORK_ERROR, s)
                else send_and_answer ev
                       (cJSON_AddItemToObject
                         (add_string (add_number (device_object s) ''d_seq'' (cj_valueint sequence)) ''action'' action)
                         ''params'' params) s
            | _ \<Rightarrow> Some (U2ART_INVALID_PARAMS, s)))"

definition processUpdateCmd :: "'f tc_command" where
  "processUpdateCmd ev req s = server_request ''update'' cJSON_Object ev req s"

definition processQueryCmd :: "'f tc_command" where
  "processQueryCmd ev req s = server_request ''query'' cJSON_Array ev req s"

text \<open>
  An answer of the MCU to a message from the server.  The head of the queue is dropped before the
  answer is looked at.  The post at the end of the function is not reached.  A string without a
  text does not come from the parser.
\<close>

definition answered :: "'f trans \<Rightarrow> 'f trans option" where
  "answered s = tc_delete (s\<lparr>send_data_again_timer := Disarmed\<rparr>)"

definition processRespondCmd :: "'f tc_command" where
  "processRespondCmd ev req s =
     do {
       s \<leftarrow> answered s;
       case (typed_arg 3 req 1 cJSON_String, typed_arg 3 req 2 cJSON_Number) of
         (Some sequence, Some error) \<Rightarrow>
           if tr_mode s \<noteq> DEVICE_MODE_WORK_NORMAL then Some (U2ART_NETWORK_ERROR, s)
           else do {
             v \<leftarrow> cj_valuestring sequence;
             send_and_answer ev
               (add_number (add_string (device_object s) ''sequence'' v) ''error'' (cj_valueint error)) s
           }
       | _ \<Rightarrow> Some (U2ART_INVALID_PARAMS, s)
     }"

definition processRetCmd :: "'f tc_command" where
  "processRetCmd ev req s =
     map_option (\<lambda>s. (case req of
                        None \<Rightarrow> U2ART_INVALID_PARAMS
                      | Some j \<Rightarrow> if cj_type j \<noteq> cJSON_Array then U2ART_INVALID_PARAMS else U2ART_SUCCESS, s))
       (answered s)"

subsection \<open>Local timers\<close>

text \<open>\<open>switchActionCallback\<close> with the action of a timer.\<close>

definition switchActionCallback :: "'f tr_env \<Rightarrow> string \<Rightarrow> 'f trans \<Rightarrow> 'f trans option" where
  "switchActionCallback ev switch_val s =
     do {
       data \<leftarrow> composed ev (length switch_val + 17) (cmd_text ''timerAction'' [switch_val]);
       tc_queue data s
     }"

text \<open>
  What the local timers hand to the rest of the firmware: a message for the server, an answer for
  the MCU or an action.
\<close>

definition loct_effect :: "'f tr_env \<Rightarrow> loc_effect \<Rightarrow> 'f trans \<Rightarrow> 'f trans option" where
  "loct_effect ev e s =
     (case e of
        QueueAdd txt kind \<Rightarrow>
          map_option (\<lambda>p. s\<lparr>tr_conn := p\<rparr>) (pc_queue_add (Some (c_text txt)) kind False (tr_conn s))
      | SendRet txt \<Rightarrow>
          map_option (\<lambda>(_, out). s\<lparr>tr_tx := out\<rparr>)
            (send_ret (tr_malloc ev) (Some txt) (length txt) (tr_crc s) (tr_tx s))
      | Action a \<Rightarrow> switchActionCallback ev a s)"

fun loct_effects :: "'f tr_env \<Rightarrow> loc_effect list \<Rightarrow> 'f trans \<Rightarrow> 'f trans option" where
  "loct_effects ev [] s = Some s"
| "loct_effects ev (e # es) s = Option.bind (loct_effect ev e s) (loct_effects ev es)"

text \<open>
  Running an operation of the local timers on the device: it reads the identity of the device and
  the sequence of the request from the globals, which belong to the connection.
\<close>

definition on_loct :: "('f loct \<Rightarrow> ('r \<times> 'f loct) option) \<Rightarrow> 'f tr_env \<Rightarrow> 'f trans \<Rightarrow> ('r \<times> 'f trans) option" where
  "on_loct f ev s =
     do {
       (r, l) \<leftarrow> f ((tr_loct s)\<lparr>owner_uuid := dev_owner_uuid (tr_conn s), deviceid := dev_id (tr_conn s),
                              server_sequence_value := server_sequence (tr_conn s), effects := []\<rparr>);
       s \<leftarrow> loct_effects ev (effects l) (s\<lparr>tr_loct := l\<lparr>effects := []\<rparr>\<rparr>);
       Some (r, s)
     }"

definition timer_update :: "'f tr_env \<Rightarrow> cJSON \<Rightarrow> TimerManage \<Rightarrow> 'f trans \<Rightarrow> (bool \<times> 'f trans) option" where
  "timer_update ev params manager s = on_loct (timerProcUpdate (tr_flash ev) (Some params) manager) ev s"

definition timer_query :: "'f tr_env \<Rightarrow> cJSON \<Rightarrow> TimerManage \<Rightarrow> 'f trans \<Rightarrow> (bool \<times> 'f trans) option" where
  "timer_query ev params manager s = on_loct (timerProcQuery (Some params) manager) ev s"

text \<open>The end of the two commands that change timers.\<close>

definition update_timers :: "'f tr_env \<Rightarrow> cJSON \<Rightarrow> 'f trans \<Rightarrow> (U2artError \<times> 'f trans) option" where
  "update_timers ev timer s =
     map_option (\<lambda>(_, s). (U2ART_SUCCESS, tr_post_device SIG_DEVICE_UPDATE_TIMER s)) (timer_update ev timer TIMER_MCU s)"

definition timer_command :: "(string \<times> string) list \<Rightarrow> string option \<Rightarrow> string option option" where
  "timer_command acts v = map_option (map_of acts) v"

definition processTimerUpdateWithParamCmd :: "'f tc_command" where
  "processTimerUpdateWithParamCmd ev req s =
     (case (typed_arg 2 req 0 cJSON_String, typed_arg 2 req 1 cJSON_Object) of
        (Some timer_act, Some timer) \<Rightarrow>
          do {
            act \<leftarrow> timer_command [(''tmrNew'', ''new''), (''tmrEdit'', ''edit''), (''tmrDel'', ''del''),
                     (''tmrEnable'', ''enable''), (''tmrDisable'', ''disable'')] (cj_valuestring timer_act);
            case act of
              None \<Rightarrow> Some (U2ART_INVALID_PARAMS, s)
            | Some a \<Rightarrow> update_timers ev (add_string timer ''timerAct'' a) s
          }
      | _ \<Rightarrow> Some (U2ART_INVALID_PARAMS, s))"

definition processTimerUpdateCmd :: "'f tc_command" where
  "processTimerUpdateCmd ev req s =
     (case typed_arg 1 req 0 cJSON_String of
        None \<Rightarrow> Some (U2ART_INVALID_PARAMS, s)
      | Some timer_act \<Rightarrow>
          do {
            act \<leftarrow> timer_command [(''tmrDelAll'', ''delAll''), (''tmrEnableAll'', ''enableAll''),
                     (''tmrDisableAll'', ''disableAll'')] (cj_valuestring timer_act);
            case act of
              None \<Rightarrow> Some (U2ART_INVALID_PARAMS, s)
            | Some a \<Rightarrow> update_timers ev (add_string cJSON_CreateObject ''timerAct'' a) s
          })"

definition processTimerQueryDevCmd :: "'f tc_command" where
  "processTimerQueryDevCmd ev req s =
     (case typed_arg 2 req 1 cJSON_Array of
        None \<Rightarrow> Some (U2ART_INVALID_PARAMS, s)
      | Some timer \<Rightarrow> map_option (\<lambda>(_, s). (U2ART_SUCCESS, s)) (timer_query ev timer TIMER_MCU s))"

subsection \<open>The table of commands\<close>

definition tc_action :: "'f tr_env \<Rightarrow> 'f tc_command \<Rightarrow> 'f trans cmd_action" where
  "tc_action ev f j st =
     (case st of (crc, out, s) \<Rightarrow>
        map_option (\<lambda>(r, s). (r, tr_crc s, tr_tx s, s)) (f ev (Some j) (s\<lparr>tr_crc := crc, tr_tx := out\<rparr>)))"

definition tc_commands :: "(string \<times> 'f tc_command) list" where
  "tc_commands =
     [(''tick'', processTickCmd), (''baudrate'', processBaudCmd), (''dog'', processDogCmd),
      (''sled'', processSledCmd), (''stateInfo'', processStateInfoCmd), (''state'', processStateCmd),
      (''rssi'', processRssiCmd), (''time'', processTimeCmd), (''setting'', processSettingCmd),
      (''version'', processVersionCmd), (''deviceid'', processDeviceId), (''stamac'', processStamacCmd),
      (''sapmac'', processSapMacCmd), (''update'', processUpdateCmd), (''respond'', processRespondCmd),
      (''query'', processQueryCmd), (''tmrNew'', processTimerUpdateWithParamCmd),
      (''tmrEdit'', processTimerUpdateWithParamCmd), (''tmrDel'', processTimerUpdateWithParamCmd),
      (''tmrDelAll'', processTimerUpdateCmd), (''tmrEnable'', processTimerUpdateWithParamCmd),
      (''tmrEnableAll'', processTimerUpdateCmd), (''tmrDisable'', processTimerUpdateWithParamCmd),
      (''tmrDisableAll'', processTimerUpdateCmd), (''tmrQuery'', processTimerQueryDevCmd),
      (''crc'', processCrcCmd), (''tmrMsg'', processTmrMsgCmd), (''ret'', processRetCmd)]"

definition tc_cmd :: "'f tr_env \<Rightarrow> (string \<times> 'f trans cmd_action option) list" where
  "tc_cmd ev = map (\<lambda>(n, f). (n, Some (tc_action ev f))) tc_commands"

text \<open>A step of the device as a step of the serial port's owner.\<close>

definition on_dev :: "('f trans \<Rightarrow> 'f trans option) \<Rightarrow> 'f trans u2art \<Rightarrow> 'f trans u2art option" where
  "on_dev f u =
     map_option (\<lambda>s. u\<lparr>crc_enable := tr_crc s, tx := tr_tx s, dev := s\<rparr>)
       (f ((dev u)\<lparr>tr_crc := crc_enable u, tr_tx := tx u\<rparr>))"

end
