(* ===== verification/TransMsg.thy ===== *)
theory TransMsg
  imports TransReq
begin

text \<open>
  What reaches the transparent transmission device from the server, from its timers and from its
  key: the callbacks of \<open>app/device/FWTRX_TC.c\<close> that \<open>iotgoRegisterCallbackSet\<close> registers, the task
  of the device, the timer callbacks, and the initialisation.
\<close>

subsection \<open>Removing fields of an object\<close>

text \<open>\<open>cJSON_DeleteItemFromObject\<close>: the first member of that name, whatever the case, goes.\<close>

fun remove_named :: "string \<Rightarrow> cJSON list \<Rightarrow> cJSON list" where
  "remove_named n [] = []"
| "remove_named n (c # cs) = (if cJSON_strcaseeq (cj_string c) (Some n) then cs else c # remove_named n cs)"

definition cJSON_DeleteItemFromObject :: "cJSON \<Rightarrow> string \<Rightarrow> cJSON" where
  "cJSON_DeleteItemFromObject ob n = cj_set_child (remove_named n (cj_child ob)) ob"

text \<open>
  The loop of \<open>deleteField\<close>: \<open>kept\<close> are the members before the current one.  Deleting by the name
  of the current member removes the first member with that name, which may be an earlier one.  A
  member without a name is a null pointer passed to \<open>os_strstr\<close>.
\<close>

fun delete_fields :: "cJSON list \<Rightarrow> cJSON list \<Rightarrow> cJSON list option" where
  "delete_fields kept [] = Some kept"
| "delete_fields kept (c # cs) =
     do {
       n \<leftarrow> cj_string c;
       delete_fields (if c_strstr n ''zyx_'' \<noteq> None then remove_named n (kept @ [c]) else kept @ [c]) cs
     }"

definition deleteField :: "cJSON \<Rightarrow> (bool \<times> cJSON) option" where
  "deleteField j =
     (if cj_type j \<noteq> cJSON_Object then Some (False, j)
      else map_option (\<lambda>cs. (True, cj_set_child cs j)) (delete_fields [] (cj_child j)))"

subsection \<open>Messages for the server\<close>

definition queue_json :: "cJSON \<Rightarrow> nat \<Rightarrow> 'f trans \<Rightarrow> 'f trans option" where
  "queue_json j kind s =
     do {
       out \<leftarrow> cJSON_PrintUnformatted j;
       map_option (\<lambda>p. s\<lparr>tr_conn := p\<rparr>) (pc_queue_add (map_option c_text out) kind False (tr_conn s))
     }"

definition IOTGO_SWITCH_VERSION :: nat where "IOTGO_SWITCH_VERSION = 5"
definition IOTGO_UPDATE_TIMER :: nat where "IOTGO_UPDATE_TIMER = 11"

definition switchUpdateWithVersion :: "'f tr_env \<Rightarrow> 'f trans \<Rightarrow> 'f trans option" where
  "switchUpdateWithVersion ev s =
     (let params = add_string (add_string
            (add_number cJSON_CreateObject ''rssi'' (iotgo_wifi_rssi (pc_net (tr_conn s))))
            ''fwVersion'' (tr_version ev)) ''staMac'' (iotgoStationMac ev)
      in queue_json (cJSON_AddItemToObject (add_string (device_object s) ''action'' ''update'') ''params'' params)
           IOTGO_SWITCH_VERSION s)"

text \<open>\<open>{"timerCnt":n,"timerVer":n}\<close>.\<close>

definition timer_info_object :: "'f trans \<Rightarrow> cJSON" where
  "timer_info_object s =
     (let timer_info = getIotgoTimerInfo (tr_loct s) in
      add_number (add_number cJSON_CreateObject ''timerCnt'' (int (timer_cnt timer_info)))
        ''timerVer'' (int (timer_ver timer_info)))"

definition updateTimerToServer :: "'f trans \<Rightarrow> 'f trans option" where
  "updateTimerToServer s =
     queue_json (cJSON_AddItemToObject (add_string (device_object s) ''action'' ''update'') ''params''
         (cJSON_AddItemToObject cJSON_CreateObject ''timerInfo'' (timer_info_object s)))
       IOTGO_UPDATE_TIMER s"

subsection \<open>Messages from the server\<close>

text \<open>
  Printing a tree and wrapping the text for the MCU: \<open>n\<close> is what the source adds to the lengths of
  the texts for the name, the punctuation and the terminator.
\<close>

fun print_all :: "cJSON list \<Rightarrow> string list option" where
  "print_all [] = Some []"
| "print_all (j # js) =
     do {
       out \<leftarrow> cJSON_PrintUnformatted j;
       txt \<leftarrow> out;
       map_option (Cons txt) (print_all js)
     }"

definition forward :: "'f tr_env \<Rightarrow> string \<Rightarrow> nat \<Rightarrow> cJSON list \<Rightarrow> 'f trans \<Rightarrow> 'f trans option" where
  "forward ev name n js s =
     do {
       txts \<leftarrow> print_all js;
       data \<leftarrow> composed ev (sum_list (map length txts) + n) (cmd_text name txts);
       tc_queue data s
     }"

definition switchRespUpdateCallback :: "'f tr_env \<Rightarrow> string \<Rightarrow> 'f trans \<Rightarrow> 'f trans option" where
  "switchRespUpdateCallback ev data s =
     do {
       r \<leftarrow> cJSON_Parse data;
       case r of
         None \<Rightarrow> Some s
       | Some j \<Rightarrow>
           if cj_type j \<noteq> cJSON_Object then Some s
           else do {
             s \<leftarrow> (case (cJSON_GetObjectItem r ''d_seq'', cJSON_GetObjectItem r ''error'') of
                     (Some dseq, Some error) \<Rightarrow>
                       do {
                         buf \<leftarrow> c_copy 50 (cmd_text ''respond'' [int_dec (cj_valueint dseq), int_dec (cj_valueint error)]);
                         tc_queue buf s
                       }
                   | _ \<Rightarrow> Some s);
             Some (tr_post_device SIG_DEVICE_UPDATE_OK s)
           }
     }"

text \<open>
  The other callbacks test \<open>cjson_root == NULL && cjson_root->type != cJSON_Object\<close>: a text that does
  not parse is a null pointer that is followed, and any tree passes.
\<close>

definition parsed :: "string \<Rightarrow> cJSON option" where
  "parsed data = Option.bind (cJSON_Parse data) (\<lambda>r. r)"

definition IOTGO_SERVER_SEQUENCE_SIZE :: nat where
  "IOTGO_SERVER_SEQUENCE_SIZE = 51"

definition set_sequence :: "string \<Rightarrow> 'f trans \<Rightarrow> 'f trans" where
  "set_sequence v s = on_conn (server_sequence_update (\<lambda>_. v)) s"

definition copy_sequence :: "cJSON \<Rightarrow> 'f trans \<Rightarrow> 'f trans option" where
  "copy_sequence sequence s =
     do {
       v \<leftarrow> cj_valuestring sequence;
       v \<leftarrow> c_copy IOTGO_SERVER_SEQUENCE_SIZE v;
       Some (set_sequence v s)
     }"

definition switchReqQueryCallback :: "'f tr_env \<Rightarrow> string \<Rightarrow> 'f trans \<Rightarrow> 'f trans option" where
  "switchReqQueryCallback ev data s =
     do {
       j \<leftarrow> parsed data;
       case cJSON_GetObjectItem (Some j) ''sequence'' of
         None \<Rightarrow> Some (set_sequence ''Invalid sequence'' s)
       | Some sequence \<Rightarrow>
           do {
             s \<leftarrow> copy_sequence sequence s;
             case cJSON_GetObjectItem (Some j) ''params'' of
               None \<Rightarrow> Some s
             | Some params \<Rightarrow>
                 if cj_type params \<noteq> cJSON_Array then Some s
                 else (case cJSON_GetArrayItem (Some params) 0 of
                         None \<Rightarrow> Some s
                       | Some act \<Rightarrow>
                           do {
                             v \<leftarrow> cj_valuestring act;
                             if v \<in> {''timerInfo'', ''timerIndex'', ''timerID''}
                             then map_option snd (timer_query ev params TIMER_APP s)
                             else forward ev ''queryDev'' 15 [sequence, params] s
                           })
           }
     }"

definition switchRespQueryCallback :: "'f tr_env \<Rightarrow> string \<Rightarrow> 'f trans \<Rightarrow> 'f trans option" where
  "switchRespQueryCallback ev data s =
     do {
       j \<leftarrow> parsed data;
       case (cJSON_GetObjectItem (Some j) ''d_seq'', cJSON_GetObjectItem (Some j) ''params'') of
         (Some sequence, Some params) \<Rightarrow>
           do {
             (ok, params) \<leftarrow> deleteField params;
             if ok then forward ev ''respond'' 14 [sequence, params] s
             else if cj_type params = cJSON_Number \<and> cj_valueint params = 0 then
               do {
                 txt \<leftarrow> print_all [sequence];
                 data \<leftarrow> composed ev (length (hd txt) + 16) (cmd_text ''respond'' (txt @ [''{}'']));
                 tc_queue data s
               }
             else Some s
           }
       | _ \<Rightarrow> Some s
     }"

text \<open>Timers set by the app; the MCU is told if it asked for that.\<close>

definition app_timers :: "'f tr_env \<Rightarrow> cJSON \<Rightarrow> 'f trans \<Rightarrow> 'f trans option" where
  "app_timers ev params s =
     do {
       (ok, s) \<leftarrow> timer_update ev params TIMER_APP s;
       if ok \<and> tmr_msg_flag s then
         do {
           out \<leftarrow> print_all [timer_info_object s];
           tc_queue (hd out) s
         }
       else Some s
     }"

definition switchReqUpdateCallback :: "'f tr_env \<Rightarrow> string \<Rightarrow> 'f trans \<Rightarrow> 'f trans option" where
  "switchReqUpdateCallback ev data s =
     do {
       j \<leftarrow> parsed data;
       let sequence = cJSON_GetObjectItem (Some j) ''sequence'';
       s \<leftarrow> (case sequence of
               None \<Rightarrow> Some (set_sequence ''Invalid sequence'' s)
             | Some sq \<Rightarrow> copy_sequence sq s);
       case cJSON_GetObjectItem (Some j) ''params'' of
         None \<Rightarrow> Some s
       | Some params \<Rightarrow>
           if cJSON_GetObjectItem (Some params) ''timerAct'' \<noteq> None then app_timers ev params s
           else do {
             (ok, params) \<leftarrow> deleteField params;
             if ok then Option.bind sequence (\<lambda>sq. forward ev ''update'' 13 [sq, params] s) else Some s
           }
     }"

text \<open>\<open>take_number\<close>: a field of the configuration is read if it is a number, then removed.\<close>

definition take_number :: "string \<Rightarrow> cJSON \<Rightarrow> nat option \<times> cJSON" where
  "take_number n ob =
     (case cJSON_GetObjectItem (Some ob) n of
        None \<Rightarrow> (None, ob)
      | Some c \<Rightarrow> (if cj_type c = cJSON_Number then Some (to_u16 (cj_valueint c)) else None,
                   cJSON_DeleteItemFromObject ob n))"

definition dev_config :: "'f tr_env \<Rightarrow> string \<Rightarrow> nat \<Rightarrow> cJSON \<Rightarrow> 'f trans \<Rightarrow> 'f trans option" where
  "dev_config ev name n devconfig s =
     do {
       let (period, devconfig) = take_number ''tcReqPeriod'' devconfig;
       let s = (case period of None \<Rightarrow> s | Some p \<Rightarrow> s\<lparr>tcreq_period := p\<rparr>);
       let (maxi, devconfig) = take_number ''tcReqMax'' devconfig;
       let s = (case maxi of None \<Rightarrow> s | Some m \<Rightarrow> s\<lparr>tcreq_max := m\<rparr>);
       (ok, devconfig) \<leftarrow> deleteField devconfig;
       if ok then forward ev name n [devconfig] s else Some s
     }"

definition dev_config_in :: "'f tr_env \<Rightarrow> string \<Rightarrow> string \<Rightarrow> nat \<Rightarrow> string \<Rightarrow> 'f trans \<Rightarrow> 'f trans option" where
  "dev_config_in ev field name n data s =
     do {
       r \<leftarrow> cJSON_Parse data;
       case r of
         None \<Rightarrow> Some s
       | Some j \<Rightarrow>
           (case cJSON_GetObjectItem (Some j) field of
              None \<Rightarrow> Some s
            | Some config \<Rightarrow>
                (case cJSON_GetObjectItem (Some config) ''devConfig'' of
                   None \<Rightarrow> Some s
                 | Some devconfig \<Rightarrow> dev_config ev name n devconfig s))
     }"

definition sendDevConfigInRegister :: "'f tr_env \<Rightarrow> string \<Rightarrow> 'f trans \<Rightarrow> 'f trans option" where
  "sendDevConfigInRegister ev data s = dev_config_in ev ''config'' ''regConfig'' 15 data s"

definition sendDevConfigInNotify :: "'f tr_env \<Rightarrow> string \<Rightarrow> 'f trans \<Rightarrow> 'f trans option" where
  "sendDevConfigInNotify ev data s = dev_config_in ev ''params'' ''notifyConfig'' 18 data s"

subsection \<open>Timer callbacks and the task of the device\<close>

definition sendDataToMcuAgain :: "'f trans \<Rightarrow> 'f trans option" where
  "sendDataToMcuAgain s =
     do {
       let s = s\<lparr>again_counter := to_u8 (int (again_counter s) + 1)\<rparr>;
       s \<leftarrow> (if again_counter s \<ge> 2 then tc_delete (s\<lparr>again_counter := 0\<rparr>) else Some s);
       Some (tr_post_device SIG_DEVICE_UPDATE_BY_REMOTE s)
     }"

text \<open>The head of the queue is sent; the result of the transmission is not looked at.\<close>

definition transDataToMcu :: "'f trans \<Rightarrow> 'f trans option" where
  "transDataToMcu s =
     (case snd (tc_link_queue s) of
        None \<Rightarrow> Some s
      | Some q \<Rightarrow>
          if q_head q \<noteq> 0 \<and> q_length q \<noteq> 0 then
            do {
              data \<leftarrow> iotgoQueueHeadData q;
              (_, out) \<leftarrow> send_data (Some data) (length (str_of data)) (tr_crc s) (tr_tx s);
              Some (s\<lparr>tr_tx := out, send_data_again_timer := Armed 2000 False\<rparr>)
            }
          else Some s)"

definition queryState :: "'f trans \<Rightarrow> 'f trans option" where
  "queryState s =
     (let s = s\<lparr>query_state := state_code (query_state s) (tr_mode s)\<rparr> in
      if query_state s \<noteq> query_last_state s then
        do {
          temp \<leftarrow> c_copy 30 (cmd_text ''state'' [int_dec (int (query_state s))]);
          tc_queue temp (s\<lparr>query_last_state := query_state s\<rparr>)
        }
      else Some s)"

text \<open>The clock tick of the local timers, with what the timers do carried out on the device.\<close>

definition local_timer_tick :: "'f tr_env \<Rightarrow> 'f trans \<Rightarrow> 'f trans option" where
  "local_timer_tick ev s =
     map_option snd (on_loct (\<lambda>l. map_option (Pair ())
       (timerDealTime (getGMTTime (pc_clock (tr_conn s)) zero_gmt) l)) ev s)"

definition flowControl :: "'f trans \<Rightarrow> 'f trans" where
  "flowControl s =
     (let s = s\<lparr>flow_couter := to_u16 (int (flow_couter s) + 1)\<rparr> in
      if flow_couter s \<ge> tcreq_period s * 60 then s\<lparr>tcreq_couter := 0, flow_couter := 0\<rparr> else s)"

text \<open>The task of the device; unknown signals are ignored.  The static flag it sets is never read.\<close>

definition switchDevicePostCenter :: "'f tr_env \<Rightarrow> IoTgoSignalSet \<Rightarrow> 'f trans \<Rightarrow> 'f trans option" where
  "switchDevicePostCenter ev sig s =
     (case sig of
        SIG_DEVICE_READYED \<Rightarrow>
          Some (tr_post_device SIG_DEVICE_UPDATE (s\<lparr>tr_sched := stopTimerMonitor (tr_sched s)\<rparr>))
      | SIG_DEVICE_UPDATE \<Rightarrow> switchUpdateWithVersion ev s
      | SIG_DEVICE_UPDATE_OK \<Rightarrow> Some s
      | SIG_DEVICE_UPDATE_BY_REMOTE \<Rightarrow> transDataToMcu s
      | SIG_DEVICE_UPDATE_TIMER \<Rightarrow> updateTimerToServer s
      | _ \<Rightarrow> Some s)"

subsection \<open>The key\<close>

definition KEY_DEBONCE_INTERVAL :: nat where "KEY_DEBONCE_INTERVAL = 25"
definition KEY_LONG_PRESS_TIME :: nat where "KEY_LONG_PRESS_TIME = 5000"
definition KEY_DEBONCE_FIRST_TIME :: nat where "KEY_DEBONCE_FIRST_TIME = KEY_DEBONCE_INTERVAL * 2"
definition KEY_DEBONCE_SECOND_TIME :: nat where "KEY_DEBONCE_SECOND_TIME = KEY_DEBONCE_INTERVAL * 2"

text \<open>A timer in allocated memory that frees itself; \<open>selfap_timers\<close> counts those that are armed.\<close>

definition enterSettingSelfap :: "'f trans \<Rightarrow> 'f trans" where
  "enterSettingSelfap s =
     (tr_post_core MSG_CORE_ENTER_SETTING_SELFAP_MODE s)\<lparr>selfap_timers := selfap_timers s - 1\<rparr>"

definition long_press :: "'f trans \<Rightarrow> 'f trans" where
  "long_press s =
     (let current = tr_mode s in
      if current \<noteq> DEVICE_MODE_SETTING \<and> current \<noteq> DEVICE_MODE_SETTING_SELFAP then
        if \<not> long_press_processed s
        then tr_post_core MSG_CORE_ENTER_SETTING_MODE (s\<lparr>long_press_processed := True\<rparr>) else s
      else if current = DEVICE_MODE_SETTING then
        if \<not> long_press_processed s
        then (tr_post_core MSG_CORE_EXIT_SETTING_MODE (s\<lparr>long_press_processed := True\<rparr>))
               \<lparr>selfap_timers := selfap_timers s + 1\<rparr>
        else s
      else s\<lparr>long_press_processed := True\<rparr>)"

definition short_press :: "'f trans \<Rightarrow> 'f trans" where
  "short_press s =
     (let current = tr_mode s in
      if current = DEVICE_MODE_SETTING then tr_post_core MSG_CORE_EXIT_SETTING_MODE s
      else if current = DEVICE_MODE_SETTING_SELFAP then tr_post_core MSG_CORE_EXIT_SETTING_SELFAP_MODE s
      else s)"

definition key_sample :: "bool \<Rightarrow> 'f trans \<Rightarrow> 'f trans" where
  "key_sample released s =
     (if released then
        if key_pressed_level_counter s > 0
        then s\<lparr>key_released_level_counter := key_released_level_counter s + 1\<rparr> else s
      else if key_released_level_counter s = 0 then
        (let s = s\<lparr>key_pressed_level_counter := key_pressed_level_counter s + 1\<rparr> in
         if key_pressed_level_counter s \<ge> KEY_LONG_PRESS_TIME div KEY_DEBONCE_INTERVAL
         then long_press (s\<lparr>key_pressed_level_counter := KEY_LONG_PRESS_TIME div KEY_DEBONCE_INTERVAL\<rparr>)
         else s)
      else s)"

text \<open>\<open>released\<close> is the level of the pin at the time of the sample.\<close>

definition keyISRStage2 :: "bool \<Rightarrow> 'f trans \<Rightarrow> 'f trans" where
  "keyISRStage2 released s =
     (let s = key_sample released s in
      if key_released_level_counter s \<ge> KEY_DEBONCE_SECOND_TIME div KEY_DEBONCE_INTERVAL then
        (if key_pressed_level_counter s \<ge> KEY_DEBONCE_FIRST_TIME div KEY_DEBONCE_INTERVAL \<and> \<not> long_press_processed s
         then short_press s else s)
        \<lparr>long_press_processed := False, key_isr_timer := Disarmed, key_released_level_counter := 0,
          key_pressed_level_counter := 0, key_interrupt := True\<rparr>
      else s)"

text \<open>The interrupt of the pin; \<open>mine\<close> tells whether its status bit is set.\<close>

definition keyISR :: "bool \<Rightarrow> 'f trans \<Rightarrow> 'f trans" where
  "keyISR mine s =
     (if mine then s\<lparr>key_interrupt := False, key_pressed_level_counter := 0, key_released_level_counter := 0,
                      key_isr_timer := Armed KEY_DEBONCE_INTERVAL True\<rparr>
      else s)"

subsection \<open>Initialisation\<close>

definition interruptInit :: "'f trans \<Rightarrow> 'f trans" where
  "interruptInit s = s\<lparr>key_interrupt := True\<rparr>"

definition watchDogHighPriorityInit :: "'f trans \<Rightarrow> 'f trans" where
  "watchDogHighPriorityInit s = s\<lparr>high_ctrl_level := True, watch_dog_timer := Disarmed\<rparr>"

text \<open>\<open>watch_dog\<close> is unsigned, so it is never below zero.\<close>

definition valid_config :: "tcConfig \<Rightarrow> tcConfig" where
  "valid_config c =
     (let c = (if baudrate c \<noteq> 9600 \<and> baudrate c \<noteq> 115200 then c\<lparr>baudrate := 9600\<rparr> else c)
      in if cfg_watch_dog c > 60 then c\<lparr>cfg_watch_dog := 0\<rparr> else c)"

definition initTcConfig :: "'f tr_env \<Rightarrow> 'f trans \<Rightarrow> 'f trans" where
  "initTcConfig ev s =
     (let c = valid_config (config_of_bytes (devLoadConfigFromFlash (tr_spi ev) config_size (flash (tr_loct s))));
          s = s\<lparr>tc_config := c, uart_baud := baudrate c, tr_crc := cfg_crc c\<rparr>;
          s = (if cfg_watch_dog c > 0 then s\<lparr>watch_dog_timer := Armed (1000 * cfg_watch_dog c) True\<rparr> else s);
          s = s\<lparr>normal_mode_led_off := cfg_sled_off c\<rparr>;
          s = (if cfg_state_info c > 0 then s\<lparr>query_state_timer := Armed 1000 True\<rparr> else s)
      in s\<lparr>tmr_msg_flag := cfg_timer_sync c\<rparr>)"

definition tellMcuStart :: "'f trans \<Rightarrow> 'f trans option" where
  "tellMcuStart s = tc_queue (cmd_text ''start'' []) s"

definition tc_create :: "'f trans \<Rightarrow> 'f trans" where
  "tc_create s =
     (let h = (case snd (tc_link_queue s) of None \<Rightarrow> Map.empty | Some q \<Rightarrow> q_heap q)
      in s\<lparr>tc_link_queue := (fst (tc_link_queue s), Some (fst (tcCreateLinkQueue h True)))\<rparr>)"

definition init_timers :: "'f tr_env \<Rightarrow> 'f trans \<Rightarrow> 'f trans" where
  "init_timers ev s = s\<lparr>tr_loct := timerInit (tr_flash ev) True (tr_loct s)\<rparr>"

definition switchInitIoTgoDevice :: "'f tr_env \<Rightarrow> 'f trans u2art \<Rightarrow> 'f trans u2art option" where
  "switchInitIoTgoDevice ev u =
     do {
       u \<leftarrow> on_dev (\<lambda>s. Some (watchDogHighPriorityInit (tc_create (interruptInit s)))) u;
       u \<leftarrow> cmdProcessorStart (tc_cmd ev) (length (tc_cmd ev)) u;
       on_dev (\<lambda>s.
         (let s = init_timers ev s;
              s = s\<lparr>send_data_again_timer := Disarmed, query_state_timer := Disarmed\<rparr>;
              s = initTcConfig ev s
          in tellMcuStart (s\<lparr>flow_control_timer := Armed 1000 True\<rparr>))) u
     }"

definition switchInitDeviceConfig :: "'f tr_env \<Rightarrow> 'f trans \<Rightarrow> 'f trans" where
  "switchInitDeviceConfig ev s =
     (let s = s\<lparr>tr_loct := timerFlashErase (tr_flash ev) (tr_loct s)\<rparr>;
          s = on_flash (devEraseConfigInFlash (tr_spi ev)) s
      in save_config ev \<lparr>baudrate = 9600, cfg_crc = False, cfg_watch_dog = 0, cfg_sled_off = False,
           cfg_state_info = 0, cfg_timer_sync = False\<rparr> s)"

end
