(* ===== verification/TransDemo.thy ===== *)
theory TransDemo
  imports TransMsg PconnQueue
begin

text \<open>
  A concrete state of the transparent transmission device and a concrete environment, at which the
  properties of the device are tried out.
\<close>

definition demo_tr_env :: "(nat \<Rightarrow> bytes) tr_env" where
  "demo_tr_env = \<lparr>tr_pconn = example_env (\<lambda>_. 0),
     tr_flash = \<lparr>rd_param = \<lambda>_ _. \<lparr>fp_timer_num = 0, fp_timer = [], fp_timer_info = \<lparr>timer_ver = 0, timer_cnt = 0\<rparr>,
                                    fp_timer_id = []\<rparr>,
       rd_flag = \<lambda>_ _. 0, erase_sector = \<lambda>_ f. f, wr_param = \<lambda>_ _ f. f, wr_flag = \<lambda>_ _ f. f, malloc_param = True\<rparr>,
     tr_spi = nor_flash, tr_malloc = (\<lambda>n. Some (n + 4)),
     tr_sta_mac = Some [0x18, 0xFE, 0x34, 0, 0, 1], tr_sap_mac = Some [0x1A, 0xFE, 0x34, 0, 0, 1],
     tr_version = ''1.0.0''\<rparr>"

definition demo_config :: tcConfig where
  "demo_config = \<lparr>baudrate = 9600, cfg_crc = False, cfg_watch_dog = 0, cfg_sled_off = False, cfg_state_info = 0,
     cfg_timer_sync = False\<rparr>"

definition demo_timers :: "(nat \<Rightarrow> bytes) loct" where
  "demo_timers = \<lparr>iotgo_timer = replicate 8 zero_timer, iotgo_timer_info = \<lparr>timer_ver = 0, timer_cnt = 0\<rparr>,
     iotgo_timer_id = replicate 8 0, iotgo_timer_action = True, iotgo_timer_couter = Armed 1000 True,
     timer_manager = TIMER_NULL, flash = (\<lambda>_. []), effects = [], owner_uuid = [], deviceid = [],
     server_sequence_value = []\<rparr>"

definition demo_queue :: tc_state where
  "demo_queue = (bump_malloc, Some empty_queue)"

definition demo_trans :: "IoTgoDeviceMode \<Rightarrow> (nat \<Rightarrow> bytes) trans" where
  "demo_trans mode =
     \<lparr>tr_conn = idle_pconn (bump_malloc, empty_queue) (net_init\<lparr>device_mode := mode\<rparr>), tr_loct = demo_timers,
      tr_sched = \<lparr>time_object_list = [], live = 0, timer_monitor = Disarmed, env = ()\<rparr>,
      tr_crc = False, tr_tx = [], key_pressed_level_counter = 0, key_released_level_counter = 0,
      long_press_processed = False, key_interrupt = True, key_isr_timer = Disarmed, selfap_timers = 0,
      app_high_ctrl_timer = Disarmed, watch_dog_timer = Disarmed, send_data_again_timer = Disarmed,
      query_state_timer = Disarmed, enter_ap_mode_timer = Disarmed, enter_esptouch_mode_timer = Disarmed,
      flow_control_timer = Armed 1000 True, modify_baudrate_timer = Disarmed, modify_baudrate_arg = 0,
      tc_link_queue = demo_queue, tcreq_couter = 0, tcreq_period = TCREQ_PERIOD, tcreq_max = TCREQ_MAX,
      flow_couter = 0, tmr_msg_flag = False, again_counter = 0, query_state = TC_STATE_NORMAL,
      query_last_state = TC_STATE_UNREGISTER, tc_config = demo_config, normal_mode_led_off = False,
      high_ctrl_level = True, uart_baud = 9600\<rparr>"

lemma demo_trans_fields [simp]:
  "tc_link_queue (demo_trans mode) = demo_queue" "device_q (pc_net (tr_conn (demo_trans mode))) = []"
  "device_mode (pc_net (tr_conn (demo_trans mode))) = mode" "tr_crc (demo_trans mode) = False"
  "tr_tx (demo_trans mode) = []" "tcreq_couter (demo_trans mode) = 0" "tcreq_max (demo_trans mode) = 20"
  "tcreq_period (demo_trans mode) = 1" "flow_couter (demo_trans mode) = 0" "again_counter (demo_trans mode) = 0"
  "key_pressed_level_counter (demo_trans mode) = 0" "key_released_level_counter (demo_trans mode) = 0"
  "long_press_processed (demo_trans mode) = False" "send_data_again_timer (demo_trans mode) = Disarmed"
  "core_q (pc_net (tr_conn (demo_trans mode))) = []" "tc_config (demo_trans mode) = demo_config"
  by (simp_all add: demo_trans_def idle_pconn_def net_init_def TCREQ_MAX_def TCREQ_PERIOD_def)

lemma demo_queue_rep: "tc_rep demo_queue []"
proof -
  have "queue_rep (bump_malloc, empty_queue) []"
    using empty_queue_rep bump_malloc_ok by (auto simp: queue_rep_def intro!: exI [of _ Map.empty])
  then show ?thesis by (simp add: tc_rep_def demo_queue_def)
qed

end
