(* ===== verification/TransRun.thy ===== *)
theory TransRun
  imports TransDemo
begin

text \<open>
  The transparent transmission device as a whole: its steps, and what becomes of the messages that
  wait for the microcontroller (MCU).  A message is sent when the queue was empty before it, or
  after a time-out of the one before it; an answer of the MCU drops the head of the queue and
  sends nothing.  So messages without an answer are worked off, and messages that arrive while an
  answer is outstanding stay in the queue.
\<close>

lemma bind_SomeE:
  assumes "Option.bind m f = Some y"
  obtains x where "m = Some x" "f x = Some y"
  using assms by (auto simp: bind_Some_iff)

subsection \<open>Steps\<close>

datatype tr_label = LCommand string U2artError | LSignal IoTgoSignalSet | LInternal

definition device_pending :: "'f trans \<Rightarrow> (IoTgoSignalSet \<times> nat) list" where
  "device_pending s = device_q (pc_net (tr_conn s))"

definition set_pending :: "(IoTgoSignalSet \<times> nat) list \<Rightarrow> 'f trans \<Rightarrow> 'f trans" where
  "set_pending q s = on_conn (on_net (device_q_update (\<lambda>_. q))) s"

definition server_callbacks :: "('f tr_env \<Rightarrow> string \<Rightarrow> 'f trans \<Rightarrow> 'f trans option) list" where
  "server_callbacks = [switchRespUpdateCallback, switchReqUpdateCallback, switchRespQueryCallback,
     switchReqQueryCallback, sendDevConfigInRegister, sendDevConfigInNotify]"

text \<open>
  A step that is undefined has no successor.  \<open>others\<close> is what the rest of the firmware does to the
  parts it shares with the device; it never posts \<open>SIG_DEVICE_UPDATE_BY_REMOTE\<close>.
\<close>

inductive tr_step :: "'f tr_env \<Rightarrow> 'f trans \<Rightarrow> tr_label \<Rightarrow> 'f trans \<Rightarrow> bool" for ev where
  command: "(n, f) \<in> set tc_commands \<Longrightarrow> f ev (Some j) s = Some (r, s') \<Longrightarrow> tr_step ev s (LCommand n r) s'"
| signal: "device_pending s = (sig, par) # q \<Longrightarrow> switchDevicePostCenter ev sig (set_pending q s) = Some s' \<Longrightarrow>
    tr_step ev s (LSignal sig) s'"
| server: "cb \<in> set server_callbacks \<Longrightarrow> cb ev data s = Some s' \<Longrightarrow> tr_step ev s LInternal s'"
| again: "send_data_again_timer s \<noteq> Disarmed \<Longrightarrow> sendDataToMcuAgain (s\<lparr>send_data_again_timer := Disarmed\<rparr>) = Some s' \<Longrightarrow>
    tr_step ev s LInternal s'"
| query: "query_state_timer s \<noteq> Disarmed \<Longrightarrow> queryState s = Some s' \<Longrightarrow> tr_step ev s LInternal s'"
| local_timers: "local_timer_tick ev s = Some s' \<Longrightarrow> tr_step ev s LInternal s'"
| flow: "tr_step ev s LInternal (flowControl s)"
| key: "tr_step ev s LInternal (keyISRStage2 released s)"
| key_edge: "tr_step ev s LInternal (keyISR mine s)"
| watch_dog: "tr_step ev s LInternal (taWatchDogCallback s)"
| watch_dog_end: "tr_step ev s LInternal (cbWatchDogHighCtrlTimer ev s)"
| baud: "tr_step ev s LInternal (modifyBaudrate s)"
| enter_ap: "tr_step ev s LInternal (enterAp s)"
| enter_esptouch: "tr_step ev s LInternal (enterEsptouch s)"
| enter_selfap: "tr_step ev s LInternal (enterSettingSelfap s)"
| others: "device_q (pc_net p) = device_pending s @ sigs \<Longrightarrow> SIG_DEVICE_UPDATE_BY_REMOTE \<notin> fst ` set sigs \<Longrightarrow>
    tr_step ev s LInternal (s\<lparr>tr_conn := p, tr_sched := d\<rparr>)"

inductive tr_run :: "'f tr_env \<Rightarrow> 'f trans \<Rightarrow> tr_label list \<Rightarrow> 'f trans \<Rightarrow> bool" for ev where
  Nil: "tr_run ev s [] s"
| Cons: "tr_step ev s l s' \<Longrightarrow> tr_run ev s' ls s'' \<Longrightarrow> tr_run ev s (l # ls) s''"

subsection \<open>The queue of messages for the MCU\<close>

text \<open>A text as it lies in the queue.\<close>

definition entry :: "string \<Rightarrow> nat \<times> bytes" where
  "entry txt = (TC_NULL, takeWhile (\<lambda>b. b \<noteq> 0) (c_text txt) @ [0])"

lemma copy_entry: "copy_data (c_text txt) TC_NULL = Some (snd (entry txt))"
  by (simp add: copy_data_def entry_def TC_NULL_def IOTGO_PING_def c_text_def)

lemma tc_queue_spec:
  assumes "tc_rep (tc_link_queue s) xs"
  obtains q where "tc_queue txt s = Some ((if xs = [] then sendDataFromAppToMcu else (\<lambda>s. s)) (s\<lparr>tc_link_queue := q\<rparr>))"
    and "tc_rep q (if length xs < 10 then xs @ [entry txt] else xs)"
proof -
  from serial_queue.add [OF assms copy_entry, of False "txt"] obtain ok post ys q where
    q: "add_spec TC_NULL False (snd (entry txt)) xs = (ok, post, ys)"
      "tc_add TC_NULL False (c_text txt) (tc_link_queue s) = Some (ok, post, q)" "tc_rep q ys"
    by blast
  then have "post = (xs = [])" "ys = (if length xs < 10 then xs @ [entry txt] else xs)"
    by (auto simp: add_spec_def entry_def split: if_splits)
  with q show thesis by (intro that [of q]) (simp_all add: tc_queue_def)
qed

lemma tc_delete_spec:
  assumes "tc_rep (tc_link_queue s) (x # xs)"
  obtains q where "tc_delete s = Some (s\<lparr>tc_link_queue := q\<rparr>)" "tc_rep q xs"
  using serial_queue.del [OF assms] by (auto simp: tc_delete_def)

subsection \<open>A stalled queue\<close>

text \<open>
  A message \<open>x\<close> waits, no answer is awaited and the task of the device is not told.  Which of this
  a step can change is what \<open>mcu_view\<close> shows.
\<close>

definition mcu_view :: "'f trans \<Rightarrow> os_timer \<times> tc_state \<times> (IoTgoSignalSet \<times> nat) list" where
  "mcu_view s = (send_data_again_timer s, tc_link_queue s, device_pending s)"

definition stalled :: "nat \<times> bytes \<Rightarrow> 'f trans \<Rightarrow> bool" where
  "stalled x s \<longleftrightarrow> send_data_again_timer s = Disarmed
     \<and> SIG_DEVICE_UPDATE_BY_REMOTE \<notin> fst ` set (device_pending s) \<and> (\<exists>xs. tc_rep (tc_link_queue s) (x # xs))"

lemma stalled_view: "mcu_view s' = mcu_view s \<Longrightarrow> stalled x s \<Longrightarrow> stalled x s'"
  by (simp add: mcu_view_def stalled_def)

named_theorems view_simps

lemma view_conn [view_simps]:
  "mcu_view (tr_post_core m s) = mcu_view s"
  "mcu_view (set_sequence v s) = mcu_view s"
  "mcu_view (on_flash f s) = mcu_view s"
  "mcu_view (save_config ev c s) = mcu_view s"
  "mcu_view (change_config ev g s) = mcu_view s"
  by (simp_all add: mcu_view_def tr_post_core_def on_conn_def on_net_def post_core_def device_pending_def
      set_sequence_def on_flash_def save_config_def change_config_def)

lemma view_fields [view_simps]:
  "mcu_view (s\<lparr>tr_tx := a\<rparr>) = mcu_view s" "mcu_view (s\<lparr>tr_crc := b\<rparr>) = mcu_view s"
  "mcu_view (s\<lparr>modify_baudrate_timer := t, modify_baudrate_arg := n\<rparr>) = mcu_view s"
  "mcu_view (s\<lparr>watch_dog_timer := t\<rparr>) = mcu_view s" "mcu_view (s\<lparr>query_state_timer := t\<rparr>) = mcu_view s"
  "mcu_view (s\<lparr>normal_mode_led_off := b\<rparr>) = mcu_view s" "mcu_view (s\<lparr>tmr_msg_flag := b\<rparr>) = mcu_view s"
  "mcu_view (s\<lparr>enter_ap_mode_timer := t\<rparr>) = mcu_view s" "mcu_view (s\<lparr>enter_esptouch_mode_timer := t\<rparr>) = mcu_view s"
  "mcu_view (s\<lparr>tcreq_couter := n\<rparr>) = mcu_view s" "mcu_view (s\<lparr>tr_loct := l\<rparr>) = mcu_view s"
  "mcu_view (s\<lparr>tcreq_period := n\<rparr>) = mcu_view s" "mcu_view (s\<lparr>tcreq_max := n\<rparr>) = mcu_view s"
  "mcu_view (s\<lparr>query_state := n\<rparr>) = mcu_view s" "mcu_view (s\<lparr>query_last_state := n\<rparr>) = mcu_view s"
  "mcu_view (s\<lparr>uart_baud := n\<rparr>) = mcu_view s" "mcu_view (s\<lparr>tr_sched := d\<rparr>) = mcu_view s"
  by (simp_all add: mcu_view_def device_pending_def)

lemma view_send_mcu: "send_mcu txt s = Some (ok, s') \<Longrightarrow> mcu_view s' = mcu_view s"
  by (auto simp: send_mcu_def view_simps)

lemma view_answer: "answer txt s = Some (r, s') \<Longrightarrow> mcu_view s' = mcu_view s"
  by (auto simp: answer_def dest: view_send_mcu)

lemma view_pkg:
  assumes "sendIoTgoPkg pe data p = Some (r, p')"
  shows "device_q (pc_net p') = device_q (pc_net p)"
proof -
  from assms obtain z where "(case z of Inl code \<Rightarrow> (int code, p) | Inr fr \<Rightarrow> esp_send pe fr p) = (r, p')"
    by (auto simp: sendIoTgoPkg_def)
  then show ?thesis by (cases z) (auto simp: esp_send_def)
qed

lemma view_send_tree: "send_tree ev j s = Some (r, s') \<Longrightarrow> mcu_view s' = mcu_view s"
  by (auto simp: send_tree_def bind_Some_iff mcu_view_def device_pending_def dest: view_pkg)

lemma view_send_and_answer: "send_and_answer ev j s = Some (r, s') \<Longrightarrow> mcu_view s' = mcu_view s"
  by (auto simp: send_and_answer_def bind_Some_iff view_send_tree split: if_splits dest!: view_answer)

lemma view_queue_add:
  "pc_queue_add data kind del p = Some p' \<Longrightarrow> device_q (pc_net p') = device_q (pc_net p)"
  by (auto simp: pc_queue_add_def pc_post_def on_net_def post_core_def set_link_def split: if_splits)

lemma view_queue_json: "queue_json j kind s = Some s' \<Longrightarrow> mcu_view s' = mcu_view s"
  by (auto simp: queue_json_def bind_Some_iff mcu_view_def device_pending_def view_queue_add)

lemma view_server_request: "server_request a ty ev req s = Some (r, s') \<Longrightarrow> mcu_view s' = mcu_view s"
  unfolding server_request_def Let_def
  by (auto simp: view_simps split: if_splits option.splits dest!: view_send_and_answer)

lemmas config_commands =
  processTickCmd_def processBaudCmd_def processDogCmd_def processSledCmd_def processStateInfoCmd_def
  processCrcCmd_def processTmrMsgCmd_def processStateCmd_def processRssiCmd_def processTimeCmd_def
  processVersionCmd_def processDeviceId_def processStamacCmd_def processSapMacCmd_def

lemma view_setting_mode: "dealSettingMode m s = (r, s') \<Longrightarrow> mcu_view s' = mcu_view s"
  unfolding dealSettingMode_def Let_def by (auto simp: view_simps split: if_splits)

text \<open>The commands that leave the queue alone, and those of the local timers.\<close>

definition plain_commands :: "'f tc_command list" where
  "plain_commands =
     [processTickCmd, processBaudCmd, processDogCmd, processSledCmd, processStateInfoCmd, processCrcCmd,
      processTmrMsgCmd, processStateCmd, processRssiCmd, processTimeCmd, processVersionCmd, processDeviceId,
      processStamacCmd, processSapMacCmd, processSettingCmd, processUpdateCmd, processQueryCmd]"

definition timer_commands :: "'f tc_command list" where
  "timer_commands = [processTimerUpdateWithParamCmd, processTimerUpdateCmd, processTimerQueryDevCmd]"

lemma command_cases:
  assumes "(n, f) \<in> set tc_commands" "n \<noteq> ''ret''" "n \<noteq> ''respond''"
  shows "f \<in> set plain_commands \<or> f \<in> set timer_commands"
proof -
  have "\<forall>(n, f) \<in> set tc_commands. n = ''ret'' \<or> n = ''respond'' \<or> f \<in> set plain_commands \<or> f \<in> set timer_commands"
    by (simp add: tc_commands_def plain_commands_def timer_commands_def)
  with assms show ?thesis by blast
qed

lemma view_config:
  assumes "f \<in> set plain_commands" and "f ev req s = Some (r, s')"
  shows "mcu_view s' = mcu_view s"
  using assms
  by (auto simp: plain_commands_def config_commands processSettingCmd_def processUpdateCmd_def processQueryCmd_def Let_def bind_Some_iff view_simps
      split: option.splits if_splits prod.splits
      dest!: view_send_mcu view_answer view_setting_mode view_server_request)

subsection \<open>Nothing but an answer ends a stall\<close>

lemma stalled_tc_queue:
  assumes "stalled x s" "tc_queue t s = Some s'"
  shows "stalled x s'"
proof -
  from assms(1) obtain xs where xs: "tc_rep (tc_link_queue s) (x # xs)" by (auto simp: stalled_def)
  from tc_queue_spec [OF xs, of t] assms(2) obtain q where
    "s' = s\<lparr>tc_link_queue := q\<rparr>" "tc_rep q (if length (x # xs) < 10 then (x # xs) @ [entry t] else x # xs)"
    by auto
  with assms(1) show ?thesis by (auto simp: stalled_def device_pending_def split: if_splits)
qed

lemma stalled_post:
  "stalled x s \<Longrightarrow> m \<noteq> SIG_DEVICE_UPDATE_BY_REMOTE \<Longrightarrow> stalled x (tr_post_device m s)"
  by (auto simp: stalled_def tr_post_device_def device_pending_def on_conn_def on_net_def post_device_def)

lemma stalled_effect:
  assumes "stalled x s" "loct_effect ev e s = Some s'"
  shows "stalled x s'"
proof (cases e)
  case (QueueAdd t k)
  with assms(2) have "mcu_view s' = mcu_view s"
    by (auto simp: loct_effect_def mcu_view_def device_pending_def view_queue_add)
  with assms(1) show ?thesis by (rule stalled_view [rotated])
next
  case (SendRet t)
  with assms(2) have "mcu_view s' = mcu_view s" by (auto simp: loct_effect_def view_simps)
  with assms(1) show ?thesis by (rule stalled_view [rotated])
next
  case (Action t)
  with assms show ?thesis
    by (auto simp: loct_effect_def switchActionCallback_def bind_Some_iff intro: stalled_tc_queue)
qed

lemma stalled_effects: "stalled x s \<Longrightarrow> loct_effects ev es s = Some s' \<Longrightarrow> stalled x s'"
  by (induction es arbitrary: s) (auto simp: bind_Some_iff dest: stalled_effect)

lemma stalled_on_loct:
  assumes "stalled x s" "on_loct f ev s = Some (r, s')"
  shows "stalled x s'"
proof -
  from assms(2) obtain l where "loct_effects ev (effects l) (s\<lparr>tr_loct := l\<lparr>effects := []\<rparr>\<rparr>) = Some s'"
    by (auto simp: on_loct_def bind_Some_iff)
  moreover have "stalled x (s\<lparr>tr_loct := l\<lparr>effects := []\<rparr>\<rparr>)"
    by (rule stalled_view [OF _ assms(1)]) (simp add: view_simps)
  ultimately show ?thesis by (rule stalled_effects [rotated])
qed

lemma stalled_update_timers: "stalled x s \<Longrightarrow> update_timers ev t s = Some (r, s') \<Longrightarrow> stalled x s'"
  unfolding update_timers_def timer_update_def
  by (auto intro!: stalled_post elim: stalled_on_loct)

lemma stalled_timer_query: "stalled x s \<Longrightarrow> timer_query ev t m s = Some (r, s') \<Longrightarrow> stalled x s'"
  unfolding timer_query_def by (rule stalled_on_loct)

lemma stalled_timers:
  assumes "f \<in> set timer_commands" "stalled x s" "f ev req s = Some (r, s')"
  shows "stalled x s'"
proof -
  have "stalled x s'" if "processTimerUpdateWithParamCmd ev req s = Some (r, s')"
    using that assms(2) unfolding processTimerUpdateWithParamCmd_def
    by (auto simp: bind_Some_iff split: option.splits elim: stalled_update_timers)
  moreover have "stalled x s'" if "processTimerUpdateCmd ev req s = Some (r, s')"
    using that assms(2) unfolding processTimerUpdateCmd_def
    by (auto simp: bind_Some_iff split: option.splits elim: stalled_update_timers)
  moreover have "stalled x s'" if "processTimerQueryDevCmd ev req s = Some (r, s')"
    using that assms(2) unfolding processTimerQueryDevCmd_def
    by (auto split: option.splits elim: stalled_timer_query)
  ultimately show ?thesis using assms(1,3) by (auto simp: timer_commands_def)
qed

lemma stalled_command:
  assumes "(n, f) \<in> set tc_commands" "n \<noteq> ''ret''" "n \<noteq> ''respond''" "stalled x s" "f ev req s = Some (r, s')"
  shows "stalled x s'"
  using command_cases [OF assms(1-3)] stalled_timers [OF _ assms(4), of f ev req r s']
    stalled_view [OF view_config [of f ev req s r s'] assms(4)] assms(5) by blast

lemma stalled_forward: "stalled x s \<Longrightarrow> forward ev n k js s = Some s' \<Longrightarrow> stalled x s'"
  by (auto simp: forward_def bind_Some_iff intro: stalled_tc_queue)

lemma stalled_set_sequence: "stalled x s \<Longrightarrow> stalled x (set_sequence v s)"
  by (rule stalled_view [rotated]) (simp_all add: view_simps)

lemma stalled_copy_sequence: "stalled x s \<Longrightarrow> copy_sequence j s = Some s' \<Longrightarrow> stalled x s'"
  by (auto simp: copy_sequence_def bind_Some_iff intro: stalled_set_sequence)

lemma stalled_limits:
  "stalled x s \<Longrightarrow> stalled x (s\<lparr>tcreq_period := n\<rparr>)" "stalled x s \<Longrightarrow> stalled x (s\<lparr>tcreq_max := n\<rparr>)"
  by (rule stalled_view [rotated], simp_all add: view_simps)+

lemma stalled_dev_config:
  assumes "stalled x s" "dev_config ev n k ob s = Some s'"
  shows "stalled x s'"
proof -
  obtain period ob1 where 1: "take_number ''tcReqPeriod'' ob = (period, ob1)" by fastforce
  obtain maxi ob2 where 2: "take_number ''tcReqMax'' ob1 = (maxi, ob2)" by fastforce
  define s1 where "s1 = (case period of None \<Rightarrow> s | Some p \<Rightarrow> s\<lparr>tcreq_period := p\<rparr>)"
  define s2 where "s2 = (case maxi of None \<Rightarrow> s1 | Some m \<Rightarrow> s1\<lparr>tcreq_max := m\<rparr>)"
  have "stalled x s2"
    using assms(1) by (auto simp: s2_def s1_def stalled_limits split: option.splits)
  then show ?thesis
    using assms(2) unfolding dev_config_def 1 2 Let_def prod.case s1_def [symmetric] s2_def [symmetric]
    by (auto simp: bind_Some_iff split: if_splits elim: stalled_forward)
qed

lemma stalled_app_timers: "stalled x s \<Longrightarrow> app_timers ev params s = Some s' \<Longrightarrow> stalled x s'"
  unfolding app_timers_def timer_update_def
  by (auto simp: bind_Some_iff split: if_splits elim: stalled_on_loct elim!: stalled_tc_queue [rotated])

lemma stalled_query_callback:
  assumes "stalled x s" "switchReqQueryCallback ev data s = Some s'"
  shows "stalled x s'"
proof -
  from assms(2) obtain j where j: "parsed data = Some j" by (auto simp: switchReqQueryCallback_def bind_Some_iff)
  show ?thesis
  proof (cases "cJSON_GetObjectItem (Some j) ''sequence''")
    case None
    with assms j show ?thesis by (auto simp: switchReqQueryCallback_def intro: stalled_set_sequence)
  next
    case (Some sq)
    with assms(2) j obtain s1 where s1: "copy_sequence sq s = Some s1"
      by (auto simp: switchReqQueryCallback_def bind_Some_iff)
    with assms(1) have "stalled x s1" by (rule stalled_copy_sequence)
    then show ?thesis
      using assms(2) j Some s1 unfolding switchReqQueryCallback_def
      by (auto simp: bind_Some_iff split: option.split_asm if_split_asm elim: stalled_timer_query stalled_forward)
  qed
qed

lemma stalled_update_callback:
  assumes "stalled x s" "switchReqUpdateCallback ev data s = Some s'"
  shows "stalled x s'"
proof -
  from assms(2) obtain j where j: "parsed data = Some j" by (auto simp: switchReqUpdateCallback_def bind_Some_iff)
  define sq where "sq = cJSON_GetObjectItem (Some j) ''sequence''"
  from assms(2) j obtain s1 where
    s1: "(case sq of None \<Rightarrow> Some (set_sequence ''Invalid sequence'' s) | Some sq \<Rightarrow> copy_sequence sq s) = Some s1"
    by (auto simp: switchReqUpdateCallback_def Let_def bind_Some_iff sq_def)
  with assms(1) have "stalled x s1"
    by (auto split: option.split_asm intro: stalled_set_sequence stalled_copy_sequence)
  then show ?thesis
    using assms(2) j s1 unfolding switchReqUpdateCallback_def Let_def sq_def
    by (auto simp: bind_Some_iff split: option.split_asm if_split_asm elim: stalled_app_timers stalled_forward)
qed

lemma stalled_resp_query_callback:
  assumes "stalled x s" "switchRespQueryCallback ev data s = Some s'"
  shows "stalled x s'"
  using assms unfolding switchRespQueryCallback_def
  by (auto elim!: bind_SomeE split: option.split_asm if_split_asm)
    (erule (1) stalled_forward, erule (1) stalled_tc_queue)

lemma stalled_resp_update_callback:
  assumes "stalled x s" "switchRespUpdateCallback ev data s = Some s'"
  shows "stalled x s'"
  using assms unfolding switchRespUpdateCallback_def
  by (auto elim!: bind_SomeE split: option.split_asm if_split_asm intro!: stalled_post elim: stalled_tc_queue)

lemma stalled_dev_config_in:
  assumes "stalled x s" "dev_config_in ev field n k data s = Some s'"
  shows "stalled x s'"
  using assms unfolding dev_config_in_def
  by (auto elim!: bind_SomeE split: option.split_asm elim: stalled_dev_config)

lemma stalled_server:
  assumes "cb \<in> set server_callbacks" "stalled x s" "cb ev data s = Some s'"
  shows "stalled x s'"
  using assms
  by (auto simp: server_callbacks_def sendDevConfigInRegister_def sendDevConfigInNotify_def
      elim: stalled_resp_update_callback stalled_update_callback stalled_resp_query_callback stalled_query_callback
        stalled_dev_config_in)

lemma stalled_signal:
  assumes "stalled x s" "sig \<noteq> SIG_DEVICE_UPDATE_BY_REMOTE" "switchDevicePostCenter ev sig s = Some s'"
  shows "stalled x s'"
proof -
  have "stalled x (tr_post_device SIG_DEVICE_UPDATE (s\<lparr>tr_sched := d\<rparr>))" for d
    by (rule stalled_post [OF stalled_view [OF _ assms(1)]]) (simp_all add: view_simps)
  moreover have "stalled x s'" if "queue_json j k s = Some s'" for j k
    using stalled_view [OF view_queue_json [OF that] assms(1)] .
  ultimately show ?thesis
    using assms unfolding switchDevicePostCenter_def switchUpdateWithVersion_def updateTimerToServer_def Let_def
    by (auto split: IoTgoSignalSet.split_asm)
qed

lemma view_counters [view_simps]:
  "mcu_view (s\<lparr>key_pressed_level_counter := n\<rparr>) = mcu_view s"
  "mcu_view (s\<lparr>key_released_level_counter := n\<rparr>) = mcu_view s"
  "mcu_view (s\<lparr>long_press_processed := b\<rparr>) = mcu_view s" "mcu_view (s\<lparr>selfap_timers := n\<rparr>) = mcu_view s"
  "mcu_view (s\<lparr>long_press_processed := b, key_isr_timer := t, key_released_level_counter := n,
     key_pressed_level_counter := n, key_interrupt := c\<rparr>) = mcu_view s"
  by (simp_all add: mcu_view_def device_pending_def)

lemma view_press [view_simps]:
  "mcu_view (long_press s) = mcu_view s" "mcu_view (short_press s) = mcu_view s"
  by (simp_all add: long_press_def short_press_def Let_def view_simps)

lemma view_sample [view_simps]: "mcu_view (key_sample released s) = mcu_view s"
  by (simp add: key_sample_def Let_def view_simps)

lemma view_key [view_simps]: "mcu_view (keyISRStage2 released s) = mcu_view s"
  by (simp add: keyISRStage2_def Let_def view_simps)

lemma view_internal [view_simps]:
  "mcu_view (keyISR mine s) = mcu_view s" "mcu_view (flowControl s) = mcu_view s"
  "mcu_view (taWatchDogCallback s) = mcu_view s" "mcu_view (cbWatchDogHighCtrlTimer ev s) = mcu_view s"
  "mcu_view (modifyBaudrate s) = mcu_view s" "mcu_view (enterAp s) = mcu_view s"
  "mcu_view (enterEsptouch s) = mcu_view s" "mcu_view (enterSettingSelfap s) = mcu_view s"
  unfolding keyISR_def flowControl_def taWatchDogCallback_def cbWatchDogHighCtrlTimer_def modifyBaudrate_def enterAp_def
    enterEsptouch_def enterSettingSelfap_def Let_def
  by (simp_all add: view_simps) (simp_all add: mcu_view_def device_pending_def)

lemma stalled_pending: "stalled x s \<Longrightarrow> device_pending s = e # q \<Longrightarrow> stalled x (set_pending q s)"
  by (auto simp: stalled_def device_pending_def set_pending_def on_conn_def on_net_def)

definition answer_label :: "tr_label \<Rightarrow> bool" where
  "answer_label l \<longleftrightarrow> (\<exists>r. l = LCommand ''ret'' r \<or> l = LCommand ''respond'' r)"

lemma stalled_step:
  assumes "tr_step ev s l s'" "stalled x s" "\<not> answer_label l"
  shows "stalled x s' \<and> l \<noteq> LSignal SIG_DEVICE_UPDATE_BY_REMOTE"
  using assms
proof (cases rule: tr_step.cases)
  case (command n f j r)
  with assms show ?thesis by (auto simp: answer_label_def elim: stalled_command)
next
  case (signal sig par q)
  then have "sig \<noteq> SIG_DEVICE_UPDATE_BY_REMOTE" using assms(2) by (auto simp: stalled_def)
  with signal assms(2) stalled_signal [OF stalled_pending] show ?thesis by blast
next
  case (server cb data)
  with assms(2) show ?thesis by (auto elim: stalled_server)
next
  case again
  with assms(2) show ?thesis by (simp add: stalled_def)
next
  case query
  have "stalled x (s\<lparr>query_state := a, query_last_state := b\<rparr>)" "stalled x (s\<lparr>query_state := a\<rparr>)" for a b
    by (rule stalled_view [OF _ assms(2)], simp add: mcu_view_def device_pending_def)+
  with query show ?thesis unfolding queryState_def Let_def
    by (auto split: if_split_asm elim!: bind_SomeE elim: stalled_tc_queue [rotated])
next
  case local_timers
  with assms(2) show ?thesis by (auto simp: local_timer_tick_def elim: stalled_on_loct)
next
  case (others p sigs d)
  with assms(2) show ?thesis by (auto simp: stalled_def device_pending_def)
qed (auto intro: stalled_view [OF _ assms(2)] simp: view_simps)

lemma stalled_run:
  "tr_run ev s ls s' \<Longrightarrow> stalled x s \<Longrightarrow> \<forall>l \<in> set ls. \<not> answer_label l \<Longrightarrow>
     stalled x s' \<and> LSignal SIG_DEVICE_UPDATE_BY_REMOTE \<notin> set ls"
proof (induction rule: tr_run.induct)
  case (Cons s l s' ls s'')
  then show ?case using stalled_step [OF Cons.hyps(1) Cons.prems(1)] by auto
qed simp

text \<open>
  C31: a message that waits behind the one the microcontroller answers is never sent.  After the
  answer to the first of several queued messages no time-out is running and the task of the
  device has not been told to send; from then on, whatever the server, the timers, the key, the
  rest of the firmware and the microcontroller (short of another answer) do, in any order, the
  task is never told to send again and the second message stays at the head of the queue.
\<close>

theorem queued_message_stuck:
  assumes "tc_rep (tc_link_queue s) (x # y # zs)" "SIG_DEVICE_UPDATE_BY_REMOTE \<notin> fst ` set (device_pending s)"
    and "processRetCmd ev req s = Some (r, s1)" "tr_run ev s1 ls s2" "\<forall>l \<in> set ls. \<not> answer_label l"
  shows "LSignal SIG_DEVICE_UPDATE_BY_REMOTE \<notin> set ls \<and> send_data_again_timer s2 = Disarmed
     \<and> (\<exists>xs. tc_rep (tc_link_queue s2) (y # xs))"
proof -
  from tc_delete_spec [of "s\<lparr>send_data_again_timer := Disarmed\<rparr>" x "y # zs"] assms(1) obtain q where
    "answered s = Some (s\<lparr>send_data_again_timer := Disarmed, tc_link_queue := q\<rparr>)" "tc_rep q (y # zs)"
    by (auto simp: answered_def)
  with assms(2,3) have "stalled y s1"
    by (auto simp: processRetCmd_def stalled_def device_pending_def)
  from stalled_run [OF assms(4) this assms(5)] show ?thesis by (simp add: stalled_def)
qed

lemma two_messages:
  obtains q where "tc_rep q [entry a, entry b]"
proof -
  from tc_queue_spec [of "demo_trans m" "[]" a] demo_queue_rep obtain q1 where q1: "tc_rep q1 [entry a]" by fastforce
  from tc_queue_spec [of "(demo_trans m)\<lparr>tc_link_queue := q1\<rparr>" "[entry a]" b] q1 that show thesis by fastforce
qed

theorem queued_message_stuck_witness:
  "\<exists>s s1. tc_rep (tc_link_queue s) [entry ''a'', entry ''b''] \<and> processRetCmd demo_tr_env (Some cJSON_CreateArray) s
      = Some (U2ART_SUCCESS, s1) \<and> send_data_again_timer (flowControl s1) = Disarmed
     \<and> (\<exists>xs. tc_rep (tc_link_queue (flowControl s1)) (entry ''b'' # xs))"
proof -
  obtain q where q: "tc_rep q [entry ''a'', entry ''b'']" by (rule two_messages)
  define s where "s = (demo_trans DEVICE_MODE_WORK_NORMAL)\<lparr>tc_link_queue := q, send_data_again_timer := Armed 2000 False\<rparr>"
  have rep: "tc_rep (tc_link_queue s) [entry ''a'', entry ''b'']" using q by (simp add: s_def)
  from tc_delete_spec [of "s\<lparr>send_data_again_timer := Disarmed\<rparr>" "entry ''a''" "[entry ''b'']"] rep obtain s1 where
    s1: "processRetCmd demo_tr_env (Some cJSON_CreateArray) s = Some (U2ART_SUCCESS, s1)"
    by (auto simp: processRetCmd_def answered_def cJSON_CreateArray_def)
  have "tr_run demo_tr_env s1 [LInternal] (flowControl s1)" by (rule tr_run.Cons [OF tr_step.flow tr_run.Nil])
  from queued_message_stuck [OF rep _ s1 this] have
    "send_data_again_timer (flowControl s1) = Disarmed" "\<exists>xs. tc_rep (tc_link_queue (flowControl s1)) (entry ''b'' # xs)"
    by (auto simp: s_def device_pending_def answer_label_def)
  with rep s1 show ?thesis by blast
qed

end
