(* ===== verification/TransQueue.thy ===== *)
theory TransQueue
  imports TransRun U2artSpec
begin

text \<open>
  Messages to the microcontroller (MCU) that are delivered: an idle device sends a message at once
  and is idle again after the answer; messages without an answer are sent twice each and then
  dropped, until the queue is empty.
\<close>

subsection \<open>Sending the head of the queue\<close>

lemma send_text:
  assumes "0 < length bs" "length bs < 65536"
  shows "send_data (Some (bs @ [0])) (length bs) crc out = Some (True, out @ frame crc (crc32_spec bs) bs)"
  using assms tx_payload_frame [of bs "bs @ [0]" "[0]"] by (simp add: send_data_def)

text \<open>A message as it lies in the queue, with its terminator: the frame that carries it.\<close>

definition message_frame :: "bool \<Rightarrow> nat \<times> bytes \<Rightarrow> bytes" where
  "message_frame crc x = frame crc (crc32_spec (butlast (snd x))) (butlast (snd x))"

definition sendable :: "nat \<times> bytes \<Rightarrow> bool" where
  "sendable x \<longleftrightarrow> (\<exists>bs. snd x = bs @ [0] \<and> 0 \<notin> set bs \<and> bs \<noteq> [] \<and> length bs < 65536)"

lemma str_of_terminated: "0 \<notin> set bs \<Longrightarrow> length (str_of (bs @ [0])) = length bs"
proof -
  assume "0 \<notin> set bs"
  then have "takeWhile (\<lambda>b. b \<noteq> 0) (bs @ [0]) = bs" by (induction bs) auto
  then show ?thesis by (simp add: str_of_def)
qed

text \<open>The state after the head of the queue was sent.\<close>

definition sent_head :: "nat \<times> bytes \<Rightarrow> 'f trans \<Rightarrow> 'f trans" where
  "sent_head x s = s\<lparr>tr_tx := tr_tx s @ message_frame (tr_crc s) x, send_data_again_timer := Armed 2000 False\<rparr>"

lemma trans_head:
  assumes "tc_rep (tc_link_queue s) (x # xs)" "sendable x"
  shows "transDataToMcu s = Some (sent_head x s)"
proof -
  from assms(1) obtain q where q: "snd (tc_link_queue s) = Some q" "queue_rep (fst (tc_link_queue s), q) (x # xs)"
    by (auto simp: tc_rep_def)
  from server_queue.len [OF q(2)] server_queue.head [OF q(2)] have
    len: "q_length q = Suc (length xs)" and head: "iotgoQueueHeadData q = Some (snd x)"
    by (simp_all add: iotgoQueueLength_def)
  obtain nd where "node_at (q_heap q) (q_head q) = Some nd" using queue_rep_head [OF q(2)] by auto
  then have "q_head q \<noteq> 0" by (auto simp: node_at_def split: option.splits block.splits if_splits)
  moreover from assms(2) obtain bs where bs: "snd x = bs @ [0]" "0 \<notin> set bs" "bs \<noteq> []" "length bs < 65536"
    by (auto simp: sendable_def)
  ultimately show ?thesis
    using send_text [of bs "tr_crc s" "tr_tx s"] str_of_terminated [OF bs(2)]
    by (simp add: transDataToMcu_def q(1) len head sent_head_def message_frame_def)
qed

subsection \<open>Rounds without an answer\<close>

text \<open>The task of the device handles its first signal.\<close>

definition handle_signal :: "'f tr_env \<Rightarrow> 'f trans \<Rightarrow> 'f trans option" where
  "handle_signal ev s =
     (case device_pending s of
        [] \<Rightarrow> None
      | (sig, par) # q \<Rightarrow> switchDevicePostCenter ev sig (set_pending q s))"

definition time_out :: "'f trans \<Rightarrow> 'f trans option" where
  "time_out s = sendDataToMcuAgain (s\<lparr>send_data_again_timer := Disarmed\<rparr>)"

fun rounds :: "'f tr_env \<Rightarrow> nat \<Rightarrow> 'f trans \<Rightarrow> 'f trans option" where
  "rounds ev 0 s = Some s"
| "rounds ev (Suc n) s = Option.bind (Option.bind (handle_signal ev s) time_out) (rounds ev n)"

definition told :: "'f trans \<Rightarrow> bool" where
  "told s \<longleftrightarrow> device_pending s = [(SIG_DEVICE_UPDATE_BY_REMOTE, 0)]"

lemma told_post: "device_pending s = [] \<Longrightarrow> told (tr_post_device SIG_DEVICE_UPDATE_BY_REMOTE s)"
  by (simp add: told_def device_pending_def tr_post_device_def on_conn_def on_net_def post_device_def
      IOTGO_TASK_DEVICE_CENTER_QLEN_def)

lemma pending_simps [simp]:
  "device_pending (set_pending q s) = q" "tc_link_queue (set_pending q s) = tc_link_queue s"
  "tr_crc (set_pending q s) = tr_crc s" "tr_tx (set_pending q s) = tr_tx s"
  "again_counter (set_pending q s) = again_counter s"
  "tc_link_queue (tr_post_device m s) = tc_link_queue s" "tr_crc (tr_post_device m s) = tr_crc s"
  "tr_tx (tr_post_device m s) = tr_tx s" "again_counter (tr_post_device m s) = again_counter s"
  "device_pending (s\<lparr>again_counter := n\<rparr>) = device_pending s"
  "device_pending (s\<lparr>send_data_again_timer := t\<rparr>) = device_pending s"
  "device_pending (s\<lparr>tr_tx := out\<rparr>) = device_pending s"
  "device_pending (s\<lparr>tc_link_queue := q'\<rparr>) = device_pending s"
  by (simp_all add: device_pending_def set_pending_def on_conn_def on_net_def tr_post_device_def)

lemma handle_head:
  assumes "told s" "tc_rep (tc_link_queue s) (x # xs)" "sendable x"
  shows "handle_signal ev s = Some (sent_head x (set_pending [] s))"
  using assms trans_head [of "set_pending [] s" x xs]
  by (simp add: handle_signal_def told_def switchDevicePostCenter_def)

lemma first_time_out:
  assumes "told s" "tc_rep (tc_link_queue s) (x # xs)" "sendable x" "again_counter s = 0"
  obtains s' where "Option.bind (handle_signal ev s) time_out = Some s'" "told s'" "tc_link_queue s' = tc_link_queue s"
    "again_counter s' = 1" "tr_crc s' = tr_crc s" "tr_tx s' = tr_tx s @ message_frame (tr_crc s) x"
proof -
  define u where "u = (sent_head x (set_pending [] s))\<lparr>send_data_again_timer := Disarmed, again_counter := 1\<rparr>"
  have "Option.bind (handle_signal ev s) time_out = Some (tr_post_device SIG_DEVICE_UPDATE_BY_REMOTE u)"
    using handle_head [OF assms(1-3), of ev] assms(4)
    by (simp add: time_out_def sendDataToMcuAgain_def u_def sent_head_def to_u8_def)
  then show thesis using that told_post [of u] by (simp add: u_def sent_head_def)
qed

lemma second_time_out:
  assumes "told s" "tc_rep (tc_link_queue s) (x # xs)" "sendable x" "again_counter s = 1"
  obtains s' where "Option.bind (handle_signal ev s) time_out = Some s'" "told s'" "tc_rep (tc_link_queue s') xs"
    "again_counter s' = 0" "tr_crc s' = tr_crc s" "tr_tx s' = tr_tx s @ message_frame (tr_crc s) x"
proof -
  define u where "u = (sent_head x (set_pending [] s))\<lparr>send_data_again_timer := Disarmed, again_counter := 0\<rparr>"
  have "tc_rep (tc_link_queue u) (x # xs)" using assms(2) by (simp add: u_def sent_head_def)
  from tc_delete_spec [OF this] obtain q where q: "tc_delete u = Some (u\<lparr>tc_link_queue := q\<rparr>)" "tc_rep q xs" .
  have "Option.bind (handle_signal ev s) time_out =
      Some (tr_post_device SIG_DEVICE_UPDATE_BY_REMOTE (u\<lparr>tc_link_queue := q\<rparr>))"
    using handle_head [OF assms(1-3), of ev] assms(4) q(1)
    by (simp add: time_out_def sendDataToMcuAgain_def u_def sent_head_def to_u8_def)
  then show thesis using that told_post [of "u\<lparr>tc_link_queue := q\<rparr>"] q(2) by (simp add: u_def sent_head_def)
qed

lemma message_dropped:
  assumes "told s" "tc_rep (tc_link_queue s) (x # xs)" "sendable x" "again_counter s = 0"
  obtains s' where "rounds ev 2 s = Some s'" "told s'" "tc_rep (tc_link_queue s') xs" "again_counter s' = 0"
    "tr_crc s' = tr_crc s" "tr_tx s' = tr_tx s @ message_frame (tr_crc s) x @ message_frame (tr_crc s) x"
proof -
  obtain s1 where s1: "Option.bind (handle_signal ev s) time_out = Some s1" "told s1" "tc_link_queue s1 = tc_link_queue s"
    "again_counter s1 = 1" "tr_crc s1 = tr_crc s" "tr_tx s1 = tr_tx s @ message_frame (tr_crc s) x"
    by (rule first_time_out [OF assms])
  have "tc_rep (tc_link_queue s1) (x # xs)" using assms(2) s1(3) by simp
  from second_time_out [OF s1(2) this assms(3) s1(4)] obtain s2 where
    "Option.bind (handle_signal ev s1) time_out = Some s2" "told s2" "tc_rep (tc_link_queue s2) xs"
    "again_counter s2 = 0" "tr_crc s2 = tr_crc s1" "tr_tx s2 = tr_tx s1 @ message_frame (tr_crc s1) x" .
  with s1 show thesis by (intro that [of s2]) (simp_all add: numeral_2_eq_2)
qed

lemma rounds_one: "rounds ev 1 s = Option.bind (handle_signal ev s) time_out"
  by (cases "Option.bind (handle_signal ev s) time_out") simp_all

lemma rounds_add: "rounds ev (m + n) s = Option.bind (rounds ev m s) (rounds ev n)"
proof (induction m arbitrary: s)
  case (Suc m)
  then show ?case by (cases "Option.bind (handle_signal ev s) time_out") simp_all
qed simp

lemma rounds_queue:
  "told s \<Longrightarrow> tc_rep (tc_link_queue s) xs \<Longrightarrow> \<forall>x \<in> set xs. sendable x \<Longrightarrow> again_counter s = 0 \<Longrightarrow>
     \<exists>s'. rounds ev (2 * length xs) s = Some s' \<and> tc_rep (tc_link_queue s') []
       \<and> tr_tx s' = tr_tx s @ concat (map (\<lambda>x. message_frame (tr_crc s) x @ message_frame (tr_crc s) x) xs)"
proof (induction xs arbitrary: s)
  case (Cons x xs)
  from message_dropped [of s x xs ev] Cons.prems obtain s1 where s1: "rounds ev 2 s = Some s1" "told s1"
    "tc_rep (tc_link_queue s1) xs" "again_counter s1 = 0" "tr_crc s1 = tr_crc s"
    "tr_tx s1 = tr_tx s @ message_frame (tr_crc s) x @ message_frame (tr_crc s) x"
    by auto
  with Cons.IH [of s1] Cons.prems obtain s2 where "rounds ev (2 * length xs) s1 = Some s2"
    "tc_rep (tc_link_queue s2) []"
    "tr_tx s2 = tr_tx s1 @ concat (map (\<lambda>x. message_frame (tr_crc s) x @ message_frame (tr_crc s) x) xs)"
    by auto
  with s1 rounds_add [of ev 2 "2 * length xs" s] show ?case by simp
qed simp

subsection \<open>Rounds with an answer\<close>

lemma ret_head:
  assumes "tc_rep (tc_link_queue s) (x # xs)" "cj_type j = cJSON_Array"
  obtains q where "processRetCmd ev (Some j) s = Some (U2ART_SUCCESS, s\<lparr>send_data_again_timer := Disarmed, tc_link_queue := q\<rparr>)"
    "tc_rep q xs"
  using tc_delete_spec [of "s\<lparr>send_data_again_timer := Disarmed\<rparr>" x xs] assms
  by (auto simp: processRetCmd_def answered_def)

lemma tc_queue_empty:
  assumes "tc_rep (tc_link_queue s) []" "device_pending s = []"
  obtains q where "tc_queue t s = Some (tr_post_device SIG_DEVICE_UPDATE_BY_REMOTE (s\<lparr>tc_link_queue := q\<rparr>))"
    "tc_rep q [entry t]" "told (tr_post_device SIG_DEVICE_UPDATE_BY_REMOTE (s\<lparr>tc_link_queue := q\<rparr>))"
proof -
  obtain q where "tc_queue t s = Some (sendDataFromAppToMcu (s\<lparr>tc_link_queue := q\<rparr>))" "tc_rep q [entry t]"
    by (rule tc_queue_spec [OF assms(1), of t]) simp
  then show thesis
    using assms(2) told_post [of "s\<lparr>tc_link_queue := q\<rparr>"] that [of q] by (simp add: sendDataFromAppToMcu_def)
qed

lemma sent_head_fields [simp]:
  "tc_link_queue (sent_head x s) = tc_link_queue s" "device_pending (sent_head x s) = device_pending s"
  "tr_tx (sent_head x s) = tr_tx s @ message_frame (tr_crc s) x" "tr_crc (sent_head x s) = tr_crc s"
  "again_counter (sent_head x s) = again_counter s"
  by (simp_all add: sent_head_def)

subsection \<open>Properties\<close>

text \<open>
  C29: a message for an idle device with an empty queue is transmitted at once, in one frame, and
  the answer \<open>ret\<close> of the microcontroller leaves the device as idle as before: queue empty,
  nothing pending, no time-out running.
\<close>

theorem message_delivered:
  assumes "tc_rep (tc_link_queue s) []" "device_pending s = []" "sendable (entry t)" "cj_type j = cJSON_Array"
  shows "\<exists>s1 s2 s3. tc_queue t s = Some s1 \<and> handle_signal ev s1 = Some s2
    \<and> tr_tx s2 = tr_tx s @ message_frame (tr_crc s) (entry t) \<and> send_data_again_timer s2 = Armed 2000 False
    \<and> processRetCmd ev (Some j) s2 = Some (U2ART_SUCCESS, s3) \<and> tr_tx s3 = tr_tx s2
    \<and> tc_rep (tc_link_queue s3) [] \<and> device_pending s3 = [] \<and> send_data_again_timer s3 = Disarmed"
proof -
  from tc_queue_empty [OF assms(1,2), of t] obtain q where
    q: "tc_queue t s = Some (tr_post_device SIG_DEVICE_UPDATE_BY_REMOTE (s\<lparr>tc_link_queue := q\<rparr>))" "tc_rep q [entry t]"
      "told (tr_post_device SIG_DEVICE_UPDATE_BY_REMOTE (s\<lparr>tc_link_queue := q\<rparr>))" .
  define s1 where "s1 = tr_post_device SIG_DEVICE_UPDATE_BY_REMOTE (s\<lparr>tc_link_queue := q\<rparr>)"
  define s2 where "s2 = sent_head (entry t) (set_pending [] s1)"
  have s2: "handle_signal ev s1 = Some s2" "tc_rep (tc_link_queue s2) [entry t]"
    using handle_head [of s1 "entry t" "[]" ev] q(2,3) assms(3) by (simp_all add: s1_def s2_def)
  from ret_head [OF s2(2) assms(4), of ev] obtain q2 where
    "processRetCmd ev (Some j) s2 = Some (U2ART_SUCCESS, s2\<lparr>send_data_again_timer := Disarmed, tc_link_queue := q2\<rparr>)"
    "tc_rep q2 []" .
  with s2 q(1) show ?thesis
    by (intro exI [of _ s1] exI [of _ s2] exI [of _ "s2\<lparr>send_data_again_timer := Disarmed, tc_link_queue := q2\<rparr>"])
      (simp add: s1_def s2_def, simp add: sent_head_def)
qed

theorem message_delivered_witness:
  "\<exists>s1 s2 s3. tc_queue ''[]'' (demo_trans DEVICE_MODE_WORK_NORMAL) = Some s1 \<and> handle_signal demo_tr_env s1 = Some s2
    \<and> tr_tx s2 = message_frame False (entry ''[]'')
    \<and> processRetCmd demo_tr_env (Some cJSON_CreateArray) s2 = Some (U2ART_SUCCESS, s3) \<and> tc_rep (tc_link_queue s3) []"
proof -
  have "tc_rep (tc_link_queue (demo_trans DEVICE_MODE_WORK_NORMAL)) []"
    "device_pending (demo_trans DEVICE_MODE_WORK_NORMAL) = []" "sendable (entry ''[]'')"
    "cj_type cJSON_CreateArray = cJSON_Array"
    by (simp_all add: demo_queue_rep device_pending_def sendable_def entry_def c_text_def bytes_of_def cJSON_CreateArray_def)
  from message_delivered [OF this, of demo_tr_env] show ?thesis by auto
qed

text \<open>
  the number of time-outs is not reset by an answer.  When the microcontroller answers the
  second transmission of a message, the next message is transmitted once and dropped at its first
  time-out, where every other one gets a second transmission.
\<close>

theorem late_answer_costs_retry:
  assumes "device_pending s = [(SIG_DEVICE_UPDATE_BY_REMOTE, 0)]" "tc_rep (tc_link_queue s) [x]" "sendable x"
    and "again_counter s = 0" "cj_type j = cJSON_Array" "sendable (entry t)"
  shows "\<exists>s1 s2 s3 s4 s5. rounds ev 1 s = Some s1 \<and> handle_signal ev s1 = Some s2
    \<and> processRetCmd ev (Some j) s2 = Some (U2ART_SUCCESS, s3) \<and> tc_queue t s3 = Some s4 \<and> rounds ev 1 s4 = Some s5
    \<and> tr_tx s5 = tr_tx s @ message_frame (tr_crc s) x @ message_frame (tr_crc s) x @ message_frame (tr_crc s) (entry t)
    \<and> tc_rep (tc_link_queue s5) []"
proof -
  have told: "told s" using assms(1) by (simp add: told_def)
  obtain s1 where s1: "rounds ev 1 s = Some s1" "told s1"
    "tc_link_queue s1 = tc_link_queue s" "again_counter s1 = 1" "tr_crc s1 = tr_crc s"
    "tr_tx s1 = tr_tx s @ message_frame (tr_crc s) x"
    unfolding rounds_one by (rule first_time_out [OF told assms(2-4)])
  define s2 where "s2 = sent_head x (set_pending [] s1)"
  have s2: "handle_signal ev s1 = Some s2" "tc_rep (tc_link_queue s2) [x]"
    using handle_head [OF s1(2) _ assms(3), of "[]" ev] assms(2) s1(3) by (simp_all add: s2_def)
  obtain q where q:
    "processRetCmd ev (Some j) s2 = Some (U2ART_SUCCESS, s2\<lparr>send_data_again_timer := Disarmed, tc_link_queue := q\<rparr>)"
    "tc_rep q []"
    by (rule ret_head [OF s2(2) assms(5)])
  define s3 where "s3 = s2\<lparr>send_data_again_timer := Disarmed, tc_link_queue := q\<rparr>"
  have s3: "tc_rep (tc_link_queue s3) []" "device_pending s3 = []" "again_counter s3 = 1" "tr_crc s3 = tr_crc s"
    "tr_tx s3 = tr_tx s @ message_frame (tr_crc s) x @ message_frame (tr_crc s) x"
    using q s1 by (simp_all add: s3_def s2_def)
  obtain q2 where q2:
    "tc_queue t s3 = Some (tr_post_device SIG_DEVICE_UPDATE_BY_REMOTE (s3\<lparr>tc_link_queue := q2\<rparr>))" "tc_rep q2 [entry t]"
    "told (tr_post_device SIG_DEVICE_UPDATE_BY_REMOTE (s3\<lparr>tc_link_queue := q2\<rparr>))"
    by (rule tc_queue_empty [OF s3(1,2)])
  define s4 where "s4 = tr_post_device SIG_DEVICE_UPDATE_BY_REMOTE (s3\<lparr>tc_link_queue := q2\<rparr>)"
  have s4: "told s4" "tc_rep (tc_link_queue s4) [entry t]" "again_counter s4 = 1" "tr_crc s4 = tr_crc s" "tr_tx s4 = tr_tx s3"
    using q2(2,3) s3(3,4) by (simp_all add: s4_def)
  obtain s5 where
    s5: "rounds ev 1 s4 = Some s5" "tc_rep (tc_link_queue s5) []" "tr_tx s5 = tr_tx s4 @ message_frame (tr_crc s4) (entry t)"
    unfolding rounds_one by (rule second_time_out [OF s4(1,2) assms(6) s4(3)])
  have tx: "tr_tx s5 = tr_tx s @ message_frame (tr_crc s) x @ message_frame (tr_crc s) x @ message_frame (tr_crc s) (entry t)"
    using s5(3) s3(5) s4(4,5) by simp
  show ?thesis
    using s1(1) s2(1) q(1) [folded s3_def] q2(1) [folded s4_def] s5(1) tx s5(2) by blast
qed

theorem late_answer_costs_retry_witness:
  "\<exists>s s1 s2 s3 s4 s5. tc_rep (tc_link_queue s) [entry ''a''] \<and> rounds demo_tr_env 1 s = Some s1
    \<and> handle_signal demo_tr_env s1 = Some s2 \<and> processRetCmd demo_tr_env (Some cJSON_CreateArray) s2 = Some (U2ART_SUCCESS, s3)
    \<and> tc_queue ''b'' s3 = Some s4 \<and> rounds demo_tr_env 1 s4 = Some s5 \<and> tc_rep (tc_link_queue s5) []"
proof -
  have "sendable (entry ''a'')" "sendable (entry ''b'')" "cj_type cJSON_CreateArray = cJSON_Array"
    by (simp_all add: sendable_def entry_def c_text_def bytes_of_def cJSON_CreateArray_def)
  moreover from tc_queue_spec [of "demo_trans m" "[]" "''a''"] demo_queue_rep obtain q where "tc_rep q [entry ''a'']"
    by fastforce
  moreover define s where "s = set_pending [(SIG_DEVICE_UPDATE_BY_REMOTE, 0)]
    ((demo_trans DEVICE_MODE_WORK_NORMAL)\<lparr>tc_link_queue := q\<rparr>)"
  moreover from calculation have "device_pending s = [(SIG_DEVICE_UPDATE_BY_REMOTE, 0)]"
    "tc_rep (tc_link_queue s) [entry ''a'']" "again_counter s = 0"
    by (simp_all add: s_def)
  ultimately show ?thesis
    using late_answer_costs_retry [of s "entry ''a''" cJSON_CreateArray "''b''" demo_tr_env] by blast
qed

text \<open>
  C30: a microcontroller that never answers does not block the queue: as long as nothing else
  happens, each queued message is transmitted exactly twice, two seconds apart, in the order of
  the queue, with the check sums as configured, and then dropped, until the queue is empty.
\<close>

theorem unanswered_queue_drains:
  assumes "device_pending s = [(SIG_DEVICE_UPDATE_BY_REMOTE, 0)]" "tc_rep (tc_link_queue s) xs"
    and "\<forall>x \<in> set xs. sendable x" "again_counter s = 0"
  shows "\<exists>s'. rounds ev (2 * length xs) s = Some s' \<and> tc_rep (tc_link_queue s') []
    \<and> tr_tx s' = tr_tx s @ concat (map (\<lambda>x. message_frame (tr_crc s) x @ message_frame (tr_crc s) x) xs)"
  using assms rounds_queue by (simp add: told_def)

theorem unanswered_queue_drains_witness:
  "\<exists>s s'. rounds demo_tr_env 4 s = Some s' \<and> tc_rep (tc_link_queue s') [] \<and> tr_tx s' = concat
    (map (\<lambda>x. message_frame False x @ message_frame False x) [entry ''a'', entry ''b''])"
proof -
  obtain q where q: "tc_rep q [entry ''a'', entry ''b'']" by (rule two_messages)
  define s where "s = set_pending [(SIG_DEVICE_UPDATE_BY_REMOTE, 0)]
    ((demo_trans DEVICE_MODE_WORK_NORMAL)\<lparr>tc_link_queue := q\<rparr>)"
  have s: "device_pending s = [(SIG_DEVICE_UPDATE_BY_REMOTE, 0)]" "tc_rep (tc_link_queue s) [entry ''a'', entry ''b'']"
    "again_counter s = 0" "tr_crc s = False" "tr_tx s = []"
    using q by (simp_all add: s_def)
  have "sendable (entry ''a'')" "sendable (entry ''b'')"
    by (simp_all add: sendable_def entry_def c_text_def bytes_of_def)
  with unanswered_queue_drains [OF s(1,2) _ s(3), of demo_tr_env] s(4,5) show ?thesis
    by (auto intro!: exI [of _ s])
qed

end
