(* ===== verification/TransConfig.thy ===== *)
theory TransConfig
  imports TransQueue
begin

text \<open>
  The settings of the transparent transmission device and the limit of its requests: what the
  microcontroller (MCU) configures is in force at once and again after a restart, and of its
  requests to the server so many per period are let through as the server allows.
\<close>

subsection \<open>The configuration as bytes\<close>

definition config_ok :: "tcConfig \<Rightarrow> bool" where
  "config_ok c \<longleftrightarrow> (baudrate c = 9600 \<or> baudrate c = 115200) \<and> cfg_watch_dog c \<le> 60 \<and> cfg_state_info c < 256"

lemma config_bytes_length: "length (config_bytes c) = config_size"
  by (simp add: config_bytes_def config_size_def)

lemma config_of_config_bytes:
  assumes "config_ok c"
  shows "config_of_bytes (config_bytes c) = c"
proof -
  have u: "unat (word_of_nat n :: u8) = n" if "n < 256" for n
    using that by (simp add: unat_of_nat)
  from assms have "cfg_watch_dog c < 256" "cfg_state_info c < 256" by (simp_all add: config_ok_def)
  with assms show ?thesis
    by (cases c) (auto simp: config_of_bytes_def config_bytes_def config_ok_def u)
qed

lemma valid_config_ok: "config_ok c \<Longrightarrow> valid_config c = c"
  by (auto simp: valid_config_def config_ok_def Let_def)

subsection \<open>Settings in force and saved\<close>

text \<open>
  The new baud rate is in force 100 ms after it was set; everything else at once.
\<close>

definition in_force :: "'f trans \<Rightarrow> bool" where
  "in_force s \<longleftrightarrow> (let c = tc_config s in
     tr_crc s = cfg_crc c \<and> normal_mode_led_off s = cfg_sled_off c \<and> tmr_msg_flag s = cfg_timer_sync c
     \<and> watch_dog_timer s = (if cfg_watch_dog c = 0 then Disarmed else Armed (1000 * cfg_watch_dog c) True)
     \<and> query_state_timer s = (if cfg_state_info c = 0 then Disarmed else Armed 1000 True)
     \<and> (uart_baud s = baudrate c \<or> modify_baudrate_timer s = Armed 100 False \<and> modify_baudrate_arg s = baudrate c))"

definition saved :: "'f tr_env \<Rightarrow> 'f trans \<Rightarrow> bool" where
  "saved ev s \<longleftrightarrow> devLoadConfigFromFlash (tr_spi ev) config_size (flash (tr_loct s)) = config_bytes (tc_config s)"

definition settings_inv :: "'f tr_env \<Rightarrow> 'f trans \<Rightarrow> bool" where
  "settings_inv ev s \<longleftrightarrow> config_ok (tc_config s) \<and> in_force s \<and> saved ev s"

lemma saved_change:
  assumes "spi_ok (tr_spi ev) er"
  shows "saved ev (change_config ev f s)"
proof -
  have n: "config_len config_size = config_size" by (simp add: config_len_def config_size_def SPI_FLASH_SEC_SIZE_def)
  have "length (config_bytes c) \<le> SPI_FLASH_SEC_SIZE" for c
    by (simp add: config_bytes_length config_size_def SPI_FLASH_SEC_SIZE_def)
  from save_copy_complete [OF assms this] show ?thesis
    by (simp add: saved_def change_config_def save_config_def on_flash_def devLoadConfigFromFlash_def devSaveConfigToFlash_def
        n config_bytes_length)
qed

lemma change_config_fields [simp]:
  "tc_config (change_config ev f s) = f (tc_config s)" "tr_crc (change_config ev f s) = tr_crc s"
  "normal_mode_led_off (change_config ev f s) = normal_mode_led_off s"
  "tmr_msg_flag (change_config ev f s) = tmr_msg_flag s" "watch_dog_timer (change_config ev f s) = watch_dog_timer s"
  "query_state_timer (change_config ev f s) = query_state_timer s" "uart_baud (change_config ev f s) = uart_baud s"
  "modify_baudrate_timer (change_config ev f s) = modify_baudrate_timer s"
  "modify_baudrate_arg (change_config ev f s) = modify_baudrate_arg s" "tr_tx (change_config ev f s) = tr_tx s"
  by (simp_all add: change_config_def save_config_def on_flash_def)

lemma settings_tx: "settings_inv ev (s\<lparr>tr_tx := out\<rparr>) = settings_inv ev s"
  by (simp add: settings_inv_def in_force_def saved_def)

lemma send_mcu_tx:
  assumes "send_mcu t s = Some (ok, s')"
  obtains out where "s' = s\<lparr>tr_tx := out\<rparr>"
  using assms by (auto simp: send_mcu_def)

lemma send_mcu_ok:
  assumes "send_mcu t s = Some (ok, s')" "t \<noteq> []"
  shows "ok \<and> (\<exists>out. s' = s\<lparr>tr_tx := out\<rparr>)"
  using assms by (auto simp: send_mcu_def send_data_def)

lemma send_mcu_frame:
  assumes "t \<noteq> []" "length t < 65536"
  shows "send_mcu t s = Some (True, s\<lparr>tr_tx := tr_tx s @ frame (tr_crc s) (crc32_spec (bytes_of t)) (bytes_of t)\<rparr>)"
proof -
  have "length (bytes_of t) = length t" by (simp add: bytes_of_def)
  with assms send_text [of "bytes_of t" "tr_crc s" "tr_tx s"] show ?thesis by (simp add: send_mcu_def c_text_def)
qed

lemma ret_of_nonempty: "ret_of v \<noteq> []"
  by (simp add: ret_of_def cmd_text_def)

lemma settings_answer: "settings_inv ev s \<Longrightarrow> answer t s = Some (r, s') \<Longrightarrow> settings_inv ev s'"
  by (auto simp: answer_def settings_tx elim: send_mcu_tx)

subsection \<open>Commands that change settings\<close>

datatype setting = SetBaud | SetDog | SetSled | SetStateInfo | SetCrc | SetTmrMsg

fun setting_command :: "setting \<Rightarrow> 'f tc_command" where
  "setting_command SetBaud = processBaudCmd"
| "setting_command SetDog = processDogCmd"
| "setting_command SetSled = processSledCmd"
| "setting_command SetStateInfo = processStateInfoCmd"
| "setting_command SetCrc = processCrcCmd"
| "setting_command SetTmrMsg = processTmrMsgCmd"

text \<open>A number for \<open>stateInfo\<close> that is stored as zero without being zero.\<close>

definition kept :: "setting \<Rightarrow> cJSON option \<Rightarrow> bool" where
  "kept c req \<longleftrightarrow> (c = SetStateInfo \<longrightarrow> (\<forall>n. number_arg req = Some n \<longrightarrow> to_u8 n = 0 \<longrightarrow> n = 0))"

fun set_all :: "'f tr_env \<Rightarrow> (setting \<times> cJSON option) list \<Rightarrow> 'f trans \<Rightarrow> 'f trans option" where
  "set_all ev [] s = Some s"
| "set_all ev ((c, req) # cs) s =
     Option.bind (setting_command c ev req s) (\<lambda>(r, s). set_all ev cs s)"

lemma to_u8_dog: "0 \<le> n \<Longrightarrow> n \<le> 60 \<Longrightarrow> to_u8 n = nat n"
  by (simp add: to_u8_def)

lemma settings_step:
  assumes ok: "spi_ok (tr_spi ev) er" and inv: "settings_inv ev s" and "kept c req"
    and run: "setting_command c ev req s = Some (r, s')"
  shows "settings_inv ev s'"
proof (cases "number_arg req")
  case None
  with inv run show ?thesis
    by (cases c) (auto simp: processBaudCmd_def processDogCmd_def processSledCmd_def processStateInfoCmd_def
        processCrcCmd_def processTmrMsgCmd_def)
next
  case (Some n)
  note sv = saved_change [OF ok]
  have force: "config_ok (tc_config s)" "in_force s" using inv by (simp_all add: settings_inv_def)
  show ?thesis
  proof (cases c)
    case SetBaud
    have "settings_inv ev (change_config ev (baudrate_update (\<lambda>_. to_u32 n)) s
        \<lparr>tr_tx := out, modify_baudrate_timer := Armed 100 False, modify_baudrate_arg := to_u32 n\<rparr>)"
      if "n = 9600 \<or> n = 115200" for out
      using that force sv [of "baudrate_update (\<lambda>_. to_u32 n)" s]
      by (auto simp: settings_inv_def in_force_def saved_def config_ok_def Let_def to_u32_def)
    with run Some inv show ?thesis unfolding SetBaud
      by (auto simp: processBaudCmd_def Let_def bind_Some_iff split: if_splits dest!: send_mcu_ok [OF _ ret_of_nonempty])
  next
    case SetDog
    have "settings_inv ev (change_config ev (cfg_watch_dog_update (\<lambda>_. to_u8 n))
        (s\<lparr>watch_dog_timer := (if n = 0 then Disarmed else Armed (1000 * nat n) True)\<rparr>))" if "0 \<le> n" "n \<le> 60"
      using that force sv by (auto simp: settings_inv_def in_force_def config_ok_def Let_def to_u8_dog)
    with run Some inv show ?thesis unfolding SetDog
      by (auto simp: processDogCmd_def split: if_splits elim!: settings_answer [rotated])
  next
    case SetSled
    have "settings_inv ev (change_config ev (cfg_sled_off_update (\<lambda>_. n = 0)) (s\<lparr>normal_mode_led_off := (n = 0)\<rparr>))"
      using force sv by (auto simp: settings_inv_def in_force_def config_ok_def Let_def)
    with run Some show ?thesis unfolding SetSled
      by (auto simp: processSledCmd_def elim!: settings_answer [rotated])
  next
    case SetStateInfo
    have "to_u8 n < 256" by (simp add: to_u8_def)
    moreover have "to_u8 n = 0 \<longleftrightarrow> n = 0" using assms(3) Some SetStateInfo by (auto simp: kept_def to_u8_def)
    ultimately have "settings_inv ev (change_config ev (cfg_state_info_update (\<lambda>_. to_u8 n))
        (s\<lparr>query_state_timer := (if n = 0 then Disarmed else Armed 1000 True)\<rparr>))"
      using force sv by (auto simp: settings_inv_def in_force_def config_ok_def Let_def)
    with run Some show ?thesis unfolding SetStateInfo
      by (auto simp: processStateInfoCmd_def elim!: settings_answer [rotated])
  next
    case SetCrc
    have "settings_inv ev (change_config ev (cfg_crc_update (\<lambda>_. n \<noteq> 0)) (s\<lparr>tr_tx := out, tr_crc := (n \<noteq> 0)\<rparr>))" for out
      using force sv by (auto simp: settings_inv_def in_force_def config_ok_def Let_def)
    moreover have "settings_inv ev (s\<lparr>tr_tx := out\<rparr>)" for out using inv by (simp add: settings_tx)
    ultimately show ?thesis using run Some unfolding SetCrc
      by (auto simp: processCrcCmd_def bind_Some_iff send_mcu_def split: if_splits)
  next
    case SetTmrMsg
    have "settings_inv ev (change_config ev (cfg_timer_sync_update (\<lambda>_. n \<noteq> 0)) (s\<lparr>tmr_msg_flag := (n \<noteq> 0)\<rparr>))"
      using force sv by (auto simp: settings_inv_def in_force_def config_ok_def Let_def)
    with run Some show ?thesis unfolding SetTmrMsg
      by (auto simp: processTmrMsgCmd_def elim!: settings_answer [rotated])
  qed
qed

lemma settings_run:
  "spi_ok (tr_spi ev) er \<Longrightarrow> settings_inv ev s \<Longrightarrow> \<forall>(c, req) \<in> set cs. kept c req \<Longrightarrow> set_all ev cs s = Some s' \<Longrightarrow>
     settings_inv ev s'"
proof (induction cs arbitrary: s)
  case (Cons x cs)
  obtain c req where x: "x = (c, req)" by (cases x)
  from Cons.prems(4) x obtain r s1 where s1: "setting_command c ev req s = Some (r, s1)" "set_all ev cs s1 = Some s'"
    by (auto simp: bind_Some_iff)
  have "settings_inv ev s1" using settings_step [OF Cons.prems(1,2) _ s1(1)] Cons.prems(3) x by auto
  with Cons.IH Cons.prems(1,3) s1(2) show ?case by auto
qed simp

lemma settings_init:
  assumes "config_ok c" "devLoadConfigFromFlash (tr_spi ev) config_size (flash (tr_loct t)) = config_bytes c"
    and "watch_dog_timer t = Disarmed" "query_state_timer t = Disarmed"
  shows "tc_config (initTcConfig ev t) = c \<and> settings_inv ev (initTcConfig ev t) \<and> uart_baud (initTcConfig ev t) = baudrate c"
  using assms
  by (auto simp: initTcConfig_def config_of_config_bytes valid_config_ok Let_def settings_inv_def in_force_def saved_def)

subsection \<open>Properties\<close>

text \<open>
  C32: settings survive a restart.  After any sequence of commands that change settings (accepted or
  refused) the configuration is valid, in force and saved; a device started from the same flash
  comes up with the same configuration in force: baud rate, check sums, watch dog, status LED,
  state reports and timer messages.  The exception is a number for \<open>stateInfo\<close> that is a multiple
  of 256, which is stored as off.
\<close>

theorem settings_survive_restart:
  assumes "spi_ok (tr_spi ev) er" "settings_inv ev s" "\<forall>(c, req) \<in> set cs. kept c req" "set_all ev cs s = Some s'"
    and "flash (tr_loct t) = flash (tr_loct s')" "watch_dog_timer t = Disarmed" "query_state_timer t = Disarmed"
  shows "settings_inv ev s' \<and> tc_config (initTcConfig ev t) = tc_config s' \<and> settings_inv ev (initTcConfig ev t)
    \<and> uart_baud (initTcConfig ev t) = baudrate (tc_config s')"
proof -
  have inv: "settings_inv ev s'" by (rule settings_run [OF assms(1-4)])
  then have "config_ok (tc_config s')"
    "devLoadConfigFromFlash (tr_spi ev) config_size (flash (tr_loct t)) = config_bytes (tc_config s')"
    using assms(5) by (simp_all add: settings_inv_def saved_def)
  from settings_init [OF this assms(6,7)] inv show ?thesis by blast
qed

definition number_request :: "string \<Rightarrow> int \<Rightarrow> cJSON option" where
  "number_request n v = Some (cJSON_AddItemToArray (cJSON_AddItemToArray cJSON_CreateArray (cJSON_CreateString n))
     (cJSON_CreateNumber v))"

lemma number_request_arg [simp]: "number_arg (number_request n v) = Some v"
  by (simp add: number_arg_def number_request_def typed_arg_def cJSON_AddItemToArray_def cJSON_CreateArray_def
      cJSON_CreateNumber_def cJSON_CreateString_def cJSON_GetArraySize_def cJSON_GetArrayItem_def)

lemma demo_settings: "settings_inv demo_tr_env (change_config demo_tr_env (\<lambda>c. c) (demo_trans m))"
proof -
  have "spi_ok (tr_spi demo_tr_env) (\<lambda>k f. f k = [])" using nor_flash_ok by (simp add: demo_tr_env_def)
  then show ?thesis
    using saved_change by (auto simp: settings_inv_def in_force_def config_ok_def Let_def demo_trans_def demo_config_def)
qed

theorem settings_survive_restart_witness:
  "\<exists>s'. set_all demo_tr_env [(SetDog, number_request ''dog'' 30), (SetCrc, number_request ''crc'' 1)]
       (change_config demo_tr_env (\<lambda>c. c) (demo_trans DEVICE_MODE_WORK_NORMAL)) = Some s'
     \<and> watch_dog_timer (initTcConfig demo_tr_env (s'\<lparr>watch_dog_timer := Disarmed\<rparr>)) = Armed 30000 True
     \<and> tr_crc (initTcConfig demo_tr_env (s'\<lparr>watch_dog_timer := Disarmed\<rparr>))"
proof -
  let ?s = "change_config demo_tr_env (\<lambda>c. c) (demo_trans DEVICE_MODE_WORK_NORMAL)"
  have spi: "spi_ok (tr_spi demo_tr_env) (\<lambda>k f. f k = [])" using nor_flash_ok by (simp add: demo_tr_env_def)
  have "length (ret_of ''0'') < 65536" by (simp add: ret_of_def cmd_text_def quoted_def)
  note sends = send_mcu_frame [OF ret_of_nonempty this]
  obtain s' where run: "set_all demo_tr_env [(SetDog, number_request ''dog'' 30), (SetCrc, number_request ''crc'' 1)] ?s = Some s'"
    and c: "cfg_watch_dog (tc_config s') = 30" "cfg_crc (tc_config s')" "query_state_timer s' = Disarmed"
    by (simp add: processDogCmd_def processCrcCmd_def answer_def sends to_u8_def) (simp add: demo_trans_def)
  have "\<forall>(c, req) \<in> set [(SetDog, number_request ''dog'' 30), (SetCrc, number_request ''crc'' 1)]. kept c req"
    by (simp add: kept_def)
  from settings_survive_restart [OF spi demo_settings this run, of "s'\<lparr>watch_dog_timer := Disarmed\<rparr>"] run c show ?thesis
    by (auto simp: settings_inv_def in_force_def Let_def)
qed

end
