(* ===== verification/TransLimit.thy ===== *)
theory TransLimit
  imports TransConfig
begin

text \<open>
  The limit of requests of the transparent transmission device, the answers its commands give, and
  the key.
\<close>

subsection \<open>The limit of requests\<close>

text \<open>Requests of the microcontroller (MCU): an update or a query.\<close>

fun requests :: "'f tr_env \<Rightarrow> (bool \<times> cJSON option) list \<Rightarrow> 'f trans \<Rightarrow> (U2artError list \<times> 'f trans) option" where
  "requests ev [] s = Some ([], s)"
| "requests ev ((upd, req) # rs) s =
     do {
       (r, s) \<leftarrow> (if upd then processUpdateCmd else processQueryCmd) ev req s;
       (es, s) \<leftarrow> requests ev rs s;
       Some (r # es, s)
     }"

lemma answer_result:
  assumes "answer t s = Some (r, s')"
  shows "r \<in> {U2ART_SUCCESS, U2ART_INSIDE_ERROR}" "tcreq_couter s' = tcreq_couter s" "tcreq_max s' = tcreq_max s"
    "tr_conn s' = tr_conn s"
  using assms by (auto simp: answer_def send_mcu_def split: if_splits)

lemma send_tree_counters:
  assumes "send_tree ev j s = Some (r, s')"
  shows "tcreq_couter s' = tcreq_couter s" "tcreq_max s' = tcreq_max s"
  using assms by (auto simp: send_tree_def bind_Some_iff)

lemma send_and_answer_result:
  assumes "send_and_answer ev j s = Some (r, s')"
  shows "r \<noteq> U2ART_BUSY_ERROR \<and> tcreq_couter s' = tcreq_couter s \<and> tcreq_max s' = tcreq_max s"
proof -
  from assms obtain c u where u: "send_tree ev j s = Some (c, u)"
    "(if c = 0 then answer (ret_of ''0'') u else Some (U2ART_INSIDE_ERROR, u)) = Some (r, s')"
    by (auto simp: send_and_answer_def bind_Some_iff)
  from u(2) have "r \<noteq> U2ART_BUSY_ERROR \<and> tcreq_couter s' = tcreq_couter u \<and> tcreq_max s' = tcreq_max u"
    using answer_result [of "ret_of ''0''" u r s'] by (auto split: if_splits)
  with send_tree_counters [OF u(1)] show ?thesis by simp
qed

lemma server_request_limit:
  assumes "server_request a ty ev req s = Some (r, s')" "tcreq_couter s < 65535"
  shows "tcreq_couter s' = tcreq_couter s + 1 \<and> tcreq_max s' = tcreq_max s
    \<and> (r = U2ART_BUSY_ERROR \<longleftrightarrow> tcreq_max s \<le> tcreq_couter s)
    \<and> (r = U2ART_BUSY_ERROR \<longrightarrow> tr_conn s' = tr_conn s \<and> tr_tx s' = tr_tx s)"
proof -
  have n: "to_u16 (int (tcreq_couter s) + 1) = tcreq_couter s + 1"
    using assms(2) to_u16_small [of "tcreq_couter s + 1"] by (simp add: add.commute)
  show ?thesis
    using assms(1) unfolding server_request_def Let_def
    by (auto simp: n split: if_split_asm option.split_asm dest!: send_and_answer_result)
qed

lemma requests_limit:
  "requests ev rs s = Some (es, s') \<Longrightarrow> tcreq_couter s + length rs \<le> 65535 \<Longrightarrow>
     length es = length rs \<and> tcreq_couter s' = tcreq_couter s + length rs
     \<and> (\<forall>i < length es. es ! i = U2ART_BUSY_ERROR \<longleftrightarrow> tcreq_max s \<le> tcreq_couter s + i)"
proof (induction rs arbitrary: s es)
  case (Cons x rs)
  obtain upd req where x: "x = (upd, req)" by (cases x)
  from Cons.prems(1) x obtain r s1 es1 where r: "(if upd then processUpdateCmd else processQueryCmd) ev req s = Some (r, s1)"
    "requests ev rs s1 = Some (es1, s')" "es = r # es1"
    by (auto simp: bind_Some_iff)
  from r(1) obtain a ty where "server_request a ty ev req s = Some (r, s1)"
    by (auto simp: processUpdateCmd_def processQueryCmd_def split: if_splits)
  from server_request_limit [OF this] Cons.prems(2) have s1: "tcreq_couter s1 = tcreq_couter s + 1" "tcreq_max s1 = tcreq_max s"
    "r = U2ART_BUSY_ERROR \<longleftrightarrow> tcreq_max s \<le> tcreq_couter s"
    by simp_all
  with Cons.IH [OF r(2)] Cons.prems(2) show ?case
    by (auto simp: r(3) nth_Cons split: nat.splits)
qed simp

text \<open>The counter of seconds of \<open>flowControl\<close>.\<close>

lemma flow_fields [simp]:
  "tcreq_period (flowControl s) = tcreq_period s" "tcreq_max (flowControl s) = tcreq_max s"
  by (simp_all add: flowControl_def Let_def)

lemma flow_period: "tcreq_period ((flowControl ^^ n) s) = tcreq_period s"
  by (induction n) simp_all

lemma flow_counts:
  assumes "flow_couter s = 0" "n < 60 * tcreq_period s" "n < 65536"
  shows "flow_couter ((flowControl ^^ n) s) = n \<and> tcreq_couter ((flowControl ^^ n) s) = tcreq_couter s"
  using assms
proof (induction n)
  case (Suc n)
  then have "flow_couter ((flowControl ^^ n) s) = n" "tcreq_couter ((flowControl ^^ n) s) = tcreq_couter s" by simp_all
  moreover have "to_u16 (int n + 1) = Suc n" using Suc.prems(3) to_u16_small [of "Suc n"] by (simp add: add.commute)
  ultimately show ?case
    using Suc.prems(2) by (simp add: flowControl_def [of "(flowControl ^^ n) s"] Let_def flow_period mult.commute)
qed simp

lemma flow_resets:
  assumes "flow_couter s = 0" "0 < tcreq_period s" "60 * tcreq_period s \<le> 65535"
  shows "tcreq_couter ((flowControl ^^ (60 * tcreq_period s)) s) = 0 \<and> flow_couter ((flowControl ^^ (60 * tcreq_period s)) s) = 0"
proof -
  obtain n where n: "60 * tcreq_period s = Suc n" using assms(2) by (cases "60 * tcreq_period s") auto
  have "flow_couter ((flowControl ^^ n) s) = n" using flow_counts [OF assms(1), of n] n assms(3) by simp
  moreover have "to_u16 (int n + 1) = Suc n" using assms(3) n to_u16_small [of "Suc n"] by (simp add: add.commute)
  ultimately show ?thesis
    unfolding n using n by (simp add: flowControl_def [of "(flowControl ^^ n) s"] Let_def flow_period mult.commute)
qed

lemma flow_never_resets:
  assumes "65535 < 60 * tcreq_period s" "flow_couter s < 65536"
  shows "tcreq_couter ((flowControl ^^ n) s) = tcreq_couter s \<and> flow_couter ((flowControl ^^ n) s) < 65536"
proof (induction n)
  case (Suc n)
  have "to_u16 i < 65536" for i by (simp add: to_u16_less)
  moreover from this have "\<not> tcreq_period s * 60 \<le> to_u16 i" for i
    using assms(1) to_u16_less [of i] by linarith
  ultimately show ?case
    using Suc by (simp add: flowControl_def [of "(flowControl ^^ n) s"] Let_def flow_period)
qed (use assms in simp)



end
