(* ===== verification/TransAnswer.thy ===== *)
theory TransAnswer
  imports TransLimit
begin

text \<open>
  The answers the commands of the transparent transmission device give, and what its key does.
\<close>

subsection \<open>One answer to every command\<close>

text \<open>
  The commands of \<open>plain_commands\<close> answer an accepted request with one frame; a refused one leaves
  the port alone (the command processor answers it with the number of the error).
\<close>

definition one_frame :: "'f trans \<Rightarrow> 'f trans \<Rightarrow> bool" where
  "one_frame s s' \<longleftrightarrow> (\<exists>bs. bs \<noteq> [] \<and> hd bs = 91 \<and> tr_tx s' = tr_tx s @ frame (tr_crc s) (crc32_spec bs) bs)"

definition answered_once :: "'f trans \<Rightarrow> U2artError \<times> 'f trans \<Rightarrow> bool" where
  "answered_once s rs \<longleftrightarrow> (if fst rs = U2ART_SUCCESS then one_frame s (snd rs) else tr_tx (snd rs) = tr_tx s)"

lemma send_mcu_text:
  assumes "send_mcu t s = Some (ok, s')" "t \<noteq> []" "hd t = CHR ''[''" "length t < 65536"
  shows "ok \<and> one_frame s s'"
proof -
  have "hd (bytes_of t) = 91" using assms(2,3) by (cases t) (simp_all add: bytes_of_def)
  moreover have "bytes_of t \<noteq> []" using assms(2) by (simp add: bytes_of_def)
  ultimately show ?thesis
    using assms(1) send_mcu_frame [OF assms(2,4), of s] by (auto simp: one_frame_def)
qed

lemma hd_cmd_text: "cmd_text n args \<noteq> [] \<and> hd (cmd_text n args) = CHR ''[''"
  by (simp add: cmd_text_def)

lemma answer_text:
  assumes "answer t s = Some rs" "t \<noteq> []" "hd t = CHR ''[''" "length t < 65536"
  shows "answered_once s rs"
  using assms send_mcu_text [of t s] by (fastforce simp: answer_def answered_once_def)

lemma c_copy_length: "c_copy n t = Some u \<Longrightarrow> u = t \<and> length t < n"
  by (auto simp: c_copy_def split: if_splits)

lemma ret_0 [simp]: "length (ret_of ''0'') < 65536"
  by (simp add: ret_of_def cmd_text_def quoted_def)

lemma ret_0_answer:
  assumes "answer (ret_of ''0'') s = Some rs"
  shows "answered_once s rs"
  by (rule answer_text [OF assms]) (simp_all add: ret_of_def hd_cmd_text [THEN conjunct2] hd_cmd_text [THEN conjunct1] cmd_text_def quoted_def)

lemma copied_answer:
  assumes "Option.bind (c_copy n (cmd_text name args)) (\<lambda>t. answer t s) = Some rs" "n \<le> 50"
  shows "answered_once s rs"
proof -
  from assms(1) obtain t where t: "c_copy n (cmd_text name args) = Some t" "answer t s = Some rs"
    by (auto simp: bind_Some_iff)
  from c_copy_length [OF t(1)] assms(2) hd_cmd_text [of name args] show ?thesis
    by (intro answer_text [OF t(2)]) simp_all
qed

lemma answered_once_tx:
  assumes "answered_once s rs" "tr_tx s = tr_tx s0" "tr_crc s = tr_crc s0"
  shows "answered_once s0 rs"
  using assms by (auto simp: answered_once_def one_frame_def split: if_split_asm)

lemma refused [simp]: "r \<noteq> U2ART_SUCCESS \<Longrightarrow> answered_once s (r, s)"
  by (simp add: answered_once_def)

lemma answered_config:
  assumes "answer (ret_of ''0'') s' = Some rs" "tr_tx s' = tr_tx s" "tr_crc s' = tr_crc s"
  shows "answered_once s rs"
  using answered_once_tx [OF ret_0_answer [OF assms(1)]] assms(2,3) by blast

lemmas copied = copied_answer [where n = 18, simplified] copied_answer [where n = 20, simplified]
  copied_answer [where n = 30, simplified] copied_answer [where n = 50, simplified]

lemma answered_requests:
  assumes "f \<in> set [processStateCmd, processRssiCmd, processTimeCmd, processVersionCmd, processDeviceId,
     processStamacCmd, processSapMacCmd]"
    and "f ev req s = Some rs"
  shows "answered_once s rs"
  using assms
  by (auto simp: processStateCmd_def processRssiCmd_def processTimeCmd_def processVersionCmd_def processDeviceId_def
      processStamacCmd_def processSapMacCmd_def ret_of_def Let_def split: if_split_asm dest: copied)

lemma answered_settings:
  assumes "f \<in> set [processDogCmd, processSledCmd, processStateInfoCmd, processTmrMsgCmd]"
    and "f ev req s = Some rs"
  shows "answered_once s rs"
  using assms
  by (auto simp: processDogCmd_def processSledCmd_def processStateInfoCmd_def processTmrMsgCmd_def
      split: option.split_asm if_split_asm elim!: answered_config)

lemma answered_tick: "processTickCmd ev req s = Some rs \<Longrightarrow> answered_once s rs"
  using answer_text [of "ret_of (quoted ''tock'')" s rs]
  by (auto simp: processTickCmd_def ret_of_def cmd_text_def quoted_def split: if_split_asm)

lemma send_ret_0: "send_mcu (ret_of ''0'') s = Some (ok, s') \<Longrightarrow> ok \<and> one_frame s s'"
  by (rule send_mcu_text, assumption) (simp_all add: ret_of_def cmd_text_def quoted_def)

lemma answered_direct:
  assumes "f \<in> set [processBaudCmd, processCrcCmd]" and "f ev req s = Some rs"
  shows "answered_once s rs"
  using assms
  by (auto simp: processBaudCmd_def processCrcCmd_def Let_def answered_once_def one_frame_def
      split: option.split_asm if_split_asm elim!: bind_SomeE dest!: send_ret_0)

lemma answered_setting_mode: "processSettingCmd ev req s = Some rs \<Longrightarrow> answered_once s rs"
  unfolding processSettingCmd_def dealSettingMode_def Let_def
  by (auto simp: answered_once_def one_frame_def tr_post_core_def on_conn_def
      split: option.split_asm if_split_asm dest!: answered_config)

lemma send_tree_port: "send_tree ev j s = Some (r, s') \<Longrightarrow> tr_tx s' = tr_tx s \<and> tr_crc s' = tr_crc s"
  by (auto simp: send_tree_def elim!: bind_SomeE)

lemma answered_sent:
  assumes "send_and_answer ev j s = Some rs"
  shows "answered_once s rs"
proof -
  from assms obtain r u where u: "send_tree ev j s = Some (r, u)"
    "(if r = 0 then answer (ret_of ''0'') u else Some (U2ART_INSIDE_ERROR, u)) = Some rs"
    unfolding send_and_answer_def by (auto elim!: bind_SomeE)
  from send_tree_port [OF u(1)] u(2) show ?thesis
    by (auto simp: answered_once_def split: if_split_asm dest: ret_0_answer [of u, THEN answered_once_tx [of u _ s]])
qed

lemma answered_server:
  assumes "server_request a ty ev req s = Some rs"
  shows "answered_once s rs"
  using assms unfolding server_request_def Let_def
  by (auto simp: answered_once_def split: if_split_asm option.split_asm
      dest!: answered_sent [THEN answered_once_tx [of _ _ s]])

text \<open>A request without arguments.\<close>

definition tick_request :: "string \<Rightarrow> cJSON" where
  "tick_request n = cJSON_AddItemToArray cJSON_CreateArray (cJSON_CreateString n)"

lemma tick_request_no_args [simp]: "no_args (Some (tick_request n))"
  by (simp add: no_args_def tick_request_def cJSON_AddItemToArray_def cJSON_CreateArray_def cJSON_CreateString_def
      cJSON_GetArraySize_def)

lemma tick_request_accepted: "\<exists>s'. processTickCmd ev (Some (tick_request ''tick'')) s = Some (U2ART_SUCCESS, s')"
  using send_mcu_frame [of "ret_of (quoted ''tock'')" s]
  by (simp add: processTickCmd_def answer_def ret_of_def cmd_text_def quoted_def)

text \<open>
  C33: Every command of the transparent transmission device that leaves the queue and the timers
  alone answers exactly once: if it reports success it has sent one frame to the microcontroller,
  a JSON array with the check sum as it was set before the command, and if it reports an error it
  has sent nothing, so that the command processor's report of the error is the only answer.
\<close>

theorem command_answered_once:
  assumes "f \<in> set plain_commands" and "f ev req s = Some (r, s')"
  shows "if r = U2ART_SUCCESS
         then \<exists>bs. bs \<noteq> [] \<and> hd bs = 91 \<and> tr_tx s' = tr_tx s @ frame (tr_crc s) (crc32_spec bs) bs
         else tr_tx s' = tr_tx s"
proof -
  have "answered_once s (r, s')"
    using assms unfolding plain_commands_def
    by (auto simp: processUpdateCmd_def processQueryCmd_def intro: answered_tick answered_direct answered_settings
        answered_requests answered_setting_mode answered_server)
  then show ?thesis by (cases "r = U2ART_SUCCESS") (auto simp: answered_once_def one_frame_def)
qed

theorem command_answered_once_witness:
  "\<exists>s'. (processTickCmd :: (nat \<Rightarrow> bytes) tc_command) \<in> set plain_commands
     \<and> processTickCmd demo_tr_env (Some (tick_request ''tick'')) (demo_trans DEVICE_MODE_START) = Some (U2ART_SUCCESS, s')
     \<and> (\<exists>bs. bs \<noteq> [] \<and> hd bs = 91 \<and> tr_tx s' = frame False (crc32_spec bs) bs)"
proof -
  have p: "(processTickCmd :: (nat \<Rightarrow> bytes) tc_command) \<in> set plain_commands" by (simp add: plain_commands_def)
  obtain s' where s: "processTickCmd demo_tr_env (Some (tick_request ''tick'')) (demo_trans DEVICE_MODE_START)
      = Some (U2ART_SUCCESS, s')"
    using tick_request_accepted [of demo_tr_env "demo_trans DEVICE_MODE_START"] by blast
  from command_answered_once [OF p s] p s show ?thesis by simp
qed

end
