(* ===== verification/TransKey.thy ===== *)
theory TransKey
  imports TransAnswer
begin

text \<open>
  The key of the transparent transmission device: how the samples of its timer tell a long press, a
  short press and a spike apart, and that one press has one effect.
\<close>

subsection \<open>What the debouncing keeps\<close>

lemma key_mode [simp]:
  "tr_mode (s\<lparr>key_pressed_level_counter := p\<rparr>) = tr_mode s"
  "tr_mode (s\<lparr>key_released_level_counter := p\<rparr>) = tr_mode s"
  "tr_mode (s\<lparr>long_press_processed := l\<rparr>) = tr_mode s"
  "tr_mode (s\<lparr>key_isr_timer := t\<rparr>) = tr_mode s" "tr_mode (s\<lparr>key_interrupt := l\<rparr>) = tr_mode s"
  "tr_mode (s\<lparr>selfap_timers := n\<rparr>) = tr_mode s" "tr_mode (tr_post_core m s) = tr_mode s"
  by (simp_all add: tr_mode_def tr_post_core_def on_conn_def on_net_def post_core_def iotgoDeviceMode_def)

lemma post_keeps_key [simp]:
  "tr_post_core m (s\<lparr>key_pressed_level_counter := p\<rparr>) = (tr_post_core m s)\<lparr>key_pressed_level_counter := p\<rparr>"
  "tr_post_core m (s\<lparr>key_released_level_counter := p\<rparr>) = (tr_post_core m s)\<lparr>key_released_level_counter := p\<rparr>"
  "tr_post_core m (s\<lparr>long_press_processed := l\<rparr>) = (tr_post_core m s)\<lparr>long_press_processed := l\<rparr>"
  "tr_post_core m (s\<lparr>key_isr_timer := t\<rparr>) = (tr_post_core m s)\<lparr>key_isr_timer := t\<rparr>"
  "tr_post_core m (s\<lparr>key_interrupt := l\<rparr>) = (tr_post_core m s)\<lparr>key_interrupt := l\<rparr>"
  by (simp_all add: tr_post_core_def on_conn_def)

lemma post_key_fields [simp]:
  "key_pressed_level_counter (tr_post_core m s) = key_pressed_level_counter s"
  "key_released_level_counter (tr_post_core m s) = key_released_level_counter s"
  "long_press_processed (tr_post_core m s) = long_press_processed s"
  "selfap_timers (tr_post_core m s) = selfap_timers s"
  by (simp_all add: tr_post_core_def on_conn_def)

lemma post_core_q:
  "length (core_q (pc_net (tr_conn s))) < IOTGO_TASK_CORE_QLEN \<Longrightarrow>
   core_q (pc_net (tr_conn (tr_post_core m s))) = core_q (pc_net (tr_conn s)) @ [(m, 0)]"
  by (simp add: tr_post_core_def on_conn_def on_net_def post_core_def)

lemmas key_defs = KEY_DEBONCE_INTERVAL_def KEY_LONG_PRESS_TIME_def KEY_DEBONCE_FIRST_TIME_def KEY_DEBONCE_SECOND_TIME_def

lemma long_press_key [simp]:
  "long_press (s\<lparr>key_pressed_level_counter := p\<rparr>) = (long_press s)\<lparr>key_pressed_level_counter := p\<rparr>"
  "long_press (s\<lparr>key_released_level_counter := p\<rparr>) = (long_press s)\<lparr>key_released_level_counter := p\<rparr>"
  "long_press (s\<lparr>key_isr_timer := t\<rparr>) = (long_press s)\<lparr>key_isr_timer := t\<rparr>"
  "long_press (s\<lparr>key_interrupt := l\<rparr>) = (long_press s)\<lparr>key_interrupt := l\<rparr>"
  by (simp_all add: long_press_def Let_def)

lemma long_press_fields [simp]:
  "key_pressed_level_counter (long_press s) = key_pressed_level_counter s"
  "key_released_level_counter (long_press s) = key_released_level_counter s"
  "long_press_processed (long_press s)"
  by (auto simp: long_press_def Let_def)

lemma long_press_mode [simp]: "tr_mode (long_press s) = tr_mode s"
  by (simp add: long_press_def Let_def)

text \<open>A press that stays long has its effect once.\<close>

lemma long_press_again [simp]: "long_press_processed s \<Longrightarrow> long_press s = s"
  by (cases s) (simp add: long_press_def Let_def)

lemma short_press_key [simp]:
  "short_press (s\<lparr>key_pressed_level_counter := p\<rparr>) = (short_press s)\<lparr>key_pressed_level_counter := p\<rparr>"
  "short_press (s\<lparr>key_released_level_counter := p\<rparr>) = (short_press s)\<lparr>key_released_level_counter := p\<rparr>"
  "short_press (s\<lparr>key_isr_timer := t\<rparr>) = (short_press s)\<lparr>key_isr_timer := t\<rparr>"
  "short_press (s\<lparr>key_interrupt := l\<rparr>) = (short_press s)\<lparr>key_interrupt := l\<rparr>"
  by (simp_all add: short_press_def Let_def)

subsection \<open>The phases of a press\<close>

definition armed_key :: "'f trans \<Rightarrow> 'f trans" where
  "armed_key s = s\<lparr>key_interrupt := False, key_isr_timer := Armed KEY_DEBONCE_INTERVAL True\<rparr>"

definition held :: "nat \<Rightarrow> nat \<Rightarrow> 'f trans \<Rightarrow> 'f trans" where
  "held k r s = (if 200 \<le> k then long_press (armed_key s) else armed_key s)
     \<lparr>key_released_level_counter := r, key_pressed_level_counter := min k 200\<rparr>"

definition key_settled :: "'f trans \<Rightarrow> 'f trans" where
  "key_settled s = s\<lparr>long_press_processed := False, key_isr_timer := Disarmed, key_released_level_counter := 0,
     key_pressed_level_counter := 0, key_interrupt := True\<rparr>"

lemma held_start: "keyISR True s = held 0 0 s"
  by (simp add: keyISR_def held_def armed_key_def)

lemma sample_before: "keyISRStage2 True (held 0 0 s) = held 0 0 s"
  by (simp add: keyISRStage2_def key_sample_def held_def key_defs)

lemma sample_pressed: "keyISRStage2 False (held k 0 s) = held (Suc k) 0 s"
  by (auto simp: keyISRStage2_def key_sample_def held_def key_defs min_def)

lemma sample_released: "0 < k \<Longrightarrow> keyISRStage2 True (held k 0 s) = held k 1 s"
  by (simp add: keyISRStage2_def key_sample_def held_def key_defs)

lemma sample_bounce: "keyISRStage2 False (held k 1 s) = held k 1 s"
  by (simp add: keyISRStage2_def key_sample_def held_def key_defs)

definition pressed :: "nat \<Rightarrow> 'f trans \<Rightarrow> 'f trans" where
  "pressed k s = (if 200 \<le> k then long_press s else if 2 \<le> k then short_press s else s)"

lemma sample_last:
  assumes "0 < k" "\<not> long_press_processed s"
  shows "keyISRStage2 True (held k 1 s) = key_settled (pressed k s)"
  using assms by (simp add: keyISRStage2_def key_sample_def held_def key_defs pressed_def key_settled_def armed_key_def)

lemma samples_before: "fold keyISRStage2 (replicate a True) (held 0 0 s) = held 0 0 s"
  by (induction a) (simp_all add: sample_before)

lemma samples_pressed: "fold keyISRStage2 (replicate k False) (held n 0 s) = held (n + k) 0 s"
  by (induction k arbitrary: n) (simp_all add: sample_pressed)

lemma samples_bounce: "fold keyISRStage2 (replicate b False) (held k 1 s) = held k 1 s"
  by (induction b) (simp_all add: sample_bounce [simplified])

lemma press_settles:
  assumes "0 < k" "\<not> long_press_processed s"
  shows "fold keyISRStage2 (replicate a True @ replicate k False @ True # replicate b False @ [True]) (keyISR True s)
    = key_settled (pressed k s)"
  using assms samples_pressed [of k 0 s] sample_released [of k s]
  by (simp add: held_start samples_before samples_bounce sample_last del: fold_replicate One_nat_def)

text \<open>The message for the core task a press of \<open>k\<close> samples stands for.\<close>

definition press_messages :: "nat \<Rightarrow> IoTgoDeviceMode \<Rightarrow> IoTgoSignalSet list" where
  "press_messages k mode =
     (if 200 \<le> k then
        (case mode of DEVICE_MODE_SETTING \<Rightarrow> [MSG_CORE_EXIT_SETTING_MODE] | DEVICE_MODE_SETTING_SELFAP \<Rightarrow> []
         | _ \<Rightarrow> [MSG_CORE_ENTER_SETTING_MODE])
      else if 2 \<le> k then
        (case mode of DEVICE_MODE_SETTING \<Rightarrow> [MSG_CORE_EXIT_SETTING_MODE]
         | DEVICE_MODE_SETTING_SELFAP \<Rightarrow> [MSG_CORE_EXIT_SETTING_SELFAP_MODE] | _ \<Rightarrow> [])
      else [])"

lemma pressed_messages:
  assumes "\<not> long_press_processed s" "length (core_q (pc_net (tr_conn s))) < IOTGO_TASK_CORE_QLEN"
  shows "core_q (pc_net (tr_conn (pressed k s)))
    = core_q (pc_net (tr_conn s)) @ map (\<lambda>m. (m, 0)) (press_messages k (tr_mode s))"
  using assms
  by (cases "tr_mode s") (simp_all add: pressed_def press_messages_def long_press_def short_press_def post_core_q)

lemma key_settled_fields [simp]:
  "tr_conn (key_settled s) = tr_conn s" "key_pressed_level_counter (key_settled s) = 0"
  "key_released_level_counter (key_settled s) = 0" "key_isr_timer (key_settled s) = Disarmed" "key_interrupt (key_settled s)"
  "long_press_processed (key_settled s) = False" "selfap_timers (key_settled s) = selfap_timers s"
  by (simp_all add: key_settled_def)

lemma pressed_selfap:
  "\<not> long_press_processed s \<Longrightarrow> selfap_timers (pressed k s) = selfap_timers s + of_bool (200 \<le> k \<and> tr_mode s = DEVICE_MODE_SETTING)"
  by (simp add: pressed_def long_press_def short_press_def)

text \<open>
  C34: A press of the key is classified by how long it lasts, whatever the contact does at its end.
  After the interrupt the pin is sampled every 25 ms: some samples may still find it released, then
  \<open>k\<close> find it pressed, one finds it released, any number find it pressed again as the contact
  bounces, and one more finds it released.  With 200 samples or more (five seconds) it is a long
  press, however much longer it is held: one message asks the core task to enter or leave the
  setting mode, and from the setting mode a timer is armed for the access point mode.  With 2 to
  199 samples it is a short press, which only leaves a setting mode; one sample alone is a spike
  and has no effect.  In every case the counters are back at zero, the sampling timer is off and
  the interrupt is on again.
\<close>

theorem key_press_classified:
  assumes "0 < k" "\<not> long_press_processed s" "length (core_q (pc_net (tr_conn s))) < IOTGO_TASK_CORE_QLEN"
  assumes "s' = fold keyISRStage2 (replicate a True @ replicate k False @ True # replicate b False @ [True]) (keyISR True s)"
  shows "core_q (pc_net (tr_conn s')) = core_q (pc_net (tr_conn s)) @
      map (\<lambda>m. (m, 0))
        (if 200 \<le> k then
           (case tr_mode s of DEVICE_MODE_SETTING \<Rightarrow> [MSG_CORE_EXIT_SETTING_MODE] | DEVICE_MODE_SETTING_SELFAP \<Rightarrow> []
            | _ \<Rightarrow> [MSG_CORE_ENTER_SETTING_MODE])
         else if 2 \<le> k then
           (case tr_mode s of DEVICE_MODE_SETTING \<Rightarrow> [MSG_CORE_EXIT_SETTING_MODE]
            | DEVICE_MODE_SETTING_SELFAP \<Rightarrow> [MSG_CORE_EXIT_SETTING_SELFAP_MODE] | _ \<Rightarrow> [])
         else [])
    \<and> selfap_timers s' = selfap_timers s + of_bool (200 \<le> k \<and> tr_mode s = DEVICE_MODE_SETTING)
    \<and> key_pressed_level_counter s' = 0 \<and> key_released_level_counter s' = 0
    \<and> key_isr_timer s' = Disarmed \<and> key_interrupt s' \<and> \<not> long_press_processed s'"
proof -
  have "s' = key_settled (pressed k s)" unfolding assms(4) by (rule press_settles [OF assms(1,2)])
  with pressed_messages [OF assms(2,3), of k] pressed_selfap [OF assms(2), of k] show ?thesis
    by (simp add: press_messages_def)
qed

theorem key_press_classified_witness:
  "core_q (pc_net (tr_conn (fold keyISRStage2 (replicate 1 True @ replicate 240 False @ True # replicate 3 False @ [True])
     (keyISR True (demo_trans DEVICE_MODE_WORK_NORMAL))))) = [(MSG_CORE_ENTER_SETTING_MODE, 0)]"
  using key_press_classified [of 240 "demo_trans DEVICE_MODE_WORK_NORMAL" _ 1 3, OF _ _ _ refl]
  by (simp add: IOTGO_TASK_CORE_QLEN_def tr_mode_def iotgoDeviceMode_def)

end
