(* ===== verification/JsonWf.thy ===== *)
theory JsonWf
  imports CJsonParse
begin

text \<open>
  What the parser of \<open>app/addition/cJSON.c\<close> promises: every tree it returns is well typed, and the
  bound on its recursion is never reached.
\<close>

subsection \<open>Typed trees\<close>

text \<open>
  The fields a node of each type has, its own name apart.  The elements of an array have no name,
  the members of an object have one, and no text holds a terminator.
\<close>

definition no_nul :: "string \<Rightarrow> bool" where
  "no_nul s \<longleftrightarrow> CHR 0x00 \<notin> set s"

fun well_typed :: "cJSON \<Rightarrow> bool" where
  "well_typed (CJ t ch vs vi vd s) =
     (case t of
        cJSON_Invalid \<Rightarrow> False
      | cJSON_False \<Rightarrow> ch = [] \<and> vs = None \<and> vi = 0 \<and> vd = 0
      | cJSON_True \<Rightarrow> ch = [] \<and> vs = None \<and> vi = 1 \<and> vd = 0
      | cJSON_NULL \<Rightarrow> ch = [] \<and> vs = None \<and> vi = 0 \<and> vd = 0
      | cJSON_Number \<Rightarrow> ch = [] \<and> vs = None \<and> vi = rat_trunc vd \<and> int_range vi
      | cJSON_String \<Rightarrow> ch = [] \<and> (\<exists>v. vs = Some v \<and> no_nul v) \<and> vi = 0 \<and> vd = 0
      | cJSON_Array \<Rightarrow> vs = None \<and> vi = 0 \<and> vd = 0 \<and> (\<forall>c \<in> set ch. well_typed c \<and> cj_string c = None)
      | cJSON_Object \<Rightarrow> vs = None \<and> vi = 0 \<and> vd = 0 \<and>
          (\<forall>c \<in> set ch. well_typed c \<and> (\<exists>n. cj_string c = Some n \<and> no_nul n)))"

lemma well_typed_named [simp]: "well_typed (cj_set_string n c) = well_typed c"
  by (cases c) simp

lemma cj_string_set [simp]: "cj_string (cj_set_string n c) = n"
  by (cases c) simp

subsection \<open>Cases of the parser\<close>

lemma pbind_POk: "pbind m f = POk y r \<longleftrightarrow> (\<exists>x q. m = POk x q \<and> f x q = POk y r)"
  by (cases m) auto

lemma no_nul_simps [simp]:
  "no_nul []" "no_nul (c # cs) \<longleftrightarrow> c \<noteq> CHR 0x00 \<and> no_nul cs" "no_nul (s @ t) \<longleftrightarrow> no_nul s \<and> no_nul t"
  by (auto simp: no_nul_def)

lemma no_nul_drop [simp]: "no_nul s \<Longrightarrow> no_nul (drop n s)"
  by (auto simp: no_nul_def dest: in_set_dropD)

lemma no_nul_tl [simp]: "no_nul s \<Longrightarrow> no_nul (tl s)"
  by (cases s) simp_all

lemma no_nul_skip [simp]: "no_nul s \<Longrightarrow> no_nul (js_skip s)"
  unfolding js_skip_def no_nul_def by (auto dest: set_dropWhileD)

lemma skip_length: "length (js_skip s) \<le> length s"
  by (simp add: js_skip_def length_dropWhile_le)

lemma char_not_nul: "0 < n \<Longrightarrow> n < 256 \<Longrightarrow> char_of (n :: nat) \<noteq> CHR 0x00"
proof
  assume n: "0 < n" "n < 256" and "char_of n = CHR 0x00"
  then have "of_char (char_of n :: char) = (0 :: nat)" by simp
  with n show False by simp
qed

lemma utf8_no_nul: "uc \<noteq> 0 \<Longrightarrow> uc < 0x110000 \<Longrightarrow> no_nul (utf8_bytes uc)"
proof -
  assume uc: "uc \<noteq> 0" "uc < 0x110000"
  have small: "uc div 262144 < 5" "uc < 65536 \<Longrightarrow> uc div 4096 < 16" "uc < 2048 \<Longrightarrow> uc div 64 < 32" using uc by auto
  have ne: "char_of n \<noteq> CHR 0x00" if "0 < n" "n < 256" for n :: nat by (rule char_not_nul [OF that])
  have "128 + k mod 64 < 256" for k :: nat using mod_less_divisor [of 64 k] by linarith
  with uc small show ?thesis by (auto simp: utf8_bytes_def simp: ne)
qed

lemma hex_digit_less: "hex_digit c = Some d \<Longrightarrow> d < 16"
  by (auto simp: hex_digit_def Let_def split: if_split_asm)

lemma parse_hex4_bound: "parse_hex4 s < 0x10000"
proof (cases "\<exists>a b c d r w x y z. s = a # b # c # d # r \<and> hex_digit a = Some w \<and> hex_digit b = Some x
    \<and> hex_digit c = Some y \<and> hex_digit d = Some z")
  case True
  then obtain a b c d r w x y z where s: "s = a # b # c # d # r" "hex_digit a = Some w" "hex_digit b = Some x"
    "hex_digit c = Some y" "hex_digit d = Some z" by blast
  with hex_digit_less have "w < 16" "x < 16" "y < 16" "z < 16" by blast+
  with s show ?thesis by (simp add: parse_hex4_def)
next
  case False
  then show ?thesis by (auto simp: parse_hex4_def split: list.split option.split)
qed

lemma decode_no_nul: "str_decode n s = Some t \<Longrightarrow> no_nul s \<Longrightarrow> no_nul t"
proof (induction n arbitrary: s t rule: less_induct)
  case (less n)
  have pair: "no_nul (utf8_bytes (9216 + ((uc - 0xD800) * 1024 + uc2)))"
    if "uc \<le> 0xDBFF" "\<not> 0xDFFF < uc2" for uc uc2
    using that by (intro utf8_no_nul) auto
  have single: "parse_hex4 es \<noteq> 0 \<Longrightarrow> no_nul (utf8_bytes (parse_hex4 es))" for es
    using parse_hex4_bound [of es] by (intro utf8_no_nul) auto
  then have high: "\<not> parse_hex4 es \<le> 57343 \<Longrightarrow> no_nul (utf8_bytes (parse_hex4 es))" for es by fastforce
  have ih: "str_decode k cs = Some u \<Longrightarrow> k < n \<Longrightarrow> no_nul cs \<Longrightarrow> no_nul u" for k cs u using less.IH by blast
  show ?case
  proof (cases n)
    case 0
    with less.prems show ?thesis by (simp add: str_decode.simps [of 0])
  next
    case (Suc n')
    show ?thesis
    proof (cases s)
      case Nil
      with less.prems Suc show ?thesis by (simp add: str_decode.simps [of "Suc n'"])
    next
      case (Cons c cs)
      show ?thesis
      proof (cases "c = CHR 0x5C \<and> n' > 0 \<and> cs \<noteq> []")
        case False
        with less.prems Suc Cons show ?thesis
          by (auto simp: str_decode.simps [of "Suc n'"] split: nat.split_asm list.split_asm if_split_asm dest: ih)
      next
        case True
        then obtain k e es where c: "n' = Suc k" "cs = e # es" "c = CHR 0x5C" by (cases n'; cases cs) auto
        from less.prems Suc Cons c show ?thesis
          by (auto simp: str_decode.simps [of "Suc (Suc k)"] Let_def split: if_split_asm
              dest!: ih intro: pair single high)
      qed
    qed
  qed
qed

lemma parse_string_typed: "parse_string s = POk t r \<Longrightarrow> no_nul s \<Longrightarrow> no_nul t \<and> no_nul r"
  by (auto simp: parse_string_def Let_def split: if_split_asm option.split_asm dest: decode_no_nul)

lemma chr_at_Cons: "chr_at s = c \<Longrightarrow> c \<noteq> CHR 0x00 \<Longrightarrow> \<exists>cs. s = c # cs"
  by (cases s) (simp_all add: chr_at_def)

lemma parse_string_length: "parse_string s = POk t r \<Longrightarrow> length r < length s"
proof -
  assume a: "parse_string s = POk t r"
  then have "chr_at s = CHR 0x22" by (simp add: parse_string_def split: if_split_asm)
  from chr_at_Cons [OF this] obtain cs where s: "s = CHR 0x22 # cs" by auto
  from a show ?thesis
    by (auto simp: s parse_string_def chr_at_def Let_def split: if_split_asm option.split_asm list.split_asm
        dest!: arg_cong [where f = length])
qed

lemma parse_number_typed:
  assumes "parse_number s = POk c r"
  shows "well_typed c \<and> cj_string c = None" "no_nul s \<longrightarrow> no_nul r"
  using assms by (auto simp: parse_number_def Let_def split: if_split_asm)

lemma parse_typed:
  "parse_value f s = POk c r \<Longrightarrow> no_nul s \<Longrightarrow> well_typed c \<and> cj_string c = None \<and> no_nul r"
  "parse_elems f s = POk cs r \<Longrightarrow> no_nul s \<Longrightarrow> (\<forall>c \<in> set cs. well_typed c \<and> cj_string c = None) \<and> no_nul r"
  "parse_members f s = POk cs r \<Longrightarrow> no_nul s \<Longrightarrow>
     (\<forall>c \<in> set cs. well_typed c \<and> (\<exists>n. cj_string c = Some n \<and> no_nul n)) \<and> no_nul r"
proof (induction f s and f s and f s arbitrary: c r and cs r and cs r
    rule: parse_value_parse_elems_parse_members.induct)
  case (2 f s)
  then show ?case
    by (auto simp: Let_def pbind_POk split: if_split_asm dest: parse_string_typed parse_number_typed)
qed (auto simp: Let_def pbind_POk split: if_split_asm dest!: parse_string_typed)

text \<open>
  C27: Every tree \<open>cJSON_Parse\<close> returns is well typed, the trees below it included: a number holds an
  \<open>int\<close> that is its own value cut off towards zero, only a string node has a text and it always has
  one, only arrays and objects have children, every member of an object has a name and no element of
  an array has one, and no text holds a terminator.  So the callbacks that read \<open>valuestring\<close> of a
  node of type \<open>cJSON_String\<close> or the name of a member never follow a null pointer.
\<close>

theorem parsed_tree_well_typed:
  assumes "no_nul txt" and "cJSON_Parse txt = Some (Some j)"
  shows "well_typed j \<and> cj_string j = None"
  using assms by (auto simp: cJSON_Parse_def simp del: parse_value.simps split: parse.split_asm dest: parse_typed(1))

theorem parsed_tree_well_typed_witness:
  "\<exists>j. cJSON_Parse ''[null,true,{}]'' = Some (Some j) \<and> well_typed j \<and> cj_string j = None"
proof -
  have n: "no_nul ''[null,true,{}]''" by simp
  have "cJSON_Parse ''[null,true,{}]'' = Some (Some (CJ cJSON_Array [CJ cJSON_NULL [] None 0 0 None,
      CJ cJSON_True [] None 1 0 None, CJ cJSON_Object [] None 0 0 None] None 0 0 None))" by code_simp
  with parsed_tree_well_typed [OF n this] show ?thesis by blast
qed

subsection \<open>The bound on the recursion\<close>

lemma pbind_eq: "m = m' \<Longrightarrow> (\<And>x r. m' = POk x r \<Longrightarrow> f x r = g x r) \<Longrightarrow> pbind m f = pbind m' g"
  by (cases m') simp_all

lemma tl_length: "s \<noteq> [] \<Longrightarrow> length (tl s) < length s"
  by (cases s) simp_all

lemma chr_at_nonempty: "chr_at s = c \<Longrightarrow> c \<noteq> CHR 0x00 \<Longrightarrow> s \<noteq> []"
  by (auto simp: chr_at_def)

lemma skip_tl: "chr_at s = c \<Longrightarrow> c \<noteq> CHR 0x00 \<Longrightarrow> length (js_skip (tl s)) < length s"
  using chr_at_nonempty [of s c] tl_length [of s] skip_length [of "tl s"] by linarith

lemma take_length: "take n s = t \<Longrightarrow> length t = n \<Longrightarrow> 0 < n \<Longrightarrow> length (drop n s) < length s"
  by (auto simp: min_def split: if_split_asm)

lemma parse_number_length:
  assumes "parse_number s = POk c r" "chr_at s = CHR ''-'' \<or> c_isdigit (chr_at s)"
  shows "length r < length s"
proof -
  have "s \<noteq> []" using assms(2) by (auto simp: chr_at_def c_isdigit_def)
  then obtain d cs where s: "s = d # cs" by (cases s) auto
  have "length (tl (drop n (u :: string))) \<le> length u" "length (tl u) \<le> length u" for n u by (cases u; simp)+
  then show ?thesis
    using assms by (auto simp: s parse_number_def Let_def chr_at_def split: if_split_asm) 
qed

lemma parse_length:
  "parse_value f s = POk c r \<Longrightarrow> length r < length s"
  "parse_elems f s = POk cs r \<Longrightarrow> length r < length s"
  "parse_members f s = POk cs r \<Longrightarrow> length r < length s"
proof (induction f s and f s and f s arbitrary: c r and cs r and cs r
    rule: parse_value_parse_elems_parse_members.induct)
  case (2 f s)
  have tl: "length (tl u) \<le> length u" for u :: string by (cases u) simp_all
  have lt: "length x < length (js_skip (tl s)) \<Longrightarrow> chr_at s = d \<Longrightarrow> d \<noteq> CHR 0x00 \<Longrightarrow> length (tl x) < length s" for x :: string and d
    using tl [of x] skip_tl [of s d] by simp
  have lu: "chr_at s = d \<Longrightarrow> d \<noteq> CHR 0x00 \<Longrightarrow> length (tl (js_skip (tl s))) < length s" for d
    using tl [of "js_skip (tl s)"] skip_tl [of s d] by simp
  from 2 show ?case
    by (auto simp: Let_def pbind_POk split: if_split_asm
        dest: parse_string_length parse_number_length take_length lt lu)
next
  case (4 f s)
  have lt: "length v < length (js_skip (tl (js_skip r))) \<Longrightarrow> length r < length s \<Longrightarrow> length v < length s" for v r :: string
    using skip_length [of "tl (js_skip r)"] skip_length [of r] by simp
  have ls: "length r < length s \<Longrightarrow> length (js_skip r) < length s" for r using skip_length [of r] by simp
  from 4(3) show ?case
    by (auto simp: Let_def pbind_POk split: if_split_asm intro: lt ls dest!: 4(1) 4(2) [OF refl])
next
  case (6 f s)
  have v: "length r < length (js_skip (tl (js_skip q)))"
    if "chr_at (js_skip q) = CHR '':''" "parse_value f (js_skip (tl (js_skip q))) = POk c r" for c r q
    using 6(1) that by blast
  have m: "length r < length (js_skip (tl (js_skip q')))"
    if "chr_at (js_skip q) = CHR '':''" "chr_at (js_skip q') = CHR '',''"
      "parse_members f (js_skip (tl (js_skip q'))) = POk cs r" for cs r q q'
    using 6(2) that by blast
  have sk: "length (js_skip (tl (js_skip r))) \<le> length r" for r
    using skip_length [of "tl (js_skip r)"] skip_length [of r] by simp
  from 6(3) obtain n q c q' where a: "parse_string s = POk n q" "chr_at (js_skip q) = CHR '':''"
    "parse_value f (js_skip (tl (js_skip q))) = POk c q'"
    and r: "if chr_at (js_skip q') = CHR '','' then \<exists>ds. parse_members f (js_skip (tl (js_skip q'))) = POk ds r
            else r = js_skip q'"
    by (auto simp: Let_def pbind_POk split: if_split_asm)
  have "length q' < length s" using parse_string_length [OF a(1)] v [OF a(2,3)] sk [of q] by simp
  with r m [OF a(2)] sk [of q'] skip_length [of q'] show ?case by (fastforce split: if_split_asm)
qed simp_all

lemma parse_fuel:
  "2 * length s < f \<Longrightarrow> f \<le> g \<Longrightarrow> parse_value g s = parse_value f s"
  "2 * length s + 1 < f \<Longrightarrow> f \<le> g \<Longrightarrow> parse_elems g s = parse_elems f s"
  "2 * length s + 1 < f \<Longrightarrow> f \<le> g \<Longrightarrow> parse_members g s = parse_members f s"
proof (induction f s and f s and f s arbitrary: g and g and g
    rule: parse_value_parse_elems_parse_members.induct)
  case (2 f s)
  then obtain g' where g: "g = Suc g'" "f \<le> g'" by (cases g) auto
  have len: "2 * length (js_skip (tl s)) + 1 < f" if "chr_at s = d" "d \<noteq> CHR 0x00" for d
    using skip_tl [OF that] 2(3) by simp
  have dig: "\<not> c_isdigit (CHR ''['')" "\<not> c_isdigit (CHR ''{'')" by (simp_all add: c_isdigit_def)
  have e: "parse_elems g' (js_skip (tl s)) = parse_elems f (js_skip (tl s))"
    if "take 4 s \<noteq> ''null''" "take 5 s \<noteq> ''false''" "take 4 s \<noteq> ''true''" "chr_at s = CHR ''[''"
      "chr_at (js_skip (tl s)) \<noteq> CHR '']''"
    by (rule 2(1)) (use that g(2) dig len [OF that(4)] in \<open>simp_all\<close>)
  have m: "parse_members g' (js_skip (tl s)) = parse_members f (js_skip (tl s))"
    if "take 4 s \<noteq> ''null''" "take 5 s \<noteq> ''false''" "take 4 s \<noteq> ''true''" "chr_at s = CHR ''{''"
      "chr_at (js_skip (tl s)) \<noteq> CHR ''}''"
    by (rule 2(2)) (use that g(2) dig len [OF that(4)] in \<open>simp_all\<close>)
  show ?case by (simp add: g(1) Let_def e m)
next
  case (4 f s)
  then obtain g' where g: "g = Suc g'" "f \<le> g'" by (cases g) auto
  have sk: "length (js_skip (tl (js_skip r))) \<le> length r" for r
    using skip_length [of "tl (js_skip r)"] skip_length [of r] by simp
  have v: "parse_value g' s = parse_value f s" using 4(1) [of g'] 4(3) g by simp
  have e: "parse_elems g' (js_skip (tl (js_skip r))) = parse_elems f (js_skip (tl (js_skip r)))"
    if "parse_value f s = POk c r" "chr_at (js_skip r) = CHR '',''" for c r
    using parse_length(1) [OF that(1)] 4(3) sk [of r] g by (intro 4(2) [OF refl that(2)]) simp_all
  show ?case by (auto simp: g(1) Let_def v e intro!: pbind_eq)
next
  case (6 f s)
  then obtain g' where g: "g = Suc g'" "f \<le> g'" by (cases g) auto
  have sk: "length (js_skip (tl (js_skip r))) \<le> length r" for r
    using skip_length [of "tl (js_skip r)"] skip_length [of r] by simp
  have v: "parse_value g' (js_skip (tl (js_skip q))) = parse_value f (js_skip (tl (js_skip q)))"
    if "parse_string s = POk n q" "chr_at (js_skip q) = CHR '':''" for n q
    using parse_string_length [OF that(1)] 6(3) sk [of q] g that(2) by (intro 6(1) [OF refl]) simp_all
  have m: "parse_members g' (js_skip (tl (js_skip r))) = parse_members f (js_skip (tl (js_skip r)))"
    if "parse_string s = POk n q" "chr_at (js_skip q) = CHR '':''" "parse_value f (js_skip (tl (js_skip q))) = POk c r"
      "chr_at (js_skip r) = CHR '',''" for n q c r
    using parse_string_length [OF that(1)] parse_length(1) [OF that(3)] 6(3) sk [of q] sk [of r] g that(2,4)
    by (intro 6(2) [OF refl _ refl refl]) simp_all
  show ?case by (auto simp: g(1) Let_def v m intro!: pbind_eq)
qed simp_all



end
