(* ===== verification/JsonTrip.thy ===== *)
theory JsonTrip
  imports JsonWf
begin

text \<open>
  The printer and the parser of \<open>app/addition/cJSON.c\<close> fit together: what
  \<open>cJSON_PrintUnformatted\<close> prints is read back by \<open>cJSON_Parse\<close>.
\<close>

subsection \<open>Texts\<close>

lemma hex_digit_chr: "d < 16 \<Longrightarrow> hex_digit (hex_chr d) = Some d"
  by (auto simp: hex_digit_def hex_chr_def)

definition escaped :: "string \<Rightarrow> string" where
  "escaped t = concat (map print_char t)"

lemma escaped_simps [simp]: "escaped [] = []" "escaped (c # t) = print_char c @ escaped t"
  by (simp_all add: escaped_def)

lemma print_string_escaped: "print_string_ptr (Some t) = CHR 0x22 # escaped t @ [CHR 0x22]"
proof (cases "\<exists>c \<in> set t. (of_char c :: nat) < 32 \<or> c = CHR 0x22 \<or> c = CHR 0x5C")
  case True
  then show ?thesis by (simp add: print_string_ptr_def escaped_def)
next
  case False
  then have "concat (map print_char t) = t" by (induction t) (auto simp: print_char_def)
  with False show ?thesis by (simp add: print_string_ptr_def escaped_def)
qed

text \<open>A printed character is one plain character, an escape of two or one of six.\<close>

lemma print_char_cases:
  obtains (plain) "print_char c = [c]" "c \<noteq> CHR 0x22" "c \<noteq> CHR 0x5C"
  | (short) e where "print_char c = [CHR 0x5C, e]" "(e, c) \<in> {(CHR 0x5C, CHR 0x5C), (CHR 0x22, CHR 0x22),
      (CHR ''b'', CHR 0x08), (CHR ''f'', CHR 0x0C), (CHR ''n'', CHR 0x0A), (CHR ''r'', CHR 0x0D), (CHR ''t'', CHR 0x09)}"
  | (long) "print_char c = [CHR 0x5C, CHR ''u'', CHR ''0'', CHR ''0'', hex_chr (of_char c div 16), hex_chr (of_char c mod 16)]"
      "(of_char c :: nat) < 32"
proof (cases "(of_char c :: nat) > 31 \<and> c \<noteq> CHR 0x22 \<and> c \<noteq> CHR 0x5C")
  case True
  then show thesis by (intro plain) (simp_all add: print_char_def)
next
  case False
  show thesis
  proof (cases "c \<in> {CHR 0x5C, CHR 0x22, CHR 0x08, CHR 0x0C, CHR 0x0A, CHR 0x0D, CHR 0x09}")
    case True
    then show thesis by (auto simp: print_char_def intro: short)
  next
    case n: False
    with False show thesis by (intro long) (auto simp: print_char_def)
  qed
qed

lemma hex_chr_plain: "d < 16 \<Longrightarrow> hex_chr d \<noteq> CHR 0x22 \<and> hex_chr d \<noteq> CHR 0x5C"
proof -
  assume "d < 16"
  then have "hex_digit (hex_chr d) = Some d" by (rule hex_digit_chr)
  moreover have "hex_digit (CHR 0x22) = None" "hex_digit (CHR 0x5C) = None" by (simp_all add: hex_digit_def)
  ultimately show ?thesis by (metis option.distinct(1))
qed

lemma scan_escaped: "str_scan (escaped t @ CHR 0x22 # rest) = Some (length (escaped t))"
proof (induction t)
  case (Cons c t)
  show ?case
  proof (cases rule: print_char_cases [of c])
    case long
    then have "(of_char c :: nat) div 16 < 16" "(of_char c :: nat) mod 16 < 16" by simp_all
    with Cons long hex_chr_plain show ?thesis by simp
  qed (use Cons in simp_all)
qed simp

lemma char_of_of_char_nat: "(of_char c :: nat) < n \<Longrightarrow> n \<le> 256 \<Longrightarrow> char_of (of_char c :: nat) = c"
  by simp

lemma of_char_not_nul: "c \<noteq> CHR 0x00 \<Longrightarrow> (of_char c :: nat) \<noteq> 0"
proof
  assume c: "c \<noteq> CHR 0x00" "(of_char c :: nat) = 0"
  have "c = char_of (of_char c :: nat)" by simp
  with c show False by (simp add: char_of_def)
qed

lemma parse_hex4_printed:
  "parse_hex4 (CHR ''0'' # CHR ''0'' # hex_chr (of_char c div 16) # hex_chr (of_char c mod 16) # s) = of_char c"
proof -
  have n: "(of_char c :: nat) < 256" by (simp add: of_char_def)
  have "(of_char c :: nat) div 16 < 16" by (rule less_mult_imp_div_less) (use n in simp)
  moreover have "hex_digit (CHR ''0'') = Some 0" by (simp add: hex_digit_def)
  ultimately show ?thesis by (simp add: parse_hex4_def hex_digit_chr)
qed

lemma decode_escaped: "no_nul t \<Longrightarrow> str_decode (length (escaped t)) (escaped t @ rest) = Some t"
proof (induction t)
  case Nil
  then show ?case by (simp add: str_decode.simps [of 0])
next
  case (Cons c t)
  let ?n = "length (escaped t)"
  show ?case
  proof (cases rule: print_char_cases [of c])
    case plain
    with Cons show ?thesis by (simp add: str_decode.simps [of "Suc ?n"])
  next
    case (short e)
    with Cons show ?thesis by (auto simp: str_decode.simps [of "Suc (Suc ?n)"])
  next
    case long
    with Cons of_char_not_nul [of c] show ?thesis
      by (simp add: str_decode.simps [of "Suc (Suc (Suc (Suc (Suc (Suc ?n)))))"] Let_def parse_hex4_printed utf8_bytes_def)
  qed
qed

lemma parse_printed_string:
  "no_nul t \<Longrightarrow> parse_string (print_string_ptr (Some t) @ rest) = POk t rest"
  by (simp add: print_string_escaped parse_string_def scan_escaped decode_escaped chr_at_def)

subsection \<open>Numbers\<close>

lemma digits_rat_append: "digits_rat n (ds @ [c]) = digits_rat n ds * 10 + of_int (digit_val c)"
  by (induction n ds rule: digits_rat.induct) simp_all

lemma dec_digits: "\<forall>c \<in> set (nat_dec n). c_isdigit c"
proof (induction n rule: nat_dec.induct)
  case (1 n)
  then show ?case by (auto simp: nat_dec.simps [of n] c_isdigit_digit_chr)
qed

lemma dec_value: "digits_rat 0 (nat_dec n) = of_nat n"
proof (induction n rule: nat_dec.induct)
  case (1 n)
  have "rat_of_nat n = rat_of_nat (n div 10 * 10 + n mod 10)" by (simp only: div_mult_mod_eq)
  then have "rat_of_nat n = rat_of_nat (n div 10) * 10 + rat_of_nat (n mod 10)"
    by (simp only: of_nat_add of_nat_mult of_nat_numeral)
  with 1 show ?case
    by (cases "n < 10") (simp_all add: nat_dec.simps [of n] digits_rat_append digit_val_digit_chr)
qed

lemma dec_first: "0 < n \<Longrightarrow> \<exists>c cs. nat_dec n = c # cs \<and> c \<noteq> CHR ''0''"
proof (induction n rule: nat_dec.induct)
  case (1 n)
  show ?case
  proof (cases "n < 10")
    case True
    with 1(2) of_char_digit_chr [of n] have "digit_chr n \<noteq> CHR ''0''" by auto
    with True show ?thesis by (simp add: nat_dec.simps [of n])
  next
    case False
    with 1 show ?thesis by (fastforce simp: nat_dec.simps [of n])
  qed
qed

definition ends :: "string \<Rightarrow> bool" where
  "ends rest \<longleftrightarrow> \<not> c_isdigit (chr_at rest) \<and> chr_at rest \<noteq> CHR ''.''"

lemma take_digits:
  assumes "\<forall>c \<in> set ds. c_isdigit c" "\<not> c_isdigit (chr_at rest)"
  shows "takeWhile c_isdigit (ds @ rest) = ds"
  using assms by (cases rest) (simp_all add: takeWhile_append2 chr_at_def)

lemma dec_zero: "nat_dec 0 = ''0''"
  by code_simp

lemma parse_dec:
  assumes "ends rest" "int_range (int n)"
  shows "parse_number (nat_dec n @ rest) = POk (CJ cJSON_Number [] None (int n) (of_nat n) None) rest"
proof (cases "n = 0")
  case True
  with assms show ?thesis
    by (simp add: dec_zero parse_number_def Let_def ends_def chr_at_def rat_trunc_def)
next
  case False
  then obtain c cs where d: "nat_dec n = c # cs" "c \<noteq> CHR ''0''" using dec_first [of n] by auto
  then have c: "c_isdigit c" "\<forall>c \<in> set cs. c_isdigit c" using dec_digits [of n] by auto
  then have m: "c \<noteq> CHR ''-''" by (auto simp: c_isdigit_def)
  have "takeWhile c_isdigit (cs @ rest) = cs" using c(2) assms(1) by (intro take_digits) (simp_all add: ends_def)
  with assms dec_value [of n] c m show ?thesis
    by (simp add: d parse_number_def Let_def ends_def chr_at_def rat_trunc_def)
qed

lemma parse_dec_neg:
  assumes "ends rest" "int_range (- int n)" "0 < n"
  shows "parse_number (CHR ''-'' # nat_dec n @ rest) = POk (CJ cJSON_Number [] None (- int n) (- of_nat n) None) rest"
proof -
  obtain c cs where d: "nat_dec n = c # cs" "c \<noteq> CHR ''0''" using dec_first [OF assms(3)] by auto
  then have c: "c_isdigit c" "\<forall>c \<in> set cs. c_isdigit c" using dec_digits [of n] by auto
  have "takeWhile c_isdigit (cs @ rest) = cs" using c(2) assms(1) by (intro take_digits) (simp_all add: ends_def)
  moreover have "\<lceil>- rat_of_nat n\<rceil> = - int n" by (simp add: ceiling_minus)
  ultimately show ?thesis using assms dec_value [of n] c
    by (simp add: d parse_number_def Let_def ends_def chr_at_def rat_trunc_def)
qed

text \<open>What is printed for a whole number, as it is read back.\<close>

lemma printed_number_text:
  assumes "int_range i"
  shows "print_number i (of_int i) = Some (int_dec i)"
proof (cases "i = 0")
  case True
  then show ?thesis by (simp add: print_number_def int_dec_def dec_zero)
next
  case False
  have "rat_of_int i \<le> 2147483647 \<longleftrightarrow> i \<le> 2147483647" "rat_of_int i \<ge> -2147483648 \<longleftrightarrow> i \<ge> -2147483648"
    by (metis of_int_le_iff of_int_numeral, metis of_int_le_iff of_int_numeral of_int_minus)
  with assms False show ?thesis by (simp add: print_number_def int_range_def)
qed

lemma parse_int_dec:
  assumes "int_range i" "ends rest"
  shows "parse_number (int_dec i @ rest) = POk (CJ cJSON_Number [] None i (of_int i) None) rest"
proof (cases "i < 0")
  case True
  with parse_dec_neg [OF assms(2), of "nat (- i)"] assms(1) show ?thesis by (simp add: int_dec_def)
next
  case False
  with parse_dec [OF assms(2), of "nat i"] assms(1) show ?thesis by (simp add: int_dec_def)
qed

subsection \<open>Trees\<close>

text \<open>Trees whose numbers are whole, as the firmware builds them.\<close>

fun whole :: "cJSON \<Rightarrow> bool" where
  "whole (CJ t ch vs vi vd s) \<longleftrightarrow> (t = cJSON_Number \<longrightarrow> vd = of_int vi) \<and> (\<forall>c \<in> set ch. whole c)"

definition starts :: "string \<Rightarrow> bool" where
  "starts s \<longleftrightarrow> 32 < (of_char (chr_at s) :: nat) \<and> chr_at s \<noteq> CHR '']'' \<and> chr_at s \<noteq> CHR ''}''"

lemma starts_skip: "starts s \<Longrightarrow> js_skip (s @ rest) = s @ rest"
  by (cases s) (simp_all add: starts_def js_skip_def chr_at_def)

lemma starts_chr: "starts s \<Longrightarrow> chr_at (s @ rest) = chr_at s \<and> s \<noteq> []"
  by (cases s) (simp_all add: starts_def chr_at_def)

lemma starts_string: "starts (print_string_ptr v)"
  by (simp add: starts_def print_string_ptr_def chr_at_def split: option.split)

lemma starts_dec: "starts (int_dec i)"
proof -
  have "starts (nat_dec n)" for n
  proof -
    obtain c cs where "nat_dec n = c # cs" by (cases "nat_dec n") (simp_all add: nat_dec.simps [of n] split: if_split_asm)
    with dec_digits [of n] show ?thesis by (auto simp: starts_def chr_at_def c_isdigit_def)
  qed
  then show ?thesis by (simp add: int_dec_def) (simp add: starts_def chr_at_def)
qed

lemma printed_ok:
  "well_typed j \<Longrightarrow> whole j \<Longrightarrow> \<exists>t. print_value j = Some (Some t) \<and> starts t"
  "(\<forall>c \<in> set cs. well_typed c \<and> whole c) \<Longrightarrow>
     \<exists>es. print_entries cs = Some (Some es) \<and> length es = length cs \<and> (\<forall>e \<in> set es. starts e)"
  "(\<forall>c \<in> set cs. well_typed c \<and> whole c) \<Longrightarrow>
     \<exists>es. print_members cs = Some (Some es) \<and> length es = length cs \<and> (\<forall>e \<in> set es. starts e)"
proof (induction j and cs and cs rule: print_value_print_entries_print_members.induct)
  case (1 t ch vs vi vd s)
  have lit: "starts ''null''" "starts ''true''" "starts ''false''" "starts (CHR ''['' # u)" "starts (CHR ''{'' # u)" for u
    by (simp_all add: starts_def chr_at_def)
  show ?case
  proof (cases t)
    case cJSON_Number
    with 1(3,4) have "int_range vi" "vd = of_int vi" by auto
    with cJSON_Number printed_number_text [of vi] starts_dec [of vi] show ?thesis by simp
  next
    case cJSON_Array
    with 1(1) [OF cJSON_Array] 1(3,4) lit(4) show ?thesis by fastforce
  next
    case cJSON_Object
    with 1(2) [OF cJSON_Object] 1(3,4) lit(5) show ?thesis by fastforce
  qed (use 1(3) lit(1,2,3) starts_string in auto)
next
  case (3 c cs)
  then show ?case by fastforce
next
  case (5 c cs)
  have "starts (print_string_ptr v @ t)" for v t
    using starts_string [of v] starts_chr [of "print_string_ptr v" t] by (simp add: starts_def)
  with 5 show ?case by fastforce
qed simp_all

text \<open>Enough characters for the bound, and what may follow an element.\<close>

definition follows :: "string \<Rightarrow> bool" where
  "follows rest \<longleftrightarrow> rest \<noteq> [] \<and> hd rest \<in> {CHR '']'', CHR ''}''}"

lemma follows_facts:
  assumes "follows rest"
  shows "ends rest" "js_skip rest = rest" "chr_at rest \<noteq> CHR '',''"
  using assms by (cases rest; auto simp: follows_def ends_def chr_at_def js_skip_def c_isdigit_def)+

lemma join_cons: "es \<noteq> [] \<Longrightarrow> join_commas (e # es) = e @ CHR '','' # join_commas es"
  by (cases es) simp_all

lemma starts_join: "es \<noteq> [] \<Longrightarrow> \<forall>e \<in> set es. starts e \<Longrightarrow> starts (join_commas es)"
  using starts_chr by (cases es; cases "tl es") (fastforce simp: starts_def)+

lemma comma_facts: "ends (CHR '','' # s)" "js_skip (CHR '','' # s) = CHR '','' # s" "chr_at (CHR '','' # s) = CHR '',''"
  by (simp_all add: ends_def chr_at_def js_skip_def c_isdigit_def)

lemma set_name_same: "cj_string c = n \<Longrightarrow> cj_set_string n c = c"
  by (cases c) simp

lemma set_name_twice [simp]: "cj_set_string n (cj_set_string m c) = cj_set_string n c"
  by (cases c) simp

lemma parse_printed_elem:
  assumes v: "\<And>rest f. ends rest \<Longrightarrow> 2 * length (e @ rest) < f \<Longrightarrow> parse_value f (e @ rest) = POk c rest"
    and es: "es \<noteq> [] \<Longrightarrow> 2 * length (join_commas es @ rest) + 1 < f \<Longrightarrow> parse_elems f (join_commas es @ rest) = POk cs rest"
    and st: "\<forall>e \<in> set es. starts e" and n: "es = [] \<Longrightarrow> cs = []"
    and rest: "follows rest" and f: "2 * length (join_commas (e # es) @ rest) + 1 < Suc f"
  shows "parse_elems (Suc f) (join_commas (e # es) @ rest) = POk (c # cs) rest"
proof (cases "es = []")
  case True
  with v [OF follows_facts(1) [OF rest]] f n follows_facts [OF rest] show ?thesis by (simp add: Let_def)
next
  case False
  have "parse_value f (e @ CHR '','' # join_commas es @ rest) = POk c (CHR '','' # join_commas es @ rest)"
    using f by (intro v) (simp_all add: comma_facts join_cons [OF False])
  moreover have "js_skip (join_commas es @ rest) = join_commas es @ rest" by (rule starts_skip [OF starts_join [OF False st]])
  moreover have "parse_elems f (join_commas es @ rest) = POk cs rest"
    using f by (intro es [OF False]) (simp add: join_cons [OF False])
  ultimately show ?thesis by (simp add: join_cons [OF False] Let_def comma_facts)
qed

lemma parse_printed_member:
  assumes v: "\<And>rest f. ends rest \<Longrightarrow> 2 * length (e @ rest) < f \<Longrightarrow> parse_value f (e @ rest) = POk c0 rest"
    and es: "es \<noteq> [] \<Longrightarrow> 2 * length (join_commas es @ rest) + 1 < f \<Longrightarrow> parse_members f (join_commas es @ rest) = POk cs rest"
    and st: "\<forall>e \<in> set es. starts e" "starts e" and n: "es = [] \<Longrightarrow> cs = []" "no_nul n" "cj_set_string (Some n) c0 = c"
    and rest: "follows rest" and f: "2 * length (join_commas ((print_string_ptr (Some n) @ CHR '':'' # e) # es) @ rest) + 1 < Suc f"
  shows "parse_members (Suc f) (join_commas ((print_string_ptr (Some n) @ CHR '':'' # e) # es) @ rest) = POk (c # cs) rest"
proof -
  have col: "js_skip (CHR '':'' # u) = CHR '':'' # u" "chr_at (CHR '':'' # u) = CHR '':''" for u
    by (simp_all add: js_skip_def chr_at_def)
  note nm = parse_printed_string [OF n(2)]
  note se = starts_skip [OF st(2)]
  show ?thesis
  proof (cases "es = []")
    case True
    with v [OF follows_facts(1) [OF rest], of f] f n follows_facts [OF rest] show ?thesis
      by (simp add: Let_def nm col se)
  next
    case False
    have "parse_value f (e @ CHR '','' # join_commas es @ rest) = POk c0 (CHR '','' # join_commas es @ rest)"
      using f by (intro v) (simp_all add: comma_facts join_cons [OF False])
    moreover have "js_skip (join_commas es @ rest) = join_commas es @ rest" by (rule starts_skip [OF starts_join [OF False st(1)]])
    moreover have "parse_members f (join_commas es @ rest) = POk cs rest"
      using f by (intro es [OF False]) (simp add: join_cons [OF False])
    ultimately show ?thesis by (simp add: join_cons [OF False] Let_def comma_facts nm col se n)
  qed
qed

lemma take_first:
  "take 4 s = ''null'' \<Longrightarrow> chr_at s = CHR ''n''" "take 5 s = ''false'' \<Longrightarrow> chr_at s = CHR ''f''"
  "take 4 s = ''true'' \<Longrightarrow> chr_at s = CHR ''t''"
  by (cases s; simp add: chr_at_def)+

lemma first_dec: "chr_at (int_dec i @ rest) = CHR ''-'' \<or> c_isdigit (chr_at (int_dec i @ rest))"
proof -
  have "c_isdigit (chr_at (nat_dec n @ rest))" for n
    using dec_digits [of n] by (cases "nat_dec n") (simp_all add: nat_dec.simps [of n] chr_at_def split: if_split_asm)
  then show ?thesis by (simp add: int_dec_def chr_at_def)
qed

lemma parse_value_number:
  assumes "int_range i" "ends rest"
  shows "parse_value (Suc f) (int_dec i @ rest) = POk (CJ cJSON_Number [] None i (of_int i) None) rest"
proof -
  have "chr_at (int_dec i @ rest) \<notin> {CHR ''n'', CHR ''f'', CHR ''t'', CHR 0x22}"
    using first_dec [of i rest] by (auto simp: c_isdigit_def)
  with take_first [of "int_dec i @ rest"] first_dec [of i rest] parse_int_dec [OF assms] show ?thesis
    by (auto simp del: take_append)
qed

lemma parse_value_string:
  assumes "no_nul v"
  shows "parse_value (Suc f) (print_string_ptr (Some v) @ rest) = POk (CJ cJSON_String [] (Some v) 0 0 None) rest"
proof -
  have "chr_at (print_string_ptr (Some v) @ rest) = CHR 0x22" by (simp add: print_string_escaped chr_at_def)
  with take_first [of "print_string_ptr (Some v) @ rest"] parse_printed_string [OF assms, of rest] show ?thesis
    by (auto simp del: take_append)
qed

lemma brackets:
  "chr_at (CHR ''['' # s) = CHR ''[''" "chr_at (CHR ''{'' # s) = CHR ''{''" "chr_at (CHR '']'' # s) = CHR '']''"
  "chr_at (CHR ''}'' # s) = CHR ''}''" "js_skip (CHR '']'' # s) = CHR '']'' # s" "js_skip (CHR ''}'' # s) = CHR ''}'' # s"
  "follows (CHR '']'' # s)" "follows (CHR ''}'' # s)" "\<not> c_isdigit (CHR ''['')" "\<not> c_isdigit (CHR ''{'')"
  by (simp_all add: chr_at_def js_skip_def follows_def c_isdigit_def)

lemma parse_value_array:
  assumes "es = [] \<Longrightarrow> cs = []" "\<forall>e \<in> set es. starts e"
    and "es \<noteq> [] \<Longrightarrow> parse_elems f (join_commas es @ CHR '']'' # rest) = POk cs (CHR '']'' # rest)"
  shows "parse_value (Suc f) (CHR ''['' # join_commas es @ CHR '']'' # rest) = POk (CJ cJSON_Array cs None 0 0 None) rest"
proof (cases "es = []")
  case True
  with assms(1) show ?thesis by (simp add: brackets Let_def)
next
  case False
  have st: "starts (join_commas es)" by (rule starts_join [OF False assms(2)])
  from starts_skip [OF st] starts_chr [OF st] assms(3) [OF False] st show ?thesis
    by (simp add: brackets Let_def starts_def)
qed

lemma parse_value_object:
  assumes "es = [] \<Longrightarrow> cs = []" "\<forall>e \<in> set es. starts e"
    and "es \<noteq> [] \<Longrightarrow> parse_members f (join_commas es @ CHR ''}'' # rest) = POk cs (CHR ''}'' # rest)"
  shows "parse_value (Suc f) (CHR ''{'' # join_commas es @ CHR ''}'' # rest) = POk (CJ cJSON_Object cs None 0 0 None) rest"
proof (cases "es = []")
  case True
  with assms(1) show ?thesis by (simp add: brackets Let_def)
next
  case False
  have st: "starts (join_commas es)" by (rule starts_join [OF False assms(2)])
  from starts_skip [OF st] starts_chr [OF st] assms(3) [OF False] st show ?thesis
    by (simp add: brackets Let_def starts_def)
qed

lemma parse_printed:
  "print_value j = Some (Some t) \<Longrightarrow> well_typed j \<Longrightarrow> whole j \<Longrightarrow> ends rest \<Longrightarrow> 2 * length (t @ rest) < f \<Longrightarrow>
     parse_value f (t @ rest) = POk (cj_set_string None j) rest"
  "print_entries cs = Some (Some es) \<Longrightarrow> cs \<noteq> [] \<Longrightarrow> \<forall>c \<in> set cs. well_typed c \<and> whole c \<and> cj_string c = None \<Longrightarrow>
     follows rest \<Longrightarrow> 2 * length (join_commas es @ rest) + 1 < f \<Longrightarrow> parse_elems f (join_commas es @ rest) = POk cs rest"
  "print_members cs = Some (Some es) \<Longrightarrow> cs \<noteq> [] \<Longrightarrow>
     \<forall>c \<in> set cs. well_typed c \<and> whole c \<and> (\<exists>n. cj_string c = Some n \<and> no_nul n) \<Longrightarrow>
     follows rest \<Longrightarrow> 2 * length (join_commas es @ rest) + 1 < f \<Longrightarrow> parse_members f (join_commas es @ rest) = POk cs rest"
proof (induction j and cs and cs arbitrary: t rest f and es rest f and es rest f
    rule: print_value_print_entries_print_members.induct)
  case (1 ty ch vs vi vd s)
  obtain f' where f: "f = Suc f'" using 1(7) by (cases f) auto
  show ?case
  proof (cases ty)
    case cJSON_Number
    with 1(4,5) have n: "int_range vi" "vd = of_int vi" by auto
    with 1(3) cJSON_Number printed_number_text [of vi] have "t = int_dec vi" by simp
    with parse_value_number [OF n(1) 1(6), of f'] cJSON_Number 1(4) n(2) f \<open>t = int_dec vi\<close> show ?thesis
      by (simp del: parse_value.simps)
  next
    case cJSON_String
    with 1(3,4) obtain v where "vs = Some v" "no_nul v" "t = print_string_ptr (Some v)" by auto
    with parse_value_string [of v f' rest] cJSON_String 1(4) f show ?thesis by (auto simp del: parse_value.simps)
  next
    case cJSON_Array
    with 1(3) obtain es where es: "print_entries ch = Some (Some es)" "t = CHR ''['' # join_commas es @ '']''" by auto
    from printed_ok(2) [of ch] 1(4,5) cJSON_Array es(1) have st: "\<forall>e \<in> set es. starts e" "length es = length ch" by auto
    have z: "es = [] \<Longrightarrow> ch = []" using st(2) by simp
    have p: "es \<noteq> [] \<Longrightarrow> parse_elems f' (join_commas es @ CHR '']'' # rest) = POk ch (CHR '']'' # rest)"
      using 1(4,5,7) f cJSON_Array st(2) by (intro 1(1) [OF cJSON_Array es(1)]) (auto simp: brackets es(2))
    from parse_value_array [OF z st(1) p] cJSON_Array 1(4) f es(2) show ?thesis
      by (auto simp del: parse_value.simps)
  next
    case cJSON_Object
    with 1(3) obtain es where es: "print_members ch = Some (Some es)" "t = CHR ''{'' # join_commas es @ ''}''" by auto
    from printed_ok(3) [of ch] 1(4,5) cJSON_Object es(1) have st: "\<forall>e \<in> set es. starts e" "length es = length ch" by auto
    have z: "es = [] \<Longrightarrow> ch = []" using st(2) by simp
    have p: "es \<noteq> [] \<Longrightarrow> parse_members f' (join_commas es @ CHR ''}'' # rest) = POk ch (CHR ''}'' # rest)"
      using 1(4,5,7) f cJSON_Object st(2) by (intro 1(2) [OF cJSON_Object es(1)]) (auto simp: brackets es(2))
    from parse_value_object [OF z st(1) p] cJSON_Object 1(4) f es(2) show ?thesis
      by (auto simp del: parse_value.simps)
  qed (use 1(3,4) f in auto)
next
  case (3 c cs)
  from 3(3) obtain e es' where p: "print_value c = Some (Some e)" "print_entries cs = Some (Some es')" "es = e # es'"
    by (auto split: option.split_asm)
  from printed_ok(2) [of cs] 3(5) p(2) have st: "\<forall>e \<in> set es'. starts e" "length es' = length cs" by auto
  obtain f' where f: "f = Suc f'" using 3(7) by (cases f) auto
  show ?case unfolding f p(3)
  proof (rule parse_printed_elem)
    fix rest f assume "ends rest" "2 * length (e @ rest) < f"
    with 3(1) [OF p(1)] 3(5) show "parse_value f (e @ rest) = POk c rest" by (simp add: set_name_same)
  next
    assume "es' \<noteq> []" "2 * length (join_commas es' @ rest) + 1 < f'"
    with st(2) 3(5,6) show "parse_elems f' (join_commas es' @ rest) = POk cs rest" by (intro 3(2) [OF p(1) refl p(2)]) auto
  qed (use st 3 p f in auto)
next
  case (5 c cs)
  from 5(5) obtain n where n: "cj_string c = Some n" "no_nul n" by auto
  from 5(3) obtain e es' where p: "print_value c = Some (Some e)" "print_members cs = Some (Some es')"
    "es = (print_string_ptr (Some n) @ CHR '':'' # e) # es'"
    by (auto simp: n(1) split: option.split_asm)
  from printed_ok(3) [of cs] 5(5) p(2) have st: "\<forall>e \<in> set es'. starts e" "length es' = length cs" by auto
  from printed_ok(1) [of c] 5(5) p(1) have se: "starts e" by auto
  obtain f' where f: "f = Suc f'" using 5(7) by (cases f) auto
  show ?case unfolding f p(3)
  proof (rule parse_printed_member)
    fix rest f assume "ends rest" "2 * length (e @ rest) < f"
    with 5(1) [OF p(1)] 5(5) show "parse_value f (e @ rest) = POk (cj_set_string None c) rest" by simp
  next
    assume "es' \<noteq> []" "2 * length (join_commas es' @ rest) + 1 < f'"
    with st(2) 5(5,6) show "parse_members f' (join_commas es' @ rest) = POk cs rest" by (intro 5(2) [OF p(1) refl p(2)]) auto
  next
    show "cj_set_string (Some n) (cj_set_string None c) = c" by (simp add: set_name_same n(1))
  qed (use st 5 p f n se in auto)
qed simp_all

lemma json_reread:
  assumes "well_typed j" and "whole j" and "cj_string j = None" and "cJSON_PrintUnformatted j = Some (Some t)"
  shows "cJSON_Parse t = Some (Some j)"
proof -
  have t: "print_value j = Some (Some t)" using assms(4) by (simp add: cJSON_PrintUnformatted_def)
  with printed_ok(1) [OF assms(1,2)] have st: "starts t" by simp
  have "ends []" by (simp add: ends_def chr_at_def c_isdigit_def)
  with parse_printed(1) [OF t assms(1,2), of "[]" "Suc (2 * length t)"] starts_skip [OF st, of "[]"]
    set_name_same [OF assms(3)]
  show ?thesis by (simp add: cJSON_Parse_def del: parse_value.simps)
qed

text \<open>
  C26: What the printer prints, the parser reads back: every well-typed tree whose numbers are whole
  and which is not itself a member of an object is printed, and \<open>cJSON_Parse\<close> gives exactly the tree
  back from the text: the numbers over the whole range of \<open>int\<close>, the texts and names with quotes,
  backslashes, control characters and bytes above 127 escaped and unescaped, and arrays and objects
  nested to any depth with their elements in order.
\<close>

theorem json_text_roundtrip:
  assumes "well_typed j" and "whole j" and "cj_string j = None"
  shows "\<exists>t. cJSON_PrintUnformatted j = Some (Some t) \<and> cJSON_Parse t = Some (Some j)"
  using printed_ok(1) [OF assms(1,2)] json_reread [OF assms] by (auto simp: cJSON_PrintUnformatted_def)

theorem json_text_roundtrip_witness:
  "\<exists>t. cJSON_PrintUnformatted (cJSON_AddItemToObject cJSON_CreateObject ''a\"'' (cJSON_CreateIntArray [-7, 0])) = Some (Some t)
     \<and> cJSON_Parse t = Some (Some (cJSON_AddItemToObject cJSON_CreateObject ''a\"'' (cJSON_CreateIntArray [-7, 0])))"
  by (rule json_text_roundtrip)
    (simp_all add: cJSON_AddItemToObject_def cJSON_AddItemToArray_def cJSON_CreateObject_def cJSON_CreateIntArray_def
      cJSON_CreateNumber_def rat_trunc_def int_range_def)

end
