(* ===== verification/TransForward.thy ===== *)
theory TransForward
  imports TransQueue JsonTrip
begin

text \<open>
  The path of an update from the server to the microcontroller (MCU): the text is parsed, the
  private fields are removed, the rest is printed and queued, and the MCU reads the same tree back.
\<close>

subsection \<open>Private fields\<close>

definition zyx_field :: "cJSON \<Rightarrow> bool" where
  "zyx_field c \<longleftrightarrow> (\<exists>n. cj_string c = Some n \<and> c_strstr n ''zyx_'' \<noteq> None)"

definition folded :: "cJSON \<Rightarrow> string option" where
  "folded c = map_option (map c_tolower) (cj_string c)"

lemma remove_last:
  assumes "\<forall>k \<in> set ks. folded k \<noteq> folded c" "cj_string c = Some n"
  shows "remove_named n (ks @ [c]) = ks"
  using assms
proof (induction ks)
  case (Cons k ks)
  then show ?case by (cases "cj_string k") (simp_all add: folded_def)
qed simp

lemma delete_fields_filter:
  assumes "\<forall>c \<in> set cs. cj_string c \<noteq> None" "distinct (map folded (ks @ cs))"
  shows "delete_fields ks cs = Some (ks @ filter (\<lambda>c. \<not> zyx_field c) cs)"
  using assms
proof (induction cs arbitrary: ks)
  case (Cons c cs)
  then obtain n where n: "cj_string c = Some n" by auto
  have "folded c \<notin> folded ` set ks" using Cons.prems(2) by simp
  then have ks: "\<forall>k \<in> set ks. folded k \<noteq> folded c" by (metis image_eqI)
  show ?case
  proof (cases "zyx_field c")
    case True
    with Cons n remove_last [OF ks n] show ?thesis by (auto simp: zyx_field_def)
  next
    case False
    with Cons.IH [of "ks @ [c]"] Cons.prems n show ?thesis by (simp add: zyx_field_def)
  qed
qed simp

lemma set_child_fields [simp]:
  "cj_type (cj_set_child cs j) = cj_type j" "cj_child (cj_set_child cs j) = cs" "cj_string (cj_set_child cs j) = cj_string j"
  by (cases j; simp)+

definition without_zyx :: "cJSON \<Rightarrow> cJSON" where
  "without_zyx p = cj_set_child (filter (\<lambda>c. \<not> zyx_field c) (cj_child p)) p"

lemma typed_object:
  assumes "well_typed j" "cj_type j = cJSON_Object" "c \<in> set (cj_child j)"
  shows "well_typed c \<and> cj_string c \<noteq> None"
  using assms by (cases j) auto

lemma deleteField_zyx:
  assumes "well_typed p" "cj_type p = cJSON_Object" "distinct (map folded (cj_child p))"
  shows "deleteField p = Some (True, without_zyx p)"
  using assms delete_fields_filter [of "cj_child p" "[]"] typed_object [OF assms(1,2)]
  by (auto simp: deleteField_def without_zyx_def)

lemma without_typed: "well_typed p \<Longrightarrow> cj_type p = cJSON_Object \<Longrightarrow> well_typed (without_zyx p)"
  by (cases p) (auto simp: without_zyx_def)

lemma without_whole: "whole p \<Longrightarrow> whole (without_zyx p)"
  by (cases p) (auto simp: without_zyx_def)

lemma print_unnamed [simp]: "print_value (cj_set_string n c) = print_value c"
  by (cases c) simp

lemma whole_named [simp]: "whole (cj_set_string n c) = whole c"
  by (cases c) simp

lemma typed_member:
  assumes "well_typed j" "cJSON_GetObjectItem (Some j) n = Some c"
  shows "well_typed c"
proof -
  from assms(2) have "c \<in> set (cj_child j)" by (auto simp: cJSON_GetObjectItem_def find_Some_iff)
  with assms(1) show ?thesis by (cases j) (auto split: cJSON_type.split_asm)
qed

text \<open>The array the MCU gets.\<close>

definition message_tree :: "string \<Rightarrow> cJSON list \<Rightarrow> cJSON" where
  "message_tree name js = CJ cJSON_Array (CJ cJSON_String [] (Some name) 0 0 None # map (cj_set_string None) js) None 0 0 None"

lemma message_tree_typed:
  assumes "no_nul name" "\<forall>j \<in> set js. well_typed j \<and> whole j"
  shows "well_typed (message_tree name js) \<and> whole (message_tree name js)"
  using assms by (simp add: message_tree_def)

lemma print_all_entries: "print_all js = Some ts \<longleftrightarrow> print_entries (map (cj_set_string None) js) = Some (Some ts)"
  by (induction js arbitrary: ts) (auto simp: cJSON_PrintUnformatted_def bind_Some_iff split: option.split option.split_asm)

lemma join_cmd: "join_commas (t # ts) = t @ concat (map (\<lambda>a. CHR '','' # a) ts)"
  by (induction ts arbitrary: t) simp_all

lemma message_text:
  assumes "print_all js = Some ts" "print_string_ptr (Some name) = quoted name"
  shows "cJSON_PrintUnformatted (message_tree name js) = Some (Some (cmd_text name ts))"
  using assms by (simp add: print_all_entries cJSON_PrintUnformatted_def message_tree_def cmd_text_def join_cmd)

subsection \<open>What lies in the queue\<close>

lemma print_char_nul: "c \<noteq> CHR 0x00 \<Longrightarrow> no_nul (print_char c)"
proof -
  assume c: "c \<noteq> CHR 0x00"
  have "hex_chr d \<noteq> CHR 0x00" if "d < 16" for d
    using hex_digit_chr [OF that] by (auto simp: hex_digit_def)
  moreover have "(of_char c :: nat) div 16 < 16" by (rule less_mult_imp_div_less) (simp add: of_char_def)
  ultimately show ?thesis
    using c by (cases rule: print_char_cases [of c]) auto
qed

lemma print_string_nul: "no_nul v \<Longrightarrow> no_nul (print_string_ptr (Some v))"
  by (induction v) (auto simp: print_string_escaped print_char_nul)

lemma dec_nul: "no_nul (nat_dec n)"
  using dec_digits [of n] by (auto simp: no_nul_def c_isdigit_def)

lemma join_nul: "no_nul (join_commas es) \<longleftrightarrow> (\<forall>e \<in> set es. no_nul e)"
  by (induction es rule: join_commas.induct) auto

lemma printed_nul:
  "well_typed j \<Longrightarrow> whole j \<Longrightarrow> print_value j = Some (Some t) \<Longrightarrow> no_nul t"
  "\<forall>c \<in> set cs. well_typed c \<and> whole c \<Longrightarrow> print_entries cs = Some (Some es) \<Longrightarrow> \<forall>e \<in> set es. no_nul e"
  "\<forall>c \<in> set cs. well_typed c \<and> whole c \<and> (\<exists>n. cj_string c = Some n \<and> no_nul n) \<Longrightarrow>
     print_members cs = Some (Some es) \<Longrightarrow> \<forall>e \<in> set es. no_nul e"
proof (induction j and cs and cs arbitrary: t and es and es rule: print_value_print_entries_print_members.induct)
  case (1 ty ch vs vi vd s)
  show ?case
  proof (cases ty)
    case cJSON_Number
    with 1(3,4) have "int_range vi" "vd = of_int vi" by auto
    with 1(5) cJSON_Number printed_number_text [of vi] have "t = int_dec vi" by simp
    then show ?thesis by (simp add: int_dec_def dec_nul)
  next
    case cJSON_Array
    with 1(5) obtain es where es: "print_entries ch = Some (Some es)" "t = CHR ''['' # join_commas es @ '']''" by auto
    with 1(1) [OF cJSON_Array _ es(1)] 1(3,4) cJSON_Array show ?thesis by (simp add: join_nul)
  next
    case cJSON_Object
    with 1(5) obtain es where es: "print_members ch = Some (Some es)" "t = CHR ''{'' # join_commas es @ ''}''" by auto
    with 1(2) [OF cJSON_Object _ es(1)] 1(3,4) cJSON_Object show ?thesis by (simp add: join_nul)
  qed (use 1(3,5) print_string_nul in auto)
next
  case (3 c cs)
  then show ?case by (fastforce split: option.split_asm)
next
  case (5 c cs)
  then show ?case using print_string_nul by (fastforce split: option.split_asm)
qed simp_all

lemma char_byte: "unat (word_of_nat (of_char c) :: 8 word) = of_char c"
  by (simp add: unat_of_nat of_char_def)

lemma entry_text: "no_nul t \<Longrightarrow> entry t = (TC_NULL, bytes_of t @ [0]) \<and> str_of (bytes_of t @ [0]) = t"
proof -
  assume t: "no_nul t"
  have ne: "(word_of_nat (of_char c) :: 8 word) \<noteq> 0" if "c \<noteq> CHR 0x00" for c
    using char_byte [of c] of_char_not_nul [OF that] by (metis unat_0)
  have "takeWhile (\<lambda>b. b \<noteq> 0) (bytes_of t @ [0]) = bytes_of t"
    using t by (induction t) (simp_all add: bytes_of_def ne)
  moreover have "map (\<lambda>b. char_of (unat b)) (bytes_of t) = t" by (simp add: bytes_of_def char_byte comp_def)
  ultimately show ?thesis by (simp add: entry_def c_text_def str_of_def)
qed

lemma print_all_trees:
  "\<forall>j \<in> set js. well_typed j \<and> whole j \<Longrightarrow> \<exists>ts. print_all js = Some ts \<and> length ts = length js"
  using printed_ok(2) [of "map (cj_set_string None) js"] by (auto simp: print_all_entries)

lemma cmd_text_length: "length (cmd_text name ts) = length name + 4 + sum_list (map length ts) + length ts"
  by (simp add: cmd_text_def quoted_def) (induction ts; simp)

subsection \<open>Forwarding\<close>

lemma forward_queued:
  assumes js: "\<forall>j \<in> set js. well_typed j \<and> whole j" and name: "no_nul name" "print_string_ptr (Some name) = quoted name"
    and n: "length name + 4 + length js < n"
    and mem: "\<And>n. \<exists>u. tr_malloc ev n = Some u \<and> n \<le> u" and q: "tc_rep (tc_link_queue s) xs" "length xs < 10"
  shows "\<exists>s' t. forward ev name n js s = Some s' \<and> tc_rep (tc_link_queue s') (xs @ [(TC_NULL, bytes_of t @ [0])])
    \<and> str_of (bytes_of t @ [0]) = t \<and> cJSON_Parse t = Some (Some (message_tree name js))"
proof -
  obtain ts where ts: "print_all js = Some ts" "length ts = length js" using print_all_trees [OF js] by blast
  let ?t = "cmd_text name ts"
  note typed = message_tree_typed [OF name(1) js]
  have p: "cJSON_PrintUnformatted (message_tree name js) = Some (Some ?t)" by (rule message_text [OF ts(1) name(2)])
  have "cj_string (message_tree name js) = None" by (simp add: message_tree_def)
  with json_reread typed p have parse: "cJSON_Parse ?t = Some (Some (message_tree name js))" by simp
  have nul: "no_nul ?t"
    by (rule printed_nul(1) [of "message_tree name js"]) (use typed p in \<open>simp_all add: cJSON_PrintUnformatted_def\<close>)
  obtain u where u: "tr_malloc ev (sum_list (map length ts) + n) = Some u" "sum_list (map length ts) + n \<le> u" using mem by blast
  have "length ?t < u" using u(2) n ts(2) by (simp add: cmd_text_length)
  then have fw: "forward ev name n js s = tc_queue ?t s" by (simp add: forward_def ts(1) composed_def u(1))
  from tc_queue_spec [OF q(1), of ?t] obtain qq where
    "tc_queue ?t s = Some ((if xs = [] then sendDataFromAppToMcu else (\<lambda>s. s)) (s\<lparr>tc_link_queue := qq\<rparr>))"
    "tc_rep qq (if length xs < 10 then xs @ [entry ?t] else xs)" .
  with fw parse entry_text [OF nul] q(2) show ?thesis
    by (intro exI [of _ "(if xs = [] then sendDataFromAppToMcu else (\<lambda>s. s)) (s\<lparr>tc_link_queue := qq\<rparr>)"] exI [of _ ?t])
      (auto simp: sendDataFromAppToMcu_def tr_post_device_def on_conn_def)
qed

text \<open>
  C25: An update of the server reaches the microcontroller as it was meant.  For a text that parses
  to an object with a sequence (a string of at most 50 characters) and parameters that are an object
  of whole numbers, texts and further trees, without a timer action and with names that differ even
  without regard to case, one message is put at the end of the queue for the microcontroller, and
  parsing the bytes that are queued gives \<open>["update", sequence, parameters]\<close>: the sequence and the
  parameters of the server's text with every field whose name contains \<open>zyx_\<close> removed and all
  others as they were and in their order.
\<close>

theorem server_update_reaches_mcu:
  assumes "no_nul data" and "cJSON_Parse data = Some (Some j)"
    and "cJSON_GetObjectItem (Some j) ''sequence'' = Some sq" "cj_type sq = cJSON_String" "cj_valuestring sq = Some v" "length v \<le> 50"
    and "cJSON_GetObjectItem (Some j) ''params'' = Some params" "cj_type params = cJSON_Object" "whole params"
    and "cJSON_GetObjectItem (Some params) ''timerAct'' = None" "distinct (map folded (cj_child params))"
    and "\<And>n. \<exists>u. tr_malloc ev n = Some u \<and> n \<le> u" and "tc_rep (tc_link_queue s) xs" "length xs < 10"
  shows "\<exists>s' m. switchReqUpdateCallback ev data s = Some s' \<and> tc_rep (tc_link_queue s') (xs @ [(TC_NULL, m)])
    \<and> cJSON_Parse (str_of m) = Some (Some (CJ cJSON_Array
        [CJ cJSON_String [] (Some ''update'') 0 0 None, cj_set_string None sq,
         cj_set_string None (cj_set_child (filter (\<lambda>c. \<not> zyx_field c) (cj_child params)) params)] None 0 0 None))"
proof -
  let ?js = "[sq, without_zyx params]" and ?s = "set_sequence v s"
  have j: "well_typed j" using assms(1,2) by (auto simp: cJSON_Parse_def simp del: parse_value.simps split: parse.split_asm dest: parse_typed(1))
  have sq: "well_typed sq" "well_typed params" using typed_member [OF j] assms(3,7) by blast+
  have "whole sq" using sq(1) assms(4) by (cases sq) simp
  with sq without_typed [OF sq(2) assms(8)] without_whole [OF assms(9)] have js: "\<forall>j \<in> set ?js. well_typed j \<and> whole j" by simp
  have "tc_rep (tc_link_queue ?s) xs" using assms(13) by (simp add: set_sequence_def on_conn_def)
  from forward_queued [OF js _ _ _ assms(12) this assms(14), of "''update''" 13] obtain s' t where
    f: "forward ev ''update'' 13 ?js ?s = Some s'" "tc_rep (tc_link_queue s') (xs @ [(TC_NULL, bytes_of t @ [0])])"
      "str_of (bytes_of t @ [0]) = t" "cJSON_Parse t = Some (Some (message_tree ''update'' ?js))"
    by (auto simp: print_string_ptr_def quoted_def)
  have "switchReqUpdateCallback ev data s = forward ev ''update'' 13 ?js ?s"
    using assms deleteField_zyx [OF sq(2) assms(8,11)]
    by (simp add: switchReqUpdateCallback_def parsed_def copy_sequence_def c_copy_def IOTGO_SERVER_SEQUENCE_SIZE_def)
  with f show ?thesis
    by (intro exI [of _ s'] exI [of _ "bytes_of t @ [0]"]) (simp add: message_tree_def without_zyx_def)
qed

definition update_text :: string where
  "update_text = ''{\"sequence\":\"9\",\"params\":{\"zyx_t\":1,\"switch\":\"on\"}}''"

definition update_params :: cJSON where
  "update_params = CJ cJSON_Object [CJ cJSON_Number [] None 1 1 (Some ''zyx_t''),
     CJ cJSON_String [] (Some ''on'') 0 0 (Some ''switch'')] None 0 0 (Some ''params'')"

lemma update_text_parsed:
  "cJSON_Parse update_text = Some (Some (CJ cJSON_Object
     [CJ cJSON_String [] (Some ''9'') 0 0 (Some ''sequence''), update_params] None 0 0 None))"
  by code_simp

theorem server_update_reaches_mcu_witness:
  "\<exists>s' m. switchReqUpdateCallback demo_tr_env update_text (demo_trans DEVICE_MODE_WORK_NORMAL) = Some s'
    \<and> tc_rep (tc_link_queue s') [(TC_NULL, m)]
    \<and> cJSON_Parse (str_of m) = Some (Some (CJ cJSON_Array
        [CJ cJSON_String [] (Some ''update'') 0 0 None, CJ cJSON_String [] (Some ''9'') 0 0 None,
         CJ cJSON_Object [CJ cJSON_String [] (Some ''on'') 0 0 (Some ''switch'')] None 0 0 None] None 0 0 None))"
proof -
  have n: "no_nul update_text" by (simp add: update_text_def)
  have z: "zyx_field (CJ cJSON_Number [] None 1 1 (Some ''zyx_t''))"
    "\<not> zyx_field (CJ cJSON_String [] (Some ''on'') 0 0 (Some ''switch''))"
    by (simp_all add: zyx_field_def)
  have c: "c_tolower (CHR ''z'') = CHR ''z''" "c_tolower (CHR ''s'') = CHR ''s''" by code_simp+
  from server_update_reaches_mcu [OF n update_text_parsed, of "CJ cJSON_String [] (Some ''9'') 0 0 (Some ''sequence'')" "''9''"
      update_params demo_tr_env "demo_trans DEVICE_MODE_WORK_NORMAL" "[]"] demo_queue_rep
  show ?thesis
    by (simp add: cJSON_GetObjectItem_def update_params_def c_tolower_def folded_def z demo_tr_env_def)
qed

end
