(* ===== verification/Param.thy ===== *)
theory Param
  imports FlashStore
begin

text \<open>
  The parameter block of the firmware, \<open>IoTgoFlashParam\<close> of \<open>app/include/iotgo_type.h\<close>, and the bytes
  of it that \<open>FlashStore\<close> keeps.  Texts are arrays of a fixed size, as in the code; the gaps the
  compiler leaves between fields are zero.
\<close>

subsection \<open>Numbers and texts as bytes\<close>

definition u32_bytes :: "nat \<Rightarrow> bytes" where
  "u32_bytes n = map word_of_nat [n mod 256, n div 256 mod 256, n div 65536 mod 256, n div 16777216 mod 256]"

definition bytes_u32 :: "bytes \<Rightarrow> nat" where
  "bytes_u32 b = unat (b ! 0) + 256 * unat (b ! 1) + 65536 * unat (b ! 2) + 16777216 * unat (b ! 3)"

lemma base_256:
  "n = q1 * 256 + r0 \<Longrightarrow> q1 = q2 * 256 + r1 \<Longrightarrow> q2 = q3 * 256 + r2 \<Longrightarrow>
   n = r0 + 256 * r1 + 65536 * r2 + 16777216 * (q3 :: nat)"
  by simp

lemma u32_bytes_back: "n < 2 ^ 32 \<Longrightarrow> bytes_u32 (u32_bytes n @ rest) = n"
proof -
  assume n: "n < 2 ^ 32"
  have u: "unat (word_of_nat k :: u8) = k" if "k < 256" for k using that by (simp add: unat_of_nat)
  have "n div 16777216 < 256" using n by (simp add: less_mult_imp_div_less)
  then have "unat (word_of_nat (n div 16777216) :: u8) = n div 16777216" "n div 16777216 mod 256 = n div 16777216" by (simp_all add: u)
  moreover have "n = n mod 256 + 256 * (n div 256 mod 256) + 65536 * (n div 65536 mod 256) + 16777216 * (n div 16777216)"
  proof -
    have "n div 65536 = n div 256 div 256" "n div 16777216 = n div 256 div 256 div 256" by (simp_all flip: div_mult2_eq)
    then show ?thesis
      using base_256 [of n "n div 256" "n mod 256" "n div 256 div 256" "n div 256 mod 256" "n div 256 div 256 div 256"
          "n div 256 div 256 mod 256"] by (simp only: div_mult_mod_eq)
  qed
  ultimately show ?thesis by (simp add: bytes_u32_def u32_bytes_def u)
qed

lemma u32_length [simp]: "length (u32_bytes n) = 4"
  by (simp add: u32_bytes_def)

text \<open>A text copied into a zeroed array.\<close>

definition text_array :: "nat \<Rightarrow> string \<Rightarrow> bytes" where
  "text_array n v = take n (bytes_of v @ replicate n 0)"

lemma text_array_length [simp]: "length (text_array n v) = n"
  by (simp add: text_array_def)

subsection \<open>The block\<close>

record station_config =
  sta_ssid :: bytes
  sta_password :: bytes
  sta_bssid :: bytes \<comment> \<open>\<open>bssid_set\<close> and \<open>bssid\<close>\<close>

record FactoryData =
  fd_device_model :: bytes
  fd_deviceid :: bytes
  fd_factory_apikey :: bytes
  fd_sta_mac :: bytes
  fd_sap_mac :: bytes

record softap_config =
  ap_ssid :: bytes
  ap_password :: bytes
  ap_ssid_len :: u8
  ap_channel :: u8
  ap_authmode :: nat
  ap_ssid_hidden :: u8
  ap_max_connection :: u8
  ap_beacon_interval :: bytes

record IoTgoFlashParam =
  fp_sta_config :: station_config
  fp_factory_data :: FactoryData
  fp_sap_ip_info :: "bytes \<times> bytes \<times> bytes" \<comment> \<open>address, netmask, gateway\<close>
  fp_sap_config :: softap_config
  fp_flashed_magic_number :: nat
  fp_distributor_host :: bytes
  fp_distributor_port :: nat \<comment> \<open>the bits of an \<open>int32\<close>\<close>
  fp_distributor_last_ip :: nat
  fp_new_bin_info :: bytes
  fp_pad :: nat

text \<open>\<open>IoTgoNewBinInfo\<close>, which only the upgrade looks into, is 100 bytes.\<close>

definition param_sizes :: "nat list" where
  "param_sizes = [32, 64, 7, 21, 11, 37, 6, 6, 4, 4, 4, 32, 64, 1, 1, 2, 4, 1, 1, 2, 4, 51, 1, 4, 4, 100, 4]"

definition param_fields :: "IoTgoFlashParam \<Rightarrow> bytes list" where
  "param_fields p =
     (let s = fp_sta_config p; f = fp_factory_data p; (ip, mask, gw) = fp_sap_ip_info p; a = fp_sap_config p
      in [sta_ssid s, sta_password s, sta_bssid s,
          fd_device_model f, fd_deviceid f, fd_factory_apikey f, fd_sta_mac f, fd_sap_mac f,
          ip, mask, gw,
          ap_ssid a, ap_password a, [ap_ssid_len a], [ap_channel a], [0, 0], u32_bytes (ap_authmode a),
          [ap_ssid_hidden a], [ap_max_connection a], ap_beacon_interval a,
          u32_bytes (fp_flashed_magic_number p), fp_distributor_host p, [0], u32_bytes (fp_distributor_port p),
          u32_bytes (fp_distributor_last_ip p), fp_new_bin_info p, u32_bytes (fp_pad p)])"

fun chop :: "nat list \<Rightarrow> 'a list \<Rightarrow> 'a list list" where
  "chop [] xs = []"
| "chop (n # ns) xs = take n xs # chop ns (drop n xs)"

definition param_of_fields :: "bytes list \<Rightarrow> IoTgoFlashParam" where
  "param_of_fields x =
     \<lparr>fp_sta_config = \<lparr>sta_ssid = x ! 0, sta_password = x ! 1, sta_bssid = x ! 2\<rparr>,
      fp_factory_data = \<lparr>fd_device_model = x ! 3, fd_deviceid = x ! 4, fd_factory_apikey = x ! 5, fd_sta_mac = x ! 6, fd_sap_mac = x ! 7\<rparr>,
      fp_sap_ip_info = (x ! 8, x ! 9, x ! 10),
      fp_sap_config = \<lparr>ap_ssid = x ! 11, ap_password = x ! 12, ap_ssid_len = hd (x ! 13), ap_channel = hd (x ! 14),
        ap_authmode = bytes_u32 (x ! 16), ap_ssid_hidden = hd (x ! 17), ap_max_connection = hd (x ! 18), ap_beacon_interval = x ! 19\<rparr>,
      fp_flashed_magic_number = bytes_u32 (x ! 20), fp_distributor_host = x ! 21, fp_distributor_port = bytes_u32 (x ! 23),
      fp_distributor_last_ip = bytes_u32 (x ! 24), fp_new_bin_info = x ! 25, fp_pad = bytes_u32 (x ! 26)\<rparr>"

definition param_bytes :: "IoTgoFlashParam \<Rightarrow> bytes" where
  "param_bytes p = concat (param_fields p)"

definition param_of_bytes :: "bytes \<Rightarrow> IoTgoFlashParam" where
  "param_of_bytes b = param_of_fields (chop param_sizes b)"

definition param_size :: nat where
  "param_size = 472"

text \<open>What the types of the code enforce.\<close>

definition param_ok :: "IoTgoFlashParam \<Rightarrow> bool" where
  "param_ok p \<longleftrightarrow> map length (param_fields p) = param_sizes
     \<and> ap_authmode (fp_sap_config p) < 2 ^ 32 \<and> fp_flashed_magic_number p < 2 ^ 32 \<and> fp_distributor_port p < 2 ^ 32
     \<and> fp_distributor_last_ip p < 2 ^ 32 \<and> fp_pad p < 2 ^ 32"

lemma chop_concat: "map length xs = ns \<Longrightarrow> chop ns (concat xs) = xs"
  by (induction xs arbitrary: ns) auto

lemma chop_length: "sum_list ns \<le> length b \<Longrightarrow> map length (chop ns b) = ns"
  by (induction ns arbitrary: b) auto

lemma param_fields_back: "param_ok p \<Longrightarrow> param_of_fields (param_fields p) = p"
  by (cases p; cases "fp_sta_config p"; cases "fp_factory_data p"; cases "fp_sap_config p")
    (auto simp: param_fields_def param_of_fields_def param_ok_def Let_def u32_bytes_back [where rest = "[]", simplified]
      split: prod.splits)

lemma param_bytes_back: "param_ok p \<Longrightarrow> param_of_bytes (param_bytes p) = p"
  by (simp add: param_of_bytes_def param_bytes_def param_ok_def [of p] chop_concat)
    (simp add: param_fields_back param_ok_def)

lemma param_bytes_length: "param_ok p \<Longrightarrow> length (param_bytes p) = param_size"
  by (simp add: param_bytes_def param_ok_def length_concat) (simp add: param_sizes_def param_size_def)

subsection \<open>The block in flash\<close>

definition load_param :: "'f spi \<Rightarrow> 'f \<Rightarrow> IoTgoFlashParam" where
  "load_param fl f = param_of_bytes (iotgoFlashLoadParam fl param_size f)"

definition save_param :: "'f spi \<Rightarrow> IoTgoFlashParam \<Rightarrow> 'f \<Rightarrow> 'f" where
  "save_param fl p f = iotgoFlashSaveParam fl (param_bytes p) f"

lemma param_saved:
  assumes "spi_ok fl er" "param_ok p"
  shows "load_param fl (save_param fl p f) = p"
proof -
  have "length (param_bytes p) \<le> SPI_FLASH_SEC_SIZE"
    by (simp add: param_bytes_length [OF assms(2)] param_size_def SPI_FLASH_SEC_SIZE_def)
  from save_copy_complete [OF assms(1) this] show ?thesis
    by (simp add: load_param_def save_param_def iotgoFlashLoadParam_def iotgoFlashSaveParam_def
        param_bytes_length [OF assms(2)] param_bytes_back [OF assms(2)])
qed

text \<open>Writing other sectors leaves the block alone.\<close>

definition param_sectors :: "nat set" where
  "param_sectors = {IOTGO_PARAM_START_SEC, IOTGO_PARAM_START_SEC + 1, IOTGO_PARAM_START_SEC + 2}"

lemma load_param_same:
  assumes "\<And>k n. k \<in> param_sectors \<Longrightarrow> spi_read fl k n g = spi_read fl k n f"
  shows "load_param fl g = load_param fl f"
  using assms by (simp add: load_param_def iotgoFlashLoadParam_def load_copy_def param_sectors_def Let_def)

end
