(* ===== verification/Switch.thy ===== *)
theory Switch
  imports Pconn LocTimer Param
begin

text \<open>
  The switch, \<open>app/device/FWSW_01.c\<close>, the other device this firmware is built for: the state of its
  relay and its configuration, and the timers the server sets.  The timers are those of
  \<open>TimerSched\<close>, with the state of the device as their environment; a message of the server is the
  list of tokens the SDK yields for it.
\<close>

subsection \<open>State\<close>

text \<open>Four \<open>uint32\<close> in flash; \<open>0xFFFFFFFF\<close> in all of them is the erased sector.\<close>

record swConfig =
  sc_startup :: nat
  sc_latest_switch_state :: nat
  sc_repower_times :: nat
  sc_reserved :: nat

definition ITDB04_CONFIG_STARTUP_OFF :: nat where "ITDB04_CONFIG_STARTUP_OFF = 0"
definition ITDB04_CONFIG_STARTUP_ON :: nat where "ITDB04_CONFIG_STARTUP_ON = 1"
definition ITDB04_CONFIG_STARTUP_STAY :: nat where "ITDB04_CONFIG_STARTUP_STAY = 2"

definition SWITCH_OFF :: nat where "SWITCH_OFF = 0"
definition SWITCH_ON :: nat where "SWITCH_ON = 1"

text \<open>\<open>relay\<close> is the level of the output pin, \<open>json_starup_value\<close> and \<open>json_sta_mac\<close> the texts reported.\<close>

record 'f sw_device =
  sw_conn :: pconn
  sw_flash :: 'f
  itdb04_config :: swConfig
  switch_state :: nat
  relay :: nat
  json_starup_value :: string
  json_sta_mac :: string
  sw_pressed_level_counter :: nat
  sw_released_level_counter :: nat
  sw_long_press_processed :: bool
  sw_key_interrupt :: bool
  sw_key_isr_timer :: os_timer
  first_updated_flag :: bool
  itdb04_repower_times_timer :: os_timer

type_synonym 'f sw = "'f sw_device sched"

text \<open>
  The environment: that of the connection, the flash chip, the tokenizer, the allocator of the
  timers, the contents of an uninitialised time object, and the MAC address as a text.
\<close>

record 'f sw_env =
  sw_pconn :: pconn_env
  sw_spi :: "'f spi"
  sw_toks :: "string \<Rightarrow> jtok list"
  sw_malloc :: "nat \<Rightarrow> bool"
  sw_junk :: IoTgoTimeObject
  sw_mac :: string

definition on_sw :: "('f sw_device \<Rightarrow> 'f sw_device) \<Rightarrow> 'f sw \<Rightarrow> 'f sw" where
  "on_sw f s = s\<lparr>env := f (env s)\<rparr>"

definition sw_mode :: "'f sw_device \<Rightarrow> IoTgoDeviceMode" where
  "sw_mode s = iotgoDeviceMode (pc_net (sw_conn s))"

definition sw_post_core :: "IoTgoSignalSet \<Rightarrow> 'f sw_device \<Rightarrow> 'f sw_device" where
  "sw_post_core m s = s\<lparr>sw_conn := on_net (post_core m 0) (sw_conn s)\<rparr>"

definition sw_post_device :: "IoTgoSignalSet \<Rightarrow> 'f sw_device \<Rightarrow> 'f sw_device" where
  "sw_post_device m s = s\<lparr>sw_conn := on_net (post_device m 0) (sw_conn s)\<rparr>"

subsection \<open>The configuration in flash\<close>

definition sw_config_size :: nat where "sw_config_size = 16"

definition sw_config_bytes :: "swConfig \<Rightarrow> bytes" where
  "sw_config_bytes c =
     u32_bytes (sc_startup c) @ u32_bytes (sc_latest_switch_state c) @ u32_bytes (sc_repower_times c) @ u32_bytes (sc_reserved c)"

definition sw_config_of_bytes :: "bytes \<Rightarrow> swConfig" where
  "sw_config_of_bytes b =
     \<lparr>sc_startup = bytes_u32 b, sc_latest_switch_state = bytes_u32 (drop 4 b),
      sc_repower_times = bytes_u32 (drop 8 b), sc_reserved = bytes_u32 (drop 12 b)\<rparr>"

definition sw_save :: "'f sw_env \<Rightarrow> 'f sw_device \<Rightarrow> 'f sw_device" where
  "sw_save ev s = s\<lparr>sw_flash := devSaveConfigToFlash (sw_spi ev) (sw_config_bytes (itdb04_config s)) sw_config_size (sw_flash s)\<rparr>"

definition sw_load :: "'f sw_env \<Rightarrow> 'f sw_device \<Rightarrow> 'f sw_device" where
  "sw_load ev s = s\<lparr>itdb04_config := sw_config_of_bytes (devLoadConfigFromFlash (sw_spi ev) sw_config_size (sw_flash s))\<rparr>"

subsection \<open>The relay\<close>

definition switch_to :: "nat \<Rightarrow> 'f sw_env \<Rightarrow> 'f sw_device \<Rightarrow> 'f sw_device" where
  "switch_to v ev s =
     sw_save ev (s\<lparr>relay := v, switch_state := v, itdb04_config := (itdb04_config s)\<lparr>sc_latest_switch_state := v\<rparr>\<rparr>)"

definition switchON :: "'f sw_env \<Rightarrow> 'f sw_device \<Rightarrow> 'f sw_device" where
  "switchON ev s = switch_to SWITCH_ON ev s"

definition switchOFF :: "'f sw_env \<Rightarrow> 'f sw_device \<Rightarrow> 'f sw_device" where
  "switchOFF ev s = switch_to SWITCH_OFF ev s"

definition sw_action :: "'f sw_env \<Rightarrow> bytes option \<Rightarrow> 'f sw_device \<Rightarrow> 'f sw_device" where
  "sw_action ev p s =
     (case p of
        None \<Rightarrow> s
      | Some v \<Rightarrow>
          sw_post_device SIG_DEVICE_UPDATE_BY_TIMER
            (if str_of v = ''on'' then switchON ev s else if str_of v = ''off'' then switchOFF ev s else s))"

text \<open>\<open>switchActionCallback\<close>, the only function the timers of this device call; it has the number 0.\<close>

definition SWITCH_ACTION :: nat where "SWITCH_ACTION = 0"

definition sw_call :: "'f sw_env \<Rightarrow> 'f sw_device caller" where
  "sw_call ev f p s = (if f = SWITCH_ACTION then Some (on_sw (sw_action ev p) s) else None)"

subsection \<open>The text of a periodic timer\<close>

text \<open>A field is copied into an array of 30 characters whatever its length.\<close>

definition sw_parseFromATString :: "string \<Rightarrow> nat \<times> nat \<Rightarrow> (bool \<times> string \<times> nat \<times> nat) option" where
  "sw_parseFromATString at_str iv =
     (let str_len = to_u8 (int (length at_str)) in
      if str_len \<le> 24 then Some (False, [], iv)
      else (case c_strstr at_str '' '' of
              None \<Rightarrow> Some (False, [], iv)
            | Some n \<Rightarrow>
                if n = 0 then Some (False, [], iv)
                else do {
                  gmt \<leftarrow> copy_field (int n) at_str;
                  let p = drop (n + 1) at_str;
                  case c_strstr p '' '' of
                    None \<Rightarrow> do {
                      b \<leftarrow> copy_field (int str_len - int (n + 1)) p;
                      v \<leftarrow> atoi b;
                      Some (True, gmt, to_u32 v, 0)
                    }
                  | Some k \<Rightarrow> do {
                      b \<leftarrow> copy_field (int k) p;
                      v \<leftarrow> atoi b;
                      b \<leftarrow> copy_field (int str_len - int (n + 1 + k + 1)) (drop (k + 1) p);
                      w \<leftarrow> atoi b;
                      Some (True, gmt, to_u32 v, to_u32 w)
                    }
                }))"

subsection \<open>The fields of a timer\<close>

text \<open>A value is there when the flag of the source is set.\<close>

record timer_fields =
  tf_enabled :: "int option"
  tf_type :: "string option"
  tf_at :: "string option"
  tf_do :: "string option"
  tf_start_do :: "string option"
  tf_end_do :: "string option"

definition no_timer :: timer_fields where
  "no_timer = \<lparr>tf_enabled = None, tf_type = None, tf_at = None, tf_do = None, tf_start_do = None, tf_end_do = None\<rparr>"

lemma next_less: "jt_type (fst (jsonparse_next ts)) \<noteq> JSON_TYPE_ERROR \<Longrightarrow> length (snd (jsonparse_next ts)) < length ts"
  by (cases "jsonparse_next ts") (auto dest: jsonparse_next_shorter(2))

lemma next_le: "length (snd (jsonparse_next ts)) \<le> length ts"
  by (cases "jsonparse_next ts") (auto dest: jsonparse_next_shorter(1))

lemma number_le: "length (snd (jsonIoTgoGetNumber ts)) \<le> length ts"
  by (cases "jsonIoTgoGetNumber ts") (auto dest: get_shorter)

lemma string_le: "length (snd (jsonIoTgoGetString n ts)) \<le> length ts"
  by (cases "jsonIoTgoGetString n ts") (auto dest: get_shorter)

text \<open>The member \<open>switch\<close> of an object; a value of the wrong type ends the loop.\<close>

function do_loop :: "jtok list \<Rightarrow> string option \<Rightarrow> string option \<times> jtok list" where
  "do_loop ts v =
     (let t = fst (jsonparse_next ts); us = snd (jsonparse_next ts); w = jsonIoTgoGetString 10 us
      in if jt_type t = CHR ''}'' \<or> jt_type t = JSON_TYPE_ERROR then (v, us)
         else if jt_type t \<noteq> JSON_TYPE_PAIR_NAME then do_loop us v
         else if jt_value t = ''switch'' then
           (case fst w of None \<Rightarrow> (v, snd w) | Some x \<Rightarrow> do_loop (snd w) (Some x))
         else do_loop us v)"
  by pat_completeness auto

termination
  by (relation "measure (length \<circ> fst)") (auto intro: next_less le_less_trans [OF string_le next_less])

declare do_loop.simps [simp del]

definition do_object :: "jtok list \<Rightarrow> string option \<Rightarrow> string option \<times> jtok list" where
  "do_object ts v =
     (let (t1, ts) = jsonparse_next ts; (t2, ts) = jsonparse_next ts
      in if jt_type t1 = JSON_TYPE_PAIR \<and> jt_type t2 = JSON_TYPE_OBJECT then do_loop ts v else (v, ts))"

lemma do_loop_le: "length (snd (do_loop ts v)) \<le> length ts"
proof (induction ts v rule: do_loop.induct)
  case (1 ts v)
  let ?t = "fst (jsonparse_next ts)" and ?us = "snd (jsonparse_next ts)"
  have us: "length ?us \<le> length ts" by (cases "jsonparse_next ts") (auto dest: jsonparse_next_shorter(1))
  have w: "length (snd (jsonIoTgoGetString 10 ?us)) \<le> length ?us" by (rule string_le)
  consider (stop) "jt_type ?t = CHR ''}'' \<or> jt_type ?t = JSON_TYPE_ERROR"
    | (other) "\<not> (jt_type ?t = CHR ''}'' \<or> jt_type ?t = JSON_TYPE_ERROR)"
        "jt_type ?t \<noteq> JSON_TYPE_PAIR_NAME \<or> jt_value ?t \<noteq> ''switch''"
    | (sw) "\<not> (jt_type ?t = CHR ''}'' \<or> jt_type ?t = JSON_TYPE_ERROR)"
        "jt_type ?t = JSON_TYPE_PAIR_NAME" "jt_value ?t = ''switch''"
    by blast
  then show ?case
  proof cases
    case stop
    with us show ?thesis by (simp add: do_loop.simps [of ts] Let_def)
  next
    case other
    then have "do_loop ts v = do_loop ?us v" by (auto simp: do_loop.simps [of ts] Let_def)
    with other 1(1,3) [OF refl refl refl] us show ?thesis by (metis order_trans)
  next
    case sw
    then have "do_loop ts v = (case fst (jsonIoTgoGetString 10 ?us) of None \<Rightarrow> (v, snd (jsonIoTgoGetString 10 ?us))
        | Some x \<Rightarrow> do_loop (snd (jsonIoTgoGetString 10 ?us)) (Some x))"
      by (simp add: do_loop.simps [of ts v] Let_def)
    with 1(2) [OF refl refl refl sw(1) _ sw(3)] sw(2) us w show ?thesis
      by (auto split: option.split intro: order_trans)
  qed
qed

lemma do_object_le: "length (snd (do_object ts v)) \<le> length ts"
proof -
  have "length (snd (jsonparse_next (snd (jsonparse_next ts)))) \<le> length ts" by (rule order_trans [OF next_le next_le])
  then show ?thesis
    using do_loop_le [of "snd (jsonparse_next (snd (jsonparse_next ts)))" v]
    by (auto simp: do_object_def case_prod_beta Let_def)
qed

text \<open>What one name of a timer does; \<open>None\<close> where the loop is left.\<close>

definition timer_value :: "jtok \<Rightarrow> jtok list \<Rightarrow> timer_fields \<Rightarrow> timer_fields option \<times> jtok list" where
  "timer_value t ts f =
     (if jt_type t \<noteq> JSON_TYPE_PAIR_NAME then (Some f, ts)
      else if jt_value t = ''enabled'' then
        map_prod (map_option (\<lambda>x. f\<lparr>tf_enabled := Some x\<rparr>)) (\<lambda>us. us) (jsonIoTgoGetNumber ts)
      else if jt_value t = ''type'' then
        map_prod (map_option (\<lambda>x. f\<lparr>tf_type := Some x\<rparr>)) (\<lambda>us. us) (jsonIoTgoGetString 10 ts)
      else if jt_value t = ''at'' then
        map_prod (map_option (\<lambda>x. f\<lparr>tf_at := Some x\<rparr>)) (\<lambda>us. us) (jsonIoTgoGetString 50 ts)
      else if jt_value t = ''do'' then map_prod (\<lambda>v. Some (f\<lparr>tf_do := v\<rparr>)) (\<lambda>us. us) (do_object ts (tf_do f))
      else if jt_value t = ''startDo'' then
        map_prod (\<lambda>v. Some (f\<lparr>tf_start_do := v\<rparr>)) (\<lambda>us. us) (do_object ts (tf_start_do f))
      else if jt_value t = ''endDo'' then
        map_prod (\<lambda>v. Some (f\<lparr>tf_end_do := v\<rparr>)) (\<lambda>us. us) (do_object ts (tf_end_do f))
      else (Some f, ts))"

lemma timer_value_le: "length (snd (timer_value t ts f)) \<le> length ts"
  using do_object_le [of ts] string_le [of _ ts] number_le [of ts] by (simp add: timer_value_def)

definition fields_complete :: "timer_fields \<Rightarrow> bool" where
  "fields_complete f \<longleftrightarrow> tf_enabled f \<noteq> None \<and> tf_type f \<noteq> None \<and> tf_at f \<noteq> None
     \<and> (tf_do f \<noteq> None \<or> (tf_start_do f \<noteq> None \<and> tf_end_do f \<noteq> None))"

function timer_loop :: "jtok list \<Rightarrow> timer_fields \<Rightarrow> timer_fields \<times> jtok list" where
  "timer_loop ts f =
     (let t = fst (jsonparse_next ts); us = snd (jsonparse_next ts); w = timer_value t us f
      in if fields_complete f then (f, ts)
         else if jt_type t = CHR '']'' \<or> jt_type t = JSON_TYPE_ERROR then (f, us)
         else (case fst w of None \<Rightarrow> (f, snd w) | Some g \<Rightarrow> timer_loop (snd w) g))"
  by pat_completeness auto

termination
  by (relation "measure (length \<circ> fst)") (auto intro: le_less_trans [OF timer_value_le next_less])

declare timer_loop.simps [simp del]

lemma timer_loop_le: "length (snd (timer_loop ts f)) \<le> length ts"
proof (induction ts f rule: timer_loop.induct)
  case (1 ts f)
  let ?t = "fst (jsonparse_next ts)" and ?us = "snd (jsonparse_next ts)"
  let ?w = "timer_value ?t ?us f"
  have le: "length (snd ?w) \<le> length ts" by (rule order_trans [OF timer_value_le next_le])
  show ?case
  proof (cases "fields_complete f \<or> jt_type ?t = CHR '']'' \<or> jt_type ?t = JSON_TYPE_ERROR \<or> fst ?w = None")
    case True
    with le next_le [of ts] show ?thesis by (auto simp: timer_loop.simps [of ts f] Let_def)
  next
    case False
    then obtain g where g: "fst ?w = Some g" by auto
    with False have "timer_loop ts f = timer_loop (snd ?w) g" by (simp add: timer_loop.simps [of ts f] Let_def)
    with 1 [OF refl refl refl _ _ g] False le show ?thesis by simp
  qed
qed

subsection \<open>Setting timers\<close>

definition add_switch_timer :: "'f sw_env \<Rightarrow> timer_fields \<Rightarrow> 'f sw \<Rightarrow> (bool \<times> 'f sw) option" where
  "add_switch_timer ev f s =
     (case (tf_enabled f, tf_type f, tf_at f) of
        (Some en, Some ty, Some att) \<Rightarrow>
          (let en = (en \<noteq> 0); text = (\<lambda>v. case v of None \<Rightarrow> [] | Some x \<Rightarrow> x);
               d = text (tf_do f); d1 = text (tf_start_do f); d2 = text (tf_end_do f); cb = Some SWITCH_ACTION
           in if tf_do f = None \<and> tf_start_do f = None \<and> tf_end_do f = None then Some (False, stopTimerMonitor s)
              else if ty = ''once'' then
                map_option (\<lambda>(_, s). (True, s))
                  (addTimeObjectByGMTString (sw_malloc ev) (sw_junk ev) en (Some att) cb (bytes_of d) (length d) s)
              else if ty = ''repeat'' then
                map_option (\<lambda>(_, s). (True, s))
                  (addTimeObjectByCronString (sw_malloc ev) (sw_junk ev) en (Some att) cb (bytes_of d) (length d) s)
              else if ty = ''duration'' then
                do {
                  (ok, gmt, interval, duration) \<leftarrow> sw_parseFromATString att (0, 0);
                  if \<not> ok then Some (False, s)
                  else if duration \<le> 0 \<and> interval > 0 \<and> tf_do f \<noteq> None then
                    map_option (\<lambda>(_, s). (True, s))
                      (addTimeObjectInterval (sw_malloc ev) (sw_junk ev) en (Some gmt) interval cb (bytes_of d) (length d) s)
                  else if duration > 0 \<and> interval > duration then
                    (if tf_do f \<noteq> None then
                       map_option (\<lambda>(_, s). (True, s))
                         (addTimeObjectIntervalDuration (sw_malloc ev) (sw_junk ev) en (Some gmt) interval duration cb
                           (bytes_of d) (length d) s)
                     else if tf_start_do f \<noteq> None \<and> tf_end_do f \<noteq> None then
                       map_option (\<lambda>(_, s). (True, s))
                         (addTimeObjectDurationStartEnd (sw_malloc ev) (sw_junk ev) en (Some gmt) interval duration
                           cb (bytes_of d1) (length d1) cb (bytes_of d2) (length d2) s)
                     else None)
                  else Some (False, s)
                }
              else None)
      | _ \<Rightarrow> Some (False, stopTimerMonitor s))"

end
