(* ===== verification/SwitchMsg.thy ===== *)
theory SwitchMsg
  imports Switch
begin

text \<open>
  The messages of the switch, \<open>app/device/FWSW_01.c\<close>: the timers in a message, what the server asks
  and answers, the device task, the key and the start.  Allocating the state of the tokenizer is
  taken to succeed.
\<close>

subsection \<open>The timers in a message\<close>

text \<open>The function \<open>procOneTimer\<close>: the fields are read from the tokens, then the timer is set.\<close>

definition procOneTimer :: "'f sw_env \<Rightarrow> jtok list \<Rightarrow> 'f sw \<Rightarrow> ((bool \<times> 'f sw) option \<times> jtok list)" where
  "procOneTimer ev ts s = (let w = timer_loop ts no_timer in (add_switch_timer ev (fst w) s, snd w))"

lemma procOneTimer_le: "length (snd (procOneTimer ev ts s)) \<le> length ts"
  by (simp add: procOneTimer_def Let_def timer_loop_le)

function timers_loop :: "'f sw_env \<Rightarrow> jtok list \<Rightarrow> 'f sw \<Rightarrow> (bool \<times> jtok list \<times> 'f sw) option" where
  "timers_loop ev ts s =
     (let t = fst (jsonparse_next ts); us = snd (jsonparse_next ts); w = procOneTimer ev us s
      in if jt_type t = CHR '']'' then Some (True, us, s)
         else if jt_type t = JSON_TYPE_ERROR then Some (False, us, s)
         else if jt_type t \<noteq> JSON_TYPE_OBJECT then timers_loop ev us s
         else (case fst w of
                 None \<Rightarrow> None
               | Some r \<Rightarrow> if fst r then timers_loop ev (snd w) (snd r) else Some (False, snd w, snd r)))"
  by pat_completeness auto

termination
  by (relation "measure (\<lambda>(_, ts, _). length ts)") (auto intro: next_less le_less_trans [OF procOneTimer_le next_less])

declare timers_loop.simps [simp del]

definition jsonIoTgoProcTimers :: "'f sw_env \<Rightarrow> jtok list \<Rightarrow> 'f sw \<Rightarrow> (bool \<times> jtok list \<times> 'f sw) option" where
  "jsonIoTgoProcTimers ev ts s =
     (let (t1, ts) = jsonparse_next ts; (t2, ts) = jsonparse_next ts
      in if jt_type t1 = JSON_TYPE_PAIR \<and> jt_type t2 = JSON_TYPE_ARRAY then timers_loop ev ts (stopTimerMonitor s)
         else if jt_type t1 = JSON_TYPE_PAIR \<and> jt_type t2 = JSON_TYPE_NUMBER then Some (True, ts, stopTimerMonitor s)
         else Some (False, ts, s))"

subsection \<open>Messages for the server\<close>

text \<open>A tree is printed into the zeroed buffer of the device, which is queued.\<close>

definition sw_queue_tree :: "'f sw_env \<Rightarrow> string \<Rightarrow> (string \<times> jsontree_value) list \<Rightarrow> 'f sw_device \<Rightarrow> 'f sw_device option" where
  "sw_queue_tree ev name pairs s =
     do {
       out \<leftarrow> json_ws_send (env_jsontree_reset (sw_pconn ev)) (env_jsontree_printed (sw_pconn ev)) (env_json_block (sw_pconn ev))
                (JtObject [(name, JtObject pairs)]) name (replicate IOTGO_JSON_BUFFER_SIZE 0);
       p \<leftarrow> pc_queue_add (Some out) IOTGO_NULL False (sw_conn s);
       Some (s\<lparr>sw_conn := p\<rparr>)
     }"

definition device_pairs :: "'f sw_device \<Rightarrow> (string \<times> jsontree_value) list" where
  "device_pairs s = [(''userAgent'', JtString ''device''), (''apikey'', JtString (dev_owner_uuid (sw_conn s))),
     (''deviceid'', JtString (dev_id (sw_conn s)))]"

definition sw_sendError0 :: "'f sw_env \<Rightarrow> 'f sw_device \<Rightarrow> 'f sw_device option" where
  "sw_sendError0 ev s =
     sw_queue_tree ev ''iotgo_tree_resp_server_error_0''
       ((''error'', JtInt 0) # device_pairs s @ [(''sequence'', JtString (server_sequence (sw_conn s)))]) s"

definition switch_text :: "'f sw_device \<Rightarrow> string" where
  "switch_text s = (if switch_state s = SWITCH_ON then ''on'' else ''off'')"

definition sw_switchUpdate :: "'f sw_env \<Rightarrow> 'f sw_device \<Rightarrow> 'f sw_device option" where
  "sw_switchUpdate ev s =
     sw_queue_tree ev ''iotgo_tree_update''
       (device_pairs s @ [(''action'', JtString ''update''), (''params'', JtObject [(''switch'', JtString (switch_text s))])]) s"

definition sw_switchUpdateWithVersion :: "'f sw_env \<Rightarrow> 'f sw_device \<Rightarrow> 'f sw_device option" where
  "sw_switchUpdateWithVersion ev s =
     sw_queue_tree ev ''iotgo_tree_update_with_version''
       (device_pairs s @ [(''action'', JtString ''update''),
          (''params'', JtObject [(''switch'', JtString (switch_text s)), (''fwVersion'', JtString (env_fm_version (sw_pconn ev))),
             (''rssi'', JtInt (json_int_rssi (pc_net (sw_conn s)))), (''staMac'', JtString (json_sta_mac s)),
             (''startup'', JtString (json_starup_value s))])]) s"

text \<open>The parameters are the constant array of the text \<open>timers\<close>.\<close>

definition sw_switchQuery :: "'f sw_env \<Rightarrow> 'f sw_device \<Rightarrow> 'f sw_device option" where
  "sw_switchQuery ev s =
     sw_queue_tree ev ''iotgo_tree_query''
       (device_pairs s @ [(''action'', JtString ''query''), (''params'', JtOther)]) s"

definition in_env :: "('f sw_device \<Rightarrow> 'f sw_device option) \<Rightarrow> 'f sw \<Rightarrow> 'f sw option" where
  "in_env f s = map_option (\<lambda>d. s\<lparr>env := d\<rparr>) (f (env s))"

subsection \<open>Answers of the server\<close>

definition sw_switchRespUpdateCallback :: "'f sw_env \<Rightarrow> string \<Rightarrow> 'f sw \<Rightarrow> 'f sw option" where
  "sw_switchRespUpdateCallback ev data s = Some (on_sw (sw_post_device SIG_DEVICE_UPDATE_OK) s)"

text \<open>Result: whether the parameters were found, whether their timers are set.\<close>

function query_loop :: "'f sw_env \<Rightarrow> jtok list \<Rightarrow> bool \<Rightarrow> 'f sw \<Rightarrow> (bool \<times> bool \<times> 'f sw) option" where
  "query_loop ev ts params s =
     (let t = fst (jsonparse_next ts); us = snd (jsonparse_next ts);
          t1 = fst (jsonparse_next us); us1 = snd (jsonparse_next us);
          t2 = fst (jsonparse_next us1); us2 = snd (jsonparse_next us1)
      in if jt_type t = JSON_TYPE_ERROR then Some (params, False, s)
         else if jt_type t \<noteq> JSON_TYPE_PAIR_NAME then query_loop ev us params s
         else if \<not> params \<and> jt_value t = ''params'' then
           (if jt_type t1 = JSON_TYPE_PAIR \<and> jt_type t2 = JSON_TYPE_OBJECT then query_loop ev us2 True s
            else if jt_type t1 = JSON_TYPE_PAIR \<and> jt_type t2 = JSON_TYPE_NUMBER then Some (True, True, stopTimerMonitor s)
            else Some (params, False, s))
         else if params \<and> jt_value t = ''timers'' then
           map_option (\<lambda>(ret, _, s). (params, ret, s)) (jsonIoTgoProcTimers ev us s)
         else query_loop ev us params s)"
  by pat_completeness auto

termination
  by (relation "measure (\<lambda>(_, ts, _). length ts)")
    (auto intro: next_less le_less_trans [OF next_le le_less_trans [OF next_le next_less]])

declare query_loop.simps [simp del]

definition sw_switchRespQueryCallback :: "'f sw_env \<Rightarrow> string \<Rightarrow> 'f sw \<Rightarrow> 'f sw option" where
  "sw_switchRespQueryCallback ev data s =
     do {
       (params, ret, s) \<leftarrow> query_loop ev (sw_toks ev data) False s;
       Some (if params \<and> ret then on_sw (sw_post_device SIG_DEVICE_QUERY_OK) (startTimerMonitor s) else s)
     }"

subsection \<open>Updates from the server\<close>

lemma timers_loop_le: "timers_loop ev ts s = Some r \<Longrightarrow> length (fst (snd r)) \<le> length ts"
proof (induction ts arbitrary: s r rule: length_induct)
  case (1 ts)
  let ?t = "fst (jsonparse_next ts)" and ?us = "snd (jsonparse_next ts)"
  have ih: "timers_loop ev vs s' = Some r' \<Longrightarrow> length vs \<le> length ?us \<Longrightarrow> jt_type ?t \<noteq> JSON_TYPE_ERROR \<Longrightarrow>
      length (fst (snd r')) \<le> length ts" for vs s' r'
    using 1(1) next_less [of ts] by (metis le_less_trans less_imp_le order_trans)
  from 1(2) next_le [of ts] order_trans [OF procOneTimer_le next_le, of ev ts s] show ?case
    unfolding timers_loop.simps [of ev ts s] Let_def
    by (auto split: if_split_asm option.split_asm dest: ih [OF _ order_refl] ih [OF _ procOneTimer_le])
qed

lemma proc_timers_le:
  assumes "jsonIoTgoProcTimers ev ts s = Some r"
  shows "length (fst (snd r)) \<le> length ts"
proof -
  have "length (snd (jsonparse_next (snd (jsonparse_next ts)))) \<le> length ts" by (rule order_trans [OF next_le next_le])
  with assms show ?thesis
    by (cases r) (auto simp: jsonIoTgoProcTimers_def case_prod_beta Let_def split: if_split_asm dest!: timers_loop_le)
qed

text \<open>A value is there when its flag is set; \<open>su_timers\<close> is the result for the timers that were found.\<close>

record sw_update =
  su_sequence :: "string option"
  su_params :: bool
  su_switch :: "string option"
  su_timers :: "bool option"
  su_startup :: "string option"

text \<open>The members of the parameters, up to a closing brace or a value of the wrong type.\<close>

function params_loop :: "'f sw_env \<Rightarrow> jtok list \<Rightarrow> sw_update \<Rightarrow> 'f sw \<Rightarrow> (sw_update \<times> jtok list \<times> 'f sw) option" where
  "params_loop ev ts u s =
     (let t = fst (jsonparse_next ts); us = snd (jsonparse_next ts); w = jsonIoTgoGetString 10 us
      in if jt_type t = CHR ''}'' \<or> jt_type t = JSON_TYPE_ERROR then Some (u, us, s)
         else if jt_type t \<noteq> JSON_TYPE_PAIR_NAME then params_loop ev us u s
         else if jt_value t = ''switch'' then
           (case fst w of
              None \<Rightarrow> Some (u, snd w, s)
            | Some x \<Rightarrow> params_loop ev (snd w) (u\<lparr>su_switch := Some x\<rparr>) s)
         else if jt_value t = ''timers'' then
           (case jsonIoTgoProcTimers ev us s of
              None \<Rightarrow> None
            | Some r \<Rightarrow>
                if fst r then params_loop ev (fst (snd r)) (u\<lparr>su_timers := Some True\<rparr>) (snd (snd r))
                else Some (u\<lparr>su_timers := Some False\<rparr>, snd r))
         else if jt_value t = ''startup'' then
           (case fst w of
              None \<Rightarrow> Some (u, snd w, s)
            | Some x \<Rightarrow> params_loop ev (snd w) (u\<lparr>su_startup := Some x\<rparr>) s)
         else params_loop ev us u s)"
  by pat_completeness auto

termination
  by (relation "measure (\<lambda>(_, ts, _). length ts)")
    (auto intro: next_less le_less_trans [OF string_le next_less] le_less_trans [OF proc_timers_le next_less])

declare params_loop.simps [simp del]

lemma params_loop_le: "params_loop ev ts u s = Some r \<Longrightarrow> length (fst (snd r)) \<le> length ts"
proof (induction ts arbitrary: u s r rule: length_induct)
  case (1 ts)
  let ?t = "fst (jsonparse_next ts)" and ?us = "snd (jsonparse_next ts)"
  have ih: "params_loop ev vs u' s' = Some r' \<Longrightarrow> length vs \<le> length ?us \<Longrightarrow> jt_type ?t \<noteq> JSON_TYPE_ERROR \<Longrightarrow>
      length (fst (snd r')) \<le> length ts" for vs u' s' r'
    using 1(1) next_less [of ts] by (metis le_less_trans less_imp_le order_trans)
  from 1(2) next_le [of ts] order_trans [OF string_le next_le, of 10 ts] show ?case
    unfolding params_loop.simps [of ev ts u s] Let_def
    by (auto split: if_split_asm option.split_asm dest: ih [OF _ order_refl] ih [OF _ string_le] ih [OF _ proc_timers_le]
        order_trans [OF proc_timers_le next_le])
qed

text \<open>The whole message; a value of the wrong type ends it.\<close>

function update_loop :: "'f sw_env \<Rightarrow> jtok list \<Rightarrow> sw_update \<Rightarrow> 'f sw \<Rightarrow> (sw_update \<times> 'f sw) option" where
  "update_loop ev ts u s =
     (let t = fst (jsonparse_next ts); us = snd (jsonparse_next ts); w = jsonIoTgoGetString 30 us;
          t1 = fst (jsonparse_next us); us1 = snd (jsonparse_next us);
          t2 = fst (jsonparse_next us1); us2 = snd (jsonparse_next us1)
      in if jt_type t = JSON_TYPE_ERROR then Some (u, s)
         else if jt_type t \<noteq> JSON_TYPE_PAIR_NAME then update_loop ev us u s
         else if su_sequence u = None \<and> jt_value t = ''sequence'' then
           (case fst w of None \<Rightarrow> Some (u, s) | Some x \<Rightarrow> update_loop ev (snd w) (u\<lparr>su_sequence := Some x\<rparr>) s)
         else if \<not> su_params u \<and> jt_value t = ''params'' then
           (if jt_type t1 = JSON_TYPE_PAIR \<and> jt_type t2 = JSON_TYPE_OBJECT then
              (case params_loop ev us2 (u\<lparr>su_params := True\<rparr>) s of
                 None \<Rightarrow> None
               | Some r \<Rightarrow> update_loop ev (fst (snd r)) (fst r) (snd (snd r)))
            else Some (u, s))
         else update_loop ev us u s)"
  by pat_completeness auto

termination
  by (relation "measure (\<lambda>(_, ts, _). length ts)")
    (auto intro: next_less le_less_trans [OF string_le next_less]
      le_less_trans [OF order_trans [OF params_loop_le order_trans [OF next_le next_le]] next_less])

declare update_loop.simps [simp del]

text \<open>What is done with the fields.  Anything but \<open>on\<close> switches the relay off.\<close>

definition apply_startup :: "'f sw_env \<Rightarrow> string \<Rightarrow> 'f sw_device \<Rightarrow> 'f sw_device" where
  "apply_startup ev v s =
     (let set = (\<lambda>m. sw_save ev (s\<lparr>itdb04_config := (itdb04_config s)\<lparr>sc_startup := m\<rparr>, json_starup_value := v\<rparr>))
      in if v = ''on'' then set ITDB04_CONFIG_STARTUP_ON
         else if v = ''off'' then set ITDB04_CONFIG_STARTUP_OFF
         else if v = ''stay'' then set ITDB04_CONFIG_STARTUP_STAY
         else s)"

definition apply_update :: "'f sw_env \<Rightarrow> sw_update \<Rightarrow> 'f sw \<Rightarrow> 'f sw" where
  "apply_update ev u s =
     (let s = (case su_switch u of
                 None \<Rightarrow> s
               | Some v \<Rightarrow> on_sw (if v = ''on'' then switchON ev else switchOFF ev) s);
          s = (if su_timers u = Some True then startTimerMonitor s else s);
          s = (case su_startup u of None \<Rightarrow> s | Some v \<Rightarrow> on_sw (apply_startup ev v) s);
          seq = (case su_sequence u of None \<Rightarrow> ''Invalid sequence'' | Some v \<Rightarrow> v);
          s = on_sw (\<lambda>d. d\<lparr>sw_conn := (sw_conn d)\<lparr>server_sequence := seq\<rparr>\<rparr>) s
      in on_sw (sw_post_device SIG_DEVICE_UPDATE_BY_REMOTE) s)"

definition sw_switchReqUpdateCallback :: "'f sw_env \<Rightarrow> string \<Rightarrow> 'f sw \<Rightarrow> 'f sw option" where
  "sw_switchReqUpdateCallback ev data s =
     map_option (\<lambda>(u, s). if su_params u then apply_update ev u s else s)
       (update_loop ev (sw_toks ev data)
          \<lparr>su_sequence = None, su_params = False, su_switch = None, su_timers = None, su_startup = None\<rparr> s)"

subsection \<open>The task of the device\<close>

text \<open>An unknown signal is ignored.\<close>

definition sw_switchDevicePostCenter :: "'f sw_env \<Rightarrow> IoTgoSignalSet \<Rightarrow> 'f sw \<Rightarrow> 'f sw option" where
  "sw_switchDevicePostCenter ev sig s =
     (case sig of
        SIG_DEVICE_READYED \<Rightarrow>
          Some (on_sw (\<lambda>d. (sw_post_device SIG_DEVICE_UPDATE d)\<lparr>first_updated_flag := True\<rparr>) (stopTimerMonitor s))
      | SIG_DEVICE_UPDATE \<Rightarrow> in_env (sw_switchUpdateWithVersion ev) s
      | SIG_DEVICE_UPDATE_OK \<Rightarrow>
          Some (if first_updated_flag (env s)
                then on_sw (\<lambda>d. sw_post_device SIG_DEVICE_QUERY (d\<lparr>first_updated_flag := False\<rparr>)) s else s)
      | SIG_DEVICE_QUERY \<Rightarrow> in_env (sw_switchQuery ev) s
      | SIG_DEVICE_QUERY_OK \<Rightarrow> Some s
      | SIG_DEVICE_UPDATE_BY_LOCAL \<Rightarrow> in_env (sw_switchUpdateWithVersion ev) s
      | SIG_DEVICE_UPDATE_BY_TIMER \<Rightarrow> in_env (sw_switchUpdateWithVersion ev) s
      | SIG_DEVICE_UPDATE_BY_REMOTE \<Rightarrow> in_env (sw_sendError0 ev) s
      | _ \<Rightarrow> Some s)"

end
