(* ===== verification/SwitchKey.thy ===== *)
theory SwitchKey
  imports SwitchMsg
begin

text \<open>
  The key and the start of the switch, \<open>app/device/FWSW_01.c\<close>.
\<close>

subsection \<open>The key\<close>

definition SW_KEY_DEBONCE_INTERVAL :: nat where "SW_KEY_DEBONCE_INTERVAL = 25"
definition SW_KEY_LONG_PRESS_TIME :: nat where "SW_KEY_LONG_PRESS_TIME = 5000"
definition SW_KEY_DEBONCE_FIRST_TIME :: nat where "SW_KEY_DEBONCE_FIRST_TIME = SW_KEY_DEBONCE_INTERVAL * 2"
definition SW_KEY_DEBONCE_SECOND_TIME :: nat where "SW_KEY_DEBONCE_SECOND_TIME = SW_KEY_DEBONCE_INTERVAL * 2"

definition sw_long_press :: "'f sw_device \<Rightarrow> 'f sw_device" where
  "sw_long_press s =
     (if sw_mode s \<noteq> DEVICE_MODE_SETTING_SELFAP then
        if \<not> sw_long_press_processed s
        then sw_post_core MSG_CORE_ENTER_SETTING_SELFAP_MODE (s\<lparr>sw_long_press_processed := True\<rparr>) else s
      else s\<lparr>sw_long_press_processed := True\<rparr>)"

text \<open>The switch is turned over; the server is told if it is connected.\<close>

definition sw_short_press :: "'f sw_env \<Rightarrow> 'f sw_device \<Rightarrow> 'f sw_device" where
  "sw_short_press ev s =
     (if sw_mode s = DEVICE_MODE_SETTING_SELFAP then sw_post_core MSG_CORE_EXIT_SETTING_SELFAP_MODE s
      else (let d = (if switch_state s = SWITCH_ON then switchOFF ev s else switchON ev s)
            in if sw_mode s = DEVICE_MODE_WORK_NORMAL then sw_post_device SIG_DEVICE_UPDATE_BY_LOCAL d else d))"

definition sw_key_sample :: "bool \<Rightarrow> 'f sw_device \<Rightarrow> 'f sw_device" where
  "sw_key_sample released s =
     (if released then
        if sw_pressed_level_counter s > 0
        then s\<lparr>sw_released_level_counter := sw_released_level_counter s + 1\<rparr> else s
      else if sw_released_level_counter s = 0 then
        (let s = s\<lparr>sw_pressed_level_counter := sw_pressed_level_counter s + 1\<rparr> in
         if sw_pressed_level_counter s \<ge> SW_KEY_LONG_PRESS_TIME div SW_KEY_DEBONCE_INTERVAL
         then sw_long_press (s\<lparr>sw_pressed_level_counter := SW_KEY_LONG_PRESS_TIME div SW_KEY_DEBONCE_INTERVAL\<rparr>)
         else s)
      else s)"

text \<open>\<open>released\<close> is the level of the pin at the time of the sample.\<close>

definition sw_keyISRStage2 :: "'f sw_env \<Rightarrow> bool \<Rightarrow> 'f sw_device \<Rightarrow> 'f sw_device" where
  "sw_keyISRStage2 ev released s =
     (let s = sw_key_sample released s in
      if sw_released_level_counter s \<ge> SW_KEY_DEBONCE_SECOND_TIME div SW_KEY_DEBONCE_INTERVAL then
        (if sw_pressed_level_counter s \<ge> SW_KEY_DEBONCE_FIRST_TIME div SW_KEY_DEBONCE_INTERVAL \<and> \<not> sw_long_press_processed s
         then sw_short_press ev s else s)
        \<lparr>sw_long_press_processed := False, sw_key_isr_timer := Disarmed, sw_released_level_counter := 0,
          sw_pressed_level_counter := 0, sw_key_interrupt := True\<rparr>
      else s)"

text \<open>The interrupt of the pin; \<open>mine\<close> tells whether its status bit is set.\<close>

definition sw_keyISR :: "bool \<Rightarrow> 'f sw_device \<Rightarrow> 'f sw_device" where
  "sw_keyISR mine s =
     (if mine then s\<lparr>sw_key_interrupt := False, sw_pressed_level_counter := 0, sw_released_level_counter := 0,
                      sw_key_isr_timer := Armed SW_KEY_DEBONCE_INTERVAL True\<rparr>
      else s)"

definition sw_interruptInit :: "'f sw_device \<Rightarrow> 'f sw_device" where
  "sw_interruptInit s = s\<lparr>sw_key_interrupt := True\<rparr>"

subsection \<open>The start\<close>

definition setStartupParam :: "string \<Rightarrow> 'f sw_device \<Rightarrow> 'f sw_device" where
  "setStartupParam v s = s\<lparr>json_starup_value := v\<rparr>"

text \<open>\<open>keep\<close> is \<open>iotgoIsXrstKeepGpio\<close>: the chip restarted without losing the levels of its pins.\<close>

definition sw_start_relay :: "'f sw_env \<Rightarrow> bool \<Rightarrow> 'f sw_device \<Rightarrow> 'f sw_device" where
  "sw_start_relay ev keep s =
     (let startup = sc_startup (itdb04_config s) in
      if \<not> keep then
        if startup = ITDB04_CONFIG_STARTUP_OFF then setStartupParam ''off'' (switchOFF ev s)
        else if startup = ITDB04_CONFIG_STARTUP_ON then setStartupParam ''on'' (switchON ev s)
        else if startup = ITDB04_CONFIG_STARTUP_STAY then
          setStartupParam ''stay''
            (if sc_latest_switch_state (itdb04_config s) = SWITCH_ON then switchON ev s else switchOFF ev s)
        else setStartupParam ''off'' (switchOFF ev s)
      else
        (let s = (if relay s = SWITCH_ON then switchON ev s else switchOFF ev s)
         in setStartupParam (if startup = ITDB04_CONFIG_STARTUP_ON then ''on''
                             else if startup = ITDB04_CONFIG_STARTUP_STAY then ''stay'' else ''off'') s))"

definition sw_switchInitIoTgoDevice :: "'f sw_env \<Rightarrow> bool \<Rightarrow> 'f sw_device \<Rightarrow> 'f sw_device" where
  "sw_switchInitIoTgoDevice ev keep s =
     (sw_start_relay ev keep (sw_load ev (sw_interruptInit s)))\<lparr>json_sta_mac := sw_mac ev\<rparr>"

definition sw_switchInitDeviceConfig :: "'f sw_env \<Rightarrow> 'f sw_device \<Rightarrow> 'f sw_device" where
  "sw_switchInitDeviceConfig ev s = s\<lparr>sw_flash := devEraseConfigInFlash (sw_spi ev) (sw_flash s)\<rparr>"

subsection \<open>Counting the starts\<close>

definition ITDB04_REPOWER_TIMES_TIMER_DELAY_SECONDS :: nat where
  "ITDB04_REPOWER_TIMES_TIMER_DELAY_SECONDS = 10"

definition repower_times :: "nat \<Rightarrow> 'f sw_device \<Rightarrow> 'f sw_device" where
  "repower_times n s = s\<lparr>itdb04_config := (itdb04_config s)\<lparr>sc_repower_times := n\<rparr>\<rparr>"

definition itdb04RepowerTimesTimerCallback :: "'f sw_env \<Rightarrow> 'f sw_device \<Rightarrow> 'f sw_device" where
  "itdb04RepowerTimesTimerCallback ev s = sw_save ev (repower_times 0 s)"

definition itdb04IsEnterDefaultSettingMode :: "'f sw_env \<Rightarrow> 'f sw_device \<Rightarrow> bool \<times> 'f sw_device" where
  "itdb04IsEnterDefaultSettingMode ev s =
     (let n = sc_repower_times (itdb04_config s);
          s = s\<lparr>itdb04_repower_times_timer := Disarmed\<rparr>;
          arm = itdb04_repower_times_timer_update (\<lambda>_. Armed (ITDB04_REPOWER_TIMES_TIMER_DELAY_SECONDS * 1000) False);
          (ret, s) = (if n \<noteq> 0xFFFFFFFF \<and> n \<ge> 4 then (True, repower_times 0 s)
                      else if n = 0xFFFFFFFF then (False, arm (repower_times 1 s))
                      else (False, arm (repower_times (to_u32 (int n + 1)) s)))
      in (ret, sw_save ev s))"

end
