(* ===== verification/SwitchRun.thy ===== *)
theory SwitchRun
  imports SwitchKey TimerSpec
begin

text \<open>
  Runs of the switch: everything that can happen to it, in any order, and what all of it keeps.  The
  configuration in flash is the one in force, the relay is in the state that is remembered and saved,
  and the timers hold exactly the memory of their arguments.
\<close>

subsection \<open>Steps\<close>

definition sw_callbacks :: "('f sw_env \<Rightarrow> string \<Rightarrow> 'f sw \<Rightarrow> 'f sw option) list" where
  "sw_callbacks = [sw_switchRespUpdateCallback, sw_switchRespQueryCallback, sw_switchReqUpdateCallback]"

text \<open>A step that is undefined has no successor.  \<open>others\<close> is the rest of the firmware.\<close>

inductive sw_step :: "'f sw_env \<Rightarrow> 'f sw \<Rightarrow> 'f sw \<Rightarrow> bool" for ev where
  server: "cb \<in> set sw_callbacks \<Longrightarrow> cb ev data s = Some s' \<Longrightarrow> sw_step ev s s'"
| signal: "sw_switchDevicePostCenter ev sig s = Some s' \<Longrightarrow> sw_step ev s s'"
| timers: "timerMonitorCallback (sw_call ev) now s = Some s' \<Longrightarrow> sw_step ev s s'"
| key: "sw_step ev s (on_sw (sw_keyISRStage2 ev released) s)"
| key_edge: "sw_step ev s (on_sw (sw_keyISR mine) s)"
| starts: "sw_step ev s (on_sw (\<lambda>d. snd (itdb04IsEnterDefaultSettingMode ev d)) s)"
| starts_over: "sw_step ev s (on_sw (itdb04RepowerTimesTimerCallback ev) s)"
| others: "sw_step ev s (on_sw (\<lambda>d. d\<lparr>sw_conn := p\<rparr>) s)"

inductive sw_run :: "'f sw_env \<Rightarrow> 'f sw \<Rightarrow> 'f sw \<Rightarrow> bool" for ev where
  Nil: "sw_run ev s s"
| Cons: "sw_step ev s s' \<Longrightarrow> sw_run ev s' s'' \<Longrightarrow> sw_run ev s s''"

subsection \<open>The configuration is saved\<close>

definition sw_config_ok :: "swConfig \<Rightarrow> bool" where
  "sw_config_ok c \<longleftrightarrow> sc_startup c < 2 ^ 32 \<and> sc_latest_switch_state c < 2 ^ 32 \<and> sc_repower_times c < 2 ^ 32 \<and> sc_reserved c < 2 ^ 32"

lemma sw_config_back: "sw_config_ok c \<Longrightarrow> sw_config_of_bytes (sw_config_bytes c) = c"
  by (cases c) (simp add: sw_config_of_bytes_def sw_config_bytes_def sw_config_ok_def u32_bytes_back
      u32_bytes_back [where rest = "[]", simplified])

lemma sw_config_bytes_length: "length (sw_config_bytes c) = sw_config_size"
  by (simp add: sw_config_bytes_def sw_config_size_def)

definition sw_saved :: "'f sw_env \<Rightarrow> 'f sw_device \<Rightarrow> bool" where
  "sw_saved ev d \<longleftrightarrow> devLoadConfigFromFlash (sw_spi ev) sw_config_size (sw_flash d) = sw_config_bytes (itdb04_config d)"

lemma sw_saved_save:
  assumes "spi_ok (sw_spi ev) er"
  shows "sw_saved ev (sw_save ev d)"
proof -
  have n: "config_len sw_config_size = sw_config_size" by (simp add: config_len_def sw_config_size_def SPI_FLASH_SEC_SIZE_def)
  have "length (sw_config_bytes c) \<le> SPI_FLASH_SEC_SIZE" for c
    by (simp add: sw_config_bytes_length sw_config_size_def SPI_FLASH_SEC_SIZE_def)
  from save_copy_complete [OF assms this] show ?thesis
    by (simp add: sw_saved_def sw_save_def devLoadConfigFromFlash_def devSaveConfigToFlash_def n sw_config_bytes_length)
qed

subsection \<open>What every step keeps\<close>

definition relay_inv :: "'f sw_env \<Rightarrow> 'f sw_device \<Rightarrow> bool" where
  "relay_inv ev d \<longleftrightarrow> sw_config_ok (itdb04_config d) \<and> sw_saved ev d \<and> switch_state d \<in> {SWITCH_OFF, SWITCH_ON}
     \<and> relay d = switch_state d \<and> sc_latest_switch_state (itdb04_config d) = switch_state d"

definition sw_view :: "'f sw_device \<Rightarrow> swConfig \<times> 'f \<times> nat \<times> nat" where
  "sw_view d = (itdb04_config d, sw_flash d, switch_state d, relay d)"

lemma relay_view: "sw_view d' = sw_view d \<Longrightarrow> relay_inv ev d \<Longrightarrow> relay_inv ev d'"
  by (simp add: sw_view_def relay_inv_def sw_saved_def)

lemma sw_view_simps [simp]:
  "sw_view (sw_post_core m d) = sw_view d" "sw_view (sw_post_device m d) = sw_view d"
  "sw_view (d\<lparr>sw_conn := p\<rparr>) = sw_view d" "sw_view (d\<lparr>json_starup_value := v\<rparr>) = sw_view d"
  "sw_view (d\<lparr>first_updated_flag := b\<rparr>) = sw_view d" "sw_view (d\<lparr>sw_long_press_processed := b\<rparr>) = sw_view d"
  "sw_view (d\<lparr>sw_pressed_level_counter := n\<rparr>) = sw_view d" "sw_view (d\<lparr>sw_released_level_counter := n\<rparr>) = sw_view d"
  "sw_view (d\<lparr>sw_key_isr_timer := t\<rparr>) = sw_view d" "sw_view (d\<lparr>sw_key_interrupt := b\<rparr>) = sw_view d"
  "sw_view (d\<lparr>itdb04_repower_times_timer := t\<rparr>) = sw_view d" "sw_view (d\<lparr>json_sta_mac := v\<rparr>) = sw_view d"
  by (simp_all add: sw_view_def sw_post_core_def sw_post_device_def)

lemma relay_simps [simp]:
  "relay_inv ev (sw_post_core m d) = relay_inv ev d" "relay_inv ev (sw_post_device m d) = relay_inv ev d"
  "relay_inv ev (d\<lparr>sw_conn := p\<rparr>) = relay_inv ev d" "relay_inv ev (d\<lparr>json_starup_value := v\<rparr>) = relay_inv ev d"
  "relay_inv ev (d\<lparr>first_updated_flag := b\<rparr>) = relay_inv ev d" "relay_inv ev (d\<lparr>sw_long_press_processed := b\<rparr>) = relay_inv ev d"
  "relay_inv ev (d\<lparr>sw_pressed_level_counter := n\<rparr>) = relay_inv ev d"
  "relay_inv ev (d\<lparr>sw_released_level_counter := n\<rparr>) = relay_inv ev d"
  "relay_inv ev (d\<lparr>sw_key_isr_timer := t\<rparr>) = relay_inv ev d" "relay_inv ev (d\<lparr>sw_key_interrupt := b\<rparr>) = relay_inv ev d"
  "relay_inv ev (d\<lparr>itdb04_repower_times_timer := t\<rparr>) = relay_inv ev d" "relay_inv ev (d\<lparr>json_sta_mac := v\<rparr>) = relay_inv ev d"
  by (intro iffI; erule relay_view [rotated]; simp)+

lemma sw_save_fields [simp]:
  "itdb04_config (sw_save ev d) = itdb04_config d" "switch_state (sw_save ev d) = switch_state d"
  "relay (sw_save ev d) = relay d" "json_starup_value (sw_save ev d) = json_starup_value d"
  "sw_conn (sw_save ev d) = sw_conn d" "sw_mode (sw_save ev d) = sw_mode d"
  by (simp_all add: sw_save_def sw_mode_def)

lemma relay_save:
  "spi_ok (sw_spi ev) er \<Longrightarrow> relay_inv ev (sw_save ev d) \<longleftrightarrow> sw_config_ok (itdb04_config d)
     \<and> switch_state d \<in> {SWITCH_OFF, SWITCH_ON} \<and> relay d = switch_state d
     \<and> sc_latest_switch_state (itdb04_config d) = switch_state d"
  using sw_saved_save [of ev er d] by (simp add: relay_inv_def)

lemma relay_switch:
  assumes "spi_ok (sw_spi ev) er" "sw_config_ok (itdb04_config d)"
  shows "relay_inv ev (switchON ev d)" "relay_inv ev (switchOFF ev d)"
  using assms(2) relay_save [OF assms(1)]
  by (simp_all add: switchON_def switchOFF_def switch_to_def sw_config_ok_def SWITCH_ON_def SWITCH_OFF_def)

lemma relay_inv_ok: "relay_inv ev d \<Longrightarrow> sw_config_ok (itdb04_config d)"
  by (simp add: relay_inv_def)

lemma relay_action: "spi_ok (sw_spi ev) er \<Longrightarrow> relay_inv ev d \<Longrightarrow> relay_inv ev (sw_action ev p d)"
  by (auto simp: sw_action_def split: option.split intro!: relay_switch relay_inv_ok)

lemma relay_startup: "spi_ok (sw_spi ev) er \<Longrightarrow> relay_inv ev d \<Longrightarrow> relay_inv ev (apply_startup ev v d)"
  by (auto simp: apply_startup_def Let_def relay_save)
    (auto simp: relay_inv_def sw_config_ok_def ITDB04_CONFIG_STARTUP_ON_def ITDB04_CONFIG_STARTUP_OFF_def ITDB04_CONFIG_STARTUP_STAY_def)

lemma relay_repower:
  assumes "spi_ok (sw_spi ev) er" "relay_inv ev d"
  shows "relay_inv ev (snd (itdb04IsEnterDefaultSettingMode ev d))" "relay_inv ev (itdb04RepowerTimesTimerCallback ev d)"
  using assms(2)
  by (auto simp: itdb04IsEnterDefaultSettingMode_def itdb04RepowerTimesTimerCallback_def Let_def sw_saved_save [OF assms(1)]
      repower_times_def relay_inv_def sw_config_ok_def to_u32_less split: prod.split)

lemma relay_key_sample: "relay_inv ev (sw_key_sample released d) = relay_inv ev d"
  by (simp add: sw_key_sample_def Let_def sw_long_press_def)

lemma relay_short_press: "spi_ok (sw_spi ev) er \<Longrightarrow> relay_inv ev d \<Longrightarrow> relay_inv ev (sw_short_press ev d)"
  by (auto simp: sw_short_press_def Let_def intro!: relay_switch relay_inv_ok)

lemma relay_key: "spi_ok (sw_spi ev) er \<Longrightarrow> relay_inv ev d \<Longrightarrow> relay_inv ev (sw_keyISRStage2 ev released d)"
  using relay_key_sample [of ev released d] relay_short_press [of ev er "sw_key_sample released d"]
  by (simp add: sw_keyISRStage2_def Let_def)

lemma relay_key_edge: "relay_inv ev d \<Longrightarrow> relay_inv ev (sw_keyISR mine d)"
  by (simp add: sw_keyISR_def)

subsection \<open>The whole state\<close>

definition sw_inv :: "'f sw_env \<Rightarrow> nat \<Rightarrow> 'f sw \<Rightarrow> bool" where
  "sw_inv ev c s \<longleftrightarrow> sched_inv c s \<and> relay_inv ev (env s)"

lemma sw_inv_on: "sw_inv ev c s \<Longrightarrow> relay_inv ev (f (env s)) \<Longrightarrow> sw_inv ev c (on_sw f s)"
  by (simp add: sw_inv_def on_sw_def sched_inv_def owned_def)

lemma env_delete [simp]: "env (snd (deleteOneTimeObject i s)) = env s"
  by (simp add: deleteOneTimeObject_def)

lemma env_delete_all [simp]: "env (deleteAllTimeObject s) = env s"
proof -
  have "env (fold (\<lambda>i s. snd (deleteOneTimeObject i s)) is s) = env s" for "is" :: "nat list" and s :: "'a sched"
    by (induction "is" arbitrary: s) simp_all
  then show ?thesis by (simp add: deleteAllTimeObject_def)
qed

lemma env_monitor [simp]: "env (stopTimerMonitor s) = env s" "env (startTimerMonitor s) = env s"
  by (simp_all add: stopTimerMonitor_def startTimerMonitor_def)

lemma env_finish: "finish_add ob s = (r, t) \<Longrightarrow> env t = env s"
  using add_loop_cases [of "[0..<IOTGO_DEVICE_TIMER_MAX]" ob s]
  by (auto simp: finish_add_def addOneTimeObject_def split: if_split_asm)

lemma env_add:
  "addTimeObjectByGMTString m junk en str cb arg n s = Some (r, t) \<Longrightarrow> env t = env s"
  "addTimeObjectByCronString m junk en str cb arg n s = Some (r, t) \<Longrightarrow> env t = env s"
  "addTimeObjectInterval m junk en str k cb arg n s = Some (r, t) \<Longrightarrow> env t = env s"
  "addTimeObjectIntervalDuration m junk en str k w cb arg n s = Some (r, t) \<Longrightarrow> env t = env s"
  "addTimeObjectDurationStartEnd m junk en str k w cb arg n cb' arg' n' s = Some (r, t) \<Longrightarrow> env t = env s"
  by (auto simp: addTimeObjectByGMTString_def addTimeObjectByCronString_def addTimeObjectInterval_def
      addTimeObjectIntervalDuration_def addTimeObjectDurationStartEnd_def Let_def bind_Some_iff
      split: if_splits prod.splits dest: env_finish)

lemma inv_monitor [intro]: "sched_inv c s \<Longrightarrow> sched_inv c (stopTimerMonitor s)" "sched_inv c s \<Longrightarrow> sched_inv c (startTimerMonitor s)"
  using sched_reach_inv [OF sched_reach.stop, of c s] sched_reach_inv [OF sched_reach.start, of c s] by blast+

lemma sw_inv_add:
  assumes "sw_inv ev c s" "add_switch_timer ev f s = Some (b, t)"
  shows "sw_inv ev c t"
proof -
  have inv: "sched_inv c s" "relay_inv ev (env s)" using assms(1) by (simp_all add: sw_inv_def)
  note stop = inv_monitor(1) [OF inv(1)]
  from assms(2) inv show ?thesis
    unfolding add_switch_timer_def Let_def sw_inv_def
    by (auto split: option.split_asm if_split_asm prod.split_asm simp: bind_Some_iff
        intro: stop add_inv [OF inv(1)] dest: env_add)
qed

lemma sw_inv_one: "sw_inv ev c s \<Longrightarrow> fst (procOneTimer ev ts s) = Some (b, t) \<Longrightarrow> sw_inv ev c t"
  by (auto simp: procOneTimer_def Let_def intro: sw_inv_add)

lemma sw_inv_monitor: "sw_inv ev c s \<Longrightarrow> sw_inv ev c (stopTimerMonitor s)" "sw_inv ev c s \<Longrightarrow> sw_inv ev c (startTimerMonitor s)"
  by (auto simp: sw_inv_def)

lemma sw_inv_timers: "timers_loop ev ts s = Some r \<Longrightarrow> sw_inv ev c s \<Longrightarrow> sw_inv ev c (snd (snd r))"
proof (induction ts arbitrary: s r rule: length_induct)
  case (1 ts)
  let ?t = "fst (jsonparse_next ts)" and ?us = "snd (jsonparse_next ts)"
  have ih: "timers_loop ev vs s' = Some r' \<Longrightarrow> length vs \<le> length ?us \<Longrightarrow> jt_type ?t \<noteq> JSON_TYPE_ERROR \<Longrightarrow>
      sw_inv ev c s' \<Longrightarrow> sw_inv ev c (snd (snd r'))" for vs s' r'
    using 1(1) next_less [of ts] by (metis le_less_trans)
  have "JSON_TYPE_OBJECT \<noteq> JSON_TYPE_ERROR" by (simp add: JSON_TYPE_OBJECT_def JSON_TYPE_ERROR_def)
  then have ob: "timers_loop ev (snd (procOneTimer ev ?us s)) s' = Some r' \<Longrightarrow> jt_type ?t = JSON_TYPE_OBJECT \<Longrightarrow>
      fst (procOneTimer ev ?us s) = Some (d, s') \<Longrightarrow> sw_inv ev c (snd (snd r'))" for d s' r'
    using ih [OF _ procOneTimer_le] sw_inv_one [OF 1(3)] by metis
  from 1(2,3) show ?case
    unfolding timers_loop.simps [of ev ts s] Let_def
    by (auto split: if_split_asm option.split_asm dest: ob ih [OF _ order_refl] sw_inv_one [OF 1(3)])
qed

lemma sw_inv_proc: "jsonIoTgoProcTimers ev ts s = Some r \<Longrightarrow> sw_inv ev c s \<Longrightarrow> sw_inv ev c (snd (snd r))"
  by (auto simp: jsonIoTgoProcTimers_def case_prod_beta Let_def split: if_split_asm intro: sw_inv_monitor dest: sw_inv_timers)

lemma sw_inv_query: "query_loop ev ts p s = Some r \<Longrightarrow> sw_inv ev c s \<Longrightarrow> sw_inv ev c (snd (snd r))"
proof (induction ts arbitrary: p s r rule: length_induct)
  case (1 ts)
  let ?t = "fst (jsonparse_next ts)" and ?us = "snd (jsonparse_next ts)"
  have ih: "query_loop ev vs p' s = Some r' \<Longrightarrow> length vs \<le> length ?us \<Longrightarrow> jt_type ?t \<noteq> JSON_TYPE_ERROR \<Longrightarrow>
      sw_inv ev c (snd (snd r'))" for vs p' r'
    using 1(1,3) next_less [of ts] by (metis le_less_trans)
  from 1(2,3) show ?case
    unfolding query_loop.simps [of ev ts p s] Let_def
    by (auto split: if_split_asm intro: sw_inv_monitor
        dest: ih [OF _ order_refl] ih [OF _ order_trans [OF next_le next_le]] dest!: sw_inv_proc [of ev _ s, OF _ 1(3)])
qed

lemma sw_inv_params: "params_loop ev ts u s = Some r \<Longrightarrow> sw_inv ev c s \<Longrightarrow> sw_inv ev c (snd (snd r))"
proof (induction ts arbitrary: u s r rule: length_induct)
  case (1 ts)
  let ?t = "fst (jsonparse_next ts)" and ?us = "snd (jsonparse_next ts)"
  have ih: "params_loop ev vs u' s' = Some r' \<Longrightarrow> length vs \<le> length ?us \<Longrightarrow> jt_type ?t \<noteq> JSON_TYPE_ERROR \<Longrightarrow>
      sw_inv ev c s' \<Longrightarrow> sw_inv ev c (snd (snd r'))" for vs u' s' r'
    using 1(1) next_less [of ts] by (metis le_less_trans)
  from 1(2,3) show ?case
    unfolding params_loop.simps [of ev ts u s] Let_def
    by (auto split: if_split_asm option.split_asm
        dest: sw_inv_proc ih [OF _ order_refl] ih [OF _ string_le] ih [OF _ proc_timers_le])
qed

lemma sw_inv_update: "update_loop ev ts u s = Some r \<Longrightarrow> sw_inv ev c s \<Longrightarrow> sw_inv ev c (snd r)"
proof (induction ts arbitrary: u s r rule: length_induct)
  case (1 ts)
  let ?t = "fst (jsonparse_next ts)" and ?us = "snd (jsonparse_next ts)"
  have ih: "update_loop ev vs u' s' = Some r' \<Longrightarrow> length vs \<le> length ?us \<Longrightarrow> jt_type ?t \<noteq> JSON_TYPE_ERROR \<Longrightarrow>
      sw_inv ev c s' \<Longrightarrow> sw_inv ev c (snd r')" for vs u' s' r'
    using 1(1) next_less [of ts] by (metis le_less_trans)
  from 1(2,3) show ?case
    unfolding update_loop.simps [of ev ts u s] Let_def
    by (auto split: if_split_asm option.split_asm
        dest: sw_inv_params ih [OF _ order_refl] ih [OF _ string_le]
          ih [OF _ order_trans [OF params_loop_le order_trans [OF next_le next_le]]])
qed

lemma sw_inv_apply:
  assumes "spi_ok (sw_spi ev) er" "sw_inv ev c s"
  shows "sw_inv ev c (apply_update ev u s)"
proof -
  have r: "relay_inv ev (env s)" if "sw_inv ev c s" for s using that by (simp add: sw_inv_def)
  show ?thesis
    unfolding apply_update_def Let_def
    by (intro sw_inv_on) (auto split: option.split intro!: sw_inv_on sw_inv_monitor assms(2) relay_switch [OF assms(1)]
        relay_startup [OF assms(1)] relay_inv_ok r)
qed

lemma sw_inv_call: "spi_ok (sw_spi ev) er \<Longrightarrow> sw_call ev f p s = Some t \<Longrightarrow> sw_inv ev c s \<Longrightarrow> sw_inv ev c t"
  by (auto simp: sw_call_def sw_inv_def split: if_split_asm intro!: relay_action)
    (auto simp: on_sw_def sched_inv_def owned_def intro: relay_action)

lemma monitor_slot_env:
  assumes step: "\<And>f a u v. cb f a u = Some v \<Longrightarrow> Q (env u) \<Longrightarrow> Q (env v)"
    and run: "monitor_slot cb now i s = Some t" and q: "Q (env s)"
  shows "Q (env t)"
proof -
  have cbk: "call_back cb f a u = Some v \<Longrightarrow> Q (env u) \<Longrightarrow> Q (env v)" for f a u v
    by (auto simp: call_back_def split: option.split_asm intro: step)
  have fire: "fire_interval cb ob m sec u = Some v \<Longrightarrow> Q (env u) \<Longrightarrow> Q (env v)" for ob m sec u v
    by (auto simp: fire_interval_def bind_Some_iff split: if_split_asm intro: cbk)
  have intv: "monitor_interval cb now i s = Some t \<Longrightarrow> Q (env t)"
    using q by (auto simp: monitor_interval_def bind_Some_iff Let_def set_slot_def intro: fire)
  show ?thesis
    using run q unfolding monitor_slot_def Let_def
    by (auto split: if_split_asm IoTgoTimerType.split_asm simp: bind_Some_iff intro: cbk intv)
qed

lemma sw_inv_tick:
  assumes spi: "spi_ok (sw_spi ev) er" and run: "timerMonitorCallback (sw_call ev) now s = Some t" and inv: "sw_inv ev c s"
  shows "sw_inv ev c t"
proof -
  have cb: "sw_call ev f a u = Some v \<Longrightarrow> relay_inv ev (env u) \<Longrightarrow> relay_inv ev (env v)" for f a u v
    using relay_action [OF spi, of "env u" a] by (auto simp: sw_call_def on_sw_def split: if_split_asm)
  have "monitor_loop (sw_call ev) now is u = Some v \<Longrightarrow> relay_inv ev (env u) \<Longrightarrow> relay_inv ev (env v)" for "is" u v
  proof (induction "is" arbitrary: u)
    case (Cons i "is")
    then obtain w where "monitor_slot (sw_call ev) now i u = Some w" "monitor_loop (sw_call ev) now is w = Some v"
      by (auto simp: bind_Some_iff)
    moreover from this monitor_slot_env [of "sw_call ev" "relay_inv ev" now i u w] cb Cons.prems(2)
    have "relay_inv ev (env w)" by blast
    ultimately show ?case by (intro Cons.IH)
  qed simp
  moreover have "sw_call ev f a u = Some v \<Longrightarrow> sched_inv c u \<Longrightarrow> sched_inv c v" for f a u v
    by (auto simp: sw_call_def on_sw_def sched_inv_def owned_def split: if_split_asm)
  then have "sched_inv c t" using monitor_inv [of "sw_call ev" c now s t] run inv by (simp add: sw_inv_def)
  ultimately show ?thesis using run inv by (auto simp: sw_inv_def timerMonitorCallback_def)
qed

lemma view_sent:
  "sw_switchUpdateWithVersion ev d = Some d' \<Longrightarrow> sw_view d' = sw_view d" "sw_switchQuery ev d = Some d' \<Longrightarrow> sw_view d' = sw_view d"
  "sw_sendError0 ev d = Some d' \<Longrightarrow> sw_view d' = sw_view d"
  by (auto simp: sw_switchUpdateWithVersion_def sw_switchQuery_def sw_sendError0_def sw_queue_tree_def bind_Some_iff)

lemma sw_inv_signal:
  assumes "sw_switchDevicePostCenter ev sig s = Some t" "sw_inv ev c s"
  shows "sw_inv ev c t"
proof -
  have r: "relay_inv ev (env s)" using assms(2) by (simp add: sw_inv_def)
  have on: "sw_view (f (env s)) = sw_view (env s) \<Longrightarrow> sw_inv ev c (on_sw f s)" for f
    using relay_view [OF _ r] by (intro sw_inv_on [OF assms(2)]) blast
  have stop: "sw_view (f (env s)) = sw_view (env s) \<Longrightarrow> sw_inv ev c (on_sw f (stopTimerMonitor s))" for f
    using relay_view [OF _ r] by (intro sw_inv_on [OF sw_inv_monitor(1) [OF assms(2)]]) simp
  have tree: "in_env g s = Some u \<Longrightarrow> (\<And>d'. g (env s) = Some d' \<Longrightarrow> sw_view d' = sw_view (env s)) \<Longrightarrow> sw_inv ev c u" for g u
    using on [of "\<lambda>_. env u"] by (auto simp: in_env_def on_sw_def)
  show ?thesis
    using assms unfolding sw_switchDevicePostCenter_def
    by (auto split: IoTgoSignalSet.split_asm if_split_asm intro!: on stop elim!: tree view_sent)
qed

lemma sw_inv_server:
  assumes spi: "spi_ok (sw_spi ev) er" and cb: "cb \<in> set sw_callbacks" "cb ev data s = Some t" and inv: "sw_inv ev c s"
  shows "sw_inv ev c t"
proof -
  have on: "sw_inv ev c u \<Longrightarrow> sw_inv ev c (on_sw (sw_post_device m) u)" for m u
    by (intro sw_inv_on) (simp_all add: sw_inv_def)
  have q: "query_loop ev ts p s = Some (x, y, u) \<Longrightarrow> sw_inv ev c u" for ts p x y u
    using sw_inv_query [of ev ts p s "(x, y, u)" c] inv by simp
  have l: "update_loop ev ts w s = Some (x, u) \<Longrightarrow> sw_inv ev c u" for ts w x u
    using sw_inv_update [of ev ts w s "(x, u)" c] inv by simp
  show ?thesis
    using cb inv unfolding sw_callbacks_def
    by (auto simp: sw_switchRespUpdateCallback_def sw_switchRespQueryCallback_def sw_switchReqUpdateCallback_def
        bind_Some_iff split: if_split_asm prod.split_asm intro!: on sw_inv_monitor(2) sw_inv_apply [OF spi]
        dest: q l)
qed

lemma sw_inv_step:
  assumes spi: "spi_ok (sw_spi ev) er" and "sw_step ev s t" and inv: "sw_inv ev c s"
  shows "sw_inv ev c t"
proof -
  have r: "relay_inv ev (env s)" using inv by (simp add: sw_inv_def)
  have "relay_inv ev ((\<lambda>d. d\<lparr>sw_conn := p\<rparr>) (env s))" for p using r by simp
  then have oth: "sw_inv ev c (on_sw (\<lambda>d. d\<lparr>sw_conn := p\<rparr>) s)" for p by (rule sw_inv_on [OF inv])
  from assms(2) show ?thesis
    by cases (auto intro: oth intro: sw_inv_on [OF inv] sw_inv_tick [OF spi _ inv] sw_inv_signal [OF _ inv] sw_inv_server [OF spi _ _ inv]
        relay_key [OF spi r] relay_key_edge [OF r] relay_repower [OF spi r] r)
qed

lemma sw_inv_run: "sw_run ev s t \<Longrightarrow> spi_ok (sw_spi ev) er \<Longrightarrow> sw_inv ev c s \<Longrightarrow> sw_inv ev c t"
  by (induction rule: sw_run.induct) (auto intro: sw_inv_step)

end
