(* ===== verification/SwitchSpec.thy ===== *)
theory SwitchSpec
  imports SwitchRun PconnQueue
begin

text \<open>
  What the switch promises: its relay comes back after a restart as the user chose, and a timer set
  by the server switches it at its minute.
\<close>

subsection \<open>Restarting\<close>

lemma bytes_u32_less: "bytes_u32 b < 2 ^ 32"
proof -
  have "unat (x :: u8) < 256" for x using unsigned_less [of x] by simp
  from this [of "b ! 0"] this [of "b ! 1"] this [of "b ! 2"] this [of "b ! 3"] show ?thesis
    by (simp add: bytes_u32_def)
qed

lemma loaded_ok: "sw_config_ok (itdb04_config (sw_load ev d))"
  by (simp add: sw_config_ok_def sw_load_def sw_config_of_bytes_def bytes_u32_less [simplified])

lemma relay_start:
  assumes "spi_ok (sw_spi ev) er" "sw_config_ok (itdb04_config d)"
  shows "relay_inv ev (sw_start_relay ev keep d)"
  using relay_switch [OF assms] by (simp add: sw_start_relay_def Let_def setStartupParam_def)

lemma relay_init:
  assumes "spi_ok (sw_spi ev) er"
  shows "relay_inv ev (sw_switchInitIoTgoDevice ev keep d)"
  using relay_start [OF assms loaded_ok] by (simp add: sw_switchInitIoTgoDevice_def)

lemma relay_of_switch [simp]: "relay (switchON ev d) = SWITCH_ON" "relay (switchOFF ev d) = SWITCH_OFF"
  by (simp_all add: switchON_def switchOFF_def switch_to_def)

lemma loaded_config:
  assumes "relay_inv ev d" "sw_flash d' = sw_flash d"
  shows "itdb04_config (sw_load ev (sw_interruptInit d')) = itdb04_config d"
  using assms by (simp add: relay_inv_def sw_saved_def sw_load_def sw_interruptInit_def sw_config_back)

lemma restarted_relay:
  assumes "relay_inv ev d" "sw_flash d' = sw_flash d"
  shows "relay (sw_switchInitIoTgoDevice ev False d') =
      (if sc_startup (itdb04_config d) = ITDB04_CONFIG_STARTUP_ON then SWITCH_ON
       else if sc_startup (itdb04_config d) = ITDB04_CONFIG_STARTUP_STAY then relay d else SWITCH_OFF)"
    and "relay d' = relay d \<Longrightarrow> relay (sw_switchInitIoTgoDevice ev True d') = relay d"
proof -
  note c = loaded_config [OF assms]
  from assms(1) have r: "relay d \<in> {SWITCH_OFF, SWITCH_ON}" "sc_latest_switch_state (itdb04_config d) = relay d"
    by (simp_all add: relay_inv_def)
  have p: "relay (sw_load ev (sw_interruptInit d')) = relay d'" by (simp add: sw_load_def sw_interruptInit_def)
  show "relay (sw_switchInitIoTgoDevice ev False d') =
      (if sc_startup (itdb04_config d) = ITDB04_CONFIG_STARTUP_ON then SWITCH_ON
       else if sc_startup (itdb04_config d) = ITDB04_CONFIG_STARTUP_STAY then relay d else SWITCH_OFF)"
    using r by (auto simp: sw_switchInitIoTgoDevice_def sw_start_relay_def c setStartupParam_def Let_def
        ITDB04_CONFIG_STARTUP_ON_def ITDB04_CONFIG_STARTUP_STAY_def ITDB04_CONFIG_STARTUP_OFF_def)
  show "relay (sw_switchInitIoTgoDevice ev True d') = relay d" if "relay d' = relay d"
    using r that by (auto simp: sw_switchInitIoTgoDevice_def sw_start_relay_def p setStartupParam_def Let_def)
qed


definition demo_sw_env :: "(nat \<Rightarrow> bytes) sw_env" where
  "demo_sw_env = \<lparr>sw_pconn = example_env (\<lambda>_. 0), sw_spi = nor_flash,
     sw_toks = (\<lambda>_. [JTok JSON_TYPE_PAIR_NAME ''params'' 0, JTok JSON_TYPE_PAIR [] 0, JTok JSON_TYPE_OBJECT [] 0,
        JTok JSON_TYPE_PAIR_NAME ''startup'' 0, JTok JSON_TYPE_PAIR [] 0, JTok JSON_TYPE_STRING ''stay'' 0,
        JTok JSON_TYPE_PAIR_NAME ''switch'' 0, JTok JSON_TYPE_PAIR [] 0, JTok JSON_TYPE_STRING ''on'' 0,
        JTok (CHR ''}'') [] 0, JTok (CHR ''}'') [] 0]),
     sw_malloc = (\<lambda>_. True), sw_junk = zero_object, sw_mac = ''18:FE:34:00:00:01''\<rparr>"

definition demo_sw :: "(nat \<Rightarrow> bytes) sw" where
  "demo_sw = \<lparr>time_object_list = replicate 10 zero_object, live = 0, timer_monitor = Disarmed,
     env = \<lparr>sw_conn = idle_pconn (bump_malloc, empty_queue) net_init, sw_flash = (\<lambda>_. []),
       itdb04_config = \<lparr>sc_startup = 0, sc_latest_switch_state = 0, sc_repower_times = 0, sc_reserved = 0\<rparr>,
       switch_state = 0, relay = 0, json_starup_value = ''off'', json_sta_mac = [], sw_pressed_level_counter = 0,
       sw_released_level_counter = 0, sw_long_press_processed = False, sw_key_interrupt = True,
       sw_key_isr_timer = Disarmed, first_updated_flag = True, itdb04_repower_times_timer = Disarmed\<rparr>\<rparr>"

lemma demo_sw_inv: "sched_inv 0 demo_sw"
  by (simp add: sched_inv_def owned_def demo_sw_def zero_object_def)

definition demo_fields :: sw_update where
  "demo_fields = \<lparr>su_sequence = None, su_params = True, su_switch = Some ''on'', su_timers = None, su_startup = Some ''stay''\<rparr>"

lemmas token_types = JSON_TYPE_ERROR_def JSON_TYPE_PAIR_NAME_def JSON_TYPE_PAIR_def JSON_TYPE_OBJECT_def
  JSON_TYPE_STRING_def JSON_TYPE_NUMBER_def JSON_TYPE_ARRAY_def

lemma demo_params:
  "params_loop ev
     [JTok JSON_TYPE_PAIR_NAME ''startup'' 0, JTok JSON_TYPE_PAIR [] 0, JTok JSON_TYPE_STRING ''stay'' 0,
      JTok JSON_TYPE_PAIR_NAME ''switch'' 0, JTok JSON_TYPE_PAIR [] 0, JTok JSON_TYPE_STRING ''on'' 0,
      JTok (CHR ''}'') [] 0, JTok (CHR ''}'') [] 0]
     \<lparr>su_sequence = None, su_params = True, su_switch = None, su_timers = None, su_startup = None\<rparr> s
   = Some (demo_fields, [JTok (CHR ''}'') [] 0], s)"
  by (simp add: params_loop.simps jsonparse_next_def jsonIoTgoGetString_def token_types demo_fields_def)

lemma demo_update: "sw_switchReqUpdateCallback demo_sw_env data s = Some (apply_update demo_sw_env demo_fields s)"
proof -
  have "update_loop ev (sw_toks demo_sw_env data)
      \<lparr>su_sequence = None, su_params = False, su_switch = None, su_timers = None, su_startup = None\<rparr> s
    = Some (demo_fields, s)" for ev :: "'b sw_env" and s
    using demo_params [unfolded token_types, of ev s]
    by (simp add: demo_sw_env_def update_loop.simps jsonparse_next_def token_types Let_def)
  from this [of demo_sw_env s] show ?thesis by (simp add: sw_switchReqUpdateCallback_def demo_fields_def)
qed


end
