(* ===== verification/SwitchTimer.thy ===== *)
theory SwitchTimer
  imports SwitchSpec
begin

text \<open>
  A timer on its way through the firmware: the server's message is read, the timer is stored, and
  the monitor of the timers switches the relay at its minute.
\<close>

subsection \<open>The message\<close>

definition once_object :: "int \<Rightarrow> string \<Rightarrow> string \<Rightarrow> jtok list" where
  "once_object en att v =
     [JTok JSON_TYPE_PAIR_NAME ''enabled'' 0, JTok JSON_TYPE_PAIR [] 0, JTok JSON_TYPE_NUMBER [] en,
      JTok JSON_TYPE_PAIR_NAME ''type'' 0, JTok JSON_TYPE_PAIR [] 0, JTok JSON_TYPE_STRING ''once'' 0,
      JTok JSON_TYPE_PAIR_NAME ''at'' 0, JTok JSON_TYPE_PAIR [] 0, JTok JSON_TYPE_STRING att 0,
      JTok JSON_TYPE_PAIR_NAME ''do'' 0, JTok JSON_TYPE_PAIR [] 0, JTok JSON_TYPE_OBJECT [] 0,
      JTok JSON_TYPE_PAIR_NAME ''switch'' 0, JTok JSON_TYPE_PAIR [] 0, JTok JSON_TYPE_STRING v 0, JTok (CHR ''}'') [] 0]"

definition once_message :: "int \<Rightarrow> string \<Rightarrow> string \<Rightarrow> jtok list" where
  "once_message en att v =
     [JTok JSON_TYPE_PAIR_NAME ''params'' 0, JTok JSON_TYPE_PAIR [] 0, JTok JSON_TYPE_OBJECT [] 0,
      JTok JSON_TYPE_PAIR_NAME ''timers'' 0, JTok JSON_TYPE_PAIR [] 0, JTok JSON_TYPE_ARRAY [] 0, JTok JSON_TYPE_OBJECT [] 0]
     @ once_object en att v @ [JTok (CHR ''}'') [] 0, JTok (CHR '']'') [] 0, JTok (CHR ''}'') [] 0, JTok (CHR ''}'') [] 0]"

definition once_fields :: "int \<Rightarrow> string \<Rightarrow> string \<Rightarrow> timer_fields" where
  "once_fields en att v =
     \<lparr>tf_enabled = Some en, tf_type = Some ''once'', tf_at = Some att, tf_do = Some v, tf_start_do = None, tf_end_do = None\<rparr>"

lemma once_read:
  assumes "length att < 50" "v \<in> {''on'', ''off''}"
  shows "timer_loop (once_object en att v @ ts) no_timer = (once_fields en att v, ts)"
proof -
  have v: "take 9 v = v" and a: "take 49 att = att" using assms by auto
  have d: "do_loop (JTok JSON_TYPE_PAIR_NAME ''switch'' 0 # JTok JSON_TYPE_PAIR [] 0 # JTok JSON_TYPE_STRING v 0
      # JTok (CHR ''}'') [] 0 # ts) None = (Some v, ts)"
    by (simp add: do_loop.simps jsonparse_next_def jsonIoTgoGetString_def token_types v)
  show ?thesis
    using d unfolding once_object_def no_timer_def
    by (simp add: timer_loop.simps fields_complete_def jsonparse_next_def timer_value_def jsonIoTgoGetString_def
        jsonIoTgoGetNumber_def do_object_def token_types a once_fields_def)
qed

subsection \<open>The timer\<close>

lemma monitor_loop_unused: "\<forall>i \<in> set is. \<not> used (time_object_list s ! i) \<Longrightarrow> monitor_loop cb now is s = Some s"
  by (induction "is") (simp_all add: monitor_slot_def)

lemma stopped_slots:
  assumes "sched_inv c s"
  shows "length (time_object_list (stopTimerMonitor s)) = 10" "i < 10 \<Longrightarrow> \<not> used (time_object_list (stopTimerMonitor s) ! i)"
  using assms fold_delete_unused [of "s\<lparr>timer_monitor := Disarmed\<rparr>" "[0..<10]"]
  by (simp_all add: stopTimerMonitor_def deleteAllTimeObject_def IOTGO_DEVICE_TIMER_MAX_def sched_inv_def)

definition once_timer :: "'f sw_env \<Rightarrow> int \<Rightarrow> IoTgoGMTTime \<Rightarrow> string \<Rightarrow> IoTgoTimeObject" where
  "once_timer ev en g v =
     (sw_junk ev)\<lparr>ttype := IOTGO_TIME_TYPE_GMT, timing := TGmt g, tsch := Some SWITCH_ACTION,
       ptr := Some (bytes_of v @ [0]), enabled := en \<noteq> 0, used := True, time_compare_flag := 0\<rparr>"

definition once_stored :: "'f sw_env \<Rightarrow> int \<Rightarrow> IoTgoGMTTime \<Rightarrow> string \<Rightarrow> 'f sw \<Rightarrow> 'f sw" where
  "once_stored ev en g v s =
     (stopTimerMonitor s)\<lparr>live := live (stopTimerMonitor s) + 1,
       time_object_list := (time_object_list (stopTimerMonitor s))[0 := once_timer ev en g v]\<rparr>"

lemma once_added:
  assumes "sched_inv c s" "\<forall>n. sw_malloc ev n" "parseGMTTimeFromString (Some att) KNOW_DATE = (True, g)"
  shows "add_switch_timer ev (once_fields en att v) (stopTimerMonitor s) = Some (True, once_stored ev en g v s)"
proof -
  have upt: "[0..<10] = 0 # [Suc 0..<10]" by (simp add: upt_rec)
  have "copy_arg (bytes_of v) (length v) = Some (bytes_of v @ [0])" by (simp add: copy_arg_def bytes_of_def)
  then show ?thesis
    using assms(2,3) stopped_slots(2) [OF assms(1), of 0]
    by (simp add: add_switch_timer_def once_fields_def addTimeObjectByGMTString_def finish_add_def addOneTimeObject_def
        IOTGO_DEVICE_TIMER_MAX_def upt once_stored_def once_timer_def)
qed

lemma once_slots:
  assumes "sched_inv c s"
  shows "time_object_list (once_stored ev en g v s) ! 0 = once_timer ev en g v"
    "0 < i \<Longrightarrow> i < 10 \<Longrightarrow> \<not> used (time_object_list (once_stored ev en g v s) ! i)"
    "length (time_object_list (once_stored ev en g v s)) = 10" "env (once_stored ev en g v s) = env s"
  using stopped_slots [OF assms] by (simp_all add: once_stored_def)

lemma once_text: "v \<in> {''on'', ''off''} \<Longrightarrow> str_of (bytes_of v @ [0]) = v"
  by (auto simp: bytes_of_def str_of_def char_of_def bit_0)

lemma once_message_read:
  assumes "length att < 50" "v \<in> {''on'', ''off''}" "sw_toks ev data = once_message en att v"
    and "sched_inv c s" "\<forall>n. sw_malloc ev n" "parseGMTTimeFromString (Some att) KNOW_DATE = (True, g)"
  shows "update_loop ev (sw_toks ev data) \<lparr>su_sequence = None, su_params = False, su_switch = None, su_timers = None, su_startup = None\<rparr> s
    = Some (\<lparr>su_sequence = None, su_params = True, su_switch = None, su_timers = Some True, su_startup = None\<rparr>,
        once_stored ev en g v s)"
proof -
  let ?closing = "[JTok (CHR ''}'') [] 0, JTok (CHR '']'') [] 0, JTok (CHR ''}'') [] 0, JTok (CHR ''}'') [] 0]"
  let ?t = "once_stored ev en g v s"
  have one: "procOneTimer ev (once_object en att v @ ?closing) (stopTimerMonitor s) = (Some (True, ?t), ?closing)"
    by (simp add: procOneTimer_def once_read [OF assms(1,2)] once_added [OF assms(4-6)])
  have rest: "timers_loop ev ?closing ?t = Some (True, drop 2 ?closing, ?t)"
    by (simp add: timers_loop.simps jsonparse_next_def Let_def token_types)
  have all: "timers_loop ev (JTok JSON_TYPE_OBJECT [] 0 # once_object en att v @ ?closing) (stopTimerMonitor s)
      = Some (True, drop 2 ?closing, ?t)"
    by (subst timers_loop.simps) (simp add: jsonparse_next_def one rest Let_def token_types)
  then have par: "params_loop ev (JTok JSON_TYPE_PAIR_NAME ''timers'' 0 # JTok JSON_TYPE_PAIR [] 0 # JTok JSON_TYPE_ARRAY [] 0
      # JTok JSON_TYPE_OBJECT [] 0 # once_object en att v @ ?closing) u s
      = Some (u\<lparr>su_timers := Some True\<rparr>, [JTok (CHR ''}'') [] 0], ?t)" for u
    by (simp add: params_loop.simps jsonparse_next_def jsonIoTgoProcTimers_def Let_def token_types)
  have fin: "update_loop ev [JTok (CHR ''}'') [] 0] u ?t = Some (u, ?t)" for u
    by (simp add: update_loop.simps jsonparse_next_def Let_def token_types)
  show ?thesis
    unfolding assms(3) once_message_def
    by (subst update_loop.simps) (simp add: jsonparse_next_def par [unfolded token_types] fin Let_def token_types)
qed

text \<open>
  C28: A message of the server with one one-shot timer is read, the timers that were set before are
  dropped, and the new one is stored and monitored; the relay stays as it is.  From then on the
  monitor switches the relay on or off in the second that begins the minute of the timer, and
  frees the timer, and in any other second, or if the timer is not enabled, it does nothing.
\<close>

theorem server_timer_switches:
  assumes "sw_toks ev data = once_message en (gmt_text g ms) v" "v \<in> {''on'', ''off''}"
    and "gmt_valid g" "2000 < year g" "year g < 10000" "\<forall>n. sw_malloc ev n" "sched_inv c s"
  shows "\<exists>s1. sw_switchReqUpdateCallback ev data s = Some s1 \<and> timer_monitor s1 = Armed 1000 True \<and> relay (env s1) = relay (env s)
    \<and> (\<forall>now. \<exists>s2. timerMonitorCallback (sw_call ev) now s1 = Some s2 \<and>
        (if en \<noteq> 0 \<and> now = g\<lparr>second := 0\<rparr>
         then relay (env s2) = (if v = ''on'' then SWITCH_ON else SWITCH_OFF) \<and> (\<forall>i<10. \<not> used (time_object_list s2 ! i))
         else s2 = s1))"
proof -
  define t where "t = once_stored ev en g v s"
  define u where "u = \<lparr>su_sequence = None, su_params = True, su_switch = None, su_timers = Some True, su_startup = None\<rparr>"
  define sa where "sa = apply_update ev u t"
  note slots = once_slots [OF assms(7), where ev = ev and en = en and g = g and v = v, folded t_def]
  have call: "sw_switchReqUpdateCallback ev data s = Some sa"
    using once_message_read [OF _ assms(2,1,7,6) parseGMT_gmt_text [OF assms(3-5)]] gmt_text_fields(1) [of g ms] by (simp add: sw_switchReqUpdateCallback_def sa_def u_def t_def)
  have sa: "timer_monitor sa = Armed 1000 True" "time_object_list sa = time_object_list t" "relay (env sa) = relay (env s)"
    using slots(4) by (simp_all add: sa_def u_def apply_update_def on_sw_def startTimerMonitor_def sw_post_device_def)
  have mon: "timerMonitorCallback (sw_call ev) now sa =
      Option.bind (monitor_slot (sw_call ev) now 0 sa) (monitor_loop (sw_call ev) now [Suc 0..<10])" for now
    by (simp add: timerMonitorCallback_def IOTGO_DEVICE_TIMER_MAX_def upt_rec [of 0])
  have rest: "monitor_loop (sw_call ev) now [Suc 0..<10] w = Some w"
    if "\<And>i. 0 < i \<Longrightarrow> i < 10 \<Longrightarrow> time_object_list w ! i = time_object_list sa ! i" for w now
    using that slots(2) sa(2) by (intro monitor_loop_unused) auto
  have ob: "time_object_list sa ! 0 = once_timer ev en g v" using sa(2) slots(1) by simp
  have step: "\<exists>w. timerMonitorCallback (sw_call ev) now sa = Some w \<and>
      (if en \<noteq> 0 \<and> now = g\<lparr>second := 0\<rparr>
       then relay (env w) = (if v = ''on'' then SWITCH_ON else SWITCH_OFF) \<and> (\<forall>i<10. \<not> used (time_object_list w ! i))
       else w = sa)" for now
  proof (cases "en \<noteq> 0 \<and> now = g\<lparr>second := 0\<rparr>")
    case True
    define w where "w = snd (deleteOneTimeObject 0 (on_sw (sw_action ev (Some (bytes_of v @ [0]))) sa))"
    have "monitor_slot (sw_call ev) now 0 sa = Some w"
      using True gmt_slot [OF ob, of g SWITCH_ACTION "sw_call ev" now] by (simp add: once_timer_def w_def sw_call_def)
    moreover have "time_object_list w = (time_object_list sa)[0 := zero_object]"
      using ob by (simp add: w_def deleteOneTimeObject_def IOTGO_DEVICE_TIMER_MAX_def on_sw_def once_timer_def)
    moreover have "relay (env w) = (if v = ''on'' then SWITCH_ON else SWITCH_OFF)"
      using assms(2) by (auto simp: w_def on_sw_def sw_action_def once_text sw_post_device_def)
    ultimately show ?thesis
      using True rest [of w now] slots(2,3) sa(2) by (simp add: mon nth_list_update zero_object_def)
  next
    case False
    then have "monitor_slot (sw_call ev) now 0 sa = Some sa"
      using gmt_slot [OF ob, of g SWITCH_ACTION "sw_call ev" now]
      by (cases "en = 0"; cases now; cases g) (auto simp: once_timer_def monitor_slot_def ob)
    with False rest [of sa now] show ?thesis by (auto simp: mon)
  qed
  show ?thesis using call sa(1,3) step by blast
qed

definition timer_env :: "(nat \<Rightarrow> bytes) sw_env" where
  "timer_env = demo_sw_env\<lparr>sw_toks := (\<lambda>_. once_message 1 (gmt_text (noon 4 0) 0) ''on'')\<rparr>"

theorem server_timer_switches_witness:
  "\<exists>s1. sw_switchReqUpdateCallback timer_env [] demo_sw = Some s1
    \<and> (\<exists>s2. timerMonitorCallback (sw_call timer_env) (noon 4 0) s1 = Some s2 \<and> relay (env s2) = SWITCH_ON)
    \<and> timerMonitorCallback (sw_call timer_env) (noon 4 1) s1 = Some s1"
proof -
  have "gmt_valid (noon 4 0)" using noon_date [of 4 0] by (simp add: sched_date_def)
  then obtain sa where sa: "sw_switchReqUpdateCallback timer_env [] demo_sw = Some sa"
    "\<And>now. \<exists>w. timerMonitorCallback (sw_call timer_env) now sa = Some w \<and>
      (if (1::int) \<noteq> 0 \<and> now = (noon 4 0)\<lparr>second := 0\<rparr>
       then relay (env w) = (if ''on'' = ''on'' then SWITCH_ON else SWITCH_OFF) \<and> (\<forall>i<10. \<not> used (time_object_list w ! i))
       else w = sa)"
    using server_timer_switches [of timer_env "[]" 1 "noon 4 0" 0 "''on''" 0 demo_sw] demo_sw_inv
    by (auto simp: timer_env_def demo_sw_env_def noon_def)
  from sa(2) [of "noon 4 0"] sa(2) [of "noon 4 1"] sa(1) show ?thesis by (auto simp: noon_def)
qed

end
