(* ===== verification/Sled.thy ===== *)
theory Sled
  imports Net
begin

text \<open>
  The status LED, \<open>app/user/iotgo_sled.c\<close>: a timer of 100 ms shows the mode of the device by a
  pattern of two seconds.
\<close>

subsection \<open>State and operations\<close>

definition DEV_SLED_ON :: nat where "DEV_SLED_ON = 0"
definition DEV_SLED_OFF :: nat where "DEV_SLED_OFF = 1"

text \<open>\<open>sled_pin\<close> is the level of the output pin.\<close>

record sled =
  mode_indicator_timer :: os_timer
  mode_indicator :: nat
  sled_pin :: nat
  status_100ms_counter :: nat
  old_mode :: IoTgoDeviceMode

definition modeIndicatorOn :: "sled \<Rightarrow> sled" where
  "modeIndicatorOn s = s\<lparr>sled_pin := DEV_SLED_ON, mode_indicator := DEV_SLED_ON\<rparr>"

definition modeIndicatorOff :: "sled \<Rightarrow> sled" where
  "modeIndicatorOff s = s\<lparr>sled_pin := DEV_SLED_OFF, mode_indicator := DEV_SLED_OFF\<rparr>"

definition indicator_toggle :: "sled \<Rightarrow> sled" where
  "indicator_toggle s = (if mode_indicator s = DEV_SLED_OFF then modeIndicatorOn s else modeIndicatorOff s)"

text \<open>\<open>led_off\<close> is the setting \<open>normal_mode_led_off\<close>.\<close>

definition show_mode :: "IoTgoDeviceMode \<Rightarrow> bool \<Rightarrow> sled \<Rightarrow> sled" where
  "show_mode mode led_off s =
     (let n = status_100ms_counter s in
      case mode of
        DEVICE_MODE_WORK_NORMAL \<Rightarrow>
          if \<not> led_off then (if mode_indicator s \<noteq> DEV_SLED_ON then modeIndicatorOn s else s)
          else (if mode_indicator s \<noteq> DEV_SLED_OFF then modeIndicatorOff s else s)
      | DEVICE_MODE_WORK_AP_OK \<Rightarrow>
          if n = 1 then modeIndicatorOn s else if n = 2 then modeIndicatorOff s
          else if n = 3 then modeIndicatorOn s else modeIndicatorOff s
      | DEVICE_MODE_WORK_AP_ERR \<Rightarrow> if n = 1 then modeIndicatorOn s else modeIndicatorOff s
      | DEVICE_MODE_WORK_INIT \<Rightarrow> if n mod 10 = 0 then indicator_toggle s else s
      | DEVICE_MODE_SETTING \<Rightarrow>
          if n < 9 then (if mode_indicator s \<noteq> DEV_SLED_ON then modeIndicatorOn s else s)
          else if n mod 2 = 0 then indicator_toggle s else s
      | DEVICE_MODE_SETTING_SELFAP \<Rightarrow> if n mod 2 = 0 then indicator_toggle s else s
      | DEVICE_MODE_START \<Rightarrow> modeIndicatorOff s
      | DEVICE_MODE_FACTORY \<Rightarrow>
          if n = 1 then modeIndicatorOn s else if n = 2 then modeIndicatorOff s
          else if n = 3 then modeIndicatorOn s else if n = 4 then modeIndicatorOff s
          else if n = 5 then modeIndicatorOn s else if n = 6 then modeIndicatorOff s
          else if n = 7 then modeIndicatorOn s else if n = 8 then modeIndicatorOff s
          else if n = 9 then modeIndicatorOn s else modeIndicatorOff s
      | _ \<Rightarrow> modeIndicatorOff s)"

definition modeIndicatorTimerCallback :: "IoTgoDeviceMode \<Rightarrow> bool \<Rightarrow> sled \<Rightarrow> sled" where
  "modeIndicatorTimerCallback mode led_off s =
     (let s = s\<lparr>status_100ms_counter := to_u32 (int (status_100ms_counter s) + 1)\<rparr>;
          s = (if old_mode s \<noteq> mode then s\<lparr>old_mode := mode, status_100ms_counter := 0\<rparr> else s);
          s = (if status_100ms_counter s \<ge> 20 then s\<lparr>status_100ms_counter := 0\<rparr> else s)
      in show_mode mode led_off s)"

definition initStatusIndicator :: "sled \<Rightarrow> sled" where
  "initStatusIndicator s = modeIndicatorOff s"

definition iotgoSledStart :: "sled \<Rightarrow> sled" where
  "iotgoSledStart s = (initStatusIndicator s)\<lparr>mode_indicator_timer := Armed 100 True\<rparr>"

subsection \<open>The patterns\<close>

text \<open>
  The light \<open>n\<close> periods after a mode was entered: given by the position in a pattern of 20 periods,
  or, for the two blinking modes, by the light before, \<open>on\<close>.
\<close>

definition led_pattern :: "IoTgoDeviceMode \<Rightarrow> bool \<Rightarrow> bool \<Rightarrow> nat \<Rightarrow> bool" where
  "led_pattern mode led_off on n =
     (case mode of
        DEVICE_MODE_WORK_NORMAL \<Rightarrow> \<not> led_off
      | DEVICE_MODE_WORK_AP_OK \<Rightarrow> n mod 20 \<in> {1, 3}
      | DEVICE_MODE_WORK_AP_ERR \<Rightarrow> n mod 20 = 1
      | DEVICE_MODE_WORK_INIT \<Rightarrow> on \<noteq> even (n div 10)
      | DEVICE_MODE_SETTING \<Rightarrow> n mod 20 < 10 \<or> n mod 20 \<in> {12, 13, 16, 17}
      | DEVICE_MODE_SETTING_SELFAP \<Rightarrow> on \<noteq> even (n div 2)
      | DEVICE_MODE_FACTORY \<Rightarrow> n mod 20 \<in> {1, 3, 5, 7, 9}
      | _ \<Rightarrow> False)"

definition level :: "bool \<Rightarrow> nat" where
  "level b = (if b then DEV_SLED_ON else DEV_SLED_OFF)"

lemma indicator_levels [simp]:
  "sled_pin (modeIndicatorOn s) = level True" "mode_indicator (modeIndicatorOn s) = level True"
  "sled_pin (modeIndicatorOff s) = level False" "mode_indicator (modeIndicatorOff s) = level False"
  "(level a = level b) = (a = b)" "(level a = DEV_SLED_ON) = a" "(level a = DEV_SLED_OFF) = (\<not> a)"
  by (auto simp: modeIndicatorOn_def modeIndicatorOff_def level_def DEV_SLED_ON_def DEV_SLED_OFF_def)

lemma indicator_keeps [simp]:
  "status_100ms_counter (modeIndicatorOn s) = status_100ms_counter s" "old_mode (modeIndicatorOn s) = old_mode s"
  "status_100ms_counter (modeIndicatorOff s) = status_100ms_counter s" "old_mode (modeIndicatorOff s) = old_mode s"
  by (simp_all add: modeIndicatorOn_def modeIndicatorOff_def)

lemma indicator_toggle_levels [simp]:
  "mode_indicator s = level on \<Longrightarrow> indicator_toggle s = (if on then modeIndicatorOff s else modeIndicatorOn s)"
  by (simp add: indicator_toggle_def)

lemma show_mode_keeps [simp]: "status_100ms_counter (show_mode m b s) = status_100ms_counter s" "old_mode (show_mode m b s) = old_mode s"
  by (cases m; simp add: show_mode_def Let_def indicator_toggle_def)+

definition lit :: "bool \<Rightarrow> sled \<Rightarrow> bool" where
  "lit on s \<longleftrightarrow> sled_pin s = level on \<and> mode_indicator s = level on"

lemma lit_set [simp]: "lit on (modeIndicatorOn s) = on" "lit on (modeIndicatorOff s) = (\<not> on)"
  by (auto simp: lit_def)

lemma div_next: "0 < k \<Longrightarrow> Suc n div k = (if Suc n mod k = 0 then Suc (n div k) else n div k)"
  by (simp add: div_Suc)

lemma twenty: "(n mod 20) mod 10 = n mod (10 :: nat)" "(n mod 20) mod 2 = n mod (2 :: nat)"
  by (simp_all add: mod_mod_cancel)

text \<open>The patterns that do not depend on the light before.\<close>

lemma show_fixed:
  assumes "lit on s" "status_100ms_counter s = n mod 20" "m \<notin> {DEVICE_MODE_WORK_INIT, DEVICE_MODE_SETTING, DEVICE_MODE_SETTING_SELFAP}"
  shows "lit (led_pattern m b x n) (show_mode m b s)"
  using assms by (cases m) (auto simp: show_mode_def led_pattern_def Let_def lit_def)

text \<open>The blinking ones: the first period turns the light over, each later one keeps it or turns it over.\<close>

lemma show_blink:
  fixes k :: nat
  assumes "lit on s" "status_100ms_counter s = n mod 20" "(m, k) \<in> {(DEVICE_MODE_WORK_INIT, 10), (DEVICE_MODE_SETTING_SELFAP, 2)}"
    and "on = (if n = 0 then x else led_pattern m b x (n - 1))"
  shows "lit (led_pattern m b x n) (show_mode m b s)"
proof -
  have ind: "mode_indicator s = level on" using assms(1) by (simp add: lit_def)
  have run: "show_mode m b s = (if n mod k = 0 then (if on then modeIndicatorOff s else modeIndicatorOn s) else s)"
    using assms(2,3) ind by (auto simp: show_mode_def twenty)
  have pat: "led_pattern m b x j \<longleftrightarrow> x \<noteq> even (j div k)" for j
    using assms(3) by (auto simp: led_pattern_def)
  have "0 < k" using assms(3) by auto
  show ?thesis
  proof (cases n)
    case 0
    with assms(4) run pat [of 0] show ?thesis by simp
  next
    case (Suc j)
    with assms(4) pat [of j] have on: "on \<longleftrightarrow> x \<noteq> even (j div k)" by simp
    have "(x \<noteq> even (n div k)) \<longleftrightarrow> (if n mod k = 0 then \<not> on else on)"
      unfolding Suc div_next [OF \<open>0 < k\<close>] on by simp
    with assms(1) show ?thesis unfolding run pat by simp
  qed
qed

lemma late_periods: "8 \<le> i \<Longrightarrow> i \<le> 18 \<Longrightarrow> i \<in> {8, 9, 10, 11, 12, 13, 14, 15, 16, 17, 18 :: nat}"
  by (simp, presburger)

lemma show_setting:
  assumes "lit on s" "status_100ms_counter s = n mod 20"
    and "0 < n \<longrightarrow> on = led_pattern DEVICE_MODE_SETTING b x (n - 1)"
  shows "lit (led_pattern DEVICE_MODE_SETTING b x n) (show_mode DEVICE_MODE_SETTING b s)"
proof -
  have ind: "mode_indicator s = level on" using assms(1) by (simp add: lit_def)
  show ?thesis
  proof (cases "n mod 20 < 9")
    case True
    with assms(1,2) show ?thesis by (auto simp: show_mode_def led_pattern_def Let_def lit_def)
  next
    case False
    then obtain k where k: "n = Suc k" by (cases n) auto
    with False have "n mod 20 = Suc (k mod 20)" by (auto simp: mod_Suc split: if_splits)
    moreover have "8 \<le> k mod 20" "k mod 20 \<le> 18" using \<open>n mod 20 = Suc (k mod 20)\<close> False mod_less_divisor [of 20 n] by simp_all
    then have "k mod 20 \<in> {8, 9, 10, 11, 12, 13, 14, 15, 16, 17, 18}" by (rule late_periods)
    moreover have "on \<longleftrightarrow> k mod 20 < 10 \<or> k mod 20 \<in> {12, 13, 16, 17}" using assms(3) k by (simp add: led_pattern_def)
    moreover have "show_mode DEVICE_MODE_SETTING b s = (if n mod 20 mod 2 = 0 then (if on then modeIndicatorOff s else modeIndicatorOn s) else s)"
      using False assms(2) ind by (simp add: show_mode_def)
    ultimately show ?thesis
      using assms(1) unfolding led_pattern_def by (elim insertE emptyE) (simp_all)
  qed
qed

lemma callback_step:
  assumes "lit on s"
    and "if n = 0 then old_mode s \<noteq> m \<and> on = x
      else old_mode s = m \<and> status_100ms_counter s = (n - 1) mod 20 \<and> on = led_pattern m b x (n - 1)"
  shows "lit (led_pattern m b x n) (modeIndicatorTimerCallback m b s)
    \<and> old_mode (modeIndicatorTimerCallback m b s) = m \<and> status_100ms_counter (modeIndicatorTimerCallback m b s) = n mod 20"
proof -
  define t where "t = s\<lparr>old_mode := m, status_100ms_counter := n mod 20\<rparr>"
  have less: "(n - 1) mod 20 < 20" by simp
  then have "to_u32 (int ((n - 1) mod 20) + 1) = (n - 1) mod 20 + 1"
    using to_u32_small [of "(n - 1) mod 20 + 1"] by (simp add: ac_simps)
  moreover have "n mod 20 = (if (n - 1) mod 20 + 1 \<ge> 20 then 0 else (n - 1) mod 20 + 1)" if "n \<noteq> 0"
    using that less by (cases n) (auto simp: mod_Suc)
  moreover have "t = s\<lparr>status_100ms_counter := n mod 20\<rparr>" if "old_mode s = m"
    using that by (cases s) (simp add: t_def)
  moreover have "t = s\<lparr>old_mode := m, status_100ms_counter := 0\<rparr>" if "n = 0" using that by (simp add: t_def)
  ultimately have "modeIndicatorTimerCallback m b s = show_mode m b t"
    using assms(2) by (cases "n = 0") (simp_all add: modeIndicatorTimerCallback_def Let_def)
  moreover have t: "lit on t" "status_100ms_counter t = n mod 20" "old_mode t = m"
    using assms(1) by (simp_all add: t_def lit_def)
  moreover have "lit (led_pattern m b x n) (show_mode m b t)"
  proof -
    consider "m \<notin> {DEVICE_MODE_WORK_INIT, DEVICE_MODE_SETTING, DEVICE_MODE_SETTING_SELFAP}" | "m = DEVICE_MODE_SETTING"
      | k :: nat where "(m, k) \<in> {(DEVICE_MODE_WORK_INIT, 10), (DEVICE_MODE_SETTING_SELFAP, 2)}" by blast
    then show ?thesis
      using show_fixed [OF t(1,2)] show_setting [OF t(1,2), of b x] show_blink [OF t(1,2), of m _ x b] assms(2)
      by cases (auto split: if_split_asm)
  qed
  ultimately show ?thesis by simp
qed


definition demo_sled :: sled where
  "demo_sled = \<lparr>mode_indicator_timer = Disarmed, mode_indicator = DEV_SLED_ON, sled_pin = DEV_SLED_ON,
     status_100ms_counter = 17, old_mode = DEVICE_MODE_WORK_NORMAL\<rparr>"


end
