(* ===== verification/Setting.thy ===== *)
theory Setting
  imports PconnRun Upgrade Param
begin

text \<open>
  The setting modes, \<open>app/user/iotgo_setting.c\<close>: a small web server through which an app gives the
  device its access point and its server, and the smart configuration of the SDK.  The functions the
  network task calls are run in \<open>setting_task\<close> for the calls it records.
\<close>

subsection \<open>State\<close>

datatype setting_sdk_call =
  TcpAccept nat | TcpDisconnect | SmartconfigSetType | SmartconfigStart | SmartconfigStop
| StationSetConfig station_config | StationDisconnect | StationConnect

definition SETTING_MODE_JSON_BUFFER_SIZE :: nat where
  "SETTING_MODE_JSON_BUFFER_SIZE = IOTGO_JSON_BUFFER_SIZE"

definition SETTING_MODE_HTTP_BUFFER_SIZE :: nat where
  "SETTING_MODE_HTTP_BUFFER_SIZE = IOTGO_JSON_BUFFER_SIZE + 512"

text \<open>The null pointer is \<open>None\<close>; \<open>se_sent\<close> are the texts given to \<open>espconn_send\<close>.\<close>

record 'f setting_state =
  se_net :: net
  iotgo_flash_param :: IoTgoFlashParam
  se_flash :: 'f
  setting_mode_http_buffer :: "bytes option"
  setting_mode_json_buffer :: "bytes option"
  setting_spro :: "spro option"
  start_tcp_listen_timer :: os_timer
  setting_delay_resp_app_timer :: os_timer
  waiting_client_timer :: os_timer
  is_setting_started :: bool
  setting_timeout_counter :: nat
  setting_timeout_timer :: os_timer
  smartconfig_started_flag :: bool
  smartconfig_join_ap_timer :: os_timer
  smartconfig_ap_joined_flag :: bool
  exit_setting_flag :: bool
  se_sent :: "bytes list"
  se_calls :: "setting_sdk_call list"

text \<open>
  The environment: the tokenizer and the printer of JSON, the flash, the blocks the heap gives
  (the packet assembler, the two buffers, the parser), and what a fresh block holds.
\<close>

record 'f setting_env =
  st_toks :: "string \<Rightarrow> jtok list"
  st_json_reset :: "jsontree_context \<Rightarrow> jsontree_context"
  st_json_printed :: "jsontree_context \<Rightarrow> bytes"
  st_json_block :: "bytes option"
  st_spi :: "'f spi"
  st_spro_mem :: bool
  st_http_mem :: bool
  st_json_mem :: bool
  st_parser_mem :: bool
  st_junk :: "nat \<Rightarrow> bytes"

definition se_post :: "IoTgoSignalSet \<Rightarrow> nat \<Rightarrow> 'f setting_state \<Rightarrow> 'f setting_state" where
  "se_post m par s = s\<lparr>se_net := post_core m par (se_net s)\<rparr>"

definition se_call :: "setting_sdk_call \<Rightarrow> 'f setting_state \<Rightarrow> 'f setting_state" where
  "se_call c s = s\<lparr>se_calls := se_calls s @ [c]\<rparr>"

definition se_mode :: "'f setting_state \<Rightarrow> IoTgoDeviceMode" where
  "se_mode s = iotgoDeviceMode (se_net s)"

definition save_flash_param :: "'f setting_env \<Rightarrow> IoTgoFlashParam \<Rightarrow> 'f setting_state \<Rightarrow> 'f setting_state" where
  "save_flash_param env p s = s\<lparr>iotgo_flash_param := p, se_flash := save_param (st_spi env) p (se_flash s)\<rparr>"

subsection \<open>What the app sends\<close>

text \<open>The text is copied into an array, which keeps what is behind the terminator.\<close>

definition copy_value :: "bytes \<Rightarrow> string \<Rightarrow> bytes" where
  "copy_value arr v = (let t = bytes_of (take (length arr - 1) v) in t @ 0 # drop (Suc (length t)) arr)"

record setting_fields =
  sf_ssid :: bool
  sf_pass :: bool
  sf_domain_flag :: bool
  sf_port_flag :: bool
  ssid_str :: bytes
  pass_str :: bytes
  distor_domain :: bytes
  distor_port :: int

definition no_setting :: setting_fields where
  "no_setting = \<lparr>sf_ssid = False, sf_pass = False, sf_domain_flag = False, sf_port_flag = False,
     ssid_str = replicate 32 0, pass_str = replicate 64 0, distor_domain = replicate 51 0, distor_port = 0\<rparr>"

definition setting_value :: "string \<Rightarrow> jtok list \<Rightarrow> setting_fields \<Rightarrow> setting_fields option \<times> jtok list" where
  "setting_value name ts f =
     (if name = ''ssid'' then
        map_prod (map_option (\<lambda>x. f\<lparr>ssid_str := copy_value (ssid_str f) x, sf_ssid := True\<rparr>)) (\<lambda>us. us) (jsonIoTgoGetString 32 ts)
      else if name = ''password'' then
        map_prod (map_option (\<lambda>x. f\<lparr>pass_str := copy_value (pass_str f) x, sf_pass := True\<rparr>)) (\<lambda>us. us) (jsonIoTgoGetString 64 ts)
      else if name = ''serverName'' then
        map_prod (map_option (\<lambda>x. f\<lparr>distor_domain := text_array 51 x, sf_domain_flag := True\<rparr>)) (\<lambda>us. us) (jsonIoTgoGetString 51 ts)
      else if name = ''port'' then
        map_prod (map_option (\<lambda>x. f\<lparr>distor_port := x, sf_port_flag := True\<rparr>)) (\<lambda>us. us) (jsonIoTgoGetNumber ts)
      else (Some f, ts))"

lemma get_number_shorter: "length (snd (jsonIoTgoGetNumber ts)) \<le> length ts"
  by (cases "jsonIoTgoGetNumber ts") (simp add: get_shorter(1))

lemma setting_value_le: "length (snd (setting_value name ts f)) \<le> length ts"
  by (simp add: setting_value_def get_string_shorter get_number_shorter)

function setting_loop :: "jtok list \<Rightarrow> setting_fields \<Rightarrow> setting_fields" where
  "setting_loop ts f =
     (let t = fst (jsonparse_next ts); us = snd (jsonparse_next ts); w = setting_value (jt_value t) us f
      in if jt_type t = JSON_TYPE_ERROR then f
         else if jt_type t \<noteq> JSON_TYPE_PAIR_NAME then setting_loop us f
         else (case fst w of None \<Rightarrow> f | Some g \<Rightarrow> setting_loop (snd w) g))"
  by pat_completeness auto

termination
  by (relation "measure (length \<circ> fst)") (auto intro: next_shorter(2) le_less_trans [OF setting_value_le next_shorter(2)])

declare setting_loop.simps [simp del]

definition setting_apply :: "'f setting_env \<Rightarrow> setting_fields \<Rightarrow> 'f setting_state \<Rightarrow> 'f setting_state" where
  "setting_apply env f s =
     (let p = iotgo_flash_param s;
          server = (\<lambda>p. p\<lparr>fp_distributor_host := distor_domain f, fp_distributor_port := to_u32 (distor_port f)\<rparr>);
          station = (\<lambda>p. p\<lparr>fp_sta_config := (fp_sta_config p)\<lparr>sta_ssid := ssid_str f, sta_password := pass_str f\<rparr>\<rparr>)
      in if se_mode s = DEVICE_MODE_SETTING \<and> sf_domain_flag f \<and> sf_port_flag f
         then se_post MSG_CORE_SETTING_RESP_TO_APP 5 (save_flash_param env (server p) s)
         else if se_mode s = DEVICE_MODE_SETTING_SELFAP \<and> sf_ssid f \<and> sf_pass f \<and> sf_domain_flag f \<and> sf_port_flag f
         then se_post MSG_CORE_SETTING_RESP_TO_APP 5 (save_flash_param env (server (station p)) s)
         else s)"

text \<open>A search that finds nothing needs a terminator; without memory for the parser there is no result.\<close>

definition svrSproOnePkgCb :: "'f setting_env \<Rightarrow> bytes \<Rightarrow> 'f setting_state \<Rightarrow> 'f setting_state option" where
  "svrSproOnePkgCb env pdata s =
     (let text = str_of pdata
      in if c_strstr text ''GET /device HTTP/1.1'' \<noteq> None then Some (se_post MSG_CORE_SETTING_SEND_ID_TO_APP 0 s)
         else if 0 \<notin> set pdata then None
         else
           (case (c_strstr text ''POST /ap HTTP/1.1'', c_strstr text ''{'', c_strstr text ''}'') of
              (Some _, Some i, Some _) \<Rightarrow>
                if st_parser_mem env then Some (setting_apply env (setting_loop (st_toks env (drop i text)) no_setting) s)
                else None
            | _ \<Rightarrow> Some (setting_apply env no_setting s)))"

text \<open>The calls the packet assembler makes; \<open>behind\<close> stands for what its buffer holds behind the packet.\<close>

fun svr_packages :: "'f setting_env \<Rightarrow> bytes \<Rightarrow> package list \<Rightarrow> 'f setting_state \<Rightarrow> 'f setting_state option" where
  "svr_packages env behind [] s = Some s"
| "svr_packages env behind (p # ps) s = Option.bind (svrSproOnePkgCb env (pkg_bytes p @ behind) s) (svr_packages env behind ps)"

definition svrTCPRecvCallback :: "'f setting_env \<Rightarrow> bytes \<Rightarrow> nat \<Rightarrow> bytes \<Rightarrow> 'f setting_state \<Rightarrow> 'f setting_state option" where
  "svrTCPRecvCallback env behind arg pdata s =
     (if is_setting_started s then do {
        obj \<leftarrow> spTcpRecv (setting_spro s) arg (Some pdata);
        svr_packages env behind (new_packages (setting_spro s) obj) (s\<lparr>setting_spro := obj\<rparr>)
      } else Some s)"

text \<open>The timer of the packet assembler, which hands over an unfinished message.\<close>

definition setting_spro_timer :: "'f setting_env \<Rightarrow> bytes \<Rightarrow> 'f setting_state \<Rightarrow> 'f setting_state option" where
  "setting_spro_timer env behind s =
     do {
       obj \<leftarrow> spro10sTimerCallback (setting_spro s);
       svr_packages env behind (new_packages (setting_spro s) obj) (s\<lparr>setting_spro := obj\<rparr>)
     }"

definition svrTCPReconnCallback :: "'f setting_state \<Rightarrow> 'f setting_state" where "svrTCPReconnCallback s = s"
definition svrTCPDisconnCallback :: "'f setting_state \<Rightarrow> 'f setting_state" where "svrTCPDisconnCallback s = s"
definition svrTCPSendCallback :: "'f setting_state \<Rightarrow> 'f setting_state" where "svrTCPSendCallback s = s"
definition svrTCPConnectedCallback :: "'f setting_state \<Rightarrow> 'f setting_state" where "svrTCPConnectedCallback s = s"

definition startTCPListen :: "'f setting_state \<Rightarrow> 'f setting_state" where
  "startTCPListen s = se_call (TcpAccept 80) s"

subsection \<open>Answers\<close>

text \<open>A text in a zeroed array.\<close>

definition put_text :: "nat \<Rightarrow> bytes \<Rightarrow> bytes option" where
  "put_text n t = (if length t < n then Some (t @ replicate (n - length t) 0) else None)"

definition http_answer :: "bytes \<Rightarrow> bytes" where
  "http_answer json =
     bytes_of (''HTTP/1.1 200 OK'' @ crlf @ ''Content-Type: application/json'' @ crlf @ ''Connection: keep-alive'' @ crlf
       @ ''Content-Length: '' @ nat_dec (length json) @ crlf @ crlf) @ json"

definition fill_http :: "bytes \<Rightarrow> 'f setting_state \<Rightarrow> 'f setting_state option" where
  "fill_http json s =
     do {
       _ \<leftarrow> setting_mode_http_buffer s;
       _ \<leftarrow> setting_mode_json_buffer s;
       _ \<leftarrow> c_strlen json;
       http \<leftarrow> put_text SETTING_MODE_HTTP_BUFFER_SIZE (http_answer (c_string json));
       Some (s\<lparr>setting_mode_json_buffer := Some json, setting_mode_http_buffer := Some http\<rparr>)
     }"

definition send_http :: "'f setting_state \<Rightarrow> 'f setting_state option" where
  "send_http s =
     do {
       buf \<leftarrow> setting_mode_http_buffer s;
       _ \<leftarrow> c_strlen buf;
       Some (s\<lparr>se_sent := se_sent s @ [c_string buf]\<rparr>)
     }"

definition id_to_app :: "'f setting_state \<Rightarrow> jsontree_value" where
  "id_to_app s =
     (let d = fp_factory_data (iotgo_flash_param s)
      in JtObject [(''id_to_app'', JtObject [(''deviceid'', JtString (str_of (fd_deviceid d))),
           (''apikey'', JtString (str_of (fd_factory_apikey d))), (''accept'', JtString ''post'')])])"

definition iotgoSettingSendDeviceInfoToApp :: "'f setting_env \<Rightarrow> 'f setting_state \<Rightarrow> 'f setting_state option" where
  "iotgoSettingSendDeviceInfoToApp env s =
     do {
       json \<leftarrow> json_ws_send (st_json_reset env) (st_json_printed env) (st_json_block env) (id_to_app s) ''id_to_app''
                 (replicate SETTING_MODE_JSON_BUFFER_SIZE 0);
       s \<leftarrow> fill_http json (s\<lparr>waiting_client_timer := Disarmed\<rparr>);
       send_http s
     }"

definition settingDelayRespAppTimerCb :: "'f setting_state \<Rightarrow> 'f setting_state option" where
  "settingDelayRespAppTimerCb s =
     do {
       s \<leftarrow> send_http s;
       Some (if exit_setting_flag s then
               (if se_mode s = DEVICE_MODE_SETTING then se_post MSG_CORE_EXIT_SETTING_MODE 0 s
                else if se_mode s = DEVICE_MODE_SETTING_SELFAP then se_post MSG_CORE_EXIT_SETTING_SELFAP_MODE 0 s
                else s)
             else s)
     }"

text \<open>The states of the station are numbered as in \<open>Wifi\<close>.\<close>

definition in_quotes :: "string \<Rightarrow> string" where
  "in_quotes t = [CHR 0x22] @ t @ [CHR 0x22]"

definition response_text :: "nat \<Rightarrow> string" where
  "response_text par =
     (let failed = (\<lambda>code reason. ''{'' @ in_quotes ''error'' @ '':'' @ code @ '','' @ in_quotes ''reason'' @ '':'' @ in_quotes reason @ ''}'')
      in if par = 5 then ''{'' @ in_quotes ''error'' @ '':0}''
         else if par = 1 then failed ''400'' ''timeout''
         else if par = 2 then failed ''401'' ''Wrong password''
         else if par = 3 then failed ''402'' ''No AP found''
         else if par = 4 then failed ''403'' ''Connect failed''
         else failed ''404'' ''Unknown exception'')"

definition iotgoSettingSendRespToApp :: "nat \<Rightarrow> 'f setting_state \<Rightarrow> 'f setting_state option" where
  "iotgoSettingSendRespToApp par s =
     do {
       json \<leftarrow> put_text SETTING_MODE_JSON_BUFFER_SIZE (bytes_of (response_text par));
       s \<leftarrow> fill_http json (s\<lparr>exit_setting_flag := (par = 5)\<rparr>);
       Some (s\<lparr>setting_delay_resp_app_timer := Armed 3 False\<rparr>)
     }"

subsection \<open>Time limits\<close>

definition cbSettingModeTimeoutListenerTimer :: "'f setting_state \<Rightarrow> 'f setting_state" where
  "cbSettingModeTimeoutListenerTimer s =
     (let s = s\<lparr>setting_timeout_counter := to_u32 (int (setting_timeout_counter s) + 1)\<rparr>
      in if setting_timeout_counter s \<ge> 180 then
           (let s = s\<lparr>setting_timeout_counter := 0\<rparr>
            in if se_mode s = DEVICE_MODE_SETTING then se_post MSG_CORE_EXIT_SETTING_MODE 0 s
               else if se_mode s = DEVICE_MODE_SETTING_SELFAP then se_post MSG_CORE_EXIT_SETTING_SELFAP_MODE 0 s
               else s)
         else s)"

definition iotgoSettingTimeoutMonitorStop :: "'f setting_state \<Rightarrow> 'f setting_state" where
  "iotgoSettingTimeoutMonitorStop s = s\<lparr>setting_timeout_counter := 0, setting_timeout_timer := Disarmed\<rparr>"

definition iotgoSettingTimeoutMonitorStart :: "'f setting_state \<Rightarrow> 'f setting_state" where
  "iotgoSettingTimeoutMonitorStart s = s\<lparr>setting_timeout_counter := 0, setting_timeout_timer := Armed 1000 True\<rparr>"

subsection \<open>The server\<close>

definition iotgoSettingServerStop :: "'f setting_state \<Rightarrow> 'f setting_state" where
  "iotgoSettingServerStop s =
     (se_call TcpDisconnect (s\<lparr>is_setting_started := False, waiting_client_timer := Disarmed\<rparr>))
       \<lparr>setting_mode_http_buffer := None, setting_mode_json_buffer := None, setting_spro := None\<rparr>"

definition iotgoSettingServerStart :: "'f setting_env \<Rightarrow> 'f setting_state \<Rightarrow> 'f setting_state" where
  "iotgoSettingServerStart env s =
     s\<lparr>setting_spro := spCreateObject (st_spro_mem env) SPRO_PKG_TYPE_HTTP11 (Some 0) IOTGO_IOT_TCP_CLIENT_RECV_BUFFER_SIZE,
       setting_mode_http_buffer := (if st_http_mem env then Some (st_junk env SETTING_MODE_HTTP_BUFFER_SIZE) else None),
       setting_mode_json_buffer := (if st_json_mem env then Some (st_junk env SETTING_MODE_JSON_BUFFER_SIZE) else None),
       is_setting_started := True, start_tcp_listen_timer := Armed 1000 False,
       waiting_client_timer := (if se_mode s = DEVICE_MODE_SETTING then Armed 30000 False else Disarmed)\<rparr>"

definition cbWaitingClientTmr :: "'f setting_state \<Rightarrow> 'f setting_state" where
  "cbWaitingClientTmr s = se_post MSG_CORE_SETTING_SC_START 0 (iotgoSettingServerStop s)"

subsection \<open>Smart configuration\<close>

datatype sc_status =
  SC_STATUS_WAIT | SC_STATUS_FIND_CHANNEL | SC_STATUS_GETTING_SSID_PSWD
| SC_STATUS_LINK "station_config option" | SC_STATUS_LINK_OVER

definition cbSmartConfigJoinApTimer :: "'f setting_state \<Rightarrow> 'f setting_state" where
  "cbSmartConfigJoinApTimer s =
     (if \<not> smartconfig_ap_joined_flag s \<and> se_mode s = DEVICE_MODE_SETTING then se_post MSG_CORE_SETTING_SC_RESTART 0 s else s)"

definition startSmartConfigJoinApTimer :: "'f setting_state \<Rightarrow> 'f setting_state" where
  "startSmartConfigJoinApTimer s = s\<lparr>smartconfig_ap_joined_flag := False, smartconfig_join_ap_timer := Armed 30000 False\<rparr>"

definition stopSmartConfigJoinApTimer :: "'f setting_state \<Rightarrow> 'f setting_state" where
  "stopSmartConfigJoinApTimer s = s\<lparr>smartconfig_ap_joined_flag := False, smartconfig_join_ap_timer := Disarmed\<rparr>"

text \<open>The letters of the password are shifted; one that fills its array is read beyond it.\<close>

definition shift_password :: "bytes \<Rightarrow> bytes option" where
  "shift_password pw =
     do {
       n \<leftarrow> c_strlen pw;
       Some (map (\<lambda>i. if i < n then pw ! i - (if i mod 2 = 0 then 7 else 2) else pw ! i) [0..<length pw])
     }"

definition cbSmartConfig :: "'f setting_env \<Rightarrow> sc_status \<Rightarrow> 'f setting_state \<Rightarrow> 'f setting_state option" where
  "cbSmartConfig env st s =
     (case st of
        SC_STATUS_LINK (Some sta_conf) \<Rightarrow> do {
          pw \<leftarrow> shift_password (sta_password sta_conf);
          let sta_conf = sta_conf\<lparr>sta_password := pw\<rparr>;
          let s = save_flash_param env ((iotgo_flash_param s)\<lparr>fp_sta_config := sta_conf\<rparr>) s;
          Some (se_call StationConnect (se_call StationDisconnect (se_call (StationSetConfig sta_conf)
            (startSmartConfigJoinApTimer s))))
        }
      | SC_STATUS_LINK_OVER \<Rightarrow> Some (se_post MSG_CORE_SETTING_SC_STOP 0 (s\<lparr>smartconfig_ap_joined_flag := True\<rparr>))
      | _ \<Rightarrow> Some s)"

definition iotgoSettingSmartConfigStart :: "'f setting_state \<Rightarrow> 'f setting_state" where
  "iotgoSettingSmartConfigStart s =
     se_call SmartconfigStart ((se_call SmartconfigSetType s)\<lparr>smartconfig_started_flag := True\<rparr>)"

definition iotgoSettingSmartConfigStop :: "'f setting_state \<Rightarrow> 'f setting_state" where
  "iotgoSettingSmartConfigStop s =
     (let s = stopSmartConfigJoinApTimer s
      in if smartconfig_started_flag s then (se_call SmartconfigStop s)\<lparr>smartconfig_started_flag := False\<rparr> else s)"

subsection \<open>Under the network task\<close>

text \<open>None of these functions posts, and the mode is set before they are called.\<close>

definition setting_call :: "'f setting_env \<Rightarrow> net_call \<Rightarrow> 'f setting_state \<Rightarrow> 'f setting_state option" where
  "setting_call env c s =
     (case c of
        SettingTimeoutMonitorStart \<Rightarrow> Some (iotgoSettingTimeoutMonitorStart s)
      | SettingTimeoutMonitorStop \<Rightarrow> Some (iotgoSettingTimeoutMonitorStop s)
      | SettingSmartConfigStart \<Rightarrow> Some (iotgoSettingSmartConfigStart s)
      | SettingSmartConfigStop \<Rightarrow> Some (iotgoSettingSmartConfigStop s)
      | SettingServerStart \<Rightarrow> Some (iotgoSettingServerStart env s)
      | SettingServerStop \<Rightarrow> Some (iotgoSettingServerStop s)
      | SettingSendDeviceInfoToApp \<Rightarrow> iotgoSettingSendDeviceInfoToApp env s
      | SettingSendRespToApp par \<Rightarrow> iotgoSettingSendRespToApp par s
      | _ \<Rightarrow> Some s)"

fun setting_calls :: "'f setting_env \<Rightarrow> net_call list \<Rightarrow> 'f setting_state \<Rightarrow> 'f setting_state option" where
  "setting_calls env [] s = Some s"
| "setting_calls env (c # cs) s = Option.bind (setting_call env c s) (setting_calls env cs)"

definition after_net :: "'f setting_env \<Rightarrow> net \<Rightarrow> 'f setting_state \<Rightarrow> 'f setting_state option" where
  "after_net env n s = setting_calls env (drop (length (calls (se_net s))) (calls n)) (s\<lparr>se_net := n\<rparr>)"

definition setting_task :: "'f setting_env \<Rightarrow> sdk \<Rightarrow> IoTgoSignalSet \<times> nat \<Rightarrow> 'f setting_state \<Rightarrow> 'f setting_state option" where
  "setting_task env e ev s = Option.bind (taskIoTgoNetworkCenter e ev (se_net s)) (\<lambda>n. after_net env n s)"

text \<open>The timers that end the modes.\<close>

definition setting_exit :: "'f setting_env \<Rightarrow> sdk \<Rightarrow> 'f setting_state \<Rightarrow> 'f setting_state option" where
  "setting_exit env e s = after_net env (setExitTimerCallback e (se_net s)) s"

definition setting_selfap_exit :: "'f setting_env \<Rightarrow> sdk \<Rightarrow> 'f setting_state \<Rightarrow> 'f setting_state option" where
  "setting_selfap_exit env e s = after_net env (setSelfapExitTimerCallback e (se_net s)) s"

end
