(* ===== verification/Factory.thy ===== *)
theory Factory
  imports Net Uart JsonTok CJson Param
begin

text \<open>
  The factory mode, \<open>app/user/iotgo_factory.c\<close>: a device without an identity receives one on the
  serial port, stores it, binds its flash to its chip and answers with a check sum.  At the end the
  start of the firmware, \<open>user_init\<close> of \<open>user_main.c\<close>, as far as it decides by the identity what runs.
\<close>

subsection \<open>Hexadecimal addresses\<close>

definition hex_value :: "char \<Rightarrow> u8" where
  "hex_value c = (let v = word_of_nat (of_char c) in if v \<ge> 97 then v - 97 + 10 else v - 48)"

definition getValueFromHex :: "char \<Rightarrow> char \<Rightarrow> u8" where
  "getValueFromHex h l = push_bit 4 (hex_value h) OR hex_value l"

definition hex_lower :: "char \<Rightarrow> char" where
  "hex_lower c = (let n = of_char c :: nat in if 65 \<le> n \<and> n \<le> 70 then char_of (n + 32) else c)"

definition iotgoStr2Mac :: "string \<Rightarrow> bytes" where
  "iotgoStr2Mac str =
     (let temp = map hex_lower (take 17 (str @ replicate 17 (CHR 0x00)))
      in map (\<lambda>i. getValueFromHex (temp ! (3 * i)) (temp ! (3 * i + 1))) [0..<6])"

text \<open>The conversion \<open>%02x\<close>.\<close>

definition hex2 :: "u8 \<Rightarrow> string" where
  "hex2 b = [hex_chr (unat b div 16), hex_chr (unat b mod 16)]"

text \<open>The last colon is overwritten by the terminator.\<close>

definition iotgoMac2Str :: "bytes \<Rightarrow> string" where
  "iotgoMac2Str mac = take 17 (concat (map (\<lambda>b. hex2 b @ '':'') mac))"

subsection \<open>State\<close>

datatype rx_block = NoBlock | Block bytes | Freed

record 'f factory =
  fa_net :: net
  fa_uart :: uart_rx
  fa_tx :: bytes
  fa_flash :: 'f
  uart0_rx_buffer :: rx_block
  fa_counter :: nat
  proc_uart0_timer :: os_timer
  recv_data_timer :: os_timer
  recv_data_len :: nat
  recv_data_timerout :: os_timer

text \<open>
  The environment: the tokenizer, the flash, SHA-256, whether the heap gives memory, \<open>rand\<close>, the
  numbers of chip and flash, and the callback \<open>devInitDeviceConfig\<close> of the device.
\<close>

record 'f factory_env =
  fe_toks :: "string \<Rightarrow> jtok list"
  fe_spi :: "'f spi"
  fe_sha :: "bytes \<Rightarrow> bytes"
  fe_zalloc :: bool
  fe_rand :: "nat \<Rightarrow> int"
  fe_chip_id :: u32
  fe_flash_id :: u32
  fe_init_config :: "('f \<Rightarrow> 'f) option"

definition IOTGO_UART0_RX_BUFFER_SIZE :: nat where
  "IOTGO_UART0_RX_BUFFER_SIZE = 1024"

definition IOTGO_FLASHED_MAGIC_NUMBER :: nat where
  "IOTGO_FLASHED_MAGIC_NUMBER = 0x17EAD000"

definition fa_send :: "string \<Rightarrow> 'f factory \<Rightarrow> 'f factory option" where
  "fa_send text s = map_option (\<lambda>tx. s\<lparr>fa_tx := tx\<rparr>) (uart0_tx_string (bytes_of text @ [0]) (fa_tx s))"

definition crlf_text :: string where
  "crlf_text = [CHR 0x0D, CHR 0x0A]"

subsection \<open>The fields of the message\<close>

record factory_fields =
  ff_model :: "string option"
  ff_deviceid :: "string option"
  ff_apikey :: "string option"
  ff_sta_mac :: "string option"
  ff_sap_mac :: "string option"

definition no_identity :: factory_fields where
  "no_identity = \<lparr>ff_model = None, ff_deviceid = None, ff_apikey = None, ff_sta_mac = None, ff_sap_mac = None\<rparr>"

definition factory_value :: "string \<Rightarrow> jtok list \<Rightarrow> factory_fields \<Rightarrow> factory_fields option \<times> jtok list" where
  "factory_value name ts f =
     (if ff_model f = None \<and> name = ''device_model'' then
        map_prod (map_option (\<lambda>x. f\<lparr>ff_model := Some x\<rparr>)) (\<lambda>us. us) (jsonIoTgoGetString 21 ts)
      else if ff_deviceid f = None \<and> name = ''deviceid'' then
        map_prod (map_option (\<lambda>x. f\<lparr>ff_deviceid := Some x\<rparr>)) (\<lambda>us. us) (jsonIoTgoGetString 11 ts)
      else if ff_apikey f = None \<and> name = ''factory_apikey'' then
        map_prod (map_option (\<lambda>x. f\<lparr>ff_apikey := Some x\<rparr>)) (\<lambda>us. us) (jsonIoTgoGetString 37 ts)
      else if ff_sta_mac f = None \<and> name = ''sta_mac'' then
        map_prod (map_option (\<lambda>x. f\<lparr>ff_sta_mac := Some x\<rparr>)) (\<lambda>us. us) (jsonIoTgoGetString 18 ts)
      else if ff_sap_mac f = None \<and> name = ''sap_mac'' then
        map_prod (map_option (\<lambda>x. f\<lparr>ff_sap_mac := Some x\<rparr>)) (\<lambda>us. us) (jsonIoTgoGetString 18 ts)
      else (Some f, ts))"

lemma factory_value_le: "length (snd (factory_value name ts f)) \<le> length ts"
  by (simp add: factory_value_def get_string_shorter)

function factory_loop :: "jtok list \<Rightarrow> factory_fields \<Rightarrow> factory_fields" where
  "factory_loop ts f =
     (let t = fst (jsonparse_next ts); us = snd (jsonparse_next ts); w = factory_value (jt_value t) us f
      in if jt_type t = JSON_TYPE_ERROR then f
         else if jt_type t \<noteq> JSON_TYPE_PAIR_NAME then factory_loop us f
         else (case fst w of None \<Rightarrow> f | Some g \<Rightarrow> factory_loop (snd w) g))"
  by pat_completeness auto

termination
  by (relation "measure (length \<circ> fst)") (auto intro: next_shorter(2) le_less_trans [OF factory_value_le next_shorter(2)])

declare factory_loop.simps [simp del]

text \<open>The model is not tested: the source tests the flag of the identifier twice.\<close>

definition fields_accepted :: "factory_fields \<Rightarrow> bool" where
  "fields_accepted f \<longleftrightarrow>
     (case (ff_deviceid f, ff_apikey f, ff_sap_mac f, ff_sta_mac f) of
        (Some i, Some k, Some p, Some t) \<Rightarrow> length i = 10 \<and> length k = 36 \<and> length p = 17 \<and> length t = 17
      | _ \<Rightarrow> False)"

subsection \<open>The identity\<close>

definition field_text :: "string option \<Rightarrow> string" where
  "field_text v = (case v of None \<Rightarrow> [] | Some x \<Rightarrow> x)"

definition new_param :: "factory_fields \<Rightarrow> IoTgoFlashParam" where
  "new_param f =
     \<lparr>fp_sta_config = \<lparr>sta_ssid = text_array 32 ''8DB0839D'', sta_password = text_array 64 ''094FAFE8'', sta_bssid = replicate 7 0\<rparr>,
      fp_factory_data = \<lparr>fd_device_model = text_array 21 (field_text (ff_model f)), fd_deviceid = text_array 11 (field_text (ff_deviceid f)),
        fd_factory_apikey = text_array 37 (field_text (ff_apikey f)),
        fd_sta_mac = iotgoStr2Mac (field_text (ff_sta_mac f)), fd_sap_mac = iotgoStr2Mac (field_text (ff_sap_mac f))\<rparr>,
      fp_sap_ip_info = ([10, 10, 7, 1], [255, 255, 255, 0], [10, 10, 7, 1]),
      fp_sap_config = \<lparr>ap_ssid = text_array 32 (''ITEAD-'' @ field_text (ff_deviceid f)), ap_password = text_array 64 ''12345678'',
        ap_ssid_len = 16, ap_channel = 7, ap_authmode = 4, ap_ssid_hidden = 0, ap_max_connection = 4, ap_beacon_interval = [0, 0]\<rparr>,
      fp_flashed_magic_number = IOTGO_FLASHED_MAGIC_NUMBER, fp_distributor_host = replicate 51 0, fp_distributor_port = 0,
      fp_distributor_last_ip = 0, fp_new_bin_info = replicate 100 0, fp_pad = 0\<rparr>"

text \<open>What the check sum is taken of, and the text of it.\<close>

definition text_bytes :: "bytes \<Rightarrow> bytes" where
  "text_bytes b = takeWhile (\<lambda>x. x \<noteq> 0) b"

definition identity_digest :: "'f factory_env \<Rightarrow> IoTgoFlashParam \<Rightarrow> string" where
  "identity_digest env p =
     (let d = fp_factory_data p
      in concat (map hex2 (fe_sha env (text_bytes (fd_deviceid d) @ text_bytes (fd_factory_apikey d)
           @ bytes_of (iotgoMac2Str (fd_sta_mac d)) @ bytes_of (iotgoMac2Str (fd_sap_mac d)) @ text_bytes (fd_device_model d)))))"

subsection \<open>Receiving\<close>

text \<open>The data of \<open>len\<close> bytes, once it is there.  Without memory for the tokenizer there is no result.\<close>

definition factory_store :: "'f factory_env \<Rightarrow> factory_fields \<Rightarrow> 'f factory \<Rightarrow> 'f factory option" where
  "factory_store env f s =
     (let fl = fe_spi env; p = new_param f; flash = save_param fl p (fa_flash s);
          (ok, flash) = iotgoFlashCipher fl (fe_zalloc env) (fe_rand env) (fe_chip_id env) (fe_flash_id env) flash;
          s = s\<lparr>fa_flash := flash\<rparr>
      in if ok \<and> iotgoFlashDecipher fl (fe_zalloc env) (fe_chip_id env) (fe_flash_id env) flash then do {
           tx \<leftarrow> uart0_tx_buffer (bytes_of (identity_digest env p) @ [0]) 64 (fa_tx s);
           s \<leftarrow> fa_send (crlf_text @ ''OK'' @ crlf_text) (s\<lparr>fa_tx := tx\<rparr>);
           Some (case fe_init_config env of None \<Rightarrow> s | Some init \<Rightarrow> s\<lparr>fa_flash := init (fa_flash s)\<rparr>)
         }
         else fa_send (crlf_text @ ''FLASH FAILED: IO ERROR'' @ crlf_text @ ''OK'' @ crlf_text) s)"

definition factory_answer :: "'f factory_env \<Rightarrow> factory_fields \<Rightarrow> 'f factory \<Rightarrow> 'f factory option" where
  "factory_answer env f s =
     (if fields_accepted f then
        (if fp_flashed_magic_number (load_param (fe_spi env) (fa_flash s)) = IOTGO_FLASHED_MAGIC_NUMBER
         then fa_send (crlf_text @ ''FLASH FAILED: FLASHED ALREADY'' @ crlf_text @ ''OK'' @ crlf_text) s
         else factory_store env f s)
      else fa_send (crlf_text @ ''ERROR FORMAT:fields lost'' @ crlf_text @ ''OK'' @ crlf_text) s)"

definition recvData :: "'f factory_env \<Rightarrow> 'f factory \<Rightarrow> 'f factory option" where
  "recvData env s =
     (let len = recv_data_len s in
      if uart0_rx_available (fa_uart s) < len then Some s
      else
        (case uart0_rx_buffer s of
           Block _ \<Rightarrow>
             if len > IOTGO_UART0_RX_BUFFER_SIZE \<or> \<not> fe_zalloc env then None
             else do {
               let (data, rx) = read_n uart0_rx_read len (fa_uart s);
               let buf = data @ replicate (IOTGO_UART0_RX_BUFFER_SIZE - len) 0;
               let s = s\<lparr>recv_data_timer := Disarmed, fa_uart := rx, uart0_rx_buffer := Block buf\<rparr>;
               s \<leftarrow> (if 0 \<in> set buf then factory_answer env (factory_loop (fe_toks env (str_of buf)) no_identity) s else None);
               Some (s\<lparr>fa_uart := uart0_rx_flush (fa_uart s), recv_data_timerout := Disarmed, proc_uart0_timer := Armed 50 True\<rparr>)
             }
         | _ \<Rightarrow> None))"

definition recvDataTimerout :: "'f factory \<Rightarrow> 'f factory" where
  "recvDataTimerout s =
     s\<lparr>fa_uart := uart0_rx_flush (fa_uart s), recv_data_timer := Disarmed, proc_uart0_timer := Armed 50 True\<rparr>"

subsection \<open>Commands\<close>

function fill_buffer :: "uart_rx \<Rightarrow> nat \<Rightarrow> bytes \<Rightarrow> uart_rx \<times> nat \<times> bytes" where
  "fill_buffer rx n buf =
     (if uart0_rx_available rx > 0 \<and> n < IOTGO_UART0_RX_BUFFER_SIZE
      then (let (c, rx) = uart0_rx_read rx in fill_buffer rx (n + 1) (buf[n := c]))
      else (rx, n, buf))"
  by pat_completeness auto

termination
  by (relation "measure (\<lambda>(_, n, _). IOTGO_UART0_RX_BUFFER_SIZE - n)") auto

declare fill_buffer.simps [simp del]

text \<open>A search that finds nothing needs a terminator in the buffer.\<close>

definition find_text :: "bytes \<Rightarrow> string \<Rightarrow> nat option option" where
  "find_text buf t =
     (case c_strstr (str_of buf) t of Some i \<Rightarrow> Some (Some i) | None \<Rightarrow> if 0 \<in> set buf then Some None else None)"

definition factory_command :: "string \<Rightarrow> 'f factory \<Rightarrow> 'f factory option" where
  "factory_command text s =
     (let empty = Block (replicate IOTGO_UART0_RX_BUFFER_SIZE 0);
          refuse = (\<lambda>t. map_option (\<lambda>s. s\<lparr>uart0_rx_buffer := empty, proc_uart0_timer := Armed 50 True\<rparr>)
                          (fa_send (crlf_text @ t @ crlf_text) (s\<lparr>fa_uart := uart0_rx_flush (fa_uart s)\<rparr>)))
      in case c_strstr text ''AT+SEND='' of
           Some k \<Rightarrow> do {
             v \<leftarrow> atoi (drop (k + 8) text);
             let len = to_u32 v;
             if len > 0 \<and> len \<le> 512 then
               map_option (\<lambda>s. s\<lparr>uart0_rx_buffer := empty, recv_data_timer := Armed 100 True, recv_data_len := len,
                                 recv_data_timerout := Armed 2000 False\<rparr>)
                 (fa_send (''>'' @ crlf_text) (s\<lparr>fa_uart := uart0_rx_flush (fa_uart s)\<rparr>))
             else refuse ''LENGTH ERROR''
           }
         | None \<Rightarrow> refuse ''SYNTAX ERROR'')"

definition procUART0 :: "'f factory \<Rightarrow> 'f factory option" where
  "procUART0 s =
     (case uart0_rx_buffer s of
        Block buf \<Rightarrow> do {
          let (rx, n, buf) = fill_buffer (fa_uart s) (fa_counter s) buf;
          let s = s\<lparr>fa_uart := rx, fa_counter := n, uart0_rx_buffer := Block buf\<rparr>;
          found \<leftarrow> find_text buf crlf_text;
          case found of
            None \<Rightarrow> Some s
          | Some i \<Rightarrow> factory_command (take i (str_of buf)) (s\<lparr>proc_uart0_timer := Disarmed, fa_counter := 0\<rparr>)
        }
      | _ \<Rightarrow> None)"

text \<open>Without memory the firmware stops in an endless loop.\<close>

definition startFlashDataMode :: "bool \<Rightarrow> 'f factory \<Rightarrow> 'f factory option" where
  "startFlashDataMode os_malloc s =
     (if \<not> os_malloc then None
      else Some (s\<lparr>fa_net := iotgoSetDeviceMode DEVICE_MODE_FACTORY (fa_net s),
                   uart0_rx_buffer := Block (replicate IOTGO_UART0_RX_BUFFER_SIZE 0), proc_uart0_timer := Armed 50 True\<rparr>))"

text \<open>The pointer is kept, so a second call frees the block again.\<close>

definition stopFlashDataMode :: "'f factory \<Rightarrow> 'f factory option" where
  "stopFlashDataMode s =
     (let t = s\<lparr>proc_uart0_timer := Disarmed, recv_data_timer := Disarmed, fa_uart := uart0_rx_flush (fa_uart s)\<rparr>
      in case uart0_rx_buffer s of NoBlock \<Rightarrow> Some t | Block _ \<Rightarrow> Some (t\<lparr>uart0_rx_buffer := Freed\<rparr>) | Freed \<Rightarrow> None)"

subsection \<open>Which program starts\<close>

datatype boot = TestMode | Halted | Running IoTgoFlashParam

definition user_init :: "'f factory_env \<Rightarrow> 'f \<Rightarrow> boot" where
  "user_init env flash =
     (let p = load_param (fe_spi env) flash
      in if fp_flashed_magic_number p \<noteq> IOTGO_FLASHED_MAGIC_NUMBER then TestMode
         else if \<not> iotgoFlashDecipher (fe_spi env) (fe_zalloc env) (fe_chip_id env) (fe_flash_id env) flash then Halted
         else Running p)"

end
