(* ===== verification/FactorySpec.thy ===== *)
theory FactorySpec
  imports Factory
begin

text \<open>
  What the factory mode promises: a device accepts one identity, answers with the check sum of it,
  and from then on starts with it on its own chip and on no other.
\<close>

subsection \<open>Addresses\<close>

lemma hex_chr_value: "d < 16 \<Longrightarrow> hex_value (hex_chr d) = word_of_nat d"
proof -
  assume "d < 16"
  then have "d \<in> {0, 1, 2, 3, 4, 5, 6, 7, 8, 9, 10, 11, 12, 13, 14, 15}" by (simp, presburger)
  then show ?thesis by (elim insertE emptyE) (simp_all add: hex_value_def hex_chr_def)
qed

lemma hex_chr_lower: "d < 16 \<Longrightarrow> hex_lower (hex_chr d) = hex_chr d"
  by (auto simp: hex_lower_def hex_chr_def)

lemma hex_byte: "getValueFromHex (hex_chr (unat b div 16)) (hex_chr (unat b mod 16)) = (b :: u8)"
proof -
  have "unat b < 256" using unsigned_less [of b] by simp
  then have "unat b div 16 < 16" by (simp add: less_mult_imp_div_less)
  then have "hex_value (hex_chr (unat b div 16)) = word_of_nat (unat b div 16)" by (rule hex_chr_value)
  moreover have "hex_value (hex_chr (unat b mod 16)) = word_of_nat (unat b mod 16)" by (rule hex_chr_value) simp
  moreover have "unat b div 16 = unat (drop_bit 4 b)" "unat b mod 16 = unat (take_bit 4 b)"
    by (simp_all add: drop_bit_eq_div take_bit_eq_mod unat_div unat_mod)
  moreover have "push_bit 4 (drop_bit 4 b) OR take_bit 4 b = b"
    by (rule bit_word_eqI) (auto simp: bit_simps)
  ultimately show ?thesis by (simp add: getValueFromHex_def del: unat_div)
qed

lemma mac_back:
  assumes "length m = 6"
  shows "iotgoStr2Mac (iotgoMac2Str m) = m" "length (iotgoMac2Str m) = 17"
proof -
  obtain a b c d e f where m: "m = [a, b, c, d, e, f]" using assms by (auto simp: numeral_eq_Suc length_Suc_conv)
  have col: "hex_lower (CHR '':'') = CHR '':''" by (simp add: hex_lower_def)
  have lo: "hex_lower (hex_chr (unat x div 16)) = hex_chr (unat x div 16)" "hex_lower (hex_chr (unat x mod 16)) = hex_chr (unat x mod 16)"
    for x :: u8
  proof -
    have "unat x < 256" using unsigned_less [of x] by simp
    then show "hex_lower (hex_chr (unat x div 16)) = hex_chr (unat x div 16)" by (intro hex_chr_lower) (simp add: less_mult_imp_div_less)
  qed (rule hex_chr_lower, simp)
  have upt: "[0..<6] = [0, 1, 2, 3, 4, 5 :: nat]" by (simp add: upt_rec)
  show "length (iotgoMac2Str m) = 17" by (simp add: m iotgoMac2Str_def hex2_def)
  show "iotgoStr2Mac (iotgoMac2Str m) = m"
    by (simp add: m iotgoMac2Str_def hex2_def iotgoStr2Mac_def lo col upt hex_byte)
qed

subsection \<open>The message\<close>

definition text_pair :: "string \<Rightarrow> string \<Rightarrow> jtok list" where
  "text_pair name v = [JTok JSON_TYPE_PAIR_NAME name 0, JTok JSON_TYPE_PAIR [] 0, JTok JSON_TYPE_STRING v 0]"

definition identity_tokens :: "string \<Rightarrow> string \<Rightarrow> string \<Rightarrow> string \<Rightarrow> string \<Rightarrow> jtok list" where
  "identity_tokens model i k sta sap =
     JTok JSON_TYPE_OBJECT [] 0 # text_pair ''device_model'' model @ text_pair ''deviceid'' i @ text_pair ''factory_apikey'' k
       @ text_pair ''sta_mac'' sta @ text_pair ''sap_mac'' sap @ [JTok (CHR ''}'') [] 0]"

definition identity :: "string \<Rightarrow> string \<Rightarrow> string \<Rightarrow> string \<Rightarrow> string \<Rightarrow> factory_fields" where
  "identity model i k sta sap =
     \<lparr>ff_model = Some model, ff_deviceid = Some i, ff_apikey = Some k, ff_sta_mac = Some sta, ff_sap_mac = Some sap\<rparr>"

lemma identity_read:
  assumes "length model \<le> 20" "length i = 10" "length k = 36" "length sta = 17" "length sap = 17"
  shows "factory_loop (identity_tokens model i k sta sap) no_identity = identity model i k sta sap"
proof -
  have "take 20 model = model" "take 10 i = i" "take 36 k = k" "take 17 sta = sta" "take 17 sap = sap" using assms by simp_all
  then show ?thesis
    unfolding identity_tokens_def text_pair_def identity_def no_identity_def
    by (simp add: factory_loop.simps jsonparse_next_def factory_value_def jsonIoTgoGetString_def Let_def
        JSON_TYPE_ERROR_def JSON_TYPE_PAIR_NAME_def JSON_TYPE_PAIR_def JSON_TYPE_OBJECT_def JSON_TYPE_STRING_def)
qed

subsection \<open>The identity in flash\<close>

lemma new_param_ok: "param_ok (new_param f)"
  by (simp add: param_ok_def param_fields_def param_sizes_def new_param_def iotgoStr2Mac_def Let_def IOTGO_FLASHED_MAGIC_NUMBER_def)

lemma stop_at_nul:
  assumes "0 \<notin> set b"
  shows "takeWhile (\<lambda>x. x \<noteq> 0) (b @ 0 # r) = (b :: bytes)" "takeWhile (\<lambda>x. x \<noteq> 0) b = b"
  using assms by (induction b) auto

lemma text_bytes_field: "0 \<notin> set (bytes_of v) \<Longrightarrow> length v \<le> n \<Longrightarrow> text_bytes (text_array n v) = bytes_of v"
proof -
  assume v: "0 \<notin> set (bytes_of v)" "length v \<le> n"
  have "length (bytes_of v) = length v" by (simp add: bytes_of_def)
  then have "text_array n v = bytes_of v @ replicate (n - length v) 0" using v(2) by (simp add: text_array_def)
  moreover have "takeWhile (\<lambda>x. x \<noteq> 0) (bytes_of v @ replicate m 0) = bytes_of v" for m
    using stop_at_nul [OF v(1)] by (cases m) simp_all
  ultimately show ?thesis by (simp add: text_bytes_def)
qed

lemma digest_text:
  assumes "length ma = 6" "length mb = 6" "length model \<le> 20" "length i = 10" "length k = 36" "0 \<notin> set (bytes_of (model @ i @ k))"
  shows "identity_digest env (new_param (identity model i k (iotgoMac2Str ma) (iotgoMac2Str mb)))
    = concat (map hex2 (fe_sha env (bytes_of (i @ k @ iotgoMac2Str ma @ iotgoMac2Str mb @ model))))"
proof -
  have "bytes_of (a @ b) = bytes_of a @ bytes_of b" for a b by (simp add: bytes_of_def)
  then show ?thesis
    using assms by (simp add: identity_digest_def new_param_def identity_def field_text_def text_bytes_field mac_back)
qed

lemmas sectors = param_sectors_def IOTGO_PARAM_START_SEC_def IOTGO_FLASH_CIPHER_SECTOR_def DEVICE_CONFIG_START_SEC_def

lemma cipher_keeps_param:
  assumes "spi_ok fl er"
  shows "load_param fl (snd (iotgoFlashCipher fl z r c d f)) = load_param fl f"
    "load_param fl (devEraseConfigInFlash fl f) = load_param fl f"
  by (rule load_param_same;
      auto simp: iotgoFlashCipher_def userStoreIoTgoFlashCipher_def devEraseConfigInFlash_def sectors spi_okD(4,5) [OF assms])+

lemma erase_keeps_cipher:
  assumes "spi_ok fl er"
  shows "iotgoFlashDecipher fl z c d (devEraseConfigInFlash fl f) = iotgoFlashDecipher fl z c d f"
  by (simp add: iotgoFlashDecipher_def userLoadIoTgoFlashCipher_def devEraseConfigInFlash_def sectors spi_okD(4) [OF assms])

text \<open>The flash of a device with the identity.\<close>

definition bound_flash :: "'f factory_env \<Rightarrow> factory_fields \<Rightarrow> 'f \<Rightarrow> 'f" where
  "bound_flash env f flash =
     (let fl = fe_spi env;
          flash = snd (iotgoFlashCipher fl (fe_zalloc env) (fe_rand env) (fe_chip_id env) (fe_flash_id env) (save_param fl (new_param f) flash))
      in case fe_init_config env of None \<Rightarrow> flash | Some init \<Rightarrow> init flash)"

lemma bound_flash_facts:
  assumes "spi_ok (fe_spi env) er" "fe_zalloc env" "fe_init_config env \<in> {None, Some (devEraseConfigInFlash (fe_spi env))}"
  shows "load_param (fe_spi env) (bound_flash env f flash) = new_param f"
    "iotgoFlashDecipher (fe_spi env) True c d (bound_flash env f flash) \<longleftrightarrow> fe_chip_id env XOR fe_flash_id env = c XOR d"
  using assms(2,3) cipher_keeps_param [OF assms(1)] erase_keeps_cipher [OF assms(1)] param_saved [OF assms(1) new_param_ok]
    cipher_roundtrip [OF assms(1)]
  by (auto simp: bound_flash_def Let_def)

subsection \<open>Receiving the identity\<close>

lemma fa_send_text: "0 \<notin> set (bytes_of t) \<Longrightarrow> fa_send t s = Some (s\<lparr>fa_tx := fa_tx s @ bytes_of t\<rparr>)"
  by (simp add: fa_send_def uart0_tx_string_def stop_at_nul(1))

lemma fa_send_flash: "fa_send t s = Some u \<Longrightarrow> fa_flash u = fa_flash s"
  by (auto simp: fa_send_def)

lemma store_binds:
  fixes env :: "'f factory_env"
  assumes "spi_ok (fe_spi env) er" "fe_zalloc env" "\<forall>x. length (fe_sha env x) = 32"
  shows "factory_store env f s = Some (s\<lparr>fa_flash := bound_flash env f (fa_flash s),
    fa_tx := fa_tx s @ bytes_of (identity_digest env (new_param f)) @ bytes_of (crlf_text @ ''OK'' @ crlf_text)\<rparr>)"
proof -
  let ?d = "identity_digest env (new_param f)"
  have "length (concat (map hex2 x)) = 2 * length x" for x by (induction x) (simp_all add: hex2_def)
  then have "length ?d = 64" using assms(3) by (simp add: identity_digest_def Let_def)
  then have tx: "uart0_tx_buffer (bytes_of ?d @ [0]) 64 t = Some (t @ bytes_of ?d)" for t
    by (simp add: uart0_tx_buffer_def bytes_of_def to_u16_def)
  have "0 \<notin> set (bytes_of (crlf_text @ ''OK'' @ crlf_text))" by (simp add: bytes_of_def crlf_text_def)
  from fa_send_text [OF this] have send: "fa_send (crlf_text @ ''OK'' @ crlf_text) u = Some (u\<lparr>fa_tx := fa_tx u @ bytes_of (crlf_text @ ''OK'' @ crlf_text)\<rparr>)"
    for u :: "'f factory" .
  obtain flash where c: "iotgoFlashCipher (fe_spi env) True (fe_rand env) (fe_chip_id env) (fe_flash_id env)
      (save_param (fe_spi env) (new_param f) (fa_flash s)) = (True, flash)"
    by (simp add: iotgoFlashCipher_def)
  then have "iotgoFlashDecipher (fe_spi env) True (fe_chip_id env) (fe_flash_id env) flash"
    using cipher_roundtrip [OF assms(1), of "fe_chip_id env" "fe_flash_id env" "fe_rand env" "fe_chip_id env" "fe_flash_id env"] by (metis snd_conv)
  with c tx show ?thesis
    using assms(2) by (cases s) (simp add: factory_store_def bound_flash_def Let_def send [simplified] split: option.split)
qed

lemma answer_keeps_flash:
  assumes "fp_flashed_magic_number (load_param (fe_spi env) (fa_flash s)) = IOTGO_FLASHED_MAGIC_NUMBER"
    and "factory_answer env f s = Some u"
  shows "fa_flash u = fa_flash s"
  using assms by (auto simp: factory_answer_def split: if_split_asm dest: fa_send_flash)

lemma recv_keeps_flash:
  assumes "fp_flashed_magic_number (load_param (fe_spi env) (fa_flash s)) = IOTGO_FLASHED_MAGIC_NUMBER"
    and "recvData env s = Some u"
  shows "fa_flash u = fa_flash s"
proof -
  have ans: "factory_answer env f v = Some w \<Longrightarrow> fa_flash v = fa_flash s \<Longrightarrow> fa_flash w = fa_flash s" for f v w
    using answer_keeps_flash [of env v f w] assms(1) by simp
  from assms(2) show ?thesis
    unfolding recvData_def Let_def
    by (auto simp: bind_Some_iff split: if_split_asm rx_block.split_asm prod.split_asm dest: ans)
qed

lemma recv_message:
  assumes "uart_rx_inv (fa_uart s)" "recv_data_len s \<le> length (rx_contents (fa_uart s))" "recv_data_len s \<le> 512"
    "uart0_rx_buffer s = Block b" "fe_zalloc env"
  obtains rx buf where "recvData env s = map_option (\<lambda>s. s\<lparr>fa_uart := uart0_rx_flush (fa_uart s), recv_data_timerout := Disarmed,
        proc_uart0_timer := Armed 50 True\<rparr>)
      (factory_answer env (factory_loop (fe_toks env (str_of (take (recv_data_len s) (rx_contents (fa_uart s)) @ [0]))) no_identity)
        (s\<lparr>recv_data_timer := Disarmed, fa_uart := rx, uart0_rx_buffer := Block buf\<rparr>))"
proof -
  let ?n = "recv_data_len s"
  have avail: "?n \<le> uart0_rx_available (fa_uart s)" using assms(1,2) by (simp add: rx_available_length)
  from uart_src.read_n_take [OF assms(1) this] obtain rx
    where rd: "read_n uart0_rx_read ?n (fa_uart s) = (take ?n (rx_contents (fa_uart s)), rx)" by auto
  define buf where "buf = take ?n (rx_contents (fa_uart s)) @ replicate (1024 - ?n) 0"
  have m: "1024 - ?n = Suc (1023 - ?n)" using assms(3) by simp
  have "str_of buf = str_of (take ?n (rx_contents (fa_uart s)) @ [0])"
    unfolding buf_def m replicate_Suc str_of_def by (auto simp: takeWhile_append)
  moreover have "0 \<in> set buf" unfolding buf_def m by simp
  ultimately have "recvData env s = map_option (\<lambda>s. s\<lparr>fa_uart := uart0_rx_flush (fa_uart s), recv_data_timerout := Disarmed,
        proc_uart0_timer := Armed 50 True\<rparr>)
      (factory_answer env (factory_loop (fe_toks env (str_of (take ?n (rx_contents (fa_uart s)) @ [0]))) no_identity)
        (s\<lparr>recv_data_timer := Disarmed, fa_uart := rx, uart0_rx_buffer := Block buf\<rparr>))"
    using avail assms(3-5) rd unfolding recvData_def Let_def IOTGO_UART0_RX_BUFFER_SIZE_def
    by (simp add: map_conv_bind_option comp_def flip: buf_def)
  then show ?thesis by (rule that)
qed


definition demo_factory_env :: "(nat \<Rightarrow> bytes) factory_env" where
  "demo_factory_env = \<lparr>fe_toks = (\<lambda>_. identity_tokens ''PSA-B01'' ''1000000001'' ''01234567-89ab-cdef-0123-456789abcdef''
       (iotgoMac2Str [0x18, 0xFE, 0x34, 0, 0, 1]) (iotgoMac2Str [0x1A, 0xFE, 0x34, 0, 0, 1])),
     fe_spi = nor_flash, fe_sha = (\<lambda>_. replicate 32 0xA5), fe_zalloc = True, fe_rand = int, fe_chip_id = 77, fe_flash_id = 5,
     fe_init_config = Some (devEraseConfigInFlash nor_flash)\<rparr>"

definition demo_factory :: "(nat \<Rightarrow> bytes) factory" where
  "demo_factory = \<lparr>fa_net = net_init, fa_uart = uart0_rx_write 123 uart_rx_init, fa_tx = [], fa_flash = (\<lambda>_. []),
     uart0_rx_buffer = Block (replicate 1024 0), fa_counter = 0, proc_uart0_timer = Disarmed,
     recv_data_timer = Armed 100 True, recv_data_len = 1, recv_data_timerout = Armed 2000 False\<rparr>"

lemma demo_blank: "load_param nor_flash (\<lambda>_. []) = param_of_bytes (replicate 472 0xFF)"
  by (simp add: load_param_def iotgoFlashLoadParam_def load_copy_def nor_flash_def param_size_def flag_size_def map_replicate_const)


end
