(* ===== verification/SettingRun.thy ===== *)
theory SettingRun
  imports Setting FactorySpec
begin

text \<open>
  What the setting modes keep: every change of the parameters is saved, nothing but the access point
  and the server is changed, and a device that starts still starts.
\<close>

subsection \<open>Steps\<close>

text \<open>A station configuration of the SDK has arrays of these sizes.\<close>

definition station_ok :: "station_config \<Rightarrow> bool" where
  "station_ok c \<longleftrightarrow> length (sta_ssid c) = 32 \<and> length (sta_password c) = 64 \<and> length (sta_bssid c) = 7"

inductive setting_step :: "'f setting_env \<Rightarrow> 'f setting_state \<Rightarrow> 'f setting_state \<Rightarrow> bool" for env where
  Received: "svrTCPRecvCallback env behind arg g s = Some t \<Longrightarrow> setting_step env s t"
| SproTimer: "setting_spro_timer env behind s = Some t \<Longrightarrow> setting_step env s t"
| SmartConfig: "cbSmartConfig env st s = Some t \<Longrightarrow> (\<forall>c. st = SC_STATUS_LINK (Some c) \<longrightarrow> station_ok c) \<Longrightarrow> setting_step env s t"
| JoinTimer: "setting_step env s (cbSmartConfigJoinApTimer s)"
| WaitingTimer: "setting_step env s (cbWaitingClientTmr s)"
| ListenTimer: "setting_step env s (startTCPListen s)"
| AnswerTimer: "settingDelayRespAppTimerCb s = Some t \<Longrightarrow> setting_step env s t"
| TimeoutTimer: "setting_step env s (cbSettingModeTimeoutListenerTimer s)"
| Network: "setting_task env e ev s = Some t \<Longrightarrow> setting_step env s t"
| Exit: "setting_exit env e s = Some t \<Longrightarrow> setting_step env s t"
| SelfapExit: "setting_selfap_exit env e s = Some t \<Longrightarrow> setting_step env s t"

inductive setting_run :: "'f setting_env \<Rightarrow> 'f setting_state \<Rightarrow> 'f setting_state \<Rightarrow> bool" for env where
  Nil: "setting_run env s s"
| Cons: "setting_step env s t \<Longrightarrow> setting_run env t u \<Longrightarrow> setting_run env s u"

subsection \<open>Functions that leave the parameters alone\<close>

definition same_param :: "'f setting_state \<Rightarrow> 'f setting_state \<Rightarrow> bool" where
  "same_param s t \<longleftrightarrow> iotgo_flash_param t = iotgo_flash_param s \<and> se_flash t = se_flash s"

lemma same_param_refl [simp]: "same_param s s"
  by (simp add: same_param_def)

lemma same_param_trans: "same_param s t \<Longrightarrow> same_param t u \<Longrightarrow> same_param s u"
  by (simp add: same_param_def)

lemma same_param_basic [simp]:
  "same_param s (se_post m a t) = same_param s t" "same_param s (se_call c t) = same_param s t"
  "same_param s (t\<lparr>se_net := n\<rparr>) = same_param s t" "same_param s (t\<lparr>setting_spro := sp\<rparr>) = same_param s t"
  by (simp_all add: same_param_def se_post_def se_call_def)

lemma same_param_send: "send_http s = Some t \<Longrightarrow> same_param s t"
  by (auto simp: send_http_def same_param_def bind_eq_Some_conv)

lemma same_param_fill: "fill_http json s = Some t \<Longrightarrow> same_param s t"
  by (auto simp: fill_http_def same_param_def bind_eq_Some_conv)

lemma same_param_server:
  "same_param s (iotgoSettingServerStart env s)" "same_param s (iotgoSettingServerStop s)"
  "same_param s (iotgoSettingTimeoutMonitorStart s)" "same_param s (iotgoSettingTimeoutMonitorStop s)"
  "same_param s (iotgoSettingSmartConfigStart s)" "same_param s (iotgoSettingSmartConfigStop s)"
  by (auto simp: same_param_def iotgoSettingServerStart_def iotgoSettingServerStop_def iotgoSettingTimeoutMonitorStart_def
      iotgoSettingTimeoutMonitorStop_def iotgoSettingSmartConfigStart_def iotgoSettingSmartConfigStop_def
      stopSmartConfigJoinApTimer_def se_call_def Let_def)

lemma same_param_timers:
  "same_param s (cbSmartConfigJoinApTimer s)" "same_param s (cbWaitingClientTmr s)" "same_param s (startTCPListen s)"
  "same_param s (cbSettingModeTimeoutListenerTimer s)"
  by (simp_all add: cbSmartConfigJoinApTimer_def cbWaitingClientTmr_def same_param_server startTCPListen_def)
    (simp add: cbSettingModeTimeoutListenerTimer_def Let_def, simp add: same_param_def)

lemma same_param_answers:
  "settingDelayRespAppTimerCb s = Some t \<Longrightarrow> same_param s t"
  "iotgoSettingSendDeviceInfoToApp env s = Some t \<Longrightarrow> same_param s t"
  "iotgoSettingSendRespToApp par s = Some t \<Longrightarrow> same_param s t"
proof -
  show "settingDelayRespAppTimerCb s = Some t \<Longrightarrow> same_param s t"
    by (auto simp: settingDelayRespAppTimerCb_def bind_eq_Some_conv dest: same_param_send split: if_split_asm)
  show "iotgoSettingSendDeviceInfoToApp env s = Some t \<Longrightarrow> same_param s t"
    by (auto simp: iotgoSettingSendDeviceInfoToApp_def bind_eq_Some_conv same_param_def
        dest!: same_param_send same_param_fill)
  show "iotgoSettingSendRespToApp par s = Some t \<Longrightarrow> same_param s t"
    by (auto simp: iotgoSettingSendRespToApp_def bind_eq_Some_conv same_param_def dest!: same_param_fill)
qed

lemma same_param_call: "setting_call env c s = Some t \<Longrightarrow> same_param s t"
  by (cases c) (auto simp: setting_call_def same_param_server same_param_answers)

lemma same_param_calls: "setting_calls env cs s = Some t \<Longrightarrow> same_param s t"
  by (induction cs arbitrary: s) (auto simp: bind_eq_Some_conv intro: same_param_trans same_param_call)

lemma same_param_after: "after_net env n s = Some t \<Longrightarrow> same_param s t"
  unfolding after_net_def using same_param_calls [of env _ "s\<lparr>se_net := n\<rparr>" t] by (auto simp: same_param_def)

lemma same_param_task:
  "setting_task env e ev s = Some t \<Longrightarrow> same_param s t"
  "setting_exit env e s = Some t \<Longrightarrow> same_param s t"
  "setting_selfap_exit env e s = Some t \<Longrightarrow> same_param s t"
  by (auto simp: setting_task_def setting_exit_def setting_selfap_exit_def bind_eq_Some_conv intro: same_param_after)

subsection \<open>Functions that change them\<close>

text \<open>Only the access point and the server change.\<close>

definition device_kept :: "IoTgoFlashParam \<Rightarrow> IoTgoFlashParam \<Rightarrow> bool" where
  "device_kept p q \<longleftrightarrow> q = p\<lparr>fp_sta_config := fp_sta_config q, fp_distributor_host := fp_distributor_host q,
     fp_distributor_port := fp_distributor_port q\<rparr>"

lemma device_kept_refl [simp]: "device_kept p p"
  by (simp add: device_kept_def)

lemma device_kept_eq:
  "device_kept p q \<longleftrightarrow> fp_factory_data q = fp_factory_data p \<and> fp_sap_ip_info q = fp_sap_ip_info p
     \<and> fp_sap_config q = fp_sap_config p \<and> fp_flashed_magic_number q = fp_flashed_magic_number p
     \<and> fp_distributor_last_ip q = fp_distributor_last_ip p \<and> fp_new_bin_info q = fp_new_bin_info p \<and> fp_pad q = fp_pad p"
  by (cases p; cases q) (auto simp: device_kept_def)

lemma device_kept_trans: "device_kept p q \<Longrightarrow> device_kept q r \<Longrightarrow> device_kept p r"
  by (simp add: device_kept_eq)

text \<open>The parameters are saved, and the device is the one of \<open>p\<close>, bound to its chip.\<close>

definition setting_inv :: "'f setting_env \<Rightarrow> 'f factory_env \<Rightarrow> IoTgoFlashParam \<Rightarrow> 'f setting_state \<Rightarrow> bool" where
  "setting_inv env fe p s \<longleftrightarrow> param_ok (iotgo_flash_param s) \<and> load_param (st_spi env) (se_flash s) = iotgo_flash_param s
     \<and> device_kept p (iotgo_flash_param s)
     \<and> iotgoFlashDecipher (st_spi env) (fe_zalloc fe) (fe_chip_id fe) (fe_flash_id fe) (se_flash s)"

lemma setting_inv_same: "setting_inv env fe p s \<Longrightarrow> same_param s t \<Longrightarrow> setting_inv env fe p t"
  by (simp add: setting_inv_def same_param_def)

lemma save_keeps_cipher:
  assumes "spi_ok fl er"
  shows "iotgoFlashDecipher fl z c d (save_param fl q f) = iotgoFlashDecipher fl z c d f"
proof -
  have "spi_read fl IOTGO_FLASH_CIPHER_SECTOR n (save_param fl q f) = spi_read fl IOTGO_FLASH_CIPHER_SECTOR n f" for n
    by (simp add: save_param_def iotgoFlashSaveParam_def save_copy_def save_copy_ops_def Let_def
        IOTGO_FLASH_CIPHER_SECTOR_def IOTGO_PARAM_START_SEC_def spi_okD(4,5) [OF assms])
  then show ?thesis by (simp add: iotgoFlashDecipher_def userLoadIoTgoFlashCipher_def)
qed

lemma setting_inv_save:
  assumes "spi_ok (st_spi env) er" "setting_inv env fe p s" "param_ok q" "device_kept p q"
  shows "setting_inv env fe p (save_flash_param env q s)"
  using assms by (simp add: setting_inv_def save_flash_param_def param_saved save_keeps_cipher)

lemma station_param_ok:
  assumes "param_ok p" "station_ok c"
  shows "param_ok (p\<lparr>fp_sta_config := c\<rparr>)"
  using assms by (simp add: param_ok_def param_fields_def param_sizes_def station_ok_def Let_def split: prod.splits)

lemma server_param_ok:
  assumes "param_ok p" "length h = 51"
  shows "param_ok (p\<lparr>fp_distributor_host := h, fp_distributor_port := to_u32 i\<rparr>)"
  using assms to_u32_less [of i] by (simp add: param_ok_def param_fields_def param_sizes_def Let_def split: prod.splits)

lemma sta_length: "param_ok p \<Longrightarrow> station_ok (fp_sta_config p)"
  by (simp add: param_ok_def param_fields_def param_sizes_def station_ok_def Let_def split: prod.splits)

subsection \<open>Messages of the app\<close>

lemma copy_value_length [simp]: "arr \<noteq> [] \<Longrightarrow> length (copy_value arr v) = length arr"
  by (cases arr) (auto simp: copy_value_def bytes_of_def Let_def)

definition fields_sized :: "setting_fields \<Rightarrow> bool" where
  "fields_sized f \<longleftrightarrow> length (ssid_str f) = 32 \<and> length (pass_str f) = 64 \<and> length (distor_domain f) = 51"

lemma setting_value_sized: "fields_sized f \<Longrightarrow> fst (setting_value name ts f) = Some g \<Longrightarrow> fields_sized g"
proof -
  assume f: "fields_sized f" "fst (setting_value name ts f) = Some g"
  then have "ssid_str f \<noteq> []" "pass_str f \<noteq> []" by (auto simp: fields_sized_def)
  with f show ?thesis by (auto simp: fields_sized_def setting_value_def split: if_split_asm)
qed

lemma setting_loop_sized: "fields_sized f \<Longrightarrow> fields_sized (setting_loop ts f)"
proof (induction ts f rule: setting_loop.induct)
  case (1 ts f)
  show ?case
    using 1 setting_value_sized by (subst setting_loop.simps) (auto simp: Let_def split: option.split)
qed

lemma setting_inv_apply:
  assumes "spi_ok (st_spi env) er" "setting_inv env fe p s" "fields_sized f"
  shows "setting_inv env fe p (setting_apply env f s)"
proof -
  have ok: "param_ok (iotgo_flash_param s)" "device_kept p (iotgo_flash_param s)" using assms(2) by (simp_all add: setting_inv_def)
  let ?server = "\<lambda>p. p\<lparr>fp_distributor_host := distor_domain f, fp_distributor_port := to_u32 (distor_port f)\<rparr>"
  let ?station = "(iotgo_flash_param s)\<lparr>fp_sta_config := (fp_sta_config (iotgo_flash_param s))\<lparr>sta_ssid := ssid_str f, sta_password := pass_str f\<rparr>\<rparr>"
  have "station_ok ((fp_sta_config (iotgo_flash_param s))\<lparr>sta_ssid := ssid_str f, sta_password := pass_str f\<rparr>)"
    using sta_length [OF ok(1)] assms(3) by (simp add: station_ok_def fields_sized_def)
  from station_param_ok [OF ok(1) this] have st: "param_ok ?station" .
  have dom: "length (distor_domain f) = 51" using assms(3) by (simp add: fields_sized_def)
  have "setting_inv env fe p (save_flash_param env (?server (iotgo_flash_param s)) s)"
    "setting_inv env fe p (save_flash_param env (?server ?station) s)"
    by (rule setting_inv_save [OF assms(1,2) server_param_ok [OF _ dom]]; use ok st in \<open>simp add: device_kept_eq\<close>)+
  then show ?thesis
    using assms(2) setting_inv_same [of env fe p _ "se_post m a _" for m a]
    by (simp add: setting_apply_def Let_def)
qed

lemma setting_inv_package:
  assumes "spi_ok (st_spi env) er" "setting_inv env fe p s" "svrSproOnePkgCb env d s = Some t"
  shows "setting_inv env fe p t"
proof -
  have "fields_sized no_setting" by (simp add: fields_sized_def no_setting_def)
  then have sized: "fields_sized (setting_loop ts no_setting)" "fields_sized no_setting" for ts by (simp_all add: setting_loop_sized)
  have post: "setting_inv env fe p (se_post m a s)" for m a using setting_inv_same [OF assms(2)] by simp
  show ?thesis
    using assms(3) post setting_inv_apply [OF assms(1,2)] sized
    by (auto simp: svrSproOnePkgCb_def Let_def split: if_split_asm option.split_asm)
qed

lemma setting_inv_packages:
  assumes "spi_ok (st_spi env) er" "setting_inv env fe p s" "svr_packages env behind ps s = Some t"
  shows "setting_inv env fe p t"
  using assms(2,3)
proof (induction ps arbitrary: s)
  case (Cons x xs)
  from Cons.prems(2) obtain u where u: "svrSproOnePkgCb env (pkg_bytes x @ behind) s = Some u" "svr_packages env behind xs u = Some t"
    by (auto simp: bind_eq_Some_conv)
  from Cons.IH [OF setting_inv_package [OF assms(1) Cons.prems(1) u(1)] u(2)] show ?case .
qed simp

lemma setting_inv_smart:
  assumes "spi_ok (st_spi env) er" "setting_inv env fe p s" "cbSmartConfig env st s = Some t"
    and "\<forall>c. st = SC_STATUS_LINK (Some c) \<longrightarrow> station_ok c"
  shows "setting_inv env fe p t"
proof (cases "\<exists>c. st = SC_STATUS_LINK (Some c)")
  case True
  then obtain c where c: "st = SC_STATUS_LINK (Some c)" by blast
  with assms(3) obtain pw where pw: "shift_password (sta_password c) = Some pw"
    and t: "same_param (save_flash_param env ((iotgo_flash_param s)\<lparr>fp_sta_config := c\<lparr>sta_password := pw\<rparr>\<rparr>) s) t"
    by (auto simp: cbSmartConfig_def bind_eq_Some_conv Let_def startSmartConfigJoinApTimer_def same_param_def se_call_def)
  have "station_ok (c\<lparr>sta_password := pw\<rparr>)"
    using assms(4) c pw by (auto simp: station_ok_def shift_password_def bind_eq_Some_conv)
  moreover have "param_ok (iotgo_flash_param s)" "device_kept p (iotgo_flash_param s)" using assms(2) by (simp_all add: setting_inv_def)
  ultimately show ?thesis
    by (intro setting_inv_same [OF setting_inv_save [OF assms(1,2)] t] station_param_ok) (simp_all add: device_kept_eq)
next
  case False
  then have "same_param s t" using assms(3)
    by (cases st) (auto simp: cbSmartConfig_def same_param_def se_post_def)
  with assms(2) show ?thesis by (rule setting_inv_same)
qed

lemma setting_inv_step:
  assumes "spi_ok (st_spi env) er" "setting_step env s t" "setting_inv env fe p s"
  shows "setting_inv env fe p t"
  using assms(2,3)
proof cases
  case (Received behind arg g)
  have "setting_inv env fe p (s\<lparr>setting_spro := obj\<rparr>)" for obj using setting_inv_same [OF assms(3)] by simp
  with Received setting_inv_packages [OF assms(1)] assms(3) show ?thesis
    by (fastforce simp: svrTCPRecvCallback_def bind_eq_Some_conv split: if_split_asm)
next
  case (SproTimer behind)
  have "setting_inv env fe p (s\<lparr>setting_spro := obj\<rparr>)" for obj using setting_inv_same [OF assms(3)] by simp
  with SproTimer setting_inv_packages [OF assms(1)] show ?thesis by (fastforce simp: setting_spro_timer_def bind_eq_Some_conv)
next
  case (SmartConfig st)
  with setting_inv_smart [OF assms(1,3)] show ?thesis by blast
qed (auto intro: setting_inv_same [OF assms(3)] same_param_timers same_param_answers same_param_task)

lemma setting_inv_run:
  assumes "spi_ok (st_spi env) er" "setting_run env s t" "setting_inv env fe p s"
  shows "setting_inv env fe p t"
  using assms(2,3) by induction (auto intro: setting_inv_step [OF assms(1)])

end
