(* ===== verification/SettingSpec.thy ===== *)
theory SettingSpec
  imports SettingRun CoreSpec
begin

text \<open>
  What the setting modes promise: whatever is received, the device keeps its identity and what it
  runs with is what it starts with; and an app that sends an access point and a server is answered,
  after which the device joins that access point.
\<close>

subsection \<open>The identity is kept\<close>


subsection \<open>Receiving a message\<close>

definition setting_assembler :: "bytes \<Rightarrow> spro \<Rightarrow> bool" where
  "setting_assembler held obj \<longleftrightarrow> pkg_type obj = SPRO_PKG_TYPE_HTTP11 \<and> http_clean obj \<and> buffer_size obj = 2048 \<and>
     pkg_proc_cb obj = Some 0 \<and> contents obj = held"

lemma setting_assembler_created:
  assumes "st_spro_mem env"
  obtains obj where "setting_spro (iotgoSettingServerStart env s) = Some obj" "setting_assembler [] obj"
  using assms by (auto simp: iotgoSettingServerStart_def spCreateObject_def setting_assembler_def http_clean_def spro_inv_def
      contents_def IOTGO_IOT_TCP_CLIENT_RECV_BUFFER_SIZE_def)

fun svr_receive :: "'f setting_env \<Rightarrow> bytes \<Rightarrow> nat \<Rightarrow> bytes list \<Rightarrow> 'f setting_state \<Rightarrow> 'f setting_state option" where
  "svr_receive env behind arg [] s = Some s"
| "svr_receive env behind arg (g # gs) s = Option.bind (svrTCPRecvCallback env behind arg g s) (svr_receive env behind arg gs)"

lemma bind_nothing_received [simp]:
  "Option.bind m (svr_receive env behind arg []) = m" "Option.bind m (svr_packages env behind []) = m"
  by (cases m, simp_all)+

lemma assembler_facts:
  assumes "setting_assembler held obj"
  shows "http_clean (obj\<lparr>sp_arg := arg\<rparr>)" "contents (obj\<lparr>sp_arg := arg\<rparr>) = held"
    "spTcpRecv (Some obj) arg (Some g) = map_option Some (processHTTPPackage arg g (obj\<lparr>sp_arg := arg\<rparr>))"
proof -
  show "http_clean (obj\<lparr>sp_arg := arg\<rparr>)"
    using assms by (intro http_clean_cong [of obj "obj\<lparr>sp_arg := arg\<rparr>"]) (simp_all add: setting_assembler_def)
qed (use assms in \<open>simp_all add: contents_def setting_assembler_def spTcpRecv_def\<close>)

lemma svr_receive_part:
  assumes header: "http_header H (int (length d))" and s: "is_setting_started s" "setting_spro s = Some obj" "setting_assembler held obj"
    and c: "held @ g @ rest = H @ d" "rest \<noteq> []" and size: "length (H @ d) < 2048"
  shows "\<exists>obj'. setting_assembler (held @ g) obj' \<and> svrTCPRecvCallback env behind arg g s = Some (s\<lparr>setting_spro := Some obj'\<rparr>)"
proof -
  note o = assembler_facts [OF s(3), of arg]
  have sz: "length (H @ d) < buffer_size (obj\<lparr>sp_arg := arg\<rparr>)" "buffer_size (obj\<lparr>sp_arg := arg\<rparr>) \<le> 32768"
    using size s(3) by (simp_all add: setting_assembler_def)
  from http_partial [OF header o(1) _ c(2) sz, of g arg] c(1) o(2) obtain t where
    t: "processHTTPPackage arg g (obj\<lparr>sp_arg := arg\<rparr>) = Some t" "http_clean t" "contents t = held @ g" "quiet (obj\<lparr>sp_arg := arg\<rparr>) t"
    by auto
  have "setting_assembler (held @ g) t" using t s(3) by (simp add: setting_assembler_def quiet_def same_object_def)
  moreover have "new_packages (Some obj) (Some t) = []" using t(4) by (simp add: new_packages_def quiet_def)
  ultimately show ?thesis using s(1,2) t(1) o(3) [of g] by (auto simp: svrTCPRecvCallback_def)
qed

lemma svr_receive_end:
  assumes header: "http_header H (int (length d))" and s: "is_setting_started s" "setting_spro s = Some obj" "setting_assembler held obj"
    and c: "held @ g = H @ d" and size: "length (H @ d) < 2048"
  shows "\<exists>obj'. svrTCPRecvCallback env behind arg g s = svrSproOnePkgCb env (H @ d @ behind) (s\<lparr>setting_spro := Some obj'\<rparr>)"
proof -
  note o = assembler_facts [OF s(3), of arg]
  have sz: "length (H @ d) < buffer_size (obj\<lparr>sp_arg := arg\<rparr>)" "buffer_size (obj\<lparr>sp_arg := arg\<rparr>) \<le> 32768"
    using size s(3) by (simp_all add: setting_assembler_def)
  from http_complete [OF header o(1) _ sz, of g arg] o(2) c obtain t where
    t: "processHTTPPackage arg g (obj\<lparr>sp_arg := arg\<rparr>) = Some t"
      "packages t = packages obj @ pack (obj\<lparr>sp_arg := arg\<rparr>) arg (H @ d, True)" by auto
  have "new_packages (Some obj) (Some t) = [Package 0 arg (H @ d) (length (H @ d)) True]"
    using t(2) s(3) by (simp add: new_packages_def pack_def setting_assembler_def)
  then show ?thesis using s(1,2) t(1) o(3) [of g] by (intro exI [of _ t]) (simp add: svrTCPRecvCallback_def)
qed

lemma svr_receive_message:
  assumes header: "http_header H (int (length d))" and size: "length (H @ d) < 2048"
    and "is_setting_started s" "setting_spro s = Some obj" "setting_assembler held obj"
    and "\<forall>g \<in> set gs. g \<noteq> []" "gs \<noteq> []" "held @ concat gs = H @ d"
  shows "\<exists>obj'. svr_receive env behind arg gs s = svrSproOnePkgCb env (H @ d @ behind) (s\<lparr>setting_spro := Some obj'\<rparr>)"
  using assms(3-)
proof (induction gs arbitrary: s obj held)
  case (Cons g gs)
  show ?case
  proof (cases "gs = []")
    case True
    with Cons.prems(6) have "held @ g = H @ d" by simp
    from svr_receive_end [OF header Cons.prems(1-3) this size] True show ?thesis by simp
  next
    case False
    then have rest: "concat gs \<noteq> []" using Cons.prems(4) by (cases gs) auto
    have "held @ g @ concat gs = H @ d" using Cons.prems(6) by simp
    from svr_receive_part [OF header Cons.prems(1-3) this rest size] obtain t where
      t: "setting_assembler (held @ g) t" "svrTCPRecvCallback env behind arg g s = Some (s\<lparr>setting_spro := Some t\<rparr>)"
      by blast
    from Cons.IH [of "s\<lparr>setting_spro := Some t\<rparr>" t "held @ g"] t(1) Cons.prems False show ?thesis by (simp add: t(2))
  qed
qed simp

subsection \<open>The message of the app\<close>

definition provision_tokens :: "string \<Rightarrow> string \<Rightarrow> string \<Rightarrow> int \<Rightarrow> jtok list" where
  "provision_tokens ssid password host port =
     JTok JSON_TYPE_OBJECT [] 0 # text_pair ''ssid'' ssid @ text_pair ''password'' password @ text_pair ''serverName'' host
       @ [JTok JSON_TYPE_PAIR_NAME ''port'' 0, JTok JSON_TYPE_PAIR [] 0, JTok JSON_TYPE_NUMBER [] port, JTok (CHR ''}'') [] 0]"

definition provisioned :: "string \<Rightarrow> string \<Rightarrow> string \<Rightarrow> int \<Rightarrow> setting_fields" where
  "provisioned ssid password host port =
     \<lparr>sf_ssid = True, sf_pass = True, sf_domain_flag = True, sf_port_flag = True, ssid_str = text_array 32 ssid,
      pass_str = text_array 64 password, distor_domain = text_array 51 host, distor_port = port\<rparr>"

lemma copy_value_fresh: "length v < n \<Longrightarrow> copy_value (replicate n 0) v = text_array n v"
proof -
  assume v: "length v < n"
  then have n: "n - length v = Suc (n - Suc (length v))" by simp
  have "length (bytes_of v) = length v" by (simp add: bytes_of_def)
  with v show ?thesis by (simp add: copy_value_def text_array_def Let_def) (simp add: n)
qed

lemma provision_read:
  assumes "length ssid \<le> 31" "length password \<le> 63" "length host \<le> 50"
  shows "setting_loop (provision_tokens ssid password host port) no_setting = provisioned ssid password host port"
proof -
  have "take 31 ssid = ssid" "take 63 password = password" "take 50 host = host" using assms by simp_all
  moreover have "copy_value (replicate 32 0) ssid = text_array 32 ssid" "copy_value (replicate 64 0) password = text_array 64 password"
    using assms by (simp_all add: copy_value_fresh)
  ultimately show ?thesis
    unfolding provision_tokens_def text_pair_def provisioned_def no_setting_def
    by (simp add: setting_loop.simps jsonparse_next_def setting_value_def jsonIoTgoGetString_def jsonIoTgoGetNumber_def Let_def
        JSON_TYPE_ERROR_def JSON_TYPE_PAIR_NAME_def JSON_TYPE_PAIR_def JSON_TYPE_OBJECT_def JSON_TYPE_STRING_def
        JSON_TYPE_NUMBER_def)
qed

text \<open>The parameters with what the app sent.\<close>

definition provisioned_param :: "string \<Rightarrow> string \<Rightarrow> string \<Rightarrow> int \<Rightarrow> IoTgoFlashParam \<Rightarrow> IoTgoFlashParam" where
  "provisioned_param ssid password host port p =
     p\<lparr>fp_sta_config := (fp_sta_config p)\<lparr>sta_ssid := text_array 32 ssid, sta_password := text_array 64 password\<rparr>,
       fp_distributor_host := text_array 51 host, fp_distributor_port := to_u32 port\<rparr>"

lemma provision_apply:
  assumes "se_mode s = DEVICE_MODE_SETTING_SELFAP"
  shows "setting_apply env (provisioned ssid password host port) s =
    se_post MSG_CORE_SETTING_RESP_TO_APP 5 (save_flash_param env (provisioned_param ssid password host port (iotgo_flash_param s)) s)"
  using assms by (simp add: setting_apply_def provisioned_def provisioned_param_def Let_def)

lemma provision_param_ok: "param_ok p \<Longrightarrow> param_ok (provisioned_param ssid password host port p)"
  using station_param_ok [of p "(fp_sta_config p)\<lparr>sta_ssid := text_array 32 ssid, sta_password := text_array 64 password\<rparr>"]
    sta_length [of p] server_param_ok [of _ "text_array 51 host" port]
  by (simp add: provisioned_param_def station_ok_def)

subsection \<open>From the app to the access point\<close>

text \<open>The network task takes its next message.\<close>

definition setting_next :: "'f setting_env \<Rightarrow> sdk \<Rightarrow> 'f setting_state \<Rightarrow> 'f setting_state option" where
  "setting_next env e s = Option.bind (core_step e (se_net s)) (\<lambda>n. after_net env n s)"

definition ok_answer :: bytes where
  "ok_answer = bytes_of (''HTTP/1.1 200 OK'' @ crlf @ ''Content-Type: application/json'' @ crlf @ ''Connection: keep-alive'' @ crlf
     @ ''Content-Length: 11'' @ crlf @ crlf @ ''{'' @ in_quotes ''error'' @ '':0}'')"

lemma ok_answer_text: "http_answer (bytes_of (response_text 5)) = ok_answer" "length ok_answer = 106" "0 \<notin> set ok_answer"
    "length (bytes_of (response_text 5)) = 11" "0 \<notin> set (bytes_of (response_text 5))"
  by code_simp+

lemma c_string_padded: "0 \<notin> set t \<Longrightarrow> c_string (t @ replicate n 0) = t"
  by (cases n) (simp_all add: c_string_def stop_at_nul)

lemma c_strlen_padded: "0 \<notin> set t \<Longrightarrow> 0 < n \<Longrightarrow> c_strlen (t @ replicate n 0) = Some (length t)"
  by (cases n) (simp_all add: c_strlen_def c_string_def stop_at_nul)

text \<open>The answer is prepared.\<close>

definition answer_ready :: "'f setting_state \<Rightarrow> bool" where
  "answer_ready s \<longleftrightarrow> exit_setting_flag s \<and> setting_mode_http_buffer s = Some (ok_answer @ replicate 1430 0)"

lemma respond:
  assumes "core_q (se_net s) = [(MSG_CORE_SETTING_RESP_TO_APP, 5)]" "setting_mode_http_buffer s = Some b" "setting_mode_json_buffer s = Some c"
  obtains u where "setting_next env e s = Some u" "answer_ready u" "same_param s u" "core_q (se_net u) = []" "se_mode u = se_mode s"
    "se_sent u = se_sent s" "setting_delay_resp_app_timer u = Armed 3 False"
proof -
  let ?n = "call (SettingSendRespToApp 5) ((se_net s)\<lparr>core_q := []\<rparr>)"
  have step: "core_step e (se_net s) = Some ?n"
    using assms(1) by (simp add: core_step_def taskIoTgoNetworkCenter_def task_service_msg_def task_setting_msg_def)
  let ?json = "bytes_of (response_text 5) @ replicate 1013 0"
  have json: "put_text SETTING_MODE_JSON_BUFFER_SIZE (bytes_of (response_text 5)) = Some ?json"
    by (simp add: put_text_def SETTING_MODE_JSON_BUFFER_SIZE_def IOTGO_JSON_BUFFER_SIZE_def ok_answer_text)
  have http: "put_text SETTING_MODE_HTTP_BUFFER_SIZE (http_answer (c_string ?json)) = Some (ok_answer @ replicate 1430 0)"
    unfolding c_string_padded [OF ok_answer_text(5)] ok_answer_text(1)
    by (simp add: put_text_def SETTING_MODE_HTTP_BUFFER_SIZE_def IOTGO_JSON_BUFFER_SIZE_def ok_answer_text)
  have "c_strlen ?json = Some 11" using c_strlen_padded [OF ok_answer_text(5), of 1013] ok_answer_text(4) by simp
  then have "setting_next env e s = Some (s\<lparr>se_net := ?n, exit_setting_flag := True, setting_mode_json_buffer := Some ?json,
      setting_mode_http_buffer := Some (ok_answer @ replicate 1430 0), setting_delay_resp_app_timer := Armed 3 False\<rparr>)"
    using assms(2,3) step json http
    by (simp add: setting_next_def after_net_def call_def setting_call_def iotgoSettingSendRespToApp_def fill_http_def)
  then show ?thesis
    by (rule that) (simp_all add: answer_ready_def same_param_def se_mode_def iotgoDeviceMode_def call_def)
qed

text \<open>It is sent, and the mode is left.\<close>

lemma answer_sent:
  assumes "answer_ready s" "se_mode s = DEVICE_MODE_SETTING_SELFAP" "core_q (se_net s) = []"
  shows "settingDelayRespAppTimerCb s = Some (s\<lparr>se_sent := se_sent s @ [ok_answer],
    se_net := (se_net s)\<lparr>core_q := [(MSG_CORE_EXIT_SETTING_SELFAP_MODE, 0)]\<rparr>\<rparr>)"
proof -
  have "send_http s = Some (s\<lparr>se_sent := se_sent s @ [ok_answer]\<rparr>)"
    using assms(1) c_strlen_padded [OF ok_answer_text(3), of 1430] c_string_padded [OF ok_answer_text(3), of 1430]
    by (simp add: send_http_def answer_ready_def)
  then show ?thesis
    using assms by (simp add: settingDelayRespAppTimerCb_def answer_ready_def se_post_def post_core_def IOTGO_TASK_CORE_QLEN_def
        se_mode_def iotgoDeviceMode_def)
qed

lemma calls_monitor_stop:
  "setting_calls env (SettingTimeoutMonitorStop # (if P then [ExitApCallback] else [])) s = Some (iotgoSettingTimeoutMonitorStop s)"
  by (simp add: setting_call_def)

lemma leave_selfap:
  assumes "core_q (se_net s) = [(MSG_CORE_EXIT_SETTING_SELFAP_MODE, 0)]"
  obtains u where "setting_next env e s = Some u" "same_param s u" "core_q (se_net u) = []" "se_sent u = se_sent s"
    "setting_selfap_exit_timer (se_net u) = Armed 1000 False"
proof -
  let ?n = "(device_call ExitApCallback (call SettingTimeoutMonitorStop ((se_net s)\<lparr>core_q := []\<rparr>)))\<lparr>setting_selfap_exit_timer := Armed 1000 False\<rparr>"
  have step: "core_step e (se_net s) = Some ?n"
    using assms by (simp add: core_step_def taskIoTgoNetworkCenter_def task_service_msg_def task_setting_msg_def Let_def)
  have n: "calls ?n = calls (se_net s) @ SettingTimeoutMonitorStop # (if ExitApCallback \<in> set (device_callbacks (se_net s)) then [ExitApCallback] else [])"
      "core_q ?n = []"
    by (simp_all add: device_call_def call_def)
  have "setting_next env e s = Some (iotgoSettingTimeoutMonitorStop (s\<lparr>se_net := ?n\<rparr>))"
    unfolding setting_next_def step bind.bind_lunit after_net_def n(1)
    by (simp add: calls_monitor_stop del: setting_calls.simps)
  then show ?thesis
    by (rule that) (use n(2) in \<open>simp_all add: same_param_def iotgoSettingTimeoutMonitorStop_def\<close>)
qed

text \<open>The timer closes the server and asks for the access point.\<close>

lemma selfap_exit:
  assumes "core_q (se_net s) = []"
  obtains u where "setting_selfap_exit env e s = Some u" "same_param s u" "core_q (se_net u) = [(MSG_CORE_JOIN_AP, 0)]"
    "se_mode u = DEVICE_MODE_WORK_AP_ERR" "se_sent u = se_sent s" "\<not> is_setting_started u" "setting_spro u = None"
proof -
  let ?n = "setSelfapExitTimerCallback e (se_net s)"
  have n: "calls ?n = calls (se_net s) @ SettingServerStop # (if sdk_opmode e \<noteq> 1 then [WifiSetOpmode 1] else [])"
      "core_q ?n = [(MSG_CORE_JOIN_AP, 0)]" "device_mode ?n = DEVICE_MODE_WORK_AP_ERR"
    using assms by (simp_all add: setSelfapExitTimerCallback_def post_core_def IOTGO_TASK_CORE_QLEN_def iotgoSetDeviceMode_def
        iotgoWifiToStationMode_def call_def)
  have "setting_selfap_exit env e s = Some (iotgoSettingServerStop (s\<lparr>se_net := ?n\<rparr>))"
    unfolding setting_selfap_exit_def after_net_def n(1) by (simp add: setting_call_def)
  then show ?thesis
    by (rule that) (use n(2,3) in \<open>simp_all add: same_param_def iotgoSettingServerStop_def se_call_def se_mode_def iotgoDeviceMode_def\<close>)
qed

lemma app_message_read:
  assumes msg: "0 \<notin> set m" "c_strstr (str_of m) ''GET /device HTTP/1.1'' = None" "c_strstr (str_of m) ''POST /ap HTTP/1.1'' \<noteq> None"
      "c_strstr (str_of m) ''{'' = Some i" "c_strstr (str_of m) ''}'' \<noteq> None"
      "st_toks env (drop i (str_of m)) = provision_tokens ssid password host port"
    and lens: "length ssid \<le> 31" "length password \<le> 63" "length host \<le> 50" and "st_parser_mem env"
  shows "svrSproOnePkgCb env (m @ 0 # behind) s = Some (setting_apply env (provisioned ssid password host port) s)"
proof -
  have "str_of (m @ 0 # behind) = str_of m" using msg(1) by (simp add: str_of_def stop_at_nul)
  with msg(2-) assms(10) show ?thesis
    by (auto simp: svrSproOnePkgCb_def Let_def provision_read [OF lens])
qed

text \<open>
  C9: An app that sends the access point and the server in one message, in whatever segments, to a
  device in the setting mode with its own access point, is answered with the text for success.  The
  parameters it sent are saved, the others kept.  After the answer the mode is left: the server is
  closed, and the network task is to join the access point, with the parameters that are saved.
\<close>

theorem app_provisions_device:
  assumes spi: "spi_ok (st_spi env) er" and mem: "st_spro_mem env" "st_http_mem env" "st_json_mem env" "st_parser_mem env"
    and s: "param_ok (iotgo_flash_param s)" "se_mode s = DEVICE_MODE_SETTING_SELFAP" "core_q (se_net s) = []"
    and header: "http_header H (int (length body))" "length (H @ body) < 2048"
    and gs: "\<forall>g \<in> set gs. g \<noteq> []" "concat gs = H @ body"
    and msg: "0 \<notin> set (H @ body)" "c_strstr (str_of (H @ body)) ''GET /device HTTP/1.1'' = None"
      "c_strstr (str_of (H @ body)) ''POST /ap HTTP/1.1'' \<noteq> None" "c_strstr (str_of (H @ body)) ''{'' = Some i"
      "c_strstr (str_of (H @ body)) ''}'' \<noteq> None"
      "st_toks env (drop i (str_of (H @ body))) = provision_tokens ssid password host port"
    and lens: "length ssid \<le> 31" "length password \<le> 63" "length host \<le> 50"
  shows "\<exists>t. do {
        s \<leftarrow> svr_receive env (0 # behind) arg gs (iotgoSettingServerStart env s);
        s \<leftarrow> setting_next env e s;
        s \<leftarrow> settingDelayRespAppTimerCb s;
        s \<leftarrow> setting_next env e s;
        setting_selfap_exit env e s
      } = Some t
    \<and> se_sent t = se_sent s @ [ok_answer]
    \<and> iotgo_flash_param t = provisioned_param ssid password host port (iotgo_flash_param s)
    \<and> load_param (st_spi env) (se_flash t) = iotgo_flash_param t
    \<and> se_mode t = DEVICE_MODE_WORK_AP_ERR \<and> core_q (se_net t) = [(MSG_CORE_JOIN_AP, 0)]
    \<and> \<not> is_setting_started t \<and> setting_spro t = None"
proof -
  let ?s = "iotgoSettingServerStart env s" and ?p = "provisioned_param ssid password host port (iotgo_flash_param s)"
  obtain obj where obj: "setting_spro ?s = Some obj" "setting_assembler [] obj" by (rule setting_assembler_created [OF mem(1)])
  have started: "is_setting_started ?s" by (simp add: iotgoSettingServerStart_def)
  have "gs \<noteq> []" using header(1) gs(2) by (auto simp: http_header_def)
  from svr_receive_message [OF header started obj gs(1) this, of env "0 # behind" arg] gs(2) obtain sp where
    "svr_receive env (0 # behind) arg gs ?s = svrSproOnePkgCb env (H @ body @ 0 # behind) (?s\<lparr>setting_spro := Some sp\<rparr>)" by auto
  moreover define t where "t = setting_apply env (provisioned ssid password host port) (?s\<lparr>setting_spro := Some sp\<rparr>)"
  ultimately have recv: "svr_receive env (0 # behind) arg gs ?s = Some t"
    using app_message_read [OF msg lens mem(4), of behind] by simp
  have "se_mode (?s\<lparr>setting_spro := Some sp\<rparr>) = DEVICE_MODE_SETTING_SELFAP"
    using s(2) by (simp add: iotgoSettingServerStart_def se_mode_def)
  from provision_apply [OF this] have t: "core_q (se_net t) = [(MSG_CORE_SETTING_RESP_TO_APP, 5)]" "se_mode t = DEVICE_MODE_SETTING_SELFAP"
    "iotgo_flash_param t = ?p" "se_flash t = save_param (st_spi env) ?p (se_flash s)" "se_sent t = se_sent s"
    "\<exists>b c. setting_mode_http_buffer t = Some b \<and> setting_mode_json_buffer t = Some c"
    using s(2,3) mem by (simp_all add: t_def se_post_def post_core_def save_flash_param_def iotgoSettingServerStart_def
        IOTGO_TASK_CORE_QLEN_def se_mode_def iotgoDeviceMode_def)
  from t(6) obtain b c where bufs: "setting_mode_http_buffer t = Some b" "setting_mode_json_buffer t = Some c" by blast
  obtain u where u: "setting_next env e t = Some u" "answer_ready u" "same_param t u" "core_q (se_net u) = []" "se_mode u = se_mode t"
    "se_sent u = se_sent t" by (rule respond [OF t(1) bufs])
  let ?v = "u\<lparr>se_sent := se_sent u @ [ok_answer], se_net := (se_net u)\<lparr>core_q := [(MSG_CORE_EXIT_SETTING_SELFAP_MODE, 0)]\<rparr>\<rparr>"
  have v: "settingDelayRespAppTimerCb u = Some ?v" using answer_sent [OF u(2) _ u(4)] u(5) t(2) by simp
  obtain w where w: "setting_next env e ?v = Some w" "same_param ?v w" "core_q (se_net w) = []" "se_sent w = se_sent ?v"
    by (rule leave_selfap [where s = ?v]) simp
  obtain x where x: "setting_selfap_exit env e w = Some x" "same_param w x" "core_q (se_net x) = [(MSG_CORE_JOIN_AP, 0)]"
    "se_mode x = DEVICE_MODE_WORK_AP_ERR" "se_sent x = se_sent w" "\<not> is_setting_started x" "setting_spro x = None"
    by (rule selfap_exit [OF w(3)])
  have "load_param (st_spi env) (save_param (st_spi env) ?p (se_flash s)) = ?p"
    by (rule param_saved [OF spi provision_param_ok [OF s(1)]])
  then show ?thesis
    using recv u v w x t by (intro exI [of _ x]) (simp add: same_param_def)
qed

subsection \<open>Witnesses\<close>

definition demo_identity :: factory_fields where
  "demo_identity = identity ''PSA-B01'' ''1000000001'' ''01234567-89ab-cdef-0123-456789abcdef'' ''18:fe:34:00:00:01'' ''1a:fe:34:00:00:01''"

definition demo_param :: IoTgoFlashParam where
  "demo_param = new_param demo_identity"

definition demo_setting_env :: "(nat \<Rightarrow> bytes) setting_env" where
  "demo_setting_env = \<lparr>st_toks = (\<lambda>_. provision_tokens ''home'' ''secret'' ''server.example'' 443), st_json_reset = (\<lambda>c. c),
     st_json_printed = (\<lambda>_. []), st_json_block = None, st_spi = nor_flash, st_spro_mem = True, st_http_mem = True,
     st_json_mem = True, st_parser_mem = True, st_junk = (\<lambda>n. replicate n 0xA5)\<rparr>"

definition demo_setting :: "(nat \<Rightarrow> bytes) setting_state" where
  "demo_setting = \<lparr>se_net = net_init\<lparr>device_mode := DEVICE_MODE_SETTING_SELFAP\<rparr>, iotgo_flash_param = demo_param,
     se_flash = bound_flash demo_factory_env demo_identity (\<lambda>_. []), setting_mode_http_buffer = None, setting_mode_json_buffer = None,
     setting_spro = None, start_tcp_listen_timer = Disarmed, setting_delay_resp_app_timer = Disarmed,
     waiting_client_timer = Disarmed, is_setting_started = False, setting_timeout_counter = 0, setting_timeout_timer = Disarmed,
     smartconfig_started_flag = False, smartconfig_join_ap_timer = Disarmed, smartconfig_ap_joined_flag = False,
     exit_setting_flag = False, se_sent = [], se_calls = []\<rparr>"

definition demo_head :: bytes where
  "demo_head = bytes_of ''POST /ap HTTP/1.1'' @ CRLF @ CONTENT_LENGTH_IS @ bytes_of ''2'' @ CRLF @ CRLF"

lemma demo_head_ok: "http_header demo_head (int (length [123 :: u8, 125]))"
proof -
  have "c_strstr demo_head CONTENT_LENGTH_IS = Some 19" "drop (19 + 16) demo_head = [50] @ CRLF @ CRLF"
    "13 \<notin> set [50 :: u8]" "length [50 :: u8] \<le> 10" "atoi (str_of [50]) = Some (int (length [123 :: u8, 125]))"
    by code_simp+
  moreover have "0 \<notin> set demo_head" "4 \<le> length demo_head" "c_strstr demo_head (CRLF @ CRLF) = Some (length demo_head - 4)"
    by code_simp+
  ultimately show ?thesis unfolding http_header_def by blast
qed

theorem app_provisions_device_witness:
  "\<exists>t. do {
        s \<leftarrow> svr_receive demo_setting_env [0] 0 [take 30 demo_head, drop 30 demo_head, [123, 125]]
               (iotgoSettingServerStart demo_setting_env demo_setting);
        s \<leftarrow> setting_next demo_setting_env quiet_sdk s;
        s \<leftarrow> settingDelayRespAppTimerCb s;
        s \<leftarrow> setting_next demo_setting_env quiet_sdk s;
        setting_selfap_exit demo_setting_env quiet_sdk s
      } = Some t
    \<and> se_sent t = [] @ [ok_answer]
    \<and> load_param nor_flash (se_flash t) = provisioned_param ''home'' ''secret'' ''server.example'' 443 demo_param"
proof -
  have spi: "spi_ok (st_spi demo_setting_env) (\<lambda>k f. f k = [])" by (simp add: demo_setting_env_def nor_flash_ok)
  have mem: "st_spro_mem demo_setting_env" "st_http_mem demo_setting_env" "st_json_mem demo_setting_env" "st_parser_mem demo_setting_env"
    by (simp_all add: demo_setting_env_def)
  have s: "param_ok (iotgo_flash_param demo_setting)" "se_mode demo_setting = DEVICE_MODE_SETTING_SELFAP"
    "core_q (se_net demo_setting) = []"
    by (simp_all add: demo_setting_def demo_param_def new_param_ok se_mode_def iotgoDeviceMode_def net_init_def)
  have gs: "length (demo_head @ [123, 125]) < 2048" "\<forall>g \<in> set [take 30 demo_head, drop 30 demo_head, [123, 125]]. g \<noteq> []"
    "concat [take 30 demo_head, drop 30 demo_head, [123, 125]] = demo_head @ [123, 125]"
    by (code_simp, code_simp, simp)
  have msg: "0 \<notin> set (demo_head @ [123, 125])" "c_strstr (str_of (demo_head @ [123, 125])) ''GET /device HTTP/1.1'' = None"
    "c_strstr (str_of (demo_head @ [123, 125])) ''POST /ap HTTP/1.1'' \<noteq> None"
    "c_strstr (str_of (demo_head @ [123, 125])) ''{'' = Some 40" "c_strstr (str_of (demo_head @ [123, 125])) ''}'' \<noteq> None"
    by code_simp+
  have toks: "st_toks demo_setting_env (drop 40 (str_of (demo_head @ [123, 125]))) = provision_tokens ''home'' ''secret'' ''server.example'' 443"
    by (simp add: demo_setting_env_def)
  have lens: "length ''home'' \<le> 31" "length ''secret'' \<le> 63" "length ''server.example'' \<le> 50" by simp_all
  have demo: "se_sent demo_setting = []" "iotgo_flash_param demo_setting = demo_param" "st_spi demo_setting_env = nor_flash"
    by (simp_all add: demo_setting_def demo_setting_env_def)
  note app_provisions_device [OF spi mem s demo_head_ok gs msg toks lens, of "[]" 0 quiet_sdk, unfolded demo]
  then obtain t where t: "se_sent t = [] @ [ok_answer]" "load_param nor_flash (se_flash t) = iotgo_flash_param t"
      "iotgo_flash_param t = provisioned_param ''home'' ''secret'' ''server.example'' 443 demo_param"
    and run: "do {
        s \<leftarrow> svr_receive demo_setting_env [0] 0 [take 30 demo_head, drop 30 demo_head, [123, 125]]
               (iotgoSettingServerStart demo_setting_env demo_setting);
        s \<leftarrow> setting_next demo_setting_env quiet_sdk s;
        s \<leftarrow> settingDelayRespAppTimerCb s;
        s \<leftarrow> setting_next demo_setting_env quiet_sdk s;
        setting_selfap_exit demo_setting_env quiet_sdk s
      } = Some t"
    by (elim exE conjE) (rule that; assumption)
  from t(2) have "load_param nor_flash (se_flash t) = provisioned_param ''home'' ''secret'' ''server.example'' 443 demo_param"
    unfolding t(3) .
  with run t(1) show ?thesis by blast
qed

lemma demo_starts: "user_init demo_factory_env (se_flash demo_setting) = Running (iotgo_flash_param demo_setting)"
proof -
  have env: "spi_ok (fe_spi demo_factory_env) (\<lambda>k f. f k = [])" "fe_zalloc demo_factory_env"
    "fe_init_config demo_factory_env \<in> {None, Some (devEraseConfigInFlash (fe_spi demo_factory_env))}"
    by (simp_all add: demo_factory_env_def nor_flash_ok)
  from bound_flash_facts [OF env, where f = demo_identity and flash = "\<lambda>_. []"] env(2) show ?thesis
    by (simp add: user_init_def demo_setting_def demo_param_def) (simp add: new_param_def)
qed

definition demo_station :: station_config where
  "demo_station = \<lparr>sta_ssid = text_array 32 ''home'', sta_password = text_array 64 ''zgjtlv'', sta_bssid = replicate 7 0\<rparr>"


end
