(* ===== verification/Spec2Isabelle.thy ===== *)
theory Spec2Isabelle
  imports ClockSpec SendQueue U2artSpec TimerSpec LocTimerTick LocTimerReq SproStream SproHttp
    CoreStart WifiSpec FlashStore Bconn UpgradeReq UpgradeOver PconnSession TransAnswer TransKey TransForward SwitchTimer Sled SettingSpec
begin

text \<open>
  A verification development for the firmware under \<open>src/sdk_v2.0.1/app\<close>, the application of a
  Wi-Fi switch on the ESP8266 SDK: it joins an access point, keeps a registered WebSocket
  connection to a server, runs timers, local ones kept in flash included, upgrades itself, and
  drives one of two devices, a relay or a micro controller on the serial port.  All paths below
  are relative to that directory.

  Conventions (theory \<open>FwPrelude\<close>).  C integers are \<open>nat\<close> or \<open>int\<close> with the conversion of each
  assignment written out (\<open>to_u8\<close>, \<open>to_u16\<close>, \<open>to_u32\<close>, \<open>to_s16\<close>, ...), raw bytes and check sums are
  words.  A run that C leaves undefined (an access out of bounds, a null pointer, an endless
  loop, a missing return value that is tested) is \<open>None\<close>.  Static variables of a file are the
  fields of its record.

  Parameters.  What the SDK, the ROM or the environment provides is an argument: random numbers,
  the clock, the station, the heap (\<open>os_malloc\<close>, \<open>os_zalloc\<close>), the flash chip (\<open>spi\<close>, \<open>chip\<close>, with the
  law \<open>spi_ok\<close> that erased sectors keep what is written, instantiated by \<open>nor_flash\<close>), the check sum
  SHA-256, the tokenizer of the SDK (theory \<open>JsonTok\<close>: the list of tokens of a text) and its
  printer of JSON trees (\<open>JsonSend\<close>).  Where a property needs a law of them, the law is a
  hypothesis that a witness discharges for a concrete instance.

  The parts, and the theories that model them.
  \<^item> Time: \<open>user/iotgo_clock.c\<close> in \<open>Clock\<close>; the calendar, the tick and the two text formats in
    \<open>ClockSpec\<close>.  The timer list \<open>user/iotgo_timer.c\<close> in \<open>TimerSched\<close>; when timers fire and that
    their memory is never lost in \<open>TimerSpec\<close>.  Local timers \<open>user/iotgo_loctimer.c\<close>, requested by
    JSON and kept in two copies in flash, in \<open>LocTimer\<close>; the saved table in \<open>LocTimerSpec\<close>, the tick in
    \<open>LocTimerTick\<close>, requests and answers in \<open>LocTimerReq\<close>.
  \<^item> Serial port: the receive ring and the transmitter of \<open>driver/uart.c\<close> in \<open>Uart\<close>, the check sum
    in \<open>Crc32\<close> (with the bitwise reference and the detection of bursts), the frames and commands of
    \<open>user/iotgo_U2art_schedule.c\<close> in \<open>U2art\<close> and \<open>U2artSpec\<close>.
  \<^item> JSON: values, printing and parsing of \<open>addition/cJSON.c\<close> in \<open>CJson\<close> and \<open>CJsonParse\<close>.  The parser
    runs on a bound; \<open>JsonWf\<close> shows that twice the length of the text and one is enough and that
    trees are well typed, \<open>JsonTrip\<close> that a printed tree parses back.  \<open>user/iotgo_json.c\<close>, the way from
    a tree of the SDK to the text of one of its members, is in \<open>JsonSend\<close>.
  \<^item> Queues: \<open>user/iotgo_queue.c\<close> and \<open>user/iotgo_uart0_send_queue.c\<close> in \<open>SendQueue\<close>: linked lists in an
    explicit heap refine a bounded queue, stated as a locale and interpreted for both.
  \<^item> TCP streams: \<open>addition/Spro.c\<close> in \<open>Spro\<close>.  \<open>SproWs\<close> gives the reference function \<open>ws_chop\<close> that cuts
    a byte sequence into WebSocket frames and shows that a segment is cut as the waiting bytes
    followed by the segment; \<open>SproStream\<close> extends this to streams and shows the overrun of the
    buffer; \<open>SproHttp\<close> treats HTTP messages with a content length.
  \<^item> Network: \<open>Net\<close> holds the state that \<open>user/iotgo_wifi.c\<close> (\<open>Wifi\<close>, \<open>WifiSpec\<close>) and
    \<open>user/iotgo_core.c\<close> (\<open>Core\<close>) share, the message queue of the task included.  Calls of other
    components are recorded in order.  \<open>CoreRetry\<close> has the retry delays, \<open>CoreSpec\<close> the heartbeat, the
    watchdog and the setting modes, \<open>CoreStart\<close> the way from the request to join to the registered
    connection, with a function \<open>answer\<close> for the messages other components post on success.
    The request to the distributor, \<open>user/iotgo_bconn.c\<close>, is in \<open>Bconn\<close>, on top of the packet assembler.
  \<^item> Server connection: \<open>user/iotgo_pconn.c\<close> in \<open>Pconn\<close> (the state and what is sent) and \<open>PconnMsg\<close>
    (what is received).  \<open>PconnFrame\<close> shows that a sent frame is read back, \<open>PconnQueue\<close> and \<open>PconnRun\<close>
    that the queue is sent in order whatever the server does and when a send fails for good,
    \<open>PconnSession\<close> that only authorised messages act, and the whole registration.
  \<^item> Upgrade: \<open>user/iotgo_upgrade.c\<close> in \<open>Upgrade\<close> and \<open>UpgradeReq\<close>; \<open>UpgradeSpec\<close> shows that a complete
    download stores the image, \<open>UpgradeSafe\<close> that only an image with the right check sum is
    recorded, \<open>UpgradeOver\<close> that nothing ties the sectors written to the length of the image.
  \<^item> Flash: \<open>user/iotgo_flash.c\<close> and the device configuration of \<open>user/iotgo_global.c\<close> in \<open>FlashStore\<close>:
    every interruption of a save, in the middle of an operation included, keeps the old or the
    new block.  \<open>Param\<close> has the fields of the parameter block and its bytes.
  \<^item> The factory mode, \<open>user/iotgo_factory.c\<close>, and which program \<open>user_init\<close> of \<open>user/user_main.c\<close> starts, in
    \<open>Factory\<close>; \<open>FactorySpec\<close> follows an identity from the serial port to the next start.
  \<^item> The setting modes, \<open>user/iotgo_setting.c\<close>, in \<open>Setting\<close>, on top of the packet assembler and the
    network task, whose recorded calls of the setting functions are carried out there; \<open>SettingRun\<close>
    has the steps and what they keep, \<open>SettingSpec\<close> the way of a message of the app to the saved
    parameters, the answer and the request to join.
  \<^item> The serial device, \<open>device/FWTRX_TC.c\<close>: its state and settings in \<open>Trans\<close>, the requests of the
    micro controller in \<open>TransReq\<close>, the server and the queue in \<open>TransMsg\<close>; \<open>TransRun\<close> the steps and what
    they keep.  \<open>TransQueue\<close> treats the delivery of messages, \<open>TransConfig\<close> the settings over a restart,
    \<open>TransLimit\<close> the limit of requests, \<open>TransAnswer\<close> the answers, \<open>TransKey\<close> the key, \<open>TransForward\<close> the
    way of an update from the server to the micro controller through parser and printer;
    \<open>TransDemo\<close> has the state the witnesses run on.
  \<^item> The switch, \<open>device/FWSW_01.c\<close>: \<open>Switch\<close>, \<open>SwitchMsg\<close> and \<open>SwitchKey\<close>; \<open>SwitchRun\<close> shows what every step
    keeps, \<open>SwitchSpec\<close> that the relay survives restarts, \<open>SwitchTimer\<close> the way of a timer from the
    message of the server to the relay.  The timers are those of \<open>TimerSched\<close>, whose environment is
    the state of the device.
  \<^item> The status LED, \<open>user/iotgo_sled.c\<close>, in \<open>Sled\<close>, with the pattern of each mode.

  What the lemmas of a theory are for: an invariant and its preservation by each operation
  (\<open>spro_inv\<close>, \<open>uart_rx_inv\<close>, \<open>sched_inv\<close>, \<open>sw_inv\<close>, the representation predicates of the queues), the
  functional effect of each operation on the abstract contents (\<open>contents\<close>, \<open>rx_contents\<close>), and from
  these the properties, which are numbered C1, C2, ... and preceded by their statement in words.
  Loops over tokens end because each turn takes a token; loops whose end depends on their input
  have no result where they do not end.

  Not modelled: the production test \<open>user/iotgo_test.c\<close>; the rest of the entry points
  \<open>user/user_main.c\<close> and \<open>user/sdk_api_impl.c\<close>, which call the other parts once; \<open>addition/sha256.c\<close>,
  which the configuration compiles out; and the code of the SDK, of lwIP and of the examples next to
  the application, which is third-party.
\<close>

end
